(* ===== verification/Sdk_Prelude.thy ===== *)
theory Sdk_Prelude
  imports
    Complex_Main
    "HOL-Library.Word"
    "HOL-Library.Multiset"
    "HOL-Library.AList"
    "HOL-Library.Sublist"
    "HOL-Library.Char_ord"
    "HOL-Library.List_Lexorder"
begin

text \<open>
  Shared vocabulary of the development.

  \<^item> Go's 64-bit signed arithmetic (\<open>int\<close>, \<open>int64\<close>, \<open>time.Duration\<close>): values are
    \<^typ>\<open>int\<close> and every operation that can leave the range is wrapped with \<open>wrap64\<close>.
  \<^item> The functions of package \<open>strings\<close> the SDK uses. A Go string is a sequence of
    bytes, so it is a \<^typ>\<open>string\<close> whose characters are bytes; \<open>TrimSpace\<close>
    strips the UTF-8 encodings of every code point with the White\_Space property.
  \<^item> Go maps that the code iterates over, as association lists with distinct keys, and the
    interface the SDK relies on as the locale \<open>go_map\<close>.
  \<^item> Generic lemmas on lists and the collections of rewrite rules the components share.
\<close>

named_theorems wrap_simps "64-bit wrap-around"
named_theorems go_map_simps "lookup after map updates"

section \<open>Machine integers\<close>

definition int64 :: "int \<Rightarrow> bool" where
  "int64 x \<longleftrightarrow> - (2 ^ 63) \<le> x \<and> x < 2 ^ 63"

definition wrap64 :: "int \<Rightarrow> int" where
  "wrap64 x = (x + 2 ^ 63) mod 2 ^ 64 - 2 ^ 63"

text \<open>\<open>time.Time.Sub\<close> saturates instead of wrapping.\<close>

definition saturate64 :: "int \<Rightarrow> int" where
  "saturate64 d = max (- (2 ^ 63)) (min (2 ^ 63 - 1) d)"

lemma wrap64_int64 [simp]: "int64 (wrap64 x)"
proof -
  have "0 \<le> (x + 2 ^ 63) mod 2 ^ 64 \<and> (x + 2 ^ 63) mod 2 ^ 64 < 2 ^ 64" by simp
  then show ?thesis by (simp add: int64_def wrap64_def)
qed

lemma wrap64_id [wrap_simps]: "int64 x \<Longrightarrow> wrap64 x = x"
  by (simp add: int64_def wrap64_def)

lemma wrap64_add_left [wrap_simps]: "wrap64 (wrap64 x + y) = wrap64 (x + y)"
proof -
  have "((x + 2 ^ 63) mod 2 ^ 64 - 2 ^ 63 + y + 2 ^ 63) mod 2 ^ 64
      = ((x + 2 ^ 63) mod 2 ^ 64 + y) mod (2 ^ 64 :: int)"
    by (simp add: algebra_simps)
  also have "\<dots> = (x + 2 ^ 63 + y) mod 2 ^ 64" by (rule mod_add_left_eq)
  finally show ?thesis by (simp add: wrap64_def algebra_simps)
qed

lemma wrap64_add_right [wrap_simps]: "wrap64 (y + wrap64 x) = wrap64 (y + x)"
  using wrap64_add_left [of x y] by (simp add: add.commute)

lemma wrap64_diff_left [wrap_simps]: "wrap64 (wrap64 x - y) = wrap64 (x - y)"
  using wrap64_add_left [of x "- y"] by simp

lemma doubling_reaches:
  fixes delay maximum :: int
  assumes "0 \<le> delay" "delay \<le> maximum" "\<not> (delay < maximum \<and> delay \<le> maximum div 2)"
  shows "maximum \<le> delay * 2 ^ Suc n"
proof -
  have "delay * 2 \<le> delay * 2 ^ Suc n"
    using assms(1) self_le_power [of 2 "Suc n"] by (intro mult_left_mono) auto
  moreover have "maximum \<le> delay * 2 \<or> delay = maximum" using assms by linarith
  ultimately show ?thesis using assms by linarith
qed

section \<open>Package strings\<close>

text \<open>UTF-8 encodings of the code points for which \<open>unicode.IsSpace\<close> holds.\<close>

definition go_spaces :: "string list" where
  "go_spaces =
     [[CHR 0x09], [CHR 0x0A], [CHR 0x0B], [CHR 0x0C], [CHR 0x0D], [CHR 0x20],
      [CHR 0xC2, CHR 0x85], [CHR 0xC2, CHR 0xA0], [CHR 0xE1, CHR 0x9A, CHR 0x80],
      [CHR 0xE2, CHR 0x80, CHR 0x80], [CHR 0xE2, CHR 0x80, CHR 0x81],
      [CHR 0xE2, CHR 0x80, CHR 0x82], [CHR 0xE2, CHR 0x80, CHR 0x83],
      [CHR 0xE2, CHR 0x80, CHR 0x84], [CHR 0xE2, CHR 0x80, CHR 0x85],
      [CHR 0xE2, CHR 0x80, CHR 0x86], [CHR 0xE2, CHR 0x80, CHR 0x87],
      [CHR 0xE2, CHR 0x80, CHR 0x88], [CHR 0xE2, CHR 0x80, CHR 0x89],
      [CHR 0xE2, CHR 0x80, CHR 0x8A], [CHR 0xE2, CHR 0x80, CHR 0xA8],
      [CHR 0xE2, CHR 0x80, CHR 0xA9], [CHR 0xE2, CHR 0x80, CHR 0xAF],
      [CHR 0xE2, CHR 0x81, CHR 0x9F], [CHR 0xE3, CHR 0x80, CHR 0x80]]"

text \<open>\<open>strip ps s\<close> drops leading members of \<open>ps\<close> from \<open>s\<close> as long as there is one.\<close>

definition next_match :: "string list \<Rightarrow> string \<Rightarrow> nat" where
  "next_match ps s = (case find (\<lambda>p. prefix p s) ps of None \<Rightarrow> 0 | Some p \<Rightarrow> length p)"

lemma next_match_le: "next_match ps s \<le> length s"
  by (auto simp: next_match_def find_Some_iff dest!: prefix_length_le split: option.splits)

function strip :: "string list \<Rightarrow> string \<Rightarrow> string" where
  "strip ps s = (if next_match ps s = 0 then s else strip ps (drop (next_match ps s) s))"
  by pat_completeness auto
termination
proof (relation "measure (\<lambda>(ps, s). length s)", simp)
  fix ps s
  assume "next_match ps s \<noteq> 0"
  with next_match_le [of ps s] have "s \<noteq> []" by auto
  with \<open>next_match ps s \<noteq> 0\<close> show "((ps, drop (next_match ps s) s), (ps, s)) \<in> measure (\<lambda>(ps, s). length s)"
    by simp
qed

declare strip.simps [simp del]

definition TrimSpace :: "string \<Rightarrow> string" where
  "TrimSpace s = rev (strip (map rev go_spaces) (rev (strip go_spaces s)))"

text \<open>\<open>strings.Trim\<close> with a cutset, and \<open>strings.Cut\<close> at a single byte.\<close>

definition Trim :: "string \<Rightarrow> string \<Rightarrow> string" where
  "Trim s cutset =
     rev (dropWhile (\<lambda>c. c \<in> set cutset) (rev (dropWhile (\<lambda>c. c \<in> set cutset) s)))"

definition TrimLeft :: "string \<Rightarrow> string \<Rightarrow> string" where
  "TrimLeft s cutset = dropWhile (\<lambda>c. c \<in> set cutset) s"

definition Cut :: "string \<Rightarrow> char \<Rightarrow> string \<times> string" where
  "Cut s sep = (takeWhile (\<lambda>c. c \<noteq> sep) s, tl (dropWhile (\<lambda>c. c \<noteq> sep) s))"

text \<open>\<open>strings.ToUpper\<close> on ASCII text.\<close>

definition ToUpper :: "string \<Rightarrow> string" where
  "ToUpper s = map (\<lambda>c. if 97 \<le> (of_char c :: nat) \<and> (of_char c :: nat) \<le> 122
                        then char_of (of_char c - 32 :: nat) else c) s"

text \<open>\<open>strings.EqualFold\<close> where one of the texts is ASCII: besides the two cases of a letter only the
  long s and the Kelvin sign fold to an ASCII letter.\<close>

fun fold_case :: "string \<Rightarrow> string" where
  "fold_case [] = []"
| "fold_case (c # rest) =
     (if prefix [char_of (0xC5 :: nat), char_of (0xBF :: nat)] (c # rest) then CHR ''S'' # fold_case (drop 1 rest)
      else if prefix [char_of (0xE2 :: nat), char_of (0x84 :: nat), char_of (0xAA :: nat)] (c # rest)
      then CHR ''K'' # fold_case (drop 2 rest)
      else ToUpper [c] @ fold_case rest)"

definition EqualFold :: "string \<Rightarrow> string \<Rightarrow> bool" where
  "EqualFold s t \<longleftrightarrow> fold_case s = fold_case t"

lemma strip_fixed: "next_match ps (strip ps s) = 0"
proof (induction ps s rule: strip.induct)
  case (1 ps s)
  then show ?case by (subst strip.simps) (auto simp: strip.simps [of ps s])
qed

lemma strip_idem [simp]: "strip ps (strip ps s) = strip ps s"
  by (subst strip.simps) (simp add: strip_fixed)

lemma strip_suffix: "suffix (strip ps s) s"
proof (induction ps s rule: strip.induct)
  case (1 ps s)
  then show ?case
    by (subst strip.simps) (auto intro: suffix_order.trans [OF _ suffix_drop])
qed

lemma strip_length: "length (strip ps s) \<le> length s"
  using strip_suffix suffix_length_le by blast

lemma next_match_0_iff:
  "[] \<notin> set ps \<Longrightarrow> next_match ps s = 0 \<longleftrightarrow> (\<forall>p \<in> set ps. \<not> prefix p s)"
  by (auto simp: next_match_def find_None_iff find_Some_iff split: option.splits)
     (metis nth_mem)+

lemma next_match_0_prefix:
  assumes "[] \<notin> set ps" and "next_match ps s = 0" and "prefix t s"
  shows "next_match ps t = 0"
  using assms by (auto simp: next_match_0_iff dest: prefix_order.trans)

lemma go_spaces_nonempty [simp]: "[] \<notin> set go_spaces" "[] \<notin> set (map rev go_spaces)"
  by (auto simp: go_spaces_def)

lemma TrimSpace_idem [simp]: "TrimSpace (TrimSpace s) = TrimSpace s"
proof -
  define l where "l = strip go_spaces s"
  have fixed: "next_match go_spaces l = 0" by (simp add: l_def strip_fixed)
  have "prefix (rev (strip (map rev go_spaces) (rev l))) l"
    using strip_suffix [of "map rev go_spaces" "rev l"] by (simp add: suffix_to_prefix)
  then have "next_match go_spaces (TrimSpace s) = 0"
    using next_match_0_prefix [OF go_spaces_nonempty(1) fixed]
    by (simp add: TrimSpace_def l_def)
  then have "strip go_spaces (TrimSpace s) = TrimSpace s" by (subst strip.simps) simp
  then show ?thesis by (simp add: TrimSpace_def)
qed

lemma TrimSpace_Nil [simp]: "TrimSpace [] = []"
  by (simp add: TrimSpace_def strip.simps next_match_def go_spaces_def)

text \<open>Texts that begin and end with a visible ASCII character have nothing to trim.\<close>

definition visible_char :: "char \<Rightarrow> bool" where
  "visible_char c \<longleftrightarrow> 33 \<le> (of_char c :: nat) \<and> (of_char c :: nat) < 127"

lemma strip_visible:
  assumes "list_all (\<lambda>p. p \<noteq> [] \<and> \<not> visible_char (hd p)) ps" "s = [] \<or> visible_char (hd s)"
  shows "strip ps s = s"
proof -
  have "\<not> prefix p s" if "p \<in> set ps" for p
    using assms that by (cases p; cases s) (auto simp: list_all_iff)
  then have "next_match ps s = 0" using assms(1) by (auto simp: next_match_0_iff list_all_iff)
  then show ?thesis by (subst strip.simps) simp
qed

lemma go_spaces_invisible:
  "list_all (\<lambda>p. p \<noteq> [] \<and> \<not> visible_char (hd p)) go_spaces"
  "list_all (\<lambda>p. p \<noteq> [] \<and> \<not> visible_char (hd p)) (map rev go_spaces)"
  by (simp_all add: go_spaces_def visible_char_def)

lemma TrimSpace_visible: "s \<noteq> [] \<Longrightarrow> visible_char (hd s) \<Longrightarrow> visible_char (last s) \<Longrightarrow> TrimSpace s = s"
  using strip_visible [OF go_spaces_invisible(1), of s] strip_visible [OF go_spaces_invisible(2), of "rev s"]
  by (simp add: TrimSpace_def hd_rev)

lemma Trim_empty_iff: "Trim s cutset = [] \<longleftrightarrow> set s \<subseteq> set cutset"
proof -
  have "Trim s cutset = [] \<longleftrightarrow> set (dropWhile (\<lambda>c. c \<in> set cutset) s) \<subseteq> set cutset"
    by (auto simp: Trim_def dropWhile_eq_Nil_conv)
  also have "\<dots> \<longleftrightarrow> set s \<subseteq> set cutset" by (induction s) auto
  finally show ?thesis .
qed

section \<open>Go maps that are iterated\<close>

text \<open>
  The contract of a Go map as the SDK uses it: lookup, assignment and \<open>delete\<close>, with the
  iteration \<open>entries\<close> producing every binding exactly once.
\<close>

locale go_map =
  fixes empty :: "'m"
    and get :: "'m \<Rightarrow> 'k \<Rightarrow> 'v option"
    and put :: "'k \<Rightarrow> 'v \<Rightarrow> 'm \<Rightarrow> 'm"
    and del :: "'k \<Rightarrow> 'm \<Rightarrow> 'm"
    and entries :: "'m \<Rightarrow> ('k \<times> 'v) list"
    and wf :: "'m \<Rightarrow> bool"
  assumes wf_empty: "wf empty"
    and wf_put: "wf m \<Longrightarrow> wf (put k v m)"
    and wf_del: "wf m \<Longrightarrow> wf (del k m)"
    and get_empty: "get empty k = None"
    and get_put: "get (put k v m) k' = (if k' = k then Some v else get m k')"
    and get_del: "get (del k m) k' = (if k' = k then None else get m k')"
    and entries_distinct: "wf m \<Longrightarrow> distinct (map fst (entries m))"
    and entries_get: "wf m \<Longrightarrow> (k, v) \<in> set (entries m) \<longleftrightarrow> get m k = Some v"
begin

lemma get_put_same: "get (put k v m) k = Some v"
  by (simp add: get_put)

lemma get_put_put: "get (put k v (put k w m)) = get (put k v m)"
  by (auto simp: get_put fun_eq_iff)

lemma get_del_put: "get (del k (put k v m)) = get (del k m)"
  by (auto simp: get_put get_del fun_eq_iff)

lemma entries_complete:
  "wf m \<Longrightarrow> set (entries m) = {(k, v). get m k = Some v}"
  by (auto simp: entries_get)

lemma entries_put_value:
  "wf m \<Longrightarrow> (k', v') \<in> set (entries (put k v m)) \<longleftrightarrow>
     (if k' = k then v' = v else (k', v') \<in> set (entries m))"
  by (auto simp: entries_get wf_put get_put)

lemma entries_del_value:
  "wf m \<Longrightarrow> (k', v') \<in> set (entries (del k m)) \<longleftrightarrow> k' \<noteq> k \<and> (k', v') \<in> set (entries m)"
  by (auto simp: entries_get wf_del get_del)

end

type_synonym ('k, 'v) gomap = "('k \<times> 'v) list"

interpretation alist_map: go_map "[]" map_of AList.update AList.delete "\<lambda>m. m" "\<lambda>m. distinct (map fst m)"
proof unfold_locales
  fix k k' v and m :: "('a \<times> 'b) list"
  show "map_of (AList.update k v m) k' = (if k' = k then Some v else map_of m k')"
    by (simp add: update_conv')
  show "map_of (AList.delete k m) k' = (if k' = k then None else map_of m k')"
    by (simp add: delete_conv')
qed (auto simp: distinct_update distinct_delete)

lemmas gomap_get [go_map_simps] = alist_map.get_put alist_map.get_del

lemma update_fresh: "k \<notin> fst ` set m \<Longrightarrow> AList.update k v m = m @ [(k, v)]"
  by (induction m) auto

section \<open>Lists\<close>

lemma sum_list_filter_mono:
  fixes f :: "'a \<Rightarrow> int"
  assumes "\<And>x. x \<in> set xs \<Longrightarrow> 0 \<le> f x" and "\<And>x. x \<in> set xs \<Longrightarrow> P x \<Longrightarrow> Q x"
  shows "sum_list (map f (filter P xs)) \<le> sum_list (map f (filter Q xs))"
  using assms
proof (induction xs)
  case (Cons x xs)
  then have IH: "sum_list (map f (filter P xs)) \<le> sum_list (map f (filter Q xs))"
    by simp
  from Cons.prems have "0 \<le> f x" "P x \<Longrightarrow> Q x" by auto
  with IH show ?case by auto
qed simp

lemma sorted_filter_dropWhile:
  fixes f :: "'a \<Rightarrow> 'b::linorder"
  assumes "sorted (map f xs)"
  shows "dropWhile (\<lambda>x. f x \<le> c) xs = filter (\<lambda>x. c < f x) xs"
  using assms
proof (induction xs)
  case (Cons x xs)
  then show ?case by (auto intro!: filter_True [symmetric])
qed simp

lemma filter_sum_list_split:
  fixes f :: "'a \<Rightarrow> int"
  shows "sum_list (map f (filter P xs)) + sum_list (map f (filter (\<lambda>x. \<not> P x) xs)) = sum_list (map f xs)"
  by (induction xs) auto

lemma take_sort_key_le:
  assumes "x \<in> set (take n (sort_key f xs))" and "y \<in> set xs" and "y \<notin> set (take n (sort_key f xs))"
  shows "f x \<le> f y"
proof -
  let ?s = "sort_key f xs"
  have "sorted (map f (take n ?s @ drop n ?s))" by simp
  then have "\<forall>a \<in> set (take n ?s). \<forall>b \<in> set (drop n ?s). f a \<le> f b"
    by (simp only: map_append sorted_append) auto
  moreover have "y \<in> set (drop n ?s)"
    using assms(2,3) by (metis UnE append_take_drop_id set_append set_sort)
  ultimately show ?thesis using assms(1) by blast
qed

end
