(* ===== verification/Go_Decimal.thy ===== *)
theory Go_Decimal
  imports Sdk_Prelude
begin

text \<open>
  Decimal strings and exact rationals. The SDK never converts a price or a quantity to
  floating point: it checks the text against \<open>^[0-9]+(?:\.[0-9]+)?$\<close>, parses it with
  \<open>math/big\<close>, and keys its order books by \<open>Rat.RatString\<close>. This theory holds the
  pattern, the decimal reading of a digit string and its printing (with the round trip),
  \<open>Rat.SetString\<close> on strings that match the pattern, and \<open>Rat.RatString\<close> with the proof
  that equal keys mean equal prices.
\<close>

section \<open>Characters and patterns\<close>

definition digit_char :: "char \<Rightarrow> bool" where
  "digit_char c \<longleftrightarrow> 48 \<le> (of_char c :: nat) \<and> (of_char c :: nat) \<le> 57"

definition upper_char :: "char \<Rightarrow> bool" where
  "upper_char c \<longleftrightarrow> 65 \<le> (of_char c :: nat) \<and> (of_char c :: nat) \<le> 90"

text \<open>\<open>^[A-Z0-9]+$\<close>\<close>

definition assetPattern :: "string \<Rightarrow> bool" where
  "assetPattern s \<longleftrightarrow> s \<noteq> [] \<and> list_all (\<lambda>c. upper_char c \<or> digit_char c) s"

text \<open>\<open>^[0-9]+(?:\.[0-9]+)?$\<close>\<close>

definition positiveDecimalPattern :: "string \<Rightarrow> bool" where
  "positiveDecimalPattern s \<longleftrightarrow>
     takeWhile digit_char s \<noteq> [] \<and>
     (case dropWhile digit_char s of
        [] \<Rightarrow> True
      | c # f \<Rightarrow> c = CHR ''.'' \<and> f \<noteq> [] \<and> list_all digit_char f)"

section \<open>Digit strings\<close>

definition digit_val :: "char \<Rightarrow> nat" where
  "digit_val c = of_char c - 48"

definition dec_value :: "string \<Rightarrow> nat" where
  "dec_value s = foldl (\<lambda>a c. 10 * a + digit_val c) 0 s"

fun nat_str :: "nat \<Rightarrow> string" where
  "nat_str n = (if n < 10 then [char_of (48 + n)] else nat_str (n div 10) @ [char_of (48 + n mod 10)])"

declare nat_str.simps [simp del]

definition int_str :: "int \<Rightarrow> string" where
  "int_str i = (if i < 0 then CHR ''-'' # nat_str (nat (- i)) else nat_str (nat i))"

text \<open>\<open>strconv.Atoi\<close>: an optional sign, at least one digit, and a value that fits in 64 bits.\<close>

definition Atoi :: "string \<Rightarrow> int option" where
  "Atoi s =
     (let neg = (s \<noteq> [] \<and> hd s = CHR ''-'');
          digits = (if s \<noteq> [] \<and> (hd s = CHR ''-'' \<or> hd s = CHR ''+'') then tl s else s);
          n = (if neg then - int (dec_value digits) else int (dec_value digits))
      in if digits = [] \<or> \<not> list_all digit_char digits \<or> \<not> int64 n then None else Some n)"

lemma dot_not_digit [simp]: "\<not> digit_char CHR ''.''" "\<not> digit_char CHR ''/''" "\<not> digit_char CHR ''-''"
  by (simp_all add: digit_char_def)

lemma foldl_dec: "foldl (\<lambda>a c. 10 * a + digit_val c) k s = k * 10 ^ length s + dec_value s"
proof (induction s arbitrary: k)
  case (Cons c s)
  from Cons [of "10 * k + digit_val c"] Cons [of "digit_val c"] show ?case
    by (simp add: dec_value_def algebra_simps)
qed (simp add: dec_value_def)

lemma dec_value_Nil [simp]: "dec_value [] = 0"
  by (simp add: dec_value_def)

lemma dec_value_Cons: "dec_value (c # s) = digit_val c * 10 ^ length s + dec_value s"
  using foldl_dec [of "digit_val c" s] by (simp add: dec_value_def)

lemma dec_value_append: "dec_value (s @ t) = dec_value s * 10 ^ length t + dec_value t"
  by (induction s) (auto simp: dec_value_Cons power_add algebra_simps)

lemma of_char_48: "n < 10 \<Longrightarrow> of_char (char_of (48 + n) :: char) = 48 + n"
  for n :: nat
  by simp

lemma digit_char_of [simp]: "n < 10 \<Longrightarrow> digit_char (char_of (48 + n))" for n :: nat
  by (simp add: digit_char_def)

lemma digit_val_of [simp]: "n < 10 \<Longrightarrow> digit_val (char_of (48 + n)) = n" for n :: nat
  by (simp add: digit_val_def)

lemma digit_val_less: "digit_char c \<Longrightarrow> digit_val c < 10"
  by (auto simp: digit_char_def digit_val_def)

lemma dec_value_zeros [simp]: "dec_value (replicate n CHR ''0'') = 0"
  by (induction n) (auto simp: dec_value_Cons digit_val_def)

lemma dec_nat_str: "dec_value (nat_str n) = n"
proof (induction n rule: nat_str.induct)
  case (1 n)
  show ?case
  proof (cases "n < 10")
    case True
    then show ?thesis
      by (subst nat_str.simps) (simp add: dec_value_Cons)
  next
    case False
    then have "dec_value (nat_str n) = dec_value (nat_str (n div 10)) * 10 + n mod 10"
      by (subst nat_str.simps) (simp add: dec_value_append dec_value_Cons)
    with 1 False show ?thesis by simp
  qed
qed

lemma nat_str_digits: "list_all digit_char (nat_str n)"
proof (induction n rule: nat_str.induct)
  case (1 n)
  then show ?case by (subst nat_str.simps) auto
qed

lemma nat_str_char: "c \<in> set (nat_str n) \<Longrightarrow> digit_char c"
  using nat_str_digits [of n] by (simp add: list_all_iff)

lemma nat_str_nonempty [simp]: "nat_str n \<noteq> []"
  by (subst nat_str.simps) simp

lemma nat_str_inj: "nat_str m = nat_str n \<Longrightarrow> m = n"
  by (metis dec_nat_str)

lemma nat_str_hd_not_minus: "nat_str n = c # s \<Longrightarrow> c \<noteq> CHR ''-''"
  using nat_str_digits [of n] by auto

lemma int_str_inj: "int_str i = int_str j \<Longrightarrow> i = j"
  by (auto simp: int_str_def split: if_splits
      dest!: nat_str_inj nat_str_hd_not_minus [OF sym] nat_str_hd_not_minus)

lemma dec_value_0_iff:
  "list_all digit_char s \<Longrightarrow> dec_value s = 0 \<longleftrightarrow> set s \<subseteq> {CHR ''0''}"
proof (induction s)
  case (Cons c s)
  have "digit_val c = 0 \<longleftrightarrow> c = CHR ''0''" if "digit_char c"
  proof
    assume "digit_val c = 0"
    with that have "of_char c = (48 :: nat)" by (auto simp: digit_val_def digit_char_def)
    also have "48 = of_char CHR ''0''" by simp
    finally show "c = CHR ''0''" by (simp only: of_char_eq_iff)
  qed (simp add: digit_val_def)
  with Cons show ?case by (auto simp: dec_value_Cons)
qed simp

section \<open>Decimal strings as rationals\<close>

definition decimal_value :: "string \<Rightarrow> rat" where
  "decimal_value s = (case Cut s CHR ''.'' of (w, f) \<Rightarrow> of_nat (dec_value (w @ f)) / 10 ^ length f)"

text \<open>
  \<open>(*big.Rat).SetString\<close>, used by the SDK only on strings that already match the pattern;
  with a fractional point allowed, a leading zero does not select base 8.
\<close>

definition Rat_SetString :: "string \<Rightarrow> rat option" where
  "Rat_SetString s = (if positiveDecimalPattern s then Some (decimal_value s) else None)"

definition Rat_RatString :: "rat \<Rightarrow> string" where
  "Rat_RatString r = (case quotient_of r of (a, b) \<Rightarrow>
     if b = 1 then int_str a else int_str a @ ''/'' @ int_str b)"

lemma positiveDecimalPattern_cases:
  assumes "positiveDecimalPattern s"
  obtains (int) "list_all digit_char s" "s \<noteq> []"
  | (frac) w f where "s = w @ CHR ''.'' # f" "list_all digit_char w" "w \<noteq> []"
      "list_all digit_char f" "f \<noteq> []"
proof (cases "dropWhile digit_char s")
  case Nil
  then have "list_all digit_char s" by (simp add: list_all_iff)
  moreover from assms have "s \<noteq> []" by (auto simp: positiveDecimalPattern_def)
  ultimately show ?thesis by (rule int)
next
  case (Cons c f)
  have "s = takeWhile digit_char s @ dropWhile digit_char s" by simp
  with Cons assms show ?thesis
    by (intro frac [of "takeWhile digit_char s" f])
       (auto simp: positiveDecimalPattern_def list_all_iff dest: set_takeWhileD)
qed

lemma positiveDecimalPattern_int [intro]:
  "list_all digit_char s \<Longrightarrow> s \<noteq> [] \<Longrightarrow> positiveDecimalPattern s"
  by (auto simp: positiveDecimalPattern_def list_all_iff takeWhile_eq_all_conv [THEN iffD2]
      dropWhile_eq_Nil_conv [THEN iffD2])

lemma positiveDecimalPattern_frac [intro]:
  assumes "list_all digit_char w" "w \<noteq> []" "list_all digit_char f" "f \<noteq> []"
  shows "positiveDecimalPattern (w @ CHR ''.'' # f)"
proof -
  have "takeWhile digit_char (w @ CHR ''.'' # f) = w"
    and "dropWhile digit_char (w @ CHR ''.'' # f) = CHR ''.'' # f"
    using assms(1) by (auto simp: list_all_iff takeWhile_append dropWhile_append)
  with assms show ?thesis by (simp add: positiveDecimalPattern_def)
qed

lemma digits_no_dot: "list_all digit_char s \<Longrightarrow> c \<in> set s \<Longrightarrow> c \<noteq> CHR ''.''"
  by (auto simp: list_all_iff)

lemma Cut_int: "list_all digit_char s \<Longrightarrow> Cut s CHR ''.'' = (s, [])"
proof -
  assume "list_all digit_char s"
  then have "\<forall>c \<in> set s. c \<noteq> CHR ''.''" by (blast dest: digits_no_dot)
  then show ?thesis
    by (simp add: Cut_def takeWhile_eq_all_conv [THEN iffD2] dropWhile_eq_Nil_conv [THEN iffD2])
qed

lemma Cut_frac:
  assumes "list_all digit_char w"
  shows "Cut (w @ CHR ''.'' # f) CHR ''.'' = (w, f)"
proof -
  from assms have "\<forall>c \<in> set w. c \<noteq> CHR ''.''" by (blast dest: digits_no_dot)
  then show ?thesis by (simp add: Cut_def takeWhile_append dropWhile_append)
qed

lemma decimal_value_int: "list_all digit_char s \<Longrightarrow> decimal_value s = of_nat (dec_value s)"
  by (simp add: decimal_value_def Cut_int)

lemma decimal_value_frac:
  "list_all digit_char w \<Longrightarrow> decimal_value (w @ CHR ''.'' # f) = of_nat (dec_value (w @ f)) / 10 ^ length f"
  by (simp add: decimal_value_def Cut_frac)

lemma decimal_value_nonneg: "0 \<le> decimal_value s"
  by (simp add: decimal_value_def split: prod.split)

text \<open>
  The textual test \<open>strings.Trim(value, "0.") == ""\<close> that the SDK uses for zero agrees with
  the numeric value of every string the pattern accepts.
\<close>

lemma Trim_zero_iff:
  assumes "positiveDecimalPattern s"
  shows "Trim s ''0.'' = [] \<longleftrightarrow> decimal_value s = 0"
  using assms
proof (cases rule: positiveDecimalPattern_cases)
  case int
  then have "set s \<subseteq> {CHR ''0'', CHR ''.''} \<longleftrightarrow> set s \<subseteq> {CHR ''0''}"
    by (auto dest: digits_no_dot)
  with int show ?thesis by (simp add: Trim_empty_iff decimal_value_int dec_value_0_iff)
next
  case (frac w f)
  then have "set s \<subseteq> {CHR ''0'', CHR ''.''} \<longleftrightarrow> set (w @ f) \<subseteq> {CHR ''0''}"
    by (auto dest: digits_no_dot)
  with frac show ?thesis
    by (simp add: Trim_empty_iff decimal_value_frac dec_value_0_iff)
qed

lemma Trim_zero_pos:
  "positiveDecimalPattern s \<Longrightarrow> Trim s ''0.'' \<noteq> [] \<longleftrightarrow> 0 < decimal_value s"
  using Trim_zero_iff [of s] decimal_value_nonneg [of s] by linarith

lemma int_str_no_slash: "CHR ''/'' \<notin> set (int_str i)"
  by (auto simp: int_str_def dest: nat_str_char)

lemma append_slash_inj:
  assumes "CHR ''/'' \<notin> set a" "CHR ''/'' \<notin> set c" "a @ CHR ''/'' # b = c @ CHR ''/'' # d"
  shows "a = c \<and> b = d"
  using assms by (induction a arbitrary: c) (auto simp: Cons_eq_append_conv append_eq_Cons_conv)

text \<open>Two prices have the same map key exactly when they are the same number.\<close>

lemma Rat_RatString_inj: "Rat_RatString r = Rat_RatString q \<longleftrightarrow> r = q"
proof
  assume eq: "Rat_RatString r = Rat_RatString q"
  obtain a b where ab: "quotient_of r = (a, b)" by fastforce
  obtain c d where cd: "quotient_of q = (c, d)" by fastforce
  have slash: "int_str i \<noteq> int_str j @ CHR ''/'' # t" for i j t
    using int_str_no_slash [of i] by (metis in_set_conv_decomp)
  have "a = c \<and> b = d"
    using eq slash slash [symmetric]
    by (auto simp: Rat_RatString_def ab cd split: if_splits
        dest!: append_slash_inj [OF int_str_no_slash int_str_no_slash] int_str_inj)
  then show "r = q" using ab cd by (simp add: quotient_of_inject)
qed simp

end
