(* ===== verification/Trade_Core.thy ===== *)
theory Trade_Core
  imports Go_Decimal
begin

text \<open>
  The root package \<open>trade\<close>: error values (\<open>errors.go\<close>), request options
  (\<open>options.go\<close>), and the exchange identifiers of package \<open>model\<close>.

  A Go error value is a tree: sentinels are the leaves, and \<open>fmt.Errorf\<close> with \<open>%w\<close>,
  \<open>APIError\<close>, \<open>transport.RequestError\<close>, \<open>stream.HandshakeError\<close>, the stream
  wrappers and \<open>url.Error\<close> are inner nodes whose children are what \<open>Unwrap\<close> returns.
  \<open>errors.Is\<close> and \<open>errors.As\<close> are the depth-first searches of the standard library.
  The text a format string renders to is not modelled: an error built by \<open>fmt.Errorf\<close>
  carries its format, its arguments and the errors it wraps.
\<close>

named_theorems error_simps "errors.Is and errors.As on the SDK's error values"

section \<open>Identifiers and error categories\<close>

type_synonym ExchangeID = string
type_synonym EgressRouteID = string
type_synonym ErrorCategory = string

definition ExchangeID_Valid :: "ExchangeID \<Rightarrow> bool" where
  "ExchangeID_Valid ex \<longleftrightarrow> TrimSpace ex \<noteq> []"

abbreviation ErrorAuthentication :: ErrorCategory where "ErrorAuthentication \<equiv> ''AUTHENTICATION''"
abbreviation ErrorAuthorization :: ErrorCategory where "ErrorAuthorization \<equiv> ''AUTHORIZATION''"
abbreviation ErrorValidation :: ErrorCategory where "ErrorValidation \<equiv> ''VALIDATION''"
abbreviation ErrorInsufficientBalance :: ErrorCategory where
  "ErrorInsufficientBalance \<equiv> ''INSUFFICIENT_BALANCE''"
abbreviation ErrorOrderNotFound :: ErrorCategory where "ErrorOrderNotFound \<equiv> ''ORDER_NOT_FOUND''"
abbreviation ErrorRateLimited :: ErrorCategory where "ErrorRateLimited \<equiv> ''RATE_LIMITED''"
abbreviation ErrorNetwork :: ErrorCategory where "ErrorNetwork \<equiv> ''NETWORK''"
abbreviation ErrorTimeout :: ErrorCategory where "ErrorTimeout \<equiv> ''TIMEOUT''"
abbreviation ErrorUnknownExecutionState :: ErrorCategory where
  "ErrorUnknownExecutionState \<equiv> ''UNKNOWN_EXECUTION_STATE''"
abbreviation ErrorExchangeUnavailable :: ErrorCategory where
  "ErrorExchangeUnavailable \<equiv> ''EXCHANGE_UNAVAILABLE''"
abbreviation ErrorUnsupportedCapability :: ErrorCategory where
  "ErrorUnsupportedCapability \<equiv> ''UNSUPPORTED_CAPABILITY''"
abbreviation ErrorInternal :: ErrorCategory where "ErrorInternal \<equiv> ''INTERNAL''"

section \<open>Error values\<close>

datatype sentinel =
    ErrAuthentication | ErrAuthorization | ErrValidation | ErrInsufficientBalance
  | ErrOrderNotFound | ErrRateLimited | ErrNetwork | ErrTimeout
  | ErrUnknownExecutionState | ErrExchangeUnavailable | ErrUnsupportedCapability | ErrInternal
  | ErrMissingEgressRoute | ErrInvalidRequestOption
  | ErrInvalidDescriptor | ErrEgressRouteNotAllowed | ErrPermissionNotAllowed
  | ErrInvalidEgressRoute | ErrUnknownEgressRoute | ErrLocalAddressUnavailable
  | ErrRegistryClosed | ErrPublicIPMismatch
  | ErrInvalidRule | ErrUnknownRule
  | ErrNotConnected | ErrSessionClosed | ErrSessionAlreadyRun | ErrReconnectRequested
  | ErrDepthBufferOverflow | ErrTradeSmokeFailed | ErrReadSmokeFailed
  | ContextCanceled | ContextDeadlineExceeded

text \<open>
  The arguments of a format string: strings, numbers, IP addresses and nested formats. An error
  formatted with \<open>%v\<close> contributes its text only; the text is not kept.
\<close>

datatype go_arg = StrArg string | IntArg int | IPArg "8 word list option" | FormatArg string "go_arg list"

datatype 'e APIError = APIError
  (ae_Category: ErrorCategory) (ae_Exchange: ExchangeID) (ae_AccountID: string)
  (ae_RequestID: string) (ae_Retryable: bool) (ae_HTTPStatus: int)
  (ae_ExchangeCode: string) (ae_ExchangeMessage: string) (ae_Cause: "'e option")

datatype go_error =
    Sentinel sentinel
  | Errorf string "go_arg list" "go_error list"
  | ErrAPI "go_error APIError"
  | RequestError EgressRouteID go_error
  | URLError string go_error
  | HandshakeError int string string go_error
  | PermanentError go_error
  | ReconnectMessageError go_error
  | EvidenceError string
  | StreamAuthError ExchangeID string
  | ForeignError string

type_synonym 'a result = "go_error + 'a"

abbreviation errorText :: "string \<Rightarrow> go_error" where "errorText s \<equiv> Errorf s [] []"

definition validationError :: "string \<Rightarrow> go_arg list \<Rightarrow> go_error" where
  "validationError format values = Errorf ''%w: %s'' [FormatArg format values] [Sentinel ErrValidation]"

definition UnsupportedCapabilityError :: "ExchangeID \<Rightarrow> string \<Rightarrow> go_arg list \<Rightarrow> go_error" where
  "UnsupportedCapabilityError exchange format values =
     ErrAPI (APIError ErrorUnsupportedCapability exchange [] [] False 0 [] []
       (Some (Errorf ''%w: %s'' [FormatArg format values] [Sentinel ErrUnsupportedCapability])))"

definition sentinelForCategory :: "ErrorCategory \<Rightarrow> sentinel option" where
  "sentinelForCategory category =
     (if category = ErrorAuthentication then Some ErrAuthentication
      else if category = ErrorAuthorization then Some ErrAuthorization
      else if category = ErrorValidation then Some ErrValidation
      else if category = ErrorInsufficientBalance then Some ErrInsufficientBalance
      else if category = ErrorOrderNotFound then Some ErrOrderNotFound
      else if category = ErrorRateLimited then Some ErrRateLimited
      else if category = ErrorNetwork then Some ErrNetwork
      else if category = ErrorTimeout then Some ErrTimeout
      else if category = ErrorUnknownExecutionState then Some ErrUnknownExecutionState
      else if category = ErrorExchangeUnavailable then Some ErrExchangeUnavailable
      else if category = ErrorUnsupportedCapability then Some ErrUnsupportedCapability
      else if category = ErrorInternal then Some ErrInternal
      else None)"

definition safeToRenderCause :: "go_error APIError \<Rightarrow> bool" where
  "safeToRenderCause a \<longleftrightarrow>
     ae_Category a = ErrorValidation \<or> ae_Category a = ErrorUnsupportedCapability"

text \<open>\<open>(*APIError).Error\<close>; \<open>render\<close> is the \<open>Error\<close> method of the cause.\<close>

fun APIError_Error :: "(go_error \<Rightarrow> string) \<Rightarrow> go_error APIError option \<Rightarrow> string" where
  "APIError_Error render None = ''<nil>''"
| "APIError_Error render (Some a) =
     (let message = ae_Exchange a @ '' request failed'';
          message = (if ae_ExchangeCode a \<noteq> [] then message @ '' with code '' @ ae_ExchangeCode a else message);
          message = (if ae_ExchangeMessage a \<noteq> [] then message @ '': '' @ ae_ExchangeMessage a else message)
      in case ae_Cause a of
           Some c \<Rightarrow>
             if ae_ExchangeMessage a = [] \<and> safeToRenderCause a then message @ '': '' @ render c
             else if ae_ExchangeMessage a = [] \<and> ae_Category a \<noteq> [] then message @ '': '' @ ae_Category a
             else message
         | None \<Rightarrow>
             if ae_ExchangeMessage a = [] \<and> ae_Category a \<noteq> [] then message @ '': '' @ ae_Category a
             else message)"

definition APIError_Unwrap :: "go_error APIError \<Rightarrow> go_error list" where
  "APIError_Unwrap a =
     (case sentinelForCategory (ae_Category a) of Some s \<Rightarrow> [Sentinel s] | None \<Rightarrow> []) @
     (case ae_Cause a of Some c \<Rightarrow> [c] | None \<Rightarrow> [])"

fun Unwrap :: "go_error \<Rightarrow> go_error list" where
  "Unwrap (Sentinel s) = []"
| "Unwrap (Errorf f args ws) = ws"
| "Unwrap (ErrAPI a) = APIError_Unwrap a"
| "Unwrap (RequestError r c) = [c]"
| "Unwrap (URLError u c) = [c]"
| "Unwrap (HandshakeError st ra rid c) = [c]"
| "Unwrap (PermanentError c) = [c]"
| "Unwrap (ReconnectMessageError c) = [c]"
| "Unwrap (EvidenceError r) = []"
| "Unwrap (StreamAuthError ex m) = []"
| "Unwrap (ForeignError s) = []"

text \<open>
  \<open>errors.Is\<close> for a sentinel and \<open>errors.As\<close> for the SDK's error types: the error itself
  first, then what it unwraps to, depth first.
\<close>

fun errors_Is :: "sentinel \<Rightarrow> go_error \<Rightarrow> bool" where
  "errors_Is t (Sentinel s) = (s = t)"
| "errors_Is t (Errorf f args ws) = list_ex (errors_Is t) ws"
| "errors_Is t (ErrAPI (APIError cat ex acc rid re st code msg cause)) =
     (sentinelForCategory cat = Some t \<or> (case cause of Some c \<Rightarrow> errors_Is t c | None \<Rightarrow> False))"
| "errors_Is t (RequestError r c) = errors_Is t c"
| "errors_Is t (URLError u c) = errors_Is t c"
| "errors_Is t (HandshakeError st ra rid c) = errors_Is t c"
| "errors_Is t (PermanentError c) = errors_Is t c"
| "errors_Is t (ReconnectMessageError c) = errors_Is t c"
| "errors_Is t (EvidenceError r) = False"
| "errors_Is t (StreamAuthError ex m) = False"
| "errors_Is t (ForeignError s) = False"

text \<open>
  The pre-order list of the nodes of an error tree: \<open>errors.As\<close> returns the first node of
  the wanted type.
\<close>

fun error_nodes :: "go_error \<Rightarrow> go_error list" where
  "error_nodes (Sentinel s) = [Sentinel s]"
| "error_nodes (Errorf f args ws) = Errorf f args ws # concat (map error_nodes ws)"
| "error_nodes (ErrAPI (APIError cat ex acc rid re st code msg cause)) =
     ErrAPI (APIError cat ex acc rid re st code msg cause) #
     (case sentinelForCategory cat of Some s \<Rightarrow> [Sentinel s] | None \<Rightarrow> []) @
     (case cause of Some c \<Rightarrow> error_nodes c | None \<Rightarrow> [])"
| "error_nodes (RequestError r c) = RequestError r c # error_nodes c"
| "error_nodes (URLError u c) = URLError u c # error_nodes c"
| "error_nodes (HandshakeError st ra rid c) = HandshakeError st ra rid c # error_nodes c"
| "error_nodes (PermanentError c) = PermanentError c # error_nodes c"
| "error_nodes (ReconnectMessageError c) = ReconnectMessageError c # error_nodes c"
| "error_nodes (EvidenceError r) = [EvidenceError r]"
| "error_nodes (StreamAuthError ex m) = [StreamAuthError ex m]"
| "error_nodes (ForeignError s) = [ForeignError s]"

fun first_API :: "go_error list \<Rightarrow> go_error APIError option" where
  "first_API [] = None"
| "first_API (ErrAPI a # es) = Some a"
| "first_API (_ # es) = first_API es"

definition errors_As_API :: "go_error \<Rightarrow> go_error APIError option" where
  "errors_As_API e = first_API (error_nodes e)"

lemma errors_As_API_self [error_simps]: "errors_As_API (ErrAPI a) = Some a"
  by (cases a) (simp add: errors_As_API_def)

lemma errors_Is_nodes: "errors_Is t e \<longleftrightarrow> Sentinel t \<in> set (error_nodes e)"
  by (induction t e rule: errors_Is.induct) (auto simp: list_ex_iff split: option.splits)

lemma errors_Is_API [error_simps]:
  "errors_Is t (ErrAPI a) \<longleftrightarrow>
     sentinelForCategory (ae_Category a) = Some t \<or> (\<exists>c. ae_Cause a = Some c \<and> errors_Is t c)"
  by (cases a) (auto split: option.splits)

lemma errors_Is_validationError [error_simps]: "errors_Is t (validationError f vs) \<longleftrightarrow> t = ErrValidation"
  by (auto simp: validationError_def)

section \<open>Request options\<close>

record RequestOptions =
  ro_EgressRouteID :: EgressRouteID
  ro_Timeout :: int

type_synonym RequestOption = "RequestOptions \<Rightarrow> RequestOptions result"

definition WithEgressRoute :: "EgressRouteID \<Rightarrow> RequestOption" where
  "WithEgressRoute routeID options =
     (let cleanRouteID = TrimSpace routeID
      in if cleanRouteID = []
         then Inl (Errorf ''%w: egress route ID is empty'' [] [Sentinel ErrInvalidRequestOption])
         else Inr (options\<lparr>ro_EgressRouteID := cleanRouteID\<rparr>))"

definition WithTimeout :: "int \<Rightarrow> RequestOption" where
  "WithTimeout timeout options =
     (if timeout \<le> 0
      then Inl (Errorf ''%w: timeout must be positive'' [] [Sentinel ErrInvalidRequestOption])
      else Inr (options\<lparr>ro_Timeout := timeout\<rparr>))"

text \<open>The loop over the functional options; \<open>None\<close> is a nil option.\<close>

fun apply_options :: "nat \<Rightarrow> RequestOption option list \<Rightarrow> RequestOptions \<Rightarrow> RequestOptions result" where
  "apply_options index [] resolved = Inr resolved"
| "apply_options index (None # rest) resolved =
     Inl (Errorf ''%w: option %d is nil'' [IntArg (int index)] [Sentinel ErrInvalidRequestOption])"
| "apply_options index (Some apply # rest) resolved =
     (case apply resolved of
        Inl err \<Rightarrow> Inl err
      | Inr resolved' \<Rightarrow> apply_options (Suc index) rest resolved')"

definition ResolveRequestOptions ::
  "EgressRouteID \<Rightarrow> RequestOption option list \<Rightarrow> RequestOptions result" where
  "ResolveRequestOptions defaultRouteID requestOptions =
     (case apply_options 0 requestOptions
             \<lparr>ro_EgressRouteID = TrimSpace defaultRouteID, ro_Timeout = 0\<rparr> of
        Inl err \<Rightarrow> Inl err
      | Inr resolved \<Rightarrow>
          if TrimSpace (ro_EgressRouteID resolved) = [] then Inl (Sentinel ErrMissingEgressRoute)
          else Inr resolved)"

section \<open>What the options resolve to\<close>

text \<open>
  The options a caller can build with the package: an abstract description, and the route and
  timeout the whole list stands for (the last one given wins).
\<close>

datatype option_spec = RouteOpt EgressRouteID | TimeoutOpt int

fun option_of :: "option_spec \<Rightarrow> RequestOption" where
  "option_of (RouteOpt r) = WithEgressRoute r"
| "option_of (TimeoutOpt t) = WithTimeout t"

fun option_valid :: "option_spec \<Rightarrow> bool" where
  "option_valid (RouteOpt r) = (TrimSpace r \<noteq> [])"
| "option_valid (TimeoutOpt t) = (0 < t)"

fun resolved_by :: "RequestOptions \<Rightarrow> option_spec list \<Rightarrow> RequestOptions" where
  "resolved_by o0 [] = o0"
| "resolved_by o0 (RouteOpt r # os) = resolved_by (o0\<lparr>ro_EgressRouteID := TrimSpace r\<rparr>) os"
| "resolved_by o0 (TimeoutOpt t # os) = resolved_by (o0\<lparr>ro_Timeout := t\<rparr>) os"

lemma apply_options_specs:
  "list_all option_valid os \<Longrightarrow>
     apply_options i (map (\<lambda>s. Some (option_of s)) os) o0 = Inr (resolved_by o0 os)"
proof (induction os arbitrary: i o0)
  case (Cons s os)
  then show ?case by (cases s) (auto simp: WithEgressRoute_def WithTimeout_def)
qed simp

lemma apply_options_invalid:
  "\<not> list_all option_valid os \<Longrightarrow>
     \<exists>e. apply_options i (map (\<lambda>s. Some (option_of s)) os) o0 = Inl e \<and> errors_Is ErrInvalidRequestOption e"
proof (induction os arbitrary: i o0)
  case (Cons s os)
  show ?case
  proof (cases "option_valid s")
    case True
    with Cons show ?thesis by (cases s) (auto simp: WithEgressRoute_def WithTimeout_def)
  next
    case False
    then show ?thesis by (cases s) (auto simp: WithEgressRoute_def WithTimeout_def)
  qed
qed simp

lemma resolved_by_trimmed:
  "TrimSpace (ro_EgressRouteID o0) = ro_EgressRouteID o0 \<Longrightarrow>
     TrimSpace (ro_EgressRouteID (resolved_by o0 os)) = ro_EgressRouteID (resolved_by o0 os)"
  by (induction o0 os rule: resolved_by.induct) auto

section \<open>Properties\<close>

text \<open>Rendering an API error never reveals its cause unless the category is one of the
  two allow-listed ones and the exchange sent no message: for any two causes, and any way of
  rendering them, the text is the same.\<close>

theorem APIError_Error_hides_cause:
  assumes "ae_Category a \<notin> {ErrorValidation, ErrorUnsupportedCapability} \<or> ae_ExchangeMessage a \<noteq> []"
    and "b = APIError (ae_Category a) (ae_Exchange a) (ae_AccountID a) (ae_RequestID a) (ae_Retryable a)
               (ae_HTTPStatus a) (ae_ExchangeCode a) (ae_ExchangeMessage a) cause"
  shows "APIError_Error render (Some a) = APIError_Error render' (Some b)"
  using assms by (auto simp: safeToRenderCause_def Let_def split: option.splits)

theorem APIError_Error_hides_cause_witness:
  "APIError_Error (\<lambda>_. ''secret'')
     (Some (APIError ErrorNetwork ''okx'' [] [] False 0 [] [] (Some (ForeignError ''k=1''))))
   = APIError_Error (\<lambda>_. ''other'') (Some (APIError ErrorNetwork ''okx'' [] [] False 0 [] [] None))"
  by (rule APIError_Error_hides_cause) simp_all

text \<open>\<open>errors.Is\<close> on an API error finds exactly the sentinel of its category and every
  sentinel its cause wraps, so classification survives wrapping.\<close>

theorem APIError_is_category_or_cause:
  "errors_Is t (ErrAPI a) \<longleftrightarrow>
     (\<exists>e \<in> set (APIError_Unwrap a). errors_Is t e)"
  by (cases a) (auto simp: APIError_Unwrap_def split: option.splits)

text \<open>Resolving request options built by the package: the call succeeds exactly when every
  option is valid and a route remains, the result is the client's default overridden by the last
  route and timeout given, its route has no surrounding white space, and an invalid option is
  reported as \<open>ErrInvalidRequestOption\<close>.\<close>

theorem ResolveRequestOptions_specs:
  "let res = ResolveRequestOptions defaultID (map (\<lambda>s. Some (option_of s)) os);
       want = resolved_by \<lparr>ro_EgressRouteID = TrimSpace defaultID, ro_Timeout = 0\<rparr> os
   in (list_all option_valid os \<and> ro_EgressRouteID want \<noteq> [] \<longleftrightarrow> res = Inr want) \<and>
      (list_all option_valid os \<and> ro_EgressRouteID want = [] \<longleftrightarrow> res = Inl (Sentinel ErrMissingEgressRoute)) \<and>
      (\<not> list_all option_valid os \<longleftrightarrow> (\<exists>e. res = Inl e \<and> errors_Is ErrInvalidRequestOption e)) \<and>
      TrimSpace (ro_EgressRouteID want) = ro_EgressRouteID want"
proof -
  define res where "res = ResolveRequestOptions defaultID (map (\<lambda>s. Some (option_of s)) os)"
  define want where "want = resolved_by \<lparr>ro_EgressRouteID = TrimSpace defaultID, ro_Timeout = 0\<rparr> os"
  have trimmed: "TrimSpace (ro_EgressRouteID want) = ro_EgressRouteID want"
    unfolding want_def by (rule resolved_by_trimmed) simp
  show ?thesis
  proof (cases "list_all option_valid os")
    case True
    then have "res = (if ro_EgressRouteID want = [] then Inl (Sentinel ErrMissingEgressRoute) else Inr want)"
      using trimmed by (simp add: res_def want_def ResolveRequestOptions_def apply_options_specs)
    with True trimmed show ?thesis
      by (auto simp: Let_def res_def [symmetric] want_def [symmetric])
  next
    case False
    then obtain e where "res = Inl e" "errors_Is ErrInvalidRequestOption e"
      unfolding res_def ResolveRequestOptions_def
      using apply_options_invalid [OF False, of 0 "\<lparr>ro_EgressRouteID = TrimSpace defaultID, ro_Timeout = 0\<rparr>"]
      by auto
    with False trimmed show ?thesis
      by (auto simp: Let_def res_def [symmetric] want_def [symmetric])
  qed
qed

end
