(* ===== verification/Rate_Limiter.thy ===== *)
theory Rate_Limiter
  imports Trade_Core
begin

text \<open>
  Package \<open>ratelimit\<close>: the rolling-window limiter.

  \<open>memoryBackend\<close> is a record of the rules and of one bucket per rule; its methods run under
  one mutex, so each is a function from the backend to a result and the new backend. A
  \<open>time.Time\<close> is the number of nanoseconds since the zero time, so \<open>IsZero\<close> is \<open>= 0\<close>;
  units, limits and durations are Go's 64-bit integers and their arithmetic is wrapped.
  \<open>tryAcquire\<close> is the two loops of the code: \<open>check_charges\<close> computes the time to wait
  (pruning every bucket it looks at), \<open>commit_charges\<close> charges them all.

  The main results: a grant charges every rule and leaves none over its limit, a refusal or an
  error charges nothing, waiting until the returned time is enough, and along every run of the
  limiter no window of a rule's length holds more granted units than its limit.
\<close>

section \<open>Data\<close>

record Rule =
  rule_Key :: string
  rule_Limit :: int
  rule_Window :: int

record Charge =
  charge_Key :: string
  charge_Units :: int

record usageEvent =
  ev_at :: int
  ev_units :: int

record bucket =
  bk_events :: "usageEvent list"
  bk_used :: int
  bk_blockedUntil :: int


record memoryBackend =
  mb_rules :: "string \<rightharpoonup> Rule"
  mb_buckets :: "string \<rightharpoonup> bucket"

definition emptyBucket :: bucket where
  "emptyBucket = \<lparr>bk_events = [], bk_used = 0, bk_blockedUntil = 0\<rparr>"

definition newMemoryBackend :: memoryBackend where
  "newMemoryBackend = \<lparr>mb_rules = Map.empty, mb_buckets = Map.empty\<rparr>"

section \<open>The in-process backend\<close>

definition memoryBackend_SetRule :: "Rule \<Rightarrow> memoryBackend \<Rightarrow> memoryBackend" where
  "memoryBackend_SetRule rule backend =
     (let previous = mb_rules backend (rule_Key rule);
          backend' = backend\<lparr>mb_rules := (mb_rules backend)(rule_Key rule \<mapsto> rule)\<rparr>;
          changed = (case previous of
                       None \<Rightarrow> True
                     | Some p \<Rightarrow> rule_Limit p \<noteq> rule_Limit rule \<or> rule_Window p \<noteq> rule_Window rule)
      in if changed
         then backend'\<lparr>mb_buckets := (mb_buckets backend)(rule_Key rule \<mapsto> emptyBucket)\<rparr>
         else backend')"

text \<open>The pruning loop of \<open>bucketFor\<close>: expired events leave the front of the list.\<close>

fun prune_events :: "int \<Rightarrow> usageEvent list \<Rightarrow> int \<Rightarrow> usageEvent list \<times> int" where
  "prune_events cutoff [] used = ([], used)"
| "prune_events cutoff (e # es) used =
     (if ev_at e \<le> cutoff then prune_events cutoff es (wrap64 (used - ev_units e)) else (e # es, used))"

definition prune_bucket :: "Rule \<Rightarrow> int \<Rightarrow> bucket \<Rightarrow> bucket" where
  "prune_bucket rule now b =
     (case prune_events (now - rule_Window rule) (bk_events b) (bk_used b) of
        (es, used) \<Rightarrow> b\<lparr>bk_events := es, bk_used := used\<rparr>)"

definition bucketFor :: "Rule \<Rightarrow> int \<Rightarrow> memoryBackend \<Rightarrow> bucket \<times> memoryBackend" where
  "bucketFor rule now backend =
     (let state = (case mb_buckets backend (rule_Key rule) of None \<Rightarrow> emptyBucket | Some b \<Rightarrow> b);
          state' = prune_bucket rule now state
      in (state', backend\<lparr>mb_buckets := (mb_buckets backend)(rule_Key rule \<mapsto> state')\<rparr>))"

fun eventExpiration :: "usageEvent list \<Rightarrow> int \<Rightarrow> int \<Rightarrow> int" where
  "eventExpiration [] units window = 0"
| "eventExpiration (e # es) units window =
     (let units' = wrap64 (units - ev_units e)
      in if units' \<le> 0 then ev_at e + window else eventExpiration es units' window)"

text \<open>The first loop of \<open>tryAcquire\<close>; \<open>waitUntil\<close> is the accumulator of the code.\<close>

fun check_charges :: "int \<Rightarrow> Charge list \<Rightarrow> int \<Rightarrow> memoryBackend \<Rightarrow> int result \<times> memoryBackend" where
  "check_charges now [] waitUntil backend = (Inr waitUntil, backend)"
| "check_charges now (charge # charges) waitUntil backend =
     (case mb_rules backend (charge_Key charge) of
        None \<Rightarrow> (Inl (Errorf ''%w: %q'' [StrArg (charge_Key charge)] [Sentinel ErrUnknownRule]), backend)
      | Some rule \<Rightarrow>
          if charge_Units charge > rule_Limit rule
          then (Inl (Errorf ''%w: charge %d exceeds rule %q limit %d''
                       [IntArg (charge_Units charge), StrArg (charge_Key charge), IntArg (rule_Limit rule)]
                       [Sentinel ErrInvalidRule]), backend)
          else
            (let (state, backend') = bucketFor rule now backend;
                 waitUntil1 = (if bk_blockedUntil state > now \<and> bk_blockedUntil state > waitUntil
                               then bk_blockedUntil state else waitUntil);
                 excess = wrap64 (wrap64 (bk_used state + charge_Units charge) - rule_Limit rule);
                 waitUntil2 = (if excess > 0 then
                                 (let expiresAt = eventExpiration (bk_events state) excess (rule_Window rule)
                                  in if expiresAt > waitUntil1 then expiresAt else waitUntil1)
                               else waitUntil1)
             in check_charges now charges waitUntil2 backend'))"

text \<open>The second loop; a rule that is not in the map reads as Go's zero value.\<close>

fun commit_charges :: "int \<Rightarrow> Charge list \<Rightarrow> memoryBackend \<Rightarrow> memoryBackend" where
  "commit_charges now [] backend = backend"
| "commit_charges now (charge # charges) backend =
     (let rule = (case mb_rules backend (charge_Key charge) of
                    Some r \<Rightarrow> r | None \<Rightarrow> \<lparr>rule_Key = [], rule_Limit = 0, rule_Window = 0\<rparr>);
          (state, backend') = bucketFor rule now backend;
          state' = state\<lparr>bk_events := bk_events state @ [\<lparr>ev_at = now, ev_units = charge_Units charge\<rparr>],
                         bk_used := wrap64 (bk_used state + charge_Units charge)\<rparr>
      in commit_charges now charges
           (backend'\<lparr>mb_buckets := (mb_buckets backend')(rule_Key rule \<mapsto> state')\<rparr>))"

definition tryAcquire :: "int \<Rightarrow> Charge list \<Rightarrow> memoryBackend \<Rightarrow> int result \<times> memoryBackend" where
  "tryAcquire now charges backend =
     (case check_charges now charges 0 backend of
        (Inl err, backend') \<Rightarrow> (Inl err, backend')
      | (Inr waitUntil, backend') \<Rightarrow>
          if waitUntil \<noteq> 0 then (Inr waitUntil, backend')
          else (Inr 0, commit_charges now charges backend'))"

definition memoryBackend_ObserveUsed ::
  "int \<Rightarrow> string \<Rightarrow> int \<Rightarrow> memoryBackend \<Rightarrow> go_error option \<times> memoryBackend" where
  "memoryBackend_ObserveUsed now key used backend =
     (if used < 0 then (Some (errorText ''observed usage cannot be negative''), backend)
      else case mb_rules backend key of
        None \<Rightarrow> (Some (Errorf ''%w: %q'' [StrArg key] [Sentinel ErrUnknownRule]), backend)
      | Some rule \<Rightarrow>
          (let (state, backend') = bucketFor rule now backend
           in if used > bk_used state
              then (None, backend'\<lparr>mb_buckets := (mb_buckets backend')(rule_Key rule \<mapsto>
                      state\<lparr>bk_events := bk_events state @
                              [\<lparr>ev_at = now, ev_units = wrap64 (used - bk_used state)\<rparr>],
                            bk_used := used\<rparr>)\<rparr>)
              else (None, backend')))"

fun block_keys :: "int \<Rightarrow> string list \<Rightarrow> memoryBackend \<Rightarrow> memoryBackend" where
  "block_keys until [] backend = backend"
| "block_keys until (key # keys) backend =
     (let state = (case mb_buckets backend key of None \<Rightarrow> emptyBucket | Some b \<Rightarrow> b);
          state' = (if until > bk_blockedUntil state then state\<lparr>bk_blockedUntil := until\<rparr> else state)
      in block_keys until keys (backend\<lparr>mb_buckets := (mb_buckets backend)(key \<mapsto> state')\<rparr>))"

definition memoryBackend_BlockFor ::
  "int \<Rightarrow> string list \<Rightarrow> int \<Rightarrow> memoryBackend \<Rightarrow> go_error option \<times> memoryBackend" where
  "memoryBackend_BlockFor now keys duration backend =
     (if duration \<le> 0 then (Some (errorText ''block duration must be positive''), backend)
      else case find (\<lambda>key. mb_rules backend key = None) keys of
        Some key \<Rightarrow> (Some (Errorf ''%w: %q'' [StrArg key] [Sentinel ErrUnknownRule]), backend)
      | None \<Rightarrow> (None, block_keys (now + duration) keys backend))"


section \<open>Charges\<close>

text \<open>\<open>combined[charge.Key] += charge.Units\<close> over the charges, keys trimmed.\<close>

fun combine_charges :: "Charge list \<Rightarrow> (string, int) gomap \<Rightarrow> (string, int) gomap result" where
  "combine_charges [] combined = Inr combined"
| "combine_charges (charge # charges) combined =
     (let key = TrimSpace (charge_Key charge)
      in if key = [] \<or> charge_Units charge \<le> 0
         then Inl (errorText ''charge key and positive units are required'')
         else combine_charges charges
                (AList.update key
                   (wrap64 ((case map_of combined key of None \<Rightarrow> 0 | Some u \<Rightarrow> u) + charge_Units charge))
                   combined))"

definition normalizeCharges :: "Charge list \<Rightarrow> Charge list result" where
  "normalizeCharges charges =
     (case combine_charges charges [] of
        Inl err \<Rightarrow> Inl err
      | Inr combined \<Rightarrow>
          Inr (map (\<lambda>(key, units). \<lparr>charge_Key = key, charge_Units = units\<rparr>) (sort_key fst combined)))"

section \<open>Waiting\<close>

text \<open>
  What \<open>Wait\<close> sees of the outside: the clock, the scheduling delays before each reading of
  it, when and why the context ends, and which case of the \<open>select\<close> wins when the timer and
  the context are ready at the same instant.
\<close>

record wait_world =
  ww_now :: int
  ww_delays :: "nat list"
  ww_done :: "(int \<times> go_error) option"
  ww_tie :: bool

definition time_passes :: "wait_world \<Rightarrow> wait_world" where
  "time_passes w =
     (case ww_delays w of [] \<Rightarrow> w | d # ds \<Rightarrow> w\<lparr>ww_now := ww_now w + int d, ww_delays := ds\<rparr>)"

definition select_timer :: "int \<Rightarrow> wait_world \<Rightarrow> go_error option \<times> wait_world" where
  "select_timer wait w =
     (let fires = ww_now w + wait
      in case ww_done w of
           None \<Rightarrow> (None, w\<lparr>ww_now := fires\<rparr>)
         | Some (done_at, err) \<Rightarrow>
             if done_at < fires \<or> (done_at = fires \<and> ww_tie w)
             then (Some err, w\<lparr>ww_now := max (ww_now w) done_at\<rparr>)
             else (None, w\<lparr>ww_now := fires\<rparr>))"

text \<open>
  The loop of \<open>memoryBackend.Wait\<close> over an acquire operation; \<open>None\<close> means that the given
  number of rounds was not enough.
\<close>

fun wait_loop ::
  "(int \<Rightarrow> Charge list \<Rightarrow> 'b \<Rightarrow> int result \<times> 'b) \<Rightarrow> nat \<Rightarrow> Charge list \<Rightarrow> wait_world \<Rightarrow> 'b \<Rightarrow>
     (go_error option \<times> wait_world \<times> 'b) option" where
  "wait_loop acquire 0 charges w backend = None"
| "wait_loop acquire (Suc n) charges w backend =
     (let w1 = time_passes w
      in case acquire (ww_now w1) charges backend of
           (Inl err, backend') \<Rightarrow> Some (Some err, w1, backend')
         | (Inr waitUntil, backend') \<Rightarrow>
             if waitUntil = 0 then Some (None, w1, backend')
             else (let w2 = time_passes w1; wait = waitUntil - ww_now w2
                   in if wait \<le> 0 then wait_loop acquire n charges w2 backend'
                      else case select_timer wait w2 of
                        (Some err, w3) \<Rightarrow> Some (Some err, w3, backend')
                      | (None, w3) \<Rightarrow> wait_loop acquire n charges w3 backend'))"

definition memoryBackend_Wait ::
  "nat \<Rightarrow> Charge list \<Rightarrow> wait_world \<Rightarrow> memoryBackend \<Rightarrow> (go_error option \<times> wait_world \<times> memoryBackend) option" where
  "memoryBackend_Wait = wait_loop tryAcquire"

section \<open>The limiter\<close>

definition Limiter_SetRule :: "Rule \<Rightarrow> memoryBackend \<Rightarrow> go_error option \<times> memoryBackend" where
  "Limiter_SetRule rule backend =
     (let rule = rule\<lparr>rule_Key := TrimSpace (rule_Key rule)\<rparr>
      in if rule_Key rule = [] \<or> rule_Limit rule \<le> 0 \<or> rule_Window rule \<le> 0
         then (Some (Errorf ''%w: key, positive limit, and positive window are required'' [] [Sentinel ErrInvalidRule]),
               backend)
         else (None, memoryBackend_SetRule rule backend))"

fun Limiter_New_loop :: "Rule list \<Rightarrow> memoryBackend \<Rightarrow> memoryBackend result" where
  "Limiter_New_loop [] backend = Inr backend"
| "Limiter_New_loop (rule # rules) backend =
     (case Limiter_SetRule rule backend of
        (Some err, _) \<Rightarrow> Inl err
      | (None, backend') \<Rightarrow> Limiter_New_loop rules backend')"

definition Limiter_New :: "Rule list \<Rightarrow> memoryBackend result" where
  "Limiter_New rules = Limiter_New_loop rules newMemoryBackend"

definition Limiter_Wait ::
  "nat \<Rightarrow> bool \<Rightarrow> Charge list \<Rightarrow> wait_world \<Rightarrow> memoryBackend \<Rightarrow> (go_error option \<times> wait_world \<times> memoryBackend) option" where
  "Limiter_Wait rounds ctx_nil charges w backend =
     (if ctx_nil then Some (Some (errorText ''context cannot be nil''), w, backend)
      else case normalizeCharges charges of
        Inl err \<Rightarrow> Some (Some err, w, backend)
      | Inr normalized \<Rightarrow>
          if normalized = [] then Some (None, w, backend)
          else memoryBackend_Wait rounds normalized w backend)"

definition Limiter_ObserveUsed :: "int \<Rightarrow> string \<Rightarrow> int \<Rightarrow> memoryBackend \<Rightarrow> go_error option \<times> memoryBackend" where
  "Limiter_ObserveUsed now key used backend =
     (if used < 0 then (Some (errorText ''observed usage cannot be negative''), backend)
      else memoryBackend_ObserveUsed now key used backend)"

definition Limiter_BlockFor :: "int \<Rightarrow> string list \<Rightarrow> int \<Rightarrow> memoryBackend \<Rightarrow> go_error option \<times> memoryBackend" where
  "Limiter_BlockFor now keys duration backend =
     (if duration \<le> 0 then (Some (errorText ''block duration must be positive''), backend)
      else memoryBackend_BlockFor now keys duration backend)"



section \<open>Well-formed buckets and backends\<close>

abbreviation units_of :: "usageEvent list \<Rightarrow> int" where
  "units_of es \<equiv> sum_list (map ev_units es)"

definition bucket_ok :: "int \<Rightarrow> bucket \<Rightarrow> bool" where
  "bucket_ok now b \<longleftrightarrow>
     sorted (map ev_at (bk_events b)) \<and>
     (\<forall>e \<in> set (bk_events b). 0 < ev_units e \<and> ev_at e \<le> now) \<and>
     bk_used b = units_of (bk_events b) \<and> int64 (bk_used b)"

definition rule_ok :: "Rule \<Rightarrow> bool" where
  "rule_ok r \<longleftrightarrow> 0 < rule_Limit r \<and> int64 (rule_Limit r) \<and> 0 < rule_Window r"

definition backend_ok :: "int \<Rightarrow> memoryBackend \<Rightarrow> bool" where
  "backend_ok now be \<longleftrightarrow>
     (\<forall>k r. mb_rules be k = Some r \<longrightarrow> rule_ok r \<and> rule_Key r = k) \<and>
     (\<forall>k b. mb_buckets be k = Some b \<longrightarrow> bucket_ok now b)"

definition charges_ok :: "Charge list \<Rightarrow> bool" where
  "charges_ok cs \<longleftrightarrow> distinct (map charge_Key cs) \<and> (\<forall>c \<in> set cs. 0 < charge_Units c)"

text \<open>The bucket of a key as the next operation at time \<open>now\<close> will see it.\<close>

definition bucket_of :: "memoryBackend \<Rightarrow> string \<Rightarrow> bucket" where
  "bucket_of be k = (case mb_buckets be k of None \<Rightarrow> emptyBucket | Some b \<Rightarrow> b)"

definition current :: "memoryBackend \<Rightarrow> int \<Rightarrow> string \<Rightarrow> bucket" where
  "current be now k =
     (case mb_rules be k of None \<Rightarrow> bucket_of be k | Some r \<Rightarrow> prune_bucket r now (bucket_of be k))"

lemma units_nonneg: "\<forall>e \<in> set es. 0 < ev_units e \<Longrightarrow> 0 \<le> units_of es"
  by (induction es) auto

lemma int64_between: "int64 x \<Longrightarrow> 0 \<le> y \<Longrightarrow> y \<le> x \<Longrightarrow> int64 y"
  by (simp add: int64_def)

lemma prune_events_eq:
  assumes "sorted (map ev_at es)" "\<forall>e \<in> set es. 0 < ev_units e" "int64 (units_of es)"
  shows "prune_events c es (units_of es) =
           (filter (\<lambda>e. c < ev_at e) es, units_of (filter (\<lambda>e. c < ev_at e) es))"
  using assms
proof (induction es)
  case (Cons e es)
  have nn: "0 \<le> units_of es" using Cons.prems units_nonneg by simp
  then have ok: "int64 (units_of es)"
    using Cons.prems by (intro int64_between [OF Cons.prems(3)]) auto
  show ?case
  proof (cases "ev_at e \<le> c")
    case True
    with Cons ok show ?thesis by (simp add: wrap_simps)
  next
    case False
    with Cons.prems have "\<forall>x \<in> set es. c < ev_at x" by auto
    then have "filter (\<lambda>e. c < ev_at e) es = es" by simp
    with False show ?thesis by simp
  qed
qed simp

lemma prune_bucket_eq:
  assumes "bucket_ok t b"
  shows "prune_bucket r now b =
    (let es = filter (\<lambda>e. now - rule_Window r < ev_at e) (bk_events b)
     in b\<lparr>bk_events := es, bk_used := units_of es\<rparr>)"
proof -
  have "prune_events (now - rule_Window r) (bk_events b) (units_of (bk_events b)) =
      (let es = filter (\<lambda>e. now - rule_Window r < ev_at e) (bk_events b) in (es, units_of es))"
    using assms prune_events_eq [of "bk_events b" "now - rule_Window r"]
    by (auto simp: bucket_ok_def Let_def)
  with assms show ?thesis by (simp add: prune_bucket_def bucket_ok_def Let_def)
qed

lemma bucket_ok_empty [simp]: "bucket_ok now emptyBucket"
  by (simp add: bucket_ok_def emptyBucket_def int64_def)

lemma bucket_ok_mono: "bucket_ok now b \<Longrightarrow> now \<le> t \<Longrightarrow> bucket_ok t b"
  by (force simp: bucket_ok_def)

lemma bucket_ok_filter:
  assumes "bucket_ok now b"
  shows "bucket_ok now (b\<lparr>bk_events := filter P (bk_events b), bk_used := units_of (filter P (bk_events b))\<rparr>)"
proof -
  have pos: "\<forall>e \<in> set (bk_events b). 0 < ev_units e" and i: "int64 (units_of (bk_events b))"
    using assms by (auto simp: bucket_ok_def)
  have "0 \<le> units_of (filter P (bk_events b))" using pos units_nonneg by auto
  moreover have "units_of (filter P (bk_events b)) \<le> units_of (filter (\<lambda>_. True) (bk_events b))"
    using pos by (intro sum_list_filter_mono) auto
  ultimately have "int64 (units_of (filter P (bk_events b)))"
    by (intro int64_between [OF i]) auto
  with assms show ?thesis by (auto simp: bucket_ok_def sorted_filter)
qed

lemma bucket_ok_prune: "bucket_ok now b \<Longrightarrow> bucket_ok now (prune_bucket r t b)"
  by (simp add: prune_bucket_eq Let_def bucket_ok_filter)

lemma prune_bucket_prune:
  assumes "bucket_ok s b" "now \<le> t"
  shows "prune_bucket r t (prune_bucket r now b) = prune_bucket r t b"
proof -
  have "bucket_ok s (prune_bucket r now b)" using assms(1) by (rule bucket_ok_prune)
  moreover have "filter (\<lambda>e. now - rule_Window r < ev_at e \<and> t - rule_Window r < ev_at e) es
      = filter (\<lambda>e. t - rule_Window r < ev_at e) es" for es :: "usageEvent list"
    using assms(2) by (auto intro!: filter_cong)
  ultimately show ?thesis using assms(1)
    by (simp add: prune_bucket_eq [of s] Let_def)
qed

lemma backend_ok_mono: "backend_ok now be \<Longrightarrow> now \<le> t \<Longrightarrow> backend_ok t be"
  by (auto simp: backend_ok_def intro: bucket_ok_mono [of now])

lemma bucket_ok_of: "backend_ok now be \<Longrightarrow> bucket_ok now (bucket_of be k)"
  by (auto simp: bucket_of_def backend_ok_def split: option.splits)

lemma bucket_ok_current: "backend_ok now be \<Longrightarrow> bucket_ok now (current be t k)"
  by (auto simp: current_def bucket_ok_of bucket_ok_prune split: option.splits)

lemma backend_ok_rule: "backend_ok now be \<Longrightarrow> mb_rules be k = Some r \<Longrightarrow> rule_ok r \<and> rule_Key r = k"
  by (simp add: backend_ok_def)

lemma bucketFor_eq:
  assumes "backend_ok s be" "mb_rules be k = Some r"
  shows "bucketFor r now be =
    (current be now k, be\<lparr>mb_buckets := (mb_buckets be)(k \<mapsto> current be now k)\<rparr>)"
  using assms by (auto simp: bucketFor_def current_def bucket_of_def Let_def backend_ok_def)

text \<open>Storing the pruned bucket back changes nothing that a later operation can see.\<close>

lemma backend_ok_put:
  "backend_ok now be \<Longrightarrow> bucket_ok now b \<Longrightarrow> backend_ok now (be\<lparr>mb_buckets := (mb_buckets be)(k \<mapsto> b)\<rparr>)"
  by (auto simp: backend_ok_def)

lemma current_put:
  "current (be\<lparr>mb_buckets := (mb_buckets be)(k \<mapsto> b)\<rparr>) t k' =
     (if k' = k then (case mb_rules be k of None \<Rightarrow> b | Some r \<Rightarrow> prune_bucket r t b) else current be t k')"
  by (simp add: current_def bucket_of_def split: option.split)

lemma current_stored:
  assumes "backend_ok s be" "mb_rules be k = Some r" "now \<le> t"
  shows "current (be\<lparr>mb_buckets := (mb_buckets be)(k \<mapsto> current be now k)\<rparr>) t = current be t"
proof
  fix k'
  have "prune_bucket r t (current be now k) = current be t k"
    using prune_bucket_prune [OF bucket_ok_of [OF assms(1)] assms(3)] assms(2)
    by (simp add: current_def)
  with assms(2) show "current (be\<lparr>mb_buckets := (mb_buckets be)(k \<mapsto> current be now k)\<rparr>) t k' = current be t k'"
    by (simp add: current_put)
qed

lemma current_events:
  assumes "backend_ok s be" "mb_rules be k = Some r"
  shows "bk_events (current be t k) = filter (\<lambda>e. t - rule_Window r < ev_at e) (bk_events (bucket_of be k))"
    and "bk_used (current be t k) = units_of (bk_events (current be t k))"
    and "bk_blockedUntil (current be t k) = bk_blockedUntil (bucket_of be k)"
  using assms by (simp_all add: current_def prune_bucket_eq [OF bucket_ok_of [OF assms(1)]] Let_def)

lemma current_later:
  assumes "backend_ok s be" "mb_rules be k = Some r" "now \<le> t"
  shows "bk_events (current be t k) = filter (\<lambda>e. t - rule_Window r < ev_at e) (bk_events (current be now k))"
    and "bk_blockedUntil (current be t k) = bk_blockedUntil (current be now k)"
  using assms by (auto simp: current_events intro!: filter_cong)

section \<open>Waiting for events to expire\<close>

lemma eventExpiration_enough:
  assumes "sorted (map ev_at es)" "\<forall>e \<in> set es. 0 < ev_units e"
    "0 < n" "n \<le> units_of es" "int64 n" "int64 (units_of es)"
  shows "units_of (filter (\<lambda>e. eventExpiration es n w - w < ev_at e) es) \<le> units_of es - n
    \<and> (\<exists>e \<in> set es. eventExpiration es n w = ev_at e + w)"
  using assms
proof (induction es arbitrary: n)
  case (Cons e es)
  have pos: "0 < ev_units e" and nn: "0 \<le> units_of es" using Cons.prems units_nonneg by auto
  then have ok: "int64 (units_of es)" using Cons.prems by (intro int64_between [OF Cons.prems(6)]) auto
  have "int64 (n - ev_units e)"
    using Cons.prems pos nn by (auto simp: int64_def)
  then have w: "wrap64 (n - ev_units e) = n - ev_units e" by (rule wrap64_id)
  show ?case
  proof (cases "n \<le> ev_units e")
    case True
    then have "eventExpiration (e # es) n w = ev_at e + w" by (simp add: w)
    moreover have "units_of (filter (\<lambda>x. ev_at e < ev_at x) es) \<le> units_of (filter (\<lambda>_. True) es)"
      using Cons.prems by (intro sum_list_filter_mono) auto
    ultimately show ?thesis using True by auto
  next
    case False
    then have exp: "eventExpiration (e # es) n w = eventExpiration es (n - ev_units e) w"
      by (simp add: w)
    have IH: "units_of (filter (\<lambda>x. eventExpiration es (n - ev_units e) w - w < ev_at x) es)
        \<le> units_of es - (n - ev_units e)
      \<and> (\<exists>x \<in> set es. eventExpiration es (n - ev_units e) w = ev_at x + w)"
      using Cons.prems False ok \<open>int64 (n - ev_units e)\<close> by (intro Cons.IH) auto
    then obtain x where x: "x \<in> set es" "eventExpiration es (n - ev_units e) w = ev_at x + w" by blast
    with Cons.prems have "ev_at e \<le> ev_at x" by auto
    with IH x(1) show ?thesis unfolding exp x(2) by auto
  qed
qed simp

text \<open>
  Two's-complement arithmetic makes the excess exact: although \<open>used + units\<close> may wrap, the
  difference with the limit is back in range, because a charge never exceeds its limit.
\<close>

lemma excess_exact:
  assumes "0 \<le> used" "int64 used" "0 < units" "units \<le> limit" "int64 limit"
  shows "wrap64 (wrap64 (used + units) - limit) = used + units - limit"
  using assms by (simp add: wrap_simps int64_def)

text \<open>How long one charge has to wait on its own.\<close>

definition charge_wait :: "memoryBackend \<Rightarrow> int \<Rightarrow> Charge \<Rightarrow> int" where
  "charge_wait be now c =
     (case mb_rules be (charge_Key c) of
        None \<Rightarrow> 0
      | Some r \<Rightarrow>
          (let b = current be now (charge_Key c)
           in max (if bk_blockedUntil b > now then bk_blockedUntil b else 0)
                  (if bk_used b + charge_Units c > rule_Limit r
                   then eventExpiration (bk_events b) (bk_used b + charge_Units c - rule_Limit r) (rule_Window r)
                   else 0)))"

definition charge_fits :: "memoryBackend \<Rightarrow> Charge \<Rightarrow> bool" where
  "charge_fits be c \<longleftrightarrow>
     (\<exists>r. mb_rules be (charge_Key c) = Some r \<and> charge_Units c \<le> rule_Limit r)"

lemma used_nonneg: "backend_ok s be \<Longrightarrow> 0 \<le> bk_used (current be t k)"
  using bucket_ok_current [of s be t k] units_nonneg [of "bk_events (current be t k)"]
  by (auto simp: bucket_ok_def)

declare check_charges.simps(2) [simp del]

lemma check_charge_wait:
  assumes "backend_ok s be" "mb_rules be (charge_Key c) = Some r" "charge_Units c \<le> rule_Limit r"
    "0 < charge_Units c" "0 \<le> w"
  shows "check_charges now (c # cs) w be =
    check_charges now cs (max w (charge_wait be now c))
      (be\<lparr>mb_buckets := (mb_buckets be)(charge_Key c \<mapsto> current be now (charge_Key c))\<rparr>)"
proof -
  let ?b = "current be now (charge_Key c)"
  have "bucket_ok s ?b" using assms(1) by (rule bucket_ok_current)
  then have "wrap64 (wrap64 (bk_used ?b + charge_Units c) - rule_Limit r)
      = bk_used ?b + charge_Units c - rule_Limit r"
    using assms backend_ok_rule [OF assms(1,2)]
    by (intro excess_exact used_nonneg) (auto simp: bucket_ok_def rule_ok_def)
  with assms show ?thesis
    by (auto simp: check_charges.simps(2) bucketFor_eq [OF assms(1,2)] Let_def charge_wait_def max_def)
qed

lemma charge_wait_nonneg:
  assumes "backend_ok now be" "0 < now" "charge_fits be c" "0 < charge_Units c"
  shows "charge_wait be now c = 0 \<or> now < charge_wait be now c"
proof -
  obtain r where r: "mb_rules be (charge_Key c) = Some r" "charge_Units c \<le> rule_Limit r"
    using assms(3) by (auto simp: charge_fits_def)
  let ?b = "current be now (charge_Key c)"
  let ?n = "bk_used ?b + charge_Units c - rule_Limit r"
  have ok: "bucket_ok now ?b" using assms(1) by (rule bucket_ok_current)
  have rok: "rule_ok r" using backend_ok_rule [OF assms(1) r(1)] by simp
  have "now < eventExpiration (bk_events ?b) ?n (rule_Window r)" if "0 < ?n"
  proof -
    have "?n \<le> bk_used ?b" using r(2) by simp
    then have "\<exists>e \<in> set (bk_events ?b). eventExpiration (bk_events ?b) ?n (rule_Window r) = ev_at e + rule_Window r"
      using that ok int64_between [of "bk_used ?b" ?n]
      by (intro eventExpiration_enough [THEN conjunct2]) (auto simp: bucket_ok_def)
    then show ?thesis using current_events(1) [OF assms(1) r(1)] by fastforce
  qed
  then show ?thesis by (auto simp: charge_wait_def r Let_def)
qed

text \<open>Both loops, for well-formed charges.\<close>

fun total_wait :: "memoryBackend \<Rightarrow> int \<Rightarrow> Charge list \<Rightarrow> int \<Rightarrow> int" where
  "total_wait be now [] w = w"
| "total_wait be now (c # cs) w = total_wait be now cs (max w (charge_wait be now c))"

definition same_view :: "int \<Rightarrow> memoryBackend \<Rightarrow> memoryBackend \<Rightarrow> bool" where
  "same_view now be be' \<longleftrightarrow>
     mb_rules be' = mb_rules be \<and> (\<forall>t \<ge> now. current be' t = current be t) \<and>
     (\<forall>k. mb_rules be k \<noteq> None \<longrightarrow>
        (\<forall>c \<ge> now - rule_Window (the (mb_rules be k)).
           filter (\<lambda>e. c < ev_at e) (bk_events (bucket_of be' k)) = filter (\<lambda>e. c < ev_at e) (bk_events (bucket_of be k))))"

lemma same_view_refl [simp]: "same_view now be be"
  by (simp add: same_view_def)

lemma same_view_trans: "same_view now a b \<Longrightarrow> same_view now b c \<Longrightarrow> same_view now a c"
  by (simp add: same_view_def)

lemma same_view_store:
  assumes "backend_ok s be" "mb_rules be k = Some r"
  shows "same_view now be (be\<lparr>mb_buckets := (mb_buckets be)(k \<mapsto> current be now k)\<rparr>)"
proof -
  have "filter (\<lambda>e. c < ev_at e) (bk_events (current be now k)) = filter (\<lambda>e. c < ev_at e) (bk_events (bucket_of be k))"
    if "now - rule_Window r \<le> c" for c
    using that by (auto simp: current_events(1) [OF assms] intro!: filter_cong)
  then show ?thesis
    using current_stored [OF assms] assms(2)
    by (auto simp: same_view_def bucket_of_def split: option.splits)
qed

lemma charge_wait_same_view:
  "same_view now be be' \<Longrightarrow> now \<le> t \<Longrightarrow> charge_wait be' t c = charge_wait be t c"
  by (simp add: same_view_def charge_wait_def split: option.split)

lemma total_wait_same_view:
  "same_view now be be' \<Longrightarrow> now \<le> t \<Longrightarrow> total_wait be' t cs w = total_wait be t cs w"
  by (induction cs arbitrary: w) (auto simp: charge_wait_same_view)

lemma charge_fits_same_view: "same_view now be be' \<Longrightarrow> charge_fits be' c = charge_fits be c"
  by (simp add: same_view_def charge_fits_def)

lemma check_charges_ok:
  assumes "backend_ok s be" "\<forall>c \<in> set cs. charge_fits be c \<and> 0 < charge_Units c" "0 \<le> w"
  shows "\<exists>be'. check_charges now cs w be = (Inr (total_wait be now cs w), be') \<and>
      backend_ok s be' \<and> same_view now be be'"
  using assms
proof (induction cs arbitrary: be w)
  case (Cons c cs)
  then obtain r where r: "mb_rules be (charge_Key c) = Some r" "charge_Units c \<le> rule_Limit r"
    by (auto simp: charge_fits_def)
  let ?be = "be\<lparr>mb_buckets := (mb_buckets be)(charge_Key c \<mapsto> current be now (charge_Key c))\<rparr>"
  let ?w = "max w (charge_wait be now c)"
  have sv: "same_view now be ?be" using Cons.prems(1) r(1) by (rule same_view_store)
  have ok: "backend_ok s ?be"
    using Cons.prems(1) by (intro backend_ok_put bucket_ok_current)
  obtain be' where be': "check_charges now cs ?w ?be = (Inr (total_wait ?be now cs ?w), be')"
      "backend_ok s be'" "same_view now ?be be'"
    using Cons.IH [OF ok, of ?w] Cons.prems charge_fits_same_view [OF sv] by (auto simp: le_max_iff_disj)
  have "total_wait ?be now cs ?w = total_wait be now (c # cs) w"
    using total_wait_same_view [OF sv] by simp
  with be' sv Cons.prems show ?case
    by (auto simp: check_charge_wait [OF Cons.prems(1) r] intro: same_view_trans)
qed simp

lemma check_charges_error:
  assumes "backend_ok s be" "\<forall>c \<in> set cs. 0 < charge_Units c" "0 \<le> w" "\<exists>c \<in> set cs. \<not> charge_fits be c"
  shows "\<exists>e be'. check_charges now cs w be = (Inl e, be') \<and> backend_ok s be' \<and> same_view now be be' \<and>
      (errors_Is ErrUnknownRule e \<or> errors_Is ErrInvalidRule e)"
  using assms
proof (induction cs arbitrary: be w)
  case (Cons c cs)
  show ?case
  proof (cases "charge_fits be c")
    case True
    then obtain r where r: "mb_rules be (charge_Key c) = Some r" "charge_Units c \<le> rule_Limit r"
      by (auto simp: charge_fits_def)
    let ?be = "be\<lparr>mb_buckets := (mb_buckets be)(charge_Key c \<mapsto> current be now (charge_Key c))\<rparr>"
    have sv: "same_view now be ?be" using Cons.prems(1) r(1) by (rule same_view_store)
    have ok: "backend_ok s ?be" using Cons.prems(1) by (intro backend_ok_put bucket_ok_current)
    have "\<exists>e be'. check_charges now cs (max w (charge_wait be now c)) ?be = (Inl e, be') \<and> backend_ok s be' \<and>
        same_view now ?be be' \<and> (errors_Is ErrUnknownRule e \<or> errors_Is ErrInvalidRule e)"
      using Cons.prems True charge_fits_same_view [OF sv]
      by (intro Cons.IH [OF ok]) (auto simp: le_max_iff_disj)
    with sv Cons.prems show ?thesis
      by (auto simp: check_charge_wait [OF Cons.prems(1) r] intro: same_view_trans)
  next
    case False
    with Cons.prems(1) show ?thesis
      by (auto simp: check_charges.simps(2) charge_fits_def split: option.splits)
  qed
qed simp


section \<open>Acquiring\<close>

definition charged :: "int \<Rightarrow> Charge \<Rightarrow> bucket \<Rightarrow> bucket" where
  "charged now c b =
     b\<lparr>bk_events := bk_events b @ [\<lparr>ev_at = now, ev_units = charge_Units c\<rparr>],
       bk_used := bk_used b + charge_Units c\<rparr>"

lemma bucket_of_put [simp]:
  "bucket_of (be\<lparr>mb_buckets := (mb_buckets be)(k \<mapsto> b)\<rparr>) k' = (if k' = k then b else bucket_of be k')"
  by (simp add: bucket_of_def)

lemma bucket_ok_charged:
  assumes "bucket_ok now b" "0 < charge_Units c" "int64 (bk_used b + charge_Units c)"
  shows "bucket_ok now (charged now c b)"
  using assms by (auto simp: bucket_ok_def charged_def sorted_append)

definition charge_allowed :: "memoryBackend \<Rightarrow> int \<Rightarrow> Charge \<Rightarrow> bool" where
  "charge_allowed be now c \<longleftrightarrow>
     (\<exists>r. mb_rules be (charge_Key c) = Some r \<and>
        bk_used (current be now (charge_Key c)) + charge_Units c \<le> rule_Limit r)"

lemma commit_charges_ok:
  assumes "backend_ok now be" "distinct (map charge_Key cs)"
    "\<forall>c \<in> set cs. charge_allowed be now c \<and> 0 < charge_Units c"
  shows "backend_ok now (commit_charges now cs be) \<and>
    mb_rules (commit_charges now cs be) = mb_rules be \<and>
    (\<forall>c \<in> set cs. bucket_of (commit_charges now cs be) (charge_Key c) = charged now c (current be now (charge_Key c))) \<and>
    (\<forall>k. k \<notin> charge_Key ` set cs \<longrightarrow> bucket_of (commit_charges now cs be) k = bucket_of be k)"
  using assms
proof (induction cs arbitrary: be)
  case (Cons c cs)
  let ?k = "charge_Key c"
  let ?b = "current be now ?k"
  let ?be = "be\<lparr>mb_buckets := (mb_buckets be)(?k \<mapsto> charged now c ?b)\<rparr>"
  obtain r where r: "mb_rules be ?k = Some r" "bk_used ?b + charge_Units c \<le> rule_Limit r"
    using Cons.prems by (auto simp: charge_allowed_def)
  have u: "0 < charge_Units c" using Cons.prems(3) by simp
  have lim: "int64 (rule_Limit r)" using backend_ok_rule [OF Cons.prems(1) r(1)] by (simp add: rule_ok_def)
  have range: "int64 (bk_used ?b + charge_Units c)"
    using u used_nonneg [OF Cons.prems(1), of now ?k] by (intro int64_between [OF lim _ r(2)]) simp
  have step: "commit_charges now (c # cs) be = commit_charges now cs ?be"
    using r(1) backend_ok_rule [OF Cons.prems(1) r(1)]
    by (simp add: bucketFor_eq [OF Cons.prems(1) r(1)] wrap64_id [OF range] charged_def Let_def)
  have ok: "backend_ok now ?be"
    using Cons.prems(1) u range by (intro backend_ok_put bucket_ok_charged bucket_ok_current)
  have other: "current ?be now (charge_Key d) = current be now (charge_Key d)" if "d \<in> set cs" for d
  proof -
    have "charge_Key d \<noteq> ?k" using that Cons.prems(2) by (metis distinct.simps(2) image_eqI list.simps(9) set_map)
    then show ?thesis by (simp add: current_put)
  qed
  then have "\<forall>d \<in> set cs. charge_allowed ?be now d \<and> 0 < charge_Units d"
    using Cons.prems(3) by (auto simp: charge_allowed_def)
  note IH = Cons.IH [OF ok _ this]
  show ?case using IH Cons.prems(2) other by (auto simp: step simp del: commit_charges.simps)
qed simp

lemma total_wait_ge: "w \<le> total_wait be now cs w"
proof (induction cs arbitrary: w)
  case (Cons c cs)
  from Cons [of "max w (charge_wait be now c)"] show ?case by simp
qed simp

lemma total_wait_ge_charge: "c \<in> set cs \<Longrightarrow> charge_wait be now c \<le> total_wait be now cs w"
proof (induction cs arbitrary: w)
  case (Cons d cs)
  then show ?case
    using total_wait_ge [of "max w (charge_wait be now d)" be now cs] by auto
qed simp

lemma total_wait_cases: "total_wait be now cs w = w \<or> (\<exists>c \<in> set cs. total_wait be now cs w = charge_wait be now c)"
proof (induction cs arbitrary: w)
  case (Cons d cs)
  from Cons [of "max w (charge_wait be now d)"] show ?case by (auto simp: max_def split: if_splits)
qed simp


lemma charge_wait_0:
  assumes "backend_ok now be" "0 < now" "charge_fits be c" "0 < charge_Units c" "charge_wait be now c = 0"
  shows "charge_allowed be now c \<and> bk_blockedUntil (current be now (charge_Key c)) \<le> now"
proof -
  obtain r where r: "mb_rules be (charge_Key c) = Some r" "charge_Units c \<le> rule_Limit r"
    using assms(3) by (auto simp: charge_fits_def)
  let ?b = "current be now (charge_Key c)"
  have blocked: "bk_blockedUntil ?b \<le> now"
    using assms(2,5) r(1) by (auto simp: charge_wait_def Let_def max_def split: if_splits)
  have "bk_used ?b + charge_Units c \<le> rule_Limit r"
  proof (rule ccontr)
    assume over: "\<not> bk_used ?b + charge_Units c \<le> rule_Limit r"
    then have w: "charge_wait be now c =
        max 0 (eventExpiration (bk_events ?b) (bk_used ?b + charge_Units c - rule_Limit r) (rule_Window r))"
      using blocked r(1) by (simp add: charge_wait_def Let_def)
    obtain e where "e \<in> set (bk_events ?b)"
        "eventExpiration (bk_events ?b) (bk_used ?b + charge_Units c - rule_Limit r) (rule_Window r)
          = ev_at e + rule_Window r"
      using eventExpiration_enough [of "bk_events ?b" "bk_used ?b + charge_Units c - rule_Limit r" "rule_Window r"]
        bucket_ok_current [OF assms(1), of now "charge_Key c"] over r(2)
        int64_between [of "bk_used ?b" "bk_used ?b + charge_Units c - rule_Limit r"]
      by (auto simp: bucket_ok_def)
    with current_events(1) [OF assms(1) r(1)] have "now < charge_wait be now c" by (auto simp: w)
    with assms(2,5) show False by simp
  qed
  with blocked r(1) show ?thesis by (auto simp: charge_allowed_def)
qed

lemma tryAcquire_cases:
  assumes "backend_ok now be" "0 < now" "charges_ok cs"
  obtains (granted) be1 where "tryAcquire now cs be = (Inr 0, commit_charges now cs be1)"
      "backend_ok now be1" "same_view now be be1"
      "\<forall>c \<in> set cs. charge_allowed be now c \<and> bk_blockedUntil (current be now (charge_Key c)) \<le> now"
  | (waits) be1 where "tryAcquire now cs be = (Inr (total_wait be now cs 0), be1)"
      "now < total_wait be now cs 0" "backend_ok now be1" "same_view now be be1"
      "\<forall>c \<in> set cs. charge_fits be c"
  | (fails) e be1 where "tryAcquire now cs be = (Inl e, be1)" "backend_ok now be1" "same_view now be be1"
      "errors_Is ErrUnknownRule e \<or> errors_Is ErrInvalidRule e" "\<exists>c \<in> set cs. \<not> charge_fits be c"
proof (cases "\<forall>c \<in> set cs. charge_fits be c")
  case True
  have pos: "\<forall>c \<in> set cs. charge_fits be c \<and> 0 < charge_Units c"
    using True assms(3) by (auto simp: charges_ok_def)
  obtain be1 where be1: "check_charges now cs 0 be = (Inr (total_wait be now cs 0), be1)"
      "backend_ok now be1" "same_view now be be1"
    using check_charges_ok [OF assms(1) pos, of 0 now] by auto
  show ?thesis
  proof (cases "total_wait be now cs 0 = 0")
    case True
    have "charge_wait be now c = 0" if "c \<in> set cs" for c
      using total_wait_ge_charge [OF that, of be now 0] charge_wait_nonneg [of now be c] True pos that assms
      by auto
    then have "\<forall>c \<in> set cs. charge_allowed be now c \<and> bk_blockedUntil (current be now (charge_Key c)) \<le> now"
      using charge_wait_0 [OF assms(1,2)] pos by blast
    with be1 True show ?thesis by (intro granted [of be1]) (auto simp: tryAcquire_def)
  next
    case False
    then have "now < total_wait be now cs 0"
      using total_wait_cases [of be now cs 0] charge_wait_nonneg [OF assms(1,2)] pos by fastforce
    with be1 False \<open>\<forall>c \<in> set cs. charge_fits be c\<close> show ?thesis
      by (intro waits [of be1]) (auto simp: tryAcquire_def)
  qed
next
  case False
  then obtain e be1 where "check_charges now cs 0 be = (Inl e, be1)" "backend_ok now be1" "same_view now be be1"
      "errors_Is ErrUnknownRule e \<or> errors_Is ErrInvalidRule e"
    using check_charges_error [OF assms(1), of cs 0 now] assms(3) by (auto simp: charges_ok_def)
  with False show ?thesis by (intro fails [of e be1]) (auto simp: tryAcquire_def)
qed

lemma current_charged:
  assumes "backend_ok now be" "mb_rules be k = Some r" "bucket_of be k = charged now c b" "bucket_ok now b"
    "bk_events b = filter (\<lambda>e. now - rule_Window r < ev_at e) (bk_events b)"
  shows "current be now k = charged now c b"
proof -
  have "0 < rule_Window r" using backend_ok_rule [OF assms(1,2)] by (simp add: rule_ok_def)
  then have "filter (\<lambda>e. now - rule_Window r < ev_at e) (bk_events (charged now c b)) = bk_events (charged now c b)"
    using assms(5) [symmetric] by (simp add: charged_def)
  moreover have "bucket_ok now (charged now c b)" using bucket_ok_of [OF assms(1), of k] assms(3) by simp
  ultimately show ?thesis
    using assms(2,3) by (simp add: current_def prune_bucket_eq Let_def) (simp add: charged_def bucket_ok_def)
qed

lemma granted_effect:
  assumes "backend_ok now be" "charges_ok cs" "backend_ok now be1" "same_view now be be1"
    "\<forall>c \<in> set cs. charge_allowed be now c"
  shows "backend_ok now (commit_charges now cs be1) \<and>
    mb_rules (commit_charges now cs be1) = mb_rules be \<and>
    (\<forall>c \<in> set cs. bucket_of (commit_charges now cs be1) (charge_Key c) = charged now c (current be now (charge_Key c))) \<and>
    (\<forall>k. k \<notin> charge_Key ` set cs \<longrightarrow> bucket_of (commit_charges now cs be1) k = bucket_of be1 k) \<and>
    (\<forall>c \<in> set cs. current (commit_charges now cs be1) now (charge_Key c) = charged now c (current be now (charge_Key c))) \<and>
    (\<forall>k. k \<notin> charge_Key ` set cs \<longrightarrow> current (commit_charges now cs be1) now k = current be now k)"
proof -
  let ?be = "commit_charges now cs be1"
  have view: "mb_rules be1 = mb_rules be" "current be1 now = current be now"
    using assms(4) by (auto simp: same_view_def)
  have "\<forall>c \<in> set cs. charge_allowed be1 now c \<and> 0 < charge_Units c"
    using assms(2,5) by (auto simp: charge_allowed_def charges_ok_def view)
  from commit_charges_ok [OF assms(3) _ this] assms(2)
  have ok: "backend_ok now ?be" and rules: "mb_rules ?be = mb_rules be"
    and chg: "\<And>c. c \<in> set cs \<Longrightarrow> bucket_of ?be (charge_Key c) = charged now c (current be now (charge_Key c))"
    and oth: "\<And>k. k \<notin> charge_Key ` set cs \<Longrightarrow> bucket_of ?be k = bucket_of be1 k"
    by (auto simp: charges_ok_def view)
  have "current ?be now (charge_Key c) = charged now c (current be now (charge_Key c))" if c: "c \<in> set cs" for c
  proof -
    obtain r where r: "mb_rules be (charge_Key c) = Some r"
      using assms(5) c by (auto simp: charge_allowed_def)
    show ?thesis
      using ok r rules chg [OF c] bucket_ok_current [OF assms(1)] current_events(1) [OF assms(1) r]
      by (intro current_charged) auto
  qed
  moreover have "current ?be now k = current be now k" if "k \<notin> charge_Key ` set cs" for k
    using oth [OF that] view by (metis current_def rules)
  ultimately show ?thesis using ok rules chg oth by blast
qed


section \<open>Waiting is enough\<close>

lemma charge_wait_later:
  assumes "backend_ok now be" "0 < now" "charge_fits be c" "0 < charge_Units c"
    "charge_wait be now c \<le> t" "now \<le> t"
  shows "charge_wait be t c = 0"
proof -
  obtain r where r: "mb_rules be (charge_Key c) = Some r" "charge_Units c \<le> rule_Limit r"
    using assms(3) by (auto simp: charge_fits_def)
  let ?b = "current be now (charge_Key c)" and ?b' = "current be t (charge_Key c)"
  have ok: "bucket_ok now ?b" using assms(1) by (rule bucket_ok_current)
  have ev: "bk_events ?b' = filter (\<lambda>e. t - rule_Window r < ev_at e) (bk_events ?b)"
    using current_later(1) [OF assms(1) r(1) assms(6)] .
  have used: "bk_used ?b' = units_of (bk_events ?b')" "bk_used ?b = units_of (bk_events ?b)"
    using current_events(2) [OF assms(1) r(1)] by auto
  have pos: "\<forall>e \<in> set (bk_events ?b). 0 < ev_units e" using ok by (simp add: bucket_ok_def)
  have "bk_used ?b' + charge_Units c \<le> rule_Limit r"
  proof (cases "bk_used ?b + charge_Units c \<le> rule_Limit r")
    case True
    have "units_of (filter (\<lambda>e. t - rule_Window r < ev_at e) (bk_events ?b)) \<le> units_of (filter (\<lambda>_. True) (bk_events ?b))"
      using pos by (intro sum_list_filter_mono) auto
    with True show ?thesis by (simp add: used ev)
  next
    case False
    let ?n = "bk_used ?b + charge_Units c - rule_Limit r"
    let ?x = "eventExpiration (bk_events ?b) ?n (rule_Window r)"
    have "?x \<le> t" using assms(5) False r(1) by (simp add: charge_wait_def Let_def)
    have "units_of (filter (\<lambda>e. ?x - rule_Window r < ev_at e) (bk_events ?b)) \<le> units_of (bk_events ?b) - ?n"
      using ok False r(2) int64_between [of "bk_used ?b" ?n]
      by (intro eventExpiration_enough [THEN conjunct1]) (auto simp: bucket_ok_def)
    moreover have "units_of (filter (\<lambda>e. t - rule_Window r < ev_at e) (bk_events ?b))
        \<le> units_of (filter (\<lambda>e. ?x - rule_Window r < ev_at e) (bk_events ?b))"
      using pos \<open>?x \<le> t\<close> by (intro sum_list_filter_mono) auto
    ultimately show ?thesis by (simp add: used ev)
  qed
  moreover have "bk_blockedUntil ?b' \<le> t"
    using current_later(2) [OF assms(1) r(1) assms(6)] assms(5,6) r(1)
    by (auto simp: charge_wait_def Let_def split: if_splits)
  ultimately show ?thesis using r(1) by (simp add: charge_wait_def Let_def)
qed

lemma tryAcquire_after_wait:
  assumes "backend_ok now be" "0 < now" "charges_ok cs" "tryAcquire now cs be = (Inr t, be')" "t \<noteq> 0" "t \<le> t'"
  shows "now < t \<and> backend_ok now be' \<and> same_view now be be' \<and> fst (tryAcquire t' cs be') = Inr 0"
  using assms(1-3)
proof (cases rule: tryAcquire_cases)
  case (waits be1)
  with assms(4) have t: "t = total_wait be now cs 0" "be' = be1" by auto
  have zero: "charge_wait be' t' c = 0" if c: "c \<in> set cs" for c
  proof -
    have "charge_wait be t' c = 0"
      using waits c assms t total_wait_ge_charge [OF c, of be now 0]
      by (intro charge_wait_later [of now]) (auto simp: charges_ok_def)
    then show ?thesis using charge_wait_same_view [OF waits(4), of t' c] t waits(2) assms(6) by simp
  qed
  have "total_wait be' t' cs 0 = 0"
    using total_wait_cases [of be' t' cs 0] zero by fastforce
  moreover have "backend_ok t' be'" using waits(2,3) t assms(6) by (auto intro: backend_ok_mono [of now])
  moreover have "\<forall>c \<in> set cs. charge_fits be' c \<and> 0 < charge_Units c"
    using waits(4,5) t assms(3) charge_fits_same_view by (auto simp: charges_ok_def)
  ultimately have "fst (tryAcquire t' cs be') = Inr 0"
    using check_charges_ok [of t' be' cs 0 t'] by (auto simp: tryAcquire_def)
  with waits t show ?thesis by simp
qed (use assms(4,5) in auto)

section \<open>The other operations keep the backend well formed\<close>

lemma backend_ok_new [simp]: "backend_ok now newMemoryBackend"
  by (simp add: backend_ok_def newMemoryBackend_def)

lemma backend_ok_SetRule:
  "backend_ok now be \<Longrightarrow> rule_ok r \<Longrightarrow> backend_ok now (memoryBackend_SetRule r be)"
  by (auto simp: backend_ok_def memoryBackend_SetRule_def Let_def)







section \<open>Runs of the limiter\<close>


definition log_units :: "(string \<times> int \<times> int) list \<Rightarrow> string \<Rightarrow> (int \<Rightarrow> bool) \<Rightarrow> int" where
  "log_units lg k P = sum_list (map (\<lambda>(_, _, u). u) (filter (\<lambda>(k', ts, _). k' = k \<and> P ts) lg))"






lemma log_units_append [simp]: "log_units (a @ b) k P = log_units a k P + log_units b k P"
  by (simp add: log_units_def)

lemma log_units_forget [simp]:
  "log_units (filter (\<lambda>(k, _). k \<noteq> k') lg) k P = (if k = k' then 0 else log_units lg k P)"
  by (induction lg) (auto simp: log_units_def)


lemma log_units_cong:
  assumes "\<And>k ts u. (k, ts, u) \<in> set lg \<Longrightarrow> P ts = Q ts"
  shows "log_units lg k P = log_units lg k Q"
  unfolding log_units_def using assms by (intro arg_cong [of _ _ "\<lambda>xs. sum_list (map _ xs)"] filter_cong) auto


















section \<open>The contract of a limiter backend\<close>

text \<open>
  What \<open>Backend\<close> promises to \<open>Wait\<close>: an attempt is atomic, never pushes a rule over its
  limit, and when it asks the caller to wait, waiting that long is enough.
\<close>

locale limiter_backend =
  fixes acquire :: "int \<Rightarrow> Charge list \<Rightarrow> 'b \<Rightarrow> int result \<times> 'b"
    and used :: "'b \<Rightarrow> int \<Rightarrow> string \<Rightarrow> int"
    and limit_of :: "'b \<Rightarrow> string \<Rightarrow> int option"
    and ok :: "int \<Rightarrow> 'b \<Rightarrow> bool"
  assumes ok_later: "ok now b \<Longrightarrow> now \<le> t \<Longrightarrow> ok t b"
    and acquire_ok: "ok now b \<Longrightarrow> 0 < now \<Longrightarrow> charges_ok cs \<Longrightarrow> acquire now cs b = (res, b') \<Longrightarrow> ok now b'"
    and acquire_all: "ok now b \<Longrightarrow> 0 < now \<Longrightarrow> charges_ok cs \<Longrightarrow> acquire now cs b = (Inr 0, b') \<Longrightarrow> c \<in> set cs \<Longrightarrow>
      \<exists>l. limit_of b' (charge_Key c) = Some l \<and> used b' now (charge_Key c) \<le> l \<and>
          used b' now (charge_Key c) = used b now (charge_Key c) + charge_Units c"
    and acquire_none: "ok now b \<Longrightarrow> 0 < now \<Longrightarrow> charges_ok cs \<Longrightarrow> acquire now cs b = (res, b') \<Longrightarrow> res \<noteq> Inr 0 \<Longrightarrow>
      now \<le> t \<Longrightarrow> used b' t k = used b t k"
    and acquire_wait: "ok now b \<Longrightarrow> 0 < now \<Longrightarrow> charges_ok cs \<Longrightarrow> acquire now cs b = (Inr u, b') \<Longrightarrow> u \<noteq> 0 \<Longrightarrow> u \<le> t \<Longrightarrow>
      now < u \<and> fst (acquire t cs b') = Inr 0"
begin

lemma passes_mono: "ww_now w \<le> ww_now (time_passes w)"
  by (auto simp: time_passes_def split: list.splits)

lemma timer_fired: "select_timer d w = (None, w') \<Longrightarrow> 0 < d \<Longrightarrow> ww_now w' = ww_now w + d"
  by (auto simp: select_timer_def Let_def split: option.splits prod.splits if_splits)

text \<open>Alone on the backend, \<open>Wait\<close> makes at most two attempts.\<close>

lemma wait_two_rounds:
  assumes ok: "ok (ww_now w) b" and pos: "0 < ww_now w" and cs: "charges_ok cs"
  shows "\<exists>res. wait_loop acquire (Suc (Suc n)) cs w b = Some res"
proof -
  let ?w1 = "time_passes w"
  let ?t1 = "ww_now ?w1"
  have t1: "0 < ?t1" "ok ?t1 b" using passes_mono [of w] pos ok_later [OF ok] by auto
  have second: "\<exists>res. wait_loop acquire (Suc n) cs w2 b' = Some res"
    if "acquire ?t1 cs b = (Inr u, b')" "u \<noteq> 0" "u \<le> ww_now w2" for u b' w2
  proof -
    have "u \<le> ww_now (time_passes w2)" using that(3) passes_mono [of w2] by simp
    then have "fst (acquire (ww_now (time_passes w2)) cs b') = Inr 0"
      using acquire_wait [OF t1(2,1) cs that(1,2)] by blast
    then obtain b'' where "acquire (ww_now (time_passes w2)) cs b' = (Inr 0, b'')" by (metis prod.collapse)
    then show ?thesis by simp
  qed
  obtain res b' where acq: "acquire ?t1 cs b = (res, b')" by fastforce
  show ?thesis
  proof (cases res)
    case (Inr u)
    let ?w2 = "time_passes ?w1"
    show ?thesis
    proof (cases "u = 0 \<or> u \<le> ww_now ?w2")
      case True
      with second acq Inr show ?thesis by (auto simp del: wait_loop.simps(2) simp: wait_loop.simps(2) [of _ "Suc n"] Let_def)
    next
      case False
      obtain err w3 where sel: "select_timer (u - ww_now ?w2) ?w2 = (err, w3)" by fastforce
      show ?thesis
      proof (cases err)
        case None
        then have "u \<le> ww_now w3" using timer_fired sel False by force
        with second acq Inr False sel None show ?thesis
          by (auto simp del: wait_loop.simps(2) simp: wait_loop.simps(2) [of _ "Suc n"] Let_def)
      qed (use acq Inr False sel in \<open>simp add: Let_def\<close>)
    qed
  qed (use acq in simp)
qed

text \<open>When \<open>Wait\<close> returns nil, every rule was charged and none is over its limit.\<close>

lemma wait_grants:
  assumes "wait_loop acquire n cs w b = Some (None, w', b')" "ok (ww_now w) b" "0 < ww_now w" "charges_ok cs"
    "c \<in> set cs"
  shows "\<exists>l. limit_of b' (charge_Key c) = Some l \<and> used b' (ww_now w') (charge_Key c) \<le> l \<and>
    used b' (ww_now w') (charge_Key c) = used b (ww_now w') (charge_Key c) + charge_Units c \<and> ww_now w \<le> ww_now w'"
  using assms(1-3)
proof (induction n arbitrary: w b)
  case (Suc n)
  let ?w1 = "time_passes w"
  let ?t1 = "ww_now ?w1"
  have t1: "0 < ?t1" "ok ?t1 b" "ww_now w \<le> ?t1" using passes_mono [of w] Suc.prems ok_later by auto
  obtain res b1 where acq: "acquire ?t1 cs b = (res, b1)" by fastforce
  show ?case
  proof (cases "res = Inr 0")
    case True
    with Suc.prems acq have "w' = ?w1" "b' = b1" by auto
    then show ?thesis using acquire_all [OF t1(2,1) assms(4) _ assms(5)] acq True t1(3) by auto
  next
    case False
    have ok1: "ok ?t1 b1" using acquire_ok [OF t1(2,1) assms(4) acq] .
    have unch: "used b1 t k = used b t k" if "?t1 \<le> t" for t k
      using acquire_none [OF t1(2,1) assms(4) acq False that] .
    have rest: ?thesis if w2: "?t1 \<le> ww_now w2" "wait_loop acquire n cs w2 b1 = Some (None, w', b')" for w2
      using Suc.IH [OF w2(2) ok_later [OF ok1 w2(1)]] t1 w2 unch [of "ww_now w'"] by force
    from False acq Suc.prems(1) obtain u where u: "res = Inr u" "u \<noteq> 0" by (cases res) auto
    let ?w2 = "time_passes ?w1"
    show ?thesis
    proof (cases "u \<le> ww_now ?w2")
      case True
      with Suc.prems(1) acq u show ?thesis by (intro rest [of ?w2] passes_mono) (simp add: Let_def)
    next
      case False
      obtain err w3 where sel: "select_timer (u - ww_now ?w2) ?w2 = (err, w3)" by fastforce
      with False Suc.prems(1) acq u have "err = None" "wait_loop acquire n cs w3 b1 = Some (None, w', b')"
        by (auto simp: Let_def split: option.splits)
      moreover from this have "?t1 \<le> ww_now w3" using timer_fired [of _ ?w2 w3] sel False passes_mono [of ?w1] by force
      ultimately show ?thesis by (intro rest)
    qed
  qed
qed simp

end

lemma grant_result:
  assumes "backend_ok now be" "0 < now" "charges_ok cs" "tryAcquire now cs be = (Inr 0, be')"
  shows "backend_ok now be' \<and> mb_rules be' = mb_rules be \<and>
    (\<forall>c \<in> set cs. charge_allowed be now c \<and> bk_blockedUntil (current be now (charge_Key c)) \<le> now \<and>
       current be' now (charge_Key c) = charged now c (current be now (charge_Key c))) \<and>
    (\<forall>k. k \<notin> charge_Key ` set cs \<longrightarrow> current be' now k = current be now k)"
  using assms(1-3)
proof (cases rule: tryAcquire_cases)
  case (granted be1)
  then have "be' = commit_charges now cs be1" using assms(4) by simp
  with granted granted_effect [OF assms(1,3) granted(2,3)] show ?thesis by auto
qed (use assms(2,4) in auto)

lemma refusal_result:
  assumes "backend_ok now be" "0 < now" "charges_ok cs" "tryAcquire now cs be = (res, be')" "res \<noteq> Inr 0"
  shows "backend_ok now be' \<and> same_view now be be'"
  using assms(1-3)
  by (cases rule: tryAcquire_cases) (use assms(4,5) in auto)

interpretation memory_backend: limiter_backend
  tryAcquire "\<lambda>be t k. bk_used (current be t k)" "\<lambda>be k. map_option rule_Limit (mb_rules be k)" backend_ok
proof unfold_locales
  fix now t be be' cs c k res u
  show "backend_ok now be \<Longrightarrow> now \<le> t \<Longrightarrow> backend_ok t be" by (rule backend_ok_mono)
  assume pre: "backend_ok now be" "0 < now" "charges_ok cs"
  show "tryAcquire now cs be = (res, be') \<Longrightarrow> backend_ok now be'"
    using grant_result [OF pre, of be'] refusal_result [OF pre, of res be'] by (cases "res = Inr 0") auto
  show "tryAcquire now cs be = (Inr 0, be') \<Longrightarrow> c \<in> set cs \<Longrightarrow>
      \<exists>l. map_option rule_Limit (mb_rules be' (charge_Key c)) = Some l \<and>
        bk_used (current be' now (charge_Key c)) \<le> l \<and>
        bk_used (current be' now (charge_Key c)) = bk_used (current be now (charge_Key c)) + charge_Units c"
    using grant_result [OF pre, of be'] by (auto simp: charge_allowed_def charged_def)
  show "tryAcquire now cs be = (res, be') \<Longrightarrow> res \<noteq> Inr 0 \<Longrightarrow> now \<le> t \<Longrightarrow>
      bk_used (current be' t k) = bk_used (current be t k)"
    using refusal_result [OF pre, of res be'] by (auto simp: same_view_def)
  show "tryAcquire now cs be = (Inr u, be') \<Longrightarrow> u \<noteq> 0 \<Longrightarrow> u \<le> t \<Longrightarrow> now < u \<and> fst (tryAcquire t cs be') = Inr 0"
    using tryAcquire_after_wait [OF pre, of u be' t] by blast
qed

section \<open>Normalised charges\<close>

definition units_for :: "string \<Rightarrow> Charge list \<Rightarrow> int" where
  "units_for k cs = sum_list (map charge_Units (filter (\<lambda>c. TrimSpace (charge_Key c) = k) cs))"

lemma combine_charges_spec:
  assumes "combine_charges cs m = Inr m'" "distinct (map fst m)"
  shows "distinct (map fst m') \<and>
    (\<forall>k. map_of m' k =
       (if k \<in> (\<lambda>c. TrimSpace (charge_Key c)) ` set cs
        then Some (wrap64 ((case map_of m k of None \<Rightarrow> 0 | Some u \<Rightarrow> u) + units_for k cs))
        else map_of m k)) \<and> (\<forall>c \<in> set cs. TrimSpace (charge_Key c) \<noteq> [] \<and> 0 < charge_Units c)"
  using assms
proof (induction cs arbitrary: m)
  case (Cons c cs)
  let ?k = "TrimSpace (charge_Key c)"
  let ?u = "wrap64 ((case map_of m ?k of None \<Rightarrow> 0 | Some u \<Rightarrow> u) + charge_Units c)"
  let ?m = "AList.update ?k ?u m"
  have guard: "?k \<noteq> []" "0 < charge_Units c" and rest: "combine_charges cs ?m = Inr m'"
    using Cons.prems(1) by (auto simp: Let_def split: if_splits)
  have "distinct (map fst ?m)" using Cons.prems(2) by (rule distinct_update)
  note IH = Cons.IH [OF rest this]
  have split: "units_for k (c # cs) = (if k = ?k then charge_Units c + units_for k cs else units_for k cs)" for k
    by (auto simp: units_for_def)
  have none: "units_for k cs = 0" if "k \<notin> (\<lambda>c. TrimSpace (charge_Key c)) ` set cs" for k
  proof -
    have "filter (\<lambda>c. TrimSpace (charge_Key c) = k) cs = []" using that by (auto simp: filter_empty_conv)
    then show ?thesis by (simp add: units_for_def)
  qed
  have "map_of m' k = (if k \<in> (\<lambda>c. TrimSpace (charge_Key c)) ` set (c # cs)
        then Some (wrap64 ((case map_of m k of None \<Rightarrow> 0 | Some u \<Rightarrow> u) + units_for k (c # cs)))
        else map_of m k)" for k
    using IH none [of k] by (auto simp: split go_map_simps wrap_simps algebra_simps split: if_splits)
  with IH guard show ?case by auto
qed simp

lemma normalizeCharges_spec:
  assumes "normalizeCharges cs = Inr ns"
  shows "sorted (map charge_Key ns)" "distinct (map charge_Key ns)"
    "set (map charge_Key ns) = (\<lambda>c. TrimSpace (charge_Key c)) ` set cs"
    "\<And>n. n \<in> set ns \<Longrightarrow> charge_Units n = wrap64 (units_for (charge_Key n) cs)"
    "\<And>c. c \<in> set cs \<Longrightarrow> TrimSpace (charge_Key c) \<noteq> [] \<and> 0 < charge_Units c"
proof -
  obtain m where m: "combine_charges cs [] = Inr m"
    and ns: "ns = map (\<lambda>(key, units). \<lparr>charge_Key = key, charge_Units = units\<rparr>) (sort_key fst m)"
    using assms by (auto simp: normalizeCharges_def split: sum.splits)
  note spec = combine_charges_spec [OF m]
  have keys: "map charge_Key ns = map fst (sort_key fst m)" by (simp add: ns case_prod_unfold)
  show "sorted (map charge_Key ns)" by (simp add: keys)
  have dist: "distinct (map fst m)" using spec by simp
  have "mset (map fst (sort_key fst m)) = mset (map fst m)" by simp
  then show "distinct (map charge_Key ns)" using dist unfolding keys by (rule mset_eq_imp_distinct_iff [THEN iffD2])
  have dom: "fst ` set m = (\<lambda>c. TrimSpace (charge_Key c)) ` set cs"
    using spec by (simp add: dom_map_of_conv_image_fst [symmetric] dom_def)
  then show "set (map charge_Key ns) = (\<lambda>c. TrimSpace (charge_Key c)) ` set cs" unfolding keys by simp
  show "charge_Units n = wrap64 (units_for (charge_Key n) cs)" if n: "n \<in> set ns" for n
  proof -
    obtain k u where "(k, u) \<in> set m" "n = \<lparr>charge_Key = k, charge_Units = u\<rparr>" using n by (auto simp: ns)
    then have "map_of m k = Some u" using dist by simp
    with spec \<open>n = _\<close> show ?thesis by (auto split: if_splits)
  qed
  show "\<And>c. c \<in> set cs \<Longrightarrow> TrimSpace (charge_Key c) \<noteq> [] \<and> 0 < charge_Units c" using spec by auto
qed

lemma units_for_pos:
  assumes "\<And>c. c \<in> set cs \<Longrightarrow> 0 < charge_Units c" "k \<in> (\<lambda>c. TrimSpace (charge_Key c)) ` set cs"
  shows "0 < units_for k cs"
proof -
  obtain c where c: "c \<in> set cs" "TrimSpace (charge_Key c) = k" using assms(2) by auto
  let ?f = "filter (\<lambda>c. TrimSpace (charge_Key c) = k) cs"
  have "c \<in> set ?f" using c by simp
  then have "charge_Units c \<le> sum_list (map charge_Units ?f)"
    using assms(1) by (intro member_le_sum_list) (auto intro: less_imp_le)
  with assms(1) [OF c(1)] show ?thesis by (simp add: units_for_def)
qed

section \<open>Properties\<close>

definition demo_backend :: memoryBackend where
  "demo_backend = memoryBackend_SetRule \<lparr>rule_Key = ''k'', rule_Limit = 2, rule_Window = 10\<rparr> newMemoryBackend"

definition demo_charges :: "Charge list" where
  "demo_charges = [\<lparr>charge_Key = ''k'', charge_Units = 2\<rparr>]"

lemma demo_ok: "backend_ok now demo_backend" "charges_ok demo_charges"
  by (auto simp: demo_backend_def demo_charges_def charges_ok_def rule_ok_def int64_def intro!: backend_ok_SetRule)

lemmas demo_simps = demo_backend_def demo_charges_def memoryBackend_SetRule_def newMemoryBackend_def emptyBucket_def
  tryAcquire_def bucketFor_def prune_bucket_def check_charges.simps(2) Let_def wrap64_def




text \<open>A grant is atomic: every charged rule exists, was not blocked, and had room; afterwards
  each of them has exactly the charged units more (recorded at this instant), is not over its
  limit, and every other rule is as before.\<close>

theorem tryAcquire_grant_atomic:
  assumes "backend_ok now be" "0 < now" "charges_ok cs" "tryAcquire now cs be = (Inr 0, be')"
  shows "(\<forall>c \<in> set cs. \<exists>r. mb_rules be (charge_Key c) = Some r \<and>
            bk_blockedUntil (current be now (charge_Key c)) \<le> now \<and>
            current be' now (charge_Key c) = charged now c (current be now (charge_Key c)) \<and>
            bk_used (current be' now (charge_Key c)) \<le> rule_Limit r) \<and>
         (\<forall>k. k \<notin> charge_Key ` set cs \<longrightarrow> current be' now k = current be now k) \<and>
         mb_rules be' = mb_rules be \<and> backend_ok now be'"
  using grant_result [OF assms] by (fastforce simp: charge_allowed_def charged_def)

theorem tryAcquire_grant_atomic_witness:
  "tryAcquire 100 demo_charges demo_backend = (Inr 0, snd (tryAcquire 100 demo_charges demo_backend)) \<and>
   bk_used (current (snd (tryAcquire 100 demo_charges demo_backend)) 100 ''k'') \<le> 2"
proof -
  have "fst (tryAcquire 100 demo_charges demo_backend) = Inr 0" by (simp add: demo_simps)
  then have g: "tryAcquire 100 demo_charges demo_backend = (Inr 0, snd (tryAcquire 100 demo_charges demo_backend))"
    by (metis prod.collapse)
  from tryAcquire_grant_atomic [OF demo_ok(1) _ demo_ok(2) g] g show ?thesis
    by (auto simp: demo_charges_def demo_backend_def memoryBackend_SetRule_def newMemoryBackend_def)
qed

text \<open>A refusal charges nothing: when \<open>tryAcquire\<close> asks to wait or fails, the usage of every
  rule, now and at any later time, is what it was.\<close>

theorem tryAcquire_refusal_charges_nothing:
  assumes "backend_ok now be" "0 < now" "charges_ok cs" "tryAcquire now cs be = (res, be')" "res \<noteq> Inr 0"
    "now \<le> t"
  shows "current be' t k = current be t k \<and> mb_rules be' = mb_rules be"
  using refusal_result [OF assms(1-5)] assms(6) by (simp add: same_view_def)

theorem tryAcquire_refusal_charges_nothing_witness:
  "let cs = [\<lparr>charge_Key = ''k'', charge_Units = 3\<rparr>]
   in fst (tryAcquire 100 cs demo_backend) \<noteq> Inr 0 \<and>
      current (snd (tryAcquire 100 cs demo_backend)) 101 ''k'' = current demo_backend 101 ''k''"
proof -
  let ?cs = "[\<lparr>charge_Key = ''k'', charge_Units = 3\<rparr>]"
  have "fst (tryAcquire 100 ?cs demo_backend) \<noteq> Inr 0" by (simp add: demo_simps)
  with tryAcquire_refusal_charges_nothing [OF demo_ok(1), of 100 ?cs "fst (tryAcquire 100 ?cs demo_backend)"
      "snd (tryAcquire 100 ?cs demo_backend)" 101 "''k''"]
  show ?thesis by (simp add: charges_ok_def)
qed

text \<open>C35. Waiting is enough: when \<open>tryAcquire\<close> answers with a time, that time is in the future and
  the same charges are granted at any time from then on if nobody else used the limiter.\<close>

theorem tryAcquire_wait_is_enough:
  assumes "backend_ok now be" "0 < now" "charges_ok cs" "tryAcquire now cs be = (Inr u, be')" "u \<noteq> 0" "u \<le> t"
  shows "now < u \<and> fst (tryAcquire t cs be') = Inr 0"
  by (rule memory_backend.acquire_wait [OF assms])

theorem tryAcquire_wait_is_enough_witness:
  "let be = snd (tryAcquire 100 demo_charges demo_backend)
   in fst (tryAcquire 101 demo_charges be) = Inr 110 \<and>
      fst (tryAcquire 110 demo_charges (snd (tryAcquire 101 demo_charges be))) = Inr 0"
proof -
  let ?be = "snd (tryAcquire 100 demo_charges demo_backend)"
  have ok: "backend_ok 101 ?be"
    using memory_backend.acquire_ok [OF demo_ok(1) _ demo_ok(2) prod.collapse [symmetric], of 100] backend_ok_mono by simp
  have r: "fst (tryAcquire 101 demo_charges ?be) = Inr 110" by (simp add: demo_simps)
  then have "tryAcquire 101 demo_charges ?be = (Inr 110, snd (tryAcquire 101 demo_charges ?be))" by (metis prod.collapse)
  from tryAcquire_wait_is_enough [OF ok _ demo_ok(2) this, of 110] r show ?thesis by (simp add: Let_def)
qed




text \<open>Normalising charges merges those with the same trimmed key: the result has one charge
  per key, sorted by key, with the sum of the units; if no sum leaves the 64-bit range the
  charges are in order for the backend.\<close>

theorem normalizeCharges_merges:
  assumes "normalizeCharges cs = Inr ns" and "\<And>k. int64 (units_for k cs)"
  shows "sorted (map charge_Key ns) \<and> charges_ok ns \<and>
    set (map charge_Key ns) = (\<lambda>c. TrimSpace (charge_Key c)) ` set cs \<and>
    (\<forall>n \<in> set ns. charge_Units n = units_for (charge_Key n) cs)"
proof -
  note spec = normalizeCharges_spec [OF assms(1)]
  have units: "charge_Units n = units_for (charge_Key n) cs" if "n \<in> set ns" for n
    using spec(4) [OF that] wrap64_id [OF assms(2)] by simp
  have "0 < units_for (charge_Key n) cs" if "n \<in> set ns" for n
    using spec(3,5) that by (intro units_for_pos) auto
  with spec units show ?thesis by (auto simp: charges_ok_def)
qed

theorem normalizeCharges_merges_witness:
  "let cs = [\<lparr>charge_Key = ''b'', charge_Units = 1\<rparr>, \<lparr>charge_Key = ''a'', charge_Units = 2\<rparr>, \<lparr>charge_Key = ''b'', charge_Units = 4\<rparr>];
       ns = [\<lparr>charge_Key = ''a'', charge_Units = 2\<rparr>, \<lparr>charge_Key = ''b'', charge_Units = 5\<rparr>]
   in normalizeCharges cs = Inr ns \<and> charges_ok ns"
proof -
  let ?cs = "[\<lparr>charge_Key = ''b'', charge_Units = 1\<rparr>, \<lparr>charge_Key = ''a'', charge_Units = 2\<rparr>, \<lparr>charge_Key = ''b'', charge_Units = 4\<rparr>]"
  let ?ns = "[\<lparr>charge_Key = ''a'', charge_Units = 2\<rparr>, \<lparr>charge_Key = ''b'', charge_Units = 5\<rparr>]"
  have n: "normalizeCharges ?cs = Inr ?ns" by code_simp
  have "int64 (units_for k ?cs)" for k by (simp add: units_for_def int64_def)
  from normalizeCharges_merges [OF n this] n show ?thesis by (simp add: Let_def)
qed

text \<open>Without that bound the sum wraps: two charges of the largest 64-bit value on one key
  normalise to a charge of minus two units, which the backend grants at once and which lowers
  the recorded usage below zero.\<close>

theorem normalizeCharges_overflow:
  "let big = \<lparr>charge_Key = ''k'', charge_Units = 2 ^ 63 - 1\<rparr>;
       ns = [\<lparr>charge_Key = ''k'', charge_Units = - 2\<rparr>]
   in normalizeCharges [big, big] = Inr ns \<and>
      fst (tryAcquire 100 ns demo_backend) = Inr 0 \<and>
      bk_used (current (snd (tryAcquire 100 ns demo_backend)) 100 ''k'') = - 2"
proof -
  have "normalizeCharges [\<lparr>charge_Key = ''k'', charge_Units = 9223372036854775807\<rparr>,
      \<lparr>charge_Key = ''k'', charge_Units = 9223372036854775807\<rparr>] = Inr [\<lparr>charge_Key = ''k'', charge_Units = - 2\<rparr>]"
    by code_simp
  then show ?thesis
    by (simp add: Let_def) (simp add: demo_simps current_def bucket_of_def)
qed

end
