(* ===== verification/Credential_Policy.thy ===== *)
theory Credential_Policy
  imports Trade_Core
begin

text \<open>
  Package \<open>credential\<close> (\<open>credential/credential.go\<close>): the metadata of an account with its
  permission and egress-route allow lists, and the secret material with its destruction.

  Byte slices are modelled with the memory they share: a slice is an array, an offset and a
  length, and \<open>Destroy\<close> writes through it, so that aliasing slices are covered too.
\<close>

section \<open>Descriptors\<close>

type_synonym Permission = string

abbreviation PermissionRead :: Permission where "PermissionRead \<equiv> ''read''"
abbreviation PermissionTrade :: Permission where "PermissionTrade \<equiv> ''trade''"

record Descriptor =
  de_AccountID :: string
  de_Exchange :: ExchangeID
  de_SecretRef :: string
  de_Permissions :: "Permission list"
  de_AllowedEgressRouteIDs :: "EgressRouteID list"

abbreviation invalidDescriptor :: "string \<Rightarrow> go_arg list \<Rightarrow> go_error" where
  "invalidDescriptor f args \<equiv> Errorf f args [Sentinel ErrInvalidDescriptor]"

fun check_permissions :: "Permission list \<Rightarrow> Permission set \<Rightarrow> go_error option" where
  "check_permissions [] seen = None"
| "check_permissions (p # ps) seen =
     (if p \<noteq> PermissionRead \<and> p \<noteq> PermissionTrade
      then Some (invalidDescriptor ''%w: unknown permission %q'' [StrArg p])
      else if p \<in> seen then Some (invalidDescriptor ''%w: duplicate permission %q'' [StrArg p])
      else check_permissions ps (insert p seen))"

fun check_routes :: "EgressRouteID list \<Rightarrow> EgressRouteID set \<Rightarrow> go_error option" where
  "check_routes [] seen = None"
| "check_routes (r # rs) seen =
     (let cleanRouteID = TrimSpace r
      in if cleanRouteID = [] then Some (invalidDescriptor ''%w: allowed egress route ID is empty'' [])
         else if cleanRouteID \<noteq> r
         then Some (invalidDescriptor ''%w: allowed egress route %q has surrounding whitespace'' [StrArg r])
         else if r \<in> seen then Some (invalidDescriptor ''%w: duplicate allowed egress route %q'' [StrArg r])
         else check_routes rs (insert r seen))"

definition Descriptor_Validate :: "Descriptor \<Rightarrow> go_error option" where
  "Descriptor_Validate d =
     (if TrimSpace (de_AccountID d) = [] then Some (invalidDescriptor ''%w: account ID is required'' [])
      else if \<not> ExchangeID_Valid (de_Exchange d) then Some (invalidDescriptor ''%w: exchange is required'' [])
      else if TrimSpace (de_SecretRef d) = [] then Some (invalidDescriptor ''%w: secret reference is required'' [])
      else if de_Permissions d = [] then Some (invalidDescriptor ''%w: at least one permission is required'' [])
      else case check_permissions (de_Permissions d) {} of
             Some err \<Rightarrow> Some err
           | None \<Rightarrow>
               if de_AllowedEgressRouteIDs d = []
               then Some (invalidDescriptor ''%w: at least one allowed egress route is required'' [])
               else check_routes (de_AllowedEgressRouteIDs d) {})"

definition AllowsEgressRoute :: "Descriptor \<Rightarrow> EgressRouteID \<Rightarrow> bool" where
  "AllowsEgressRoute d r \<longleftrightarrow> r \<in> set (de_AllowedEgressRouteIDs d)"

definition AllowsPermission :: "Descriptor \<Rightarrow> Permission \<Rightarrow> bool" where
  "AllowsPermission d p \<longleftrightarrow> p \<in> set (de_Permissions d)"

definition RequirePermission :: "Descriptor \<Rightarrow> Permission \<Rightarrow> go_error option" where
  "RequirePermission d p =
     (if AllowsPermission d p then None
      else Some (Errorf ''%w: account %q does not have %q permission''
                   [StrArg (de_AccountID d), StrArg p] [Sentinel ErrPermissionNotAllowed]))"

definition RequireEgressRoute :: "Descriptor \<Rightarrow> EgressRouteID \<Rightarrow> go_error option" where
  "RequireEgressRoute d r =
     (if AllowsEgressRoute d r then None
      else Some (Errorf ''%w: account %q cannot use route %q''
                   [StrArg (de_AccountID d), StrArg r] [Sentinel ErrEgressRouteNotAllowed]))"

section \<open>Secret material\<close>

type_synonym byte_heap = "nat \<Rightarrow> 8 word list"

record byte_slice =
  sl_array :: nat
  sl_offset :: nat
  sl_len :: nat

record Material =
  mt_APIKey :: byte_slice
  mt_SecretKey :: byte_slice
  mt_Passphrase :: byte_slice
  mt_Extra :: "(string, byte_slice) gomap"

definition slice_get :: "byte_heap \<Rightarrow> byte_slice \<Rightarrow> nat \<Rightarrow> 8 word" where
  "slice_get h s i = h (sl_array s) ! (sl_offset s + i)"

definition slice_set :: "byte_slice \<Rightarrow> nat \<Rightarrow> 8 word \<Rightarrow> byte_heap \<Rightarrow> byte_heap" where
  "slice_set s i b h = h(sl_array s := (h (sl_array s))[sl_offset s + i := b])"

definition zero_slice :: "byte_slice \<Rightarrow> byte_heap \<Rightarrow> byte_heap" where
  "zero_slice s h = fold (\<lambda>i. slice_set s i 0) [0..<sl_len s] h"

text \<open>The range loop over \<open>Extra\<close>, which deletes every entry it has overwritten.\<close>

fun destroy_extra ::
  "(string, byte_slice) gomap \<Rightarrow> (string, byte_slice) gomap \<Rightarrow> byte_heap \<Rightarrow>
   (string, byte_slice) gomap \<times> byte_heap" where
  "destroy_extra [] extra h = (extra, h)"
| "destroy_extra ((k, s) # rest) extra h = destroy_extra rest (AList.delete k extra) (zero_slice s h)"

definition Material_Destroy :: "Material option \<Rightarrow> byte_heap \<Rightarrow> Material option \<times> byte_heap" where
  "Material_Destroy material h =
     (case material of
        None \<Rightarrow> (None, h)
      | Some m \<Rightarrow>
          let h = zero_slice (mt_APIKey m) h;
              h = zero_slice (mt_SecretKey m) h;
              h = zero_slice (mt_Passphrase m) h;
              (extra, h) = destroy_extra (mt_Extra m) (mt_Extra m) h
          in (Some (m\<lparr>mt_Extra := extra\<rparr>), h))"

section \<open>Lemmas\<close>

lemma check_permissions_None:
  "check_permissions ps seen = None \<longleftrightarrow>
     distinct ps \<and> set ps \<inter> seen = {} \<and> set ps \<subseteq> {PermissionRead, PermissionTrade}"
  by (induction ps seen rule: check_permissions.induct) auto

lemma check_routes_None:
  "check_routes rs seen = None \<longleftrightarrow>
     distinct rs \<and> set rs \<inter> seen = {} \<and> (\<forall>r \<in> set rs. r \<noteq> [] \<and> TrimSpace r = r)"
  by (induction rs seen rule: check_routes.induct) (auto simp: Let_def)

lemma check_permissions_error:
  "check_permissions ps seen = Some e \<Longrightarrow> errors_Is ErrInvalidDescriptor e"
  by (induction ps seen rule: check_permissions.induct) (auto split: if_splits)

lemma check_routes_error:
  "check_routes rs seen = Some e \<Longrightarrow> errors_Is ErrInvalidDescriptor e"
  by (induction rs seen rule: check_routes.induct) (auto simp: Let_def split: if_splits)

lemma Descriptor_Validate_None:
  "Descriptor_Validate d = None \<longleftrightarrow>
     TrimSpace (de_AccountID d) \<noteq> [] \<and> ExchangeID_Valid (de_Exchange d) \<and>
     TrimSpace (de_SecretRef d) \<noteq> [] \<and> de_Permissions d \<noteq> [] \<and>
     check_permissions (de_Permissions d) {} = None \<and>
     de_AllowedEgressRouteIDs d \<noteq> [] \<and> check_routes (de_AllowedEgressRouteIDs d) {} = None"
  by (simp add: Descriptor_Validate_def split: option.splits)

lemma Descriptor_Validate_error:
  "Descriptor_Validate d = Some e \<Longrightarrow> errors_Is ErrInvalidDescriptor e"
  by (auto simp: Descriptor_Validate_def check_permissions_error check_routes_error
      split: option.splits if_splits)

text \<open>The cells a slice covers, and what overwriting it does to memory.\<close>

definition covers :: "byte_slice \<Rightarrow> nat \<Rightarrow> nat \<Rightarrow> bool" where
  "covers s a j \<longleftrightarrow> a = sl_array s \<and> sl_offset s \<le> j \<and> j < sl_offset s + sl_len s"

lemma length_slice_set [simp]: "length (slice_set s i b h a) = length (h a)"
  by (simp add: slice_set_def)

lemma zero_upto_length: "length (fold (\<lambda>i. slice_set s i 0) [0..<n] h a) = length (h a)"
  by (induction n) simp_all

lemma zero_upto:
  "j < length (h a) \<Longrightarrow>
   fold (\<lambda>i. slice_set s i 0) [0..<n] h a ! j =
     (if a = sl_array s \<and> sl_offset s \<le> j \<and> j < sl_offset s + n then 0 else h a ! j)"
proof (induction n)
  case (Suc n)
  let ?h = "fold (\<lambda>i. slice_set s i 0) [0..<n] h"
  have "slice_set s n 0 ?h a ! j = (if a = sl_array s \<and> j = sl_offset s + n then 0 else ?h a ! j)"
    using Suc.prems zero_upto_length [of s n h a] by (auto simp: slice_set_def nth_list_update)
  with Suc show ?case by auto
qed auto

lemma zero_slice_nth:
  "j < length (h a) \<Longrightarrow> zero_slice s h a ! j = (if covers s a j then 0 else h a ! j)"
  by (simp add: zero_slice_def zero_upto covers_def)

lemma length_zero_slice [simp]: "length (zero_slice s h a) = length (h a)"
  by (simp add: zero_slice_def zero_upto_length)

lemma destroy_extra_effect:
  assumes "destroy_extra es extra h = (extra', h')"
  shows "(\<forall>a. length (h' a) = length (h a)) \<and>
     (\<forall>a j. j < length (h a) \<longrightarrow>
        h' a ! j = (if \<exists>s \<in> snd ` set es. covers s a j then 0 else h a ! j)) \<and>
     map_of extra' = (\<lambda>k. if k \<in> fst ` set es then None else map_of extra k)"
  using assms
proof (induction es extra h rule: destroy_extra.induct)
  case (2 k s rest extra h)
  then have "destroy_extra rest (AList.delete k extra) (zero_slice s h) = (extra', h')" by simp
  from 2(1) [OF this] show ?case
    by (auto simp: zero_slice_nth delete_conv' fun_eq_iff)
qed (auto simp: fun_eq_iff)

lemma Material_Destroy_effect:
  assumes "Material_Destroy (Some m) h = (m', h')"
  shows "(\<exists>d. m' = Some d \<and> mt_Extra d = []) \<and>
    (\<forall>a j. length (h' a) = length (h a) \<and>
      (j < length (h a) \<longrightarrow> h' a ! j =
        (if \<exists>s \<in> {mt_APIKey m, mt_SecretKey m, mt_Passphrase m} \<union> snd ` set (mt_Extra m). covers s a j
         then 0 else h a ! j)))"
proof -
  define h3 where "h3 = zero_slice (mt_Passphrase m) (zero_slice (mt_SecretKey m) (zero_slice (mt_APIKey m) h))"
  obtain extra where d: "destroy_extra (mt_Extra m) (mt_Extra m) h3 = (extra, h')"
    and m': "m' = Some (m\<lparr>mt_Extra := extra\<rparr>)"
    using assms by (auto simp: Material_Destroy_def h3_def Let_def split: prod.splits)
  note e = destroy_extra_effect [OF d]
  have "map_of extra k = None" for k
    using e by (cases "k \<in> fst ` set (mt_Extra m)") (auto simp: map_of_eq_None_iff)
  then have "k \<notin> fst ` set extra" for k by (simp only: map_of_eq_None_iff simp_thms)
  then have "extra = []" by (cases extra) auto
  then have "\<exists>d. m' = Some d \<and> mt_Extra d = []" by (simp add: m')
  moreover have "length (h' a) = length (h a)" for a using e by (simp add: h3_def)
  moreover have "h' a ! j =
      (if \<exists>s \<in> {mt_APIKey m, mt_SecretKey m, mt_Passphrase m} \<union> snd ` set (mt_Extra m). covers s a j
       then 0 else h a ! j)" if "j < length (h a)" for a j
    using e that by (auto simp: h3_def zero_slice_nth)
  ultimately show ?thesis by blast
qed

section \<open>Properties\<close>

text \<open>\<open>Validate\<close> accepts a descriptor exactly when its account, exchange and secret
  reference are not blank, its permissions are a non-empty duplicate-free list of known ones, and
  its route allow list is non-empty, duplicate-free and free of blank or untrimmed IDs; every
  rejection is an \<open>ErrInvalidDescriptor\<close>.\<close>

theorem Descriptor_Validate_iff:
  "(Descriptor_Validate d = None \<longleftrightarrow>
     TrimSpace (de_AccountID d) \<noteq> [] \<and> TrimSpace (de_Exchange d) \<noteq> [] \<and>
     TrimSpace (de_SecretRef d) \<noteq> [] \<and>
     de_Permissions d \<noteq> [] \<and> distinct (de_Permissions d) \<and>
     set (de_Permissions d) \<subseteq> {PermissionRead, PermissionTrade} \<and>
     de_AllowedEgressRouteIDs d \<noteq> [] \<and> distinct (de_AllowedEgressRouteIDs d) \<and>
     {r. AllowsEgressRoute d r} \<subseteq> {r. r \<noteq> [] \<and> TrimSpace r = r}) \<and>
   (Descriptor_Validate d = None \<or> errors_Is ErrInvalidDescriptor (the (Descriptor_Validate d)))"
proof
  show "Descriptor_Validate d = None \<or> errors_Is ErrInvalidDescriptor (the (Descriptor_Validate d))"
    by (cases "Descriptor_Validate d") (auto dest: Descriptor_Validate_error)
qed (auto simp: Descriptor_Validate_None ExchangeID_Valid_def check_permissions_None
      check_routes_None AllowsEgressRoute_def)

text \<open>C40. \<open>Destroy\<close> overwrites every byte that any of the material's slices can reach, also
  through overlapping slices, leaves every other byte of memory as it was, and empties the map of
  extra secrets.\<close>

theorem Material_Destroy_erases:
  assumes "Material_Destroy (Some m) h = (m', h')"
  shows "(\<exists>d. m' = Some d \<and> mt_Extra d = []) \<and>
    (\<forall>a j. length (h' a) = length (h a) \<and>
      (j < length (h a) \<longrightarrow> h' a ! j =
        (if \<exists>s \<in> {mt_APIKey m, mt_SecretKey m, mt_Passphrase m} \<union> snd ` set (mt_Extra m). covers s a j
         then 0 else h a ! j)))"
  using assms by (rule Material_Destroy_effect)

theorem Material_Destroy_erases_witness:
  "\<exists>m' h'. Material_Destroy (Some \<lparr>mt_APIKey = \<lparr>sl_array = 0, sl_offset = 0, sl_len = 2\<rparr>,
       mt_SecretKey = \<lparr>sl_array = 0, sl_offset = 1, sl_len = 2\<rparr>,
       mt_Passphrase = \<lparr>sl_array = 1, sl_offset = 0, sl_len = 0\<rparr>,
       mt_Extra = [(''pin'', \<lparr>sl_array = 1, sl_offset = 1, sl_len = 1\<rparr>)]\<rparr>)
     (\<lambda>a. if a = 0 then [1, 2, 3, 4] else [5, 6]) = (m', h') \<and>
     h' 0 ! 3 = 4 \<and> h' 0 ! 2 = 0 \<and> (\<exists>d. m' = Some d \<and> mt_Extra d = [])"
proof -
  let ?m = "\<lparr>mt_APIKey = \<lparr>sl_array = 0, sl_offset = 0, sl_len = 2\<rparr>,
       mt_SecretKey = \<lparr>sl_array = 0, sl_offset = 1, sl_len = 2\<rparr>,
       mt_Passphrase = \<lparr>sl_array = 1, sl_offset = 0, sl_len = 0\<rparr>,
       mt_Extra = [(''pin'', \<lparr>sl_array = 1, sl_offset = 1, sl_len = 1\<rparr>)]\<rparr>"
  let ?h = "\<lambda>a::nat. if a = 0 then [1, 2, 3, 4] else [5, 6 :: 8 word]"
  obtain m' h' where r: "Material_Destroy (Some ?m) ?h = (m', h')" by fastforce
  note e = Material_Destroy_erases [OF r]
  have "h' 0 ! 3 = 4" "h' 0 ! 2 = 0"
    using e [THEN conjunct2, rule_format, of 0 3] e [THEN conjunct2, rule_format, of 0 2]
    by (simp_all add: covers_def)
  with r e show ?thesis by blast
qed

end
