(* ===== verification/Egress_Transport.thy ===== *)
theory Egress_Transport
  imports Trade_Core Go_Decimal
begin

text \<open>
  Package \<open>transport\<close>: egress routes (\<open>transport/route.go\<close>), the check that an address
  belongs to the host (\<open>localaddr.go\<close>), the registry of one HTTP transport per route
  (\<open>registry.go\<close>) and the public-IP diagnosis (\<open>diagnostic.go\<close>).

  A \<open>net.IP\<close> is a byte slice that may be nil. The network itself is a parameter: the send
  function of an HTTP client or transport takes the client, the request and the state of the
  world and returns a response or an error.
\<close>

unbundle bit_operations_syntax

section \<open>IP addresses\<close>

type_synonym net_IP = "8 word list option"

definition v4InV6Prefix :: "8 word list" where
  "v4InV6Prefix = replicate 10 0 @ [0xFF, 0xFF]"

fun IP_To4 :: "net_IP \<Rightarrow> net_IP" where
  "IP_To4 None = None"
| "IP_To4 (Some b) =
     (if length b = 4 then Some b
      else if length b = 16 \<and> take 12 b = v4InV6Prefix then Some (drop 12 b)
      else None)"

definition ip_bytes :: "net_IP \<Rightarrow> 8 word list" where
  "ip_bytes ip = (case ip of None \<Rightarrow> [] | Some b \<Rightarrow> b)"

definition IP_Equal :: "net_IP \<Rightarrow> net_IP \<Rightarrow> bool" where
  "IP_Equal ip x =
     (let a = ip_bytes ip; b = ip_bytes x
      in if length a = length b then a = b
         else if length a = 4 \<and> length b = 16 then take 12 b = v4InV6Prefix \<and> a = drop 12 b
         else if length a = 16 \<and> length b = 4 then take 12 a = v4InV6Prefix \<and> drop 12 a = b
         else False)"

definition IP_IsUnspecified :: "net_IP \<Rightarrow> bool" where
  "IP_IsUnspecified ip \<longleftrightarrow>
     IP_Equal ip (Some (v4InV6Prefix @ [0, 0, 0, 0])) \<or> IP_Equal ip (Some (replicate 16 0))"

definition IP_IsMulticast :: "net_IP \<Rightarrow> bool" where
  "IP_IsMulticast ip =
     (case IP_To4 ip of
        Some b \<Rightarrow> b ! 0 AND 0xF0 = 0xE0
      | None \<Rightarrow> length (ip_bytes ip) = 16 \<and> ip_bytes ip ! 0 = 0xFF)"

text \<open>\<open>IP.String\<close> for the 4-byte addresses the registry renders: dotted decimal.\<close>

fun IPv4_String :: "8 word list \<Rightarrow> string" where
  "IPv4_String [] = []"
| "IPv4_String [b] = nat_str (unat b)"
| "IPv4_String (b # bs) = nat_str (unat b) @ CHR ''.'' # IPv4_String bs"

text \<open>\<open>append(net.IP(nil), ip...)\<close> of an empty slice is nil.\<close>

definition cloneIP :: "net_IP \<Rightarrow> net_IP" where
  "cloneIP ip = (case ip of None \<Rightarrow> None | Some b \<Rightarrow> if b = [] then None else Some b)"

section \<open>Routes\<close>

record EgressRoute =
  er_ID :: EgressRouteID
  er_LocalSourceIP :: net_IP
  er_LocalPrivateIP :: net_IP
  er_ExpectedPublicIP :: net_IP

abbreviation invalidRoute :: "string \<Rightarrow> go_arg list \<Rightarrow> go_error" where
  "invalidRoute f args \<equiv> Errorf f args [Sentinel ErrInvalidEgressRoute]"

definition resolveLocalSourceIP :: "EgressRoute \<Rightarrow> net_IP result" where
  "resolveLocalSourceIP route =
     (let hasSource = er_LocalSourceIP route \<noteq> None;
          hasLegacy = er_LocalPrivateIP route \<noteq> None
      in if \<not> hasSource \<and> \<not> hasLegacy
         then Inl (invalidRoute ''%w: route %q local source IP is required'' [StrArg (er_ID route)])
         else if hasSource \<and> hasLegacy \<and> \<not> IP_Equal (er_LocalSourceIP route) (er_LocalPrivateIP route)
         then Inl (invalidRoute ''%w: route %q local source IP conflicts with legacy local private IP''
                     [StrArg (er_ID route)])
         else if hasSource then Inr (er_LocalSourceIP route)
         else Inr (er_LocalPrivateIP route))"

definition normalizeRoute :: "EgressRoute \<Rightarrow> EgressRoute result" where
  "normalizeRoute route0 =
     (let route = route0\<lparr>er_ID := TrimSpace (er_ID route0)\<rparr>
      in if er_ID route = [] then Inl (invalidRoute ''%w: route ID is required'' [])
         else case resolveLocalSourceIP route of
                Inl err \<Rightarrow> Inl err
              | Inr ip \<Rightarrow>
                  let localIP = IP_To4 ip
                  in if localIP = None \<or> IP_IsUnspecified localIP \<or> IP_IsMulticast localIP
                     then Inl (invalidRoute ''%w: route %q local source IP must be a bindable IPv4 address''
                                 [StrArg (er_ID route)])
                     else
                       let route = route\<lparr>er_LocalSourceIP := cloneIP localIP\<rparr>;
                           route = (if er_LocalPrivateIP route \<noteq> None
                                    then route\<lparr>er_LocalPrivateIP := cloneIP localIP\<rparr> else route)
                       in if er_ExpectedPublicIP route \<noteq> None
                          then let expectedIP = IP_To4 (er_ExpectedPublicIP route)
                               in if expectedIP = None \<or> IP_IsUnspecified expectedIP \<or> IP_IsMulticast expectedIP
                                  then Inl (invalidRoute ''%w: route %q expected public IP must be an IPv4 address''
                                              [StrArg (er_ID route)])
                                  else Inr (route\<lparr>er_ExpectedPublicIP := cloneIP expectedIP\<rparr>)
                          else Inr route)"

definition cloneRoute :: "EgressRoute \<Rightarrow> EgressRoute" where
  "cloneRoute route =
     route\<lparr>er_LocalSourceIP := cloneIP (er_LocalSourceIP route),
           er_LocalPrivateIP := cloneIP (er_LocalPrivateIP route),
           er_ExpectedPublicIP := cloneIP (er_ExpectedPublicIP route)\<rparr>"

section \<open>Addresses of the host\<close>

text \<open>\<open>net.InterfaceAddrs\<close> is a parameter: the addresses of the host, or an error.\<close>

datatype net_Addr = IPNet net_IP | IPAddr net_IP | OtherAddr

type_synonym LocalAddressVerifier = "net_IP \<Rightarrow> go_error option"

fun find_address :: "net_IP \<Rightarrow> net_Addr list \<Rightarrow> bool" where
  "find_address want [] = False"
| "find_address want (IPNet ip # rest) = (IP_Equal ip want \<or> find_address want rest)"
| "find_address want (IPAddr ip # rest) = (IP_Equal ip want \<or> find_address want rest)"
| "find_address want (OtherAddr # rest) = find_address want rest"

definition VerifySystemLocalAddress :: "net_Addr list result \<Rightarrow> LocalAddressVerifier" where
  "VerifySystemLocalAddress interfaceAddrs want0 =
     (let want = IP_To4 want0
      in if want = None
         then Some (Errorf ''%w: address is not IPv4'' [] [Sentinel ErrLocalAddressUnavailable])
         else case interfaceAddrs of
                Inl err \<Rightarrow> Some (Errorf ''%w: list network addresses: %v'' [] [Sentinel ErrLocalAddressUnavailable])
              | Inr addresses \<Rightarrow>
                  if find_address want addresses then None
                  else Some (Errorf ''%w: %s is not assigned to this host''
                               [IPArg want] [Sentinel ErrLocalAddressUnavailable]))"

section \<open>Registry\<close>

abbreviation second :: int where "second \<equiv> 1000000000"

record registryConfig =
  rc_verifyAddress :: LocalAddressVerifier
  rc_dialTimeout :: int
  rc_keepAlive :: int
  rc_responseHeaderTimeout :: int

type_synonym RegistryOption = "registryConfig \<Rightarrow> registryConfig result"

definition WithLocalAddressVerifier :: "LocalAddressVerifier option \<Rightarrow> RegistryOption" where
  "WithLocalAddressVerifier verifier config =
     (case verifier of
        None \<Rightarrow> Inl (errorText ''local address verifier cannot be nil'')
      | Some v \<Rightarrow> Inr (config\<lparr>rc_verifyAddress := v\<rparr>))"

definition WithDialTimeout :: "int \<Rightarrow> RegistryOption" where
  "WithDialTimeout timeout config =
     (if timeout \<le> 0 then Inl (errorText ''dial timeout must be positive'')
      else Inr (config\<lparr>rc_dialTimeout := timeout\<rparr>))"

definition WithResponseHeaderTimeout :: "int \<Rightarrow> RegistryOption" where
  "WithResponseHeaderTimeout timeout config =
     (if timeout \<le> 0 then Inl (errorText ''response header timeout must be positive'')
      else Inr (config\<lparr>rc_responseHeaderTimeout := timeout\<rparr>))"

text \<open>
  The fields of \<open>http.Transport\<close> and \<open>http.Client\<close> that the registry sets; the fields a
  clone of \<open>http.DefaultTransport\<close> brings along are the type parameter \<open>'t\<close>.
\<close>

record 't http_Transport =
  ht_default :: 't
  ht_Proxy :: bool
  ht_Timeout :: int
  ht_KeepAlive :: int
  ht_LocalAddr :: net_IP
  ht_ResponseHeaderTimeout :: int
  ht_ForceAttemptHTTP2 :: bool

definition rejectRedirect :: go_error where
  "rejectRedirect = ForeignError ''net/http: use last response''"

datatype 't http_RoundTripper = DirectTransport "'t http_Transport" | boundRoundTripper EgressRouteID

record 't http_Client =
  hc_Transport :: "'t http_RoundTripper"
  hc_CheckRedirect :: go_error

record 't routeTransport =
  rt_route :: EgressRoute
  rt_client :: "'t http_Client"
  rt_transport :: "'t http_Transport"

record 't Registry =
  rg_routes :: "(EgressRouteID, 't routeTransport) gomap"
  rg_closed :: bool

definition newHTTPTransport :: "'t http_Transport \<Rightarrow> net_IP \<Rightarrow> registryConfig \<Rightarrow> 't http_Transport" where
  "newHTTPTransport defaultTransport localIP config =
     defaultTransport\<lparr>ht_Proxy := False,
       ht_Timeout := rc_dialTimeout config, ht_KeepAlive := rc_keepAlive config,
       ht_LocalAddr := cloneIP localIP,
       ht_ResponseHeaderTimeout := rc_responseHeaderTimeout config,
       ht_ForceAttemptHTTP2 := True\<rparr>"

fun apply_registry_options ::
  "nat \<Rightarrow> RegistryOption option list \<Rightarrow> registryConfig \<Rightarrow> registryConfig result" where
  "apply_registry_options index [] config = Inr config"
| "apply_registry_options index (None # rest) config =
     Inl (Errorf ''registry option %d is nil'' [IntArg (int index)] [])"
| "apply_registry_options index (Some apply # rest) config =
     (case apply config of
        Inl err \<Rightarrow> Inl (Errorf ''apply registry option %d: %w'' [IntArg (int index)] [err])
      | Inr config' \<Rightarrow> apply_registry_options (Suc index) rest config')"

text \<open>The validation loop: \<open>ips\<close> maps the rendered source address to the route that uses it.\<close>

fun normalize_routes ::
  "registryConfig \<Rightarrow> EgressRoute list \<Rightarrow> EgressRouteID set \<Rightarrow> (string, EgressRouteID) gomap \<Rightarrow>
   EgressRoute list \<Rightarrow> EgressRoute list result" where
  "normalize_routes config [] ids ips normalized = Inr normalized"
| "normalize_routes config (route # rest) ids ips normalized =
     (case normalizeRoute route of
        Inl err \<Rightarrow> Inl err
      | Inr clean \<Rightarrow>
          let ip = IPv4_String (ip_bytes (er_LocalSourceIP clean))
          in if er_ID clean \<in> ids
             then Inl (invalidRoute ''%w: duplicate route ID %q'' [StrArg (er_ID clean)])
             else case map_of ips ip of
                    Some previousID \<Rightarrow>
                      Inl (invalidRoute ''%w: routes %q and %q use the same local source IP %s''
                             [StrArg previousID, StrArg (er_ID clean), IPArg (er_LocalSourceIP clean)])
                  | None \<Rightarrow>
                      (case rc_verifyAddress config (er_LocalSourceIP clean) of
                         Some err \<Rightarrow> Inl (Errorf ''verify route %q: %w'' [StrArg (er_ID clean)] [err])
                       | None \<Rightarrow>
                           normalize_routes config rest (insert (er_ID clean) ids)
                             (AList.update ip (er_ID clean) ips) (normalized @ [clean])))"

definition new_routeTransport :: "'t http_Transport \<Rightarrow> registryConfig \<Rightarrow> EgressRoute \<Rightarrow> 't routeTransport" where
  "new_routeTransport defaultTransport config route =
     (let httpTransport = newHTTPTransport defaultTransport (er_LocalSourceIP route) config
      in \<lparr>rt_route = route,
          rt_client = \<lparr>hc_Transport = DirectTransport httpTransport, hc_CheckRedirect = rejectRedirect\<rparr>,
          rt_transport = httpTransport\<rparr>)"

definition defaultRegistryConfig :: "net_Addr list result \<Rightarrow> registryConfig" where
  "defaultRegistryConfig interfaceAddrs =
     \<lparr>rc_verifyAddress = VerifySystemLocalAddress interfaceAddrs,
      rc_dialTimeout = 5 * second, rc_keepAlive = 30 * second,
      rc_responseHeaderTimeout = 10 * second\<rparr>"

definition NewRegistry ::
  "net_Addr list result \<Rightarrow> 't http_Transport \<Rightarrow> EgressRoute list \<Rightarrow> RegistryOption option list \<Rightarrow>
   't Registry result" where
  "NewRegistry interfaceAddrs defaultTransport routes options =
     (if routes = [] then Inl (invalidRoute ''%w: at least one route is required'' [])
      else case apply_registry_options 0 options
                  (defaultRegistryConfig interfaceAddrs) of
             Inl err \<Rightarrow> Inl err
           | Inr config \<Rightarrow>
               (case normalize_routes config routes {} [] [] of
                  Inl err \<Rightarrow> Inl err
                | Inr normalized \<Rightarrow>
                    Inr \<lparr>rg_routes =
                           fold (\<lambda>route m. AList.update (er_ID route) (new_routeTransport defaultTransport config route) m)
                             normalized [],
                         rg_closed = False\<rparr>))"

definition lookup_route :: "'t Registry \<Rightarrow> EgressRouteID \<Rightarrow> 't routeTransport result" where
  "lookup_route registry routeID =
     (if rg_closed registry then Inl (Sentinel ErrRegistryClosed)
      else case map_of (rg_routes registry) routeID of
             None \<Rightarrow> Inl (Errorf ''%w: %q'' [StrArg routeID] [Sentinel ErrUnknownEgressRoute])
           | Some entry \<Rightarrow> Inr entry)"

subsection \<open>Requests\<close>

text \<open>
  A context is described by how it was derived; what it reports is a matter of the environment.
  \<open>request.Clone(ctx)\<close> replaces the context and nothing else.
\<close>

datatype go_context =
    Background | CallerCtx nat | WithTimeoutCtx go_context int | WithCancelCtx go_context
  | WithoutCancelCtx go_context

record http_Request =
  rq_Context :: go_context
  rq_Method :: string
  rq_URL :: "(string \<times> string) option"
  rq_Header :: "(string \<times> string) list"
  rq_Body :: string

datatype body_read = BodyOK | BodyError go_error

record http_Response =
  rs_StatusCode :: int
  rs_Header :: "(string \<times> string) list"
  rs_Body :: string
  rs_ReadEnd :: body_read

text \<open>\<open>rq_URL\<close> is the rendered URL and its path; \<open>rs_Body\<close> is what can be read of the
  body and \<open>rs_ReadEnd\<close> how reading ends after it. \<open>io.ReadAll(io.LimitReader(body, n))\<close>
  stops after \<open>n\<close> bytes and sees the error only when it reads further.\<close>

definition read_limited :: "int \<Rightarrow> http_Response \<Rightarrow> string result" where
  "read_limited n response =
     (if int (length (rs_Body response)) < n
      then case rs_ReadEnd response of BodyOK \<Rightarrow> Inr (rs_Body response) | BodyError err \<Rightarrow> Inl err
      else Inr (take (nat n) (rs_Body response)))"

fun first_URLError :: "go_error list \<Rightarrow> go_error option" where
  "first_URLError [] = None"
| "first_URLError (URLError u cause # es) = Some cause"
| "first_URLError (_ # es) = first_URLError es"

definition sanitizedTransportCause :: "go_error \<Rightarrow> go_error" where
  "sanitizedTransportCause err =
     (case first_URLError (error_nodes err) of Some cause \<Rightarrow> cause | None \<Rightarrow> err)"

type_synonym ('t, 'w) client_do = "'t http_Client \<Rightarrow> http_Request \<Rightarrow> 'w \<Rightarrow> http_Response result \<times> 'w"
type_synonym ('t, 'w) transport_do = "'t http_Transport \<Rightarrow> http_Request \<Rightarrow> 'w \<Rightarrow> http_Response result \<times> 'w"

definition Registry_Do ::
  "('t, 'w) client_do \<Rightarrow> 't Registry \<Rightarrow> go_context option \<Rightarrow> EgressRouteID \<Rightarrow> http_Request option \<Rightarrow> 'w \<Rightarrow>
   http_Response result \<times> 'w" where
  "Registry_Do clientDo registry ctx routeID request w =
     (case ctx of
        None \<Rightarrow> (Inl (errorText ''request context cannot be nil''), w)
      | Some c \<Rightarrow>
          (case request of
             None \<Rightarrow> (Inl (errorText ''HTTP request cannot be nil''), w)
           | Some rq \<Rightarrow>
               (case lookup_route registry routeID of
                  Inl err \<Rightarrow> (Inl err, w)
                | Inr entry \<Rightarrow>
                    (case clientDo (rt_client entry) (rq\<lparr>rq_Context := c\<rparr>) w of
                       (Inl err, w') \<Rightarrow> (Inl (RequestError routeID (sanitizedTransportCause err)), w')
                     | (Inr response, w') \<Rightarrow> (Inr response, w')))))"

definition Registry_HTTPClient :: "'t Registry \<Rightarrow> EgressRouteID \<Rightarrow> 't http_Client result" where
  "Registry_HTTPClient registry routeID =
     (case lookup_route registry routeID of
        Inl err \<Rightarrow> Inl err
      | Inr _ \<Rightarrow> Inr \<lparr>hc_Transport = boundRoundTripper routeID, hc_CheckRedirect = rejectRedirect\<rparr>)"

definition RoundTrip ::
  "('t, 'w) transport_do \<Rightarrow> 't Registry \<Rightarrow> EgressRouteID \<Rightarrow> http_Request option \<Rightarrow> 'w \<Rightarrow>
   http_Response result \<times> 'w" where
  "RoundTrip transportDo registry routeID request w =
     (case request of
        None \<Rightarrow> (Inl (errorText ''HTTP request cannot be nil''), w)
      | Some rq \<Rightarrow>
          (case lookup_route registry routeID of
             Inl err \<Rightarrow> (Inl err, w)
           | Inr entry \<Rightarrow> transportDo (rt_transport entry) rq w))"

definition Registry_Route :: "'t Registry \<Rightarrow> EgressRouteID \<Rightarrow> EgressRoute result" where
  "Registry_Route registry routeID =
     (case lookup_route registry routeID of
        Inl err \<Rightarrow> Inl err
      | Inr entry \<Rightarrow> Inr (cloneRoute (rt_route entry)))"

definition Registry_Routes :: "'t Registry \<Rightarrow> EgressRoute list" where
  "Registry_Routes registry =
     sort_key er_ID (map (\<lambda>(k, entry). cloneRoute (rt_route entry)) (rg_routes registry))"

text \<open>\<open>CloseIdleConnections\<close> and \<open>Close\<close> return the transports whose idle connections they close.\<close>

definition Registry_CloseIdleConnections :: "'t Registry \<Rightarrow> 't http_Transport list" where
  "Registry_CloseIdleConnections registry = map (\<lambda>(k, entry). rt_transport entry) (rg_routes registry)"

definition Registry_Close :: "'t Registry \<Rightarrow> 't http_Transport list \<times> 't Registry" where
  "Registry_Close registry =
     (if rg_closed registry then ([], registry)
      else (map (\<lambda>(k, entry). rt_transport entry) (rg_routes registry), registry\<lparr>rg_closed := True\<rparr>))"

section \<open>Public IP diagnosis\<close>

abbreviation maxPublicIPResponseBytes :: int where "maxPublicIPResponseBytes \<equiv> 4096"

record PublicIPCheck =
  pc_RouteID :: EgressRouteID
  pc_LocalSourceIP :: net_IP
  pc_LocalPrivateIP :: net_IP
  pc_ExpectedPublicIP :: net_IP
  pc_ObservedPublicIP :: net_IP
  pc_MatchesExpected :: bool
  pc_CheckedAt :: int

definition zeroPublicIPCheck :: PublicIPCheck where
  "zeroPublicIPCheck = \<lparr>pc_RouteID = [], pc_LocalSourceIP = None, pc_LocalPrivateIP = None,
     pc_ExpectedPublicIP = None, pc_ObservedPublicIP = None, pc_MatchesExpected = False, pc_CheckedAt = 0\<rparr>"

text \<open>
  \<open>net.ParseIP\<close>, the JSON decoder of the payload (giving \<open>ip\<close> and \<open>origin\<close>) and
  \<open>url.Parse\<close> (giving scheme, host, path and the rendered URL) are parameters.
\<close>

definition parsePublicIP ::
  "(string \<Rightarrow> net_IP) \<Rightarrow> (string \<Rightarrow> (string \<times> string) option) \<Rightarrow> string \<Rightarrow> net_IP result" where
  "parsePublicIP ParseIP Unmarshal body =
     (let invalid = errorText ''public IP endpoint returned an invalid IP address'';
          first_of = (\<lambda>candidate. TrimSpace (fst (Cut candidate CHR '','')))
      in case ParseIP (TrimSpace body) of
           Some b \<Rightarrow> Inr (Some b)
         | None \<Rightarrow>
             (case Unmarshal body of
                None \<Rightarrow> Inl invalid
              | Some (ip, origin) \<Rightarrow>
                  (case ParseIP (first_of ip) of
                     Some b \<Rightarrow> Inr (Some b)
                   | None \<Rightarrow>
                       (case ParseIP (first_of origin) of
                          Some b \<Rightarrow> Inr (Some b)
                        | None \<Rightarrow> Inl invalid))))"

record url_parts =
  up_Scheme :: string
  up_Host :: string
  up_Path :: string
  up_String :: string

text \<open>The three stages of \<open>VerifyPublicIP\<close>: the request, the response, the comparison.\<close>

definition publicIPRequest :: "go_context \<Rightarrow> url_parts \<Rightarrow> http_Request" where
  "publicIPRequest c u =
     \<lparr>rq_Context = c, rq_Method = ''GET'', rq_URL = Some (up_String u, up_Path u),
      rq_Header = [(''Accept'', ''application/json, text/plain''), (''User-Agent'', ''cex-sdk-egressdiag/0'')],
      rq_Body = []\<rparr>"

definition compare_public_IP :: "EgressRoute \<Rightarrow> net_IP \<Rightarrow> int \<Rightarrow> PublicIPCheck \<times> go_error option" where
  "compare_public_IP route observedIP now =
     (let check = \<lparr>pc_RouteID = er_ID route,
            pc_LocalSourceIP = cloneIP (er_LocalSourceIP route),
            pc_LocalPrivateIP = cloneIP (er_LocalPrivateIP route),
            pc_ExpectedPublicIP = cloneIP (er_ExpectedPublicIP route),
            pc_ObservedPublicIP = cloneIP observedIP,
            pc_MatchesExpected = (er_ExpectedPublicIP route = None \<or>
              IP_Equal observedIP (er_ExpectedPublicIP route)),
            pc_CheckedAt = now\<rparr>
      in if \<not> pc_MatchesExpected check
         then (check, Some (Errorf ''%w: route %q expected %s, observed %s''
                 [StrArg (er_ID route), IPArg (er_ExpectedPublicIP route), IPArg observedIP]
                 [Sentinel ErrPublicIPMismatch]))
         else (check, None))"

definition observe_public_IP ::
  "(string \<Rightarrow> net_IP) \<Rightarrow> (string \<Rightarrow> (string \<times> string) option) \<Rightarrow> http_Response \<Rightarrow> net_IP result" where
  "observe_public_IP ParseIP Unmarshal response =
     (if rs_StatusCode response < 200 \<or> 300 \<le> rs_StatusCode response
      then Inl (Errorf ''public IP endpoint returned HTTP %d'' [IntArg (rs_StatusCode response)] [])
      else case read_limited (maxPublicIPResponseBytes + 1) response of
             Inl err \<Rightarrow> Inl (Errorf ''read public IP response: %w'' [] [err])
           | Inr body \<Rightarrow>
               if maxPublicIPResponseBytes < int (length body)
               then Inl (Errorf ''public IP response exceeds %d bytes'' [IntArg maxPublicIPResponseBytes] [])
               else parsePublicIP ParseIP Unmarshal body)"

definition VerifyPublicIP ::
  "('t, 'w) client_do \<Rightarrow> (string \<Rightarrow> url_parts result) \<Rightarrow> (string \<Rightarrow> net_IP) \<Rightarrow>
   (string \<Rightarrow> (string \<times> string) option) \<Rightarrow> ('w \<Rightarrow> int) \<Rightarrow>
   't Registry \<Rightarrow> go_context option \<Rightarrow> EgressRouteID \<Rightarrow> string \<Rightarrow> 'w \<Rightarrow>
   PublicIPCheck \<times> go_error option \<times> 'w" where
  "VerifyPublicIP clientDo Parse ParseIP Unmarshal now registry ctx routeID endpoint w =
     (let invalid = (zeroPublicIPCheck, Some (Errorf ''invalid public IP endpoint %q'' [StrArg endpoint] []), w)
      in case Registry_Route registry routeID of
           Inl err \<Rightarrow> (zeroPublicIPCheck, Some err, w)
         | Inr route \<Rightarrow>
             (case Parse endpoint of
                Inl err \<Rightarrow> invalid
              | Inr u \<Rightarrow>
                  if up_Host u = [] \<or> (up_Scheme u \<noteq> ''http'' \<and> up_Scheme u \<noteq> ''https'') then invalid
                  else
                    (case ctx of
                       None \<Rightarrow> (zeroPublicIPCheck, Some (Errorf ''create public IP request: %w'' []
                                  [ForeignError ''net/http: nil Context'']), w)
                     | Some c \<Rightarrow>
                         (case Registry_Do clientDo registry (Some c) routeID (Some (publicIPRequest c u)) w of
                            (Inl err, w') \<Rightarrow> (zeroPublicIPCheck, Some err, w')
                          | (Inr response, w') \<Rightarrow>
                              (case observe_public_IP ParseIP Unmarshal response of
                                 Inl err \<Rightarrow> (zeroPublicIPCheck, Some err, w')
                               | Inr observedIP \<Rightarrow>
                                   let (check, err) = compare_public_IP route observedIP (now w')
                                   in (check, err, w'))))))"

section \<open>Addresses and routes\<close>

lemma IP_To4_length: "IP_To4 ip = Some b \<Longrightarrow> length b = 4"
  by (cases ip) (auto split: if_splits)

declare IP_To4.simps [simp del]

lemma IP_To4_4 [simp]: "length b = 4 \<Longrightarrow> IP_To4 (Some b) = Some b"
  by (simp add: IP_To4.simps)

lemma IP_To4_None [simp]: "IP_To4 None = None"
  by (simp add: IP_To4.simps)

lemma cloneIP_idem [simp]: "cloneIP (cloneIP ip) = cloneIP ip"
  by (simp add: cloneIP_def split: option.split)

lemma cloneIP_id: "ip \<noteq> Some [] \<Longrightarrow> cloneIP ip = ip"
  by (simp add: cloneIP_def split: option.split)

lemma cloneIP_nonempty [simp]: "b \<noteq> [] \<Longrightarrow> cloneIP (Some b) = Some b"
  by (simp add: cloneIP_def)

definition bindable :: "net_IP \<Rightarrow> bool" where
  "bindable ip \<longleftrightarrow> (\<exists>b. ip = Some b \<and> length b = 4) \<and> \<not> IP_IsUnspecified ip \<and> \<not> IP_IsMulticast ip"

definition route_normal :: "EgressRoute \<Rightarrow> bool" where
  "route_normal r \<longleftrightarrow> er_ID r \<noteq> [] \<and> TrimSpace (er_ID r) = er_ID r \<and> bindable (er_LocalSourceIP r) \<and>
     (er_LocalPrivateIP r = None \<or> er_LocalPrivateIP r = er_LocalSourceIP r) \<and>
     (er_ExpectedPublicIP r = None \<or> bindable (er_ExpectedPublicIP r))"

lemma bindable_clone: "bindable ip \<Longrightarrow> cloneIP ip = ip"
  by (auto simp: bindable_def cloneIP_def split: option.splits)

lemma bindable_To4:
  "IP_To4 ip = localIP \<Longrightarrow> localIP \<noteq> None \<Longrightarrow> \<not> IP_IsUnspecified localIP \<Longrightarrow> \<not> IP_IsMulticast localIP \<Longrightarrow> bindable localIP"
  by (auto simp: bindable_def dest: IP_To4_length)

lemma bindable_To4_id: "bindable ip \<Longrightarrow> IP_To4 ip = ip"
  by (auto simp: bindable_def)

lemma bindable_not_None [simp]: "bindable ip \<Longrightarrow> ip \<noteq> None"
  by (auto simp: bindable_def)

text \<open>What the normalised form of a route is, and that normalising it again changes nothing.\<close>

lemma normalizeRoute_normal:
  assumes "normalizeRoute r = Inr c"
  shows "route_normal c" "er_ID c = TrimSpace (er_ID r)"
    "\<exists>ip. resolveLocalSourceIP (r\<lparr>er_ID := TrimSpace (er_ID r)\<rparr>) = Inr ip \<and> er_LocalSourceIP c = IP_To4 ip"
proof -
  obtain ip where ip: "resolveLocalSourceIP (r\<lparr>er_ID := TrimSpace (er_ID r)\<rparr>) = Inr ip"
    and id: "TrimSpace (er_ID r) \<noteq> []"
    and b: "IP_To4 ip \<noteq> None" "\<not> IP_IsUnspecified (IP_To4 ip)" "\<not> IP_IsMulticast (IP_To4 ip)"
    using assms by (auto simp: normalizeRoute_def Let_def split: if_splits sum.splits)
  have bind: "bindable (IP_To4 ip)" using bindable_To4 [OF refl b] .
  have clone: "cloneIP (Some y) = Some y" if "IP_To4 ip = Some y" for y
    using bindable_clone [OF bind] that by simp
  have pub: "bindable (IP_To4 (er_ExpectedPublicIP r))"
    if "er_ExpectedPublicIP r \<noteq> None"
    using assms that ip id b
    by (auto simp: normalizeRoute_def Let_def intro: bindable_To4 [OF refl] split: if_splits)
  have c: "c = r\<lparr>er_ID := TrimSpace (er_ID r), er_LocalSourceIP := IP_To4 ip,
      er_LocalPrivateIP := (if er_LocalPrivateIP r = None then None else IP_To4 ip),
      er_ExpectedPublicIP := IP_To4 (er_ExpectedPublicIP r)\<rparr>"
    using assms ip id b pub by (cases r) (auto simp: normalizeRoute_def Let_def bindable_clone clone split: if_splits)
  show "er_ID c = TrimSpace (er_ID r)" by (simp add: c)
  show "\<exists>ip. resolveLocalSourceIP (r\<lparr>er_ID := TrimSpace (er_ID r)\<rparr>) = Inr ip \<and> er_LocalSourceIP c = IP_To4 ip"
    using ip by (simp add: c)
  show "route_normal c" using id bind pub by (cases "er_ExpectedPublicIP r") (auto simp: route_normal_def c)
qed

lemma normalizeRoute_fixed:
  assumes "route_normal c" shows "normalizeRoute c = Inr c"
proof -
  have "IP_Equal (er_LocalSourceIP c) (er_LocalSourceIP c)" by (simp add: IP_Equal_def Let_def)
  then have "resolveLocalSourceIP c = Inr (er_LocalSourceIP c)"
    using assms by (auto simp: resolveLocalSourceIP_def route_normal_def)
  moreover have "cloneIP (er_ExpectedPublicIP c) = er_ExpectedPublicIP c"
    using assms by (cases "er_ExpectedPublicIP c") (auto simp: route_normal_def cloneIP_def bindable_def)
  ultimately show ?thesis
    using assms
    by (cases c) (auto simp: normalizeRoute_def route_normal_def Let_def bindable_To4_id bindable_clone
        dest: bindable_def [THEN iffD1])
qed

text \<open>Rendered IPv4 addresses determine the address.\<close>

lemma nat_str_dot_inj:
  assumes "nat_str m @ CHR ''.'' # s = nat_str n @ CHR ''.'' # t"
  shows "m = n \<and> s = t"
proof -
  have "CHR ''.'' \<notin> set (nat_str k)" for k by (auto dest: nat_str_char)
  then have "\<forall>c \<in> set (nat_str k). c \<noteq> CHR ''.''" for k by blast
  then have "takeWhile (\<lambda>c. c \<noteq> CHR ''.'') (nat_str k @ CHR ''.'' # u) = nat_str k" for k u
    by (simp add: takeWhile_append2)
  with assms have "nat_str m = nat_str n" by metis
  with assms show ?thesis by (auto dest: nat_str_inj)
qed

lemma IPv4_String_inj:
  assumes "length a = 4" "length b = 4" "IPv4_String a = IPv4_String b"
  shows "a = b"
proof -
  obtain a1 a2 a3 a4 where a: "a = [a1, a2, a3, a4]" using assms(1) by (auto simp: numeral_eq_Suc length_Suc_conv)
  obtain b1 b2 b3 b4 where b: "b = [b1, b2, b3, b4]" using assms(2) by (auto simp: numeral_eq_Suc length_Suc_conv)
  have "unat a1 = unat b1 \<and> unat a2 = unat b2 \<and> unat a3 = unat b3 \<and> unat a4 = unat b4"
    using assms(3) by (auto simp: a b dest!: nat_str_dot_inj nat_str_inj)
  then show ?thesis by (simp add: a b word_eq_iff_unsigned [where 'a = nat])
qed

section \<open>Building a registry\<close>

abbreviation source_text :: "EgressRoute \<Rightarrow> string" where
  "source_text r \<equiv> IPv4_String (ip_bytes (er_LocalSourceIP r))"

text \<open>The loop accepts exactly the lists whose normal forms have fresh IDs, fresh addresses and
  are approved by the address check.\<close>

lemma normalize_routes_iff:
  "normalize_routes config routes ids ips acc = Inr out \<longleftrightarrow>
     (\<exists>ns. out = acc @ ns \<and> list_all2 (\<lambda>r n. normalizeRoute r = Inr n) routes ns \<and>
        distinct (map er_ID ns) \<and> set (map er_ID ns) \<inter> ids = {} \<and>
        distinct (map source_text ns) \<and> set (map source_text ns) \<inter> fst ` set ips = {} \<and>
        (\<forall>n \<in> set ns. rc_verifyAddress config (er_LocalSourceIP n) = None))"
proof (induction config routes ids ips acc rule: normalize_routes.induct)
  case (2 config route rest ids ips acc)
  show ?case
  proof (cases "normalizeRoute route")
    case (Inr clean)
    show ?thesis
    proof (cases "er_ID clean \<notin> ids \<and> map_of ips (source_text clean) = None \<and>
        rc_verifyAddress config (er_LocalSourceIP clean) = None")
      case True
      have step: "normalize_routes config (route # rest) ids ips acc =
          normalize_routes config rest (insert (er_ID clean) ids)
            (AList.update (source_text clean) (er_ID clean) ips) (acc @ [clean])"
        using True Inr by (simp add: Let_def)
      have "fst ` set (AList.update (source_text clean) (er_ID clean) ips) =
          insert (source_text clean) (fst ` set ips)"
        by (simp add: dom_update)
      with True show ?thesis unfolding step using "2.IH" [OF Inr refl] Inr
        by (auto simp: list_all2_Cons1 map_of_eq_None_iff)
    next
      case False
      then show ?thesis using Inr
        by (auto simp: list_all2_Cons1 map_of_eq_None_iff Let_def image_iff split: option.splits
            dest: map_of_SomeD)
    qed
  qed (auto simp: list_all2_Cons1)
qed auto


lemma normalize_routes_normal:
  "list_all2 (\<lambda>r n. normalizeRoute r = Inr n) routes ns \<Longrightarrow> n \<in> set ns \<Longrightarrow> route_normal n"
  by (induction rule: list_all2_induct) (auto dest: normalizeRoute_normal(1))

lemma fold_update_fresh:
  assumes "distinct (map k xs)" "set (map k xs) \<inter> fst ` set m = {}"
  shows "fold (\<lambda>x m. AList.update (k x) (v x) m) xs m = m @ map (\<lambda>x. (k x, v x)) xs"
  using assms
proof (induction xs arbitrary: m)
  case (Cons x xs)
  have "AList.update (k x) (v x) m = m @ [(k x, v x)]"
    using Cons.prems(2) by (intro update_fresh) auto
  with Cons show ?case by auto
qed simp

text \<open>The whole constructor in one equation: which registry it builds, and from what.\<close>

lemma NewRegistry_iff:
  "NewRegistry addrs dt routes options = Inr reg \<longleftrightarrow>
     (\<exists>config ns. routes \<noteq> [] \<and>
        apply_registry_options 0 options (defaultRegistryConfig addrs) = Inr config \<and>
        list_all2 (\<lambda>r n. normalizeRoute r = Inr n) routes ns \<and>
        distinct (map er_ID ns) \<and> distinct (map source_text ns) \<and>
        (\<forall>n \<in> set ns. rc_verifyAddress config (er_LocalSourceIP n) = None) \<and>
        reg = \<lparr>rg_routes = map (\<lambda>n. (er_ID n, new_routeTransport dt config n)) ns, rg_closed = False\<rparr>)"
    (is "?L \<longleftrightarrow> ?R")
proof
  assume ?L
  then obtain config ns where n: "routes \<noteq> []" "normalize_routes config routes {} [] [] = Inr ns"
      "apply_registry_options 0 options (defaultRegistryConfig addrs) = Inr config"
    and reg: "reg = \<lparr>rg_routes = fold (\<lambda>route m. AList.update (er_ID route) (new_routeTransport dt config route) m) ns [],
        rg_closed = False\<rparr>"
    by (auto simp: NewRegistry_def split: if_splits sum.splits)
  from n(2) have d: "list_all2 (\<lambda>r n. normalizeRoute r = Inr n) routes ns"
      "distinct (map er_ID ns)" "distinct (map source_text ns)"
      "\<forall>n \<in> set ns. rc_verifyAddress config (er_LocalSourceIP n) = None"
    by (simp_all add: normalize_routes_iff)
  then have "reg = \<lparr>rg_routes = map (\<lambda>n. (er_ID n, new_routeTransport dt config n)) ns, rg_closed = False\<rparr>"
    using reg by (simp add: fold_update_fresh)
  with n d show ?R by blast
next
  assume ?R
  then obtain config ns where n: "routes \<noteq> []"
      "apply_registry_options 0 options (defaultRegistryConfig addrs) = Inr config"
    and d: "list_all2 (\<lambda>r n. normalizeRoute r = Inr n) routes ns"
      "distinct (map er_ID ns)" "distinct (map source_text ns)"
      "\<forall>n \<in> set ns. rc_verifyAddress config (er_LocalSourceIP n) = None"
    and reg: "reg = \<lparr>rg_routes = map (\<lambda>n. (er_ID n, new_routeTransport dt config n)) ns, rg_closed = False\<rparr>"
    by blast
  from d have "normalize_routes config routes {} [] [] = Inr ns" by (simp add: normalize_routes_iff)
  with n d(2) reg show ?L by (simp add: NewRegistry_def fold_update_fresh)
qed

text \<open>The invariant of a registry: every entry is filed under its route's ID and its transport and
  client dial from that route's address, which no other entry uses.\<close>

definition entry_ok :: "EgressRouteID \<times> 't routeTransport \<Rightarrow> bool" where
  "entry_ok = (\<lambda>(k, e). er_ID (rt_route e) = k \<and> route_normal (rt_route e) \<and>
     ht_LocalAddr (rt_transport e) = er_LocalSourceIP (rt_route e) \<and> \<not> ht_Proxy (rt_transport e) \<and>
     hc_Transport (rt_client e) = DirectTransport (rt_transport e) \<and>
     hc_CheckRedirect (rt_client e) = rejectRedirect)"

definition registry_ok :: "'t Registry \<Rightarrow> bool" where
  "registry_ok reg \<longleftrightarrow> rg_routes reg \<noteq> [] \<and> distinct (map fst (rg_routes reg)) \<and>
     distinct (map (\<lambda>(k, e). ht_LocalAddr (rt_transport e)) (rg_routes reg)) \<and>
     list_all entry_ok (rg_routes reg)"

lemma new_routeTransport_ok: "route_normal n \<Longrightarrow> entry_ok (er_ID n, new_routeTransport dt config n)"
  by (auto simp: entry_ok_def new_routeTransport_def newHTTPTransport_def Let_def route_normal_def bindable_clone)

lemma NewRegistry_ok:
  assumes "NewRegistry addrs dt routes options = Inr reg"
  shows "registry_ok reg"
proof -
  obtain config ns where ns: "list_all2 (\<lambda>r n. normalizeRoute r = Inr n) routes ns" "routes \<noteq> []"
      "distinct (map er_ID ns)" "distinct (map source_text ns)"
    and "reg = \<lparr>rg_routes = map (\<lambda>n. (er_ID n, new_routeTransport dt config n)) ns, rg_closed = False\<rparr>"
    using assms unfolding NewRegistry_iff by blast
  then have reg: "rg_routes reg = map (\<lambda>n. (er_ID n, new_routeTransport dt config n)) ns" by simp
  have normal: "route_normal n" if "n \<in> set ns" for n using normalize_routes_normal [OF ns(1) that] .
  have "ht_LocalAddr (rt_transport (new_routeTransport dt config n)) = er_LocalSourceIP n" if "n \<in> set ns" for n
    using normal [OF that] by (simp add: new_routeTransport_def newHTTPTransport_def Let_def route_normal_def bindable_clone)
  moreover have "distinct (map er_LocalSourceIP ns)" using ns(4) by (auto simp: distinct_map inj_on_def)
  ultimately have "distinct (map (\<lambda>n. ht_LocalAddr (rt_transport (new_routeTransport dt config n))) ns)"
    by (simp cong: map_cong)
  moreover have "ns \<noteq> []" using ns by auto
  ultimately show ?thesis
    using ns(3) normal by (auto simp: registry_ok_def reg list_all_iff new_routeTransport_ok o_def)
qed


lemma Registry_Close_ok: "registry_ok reg \<Longrightarrow> registry_ok (snd (Registry_Close reg))"
  by (simp add: registry_ok_def Registry_Close_def)

lemma Registry_Routes_spec:
  assumes "registry_ok reg"
  shows "sorted (map er_ID (Registry_Routes reg))" "mset (map er_ID (Registry_Routes reg)) = mset (map fst (rg_routes reg))"
proof -
  have "er_ID (cloneRoute (rt_route (snd p))) = fst p" if "p \<in> set (rg_routes reg)" for p
    using assms that by (auto simp: registry_ok_def entry_ok_def list_all_iff cloneRoute_def)
  then have "image_mset (\<lambda>p. er_ID (cloneRoute (rt_route (snd p)))) (mset (rg_routes reg)) = image_mset fst (mset (rg_routes reg))"
    by (intro image_mset_cong) simp
  then show "mset (map er_ID (Registry_Routes reg)) = mset (map fst (rg_routes reg))"
    by (simp add: Registry_Routes_def case_prod_unfold multiset.map_comp o_def)
  show "sorted (map er_ID (Registry_Routes reg))" by (simp add: Registry_Routes_def)
qed

section \<open>The sender a client relies on\<close>

text \<open>
  The contract behind \<open>exchange.Sender\<close>: a route that cannot be used is refused without any
  traffic and with one of the two configuration errors, and a failed transmission is reported as
  a \<open>RequestError\<close> of that route.
\<close>

locale egress_sender =
  fixes send :: "go_context option \<Rightarrow> EgressRouteID \<Rightarrow> http_Request option \<Rightarrow> 'w \<Rightarrow> http_Response result \<times> 'w"
    and usable :: "EgressRouteID \<Rightarrow> bool"
  assumes unusable: "\<not> usable r \<Longrightarrow> \<exists>e. send (Some c) r (Some rq) w = (Inl e, w) \<and>
      (errors_Is ErrUnknownEgressRoute e \<or> errors_Is ErrRegistryClosed e)"
    and failed: "usable r \<Longrightarrow> send (Some c) r (Some rq) w = (Inl e, w') \<Longrightarrow> \<exists>cause. e = RequestError r cause"
begin

lemma send_error_cases:
  assumes "send (Some c) r (Some rq) w = (Inl e, w')"
  obtains (refused) "w' = w" "errors_Is ErrUnknownEgressRoute e \<or> errors_Is ErrRegistryClosed e"
    | (transmission) cause where "usable r" "e = RequestError r cause"
  using assms unusable [of r c rq w] failed [of r c rq w e w'] by (cases "usable r") auto

end

definition route_usable :: "'t Registry \<Rightarrow> EgressRouteID \<Rightarrow> bool" where
  "route_usable reg r \<longleftrightarrow> \<not> rg_closed reg \<and> map_of (rg_routes reg) r \<noteq> None"

interpretation registry_sender: egress_sender "Registry_Do clientDo reg" "route_usable reg"
  by unfold_locales
    (auto simp: Registry_Do_def route_usable_def lookup_route_def split: option.splits sum.splits prod.splits)

section \<open>Properties\<close>


text \<open>A request goes out only through the client of the chosen route: with a route that is
  registered and open, \<open>Do\<close> is exactly one transmission by a client that dials from that route's
  address, and a transport failure is reported without the URL it happened at; otherwise nothing
  is sent and the error names the reason.\<close>

theorem Registry_Do_only_through_route:
  assumes "registry_ok reg"
  shows "if rg_closed reg then Registry_Do clientDo reg (Some c) r (Some rq) w = (Inl (Sentinel ErrRegistryClosed), w)
    else case map_of (rg_routes reg) r of
      None \<Rightarrow> Registry_Do clientDo reg (Some c) r (Some rq) w =
        (Inl (Errorf ''%w: %q'' [StrArg r] [Sentinel ErrUnknownEgressRoute]), w)
    | Some e \<Rightarrow> er_ID (rt_route e) = r \<and>
        hc_Transport (rt_client e) = DirectTransport (rt_transport e) \<and>
        ht_LocalAddr (rt_transport e) = er_LocalSourceIP (rt_route e) \<and>
        (case clientDo (rt_client e) (rq\<lparr>rq_Context := c\<rparr>) w of
           (Inr response, w') \<Rightarrow> Registry_Do clientDo reg (Some c) r (Some rq) w = (Inr response, w')
         | (Inl (URLError u cause), w') \<Rightarrow>
             Registry_Do clientDo reg (Some c) r (Some rq) w = (Inl (RequestError r cause), w')
         | (Inl err, w') \<Rightarrow> \<exists>cause. Registry_Do clientDo reg (Some c) r (Some rq) w = (Inl (RequestError r cause), w'))"
proof -
  have "entry_ok (r, e)" if "map_of (rg_routes reg) r = Some e" for e
    using assms map_of_SomeD [OF that] by (auto simp: registry_ok_def list_all_iff)
  then show ?thesis
    by (auto simp: Registry_Do_def lookup_route_def entry_ok_def sanitizedTransportCause_def
        split: option.split prod.split sum.split go_error.split)
qed

definition demo_route :: EgressRoute where
  "demo_route = \<lparr>er_ID = '' a '', er_LocalSourceIP = Some [10, 0, 0, 1], er_LocalPrivateIP = None,
     er_ExpectedPublicIP = None\<rparr>"

definition demo_transport :: "unit http_Transport" where
  "demo_transport = \<lparr>ht_default = (), ht_Proxy = True, ht_Timeout = 0, ht_KeepAlive = 0,
     ht_LocalAddr = None, ht_ResponseHeaderTimeout = 0, ht_ForceAttemptHTTP2 = False\<rparr>"

definition demo_registry :: "unit Registry" where
  "demo_registry = (case NewRegistry (Inr [IPNet (Some [10, 0, 0, 1])]) demo_transport [demo_route] [] of Inr reg \<Rightarrow> reg)"

lemma demo_registry_built:
  "NewRegistry (Inr [IPNet (Some [10, 0, 0, 1])]) demo_transport [demo_route] [] = Inr demo_registry"
  unfolding demo_registry_def by code_simp


theorem Registry_Do_only_through_route_witness:
  "Registry_Do (\<lambda>cl rq w. (Inr \<lparr>rs_StatusCode = 200, rs_Header = [], rs_Body = [], rs_ReadEnd = BodyOK\<rparr>, cl # w))
     demo_registry (Some Background) ''b'' (Some \<lparr>rq_Context = Background, rq_Method = ''GET'', rq_URL = None, rq_Header = [], rq_Body = []\<rparr>) []
   = (Inl (Errorf ''%w: %q'' [StrArg ''b''] [Sentinel ErrUnknownEgressRoute]), [])"
proof -
  have "map_of (rg_routes demo_registry) ''b'' = None" "\<not> rg_closed demo_registry" by code_simp+
  then show ?thesis
    using Registry_Do_only_through_route [OF NewRegistry_ok [OF demo_registry_built], where r = "''b''"] by simp
qed

text \<open>Closing is final: after \<open>Close\<close> every operation, including round trips of clients handed
  out before, fails with \<open>ErrRegistryClosed\<close> and sends nothing; closing again changes nothing.\<close>

theorem Registry_Close_final:
  "let reg' = snd (Registry_Close reg)
   in Registry_Do clientDo reg' (Some c) r (Some rq) w = (Inl (Sentinel ErrRegistryClosed), w) \<and>
      RoundTrip transportDo reg' r (Some rq) w = (Inl (Sentinel ErrRegistryClosed), w) \<and>
      Registry_HTTPClient reg' r = Inl (Sentinel ErrRegistryClosed) \<and>
      Registry_Route reg' r = Inl (Sentinel ErrRegistryClosed) \<and>
      VerifyPublicIP clientDo Parse ParseIP Unmarshal now reg' ctx r endpoint w =
        (zeroPublicIPCheck, Some (Sentinel ErrRegistryClosed), w) \<and>
      Registry_Close reg' = ([], reg') \<and> Registry_Routes reg' = Registry_Routes reg"
  by (auto simp: Let_def Registry_Close_def Registry_Do_def RoundTrip_def Registry_HTTPClient_def
      Registry_Route_def VerifyPublicIP_def lookup_route_def Registry_Routes_def)


text \<open>A route passes the public-IP diagnosis only on evidence: when \<open>VerifyPublicIP\<close> reports no
  error, the reply came through that route with a 2xx status and at most 4096 bytes, it parsed as
  an IP address, and that address equals the expected one whenever one is configured; when the
  configured address differs, the error is \<open>ErrPublicIPMismatch\<close> and the check says so.\<close>

theorem VerifyPublicIP_evidence:
  assumes "VerifyPublicIP clientDo Parse ParseIP Unmarshal now reg (Some c) r endpoint w = (check, err, w')"
    and "err = None \<or> check \<noteq> zeroPublicIPCheck"
  shows "\<exists>route response body ip rq. Registry_Route reg r = Inr route \<and>
     Registry_Do clientDo reg (Some c) r (Some rq) w = (Inr response, w') \<and>
     200 \<le> rs_StatusCode response \<and> rs_StatusCode response < 300 \<and>
     read_limited 4097 response = Inr body \<and> length body \<le> 4096 \<and>
     parsePublicIP ParseIP Unmarshal body = Inr ip \<and> pc_ObservedPublicIP check = cloneIP ip \<and>
     (pc_MatchesExpected check \<longleftrightarrow> er_ExpectedPublicIP route = None \<or> IP_Equal ip (er_ExpectedPublicIP route)) \<and>
     (case err of None \<Rightarrow> pc_MatchesExpected check | Some e \<Rightarrow> \<not> pc_MatchesExpected check \<and> errors_Is ErrPublicIPMismatch e)"
proof -
  obtain route u response ip where route: "Registry_Route reg r = Inr route"
    and sent: "Registry_Do clientDo reg (Some c) r (Some (publicIPRequest c u)) w = (Inr response, w')"
    and seen: "observe_public_IP ParseIP Unmarshal response = Inr ip"
    and cmp: "compare_public_IP route ip (now w') = (check, err)"
    using assms
    by (auto simp: VerifyPublicIP_def Let_def split: sum.splits prod.splits if_splits)
  obtain body where body: "200 \<le> rs_StatusCode response" "rs_StatusCode response < 300"
      "read_limited 4097 response = Inr body" "length body \<le> 4096" "parsePublicIP ParseIP Unmarshal body = Inr ip"
    using seen by (auto simp: observe_public_IP_def split: sum.splits if_splits)
  show ?thesis
    using route sent body cmp
    by (intro exI [of _ route] exI [of _ response] exI [of _ body] exI [of _ ip] exI [of _ "publicIPRequest c u"])
      (auto simp: compare_public_IP_def Let_def split: if_splits)
qed

theorem VerifyPublicIP_evidence_witness:
  "\<exists>check err w'. VerifyPublicIP
     (\<lambda>cl rq w. (Inr \<lparr>rs_StatusCode = 200, rs_Header = [], rs_Body = ''x'', rs_ReadEnd = BodyOK\<rparr>, w))
     (\<lambda>e. Inr \<lparr>up_Scheme = ''https'', up_Host = ''h'', up_Path = [], up_String = e\<rparr>)
     (\<lambda>s. Some [1, 2, 3, 4]) (\<lambda>b. None) (\<lambda>w. 7) demo_registry (Some Background) ''a'' ''https://h'' () = (check, err, w') \<and>
     err = None \<and> pc_ObservedPublicIP check = Some [1, 2, 3, 4]"
proof -
  let ?V = "VerifyPublicIP
     (\<lambda>cl rq w. (Inr \<lparr>rs_StatusCode = 200, rs_Header = [], rs_Body = ''x'', rs_ReadEnd = BodyOK\<rparr>, w))
     (\<lambda>e. Inr \<lparr>up_Scheme = ''https'', up_Host = ''h'', up_Path = [], up_String = e\<rparr>)
     (\<lambda>s. Some [1, 2, 3, 4]) (\<lambda>b. None) (\<lambda>w. 7) demo_registry (Some Background) ''a'' ''https://h'' ()"
  obtain check err w' where v: "?V = (check, err, w')" by (cases ?V) auto
  have none: "fst (snd ?V) = None" by code_simp
  then have "err = None" by (simp add: v)
  then have "\<exists>body ip. parsePublicIP (\<lambda>s. Some [1, 2, 3, 4]) (\<lambda>b. None) body = Inr ip \<and>
      pc_ObservedPublicIP check = cloneIP ip"
    using VerifyPublicIP_evidence [OF v] by blast
  then have "pc_ObservedPublicIP check = Some [1, 2, 3, 4]" by (auto simp: parsePublicIP_def)
  with v \<open>err = None\<close> show ?thesis by blast
qed

end
