(* ===== verification/Exchange_Executor.thy ===== *)
theory Exchange_Executor
  imports Rate_Limiter Egress_Transport
begin

text \<open>
  Package \<open>exchange\<close> (\<open>exchange/executor.go\<close>): the pipeline every REST request of every
  adapter goes through. It waits for the rate limiter, builds and signs the request, sends it on
  the execution's egress route, bounds the response, classifies failures and retries reads only.

  The state of the world (sockets, clocks, the limiter's backend) is a type parameter \<open>'w\<close>. The
  dependencies of an executor are functions on it: the sender, the limiter, the observer and the
  builder of the request. What the Go runtime contributes (the clock, the state of a context, the
  random source, timers, the HTTP date parser) is the record \<open>go_runtime\<close>.
\<close>

section \<open>Data\<close>

abbreviation millisecond :: int where "millisecond \<equiv> 1000000"

abbreviation defaultMaxResponseBodyBytes :: int where "defaultMaxResponseBodyBytes \<equiv> 33554432"

type_synonym OperationKind = "8 word"

abbreviation OperationRead :: OperationKind where "OperationRead \<equiv> 0"
abbreviation OperationMutation :: OperationKind where "OperationMutation \<equiv> 1"

type_synonym 'w Sender =
  "go_context option \<Rightarrow> EgressRouteID \<Rightarrow> http_Request option \<Rightarrow> 'w \<Rightarrow> http_Response result \<times> 'w"

text \<open>A builder returns an error or a request, which may be nil.\<close>

type_synonym 'w BuildRequest = "go_context \<Rightarrow> 'w \<Rightarrow> http_Request option result \<times> 'w"

record 'w Execution =
  ex_Exchange :: ExchangeID
  ex_EndpointID :: string
  ex_AccountID :: string
  ex_EgressRouteID :: EgressRouteID
  ex_Timeout :: int
  ex_Charges :: "Charge list"
  ex_Operation :: OperationKind
  ex_Build :: "'w BuildRequest option"

record ReadRetryPolicy =
  rp_MaxAttempts :: int
  rp_BaseDelay :: int
  rp_MaxDelay :: int

definition defaultReadRetryPolicy :: ReadRetryPolicy where
  "defaultReadRetryPolicy = \<lparr>rp_MaxAttempts = 2, rp_BaseDelay = 50 * millisecond, rp_MaxDelay = 500 * millisecond\<rparr>"

record ExecutionObservation =
  ob_Exchange :: ExchangeID
  ob_EndpointID :: string
  ob_EgressRouteID :: EgressRouteID
  ob_Operation :: OperationKind
  ob_Attempt :: int
  ob_Duration :: int
  ob_StatusCode :: int
  ob_ErrorCategory :: ErrorCategory

type_synonym 'w ExecutionObserver = "ExecutionObservation \<Rightarrow> 'w \<Rightarrow> 'w"

record Response =
  re_StatusCode :: int
  re_Header :: "(string \<times> string) list"
  re_Body :: string

definition zeroResponse :: Response where
  "zeroResponse = \<lparr>re_StatusCode = 0, re_Header = [], re_Body = []\<rparr>"

record 'w limiter_ops =
  lo_Wait :: "go_context \<Rightarrow> Charge list \<Rightarrow> 'w \<Rightarrow> go_error option \<times> 'w"
  lo_BlockFor :: "string list \<Rightarrow> int \<Rightarrow> 'w \<Rightarrow> go_error option \<times> 'w"

record 'w ExecutorConfig =
  xc_Sender :: "'w Sender option"
  xc_Limiter :: "'w limiter_ops option"
  xc_MaxResponseBodyBytes :: int
  xc_ReadRetryPolicy :: "ReadRetryPolicy option"
  xc_Observer :: "'w ExecutionObserver option"

record 'w Executor =
  xe_sender :: "'w Sender"
  xe_limiter :: "'w limiter_ops"
  xe_maxResponseBodyBytes :: int
  xe_readRetryPolicy :: ReadRetryPolicy
  xe_observer :: "'w ExecutionObserver option"

text \<open>
  The Go runtime: the clock, \<open>ctx.Err()\<close>, \<open>rand.Int64N\<close>, a timer raced against a context
  (\<open>None\<close> when the timer fires, otherwise the context's error) and \<open>http.ParseTime\<close>.
\<close>

record 'w go_runtime =
  go_now :: "'w \<Rightarrow> int"
  go_ctxErr :: "go_context \<Rightarrow> 'w \<Rightarrow> go_error option"
  go_Int64N :: "int \<Rightarrow> 'w \<Rightarrow> int \<times> 'w"
  go_timer :: "go_context \<Rightarrow> int \<Rightarrow> 'w \<Rightarrow> go_error option \<times> 'w"
  go_ParseTime :: "string \<Rightarrow> int option"

section \<open>Construction\<close>

definition ReadRetryPolicy_validate :: "ReadRetryPolicy \<Rightarrow> go_error option" where
  "ReadRetryPolicy_validate policy =
     (if rp_MaxAttempts policy < 1 \<or> 5 < rp_MaxAttempts policy
      then Some (errorText ''read retry max attempts must be between 1 and 5'')
      else if rp_BaseDelay policy < 0 \<or> rp_MaxDelay policy < 0 \<or> rp_MaxDelay policy < rp_BaseDelay policy
      then Some (errorText ''read retry delays must be non-negative and max delay must be at least base delay'')
      else None)"

definition NewExecutor :: "'w ExecutorConfig \<Rightarrow> 'w Executor result" where
  "NewExecutor config =
     (case xc_Sender config of
        None \<Rightarrow> Inl (errorText ''exchange executor sender is required'')
      | Some sender \<Rightarrow>
          (case xc_Limiter config of
             None \<Rightarrow> Inl (errorText ''exchange executor limiter is required'')
           | Some limiter \<Rightarrow>
               let maxBytes = (if xc_MaxResponseBodyBytes config = 0 then defaultMaxResponseBodyBytes
                               else xc_MaxResponseBodyBytes config)
               in if maxBytes < 0 then Inl (errorText ''maximum response body size cannot be negative'')
                  else
                    let retryPolicy = (case xc_ReadRetryPolicy config of None \<Rightarrow> defaultReadRetryPolicy | Some p \<Rightarrow> p)
                    in case ReadRetryPolicy_validate retryPolicy of
                         Some err \<Rightarrow> Inl err
                       | None \<Rightarrow>
                           Inr \<lparr>xe_sender = sender, xe_limiter = limiter, xe_maxResponseBodyBytes = maxBytes,
                                xe_readRetryPolicy = retryPolicy, xe_observer = xc_Observer config\<rparr>))"

section \<open>Classifying failures\<close>

definition transportError :: "'w Execution \<Rightarrow> go_error \<Rightarrow> go_error" where
  "transportError execution err =
     (if errors_Is ErrUnknownEgressRoute err \<or> errors_Is ErrRegistryClosed err \<or>
         errors_Is ErrLocalAddressUnavailable err
      then ErrAPI (APIError ErrorValidation (ex_Exchange execution) (ex_AccountID execution) [] False 0 [] [] (Some err))
      else
        let category = (if errors_Is ContextCanceled err \<or> errors_Is ContextDeadlineExceeded err
                        then ErrorTimeout else ErrorNetwork);
            retryable = (ex_Operation execution = OperationRead);
            (category, retryable) =
              (if ex_Operation execution = OperationMutation then (ErrorUnknownExecutionState, False)
               else (category, retryable))
        in ErrAPI (APIError category (ex_Exchange execution) (ex_AccountID execution) [] retryable 0 [] [] (Some err)))"

definition responseError :: "'w Execution \<Rightarrow> go_error \<Rightarrow> go_error" where
  "responseError execution err =
     (let (category, retryable) =
            (if ex_Operation execution = OperationMutation then (ErrorUnknownExecutionState, False)
             else (ErrorExchangeUnavailable, ex_Operation execution = OperationRead))
      in ErrAPI (APIError category (ex_Exchange execution) (ex_AccountID execution) [] retryable 0 [] [] (Some err)))"

definition limiterError :: "'w Execution \<Rightarrow> go_error \<Rightarrow> go_error" where
  "limiterError execution err =
     (let (category, retryable) =
            (if errors_Is ContextCanceled err \<or> errors_Is ContextDeadlineExceeded err
             then (ErrorTimeout, True) else (ErrorInternal, False))
      in ErrAPI (APIError category (ex_Exchange execution) (ex_AccountID execution) [] retryable 0 [] [] (Some err)))"

definition retryableReadStatus :: "int \<Rightarrow> bool" where
  "retryableReadStatus status \<longleftrightarrow> status \<in> {408, 425, 500, 502, 503, 504}"

definition retryableAPIError :: "go_error \<Rightarrow> bool" where
  "retryableAPIError err = (case errors_As_API err of Some a \<Rightarrow> ae_Retryable a | None \<Rightarrow> False)"

definition observe ::
  "'w go_runtime \<Rightarrow> 'w Executor \<Rightarrow> 'w Execution \<Rightarrow> string \<Rightarrow> int \<Rightarrow> int \<Rightarrow> int \<Rightarrow> go_error option \<Rightarrow> 'w \<Rightarrow> 'w" where
  "observe rt executor execution endpointID attempt started statusCode err w =
     (case xe_observer executor of
        None \<Rightarrow> w
      | Some observer \<Rightarrow>
          observer
            \<lparr>ob_Exchange = ex_Exchange execution, ob_EndpointID = endpointID,
             ob_EgressRouteID = ex_EgressRouteID execution, ob_Operation = ex_Operation execution,
             ob_Attempt = attempt, ob_Duration = go_now rt w - started, ob_StatusCode = statusCode,
             ob_ErrorCategory =
               (case err of
                  None \<Rightarrow> []
                | Some e \<Rightarrow> (case errors_As_API e of Some a \<Rightarrow> ae_Category a | None \<Rightarrow> []))\<rparr> w)"

section \<open>Retry-After\<close>

definition retryAfterDuration :: "(string \<Rightarrow> int option) \<Rightarrow> string \<Rightarrow> int \<Rightarrow> int" where
  "retryAfterDuration ParseTime val now =
     (case Atoi (TrimSpace val) of
        Some seconds \<Rightarrow>
          if 0 < seconds then wrap64 (seconds * second)
          else (case ParseTime val of
                  Some retryAt \<Rightarrow> if now < retryAt then saturate64 (retryAt - now) else second
                | None \<Rightarrow> second)
      | None \<Rightarrow>
          (case ParseTime val of
             Some retryAt \<Rightarrow> if now < retryAt then saturate64 (retryAt - now) else second
           | None \<Rightarrow> second))"

definition header_get :: "(string \<times> string) list \<Rightarrow> string \<Rightarrow> string" where
  "header_get hs k = (case map_of hs k of Some v \<Rightarrow> v | None \<Rightarrow> [])"

fun unique_keys :: "Charge list \<Rightarrow> string set \<Rightarrow> string list" where
  "unique_keys [] seen = []"
| "unique_keys (c # cs) seen =
     (if charge_Key c \<in> seen then unique_keys cs seen
      else charge_Key c # unique_keys cs (insert (charge_Key c) seen))"

definition applyRetryAfter ::
  "'w go_runtime \<Rightarrow> 'w Executor \<Rightarrow> (string \<times> string) list \<Rightarrow> Charge list \<Rightarrow> 'w \<Rightarrow> 'w" where
  "applyRetryAfter rt executor headers charges w =
     (let duration = retryAfterDuration (go_ParseTime rt) (header_get headers ''Retry-After'') (go_now rt w);
          keys = unique_keys charges {}
      in if keys \<noteq> [] then snd (lo_BlockFor (xe_limiter executor) keys duration w) else w)"

section \<open>One attempt\<close>

text \<open>
  \<open>executeAttempt\<close> in the order of its code: the handling of a response, the transmission with
  its failure, and before them the limiter and the builder.
\<close>

definition attempt_response ::
  "'w go_runtime \<Rightarrow> 'w Executor \<Rightarrow> go_context \<Rightarrow> 'w Execution \<Rightarrow> string \<Rightarrow> int \<Rightarrow> int \<Rightarrow> http_Response \<Rightarrow> 'w \<Rightarrow>
   Response \<times> bool \<times> go_error option \<times> 'w" where
  "attempt_response rt executor requestCtx execution endpointID attempt started httpResponse w =
     (case read_limited (wrap64 (xe_maxResponseBodyBytes executor + 1)) httpResponse of
        Inl err \<Rightarrow>
          let apiError = responseError execution (Errorf ''read response body: %w'' [] [err]);
              retry = (ex_Operation execution = OperationRead \<and> go_ctxErr rt requestCtx w = None)
          in (zeroResponse, retry, Some apiError,
              observe rt executor execution endpointID attempt started (rs_StatusCode httpResponse) (Some apiError) w)
      | Inr body \<Rightarrow>
          if xe_maxResponseBodyBytes executor < int (length body)
          then let apiError = responseError execution
                     (Errorf ''response body exceeds %d bytes'' [IntArg (xe_maxResponseBodyBytes executor)] [])
               in (zeroResponse, False, Some apiError,
                   observe rt executor execution endpointID attempt started (rs_StatusCode httpResponse) (Some apiError) w)
          else
            let response = \<lparr>re_StatusCode = rs_StatusCode httpResponse,
                            re_Header = rs_Header httpResponse, re_Body = body\<rparr>;
                w = (if rs_StatusCode httpResponse = 429 \<or> rs_StatusCode httpResponse = 418
                     then applyRetryAfter rt executor (re_Header response) (ex_Charges execution) w else w);
                retry = (ex_Operation execution = OperationRead \<and> retryableReadStatus (re_StatusCode response))
            in (response, retry, None,
                observe rt executor execution endpointID attempt started (re_StatusCode response) None w))"

definition attempt_send ::
  "'w go_runtime \<Rightarrow> 'w Executor \<Rightarrow> go_context \<Rightarrow> 'w Execution \<Rightarrow> int \<Rightarrow> int \<Rightarrow> http_Request \<Rightarrow> 'w \<Rightarrow>
   Response \<times> bool \<times> go_error option \<times> 'w" where
  "attempt_send rt executor requestCtx execution attempt started request w =
     (let endpointID =
            (case rq_URL request of
               Some (base, path) \<Rightarrow>
                 if ex_EndpointID execution = [] then rq_Method request @ '' '' @ path else ex_EndpointID execution
             | None \<Rightarrow> ex_EndpointID execution)
      in case xe_sender executor (Some requestCtx) (ex_EgressRouteID execution) (Some request) w of
           (Inl err, w) \<Rightarrow>
             let apiError = transportError execution err;
                 retry = (ex_Operation execution = OperationRead \<and> retryableAPIError apiError \<and>
                          go_ctxErr rt requestCtx w = None)
             in (zeroResponse, retry, Some apiError,
                 observe rt executor execution endpointID attempt started 0 (Some apiError) w)
         | (Inr httpResponse, w) \<Rightarrow>
             attempt_response rt executor requestCtx execution endpointID attempt started httpResponse w)"

definition executeAttempt ::
  "'w go_runtime \<Rightarrow> 'w Executor \<Rightarrow> go_context \<Rightarrow> 'w Execution \<Rightarrow> 'w BuildRequest \<Rightarrow> int \<Rightarrow> 'w \<Rightarrow>
   Response \<times> bool \<times> go_error option \<times> 'w" where
  "executeAttempt rt executor requestCtx execution build attempt w =
     (let started = go_now rt w;
          failed = (\<lambda>err w. (zeroResponse, False, Some err,
            observe rt executor execution (ex_EndpointID execution) attempt started 0 (Some err) w))
      in case lo_Wait (xe_limiter executor) requestCtx (ex_Charges execution) w of
           (Some err, w) \<Rightarrow> failed (limiterError execution err) w
         | (None, w) \<Rightarrow>
             (case build requestCtx w of
                (Inl err, w) \<Rightarrow> failed err w
              | (Inr None, w) \<Rightarrow> failed (errorText ''request builder returned nil request'') w
              | (Inr (Some request), w) \<Rightarrow>
                  attempt_send rt executor requestCtx execution attempt started request w))"

section \<open>Backoff between attempts\<close>

text \<open>The doubling loop; \<open>n\<close> is how often the loop counter still lets it run.\<close>

fun backoff_loop :: "int \<Rightarrow> nat \<Rightarrow> int \<Rightarrow> int" where
  "backoff_loop maxDelay 0 delay = delay"
| "backoff_loop maxDelay (Suc n) delay =
     (if delay < maxDelay
      then if maxDelay div 2 < delay then maxDelay
           else backoff_loop maxDelay n (wrap64 (delay * 2))
      else delay)"

definition retryDelay :: "ReadRetryPolicy \<Rightarrow> int \<Rightarrow> int" where
  "retryDelay policy attempt =
     (let delay = backoff_loop (rp_MaxDelay policy) (nat (attempt - 1)) (rp_BaseDelay policy)
      in if rp_MaxDelay policy < delay then rp_MaxDelay policy else delay)"

definition waitBeforeRetry ::
  "'w go_runtime \<Rightarrow> 'w Executor \<Rightarrow> go_context \<Rightarrow> int \<Rightarrow> 'w \<Rightarrow> go_error option \<times> 'w" where
  "waitBeforeRetry rt executor ctx attempt w =
     (let delay = retryDelay (xe_readRetryPolicy executor) attempt;
          (delay, w) = (if 0 < delay then go_Int64N rt (wrap64 (delay + 1)) w else (delay, w))
      in if delay = 0 then (None, w) else go_timer rt ctx delay w)"

section \<open>Execute\<close>

text \<open>The retry loop; \<open>n\<close> is how many iterations the loop condition still allows.\<close>

fun execute_loop ::
  "'w go_runtime \<Rightarrow> 'w Executor \<Rightarrow> go_context \<Rightarrow> 'w Execution \<Rightarrow> 'w BuildRequest \<Rightarrow> int \<Rightarrow> nat \<Rightarrow> int \<Rightarrow> 'w \<Rightarrow>
   Response \<times> go_error option \<times> 'w" where
  "execute_loop rt executor ctx execution build maxAttempts 0 attempt w =
     (zeroResponse, Some (errorText ''execution retry loop exhausted''), w)"
| "execute_loop rt executor ctx execution build maxAttempts (Suc n) attempt w =
     (case executeAttempt rt executor ctx execution build attempt w of
        (response, retry, err, w) \<Rightarrow>
          if err = None \<and> \<not> retry then (response, None, w)
          else if \<not> retry \<or> attempt = maxAttempts then (response, err, w)
          else case waitBeforeRetry rt executor ctx attempt w of
                 (Some waitErr, w) \<Rightarrow> (zeroResponse, Some (transportError execution waitErr), w)
               | (None, w) \<Rightarrow> execute_loop rt executor ctx execution build maxAttempts n (attempt + 1) w)"

definition maxAttempts_of :: "'w Executor \<Rightarrow> 'w Execution \<Rightarrow> int" where
  "maxAttempts_of executor execution =
     (if ex_Operation execution = OperationRead then rp_MaxAttempts (xe_readRetryPolicy executor) else 1)"

definition Execute ::
  "'w go_runtime \<Rightarrow> 'w Executor \<Rightarrow> go_context option \<Rightarrow> 'w Execution \<Rightarrow> 'w \<Rightarrow> Response \<times> go_error option \<times> 'w" where
  "Execute rt executor ctx execution w =
     (case ctx of
        None \<Rightarrow> (zeroResponse, Some (errorText ''execution context cannot be nil''), w)
      | Some c \<Rightarrow>
          if \<not> ExchangeID_Valid (ex_Exchange execution)
          then (zeroResponse, Some (errorText ''execution exchange is required''), w)
          else if TrimSpace (ex_EgressRouteID execution) = [] then (zeroResponse, Some (Sentinel ErrMissingEgressRoute), w)
          else case ex_Build execution of
                 None \<Rightarrow> (zeroResponse, Some (errorText ''request builder is required''), w)
               | Some build \<Rightarrow>
                   if ex_Operation execution \<noteq> OperationRead \<and> ex_Operation execution \<noteq> OperationMutation
                   then (zeroResponse, Some (Errorf ''unsupported operation kind %d'' [IntArg (uint (ex_Operation execution))] []), w)
                   else
                     let requestCtx = (if 0 < ex_Timeout execution then WithTimeoutCtx c (ex_Timeout execution) else c);
                         maxAttempts = maxAttempts_of executor execution
                     in execute_loop rt executor requestCtx execution build maxAttempts (nat maxAttempts) 1 w)"

section \<open>Recording what a run does\<close>

text \<open>
  The same executor over a world that also keeps a tr of the limiter's answers and of the
  requests handed to the sender. Forgetting the tr gives back the original run.
\<close>

datatype exec_event = EvWait bool | EvBuild | EvSend EgressRouteID http_Request

definition traced_sender :: "'w Sender \<Rightarrow> ('w \<times> exec_event list) Sender" where
  "traced_sender send ctx r rq = (\<lambda>(w, tr).
     case send ctx r rq w of (res, w') \<Rightarrow>
       (res, w', tr @ (case rq of Some q \<Rightarrow> [EvSend r q] | None \<Rightarrow> [])))"

definition traced_limiter :: "'w limiter_ops \<Rightarrow> ('w \<times> exec_event list) limiter_ops" where
  "traced_limiter l =
     \<lparr>lo_Wait = (\<lambda>ctx cs (w, tr). case lo_Wait l ctx cs w of (res, w') \<Rightarrow> (res, w', tr @ [EvWait (res = None)])),
      lo_BlockFor = (\<lambda>keys d (w, tr). case lo_BlockFor l keys d w of (res, w') \<Rightarrow> (res, w', tr))\<rparr>"

definition traced_build :: "'w BuildRequest \<Rightarrow> ('w \<times> exec_event list) BuildRequest" where
  "traced_build b ctx = (\<lambda>(w, tr). case b ctx w of (res, w') \<Rightarrow> (res, w', tr @ [EvBuild]))"

definition traced_executor :: "'w Executor \<Rightarrow> ('w \<times> exec_event list) Executor" where
  "traced_executor x =
     \<lparr>xe_sender = traced_sender (xe_sender x), xe_limiter = traced_limiter (xe_limiter x),
      xe_maxResponseBodyBytes = xe_maxResponseBodyBytes x, xe_readRetryPolicy = xe_readRetryPolicy x,
      xe_observer = map_option (\<lambda>f ob (w, tr). (f ob w, tr)) (xe_observer x)\<rparr>"

definition traced_execution :: "'w Execution \<Rightarrow> ('w \<times> exec_event list) Execution" where
  "traced_execution e =
     \<lparr>ex_Exchange = ex_Exchange e, ex_EndpointID = ex_EndpointID e, ex_AccountID = ex_AccountID e,
      ex_EgressRouteID = ex_EgressRouteID e, ex_Timeout = ex_Timeout e, ex_Charges = ex_Charges e,
      ex_Operation = ex_Operation e, ex_Build = map_option traced_build (ex_Build e)\<rparr>"

definition traced_runtime :: "'w go_runtime \<Rightarrow> ('w \<times> exec_event list) go_runtime" where
  "traced_runtime rt =
     \<lparr>go_now = (\<lambda>(w, tr). go_now rt w), go_ctxErr = (\<lambda>ctx (w, tr). go_ctxErr rt ctx w),
      go_Int64N = (\<lambda>n (w, tr). case go_Int64N rt n w of (x, w') \<Rightarrow> (x, w', tr)),
      go_timer = (\<lambda>ctx d (w, tr). case go_timer rt ctx d w of (x, w') \<Rightarrow> (x, w', tr)),
      go_ParseTime = go_ParseTime rt\<rparr>"

lemmas trace_defs = traced_sender_def traced_limiter_def traced_build_def traced_executor_def
  traced_execution_def traced_runtime_def

lemma traced_errors [simp]:
  "transportError (traced_execution e) = transportError e"
  "responseError (traced_execution e) = responseError e"
  "limiterError (traced_execution e) = limiterError e"
  by (simp_all add: fun_eq_iff transportError_def responseError_def limiterError_def traced_execution_def)

lemma traced_fields [simp]:
  "ex_Operation (traced_execution e) = ex_Operation e" "ex_Charges (traced_execution e) = ex_Charges e"
  "ex_EgressRouteID (traced_execution e) = ex_EgressRouteID e" "ex_EndpointID (traced_execution e) = ex_EndpointID e"
  "xe_maxResponseBodyBytes (traced_executor x) = xe_maxResponseBodyBytes x"
  "xe_readRetryPolicy (traced_executor x) = xe_readRetryPolicy x"
  "go_ctxErr (traced_runtime rt) ctx (w, tr) = go_ctxErr rt ctx w"
  "go_now (traced_runtime rt) (w, tr) = go_now rt w"
  "ex_Exchange (traced_execution e) = ex_Exchange e" "ex_Timeout (traced_execution e) = ex_Timeout e"
  "ex_Build (traced_execution e) = map_option traced_build (ex_Build e)"
  "maxAttempts_of (traced_executor x) (traced_execution e) = maxAttempts_of x e"
  by (simp_all add: trace_defs maxAttempts_of_def)

lemma traced_observe [simp]:
  "observe (traced_runtime rt) (traced_executor x) (traced_execution e) ep a st code err (w, tr) =
     (observe rt x e ep a st code err w, tr)"
  by (simp add: observe_def trace_defs split: option.split)

lemma traced_applyRetryAfter [simp]:
  "applyRetryAfter (traced_runtime rt) (traced_executor x) hs cs (w, tr) = (applyRetryAfter rt x hs cs w, tr)"
  by (simp add: applyRetryAfter_def trace_defs Let_def split: prod.split)

lemma traced_waitBeforeRetry [simp]:
  "waitBeforeRetry (traced_runtime rt) (traced_executor x) ctx a (w, tr) =
     (case waitBeforeRetry rt x ctx a w of (r, w') \<Rightarrow> (r, w', tr))"
  by (simp add: waitBeforeRetry_def trace_defs Let_def split: prod.split)

text \<open>The events of one attempt: what it does, and what it returns.\<close>

lemma traced_limiter_Wait [simp]:
  "lo_Wait (xe_limiter (traced_executor x)) ctx cs (w, tr) =
     (case lo_Wait (xe_limiter x) ctx cs w of (res, w') \<Rightarrow> (res, w', tr @ [EvWait (res = None)]))"
  by (simp add: trace_defs)

lemma traced_send [simp]:
  "xe_sender (traced_executor x) ctx r (Some rq) (w, tr) =
     (case xe_sender x ctx r (Some rq) w of (res, w') \<Rightarrow> (res, w', tr @ [EvSend r rq]))"
  by (simp add: trace_defs)

lemma traced_build_simp [simp]:
  "traced_build b ctx (w, tr) = (case b ctx w of (res, w') \<Rightarrow> (res, w', tr @ [EvBuild]))"
  by (simp add: trace_defs)

text \<open>The error of a mutation after its request went to the sender.\<close>

definition unknown_outcome :: "go_error \<Rightarrow> bool" where
  "unknown_outcome err \<longleftrightarrow> (\<exists>a c. err = ErrAPI a \<and> \<not> ae_Retryable a \<and> ae_Cause a = Some c \<and>
     (ae_Category a = ErrorUnknownExecutionState \<or>
      ae_Category a = ErrorValidation \<and>
      (errors_Is ErrUnknownEgressRoute c \<or> errors_Is ErrRegistryClosed c \<or> errors_Is ErrLocalAddressUnavailable c)))"

lemma transportError_mutation:
  "ex_Operation e = OperationMutation \<Longrightarrow> unknown_outcome (transportError e c)"
  by (simp add: unknown_outcome_def transportError_def)

lemma responseError_mutation:
  "ex_Operation e = OperationMutation \<Longrightarrow> unknown_outcome (responseError e c)"
  by (simp add: unknown_outcome_def responseError_def)

lemma read_limited_bound:
  "read_limited (n + 1) response = Inr body \<Longrightarrow> int (length body) \<le> n \<Longrightarrow>
     body = rs_Body response \<and> rs_ReadEnd response = BodyOK"
  by (auto simp: read_limited_def split: if_splits body_read.splits)

definition traced_result :: "(Response \<times> bool \<times> go_error option \<times> 'w) \<Rightarrow> exec_event list \<Rightarrow>
    Response \<times> bool \<times> go_error option \<times> 'w \<times> exec_event list" where
  "traced_result res tr = (case res of (response, retry, err, w) \<Rightarrow> (response, retry, err, w, tr))"

lemma traced_attempt_response:
  "attempt_response (traced_runtime rt) (traced_executor x) ctx (traced_execution e) ep a st hr (w, tr) =
     traced_result (attempt_response rt x ctx e ep a st hr w) tr"
  by (auto simp: attempt_response_def traced_result_def Let_def split: sum.split)

lemma traced_attempt_send:
  "attempt_send (traced_runtime rt) (traced_executor x) ctx (traced_execution e) a st rq (w, tr) =
     traced_result (attempt_send rt x ctx e a st rq w) (tr @ [EvSend (ex_EgressRouteID e) rq])"
  by (cases "rq_URL rq")
     (auto simp: attempt_send_def Let_def traced_attempt_response traced_result_def split: sum.split prod.split)

text \<open>Which of the three ways an attempt takes: refused by the limiter, stopped while building, or
  sent.\<close>

lemma executeAttempt_cases:
  obtains (refused) err w1 where "lo_Wait (xe_limiter x) ctx (ex_Charges e) w = (Some err, w1)"
      "executeAttempt rt x ctx e b a w = (zeroResponse, False, Some (limiterError e err),
         observe rt x e (ex_EndpointID e) a (go_now rt w) 0 (Some (limiterError e err)) w1)"
      "executeAttempt (traced_runtime rt) (traced_executor x) ctx (traced_execution e) (traced_build b) a (w, tr) =
         traced_result (executeAttempt rt x ctx e b a w) (tr @ [EvWait False])"
  | (stopped) err w1 where
      "executeAttempt rt x ctx e b a w = (zeroResponse, False, Some err,
         observe rt x e (ex_EndpointID e) a (go_now rt w) 0 (Some err) w1)"
      "executeAttempt (traced_runtime rt) (traced_executor x) ctx (traced_execution e) (traced_build b) a (w, tr) =
         traced_result (executeAttempt rt x ctx e b a w) (tr @ [EvWait True, EvBuild])"
  | (sent) rq w1 where
      "executeAttempt rt x ctx e b a w = attempt_send rt x ctx e a (go_now rt w) rq w1"
      "executeAttempt (traced_runtime rt) (traced_executor x) ctx (traced_execution e) (traced_build b) a (w, tr) =
         traced_result (executeAttempt rt x ctx e b a w) (tr @ [EvWait True, EvBuild, EvSend (ex_EgressRouteID e) rq])"
proof (cases "lo_Wait (xe_limiter x) ctx (ex_Charges e) w")
  case (Pair werr w1)
  show thesis
  proof (cases werr)
    case (Some err)
    show thesis by (rule refused) (simp_all add: Pair Some executeAttempt_def traced_result_def Let_def)
  next
    case None
    obtain res w2 where b: "b ctx w1 = (res, w2)" by fastforce
    show thesis
    proof (cases res)
      case (Inl err)
      show thesis by (rule stopped) (simp_all add: Pair None b Inl executeAttempt_def traced_result_def Let_def)
    next
      case (Inr req)
      show thesis
      proof (cases req)
        case None
        show thesis
          by (rule stopped) (simp_all add: Pair \<open>werr = None\<close> b Inr None executeAttempt_def traced_result_def Let_def)
      next
        case (Some rq)
        show thesis
          by (rule sent) (simp_all add: Pair \<open>werr = None\<close> b Inr Some executeAttempt_def traced_attempt_send Let_def)
      qed
    qed
  qed
qed

text \<open>What a transmission returns: a retry only for reads, a bounded body on success, and the unknown
  outcome for every failure of a mutation.\<close>

lemma attempt_response_result:
  assumes "attempt_response rt x ctx e ep a st hr w = (response, retry, err, w')"
  shows "(retry \<longrightarrow> ex_Operation e = OperationRead) \<and>
     (err = None \<longrightarrow> int (length (re_Body response)) \<le> xe_maxResponseBodyBytes x) \<and>
     (ex_Operation e = OperationMutation \<longrightarrow> pred_option unknown_outcome err)"
  using assms by (auto simp: attempt_response_def Let_def responseError_mutation split: sum.splits if_splits)

lemma attempt_send_result:
  assumes "attempt_send rt x ctx e a st rq w = (response, retry, err, w')"
  shows "(retry \<longrightarrow> ex_Operation e = OperationRead) \<and>
     (err = None \<longrightarrow> int (length (re_Body response)) \<le> xe_maxResponseBodyBytes x) \<and>
     (ex_Operation e = OperationMutation \<longrightarrow> pred_option unknown_outcome err)"
  using assms
  by (auto simp: attempt_send_def Let_def transportError_mutation dest: attempt_response_result
      split: sum.splits prod.splits)


text \<open>The requests of a log, and the order it must respect: a request is sent only after the
  limiter's grant and the builder, and each grant pays for one request.\<close>

fun sends :: "exec_event list \<Rightarrow> EgressRouteID list" where
  "sends [] = []"
| "sends (EvSend r rq # evs) = r # sends evs"
| "sends (_ # evs) = sends evs"

fun paid :: "bool \<Rightarrow> exec_event list \<Rightarrow> bool" where
  "paid g [] = True"
| "paid g (EvWait ok # evs) = paid ok evs"
| "paid g (EvBuild # evs) = (g \<and> paid g evs)"
| "paid g (EvSend r rq # evs) = (g \<and> paid False evs)"

lemma sends_append [simp]: "sends (xs @ ys) = sends xs @ sends ys"
  by (induction xs rule: sends.induct) auto

definition run_spec :: "'w Executor \<Rightarrow> 'w Execution \<Rightarrow> nat \<Rightarrow> exec_event list \<Rightarrow> Response \<Rightarrow> go_error option \<Rightarrow> bool" where
  "run_spec x e n evs response err \<longleftrightarrow>
     length (sends evs) \<le> n \<and> set (sends evs) \<subseteq> {ex_EgressRouteID e} \<and> paid False evs \<and>
     (err = None \<longrightarrow> sends evs \<noteq> [] \<and> int (length (re_Body response)) \<le> xe_maxResponseBodyBytes x) \<and>
     (ex_Operation e = OperationMutation \<and> sends evs \<noteq> [] \<longrightarrow> length (sends evs) = 1 \<and> pred_option unknown_outcome err)"

lemma execute_loop_run:
  assumes "execute_loop (traced_runtime rt) (traced_executor x) ctx (traced_execution e) (traced_build b) m n a (w, tr)
      = (response, err, w', tr')"
  shows "\<exists>evs. tr' = tr @ evs \<and> execute_loop rt x ctx e b m n a w = (response, err, w') \<and> run_spec x e n evs response err"
  using assms
proof (induction n arbitrary: a w tr)
  case 0
  then show ?case by (auto simp: run_spec_def)
next
  case (Suc n)
  show ?case
  proof (rule executeAttempt_cases [where x = x and ctx = ctx and e = e and w = w and rt = rt and b = b and a = a and tr = tr])
    fix er w1
    assume refused: "executeAttempt rt x ctx e b a w = (zeroResponse, False, Some (limiterError e er),
         observe rt x e (ex_EndpointID e) a (go_now rt w) 0 (Some (limiterError e er)) w1)"
      "executeAttempt (traced_runtime rt) (traced_executor x) ctx (traced_execution e) (traced_build b) a (w, tr) =
         traced_result (executeAttempt rt x ctx e b a w) (tr @ [EvWait False])"
    with Suc.prems show ?thesis by (auto simp: traced_result_def run_spec_def)
  next
    fix er w1
    assume stopped: "executeAttempt rt x ctx e b a w = (zeroResponse, False, Some er,
         observe rt x e (ex_EndpointID e) a (go_now rt w) 0 (Some er) w1)"
      "executeAttempt (traced_runtime rt) (traced_executor x) ctx (traced_execution e) (traced_build b) a (w, tr) =
         traced_result (executeAttempt rt x ctx e b a w) (tr @ [EvWait True, EvBuild])"
    with Suc.prems show ?thesis by (auto simp: traced_result_def run_spec_def)
  next
    fix rq w1
    assume sent: "executeAttempt rt x ctx e b a w = attempt_send rt x ctx e a (go_now rt w) rq w1"
      "executeAttempt (traced_runtime rt) (traced_executor x) ctx (traced_execution e) (traced_build b) a (w, tr) =
         traced_result (executeAttempt rt x ctx e b a w) (tr @ [EvWait True, EvBuild, EvSend (ex_EgressRouteID e) rq])"
    let ?evs = "[EvWait True, EvBuild, EvSend (ex_EgressRouteID e) rq]"
    obtain resp1 retry err1 w2 where att: "executeAttempt rt x ctx e b a w = (resp1, retry, err1, w2)"
      by (cases "executeAttempt rt x ctx e b a w") auto
    note res = attempt_send_result [OF sent(1) [symmetric, unfolded att]]
    show ?thesis
    proof (cases "retry \<and> a \<noteq> m")
      case False
      with Suc.prems sent(2) att have "tr' = tr @ ?evs" "response = resp1" "err = err1" "w' = w2"
        by (auto simp: traced_result_def split: if_splits)
      with False att res show ?thesis by (auto simp: run_spec_def)
    next
      case True
      obtain we w3 where wait: "waitBeforeRetry rt x ctx a w2 = (we, w3)" by fastforce
      show ?thesis
      proof (cases we)
        case (Some waitErr)
        with Suc.prems sent(2) att True wait have "tr' = tr @ ?evs" "response = zeroResponse"
            "err = Some (transportError e waitErr)" "w' = w3"
          by (auto simp: traced_result_def)
        with True att wait Some res show ?thesis by (auto simp: run_spec_def transportError_mutation)
      next
        case None
        with Suc.prems sent(2) att True wait have
          "execute_loop (traced_runtime rt) (traced_executor x) ctx (traced_execution e) (traced_build b) m n (a + 1) (w3, tr @ ?evs)
             = (response, err, w', tr')"
          by (auto simp: traced_result_def)
        from Suc.IH [OF this] obtain evs where "tr' = tr @ ?evs @ evs"
          "execute_loop rt x ctx e b m n (a + 1) w3 = (response, err, w')" "run_spec x e n evs response err"
          by auto
        with True att wait None res show ?thesis
          by (intro exI [of _ "?evs @ evs"]) (auto simp: run_spec_def)
      qed
    qed
  qed
qed

lemma Execute_run:
  assumes "Execute (traced_runtime rt) (traced_executor x) ctx (traced_execution e) (w, []) = (response, err, w', evs)"
  shows "Execute rt x ctx e w = (response, err, w')" "run_spec x e (nat (maxAttempts_of x e)) evs response err"
proof -
  have "Execute rt x ctx e w = (response, err, w') \<and> run_spec x e (nat (maxAttempts_of x e)) evs response err"
  proof (cases "\<exists>c b. ctx = Some c \<and> ExchangeID_Valid (ex_Exchange e) \<and> TrimSpace (ex_EgressRouteID e) \<noteq> [] \<and>
      ex_Build e = Some b \<and> (ex_Operation e = OperationRead \<or> ex_Operation e = OperationMutation)")
    case True
    then obtain c b where cb: "ctx = Some c" "ExchangeID_Valid (ex_Exchange e)" "TrimSpace (ex_EgressRouteID e) \<noteq> []"
      "ex_Build e = Some b" "ex_Operation e = OperationRead \<or> ex_Operation e = OperationMutation" by blast
    define rc where "rc = (if 0 < ex_Timeout e then WithTimeoutCtx c (ex_Timeout e) else c)"
    have "execute_loop (traced_runtime rt) (traced_executor x) rc (traced_execution e) (traced_build b)
        (maxAttempts_of x e) (nat (maxAttempts_of x e)) 1 (w, []) = (response, err, w', evs)"
      using assms cb by (auto simp: Execute_def rc_def Let_def simp del: execute_loop.simps)
    from execute_loop_run [OF this] cb show ?thesis
      by (auto simp: Execute_def rc_def Let_def simp del: execute_loop.simps)
  next
    case False
    with assms show ?thesis
      by (auto simp: Execute_def run_spec_def split: option.splits if_splits)
  qed
  then show "Execute rt x ctx e w = (response, err, w')" "run_spec x e (nat (maxAttempts_of x e)) evs response err" by auto
qed


section \<open>Backoff and Retry-After\<close>

lemma backoff_loop_closed:
  "0 \<le> delay \<Longrightarrow> delay \<le> maxDelay \<Longrightarrow> int64 maxDelay \<Longrightarrow>
     backoff_loop maxDelay n delay = min maxDelay (delay * 2 ^ n)"
proof (induction n arbitrary: delay)
  case (Suc n)
  show ?case
  proof (cases "delay < maxDelay \<and> delay \<le> maxDelay div 2")
    case True
    then have two: "delay * 2 \<le> maxDelay" by linarith
    then have "wrap64 (delay * 2) = delay * 2"
      using Suc.prems by (intro wrap64_id) (auto simp: int64_def)
    with True two Suc show ?thesis by (simp add: mult.assoc)
  next
    case False
    then have "maxDelay \<le> delay * 2 ^ Suc n" using Suc.prems by (intro doubling_reaches) auto
    with False Suc.prems show ?thesis by (auto simp: min_def)
  qed
qed simp


lemma attempt_response_body:
  assumes "attempt_response rt x ctx e ep a st hr w = (response, retry, None, w')"
    and "0 \<le> xe_maxResponseBodyBytes x" "xe_maxResponseBodyBytes x < 2 ^ 63 - 1"
  shows "re_Body response = rs_Body hr \<and> rs_ReadEnd hr = BodyOK \<and>
     re_StatusCode response = rs_StatusCode hr \<and> re_Header response = rs_Header hr"
proof -
  have "wrap64 (xe_maxResponseBodyBytes x + 1) = xe_maxResponseBodyBytes x + 1"
    using assms(2,3) by (intro wrap64_id) (simp add: int64_def)
  with assms(1) show ?thesis
    by (auto simp: attempt_response_def Let_def read_limited_bound split: sum.splits if_splits)
qed

text \<open>A small instance: the world counts transmissions, the sender answers with a 200.\<close>

definition demo_runtime :: "nat go_runtime" where
  "demo_runtime = \<lparr>go_now = int, go_ctxErr = (\<lambda>c w. None), go_Int64N = (\<lambda>n w. (0, w)),
     go_timer = (\<lambda>c d w. (None, w)), go_ParseTime = (\<lambda>v. None)\<rparr>"

definition demo_reply :: http_Response where
  "demo_reply = \<lparr>rs_StatusCode = 200, rs_Header = [], rs_Body = ''ok'', rs_ReadEnd = BodyOK\<rparr>"

definition demo_request :: http_Request where
  "demo_request = \<lparr>rq_Context = Background, rq_Method = ''POST'', rq_URL = None, rq_Header = [], rq_Body = []\<rparr>"

definition demo_executor :: "int \<Rightarrow> nat Executor" where
  "demo_executor maxBytes = \<lparr>xe_sender = (\<lambda>c r rq w. (Inr demo_reply, Suc w)),
     xe_limiter = \<lparr>lo_Wait = (\<lambda>c cs w. (None, w)), lo_BlockFor = (\<lambda>ks d w. (None, w))\<rparr>,
     xe_maxResponseBodyBytes = maxBytes, xe_readRetryPolicy = defaultReadRetryPolicy, xe_observer = None\<rparr>"

definition demo_execution :: "nat Execution" where
  "demo_execution = \<lparr>ex_Exchange = ''binance'', ex_EndpointID = ''order'', ex_AccountID = ''a'',
     ex_EgressRouteID = ''r1'', ex_Timeout = 0, ex_Charges = [], ex_Operation = OperationMutation,
     ex_Build = Some (\<lambda>c w. (Inr (Some demo_request), w))\<rparr>"

lemma executor_demo_run:
  "Execute (traced_runtime demo_runtime) (traced_executor (demo_executor 10)) (Some Background)
     (traced_execution demo_execution) (0, []) =
   (\<lparr>re_StatusCode = 200, re_Header = [], re_Body = ''ok''\<rparr>, None, 1,
    [EvWait True, EvBuild, EvSend ''r1'' demo_request])"
proof -
  have "TrimSpace ''binance'' = ''binance''" "TrimSpace ''r1'' = ''r1''" by code_simp+
  moreover have "read_limited 11 demo_reply = Inr ''ok''" by (simp add: read_limited_def demo_reply_def)
  moreover have "wrap64 11 = 11" by (simp add: wrap64_def)
  ultimately show ?thesis
    by (simp add: Execute_def demo_execution_def demo_executor_def ExchangeID_Valid_def trace_defs
        maxAttempts_of_def executeAttempt_def attempt_send_def attempt_response_def observe_def
        demo_runtime_def demo_request_def demo_reply_def [symmetric] Let_def)
      (simp add: demo_reply_def)
qed

section \<open>Properties\<close>



text \<open>C27. A mutation never fails in a way that invites a blind retry: once its request was handed
  to the sender, an error is never retryable and its category is \<open>UNKNOWN_EXECUTION_STATE\<close>,
  unless the route itself was refused; and no response is reported without a request.\<close>

theorem Execute_mutation_outcome:
  assumes "Execute (traced_runtime rt) (traced_executor x) ctx (traced_execution e) (w, []) = (response, err, w', evs)"
    and "ex_Operation e = OperationMutation"
  shows "(sends evs \<noteq> [] \<longrightarrow> (case err of None \<Rightarrow> True | Some er \<Rightarrow>
      \<exists>a c. er = ErrAPI a \<and> \<not> ae_Retryable a \<and> ae_Cause a = Some c \<and>
        (ae_Category a = ErrorUnknownExecutionState \<or> ae_Category a = ErrorValidation \<and>
          (errors_Is ErrUnknownEgressRoute c \<or> errors_Is ErrRegistryClosed c \<or> errors_Is ErrLocalAddressUnavailable c)))) \<and>
    (sends evs = [] \<longrightarrow> err \<noteq> None)"
  using Execute_run(2) [OF assms(1)] assms(2)
  by (auto simp: run_spec_def unknown_outcome_def split: option.split)

theorem Execute_mutation_outcome_witness:
  "ex_Operation demo_execution = OperationMutation \<and>
   (\<exists>response err w' evs. Execute (traced_runtime demo_runtime) (traced_executor (demo_executor 10)) (Some Background)
     (traced_execution demo_execution) (0, []) = (response, err, w', evs) \<and> (sends evs = [] \<longrightarrow> err \<noteq> None))"
proof -
  have op: "ex_Operation demo_execution = OperationMutation" by (simp add: demo_execution_def)
  show ?thesis using Execute_mutation_outcome [OF executor_demo_run op] executor_demo_run op by blast
qed

text \<open>The pause before a retry doubles from the base delay up to the maximum and never
  overflows: before jitter it is the smaller of the two closed forms.\<close>

theorem retryDelay_closed:
  assumes "ReadRetryPolicy_validate policy = None" "int64 (rp_MaxDelay policy)" "1 \<le> attempt"
  shows "retryDelay policy attempt = min (rp_MaxDelay policy) (rp_BaseDelay policy * 2 ^ nat (attempt - 1))"
proof -
  have "0 \<le> rp_BaseDelay policy" "rp_BaseDelay policy \<le> rp_MaxDelay policy"
    using assms(1) by (auto simp: ReadRetryPolicy_validate_def split: if_splits)
  with assms(2) show ?thesis by (simp add: retryDelay_def backoff_loop_closed Let_def)
qed

theorem retryDelay_closed_witness:
  "ReadRetryPolicy_validate defaultReadRetryPolicy = None \<and> retryDelay defaultReadRetryPolicy 3 = 200 * millisecond"
proof -
  have v: "ReadRetryPolicy_validate defaultReadRetryPolicy = None"
    by (simp add: ReadRetryPolicy_validate_def defaultReadRetryPolicy_def)
  moreover have "int64 (rp_MaxDelay defaultReadRetryPolicy)" by (simp add: int64_def defaultReadRetryPolicy_def)
  ultimately show ?thesis using retryDelay_closed [of defaultReadRetryPolicy 3] by (simp add: defaultReadRetryPolicy_def)
qed

text \<open>A response is delivered whole: when an attempt succeeds, the body is everything the server
  sent, read to its end, within the configured limit, with the status and headers of the reply.\<close>

theorem attempt_delivers_whole_body:
  assumes "attempt_send rt x ctx e a st rq w = (response, retry, None, w')"
    and "0 \<le> xe_maxResponseBodyBytes x" "xe_maxResponseBodyBytes x < 2 ^ 63 - 1"
  shows "\<exists>hr w1. xe_sender x (Some ctx) (ex_EgressRouteID e) (Some rq) w = (Inr hr, w1) \<and>
    rs_ReadEnd hr = BodyOK \<and> re_Body response = rs_Body hr \<and> re_StatusCode response = rs_StatusCode hr \<and>
    re_Header response = rs_Header hr \<and> int (length (rs_Body hr)) \<le> xe_maxResponseBodyBytes x"
proof -
  obtain hr w1 ep where hr: "xe_sender x (Some ctx) (ex_EgressRouteID e) (Some rq) w = (Inr hr, w1)"
      "attempt_response rt x ctx e ep a st hr w1 = (response, retry, None, w')"
    using assms(1) by (auto simp: attempt_send_def Let_def split: prod.splits sum.splits)
  from attempt_response_body [OF hr(2) assms(2,3)] attempt_response_result [OF hr(2)] hr(1)
  show ?thesis by auto
qed

theorem attempt_delivers_whole_body_witness:
  "\<exists>response retry w'. attempt_send demo_runtime (demo_executor 10) Background demo_execution 1 0 demo_request 0
     = (response, retry, None, w') \<and> re_Body response = ''ok''"
proof -
  have "read_limited 11 demo_reply = Inr ''ok''" "wrap64 11 = 11" by (simp_all add: read_limited_def demo_reply_def wrap64_def)
  then obtain response retry w' where
    r: "attempt_send demo_runtime (demo_executor 10) Background demo_execution 1 0 demo_request 0 = (response, retry, None, w')"
    by (simp add: attempt_send_def attempt_response_def demo_executor_def Let_def)
  have "xe_maxResponseBodyBytes (demo_executor 10) = 10" by (simp add: demo_executor_def)
  with attempt_delivers_whole_body [OF r] have "re_Body response = ''ok''"
    by (auto simp: demo_executor_def demo_reply_def)
  with r show ?thesis by blast
qed

text \<open>The largest limit loses the body: with \<open>MaxResponseBodyBytes\<close> at the maximum of int64 the
  read limit wraps to a negative number and every response is delivered with an empty body.\<close>

theorem MaxInt64_limit_empties_body:
  assumes "xe_maxResponseBodyBytes x = 2 ^ 63 - 1"
    and "xe_sender x (Some ctx) (ex_EgressRouteID e) (Some rq) w = (Inr hr, w1)"
  shows "\<exists>response retry w'. attempt_send rt x ctx e a st rq w = (response, retry, None, w') \<and> re_Body response = []"
proof -
  have "wrap64 (xe_maxResponseBodyBytes x + 1) = - (2 ^ 63)" by (simp add: assms(1) wrap64_def)
  then have "read_limited (wrap64 (xe_maxResponseBodyBytes x + 1)) hr = Inr []"
    by (simp add: read_limited_def)
  with assms show ?thesis by (auto simp: attempt_send_def attempt_response_def Let_def)
qed

theorem MaxInt64_limit_empties_body_witness:
  "rs_Body demo_reply = ''ok'' \<and>
   (\<exists>response retry w'. attempt_send demo_runtime (demo_executor (2 ^ 63 - 1)) Background demo_execution 1 0 demo_request 0
     = (response, retry, None, w') \<and> re_Body response = [])"
  using MaxInt64_limit_empties_body [of "demo_executor (2 ^ 63 - 1)" Background demo_execution demo_request 0 demo_reply 1
      demo_runtime 1 0]
  by (simp add: demo_executor_def demo_reply_def)



end
