(* ===== verification/Stream_Session.thy ===== *)
theory Stream_Session
  imports Egress_Transport
begin

text \<open>
  Package \<open>stream\<close>: the self-reconnecting WebSocket session (\<open>stream/session.go\<close>), its data
  (\<open>stream/types.go\<close>) and the connector that performs the handshake on a route's HTTP client
  (\<open>stream/connector.go\<close>).

  \<open>Run\<close>, \<open>Close\<close>, \<open>Reconnect\<close> and \<open>Write\<close> are called from different goroutines and meet at the
  session's mutex. Each critical section is a function on the record \<open>Session\<close>; the step relation
  \<open>session_step\<close> interleaves them, with a program counter for the goroutine inside \<open>Run\<close>. What
  the connector, the hooks, the peer and the callers do is left open: a step exists for every
  result they may have.
\<close>

section \<open>Data\<close>

abbreviation closeNormal :: int where "closeNormal \<equiv> 1000"
abbreviation closeGoingAway :: int where "closeGoingAway \<equiv> 1001"
abbreviation defaultPingTimeout :: int where "defaultPingTimeout \<equiv> 5 * second"
abbreviation defaultMaxReconnectDelay :: int where "defaultMaxReconnectDelay \<equiv> 300 * second"

type_synonym MessageType = "8 word"

abbreviation MessageText :: MessageType where "MessageText \<equiv> 1"
abbreviation MessageBinary :: MessageType where "MessageBinary \<equiv> 2"

record Message =
  ms_Type :: MessageType
  ms_Data :: string

record DialRequest =
  dr_Endpoint :: string
  dr_Header :: "(string \<times> string) list"

datatype State = StateConnecting | StateConnected | StateDisconnected | StateClosed

record StateChange =
  st_State :: State
  st_RouteID :: EgressRouteID
  st_Generation :: "64 word"
  st_Attempt :: int
  st_Cause :: "go_error option"

type_synonym ReconnectPolicy = "go_error option \<Rightarrow> bool"

text \<open>A backoff may draw a random number; \<open>rand n\<close> is what \<open>rand.Int64N(n)\<close> returned.\<close>

type_synonym Backoff = "(int \<Rightarrow> int) \<Rightarrow> int \<Rightarrow> int"

text \<open>
  Fields that hold code whose results the session does not control (connector, request source,
  connect hook, observer) are represented by whether they are set.
\<close>

record SessionConfig =
  sc_Connector :: bool
  sc_EgressRouteID :: EgressRouteID
  sc_Request :: DialRequest
  sc_RequestSource :: bool
  sc_OnConnect :: bool
  sc_Observer :: bool
  sc_ReconnectPolicy :: "ReconnectPolicy option"
  sc_Backoff :: "Backoff option"
  sc_MaxReconnectAttempts :: int
  sc_MaxReconnectDelay :: int
  sc_PingInterval :: int
  sc_PingTimeout :: int

text \<open>A connection is an identity; \<open>ss_cancel\<close> says whether a cancel function is stored.\<close>

record Session =
  ss_connection :: "nat option"
  ss_generation :: "64 word"
  ss_started :: bool
  ss_closed :: bool
  ss_reconnect :: bool
  ss_cancel :: bool

definition newSessionState :: Session where
  "newSessionState = \<lparr>ss_connection = None, ss_generation = 0, ss_started = False, ss_closed = False,
     ss_reconnect = False, ss_cancel = False\<rparr>"

section \<open>Error types\<close>

definition ReconnectOnMessageError :: "go_error option \<Rightarrow> go_error option" where
  "ReconnectOnMessageError err = map_option ReconnectMessageError err"

fun first_Handshake :: "go_error list \<Rightarrow> (int \<times> string) option" where
  "first_Handshake [] = None"
| "first_Handshake (HandshakeError status retryAfter requestID cause # es) = Some (status, retryAfter)"
| "first_Handshake (_ # es) = first_Handshake es"

fun is_permanentError :: "go_error \<Rightarrow> bool" where
  "is_permanentError (PermanentError c) = True"
| "is_permanentError _ = False"

fun is_reconnectMessageError :: "go_error \<Rightarrow> bool" where
  "is_reconnectMessageError (ReconnectMessageError c) = True"
| "is_reconnectMessageError _ = False"

definition errors_As_reconnect :: "go_error \<Rightarrow> bool" where
  "errors_As_reconnect err \<longleftrightarrow> list_ex is_reconnectMessageError (error_nodes err)"

section \<open>Reconnect policy and delays\<close>

definition DefaultReconnectPolicy :: ReconnectPolicy where
  "DefaultReconnectPolicy err =
     (case err of
        None \<Rightarrow> False
      | Some e \<Rightarrow>
          if errors_Is ContextCanceled e \<or> errors_Is ContextDeadlineExceeded e \<or> errors_Is ErrSessionClosed e
          then False
          else if (case first_Handshake (error_nodes e) of
                     Some (status, _) \<Rightarrow> 400 \<le> status \<and> status < 500 \<and> status \<noteq> 408 \<and> status \<noteq> 429 \<and> status \<noteq> 418
                   | None \<Rightarrow> False)
          then False
          else \<not> list_ex is_permanentError (error_nodes e))"

text \<open>The doubling loop of \<open>ExponentialBackoff\<close>; \<open>n\<close> is how often its counter lets it run.\<close>

fun exponential_loop :: "int \<Rightarrow> nat \<Rightarrow> int \<Rightarrow> int" where
  "exponential_loop maximum 0 delay = (if maximum < delay then maximum else delay)"
| "exponential_loop maximum (Suc n) delay =
     (if delay < maximum
      then if maximum div 2 < delay then maximum else exponential_loop maximum n (wrap64 (delay * 2))
      else if maximum < delay then maximum else delay)"

definition ExponentialBackoff :: "int \<Rightarrow> int \<Rightarrow> Backoff" where
  "ExponentialBackoff minimum maximum rand attempt =
     (if minimum \<le> 0 \<or> maximum < minimum then 0
      else exponential_loop maximum (nat ((if attempt < 1 then 1 else attempt) - 1)) minimum)"

definition FullJitterBackoff :: "int \<Rightarrow> int \<Rightarrow> Backoff" where
  "FullJitterBackoff minimum maximum rand attempt =
     (let ceiling = ExponentialBackoff minimum maximum rand attempt
      in if ceiling \<le> 0 then 0 else rand (wrap64 (ceiling + 1)))"

definition handshakeRetryAfter :: "(string \<Rightarrow> int option) \<Rightarrow> go_error option \<Rightarrow> int \<Rightarrow> int" where
  "handshakeRetryAfter ParseTime err now =
     (case err of
        None \<Rightarrow> 0
      | Some e \<Rightarrow>
          (case first_Handshake (error_nodes e) of
             None \<Rightarrow> 0
           | Some (_, val) \<Rightarrow>
               let at_date = (case ParseTime val of
                                Some retryAt \<Rightarrow> if now < retryAt then saturate64 (retryAt - now) else 0
                              | None \<Rightarrow> 0)
               in case Atoi val of
                    Some seconds \<Rightarrow> if 0 < seconds then wrap64 (seconds * second) else at_date
                  | None \<Rightarrow> at_date))"

text \<open>The part of \<open>waitToReconnect\<close> that decides: give up with the cause, or wait this long.\<close>

definition reconnect_delay :: "SessionConfig \<Rightarrow> (int \<Rightarrow> int) \<Rightarrow> (string \<Rightarrow> int option) \<Rightarrow> int \<Rightarrow> go_error option \<Rightarrow> int \<Rightarrow> int" where
  "reconnect_delay cfg rand ParseTime now cause attempt =
     (let delay = the (sc_Backoff cfg) rand attempt;
          retryDelay = handshakeRetryAfter ParseTime cause now;
          delay = (if delay < retryDelay then retryDelay else delay);
          delay = (if sc_MaxReconnectDelay cfg < delay then sc_MaxReconnectDelay cfg else delay)
      in if delay < 0 then 0 else delay)"

definition may_reconnect :: "SessionConfig \<Rightarrow> go_error option \<Rightarrow> int \<Rightarrow> bool" where
  "may_reconnect cfg cause attempt \<longleftrightarrow>
     the (sc_ReconnectPolicy cfg) cause \<and>
     \<not> (0 < sc_MaxReconnectAttempts cfg \<and> sc_MaxReconnectAttempts cfg < attempt)"

section \<open>Construction\<close>

text \<open>\<open>url.Parse\<close> is a parameter: host, scheme, whether user information is present, fragment.\<close>

record ws_url =
  wu_Host :: string
  wu_Scheme :: string
  wu_User :: bool
  wu_Fragment :: string

definition validateEndpoint :: "(string \<Rightarrow> ws_url option) \<Rightarrow> string \<Rightarrow> go_error option" where
  "validateEndpoint Parse endpoint =
     (case Parse endpoint of
        None \<Rightarrow> Some (errorText ''invalid WebSocket endpoint'')
      | Some u \<Rightarrow>
          if wu_Host u = [] \<or> wu_User u \<or> wu_Fragment u \<noteq> [] then Some (errorText ''invalid WebSocket endpoint'')
          else if wu_Scheme u \<noteq> ''ws'' \<and> wu_Scheme u \<noteq> ''wss''
          then Some (errorText ''WebSocket endpoint must use ws or wss'')
          else None)"

definition NewSession :: "(string \<Rightarrow> ws_url option) \<Rightarrow> SessionConfig \<Rightarrow> SessionConfig result" where
  "NewSession Parse config =
     (if \<not> sc_Connector config then Inl (errorText ''stream connector is required'')
      else if sc_EgressRouteID config = [] then Inl (errorText ''stream egress route is required'')
      else case (if \<not> sc_RequestSource config then validateEndpoint Parse (dr_Endpoint (sc_Request config))
                 else if dr_Endpoint (sc_Request config) \<noteq> [] \<or> dr_Header (sc_Request config) \<noteq> []
                 then Some (errorText ''static dial request and request source cannot be used together'')
                 else None) of
             Some err \<Rightarrow> Inl err
           | None \<Rightarrow>
               if sc_MaxReconnectAttempts config < 0
               then Inl (errorText ''maximum reconnect attempts cannot be negative'')
               else if sc_PingInterval config < 0 \<or> sc_PingTimeout config < 0
               then Inl (errorText ''ping durations cannot be negative'')
               else if sc_MaxReconnectDelay config < 0
               then Inl (errorText ''maximum reconnect delay cannot be negative'')
               else Inr (config
                 \<lparr>sc_MaxReconnectDelay := (if sc_MaxReconnectDelay config = 0 then defaultMaxReconnectDelay
                                           else sc_MaxReconnectDelay config),
                  sc_PingTimeout := (if 0 < sc_PingInterval config \<and> sc_PingTimeout config = 0
                                     then defaultPingTimeout else sc_PingTimeout config),
                  sc_ReconnectPolicy := (case sc_ReconnectPolicy config of
                     None \<Rightarrow> Some DefaultReconnectPolicy | Some p \<Rightarrow> Some p),
                  sc_Backoff := (case sc_Backoff config of
                     None \<Rightarrow> Some (FullJitterBackoff 250000000 (30 * second)) | Some b \<Rightarrow> Some b)\<rparr>))"

section \<open>Critical sections\<close>

definition session_start :: "Session \<Rightarrow> Session result" where
  "session_start s =
     (if ss_closed s then Inl (Sentinel ErrSessionClosed)
      else if ss_started s then Inl (Sentinel ErrSessionAlreadyRun)
      else Inr (s\<lparr>ss_started := True, ss_cancel := True\<rparr>))"

text \<open>\<open>finish\<close> and \<open>Close\<close> return what they do after releasing the mutex: whether they cancel the
  run context, and which connection they close.\<close>

definition session_finish :: "Session \<Rightarrow> bool \<times> nat option \<times> Session" where
  "session_finish s = (ss_cancel s, ss_connection s, s\<lparr>ss_connection := None, ss_cancel := False\<rparr>)"

definition session_install :: "nat \<Rightarrow> Session \<Rightarrow> 64 word \<times> bool \<times> Session" where
  "session_install c s =
     (if ss_closed s then (ss_generation s, False, s)
      else (ss_generation s + 1, True,
            s\<lparr>ss_connection := Some c, ss_reconnect := False, ss_generation := ss_generation s + 1\<rparr>))"

definition session_remove :: "nat \<Rightarrow> Session \<Rightarrow> Session" where
  "session_remove c s = (if ss_connection s = Some c then s\<lparr>ss_connection := None\<rparr> else s)"

definition session_reconnectCause :: "nat \<Rightarrow> go_error option \<Rightarrow> Session \<Rightarrow> go_error option \<times> Session" where
  "session_reconnectCause c cause s =
     (if ss_connection s = Some c \<and> ss_reconnect s
      then (Some (Sentinel ErrReconnectRequested), s\<lparr>ss_reconnect := False\<rparr>)
      else (cause, s))"

definition session_Close :: "Session \<Rightarrow> bool \<times> nat option \<times> Session" where
  "session_Close s =
     (if ss_closed s then (False, None, s)
      else (ss_cancel s, ss_connection s,
            s\<lparr>ss_closed := True, ss_reconnect := False, ss_connection := None\<rparr>))"

definition session_Reconnect :: "Session \<Rightarrow> (go_error + nat) \<times> Session" where
  "session_Reconnect s =
     (if ss_closed s then (Inl (Sentinel ErrSessionClosed), s)
      else case ss_connection s of
             None \<Rightarrow> (Inl (Sentinel ErrNotConnected), s)
           | Some c \<Rightarrow> (Inr c, s\<lparr>ss_reconnect := True\<rparr>))"

text \<open>\<open>Write\<close>: which connection gets the message, or the error.\<close>

definition session_Write :: "go_context option \<Rightarrow> Message \<Rightarrow> Session \<Rightarrow> go_error + (nat \<times> go_context \<times> Message)" where
  "session_Write ctx message s =
     (case ctx of
        None \<Rightarrow> Inl (errorText ''stream write context cannot be nil'')
      | Some c \<Rightarrow>
          if ss_closed s then Inl (Sentinel ErrSessionClosed)
          else case ss_connection s of
                 None \<Rightarrow> Inl (Sentinel ErrNotConnected)
               | Some conn \<Rightarrow> Inr (conn, c, message))"

definition stopError :: "go_error option \<Rightarrow> Session \<Rightarrow> go_error option" where
  "stopError ctxErr s = (if ss_closed s then Some (Sentinel ErrSessionClosed) else ctxErr)"

text \<open>\<open>dialRequest\<close>, given what the request source returned if there is one.\<close>

definition dialRequest :: "(string \<Rightarrow> ws_url option) \<Rightarrow> SessionConfig \<Rightarrow> DialRequest result \<Rightarrow> DialRequest result" where
  "dialRequest Parse cfg source =
     (case (if sc_RequestSource cfg then source else Inr (sc_Request cfg)) of
        Inl err \<Rightarrow> Inl err
      | Inr request \<Rightarrow>
          (case validateEndpoint Parse (dr_Endpoint request) of
             Some err \<Rightarrow> Inl (PermanentError err)
           | None \<Rightarrow> Inr request))"

section \<open>The connector\<close>

record WebSocketConnector =
  wc_readLimit :: int

definition NewWebSocketConnector :: "bool \<Rightarrow> int \<Rightarrow> WebSocketConnector result" where
  "NewWebSocketConnector hasClients readLimit =
     (if \<not> hasClients then Inl (errorText ''WebSocket HTTP client provider is required'')
      else let limit = (if readLimit = 0 then 4194304 else readLimit)
           in if limit < 0 then Inl (errorText ''WebSocket read limit cannot be negative'')
              else Inr \<lparr>wc_readLimit = limit\<rparr>)"

text \<open>
  \<open>websocket.Dial\<close> of the WebSocket package is a parameter: it returns a connection, or an error
  with the HTTP response if there was one. The result carries the read limit that was set.
\<close>

type_synonym ('t, 'w) ws_dial =
  "go_context \<Rightarrow> string \<Rightarrow> 't http_Client \<Rightarrow> (string \<times> string) list \<Rightarrow> 'w \<Rightarrow>
   ((go_error \<times> http_Response option) + nat) \<times> 'w"

definition Connect ::
  "('t, 'w) ws_dial \<Rightarrow> (string \<Rightarrow> ws_url option) \<Rightarrow> (EgressRouteID \<Rightarrow> 't http_Client result) \<Rightarrow> WebSocketConnector \<Rightarrow>
   go_context option \<Rightarrow> EgressRouteID \<Rightarrow> DialRequest \<Rightarrow> 'w \<Rightarrow> (nat \<times> int) result \<times> 'w" where
  "Connect Dial Parse HTTPClient connector ctx routeID request w =
     (case ctx of
        None \<Rightarrow> (Inl (errorText ''WebSocket context cannot be nil''), w)
      | Some c \<Rightarrow>
          (case validateEndpoint Parse (dr_Endpoint request) of
             Some err \<Rightarrow> (Inl err, w)
           | None \<Rightarrow>
               (case HTTPClient routeID of
                  Inl err \<Rightarrow> (Inl err, w)
                | Inr httpClient \<Rightarrow>
                    (case Dial c (dr_Endpoint request) httpClient (dr_Header request) w of
                       (Inl (err, None), w') \<Rightarrow> (Inl (HandshakeError 0 [] [] err), w')
                     | (Inl (err, Some response), w') \<Rightarrow>
                         let get = (\<lambda>k. case map_of (rs_Header response) k of Some v \<Rightarrow> v | None \<Rightarrow> [])
                         in (Inl (HandshakeError (rs_StatusCode response) (get ''Retry-After'') (get ''X-Request-Id'') err), w')
                     | (Inr conn, w') \<Rightarrow> (Inr (conn, wc_readLimit connector), w')))))"

text \<open>Frame kinds: the WebSocket package distinguishes text from everything else.\<close>

definition coder_read_type :: "bool \<Rightarrow> MessageType" where
  "coder_read_type isText = (if isText then MessageText else MessageBinary)"

definition coderMessageType :: "MessageType \<Rightarrow> bool result" where
  "coderMessageType t =
     (if t = MessageText then Inr True
      else if t = MessageBinary then Inr False
      else Inl (Errorf ''unsupported WebSocket message type %d'' [IntArg (uint t)] []))"

section \<open>Run, interleaved with Close and Reconnect\<close>

text \<open>Where the goroutine inside \<open>Run\<close> stands; connection, generation and error as far as known.\<close>

datatype run_pc =
    NotRunning
  | LoopTop
  | Dialling DialRequest
  | Dialled nat
  | Rejected nat
  | HookRunning nat "64 word"
  | HookFailed nat "64 word" go_error
  | HookRemoved nat "64 word" go_error
  | Consuming nat "64 word"
  | Ended nat "64 word" "go_error option" bool
  | Caused nat "64 word" "go_error option" bool
  | Removed nat "64 word" "go_error option" bool
  | Disconnected "64 word" "go_error option" bool
  | Waiting "go_error option"
  | Sleeping
  | Finishing "go_error option"
  | Unlocked "go_error option" bool "nat option"
  | Returned "go_error option"

text \<open>
  The whole system: the session, the program counter, the run context's error, the attempt counter,
  the connections that are open, the number of connections made, the calls to \<open>Connect\<close>, the state
  changes observed, and what \<open>Close\<close> and \<open>Reconnect\<close> calls still have to do after the mutex.
\<close>

record session_system =
  sy_session :: Session
  sy_pc :: run_pc
  sy_ctx :: "go_error option"
  sy_attempt :: int
  sy_open :: "nat set"
  sy_made :: nat
  sy_installed :: nat
  sy_dials :: "(EgressRouteID \<times> DialRequest) list"
  sy_observed :: "StateChange list"
  sy_pending :: "(bool \<times> nat option) list"

definition system_init :: session_system where
  "system_init = \<lparr>sy_session = newSessionState, sy_pc = NotRunning, sy_ctx = None, sy_attempt = 0,
     sy_open = {}, sy_made = 0, sy_installed = 0, sy_dials = [], sy_observed = [], sy_pending = []\<rparr>"

definition session_observe :: "SessionConfig \<Rightarrow> StateChange \<Rightarrow> session_system \<Rightarrow> session_system" where
  "session_observe cfg change y =
     (if sc_Observer cfg then y\<lparr>sy_observed := sy_observed y @ [change]\<rparr> else y)"

definition state_change :: "SessionConfig \<Rightarrow> State \<Rightarrow> 64 word \<Rightarrow> int \<Rightarrow> go_error option \<Rightarrow> StateChange" where
  "state_change cfg st gen attempt cause =
     \<lparr>st_State = st, st_RouteID = sc_EgressRouteID cfg, st_Generation = gen, st_Attempt = attempt, st_Cause = cause\<rparr>"

definition close_conn :: "nat option \<Rightarrow> session_system \<Rightarrow> session_system" where
  "close_conn c y = y\<lparr>sy_open := sy_open y - set_option c\<rparr>"

definition cancel_ctx :: "bool \<Rightarrow> session_system \<Rightarrow> session_system" where
  "cancel_ctx do_cancel y =
     (if do_cancel \<and> sy_ctx y = None then y\<lparr>sy_ctx := Some (Sentinel ContextCanceled)\<rparr> else y)"

text \<open>The program counter after the consume loop was entered: the attempt counter is reset.\<close>

definition enter_consume :: "nat \<Rightarrow> 64 word \<Rightarrow> session_system \<Rightarrow> session_system" where
  "enter_consume c gen y = y\<lparr>sy_attempt := 0, sy_pc := Consuming c gen\<rparr>"

definition go_disconnected :: "SessionConfig \<Rightarrow> 64 word \<Rightarrow> go_error option \<Rightarrow> session_system \<Rightarrow> session_system" where
  "go_disconnected cfg gen cause y =
     (session_observe cfg (state_change cfg StateDisconnected gen (sy_attempt y + 1) cause)
        (y\<lparr>sy_attempt := sy_attempt y + 1\<rparr>))\<lparr>sy_pc := Waiting cause\<rparr>"

datatype step_kind = RunStep | MessageStep | OtherStep

inductive session_step ::
  "(string \<Rightarrow> ws_url option) \<Rightarrow> SessionConfig \<Rightarrow> session_system \<Rightarrow> step_kind \<Rightarrow> session_system \<Rightarrow> bool"
  for Parse :: "string \<Rightarrow> ws_url option" and cfg :: SessionConfig where
  run_start: "sy_pc y = NotRunning \<Longrightarrow> session_start (sy_session y) = Inr s \<Longrightarrow>
    session_step Parse cfg y RunStep (y\<lparr>sy_session := s, sy_pc := LoopTop, sy_attempt := 0\<rparr>)"
| loop_stop: "sy_pc y = LoopTop \<Longrightarrow> stopError (sy_ctx y) (sy_session y) = Some e \<Longrightarrow>
    session_step Parse cfg y RunStep (y\<lparr>sy_pc := Finishing (Some e)\<rparr>)"
| loop_no_request: "sy_pc y = LoopTop \<Longrightarrow> stopError (sy_ctx y) (sy_session y) = None \<Longrightarrow>
    dialRequest Parse cfg source = Inl e \<Longrightarrow>
    session_step Parse cfg y RunStep
      ((session_observe cfg (state_change cfg StateConnecting (ss_generation (sy_session y)) (sy_attempt y) None) y)
         \<lparr>sy_attempt := sy_attempt y + 1, sy_pc := Waiting (Some e)\<rparr>)"
| loop_dial: "sy_pc y = LoopTop \<Longrightarrow> stopError (sy_ctx y) (sy_session y) = None \<Longrightarrow>
    dialRequest Parse cfg source = Inr request \<Longrightarrow>
    session_step Parse cfg y RunStep
      ((session_observe cfg (state_change cfg StateConnecting (ss_generation (sy_session y)) (sy_attempt y) None) y)
         \<lparr>sy_pc := Dialling request\<rparr>)"
| connect_failed: "sy_pc y = Dialling request \<Longrightarrow>
    session_step Parse cfg y RunStep
      (go_disconnected cfg (ss_generation (sy_session y)) (Some e)
         (y\<lparr>sy_dials := sy_dials y @ [(sc_EgressRouteID cfg, request)]\<rparr>))"
| connect_ok: "sy_pc y = Dialling request \<Longrightarrow>
    session_step Parse cfg y RunStep
      (y\<lparr>sy_dials := sy_dials y @ [(sc_EgressRouteID cfg, request)], sy_made := Suc (sy_made y),
         sy_open := insert (sy_made y) (sy_open y), sy_pc := Dialled (sy_made y)\<rparr>)"
| install_refused: "sy_pc y = Dialled c \<Longrightarrow> session_install c (sy_session y) = (gen, False, s) \<Longrightarrow>
    session_step Parse cfg y RunStep (y\<lparr>sy_session := s, sy_pc := Rejected c\<rparr>)"
| reject_close: "sy_pc y = Rejected c \<Longrightarrow>
    session_step Parse cfg y RunStep
      ((close_conn (Some c) y)\<lparr>sy_pc := Finishing (Some (Sentinel ErrSessionClosed))\<rparr>)"
| install_hook: "sy_pc y = Dialled c \<Longrightarrow> session_install c (sy_session y) = (gen, True, s) \<Longrightarrow> sc_OnConnect cfg \<Longrightarrow>
    session_step Parse cfg y RunStep
      ((session_observe cfg (state_change cfg StateConnected gen 0 None) y)
         \<lparr>sy_session := s, sy_installed := Suc (sy_installed y), sy_pc := HookRunning c gen\<rparr>)"
| install_consume: "sy_pc y = Dialled c \<Longrightarrow> session_install c (sy_session y) = (gen, True, s) \<Longrightarrow> \<not> sc_OnConnect cfg \<Longrightarrow>
    session_step Parse cfg y RunStep
      (enter_consume c gen ((session_observe cfg (state_change cfg StateConnected gen 0 None) y)
         \<lparr>sy_session := s, sy_installed := Suc (sy_installed y)\<rparr>))"
| hook_ok: "sy_pc y = HookRunning c gen \<Longrightarrow> session_step Parse cfg y RunStep (enter_consume c gen y)"
| hook_failed: "sy_pc y = HookRunning c gen \<Longrightarrow>
    session_step Parse cfg y RunStep (y\<lparr>sy_pc := HookFailed c gen e\<rparr>)"
| hook_remove: "sy_pc y = HookFailed c gen e \<Longrightarrow>
    session_step Parse cfg y RunStep (y\<lparr>sy_session := session_remove c (sy_session y), sy_pc := HookRemoved c gen e\<rparr>)"
| hook_close: "sy_pc y = HookRemoved c gen e \<Longrightarrow>
    session_step Parse cfg y RunStep (go_disconnected cfg gen (Some e) (close_conn (Some c) y))"
| consume_message: "sy_pc y = Consuming c gen \<Longrightarrow> session_step Parse cfg y MessageStep y"
| consume_done: "sy_pc y = Consuming c gen \<Longrightarrow> sy_ctx y = Some e \<Longrightarrow>
    session_step Parse cfg y RunStep
      ((close_conn (Some c) y)\<lparr>sy_pc := Ended c gen (stopError (sy_ctx y) (sy_session y)) False\<rparr>)"
| consume_read_or_ping_error: "sy_pc y = Consuming c gen \<Longrightarrow>
    session_step Parse cfg y RunStep (y\<lparr>sy_pc := Ended c gen (Some e) False\<rparr>)"
| consume_handler_error: "sy_pc y = Consuming c gen \<Longrightarrow>
    session_step Parse cfg y RunStep (y\<lparr>sy_pc := Ended c gen (Some e) (\<not> errors_As_reconnect e)\<rparr>)"
| ended_cause: "sy_pc y = Ended c gen e failed \<Longrightarrow> session_reconnectCause c e (sy_session y) = (e', s) \<Longrightarrow>
    session_step Parse cfg y RunStep (y\<lparr>sy_session := s, sy_pc := Caused c gen e' failed\<rparr>)"
| caused_remove: "sy_pc y = Caused c gen e failed \<Longrightarrow>
    session_step Parse cfg y RunStep (y\<lparr>sy_session := session_remove c (sy_session y), sy_pc := Removed c gen e failed\<rparr>)"
| removed_close: "sy_pc y = Removed c gen e failed \<Longrightarrow>
    session_step Parse cfg y RunStep ((close_conn (Some c) y)\<lparr>sy_pc := Disconnected gen e failed\<rparr>)"
| handler_failure: "sy_pc y = Disconnected gen e True \<Longrightarrow>
    session_step Parse cfg y RunStep (y\<lparr>sy_pc := Finishing e\<rparr>)"
| disconnected_stop: "sy_pc y = Disconnected gen e False \<Longrightarrow> stopError (sy_ctx y) (sy_session y) = Some e' \<Longrightarrow>
    session_step Parse cfg y RunStep (y\<lparr>sy_pc := Finishing (Some e')\<rparr>)"
| disconnected_retry: "sy_pc y = Disconnected gen e False \<Longrightarrow> stopError (sy_ctx y) (sy_session y) = None \<Longrightarrow>
    session_step Parse cfg y RunStep (go_disconnected cfg gen e y)"
| wait_stop: "sy_pc y = Waiting e \<Longrightarrow> stopError (sy_ctx y) (sy_session y) = Some e' \<Longrightarrow>
    session_step Parse cfg y RunStep (y\<lparr>sy_pc := Finishing (Some e')\<rparr>)"
| wait_give_up: "sy_pc y = Waiting e \<Longrightarrow> stopError (sy_ctx y) (sy_session y) = None \<Longrightarrow>
    \<not> may_reconnect cfg e (sy_attempt y) \<Longrightarrow> e \<noteq> None \<Longrightarrow>
    session_step Parse cfg y RunStep (y\<lparr>sy_pc := Finishing e\<rparr>)"
| wait_give_up_nil: "sy_pc y = Waiting None \<Longrightarrow> stopError (sy_ctx y) (sy_session y) = None \<Longrightarrow>
    \<not> may_reconnect cfg None (sy_attempt y) \<Longrightarrow>
    session_step Parse cfg y RunStep (y\<lparr>sy_pc := LoopTop\<rparr>)"
| wait_sleep: "sy_pc y = Waiting e \<Longrightarrow> stopError (sy_ctx y) (sy_session y) = None \<Longrightarrow>
    may_reconnect cfg e (sy_attempt y) \<Longrightarrow>
    session_step Parse cfg y RunStep (y\<lparr>sy_pc := Sleeping\<rparr>)"
| sleep_stop: "sy_pc y = Sleeping \<Longrightarrow> stopError (sy_ctx y) (sy_session y) = Some e \<Longrightarrow>
    session_step Parse cfg y RunStep (y\<lparr>sy_pc := Finishing (Some e)\<rparr>)"
| sleep_over: "sy_pc y = Sleeping \<Longrightarrow> stopError (sy_ctx y) (sy_session y) = None \<Longrightarrow>
    session_step Parse cfg y RunStep (y\<lparr>sy_pc := LoopTop\<rparr>)"
| finish_lock: "sy_pc y = Finishing e \<Longrightarrow> session_finish (sy_session y) = (do_cancel, c, s) \<Longrightarrow>
    session_step Parse cfg y RunStep (y\<lparr>sy_session := s, sy_pc := Unlocked e do_cancel c\<rparr>)"
| finish_rest: "sy_pc y = Unlocked e do_cancel c \<Longrightarrow>
    session_step Parse cfg y RunStep
      ((session_observe cfg (state_change cfg StateClosed (ss_generation (sy_session y)) 0 None)
         (close_conn c (cancel_ctx do_cancel y)))\<lparr>sy_pc := Returned e\<rparr>)"
| close_lock: "session_Close (sy_session y) = (do_cancel, c, s) \<Longrightarrow>
    session_step Parse cfg y OtherStep (y\<lparr>sy_session := s, sy_pending := (do_cancel, c) # sy_pending y\<rparr>)"
| close_rest: "sy_pending y = ps @ (do_cancel, c) # qs \<Longrightarrow>
    session_step Parse cfg y OtherStep ((close_conn c (cancel_ctx do_cancel y))\<lparr>sy_pending := ps @ qs\<rparr>)"
| reconnect_lock: "session_Reconnect (sy_session y) = (Inr c, s) \<Longrightarrow>
    session_step Parse cfg y OtherStep (y\<lparr>sy_session := s, sy_pending := (False, Some c) # sy_pending y\<rparr>)"
| context_ends: "sy_ctx y = None \<Longrightarrow> session_step Parse cfg y OtherStep (y\<lparr>sy_ctx := Some e\<rparr>)"

inductive session_reachable :: "(string \<Rightarrow> ws_url option) \<Rightarrow> SessionConfig \<Rightarrow> session_system \<Rightarrow> bool"
  for Parse :: "string \<Rightarrow> ws_url option" and cfg :: SessionConfig where
  init: "session_reachable Parse cfg system_init"
| step: "session_reachable Parse cfg y \<Longrightarrow> session_step Parse cfg y k y' \<Longrightarrow> session_reachable Parse cfg y'"

section \<open>Invariant of the session\<close>

text \<open>The connection the goroutine of \<open>Run\<close> has installed, and the one it still has to close.\<close>

fun pc_owner :: "run_pc \<Rightarrow> nat option" where
  "pc_owner (HookRunning c g) = Some c"
| "pc_owner (HookFailed c g e) = Some c"
| "pc_owner (Consuming c g) = Some c"
| "pc_owner (Ended c g e f) = Some c"
| "pc_owner (Caused c g e f) = Some c"
| "pc_owner _ = None"

fun pc_holds :: "run_pc \<Rightarrow> nat option" where
  "pc_holds (Dialled c) = Some c"
| "pc_holds (Rejected c) = Some c"
| "pc_holds (HookRemoved c g e) = Some c"
| "pc_holds (Removed c g e f) = Some c"
| "pc_holds pc = pc_owner pc"

fun pc_running :: "run_pc \<Rightarrow> bool" where
  "pc_running NotRunning = False"
| "pc_running (Unlocked e d c) = False"
| "pc_running (Returned e) = False"
| "pc_running _ = True"

fun pc_retrying :: "run_pc \<Rightarrow> bool" where
  "pc_retrying Sleeping = True"
| "pc_retrying LoopTop = True"
| "pc_retrying (Dialling rq) = True"
| "pc_retrying (Dialled c) = True"
| "pc_retrying (HookRunning c g) = True"
| "pc_retrying (HookFailed c g e) = True"
| "pc_retrying (HookRemoved c g e) = True"
| "pc_retrying (Consuming c g) = True"
| "pc_retrying (Ended c g e f) = True"
| "pc_retrying (Caused c g e f) = True"
| "pc_retrying (Removed c g e f) = True"
| "pc_retrying (Disconnected g e f) = True"
| "pc_retrying _ = False"

text \<open>Whether the goroutine carries a nil error where it should carry a real one.\<close>

fun pc_nil_error :: "run_pc \<Rightarrow> bool" where
  "pc_nil_error (Ended c g e f) = (e = None)"
| "pc_nil_error (Caused c g e f) = (e = None)"
| "pc_nil_error (Removed c g e f) = (e = None)"
| "pc_nil_error (Disconnected g e f) = (e = None)"
| "pc_nil_error (Waiting e) = (e = None)"
| "pc_nil_error (Finishing e) = (e = None)"
| "pc_nil_error (Unlocked e d c) = (e = None)"
| "pc_nil_error (Returned e) = (e = None)"
| "pc_nil_error _ = False"

fun pc_undecided :: "run_pc \<Rightarrow> nat" where
  "pc_undecided (Dialled c) = 1"
| "pc_undecided _ = 0"

definition attempts_ok :: "SessionConfig \<Rightarrow> session_system \<Rightarrow> bool" where
  "attempts_ok cfg y \<longleftrightarrow> 0 \<le> sy_attempt y \<and>
     (0 < sc_MaxReconnectAttempts cfg \<longrightarrow>
        sy_attempt y \<le> sc_MaxReconnectAttempts cfg + 1 \<and>
        (pc_retrying (sy_pc y) \<longrightarrow> sy_attempt y \<le> sc_MaxReconnectAttempts cfg))"

definition session_inv :: "SessionConfig \<Rightarrow> session_system \<Rightarrow> bool" where
  "session_inv cfg y \<longleftrightarrow>
     (ss_closed (sy_session y) \<longrightarrow> ss_connection (sy_session y) = None) \<and>
     set_option (ss_connection (sy_session y)) \<subseteq> set_option (pc_owner (sy_pc y)) \<and>
     sy_open y \<subseteq> set_option (pc_holds (sy_pc y)) \<and>
     (pc_running (sy_pc y) \<longrightarrow> ss_started (sy_session y) \<and> ss_cancel (sy_session y)) \<and>
     (ss_started (sy_session y) \<longleftrightarrow> sy_pc y \<noteq> NotRunning) \<and>
     (ss_cancel (sy_session y) \<longrightarrow> ss_started (sy_session y)) \<and>
     (ss_closed (sy_session y) \<and> pc_running (sy_pc y) \<longrightarrow> sy_ctx y \<noteq> None \<or> (\<exists>p \<in> set (sy_pending y). fst p)) \<and>
     ss_generation (sy_session y) = word_of_nat (sy_installed y) \<and>
     sy_installed y + pc_undecided (sy_pc y) \<le> sy_made y \<and>
     \<not> pc_nil_error (sy_pc y) \<and>
     fst ` set (sy_dials y) \<subseteq> {sc_EgressRouteID cfg}"

lemmas system_defs = session_observe_def close_conn_def cancel_ctx_def enter_consume_def go_disconnected_def

lemma stopError_Some [simp]: "\<exists>e'. stopError (Some e) s = Some e'"
  by (simp add: stopError_def)

lemma session_inv_init: "session_inv cfg system_init"
  by (simp add: session_inv_def system_init_def newSessionState_def)

lemma session_step_inv:
  "session_step Parse cfg y k y' \<Longrightarrow> session_inv cfg y \<Longrightarrow> session_inv cfg y'"
proof (induction rule: session_step.induct)
  case (install_hook y c gen s)
  then show ?case by (auto simp: session_inv_def system_defs session_install_def split: if_splits)
next
  case (install_consume y c gen s)
  then show ?case by (auto simp: session_inv_def system_defs session_install_def split: if_splits)
next
  case (close_rest y ps d c qs)
  have open_sub: "sy_open y - set_option c \<subseteq> sy_open y" by blast
  have "sy_ctx (cancel_ctx d y) \<noteq> None \<or> (\<exists>p \<in> set (ps @ qs). fst p)"
    if "sy_ctx y \<noteq> None \<or> (\<exists>p \<in> set (sy_pending y). fst p)"
    using that close_rest.hyps by (cases d) (auto simp: cancel_ctx_def)
  moreover have "sy_session (cancel_ctx d y) = sy_session y" "sy_pc (cancel_ctx d y) = sy_pc y"
    "sy_open (cancel_ctx d y) = sy_open y" "sy_installed (cancel_ctx d y) = sy_installed y"
    "sy_made (cancel_ctx d y) = sy_made y" "sy_dials (cancel_ctx d y) = sy_dials y"
    by (simp_all add: cancel_ctx_def)
  ultimately show ?case
    using close_rest.prems subset_trans [OF open_sub]
    by (simp add: session_inv_def close_conn_def) blast
next
  case (close_lock y d c s)
  then show ?case by (auto simp: session_inv_def session_Close_def split: if_splits)
next
  case (reconnect_lock y c s)
  then show ?case by (auto simp: session_inv_def session_Reconnect_def split: if_splits option.splits)
next
  case (hook_remove y c g e)
  then show ?case
    by (cases "ss_connection (sy_session y)") (auto simp: session_inv_def session_remove_def split: if_splits)
next
  case (caused_remove y c g e f)
  then show ?case
    by (cases "ss_connection (sy_session y)") (auto simp: session_inv_def session_remove_def split: if_splits)
next
  case (ended_cause y c g e f e' s)
  then show ?case by (auto simp: session_inv_def session_reconnectCause_def split: if_splits)
next
  case (finish_lock y e d c s)
  then show ?case by (auto simp: session_inv_def session_finish_def)
next
  case (run_start y s)
  then show ?case by (auto simp: session_inv_def session_start_def split: if_splits)
next
  case (install_refused y c gen s)
  then show ?case by (auto simp: session_inv_def session_install_def split: if_splits)
qed (auto simp: session_inv_def system_defs split: if_splits)

lemma session_reachable_inv: "session_reachable Parse cfg y \<Longrightarrow> session_inv cfg y"
  by (induction rule: session_reachable.induct) (auto intro: session_inv_init session_step_inv)

lemma session_step_attempts:
  "session_step Parse cfg y k y' \<Longrightarrow> session_inv cfg y \<Longrightarrow> attempts_ok cfg y \<Longrightarrow> attempts_ok cfg y'"
proof (induction rule: session_step.induct)
  case (wait_give_up_nil y)
  then show ?case by (simp add: session_inv_def)
qed (auto simp: attempts_ok_def system_defs may_reconnect_def)

lemma session_reachable_attempts: "session_reachable Parse cfg y \<Longrightarrow> attempts_ok cfg y"
proof (induction rule: session_reachable.induct)
  case init
  show ?case by (simp add: attempts_ok_def system_init_def)
next
  case (step y k y')
  then show ?case using session_reachable_inv session_step_attempts by blast
qed

section \<open>Winding down\<close>



lemma session_step_monotone:
  "session_step Parse cfg y k y' \<Longrightarrow>
     (ss_started (sy_session y) \<longrightarrow> ss_started (sy_session y')) \<and>
     (ss_closed (sy_session y) \<longrightarrow> ss_closed (sy_session y')) \<and> sy_installed y \<le> sy_installed y' \<and>
     (\<exists>ds. sy_dials y' = sy_dials y @ ds)"
  by (induction rule: session_step.induct)
     (auto simp: system_defs session_start_def session_install_def session_remove_def
        session_reconnectCause_def session_finish_def session_Close_def session_Reconnect_def
        split: if_splits option.splits)

text \<open>Runs with the number of steps the goroutine of \<open>Run\<close> takes in them.\<close>

inductive session_run ::
  "(string \<Rightarrow> ws_url option) \<Rightarrow> SessionConfig \<Rightarrow> session_system \<Rightarrow> nat \<Rightarrow> session_system \<Rightarrow> bool"
  for Parse :: "string \<Rightarrow> ws_url option" and cfg :: SessionConfig where
  refl: "session_run Parse cfg y 0 y"
| step: "session_run Parse cfg y n y' \<Longrightarrow> session_step Parse cfg y' k y'' \<Longrightarrow>
    session_run Parse cfg y (n + (if k = RunStep then 1 else 0)) y''"




section \<open>Backoff\<close>

lemma exponential_loop_closed:
  "0 \<le> delay \<Longrightarrow> delay \<le> maximum \<Longrightarrow> int64 maximum \<Longrightarrow>
     exponential_loop maximum n delay = min maximum (delay * 2 ^ n)"
proof (induction n arbitrary: delay)
  case (Suc n)
  show ?case
  proof (cases "delay < maximum \<and> delay \<le> maximum div 2")
    case True
    then have two: "delay * 2 \<le> maximum" by linarith
    then have "wrap64 (delay * 2) = delay * 2"
      using Suc.prems by (intro wrap64_id) (auto simp: int64_def)
    with True two Suc show ?thesis by (simp add: mult.assoc)
  next
    case False
    then have "maximum \<le> delay * 2 ^ Suc n" using Suc.prems by (intro doubling_reaches) auto
    with False Suc.prems show ?thesis by (auto simp: min_def)
  qed
qed simp


lemma FullJitterBackoff_bounds:
  assumes "0 < minimum" "minimum \<le> maximum" "maximum < 2 ^ 63 - 1" "1 \<le> attempt"
    and rand: "\<And>n. 0 < n \<Longrightarrow> 0 \<le> rand n \<and> rand n < n"
  shows "0 \<le> FullJitterBackoff minimum maximum rand attempt \<and>
     FullJitterBackoff minimum maximum rand attempt \<le> min maximum (minimum * 2 ^ nat (attempt - 1))"
proof -
  let ?c = "min maximum (minimum * 2 ^ nat (attempt - 1))"
  have c: "ExponentialBackoff minimum maximum rand attempt = ?c"
    using assms by (simp add: ExponentialBackoff_def exponential_loop_closed int64_def)
  have pos: "0 < ?c" using assms by simp
  then have "wrap64 (?c + 1) = ?c + 1" using assms by (intro wrap64_id) (auto simp: int64_def)
  with rand [of "?c + 1"] pos show ?thesis unfolding FullJitterBackoff_def c by (simp add: Let_def)
qed

lemma reconnect_delay_bounds:
  "0 \<le> sc_MaxReconnectDelay cfg \<Longrightarrow>
     0 \<le> reconnect_delay cfg rand P now cause attempt \<and>
     reconnect_delay cfg rand P now cause attempt \<le> sc_MaxReconnectDelay cfg"
  by (simp add: reconnect_delay_def Let_def)

lemma NewSession_config:
  assumes "NewSession Parse config = Inr cfg"
  shows "sc_EgressRouteID cfg = sc_EgressRouteID config" "sc_EgressRouteID cfg \<noteq> []"
    "0 < sc_MaxReconnectDelay cfg" "0 \<le> sc_MaxReconnectAttempts cfg"
    "sc_ReconnectPolicy cfg \<noteq> None" "sc_Backoff cfg \<noteq> None"
    "0 < sc_PingInterval cfg \<Longrightarrow> 0 < sc_PingTimeout cfg"
  using assms by (auto simp: NewSession_def split: if_splits option.splits)

text \<open>A malformed endpoint is permanent: the default policy never retries it.\<close>

lemma malformed_endpoint_not_retried:
  assumes "dialRequest Parse cfg (Inr rq) = Inl e" "sc_ReconnectPolicy cfg = Some DefaultReconnectPolicy"
  shows "\<not> may_reconnect cfg (Some e) attempt"
proof -
  obtain c where "e = PermanentError c"
    using assms(1) by (auto simp: dialRequest_def split: if_splits option.splits)
  then show ?thesis by (simp add: may_reconnect_def assms(2) DefaultReconnectPolicy_def)
qed

section \<open>Properties\<close>

text \<open>C32. Connections never leak and never outlive a close: in every state that \<open>Run\<close>, \<open>Close\<close>,
  \<open>Reconnect\<close> and the end of the context can reach in any interleaving, at most one connection is
  open; a closed session holds none and installs none; every dial is on the session's route; the
  generation counts the installed connections; and when \<open>Run\<close> has returned, it returned an error
  and every connection it ever opened has been closed.\<close>

theorem session_connections_safe:
  assumes "session_reachable Parse cfg y"
  shows "(\<exists>c. sy_open y \<subseteq> {c}) \<and>
    (ss_closed (sy_session y) \<longrightarrow> ss_connection (sy_session y) = None \<and>
       (\<forall>c. session_install c (sy_session y) = (ss_generation (sy_session y), False, sy_session y))) \<and>
    (\<forall>(r, rq) \<in> set (sy_dials y). r = sc_EgressRouteID cfg) \<and>
    ss_generation (sy_session y) = word_of_nat (sy_installed y) \<and>
    (\<forall>e. sy_pc y = Returned e \<longrightarrow> e \<noteq> None \<and> sy_open y = {} \<and> ss_connection (sy_session y) = None)"
proof -
  have inv: "session_inv cfg y" using session_reachable_inv [OF assms] .
  have "\<exists>c. sy_open y \<subseteq> {c}"
  proof (cases "pc_holds (sy_pc y)")
    case (Some c)
    with inv show ?thesis by (intro exI [of _ c]) (simp add: session_inv_def)
  qed (use inv in \<open>auto simp: session_inv_def\<close>)
  moreover have "\<forall>(r, rq) \<in> set (sy_dials y). r = sc_EgressRouteID cfg" using inv by (force simp: session_inv_def)
  ultimately show ?thesis using inv by (auto simp: session_inv_def session_install_def)
qed


text \<open>The reconnect limit holds: with a limit set, a connection is dialled, awaited or used only
  while the counter of consecutive failures is within it, and one failure more ends the run.\<close>

theorem reconnect_attempts_bounded:
  assumes "session_reachable Parse cfg y" "0 < sc_MaxReconnectAttempts cfg"
  shows "sy_attempt y \<le> sc_MaxReconnectAttempts cfg + 1 \<and>
    (pc_retrying (sy_pc y) \<longrightarrow> sy_attempt y \<le> sc_MaxReconnectAttempts cfg)"
  using session_reachable_attempts [OF assms(1)] assms(2) by (simp add: attempts_ok_def)

text \<open>Reconnect delays are bounded: full jitter stays between zero and the capped exponential of
  its configuration without overflowing, and whatever the backoff and the server's Retry-After say,
  the delay used lies between zero and the session's maximum.\<close>

theorem reconnect_delay_within_limits:
  assumes "NewSession Parse config = Inr cfg" "0 < minimum" "minimum \<le> maximum" "maximum < 2 ^ 63 - 1" "1 \<le> attempt"
    and "\<And>n. 0 < n \<Longrightarrow> 0 \<le> rand n \<and> rand n < n"
  shows "0 \<le> reconnect_delay cfg rand P now cause attempt \<and>
    reconnect_delay cfg rand P now cause attempt \<le> sc_MaxReconnectDelay cfg \<and>
    0 \<le> FullJitterBackoff minimum maximum rand attempt \<and>
    FullJitterBackoff minimum maximum rand attempt \<le> min maximum (minimum * 2 ^ nat (attempt - 1))"
  using reconnect_delay_bounds [of cfg rand P now cause attempt] NewSession_config(3) [OF assms(1)]
    FullJitterBackoff_bounds [OF assms(2-6)] by auto

definition demo_config :: SessionConfig where
  "demo_config = \<lparr>sc_Connector = True, sc_EgressRouteID = ''r1'', sc_Request = \<lparr>dr_Endpoint = ''wss://x'', dr_Header = []\<rparr>,
     sc_RequestSource = False, sc_OnConnect = False, sc_Observer = True, sc_ReconnectPolicy = None, sc_Backoff = None,
     sc_MaxReconnectAttempts = 3, sc_MaxReconnectDelay = 0, sc_PingInterval = 0, sc_PingTimeout = 0\<rparr>"

definition demo_Parse :: "string \<Rightarrow> ws_url option" where
  "demo_Parse e = Some \<lparr>wu_Host = ''x'', wu_Scheme = ''wss'', wu_User = False, wu_Fragment = []\<rparr>"

definition demo_closed :: session_system where
  "demo_closed = system_init\<lparr>sy_session := \<lparr>ss_connection = None, ss_generation = 0, ss_started = True, ss_closed = True,
     ss_reconnect = False, ss_cancel = True\<rparr>, sy_pc := LoopTop, sy_attempt := 0, sy_pending := [(True, None)]\<rparr>"

lemma demo_closed_reachable: "session_reachable demo_Parse demo_config demo_closed"
proof -
  let ?y = "system_init\<lparr>sy_session := newSessionState\<lparr>ss_started := True, ss_cancel := True\<rparr>, sy_pc := LoopTop, sy_attempt := 0\<rparr>"
  have "session_step demo_Parse demo_config system_init RunStep ?y"
    by (rule run_start) (simp_all add: system_init_def session_start_def newSessionState_def)
  then have y: "session_reachable demo_Parse demo_config ?y" by (rule session_reachable.step [OF session_reachable.init])
  have "session_step demo_Parse demo_config ?y OtherStep
     (?y\<lparr>sy_session := snd (snd (session_Close (sy_session ?y))), sy_pending := (True, None) # sy_pending ?y\<rparr>)"
    by (rule close_lock) (simp add: session_Close_def newSessionState_def)
  also have "?y\<lparr>sy_session := snd (snd (session_Close (sy_session ?y))), sy_pending := (True, None) # sy_pending ?y\<rparr> = demo_closed"
    by (simp add: demo_closed_def session_Close_def newSessionState_def system_init_def)
  finally show ?thesis by (rule session_reachable.step [OF y])
qed

theorem session_connections_safe_witness:
  "session_reachable demo_Parse demo_config demo_closed \<and> ss_connection (sy_session demo_closed) = None"
  using session_connections_safe [OF demo_closed_reachable] demo_closed_reachable
  by (simp add: demo_closed_def)


theorem reconnect_attempts_bounded_witness:
  "session_reachable demo_Parse demo_config demo_closed \<and> sy_attempt demo_closed \<le> 4"
  using reconnect_attempts_bounded [OF demo_closed_reachable] demo_closed_reachable by (simp add: demo_config_def)

theorem reconnect_delay_within_limits_witness:
  "\<exists>cfg. NewSession demo_Parse demo_config = Inr cfg \<and>
     reconnect_delay cfg (\<lambda>n. n - 1) (\<lambda>v. None) 0 None 4 \<le> sc_MaxReconnectDelay cfg \<and>
     FullJitterBackoff 250 30000 (\<lambda>n. n - 1) 4 \<le> 2000"
proof -
  obtain cfg where c: "NewSession demo_Parse demo_config = Inr cfg"
    by (simp add: NewSession_def demo_config_def validateEndpoint_def demo_Parse_def)
  show ?thesis
    using reconnect_delay_within_limits [OF c, of 250 30000 4 "\<lambda>n. n - 1" "\<lambda>v. None" 0 None] c by auto
qed

end
