(* ===== verification/Unified_Orders.thy ===== *)
theory Unified_Orders
  imports Trade_Core Go_Decimal
begin

text \<open>
  Package \<open>unified\<close>, requests and order rules: the common Spot requests with their validation
  (\<open>unified/types.go\<close>) and the exact-decimal check of an order against the rules of its market
  (\<open>unified/constraints.go\<close>). Enumerations are the strings the code compares.
\<close>

section \<open>Data\<close>

record Market =
  mk_Base :: string
  mk_Quote :: string

type_synonym Side = string
abbreviation SideBuy :: Side where "SideBuy \<equiv> ''buy''"
abbreviation SideSell :: Side where "SideSell \<equiv> ''sell''"

type_synonym OrderType = string
abbreviation OrderTypeLimit :: OrderType where "OrderTypeLimit \<equiv> ''limit''"
abbreviation OrderTypeMarket :: OrderType where "OrderTypeMarket \<equiv> ''market''"

type_synonym TimeInForce = string
abbreviation TimeInForceGTC :: TimeInForce where "TimeInForceGTC \<equiv> ''gtc''"
abbreviation TimeInForceIOC :: TimeInForce where "TimeInForceIOC \<equiv> ''ioc''"
abbreviation TimeInForceFOK :: TimeInForce where "TimeInForceFOK \<equiv> ''fok''"
abbreviation TimeInForcePostOnly :: TimeInForce where "TimeInForcePostOnly \<equiv> ''post_only''"

type_synonym OrderStatus = string
abbreviation OrderStatusAcknowledged :: OrderStatus where "OrderStatusAcknowledged \<equiv> ''acknowledged''"
abbreviation OrderStatusNew :: OrderStatus where "OrderStatusNew \<equiv> ''new''"
abbreviation OrderStatusPartiallyFilled :: OrderStatus where "OrderStatusPartiallyFilled \<equiv> ''partially_filled''"
abbreviation OrderStatusFilled :: OrderStatus where "OrderStatusFilled \<equiv> ''filled''"
abbreviation OrderStatusCanceled :: OrderStatus where "OrderStatusCanceled \<equiv> ''canceled''"
abbreviation OrderStatusRejected :: OrderStatus where "OrderStatusRejected \<equiv> ''rejected''"
abbreviation OrderStatusExpired :: OrderStatus where "OrderStatusExpired \<equiv> ''expired''"
abbreviation OrderStatusCancelPending :: OrderStatus where "OrderStatusCancelPending \<equiv> ''cancel_pending''"
abbreviation OrderStatusUnknown :: OrderStatus where "OrderStatusUnknown \<equiv> ''unknown''"

record MarketInfo =
  mi_Exchange :: ExchangeID
  mi_Market :: Market
  mi_NativeMarket :: string
  mi_Status :: string
  mi_PriceIncrement :: string
  mi_QuantityIncrement :: string
  mi_QuoteAmountIncrement :: string
  mi_MinimumBaseQuantity :: string
  mi_MinimumQuoteAmount :: string

record BookLevel =
  bl_Price :: string
  bl_Quantity :: string

record OrderBook =
  bo_Exchange :: ExchangeID
  bo_Market :: Market
  bo_NativeMarket :: string
  bo_Bids :: "BookLevel list"
  bo_Asks :: "BookLevel list"
  bo_Timestamp :: int

type_synonym CandleInterval = string

record Order =
  od_Exchange :: ExchangeID
  od_ID :: string
  od_ClientOrderID :: string
  od_Market :: Market
  od_NativeMarket :: string
  od_Side :: Side
  od_Type :: OrderType
  od_Status :: OrderStatus
  od_Price :: string
  od_Quantity :: string
  od_QuoteAmount :: string
  od_ExecutedQuantity :: string

record Ticker =
  tk_Exchange :: ExchangeID
  tk_Market :: Market
  tk_NativeMarket :: string
  tk_Price :: string

record PublicTrade =
  pt_ID :: string
  pt_Price :: string
  pt_Quantity :: string
  pt_Side :: Side
  pt_Timestamp :: int

record Balance =
  ba_Asset :: string
  ba_Available :: string
  ba_Locked :: string

record TickerRequest =
  tr_Market :: Market

record OrderBookRequest =
  obr_Market :: Market
  obr_Limit :: int

record RecentTradesRequest =
  rtr_Market :: Market
  rtr_Limit :: int

record CandlesRequest =
  cr_Market :: Market
  cr_Interval :: CandleInterval
  cr_Limit :: int

record PlaceOrderRequest =
  po_Market :: Market
  po_Side :: Side
  po_Type :: OrderType
  po_TimeInForce :: TimeInForce
  po_Quantity :: string
  po_QuoteAmount :: string
  po_Price :: string
  po_ClientOrderID :: string

record OrderRequest =
  or_Market :: Market
  or_OrderID :: string
  or_ClientOrderID :: string

record OpenOrdersRequest =
  oo_Market :: "Market option"
  oo_AllMarkets :: bool

section \<open>Validation\<close>

definition Market_String :: "Market \<Rightarrow> string" where
  "Market_String market = mk_Base market @ ''/'' @ mk_Quote market"

definition Market_Validate :: "Market \<Rightarrow> go_error option" where
  "Market_Validate market =
     (if \<not> assetPattern (mk_Base market) \<or> \<not> assetPattern (mk_Quote market)
      then Some (validationError ''market assets must use uppercase letters and digits'' [])
      else if mk_Base market = mk_Quote market
      then Some (validationError ''market base and quote assets must differ'' [])
      else None)"

definition TickerRequest_Validate :: "TickerRequest \<Rightarrow> go_error option" where
  "TickerRequest_Validate request = Market_Validate (tr_Market request)"

definition OrderBookRequest_Validate :: "OrderBookRequest \<Rightarrow> go_error option" where
  "OrderBookRequest_Validate request =
     (case Market_Validate (obr_Market request) of
        Some err \<Rightarrow> Some err
      | None \<Rightarrow>
          if obr_Limit request < 0 \<or> 16 < obr_Limit request
          then Some (validationError ''order book limit must be between 1 and 16 or zero for default'' [])
          else None)"

definition RecentTradesRequest_Validate :: "RecentTradesRequest \<Rightarrow> go_error option" where
  "RecentTradesRequest_Validate request =
     (case Market_Validate (rtr_Market request) of
        Some err \<Rightarrow> Some err
      | None \<Rightarrow>
          if rtr_Limit request < 0 \<or> 100 < rtr_Limit request
          then Some (validationError ''recent trade limit must be between 1 and 100 or zero for default'' [])
          else None)"

definition CandleInterval_valid :: "CandleInterval \<Rightarrow> bool" where
  "CandleInterval_valid v \<longleftrightarrow> v \<in> {''1m'', ''3m'', ''5m'', ''15m'', ''30m'', ''1h'', ''4h''}"

definition CandlesRequest_Validate :: "CandlesRequest \<Rightarrow> go_error option" where
  "CandlesRequest_Validate request =
     (case Market_Validate (cr_Market request) of
        Some err \<Rightarrow> Some err
      | None \<Rightarrow>
          if \<not> CandleInterval_valid (cr_Interval request)
          then Some (validationError ''unsupported candle interval %q'' [StrArg (cr_Interval request)])
          else if cr_Limit request < 0 \<or> 200 < cr_Limit request
          then Some (validationError ''candle limit must be between 1 and 200 or zero for default'' [])
          else None)"

definition TimeInForce_valid :: "TimeInForce \<Rightarrow> bool" where
  "TimeInForce_valid v \<longleftrightarrow>
     v = TimeInForceGTC \<or> v = TimeInForceIOC \<or> v = TimeInForceFOK \<or> v = TimeInForcePostOnly"

definition validatePositiveDecimal :: "string \<Rightarrow> string \<Rightarrow> go_error option" where
  "validatePositiveDecimal name val =
     (if \<not> positiveDecimalPattern val \<or> Trim val ''0.'' = []
      then Some (validationError ''%s must be a positive decimal string'' [StrArg name])
      else None)"

text \<open>The cases of the type switch of \<open>PlaceOrderRequest.Validate\<close>.\<close>

definition validate_limit :: "PlaceOrderRequest \<Rightarrow> go_error option" where
  "validate_limit request =
     (case validatePositiveDecimal ''quantity'' (po_Quantity request) of
        Some err \<Rightarrow> Some err
      | None \<Rightarrow>
          (case validatePositiveDecimal ''price'' (po_Price request) of
             Some err \<Rightarrow> Some err
           | None \<Rightarrow>
               if po_QuoteAmount request \<noteq> []
               then Some (validationError ''limit order does not accept quote amount'' [])
               else if po_TimeInForce request \<noteq> [] \<and> \<not> TimeInForce_valid (po_TimeInForce request)
               then Some (validationError ''unsupported time in force %q'' [StrArg (po_TimeInForce request)])
               else None))"

definition validate_market :: "PlaceOrderRequest \<Rightarrow> go_error option" where
  "validate_market request =
     (if po_Price request \<noteq> [] \<or> po_TimeInForce request \<noteq> []
      then Some (validationError ''market order does not accept price or time in force'' [])
      else if po_Side request = SideBuy
      then (case validatePositiveDecimal ''quote amount'' (po_QuoteAmount request) of
              Some err \<Rightarrow> Some err
            | None \<Rightarrow>
                if po_Quantity request \<noteq> []
                then Some (validationError ''market buy does not accept quantity'' []) else None)
      else (case validatePositiveDecimal ''quantity'' (po_Quantity request) of
              Some err \<Rightarrow> Some err
            | None \<Rightarrow>
                if po_QuoteAmount request \<noteq> []
                then Some (validationError ''market sell does not accept quote amount'' []) else None))"

definition PlaceOrderRequest_Validate :: "PlaceOrderRequest \<Rightarrow> go_error option" where
  "PlaceOrderRequest_Validate request =
     (case Market_Validate (po_Market request) of
        Some err \<Rightarrow> Some err
      | None \<Rightarrow>
          if po_Side request \<noteq> SideBuy \<and> po_Side request \<noteq> SideSell
          then Some (validationError ''side must be buy or sell'' [])
          else if po_ClientOrderID request = []
          then Some (validationError ''client order ID is required for safe reconciliation'' [])
          else if TrimSpace (po_ClientOrderID request) \<noteq> po_ClientOrderID request
          then Some (validationError ''client order ID cannot have surrounding whitespace'' [])
          else if po_Type request = OrderTypeLimit then validate_limit request
          else if po_Type request = OrderTypeMarket then validate_market request
          else Some (validationError ''order type must be limit or market'' []))"

definition OrderRequest_Validate :: "OrderRequest \<Rightarrow> go_error option" where
  "OrderRequest_Validate request =
     (case Market_Validate (or_Market request) of
        Some err \<Rightarrow> Some err
      | None \<Rightarrow>
          if (or_OrderID request = []) = (or_ClientOrderID request = [])
          then Some (validationError ''exactly one of order ID or client order ID is required'' [])
          else
            let val = (if or_OrderID request = [] then or_ClientOrderID request else or_OrderID request)
            in if TrimSpace val \<noteq> val
               then Some (validationError ''order identity cannot have surrounding whitespace'' [])
               else None)"

definition OpenOrdersRequest_Validate :: "OpenOrdersRequest \<Rightarrow> go_error option" where
  "OpenOrdersRequest_Validate request =
     (case oo_Market request of
        None \<Rightarrow>
          if \<not> oo_AllMarkets request
          then Some (validationError ''market is required unless AllMarkets is true'' []) else None
      | Some market \<Rightarrow>
          if oo_AllMarkets request
          then Some (validationError ''market and AllMarkets cannot be used together'' [])
          else Market_Validate market)"

section \<open>Order rules of a market\<close>

definition DecimalIncrement :: "int \<Rightarrow> string" where
  "DecimalIncrement places =
     (if places < 0 then []
      else if places = 0 then ''1''
      else ''0.'' @ replicate (nat (places - 1)) CHR ''0'' @ ''1'')"

definition decimalRat :: "string \<Rightarrow> rat result" where
  "decimalRat val =
     (if \<not> positiveDecimalPattern val \<and> val \<noteq> ''0'' \<and> val \<noteq> ''0.0''
      then Inl (Errorf ''invalid decimal %q'' [StrArg val] [])
      else case Rat_SetString val of
             None \<Rightarrow> Inl (Errorf ''invalid decimal %q'' [StrArg val] [])
           | Some r \<Rightarrow> Inr r)"

definition decimalProduct :: "string \<Rightarrow> string \<Rightarrow> rat result" where
  "decimalProduct left right =
     (case decimalRat left of
        Inl err \<Rightarrow> Inl err
      | Inr leftRat \<Rightarrow>
          (case decimalRat right of
             Inl err \<Rightarrow> Inl err
           | Inr rightRat \<Rightarrow> Inr (leftRat * rightRat)))"

text \<open>\<open>quotient.IsInt()\<close>: the denominator in lowest terms is 1.\<close>

definition Rat_IsInt :: "rat \<Rightarrow> bool" where
  "Rat_IsInt r \<longleftrightarrow> snd (quotient_of r) = 1"

definition validateIncrement :: "string \<Rightarrow> string \<Rightarrow> string \<Rightarrow> go_error option" where
  "validateIncrement name val increment =
     (if increment = [] then None
      else case decimalRat val of
             Inl err \<Rightarrow> Some (validationError ''%s is not a decimal: %v'' [StrArg name])
           | Inr valueRat \<Rightarrow>
               let invalid = Some (Errorf ''invalid market %s increment %q'' [StrArg name, StrArg increment] [])
               in case decimalRat increment of
                    Inl err \<Rightarrow> invalid
                  | Inr incrementRat \<Rightarrow>
                      if incrementRat \<le> 0 then invalid
                      else if \<not> Rat_IsInt (valueRat / incrementRat)
                      then Some (validationError ''%s must be a multiple of %s'' [StrArg name, StrArg increment])
                      else None)"

definition validateMinimum :: "string \<Rightarrow> string \<Rightarrow> string \<Rightarrow> go_error option" where
  "validateMinimum name val minimum =
     (if minimum = [] then None
      else case decimalRat val of
             Inl err \<Rightarrow> Some (validationError ''%s is not a decimal: %v'' [StrArg name])
           | Inr valueRat \<Rightarrow>
               let invalid = Some (Errorf ''invalid market minimum %s %q'' [StrArg name, StrArg minimum] [])
               in case decimalRat minimum of
                    Inl err \<Rightarrow> invalid
                  | Inr minimumRat \<Rightarrow>
                      if minimumRat < 0 then invalid
                      else if valueRat < minimumRat
                      then Some (validationError ''%s is below minimum %s'' [StrArg name, StrArg minimum])
                      else None)"

definition first_error :: "go_error option list \<Rightarrow> go_error option" where
  "first_error es = (case filter (\<lambda>e. e \<noteq> None) es of [] \<Rightarrow> None | e # _ \<Rightarrow> e)"

definition validateNotional :: "MarketInfo \<Rightarrow> PlaceOrderRequest \<Rightarrow> go_error option" where
  "validateNotional info request =
     (if po_Type request = OrderTypeLimit \<and> mi_MinimumQuoteAmount info \<noteq> []
      then case decimalProduct (po_Price request) (po_Quantity request) of
             Inl err \<Rightarrow> Some (validationError ''cannot calculate limit order notional: %v'' [])
           | Inr notional \<Rightarrow>
               (case decimalRat (mi_MinimumQuoteAmount info) of
                  Inl err \<Rightarrow> Some (Errorf ''invalid market minimum quote amount %q: %w''
                               [StrArg (mi_MinimumQuoteAmount info)] [err])
                | Inr minimum \<Rightarrow>
                    if notional < minimum
                    then Some (validationError ''limit order notional is below minimum quote amount %s''
                                 [StrArg (mi_MinimumQuoteAmount info)])
                    else None)
      else None)"

text \<open>The checks of \<open>ValidateOrder\<close> in their order; the first one that fails is the answer.\<close>

definition ValidateOrder :: "MarketInfo \<Rightarrow> PlaceOrderRequest \<Rightarrow> go_error option" where
  "ValidateOrder info request =
     first_error
      [PlaceOrderRequest_Validate request,
       (if mi_Market info \<noteq> po_Market request
        then Some (validationError ''order market %s does not match market rules for %s''
                     [StrArg (Market_String (po_Market request)), StrArg (Market_String (mi_Market info))])
        else None),
       (if po_Type request = OrderTypeLimit
        then validateIncrement ''price'' (po_Price request) (mi_PriceIncrement info) else None),
       (if po_Quantity request \<noteq> []
        then validateIncrement ''quantity'' (po_Quantity request) (mi_QuantityIncrement info) else None),
       (if po_Quantity request \<noteq> []
        then validateMinimum ''quantity'' (po_Quantity request) (mi_MinimumBaseQuantity info) else None),
       (if po_QuoteAmount request \<noteq> []
        then validateIncrement ''quote amount'' (po_QuoteAmount request) (mi_QuoteAmountIncrement info) else None),
       (if po_QuoteAmount request \<noteq> []
        then validateMinimum ''quote amount'' (po_QuoteAmount request) (mi_MinimumQuoteAmount info) else None),
       validateNotional info request]"

section \<open>Lemmas\<close>

lemma first_error_None: "first_error es = None \<longleftrightarrow> set es \<subseteq> {None}"
  by (induction es) (auto simp: first_error_def split: list.splits)

lemma Market_Validate_None:
  "Market_Validate m = None \<longleftrightarrow> assetPattern (mk_Base m) \<and> assetPattern (mk_Quote m) \<and> mk_Base m \<noteq> mk_Quote m"
  by (auto simp: Market_Validate_def)

lemma validatePositiveDecimal_None:
  "validatePositiveDecimal n v = None \<longleftrightarrow> positiveDecimalPattern v \<and> 0 < decimal_value v"
  using Trim_zero_pos [of v] by (auto simp: validatePositiveDecimal_def)

lemma validatePositiveDecimal_eq:
  "validatePositiveDecimal n v = (if positiveDecimalPattern v \<and> 0 < decimal_value v then None
     else Some (validationError ''%s must be a positive decimal string'' [StrArg n]))"
  using Trim_zero_pos [of v] by (auto simp: validatePositiveDecimal_def)

lemma positiveDecimalPattern_nonempty: "positiveDecimalPattern v \<Longrightarrow> v \<noteq> []"
  by (auto simp: positiveDecimalPattern_def)

lemma zero_strings [simp]: "positiveDecimalPattern ''0''" "positiveDecimalPattern ''0.0''"
  by (simp_all add: positiveDecimalPattern_def digit_char_def)

lemma decimalRat_eq:
  "decimalRat v = (if positiveDecimalPattern v then Inr (decimal_value v) else Inl (Errorf ''invalid decimal %q'' [StrArg v] []))"
  by (auto simp: decimalRat_def Rat_SetString_def)

lemma Rat_IsInt_iff: "Rat_IsInt r \<longleftrightarrow> r \<in> \<int>"
proof
  assume "Rat_IsInt r"
  moreover obtain a b where q: "quotient_of r = (a, b)" by fastforce
  ultimately have "r = of_int a" using quotient_of_div [OF q] by (simp add: Rat_IsInt_def)
  then show "r \<in> \<int>" by simp
next
  assume "r \<in> \<int>"
  then obtain k where "r = of_int k" by (auto elim: Ints_cases)
  then show "Rat_IsInt r" by (simp add: Rat_IsInt_def)
qed

lemma validateIncrement_None:
  assumes "positiveDecimalPattern v"
  shows "validateIncrement n v inc = None \<longleftrightarrow>
     inc = [] \<or> positiveDecimalPattern inc \<and> 0 < decimal_value inc \<and> (\<exists>k::int. decimal_value v = of_int k * decimal_value inc)"
proof -
  have "decimal_value v / decimal_value inc \<in> \<int> \<longleftrightarrow> (\<exists>k::int. decimal_value v = of_int k * decimal_value inc)"
    if "0 < decimal_value inc"
    using that by (auto simp: field_simps elim!: Ints_cases)
  then show ?thesis
    using assms by (auto simp: validateIncrement_def decimalRat_eq Rat_IsInt_iff Let_def)
qed

lemma validateMinimum_None:
  assumes "positiveDecimalPattern v"
  shows "validateMinimum n v m = None \<longleftrightarrow> m = [] \<or> positiveDecimalPattern m \<and> decimal_value m \<le> decimal_value v"
  using assms decimal_value_nonneg [of m]
  by (auto simp: validateMinimum_def decimalRat_eq Let_def not_less not_le)


lemma validate_limit_None:
  "validate_limit r = None \<longleftrightarrow>
     positiveDecimalPattern (po_Quantity r) \<and> 0 < decimal_value (po_Quantity r) \<and>
     positiveDecimalPattern (po_Price r) \<and> 0 < decimal_value (po_Price r) \<and> po_QuoteAmount r = [] \<and>
     (po_TimeInForce r = [] \<or> TimeInForce_valid (po_TimeInForce r))"
  by (auto simp: validate_limit_def validatePositiveDecimal_eq)

lemma validate_market_None:
  "validate_market r = None \<longleftrightarrow> po_Price r = [] \<and> po_TimeInForce r = [] \<and>
     (if po_Side r = SideBuy
      then positiveDecimalPattern (po_QuoteAmount r) \<and> 0 < decimal_value (po_QuoteAmount r) \<and> po_Quantity r = []
      else positiveDecimalPattern (po_Quantity r) \<and> 0 < decimal_value (po_Quantity r) \<and> po_QuoteAmount r = [])"
  by (auto simp: validate_market_def validatePositiveDecimal_eq)

lemma PlaceOrderRequest_Validate_None:
  "PlaceOrderRequest_Validate r = None \<longleftrightarrow>
     Market_Validate (po_Market r) = None \<and> (po_Side r = SideBuy \<or> po_Side r = SideSell) \<and>
     po_ClientOrderID r \<noteq> [] \<and> TrimSpace (po_ClientOrderID r) = po_ClientOrderID r \<and>
     (po_Type r = OrderTypeLimit \<and> validate_limit r = None \<or>
      po_Type r = OrderTypeMarket \<and> validate_market r = None)"
  by (auto simp: PlaceOrderRequest_Validate_def split: option.splits)

lemma PlaceOrderRequest_Validate_error:
  "PlaceOrderRequest_Validate r = Some e \<Longrightarrow> errors_Is ErrValidation e"
  by (auto simp: PlaceOrderRequest_Validate_def Market_Validate_def validate_limit_def validate_market_def
      validatePositiveDecimal_def error_simps split: option.splits if_splits)

lemma validateNotional_None:
  assumes "validate_limit r = None" "po_Type r = OrderTypeLimit"
  shows "validateNotional info r = None \<longleftrightarrow> mi_MinimumQuoteAmount info = [] \<or>
     positiveDecimalPattern (mi_MinimumQuoteAmount info) \<and>
     decimal_value (mi_MinimumQuoteAmount info) \<le> decimal_value (po_Price r) * decimal_value (po_Quantity r)"
  using assms by (auto simp: validateNotional_def decimalProduct_def decimalRat_eq validate_limit_None not_less)

text \<open>The rules of a market as an abstract specification over rational numbers: an empty rule says
  nothing, a step admits the multiples of a positive number, a minimum the values not below it.\<close>

definition meets_step :: "string \<Rightarrow> string \<Rightarrow> bool" where
  "meets_step v inc \<longleftrightarrow> inc = [] \<or>
     positiveDecimalPattern inc \<and> 0 < decimal_value inc \<and> (\<exists>k::int. decimal_value v = of_int k * decimal_value inc)"

definition meets_minimum :: "rat \<Rightarrow> string \<Rightarrow> bool" where
  "meets_minimum x m \<longleftrightarrow> m = [] \<or> positiveDecimalPattern m \<and> decimal_value m \<le> x"

lemma validateIncrement_step: "positiveDecimalPattern v \<Longrightarrow> validateIncrement n v inc = None \<longleftrightarrow> meets_step v inc"
  by (simp add: validateIncrement_None meets_step_def)

lemma validateMinimum_step:
  "positiveDecimalPattern v \<Longrightarrow> validateMinimum n v m = None \<longleftrightarrow> meets_minimum (decimal_value v) m"
  by (simp add: validateMinimum_None meets_minimum_def)

lemma DecimalIncrement_value:
  assumes "0 \<le> places"
  shows "positiveDecimalPattern (DecimalIncrement places) \<and> decimal_value (DecimalIncrement places) = 1 / 10 ^ nat places"
proof (cases "places = 0")
  case True
  then show ?thesis by (simp add: DecimalIncrement_def positiveDecimalPattern_def digit_char_def decimal_value_int
        dec_value_def digit_val_def)
next
  case False
  let ?f = "replicate (nat (places - 1)) CHR ''0'' @ ''1''"
  have f: "list_all digit_char ?f" "?f \<noteq> []" "length ?f = nat places"
    using assms False by (auto simp: digit_char_def list_all_iff)
  have zero: "list_all digit_char ''0''" by (simp add: digit_char_def)
  have eq: "DecimalIncrement places = ''0'' @ CHR ''.'' # ?f" using assms False by (simp add: DecimalIncrement_def)
  have "dec_value (''0'' @ ?f) = 1" by (simp add: dec_value_append dec_value_Cons digit_val_def)
  moreover have "(10::rat) ^ nat places = 10 ^ Suc (nat (places - 1))" using f(3) by simp
  ultimately show ?thesis unfolding eq
    using positiveDecimalPattern_frac [OF zero _ f(1,2)] decimal_value_frac [OF zero, of ?f] by simp
qed

section \<open>Properties\<close>

text \<open>A new-order request is accepted exactly when its market has two different well-formed assets,
  its side is known, it carries a non-blank trimmed client order ID, and the fields fit its type: a
  limit order has a positive quantity and price, no quote amount and a known time in force if any; a
  market buy has only a positive quote amount, a market sell only a positive quantity. Every
  rejection is an \<open>ErrValidation\<close>.\<close>

theorem PlaceOrderRequest_Validate_iff:
  "(PlaceOrderRequest_Validate r = None \<longleftrightarrow>
     assetPattern (mk_Base (po_Market r)) \<and> assetPattern (mk_Quote (po_Market r)) \<and>
     mk_Base (po_Market r) \<noteq> mk_Quote (po_Market r) \<and> po_Side r \<in> {SideBuy, SideSell} \<and>
     po_ClientOrderID r \<noteq> [] \<and> TrimSpace (po_ClientOrderID r) = po_ClientOrderID r \<and>
     (if po_Type r = OrderTypeLimit
      then positiveDecimalPattern (po_Quantity r) \<and> 0 < decimal_value (po_Quantity r) \<and>
        positiveDecimalPattern (po_Price r) \<and> 0 < decimal_value (po_Price r) \<and> po_QuoteAmount r = [] \<and>
        po_TimeInForce r \<in> {[], TimeInForceGTC, TimeInForceIOC, TimeInForceFOK, TimeInForcePostOnly}
      else po_Type r = OrderTypeMarket \<and> po_Price r = [] \<and> po_TimeInForce r = [] \<and>
        (if po_Side r = SideBuy
         then positiveDecimalPattern (po_QuoteAmount r) \<and> 0 < decimal_value (po_QuoteAmount r) \<and> po_Quantity r = []
         else positiveDecimalPattern (po_Quantity r) \<and> 0 < decimal_value (po_Quantity r) \<and> po_QuoteAmount r = []))) \<and>
   (PlaceOrderRequest_Validate r = None \<or> errors_Is ErrValidation (the (PlaceOrderRequest_Validate r)))"
proof
  show "PlaceOrderRequest_Validate r = None \<or> errors_Is ErrValidation (the (PlaceOrderRequest_Validate r))"
    by (cases "PlaceOrderRequest_Validate r") (auto dest: PlaceOrderRequest_Validate_error)
qed (auto simp: PlaceOrderRequest_Validate_None Market_Validate_None validate_limit_None validate_market_None
    TimeInForce_valid_def)

text \<open>C37. Checking an order against its market's rules is exact arithmetic: the order passes precisely
  when it is valid, is for that market, its price and quantity (or quote amount) are whole multiples
  of their increments and not below their minimums, and the product of price and quantity of a limit
  order is not below the minimum quote amount.\<close>

theorem ValidateOrder_iff:
  "ValidateOrder info r = None \<longleftrightarrow>
     PlaceOrderRequest_Validate r = None \<and> mi_Market info = po_Market r \<and>
     (if po_Type r = OrderTypeLimit
      then meets_step (po_Price r) (mi_PriceIncrement info) \<and> meets_step (po_Quantity r) (mi_QuantityIncrement info) \<and>
        meets_minimum (decimal_value (po_Quantity r)) (mi_MinimumBaseQuantity info) \<and>
        meets_minimum (decimal_value (po_Price r) * decimal_value (po_Quantity r)) (mi_MinimumQuoteAmount info)
      else if po_Side r = SideBuy
      then meets_step (po_QuoteAmount r) (mi_QuoteAmountIncrement info) \<and>
        meets_minimum (decimal_value (po_QuoteAmount r)) (mi_MinimumQuoteAmount info)
      else meets_step (po_Quantity r) (mi_QuantityIncrement info) \<and>
        meets_minimum (decimal_value (po_Quantity r)) (mi_MinimumBaseQuantity info))"
proof (cases "PlaceOrderRequest_Validate r = None")
  case True
  then consider (limit) "po_Type r = OrderTypeLimit" "validate_limit r = None"
    | (market) "po_Type r = OrderTypeMarket" "validate_market r = None"
    by (auto simp: PlaceOrderRequest_Validate_None)
  then show ?thesis
  proof cases
    case limit
    then have "po_Quantity r \<noteq> []" "po_QuoteAmount r = []" "positiveDecimalPattern (po_Quantity r)"
        "positiveDecimalPattern (po_Price r)"
      by (auto simp: validate_limit_None positiveDecimalPattern_nonempty)
    with limit True show ?thesis
      by (auto simp: ValidateOrder_def first_error_None validateIncrement_step validateMinimum_step
          validateNotional_None meets_minimum_def)
  next
    case market
    have none: "validateNotional info r = None" using market(1) by (simp add: validateNotional_def)
    show ?thesis
    proof (cases "po_Side r = SideBuy")
      case True
      with market have "po_Quantity r = []" "po_QuoteAmount r \<noteq> []" "positiveDecimalPattern (po_QuoteAmount r)"
        by (auto simp: validate_market_None positiveDecimalPattern_nonempty)
      with market none True \<open>PlaceOrderRequest_Validate r = None\<close> show ?thesis
        by (auto simp: ValidateOrder_def first_error_None validateIncrement_step validateMinimum_step)
    next
      case False
      with market have "po_Quantity r \<noteq> []" "po_QuoteAmount r = []" "positiveDecimalPattern (po_Quantity r)"
        by (auto simp: validate_market_None positiveDecimalPattern_nonempty)
      with market none False \<open>PlaceOrderRequest_Validate r = None\<close> show ?thesis
        by (auto simp: ValidateOrder_def first_error_None validateIncrement_step validateMinimum_step)
    qed
  qed
qed (auto simp: ValidateOrder_def first_error_None)

end
