(* ===== verification/Unified_Candles.thy ===== *)
theory Unified_Candles
  imports Unified_Orders
begin

text \<open>
  Package \<open>unified\<close>, decimals and candles (\<open>unified/candles.go\<close>): scaled decimals built on big
  integers, their sum and comparison, and the aggregation of candles into larger epoch-aligned
  intervals.
\<close>

section \<open>Scaled decimals\<close>

record scaledDecimal =
  sd_integer :: nat
  sd_scale :: nat

definition parseScaledDecimal :: "string \<Rightarrow> scaledDecimal result" where
  "parseScaledDecimal val =
     (if \<not> positiveDecimalPattern val then Inl (Errorf ''invalid decimal %q'' [StrArg val] [])
      else case Cut val CHR ''.'' of
             (whole, fraction) \<Rightarrow>
               Inr \<lparr>sd_integer = dec_value (whole @ fraction), sd_scale = length fraction\<rparr>)"

definition scaleInteger :: "scaledDecimal \<Rightarrow> nat \<Rightarrow> nat" where
  "scaleInteger v scale =
     (if sd_scale v < scale then sd_integer v * 10 ^ (scale - sd_scale v) else sd_integer v)"

definition addScaledDecimals :: "scaledDecimal \<Rightarrow> scaledDecimal \<Rightarrow> scaledDecimal" where
  "addScaledDecimals left right =
     (let scale = (if sd_scale left < sd_scale right then sd_scale right else sd_scale left)
      in \<lparr>sd_integer = scaleInteger left scale + scaleInteger right scale, sd_scale = scale\<rparr>)"



definition scaledDecimal_String :: "scaledDecimal \<Rightarrow> string" where
  "scaledDecimal_String v =
     (let digits = nat_str (sd_integer v)
      in if sd_scale v = 0 then digits
         else
           let digits = (if length digits \<le> sd_scale v
                         then replicate (sd_scale v - length digits + 1) CHR ''0'' @ digits else digits);
               position = length digits - sd_scale v
           in take position digits @ CHR ''.'' # drop position digits)"

fun sum_decimals :: "string list \<Rightarrow> scaledDecimal \<Rightarrow> scaledDecimal result" where
  "sum_decimals [] tot = Inr tot"
| "sum_decimals (val # rest) tot =
     (case parseScaledDecimal val of
        Inl err \<Rightarrow> Inl (Errorf ''decode decimal sum value: %w'' [] [err])
      | Inr parsed \<Rightarrow> sum_decimals rest (addScaledDecimals tot parsed))"

definition AddDecimals :: "string list \<Rightarrow> string result" where
  "AddDecimals values =
     (if values = [] then Inl (validationError ''at least one decimal value is required'' [])
      else case sum_decimals values \<lparr>sd_integer = 0, sd_scale = 0\<rparr> of
             Inl err \<Rightarrow> Inl err
           | Inr tot \<Rightarrow> Inr (scaledDecimal_String tot))"

section \<open>Candles\<close>

record Candle =
  cd_StartTime :: int
  cd_Open :: string
  cd_High :: string
  cd_Low :: string
  cd_Close :: string
  cd_Volume :: string








section \<open>Lemmas on decimals\<close>

definition sd_value :: "scaledDecimal \<Rightarrow> rat" where
  "sd_value v = of_nat (sd_integer v) / 10 ^ sd_scale v"

lemma parseScaledDecimal_value:
  "parseScaledDecimal s = Inr v \<longleftrightarrow> positiveDecimalPattern s \<and>
     v = \<lparr>sd_integer = dec_value (fst (Cut s CHR ''.'') @ snd (Cut s CHR ''.'')), sd_scale = length (snd (Cut s CHR ''.''))\<rparr>"
  by (auto simp: parseScaledDecimal_def split: prod.splits)

lemma parseScaledDecimal_sd_value: "parseScaledDecimal s = Inr v \<Longrightarrow> sd_value v = decimal_value s"
  by (auto simp: parseScaledDecimal_value sd_value_def decimal_value_def split: prod.splits)

lemma parseScaledDecimal_pattern: "parseScaledDecimal s = Inr v \<Longrightarrow> positiveDecimalPattern s"
  by (simp add: parseScaledDecimal_value)

lemma parseScaledDecimal_exists: "positiveDecimalPattern s \<Longrightarrow> \<exists>v. parseScaledDecimal s = Inr v"
  by (simp add: parseScaledDecimal_def split: prod.splits)

lemma parseScaledDecimal_error: "parseScaledDecimal s = Inl e \<longleftrightarrow>
    \<not> positiveDecimalPattern s \<and> e = Errorf ''invalid decimal %q'' [StrArg s] []"
  by (auto simp: parseScaledDecimal_def split: prod.splits)

lemma scaleInteger_value: "sd_scale v \<le> k \<Longrightarrow> of_nat (scaleInteger v k) = sd_value v * 10 ^ k"
  by (auto simp: scaleInteger_def sd_value_def field_simps simp flip: power_add)

lemma addScaledDecimals_value: "sd_value (addScaledDecimals a b) = sd_value a + sd_value b"
proof -
  define k where "k = max (sd_scale a) (sd_scale b)"
  have "sd_value (addScaledDecimals a b) = (of_nat (scaleInteger a k) + of_nat (scaleInteger b k)) / 10 ^ k"
    by (simp add: addScaledDecimals_def sd_value_def k_def max_def Let_def)
  also have "\<dots> = sd_value a + sd_value b"
    by (simp add: scaleInteger_value k_def add_divide_distrib)
  finally show ?thesis .
qed



text \<open>Printing a scaled decimal gives a well-formed decimal with the same value.\<close>

lemma nat_str_pad:
  assumes "d = (if length (nat_str n) \<le> k then replicate (k - length (nat_str n) + 1) CHR ''0'' @ nat_str n else nat_str n)"
  shows "k < length d" "list_all digit_char d" "dec_value d = n"
  using nat_str_digits [of n] by (auto simp: assms dec_value_append dec_value_Cons digit_val_def dec_nat_str digit_char_def list_all_iff)

lemma scaledDecimal_String_value:
  "positiveDecimalPattern (scaledDecimal_String v) \<and> decimal_value (scaledDecimal_String v) = sd_value v"
proof (cases "sd_scale v = 0")
  case True
  then show ?thesis
    using nat_str_digits [of "sd_integer v"]
    by (auto simp: scaledDecimal_String_def sd_value_def decimal_value_int dec_nat_str)
next
  case False
  define n k where "n = sd_integer v" and "k = sd_scale v"
  define d where "d = (if length (nat_str n) \<le> k then replicate (k - length (nat_str n) + 1) CHR ''0'' @ nat_str n else nat_str n)"
  have d: "k < length d" "list_all digit_char d" "dec_value d = n"
    using nat_str_pad [OF d_def] .
  let ?w = "take (length d - k) d" and ?f = "drop (length d - k) d"
  have s: "scaledDecimal_String v = ?w @ CHR ''.'' # ?f"
    using False by (simp add: scaledDecimal_String_def d_def n_def k_def Let_def)
  have w: "list_all digit_char ?w" "?w \<noteq> []" and f: "list_all digit_char ?f" "length ?f = k" "?f \<noteq> []"
    using d False by (auto simp: list_all_iff k_def dest: in_set_takeD in_set_dropD)
  have "decimal_value (scaledDecimal_String v) = of_nat n / 10 ^ k"
    using decimal_value_frac [OF w(1), of ?f] f(2) d(3) by (simp add: s)
  then show ?thesis using positiveDecimalPattern_frac [OF w f(1,3)] by (simp add: s sd_value_def n_def k_def)
qed

lemma sum_decimals_value:
  "sum_decimals vs tot = Inr t \<Longrightarrow>
     list_all positiveDecimalPattern vs \<and> sd_value t = sd_value tot + sum_list (map decimal_value vs)"
  by (induction vs tot rule: sum_decimals.induct)
     (auto simp: addScaledDecimals_value dest: parseScaledDecimal_sd_value parseScaledDecimal_pattern
       split: sum.splits)

lemma sum_decimals_ok: "list_all positiveDecimalPattern vs \<Longrightarrow> \<exists>t. sum_decimals vs tot = Inr t"
proof (induction vs arbitrary: tot)
  case (Cons v vs)
  then obtain p where "parseScaledDecimal v = Inr p" using parseScaledDecimal_exists by auto
  with Cons show ?case by simp
qed simp


section \<open>Lemmas on buckets\<close>

text \<open>Reference for the first loop: the candles whose start time did not occur before.\<close>

fun keep_first :: "int set \<Rightarrow> Candle list \<Rightarrow> Candle list" where
  "keep_first seen [] = []"
| "keep_first seen (c # cs) =
     (if cd_StartTime c \<in> seen then keep_first seen cs else c # keep_first (insert (cd_StartTime c) seen) cs)"


lemma keep_first_distinct: "distinct (map cd_StartTime (keep_first seen cs)) \<and> cd_StartTime ` set (keep_first seen cs) \<inter> seen = {}"
  by (induction seen cs rule: keep_first.induct) auto


lemma keep_first_subset: "set (keep_first seen cs) \<subseteq> set cs"
  by (induction seen cs rule: keep_first.induct) auto
















section \<open>Properties\<close>

text \<open>Adding decimals loses nothing: the sum succeeds exactly for a non-empty list of well-formed
  decimals, and the text it returns is a well-formed decimal whose value is the exact sum.\<close>

theorem AddDecimals_exact:
  "case AddDecimals vs of
     Inr s \<Rightarrow> vs \<noteq> [] \<and> list_all positiveDecimalPattern vs \<and> positiveDecimalPattern s \<and>
       decimal_value s = sum_list (map decimal_value vs)
   | Inl e \<Rightarrow> \<not> (vs \<noteq> [] \<and> list_all positiveDecimalPattern vs)"
proof (cases "AddDecimals vs")
  case (Inr s)
  then obtain t where t: "sum_decimals vs \<lparr>sd_integer = 0, sd_scale = 0\<rparr> = Inr t" "vs \<noteq> []" "s = scaledDecimal_String t"
    by (auto simp: AddDecimals_def split: if_splits sum.splits)
  from sum_decimals_value [OF t(1)] t scaledDecimal_String_value [of t] Inr show ?thesis
    by (simp add: sd_value_def)
next
  case (Inl e)
  then show ?thesis using sum_decimals_ok [of vs "\<lparr>sd_integer = 0, sd_scale = 0\<rparr>"]
    by (auto simp: AddDecimals_def split: if_splits sum.splits)
qed





end
