(* ===== verification/Depth_Levels.thy ===== *)
theory Depth_Levels
  imports Trade_Core Go_Decimal
begin

text \<open>
  One side of a local order book: a Go map from the canonical text of a price to the level. The
  adapters each carry a copy of these routines (\<open>exchange/binance/local_order_book.go\<close> is the
  one translated here; \<open>exchange/bybit/local_order_book.go\<close> adds the pruning to a depth).

  The abstract view of a side is a finite map from rational prices to the texts of price and
  quantity. The lemmas show that the concrete map refines it: two spellings of one price are one
  level, a zero quantity removes it, and the sorted views are the best levels in strict price order.
\<close>

section \<open>Definitions\<close>

record localDepthLevel =
  ll_priceText :: string
  ll_quantityText :: string
  ll_price :: rat

type_synonym depth_side = "(string, localDepthLevel) gomap"

definition parseDepthFields :: "string list \<Rightarrow> (string \<times> rat \<times> string) result" where
  "parseDepthFields fs0 =
     (if length fs0 \<noteq> 2 \<or> \<not> positiveDecimalPattern (fs0 ! 0) \<or> Trim (fs0 ! 0) ''0.'' = [] \<or>
         \<not> positiveDecimalPattern (fs0 ! 1)
      then Inl (validationError ''local order book level is invalid'' [])
      else case Rat_SetString (fs0 ! 0) of
             None \<Rightarrow> Inl (validationError ''local order book price is invalid'' [])
           | Some price \<Rightarrow>
               if price \<le> 0 then Inl (validationError ''local order book price is invalid'' [])
               else Inr (Rat_RatString price, price, fs0 ! 1))"

definition applyLocalLevel :: "depth_side \<Rightarrow> string list \<Rightarrow> depth_side result" where
  "applyLocalLevel levels fs0 =
     (case parseDepthFields fs0 of
        Inl err \<Rightarrow> Inl err
      | Inr (key, price, quantity) \<Rightarrow>
          if Trim quantity ''0.'' = [] then Inr (AList.delete key levels)
          else Inr (AList.update key
                 \<lparr>ll_priceText = fs0 ! 0, ll_quantityText = quantity, ll_price = price\<rparr> levels))"

text \<open>The loops over the fields of an event or a snapshot; the map is updated as far as they get.\<close>

fun applyLocalLevels :: "depth_side \<Rightarrow> string list list \<Rightarrow> depth_side result" where
  "applyLocalLevels levels [] = Inr levels"
| "applyLocalLevels levels (fs0 # rest) =
     (case applyLocalLevel levels fs0 of
        Inl err \<Rightarrow> Inl err
      | Inr levels' \<Rightarrow> applyLocalLevels levels' rest)"

fun checkDepthFields :: "string list list \<Rightarrow> go_error option" where
  "checkDepthFields [] = None"
| "checkDepthFields (fs0 # rest) =
     (case parseDepthFields fs0 of Inl err \<Rightarrow> Some err | Inr _ \<Rightarrow> checkDepthFields rest)"

text \<open>The levels in price order; prices of a map are distinct, so the order is determined.\<close>

definition orderedLevels :: "depth_side \<Rightarrow> bool \<Rightarrow> localDepthLevel list" where
  "orderedLevels values descending =
     (if descending then rev (sort_key ll_price (map snd values)) else sort_key ll_price (map snd values))"

definition sortedLocalLevels :: "depth_side \<Rightarrow> int \<Rightarrow> bool \<Rightarrow> (string \<times> string) list" where
  "sortedLocalLevels values depth descending =
     map (\<lambda>l. (ll_priceText l, ll_quantityText l)) (take (nat depth) (orderedLevels values descending))"

text \<open>Pruning: the keys of the levels beyond the depth, recomputed from the price texts, are deleted.\<close>

definition pruneLevels :: "depth_side \<Rightarrow> int \<Rightarrow> bool \<Rightarrow> depth_side" where
  "pruneLevels values depth descending =
     fold (\<lambda>(priceText, quantityText) m.
             case Rat_SetString priceText of
               Some price \<Rightarrow> AList.delete (Rat_RatString price) m
             | None \<Rightarrow> m)
       (drop (nat depth) (sortedLocalLevels values (int (length values)) descending)) values"

section \<open>The abstract side\<close>

text \<open>A side as a map from prices to texts, and the effect of one pair of fields on it.\<close>

type_synonym abs_side = "rat \<rightharpoonup> string \<times> string"

definition abs_apply :: "string list \<Rightarrow> abs_side \<Rightarrow> abs_side" where
  "abs_apply fs0 m =
     (if decimal_value (fs0 ! 1) = 0 then m(decimal_value (fs0 ! 0) := None)
      else m(decimal_value (fs0 ! 0) \<mapsto> (fs0 ! 0, fs0 ! 1)))"

definition fields_ok :: "string list \<Rightarrow> bool" where
  "fields_ok fs0 \<longleftrightarrow> length fs0 = 2 \<and> positiveDecimalPattern (fs0 ! 0) \<and>
     0 < decimal_value (fs0 ! 0) \<and> positiveDecimalPattern (fs0 ! 1)"

definition level_ok :: "string \<times> localDepthLevel \<Rightarrow> bool" where
  "level_ok = (\<lambda>(k, l). k = Rat_RatString (ll_price l) \<and> positiveDecimalPattern (ll_priceText l) \<and>
     ll_price l = decimal_value (ll_priceText l) \<and> 0 < ll_price l \<and>
     positiveDecimalPattern (ll_quantityText l) \<and> 0 < decimal_value (ll_quantityText l))"

definition side_ok :: "depth_side \<Rightarrow> bool" where
  "side_ok m \<longleftrightarrow> distinct (map fst m) \<and> list_all level_ok m"

definition abs_of :: "depth_side \<Rightarrow> abs_side" where
  "abs_of m price = map_option (\<lambda>l. (ll_priceText l, ll_quantityText l)) (map_of m (Rat_RatString price))"

lemma parseDepthFields_eq:
  "parseDepthFields fs0 =
     (if fields_ok fs0 then Inr (Rat_RatString (decimal_value (fs0 ! 0)), decimal_value (fs0 ! 0), fs0 ! 1)
      else Inl (validationError ''local order book level is invalid'' []))"
  using Trim_zero_pos [of "fs0 ! 0"]
  by (auto simp: parseDepthFields_def fields_ok_def Rat_SetString_def)

lemma checkDepthFields_None: "checkDepthFields fs = None \<longleftrightarrow> list_all fields_ok fs"
  by (induction fs) (auto simp: parseDepthFields_eq)

lemma side_ok_Nil [simp]: "side_ok []"
  by (simp add: side_ok_def)

lemma abs_of_Nil [simp]: "abs_of [] = Map.empty"
  by (simp add: abs_of_def fun_eq_iff)

lemma level_ok_update:
  "list_all level_ok m \<Longrightarrow> level_ok (k, l) \<Longrightarrow> list_all level_ok (AList.update k l m)"
  by (induction m) auto

lemma level_ok_delete: "list_all level_ok m \<Longrightarrow> list_all level_ok (AList.delete k m)"
  by (auto simp: list_all_iff AList.delete_eq)

lemma applyLocalLevel_refines:
  assumes "side_ok m" "applyLocalLevel m fs0 = Inr m'"
  shows "side_ok m' \<and> abs_of m' = abs_apply fs0 (abs_of m) \<and> fields_ok fs0"
proof -
  have ok: "fields_ok fs0" using assms(2) by (auto simp: applyLocalLevel_def parseDepthFields_eq split: if_splits)
  let ?p = "decimal_value (fs0 ! 0)" and ?q = "fs0 ! 1"
  show ?thesis
  proof (cases "decimal_value ?q = 0")
    case True
    then have m': "m' = AList.delete (Rat_RatString ?p) m"
      using assms(2) ok Trim_zero_iff [of ?q] by (auto simp: applyLocalLevel_def parseDepthFields_eq fields_ok_def)
    then show ?thesis using assms(1) ok True
      by (auto simp: side_ok_def abs_of_def abs_apply_def fun_eq_iff level_ok_delete delete_conv' Rat_RatString_inj
          distinct_delete)
  next
    case False
    let ?l = "\<lparr>ll_priceText = fs0 ! 0, ll_quantityText = ?q, ll_price = ?p\<rparr>"
    have m': "m' = AList.update (Rat_RatString ?p) ?l m"
      using False assms(2) ok Trim_zero_iff [of ?q] by (auto simp: applyLocalLevel_def parseDepthFields_eq fields_ok_def)
    have "level_ok (Rat_RatString ?p, ?l)"
      using ok False decimal_value_nonneg [of ?q] by (auto simp: level_ok_def fields_ok_def)
    with m' assms(1) ok False show ?thesis
      by (auto simp: side_ok_def abs_of_def abs_apply_def fun_eq_iff level_ok_update update_conv' Rat_RatString_inj
          distinct_update)
  qed
qed

lemma applyLocalLevel_total: "fields_ok fs0 \<Longrightarrow> \<exists>m'. applyLocalLevel m fs0 = Inr m'"
  by (simp add: applyLocalLevel_def parseDepthFields_eq)

lemma applyLocalLevels_refines:
  "side_ok m \<Longrightarrow> applyLocalLevels m fs = Inr m' \<Longrightarrow>
     side_ok m' \<and> abs_of m' = fold abs_apply fs (abs_of m) \<and> list_all fields_ok fs"
proof (induction m fs rule: applyLocalLevels.induct)
  case (2 m f fs)
  then obtain m1 where m1: "applyLocalLevel m f = Inr m1" "applyLocalLevels m1 fs = Inr m'"
    by (auto split: sum.splits)
  with applyLocalLevel_refines [OF 2(2) m1(1)] 2(1) [OF m1(1)] show ?case by simp
qed simp

lemma applyLocalLevels_total: "list_all fields_ok fs \<Longrightarrow> \<exists>m'. applyLocalLevels m fs = Inr m'"
proof (induction fs arbitrary: m)
  case (Cons f fs)
  then obtain m1 where "applyLocalLevel m f = Inr m1" using applyLocalLevel_total [of f m] by auto
  with Cons show ?case by simp
qed simp

section \<open>Views\<close>

definition best_first :: "bool \<Rightarrow> rat \<Rightarrow> rat \<Rightarrow> bool" where
  "best_first descending a b \<longleftrightarrow> (if descending then b < a else a < b)"

lemma best_first_simps: "best_first True = (\<lambda>a b. b < a)" "best_first False = (<)"
  by (simp_all add: best_first_def fun_eq_iff)

lemma side_ok_prices: "side_ok m \<Longrightarrow> distinct (map ll_price (map snd m))"
proof -
  assume ok: "side_ok m"
  then have "map fst m = map (\<lambda>x. Rat_RatString (ll_price (snd x))) m"
    by (auto simp: side_ok_def level_ok_def list_all_iff)
  moreover have "distinct (map fst m)" using ok by (simp add: side_ok_def)
  ultimately have "distinct (map (\<lambda>x. Rat_RatString (ll_price (snd x))) m)" by (simp only:)
  then show ?thesis by (auto simp: distinct_map inj_on_def)
qed

lemma orderedLevels_spec:
  assumes "side_ok m"
  shows "sorted_wrt (best_first d) (map ll_price (orderedLevels m d))" "set (orderedLevels m d) = snd ` set m"
    "length (orderedLevels m d) = length m" "distinct (orderedLevels m d)"
proof -
  let ?s = "sort_key ll_price (map snd m)"
  have prices: "distinct (map ll_price ?s)"
    using side_ok_prices [OF assms] by (metis distinct_map distinct_sort set_sort)
  then have "sorted_wrt (<) (map ll_price ?s)" using sorted_sort_key [of ll_price "map snd m"] by (simp add: strict_sorted_iff)
  then show "sorted_wrt (best_first d) (map ll_price (orderedLevels m d))"
    by (cases d) (auto simp: orderedLevels_def best_first_simps rev_map [symmetric] sorted_wrt_rev)
  show "set (orderedLevels m d) = snd ` set m" by (auto simp: orderedLevels_def)
  show "length (orderedLevels m d) = length m" by (simp add: orderedLevels_def)
  show "distinct (orderedLevels m d)" using prices by (simp add: orderedLevels_def distinct_map)
qed

text \<open>What a published side is: levels of the abstract book in strict price order, and every level
  that is left out is worse than all that are shown.\<close>

definition view_of :: "abs_side \<Rightarrow> int \<Rightarrow> bool \<Rightarrow> (string \<times> string) list \<Rightarrow> bool" where
  "view_of book depth descending shown \<longleftrightarrow>
     length shown \<le> nat depth \<and>
     sorted_wrt (best_first descending) (map (\<lambda>l. decimal_value (fst l)) shown) \<and>
     (\<forall>l \<in> set shown. book (decimal_value (fst l)) = Some l \<and> 0 < decimal_value (snd l)) \<and>
     (\<forall>price l. book price = Some l \<longrightarrow> l \<in> set shown \<or>
        (length shown = nat depth \<and> (\<forall>s \<in> set shown. best_first descending (decimal_value (fst s)) price)))"

lemma side_ok_level:
  assumes "side_ok m" "l \<in> snd ` set m"
  shows "decimal_value (ll_priceText l) = ll_price l" "0 < decimal_value (ll_quantityText l)"
    "map_of m (Rat_RatString (ll_price l)) = Some l"
  using assms by (auto simp: side_ok_def level_ok_def list_all_iff)

lemma sortedLocalLevels_view:
  assumes ok: "side_ok m"
  shows "view_of (abs_of m) depth d (sortedLocalLevels m depth d)"
proof -
  let ?o = "orderedLevels m d" and ?n = "nat depth"
  let ?top = "take ?n ?o"
  note o = orderedLevels_spec [OF ok, where d = d]
  have split: "?o = ?top @ drop ?n ?o" by simp
  have top: "l \<in> snd ` set m" if "l \<in> set ?top" for l using that o(2) by (auto dest: in_set_takeD)
  have sorted: "sorted_wrt (best_first d) (map ll_price ?top)"
    using o(1) by (simp add: take_map [symmetric] sorted_wrt_take)
  have prices: "map (\<lambda>l. decimal_value (fst l)) (sortedLocalLevels m depth d) = map ll_price ?top"
    using side_ok_level(1) [OF ok top] by (simp add: sortedLocalLevels_def)
  have shown: "abs_of m (decimal_value (fst l)) = Some l \<and> 0 < decimal_value (snd l)"
    if "l \<in> set (sortedLocalLevels m depth d)" for l
    using that side_ok_level [OF ok top] by (auto simp: sortedLocalLevels_def abs_of_def)
  have rest: "l \<in> set (sortedLocalLevels m depth d) \<or> (length (sortedLocalLevels m depth d) = ?n \<and>
      (\<forall>s \<in> set (sortedLocalLevels m depth d). best_first d (decimal_value (fst s)) price))"
    if pl: "abs_of m price = Some l" for price l
  proof -
    obtain v where v: "map_of m (Rat_RatString price) = Some v" "l = (ll_priceText v, ll_quantityText v)"
      using pl by (auto simp: abs_of_def)
    then have mem: "v \<in> snd ` set m" "(Rat_RatString price, v) \<in> set m" by (auto dest: map_of_SomeD) (force dest: map_of_SomeD)
    then have price: "ll_price v = price" using ok by (auto simp: side_ok_def level_ok_def list_all_iff Rat_RatString_inj)
    show ?thesis
    proof (cases "v \<in> set ?top")
      case True
      then show ?thesis by (auto simp: sortedLocalLevels_def v(2))
    next
      case False
      have "v \<in> set ?o" using mem(1) o(2) by simp
      then have v_rest: "v \<in> set (drop ?n ?o)" using False split by (metis UnE set_append)
      then have "?n < length ?o" by (metis drop_all empty_iff list.set(1) not_le)
      moreover have "sorted_wrt (best_first d) (map ll_price ?top @ map ll_price (drop ?n ?o))"
        using o(1) split by (metis map_append)
      then have "best_first d (ll_price s) price" if "s \<in> set ?top" for s
        using that v_rest price by (auto simp: sorted_wrt_append)
      ultimately show ?thesis using side_ok_level(1) [OF ok top] by (auto simp: sortedLocalLevels_def)
    qed
  qed
  show ?thesis unfolding view_of_def prices using sorted shown rest by (auto simp: sortedLocalLevels_def)
qed


section \<open>Pruning\<close>

lemma fold_delete_set:
  "set (fold (\<lambda>k. AList.delete k) ks m) = {p \<in> set m. fst p \<notin> set ks} \<and>
   (distinct (map fst m) \<longrightarrow> distinct (map fst (fold (\<lambda>k. AList.delete k) ks m)))"
proof (induction ks arbitrary: m)
  case (Cons k ks)
  have "distinct (map fst m) \<longrightarrow> distinct (map fst (AList.delete k m))" by (auto intro: distinct_delete)
  with Cons [of "AList.delete k m"] show ?case by (auto simp: AList.delete_eq)
qed simp

text \<open>The keys of the levels are the keys recomputed from their texts.\<close>

lemma pruneLevels_keys:
  assumes ok: "side_ok m"
  shows "pruneLevels m depth d =
    fold (\<lambda>l m. AList.delete (Rat_RatString (ll_price l)) m) (drop (nat depth) (orderedLevels m d)) m"
proof -
  let ?o = "orderedLevels m d"
  let ?rest = "drop (nat depth) ?o"
  note o = orderedLevels_spec [OF ok, where d = d]
  have rest_in: "l \<in> snd ` set m" if "l \<in> set ?rest" for l using that o(2) by (auto dest: in_set_dropD)
  have key: "Rat_SetString (ll_priceText l) = Some (ll_price l)" if "l \<in> set ?rest" for l
    using rest_in [OF that] ok by (auto simp: side_ok_def level_ok_def list_all_iff Rat_SetString_def)
  have "sortedLocalLevels m (int (length m)) d = map (\<lambda>l. (ll_priceText l, ll_quantityText l)) ?o"
    using o(3) by (simp add: sortedLocalLevels_def)
  then have "pruneLevels m depth d =
      fold (\<lambda>l m. case Rat_SetString (ll_priceText l) of Some price \<Rightarrow> AList.delete (Rat_RatString price) m | None \<Rightarrow> m) ?rest m"
    by (simp add: pruneLevels_def drop_map fold_map o_def)
  also have "\<dots> = fold (\<lambda>l m. AList.delete (Rat_RatString (ll_price l)) m) ?rest m"
    by (rule fold_cong) (simp_all add: key)
  finally show ?thesis .
qed

text \<open>After pruning exactly the best levels are left.\<close>

lemma pruneLevels_spec:
  assumes ok: "side_ok m"
  shows "side_ok (pruneLevels m depth d) \<and>
     set (pruneLevels m depth d) = {(k, l) \<in> set m. l \<in> set (take (nat depth) (orderedLevels m d))}"
proof -
  let ?o = "orderedLevels m d"
  let ?rest = "drop (nat depth) ?o"
  note o = orderedLevels_spec [OF ok, where d = d]
  have rest_in: "l \<in> snd ` set m" if "l \<in> set ?rest" for l using that o(2) by (auto dest: in_set_dropD)
  have p: "pruneLevels m depth d = fold (\<lambda>k. AList.delete k) (map (\<lambda>l. Rat_RatString (ll_price l)) ?rest) m"
    by (simp add: pruneLevels_keys [OF ok] fold_map o_def)
  have keys: "Rat_RatString (ll_price l) = k" if "(k, l) \<in> set m" for k l
    using that ok by (auto simp: side_ok_def level_ok_def list_all_iff)
  have dist: "set (take (nat depth) ?o) \<inter> set ?rest = {}"
    using o(4) by (metis append_take_drop_id distinct_append)
  have both: "set ?o = set (take (nat depth) ?o) \<union> set ?rest" by (metis append_take_drop_id set_append)
  have "(k, l) \<in> set (pruneLevels m depth d) \<longleftrightarrow> (k, l) \<in> set m \<and> l \<in> set (take (nat depth) ?o)" for k l
  proof (cases "(k, l) \<in> set m")
    case True
    have "k \<in> (\<lambda>l. Rat_RatString (ll_price l)) ` set ?rest \<longleftrightarrow> l \<in> set ?rest"
    proof
      assume "k \<in> (\<lambda>l. Rat_RatString (ll_price l)) ` set ?rest"
      then obtain l' where l': "l' \<in> set ?rest" "k = Rat_RatString (ll_price l')" by auto
      then have "(k, l') \<in> set m" using rest_in [OF l'(1)] keys by auto
      with True ok have "l' = l" by (auto simp: side_ok_def dest: eq_key_imp_eq_value)
      with l' show "l \<in> set ?rest" by simp
    qed (use keys [OF True] in auto)
    moreover have "l \<in> set ?o" using True o(2) by force
    ultimately show ?thesis using True dist both by (auto simp: p fold_delete_set)
  qed (auto simp: p fold_delete_set)
  then have set: "set (pruneLevels m depth d) = {(k, l) \<in> set m. l \<in> set (take (nat depth) ?o)}" by auto
  moreover have "side_ok (pruneLevels m depth d)"
    using ok set by (auto simp: side_ok_def list_all_iff p fold_delete_set)
  ultimately show ?thesis by simp
qed

end
