(* ===== verification/Sequenced_Book.thy ===== *)
theory Sequenced_Book
  imports Depth_Levels
begin

text \<open>
  What every local order book promises, whatever the sequence numbers of its exchange look like: a
  live book is a snapshot followed by an unbroken chain of updates, and its two sides are what those
  updates make of the snapshot. The adapters' books interpret the locale \<open>sequenced_book\<close>.
\<close>

type_synonym abs_book = "abs_side \<times> abs_side"

definition abs_levels :: "string list list \<Rightarrow> string list list \<Rightarrow> abs_book \<Rightarrow> abs_book" where
  "abs_levels bids asks book = (fold abs_apply bids (fst book), fold abs_apply asks (snd book))"

definition abs_empty :: abs_book where
  "abs_empty = (Map.empty, Map.empty)"

text \<open>A chain: each update attaches to the position the one before it left.\<close>

fun chained :: "('k \<Rightarrow> 'ev \<Rightarrow> bool) \<Rightarrow> ('ev \<Rightarrow> 'k) \<Rightarrow> 'k \<Rightarrow> 'ev list \<Rightarrow> bool" where
  "chained follows final k [] = True"
| "chained follows final k (ev # evs) = (follows k ev \<and> chained follows final (final ev) evs)"

definition end_of :: "('ev \<Rightarrow> 'k) \<Rightarrow> 'k \<Rightarrow> 'ev list \<Rightarrow> 'k" where
  "end_of final k evs = (if evs = [] then k else final (last evs))"

lemma end_of_simps [simp]:
  "end_of final k [] = k" "end_of final k (evs @ [ev]) = final ev"
  "end_of final k (ev # evs) = end_of final (final ev) evs"
  by (simp_all add: end_of_def)

lemma chained_append:
  "chained follows final k (xs @ ys) \<longleftrightarrow>
     chained follows final k xs \<and> chained follows final (end_of final k xs) ys"
  by (induction xs arbitrary: k) simp_all

locale sequenced_book =
  fixes good :: "'st \<Rightarrow> bool"
    and position :: "'st \<Rightarrow> 'k"
    and sides :: "'st \<Rightarrow> abs_book"
    and follows :: "'k \<Rightarrow> 'ev \<Rightarrow> bool"
    and final :: "'ev \<Rightarrow> 'k"
    and effect :: "'ev \<Rightarrow> abs_book \<Rightarrow> abs_book"
    and accept :: "'st \<Rightarrow> 'ev \<Rightarrow> 'st option"
  assumes accept_good: "good st \<Longrightarrow> accept st ev = Some st' \<Longrightarrow> good st'"
    and accept_follows: "good st \<Longrightarrow> accept st ev = Some st' \<Longrightarrow> follows (position st) ev"
    and accept_position: "good st \<Longrightarrow> accept st ev = Some st' \<Longrightarrow> position st' = final ev"
    and accept_sides: "good st \<Longrightarrow> accept st ev = Some st' \<Longrightarrow> sides st' = effect ev (sides st)"
begin

text \<open>A state that tracks the updates \<open>evs\<close> after a snapshot with position \<open>k\<close> and sides \<open>b\<close>.\<close>

definition tracks :: "'k \<Rightarrow> abs_book \<Rightarrow> 'ev list \<Rightarrow> 'st \<Rightarrow> bool" where
  "tracks k b evs st \<longleftrightarrow> good st \<and> chained follows final k evs \<and>
     position st = end_of final k evs \<and> sides st = fold effect evs b"

lemma tracks_refl: "good st \<Longrightarrow> tracks (position st) (sides st) [] st"
  by (simp add: tracks_def)

lemma tracks_accept:
  "tracks k b evs st \<Longrightarrow> accept st ev = Some st' \<Longrightarrow> tracks k b (evs @ [ev]) st'"
  by (auto simp: tracks_def chained_append accept_good accept_position accept_sides dest: accept_follows)

end

section \<open>The best levels\<close>

text \<open>Keeping the best levels of a side only: a level stays when fewer than \<open>n\<close> are better.\<close>

definition abs_best :: "nat \<Rightarrow> bool \<Rightarrow> abs_side \<Rightarrow> abs_side" where
  "abs_best n d m price = (if card {q \<in> dom m. best_first d q price} < n then m price else None)"

lemma sorted_rank:
  assumes "sorted_wrt (best_first d) xs" "i < length xs"
  shows "{q \<in> set xs. best_first d q (xs ! i)} = set (take i xs)"
proof -
  have lt: "best_first d (xs ! j) (xs ! k)" if "j < k" "k < length xs" for j k
    using assms(1) that by (simp add: sorted_wrt_nth_less)
  have "best_first d (xs ! j) (xs ! i) \<longleftrightarrow> j < i" if "j < length xs" for j
    using lt [of j i] lt [of i j] that assms(2) by (cases j i rule: linorder_cases) (auto simp: best_first_def split: if_splits)
  moreover have "set (take i xs) = (\<lambda>j. xs ! j) ` {..<i}"
    using assms(2) by (simp add: nth_image [symmetric] lessThan_atLeast0)
  moreover have "set xs = (\<lambda>j. xs ! j) ` {..<length xs}"
    by (auto simp: set_conv_nth)
  ultimately show ?thesis using assms(2) by (auto simp: image_iff)
qed

lemma best_first_distinct: "sorted_wrt (best_first d) xs \<Longrightarrow> distinct xs"
  by (induction xs) (auto simp: best_first_def split: if_splits)

lemma abs_of_dom:
  assumes ok: "side_ok m"
  shows "dom (abs_of m) = ll_price ` snd ` set m"
proof (rule set_eqI, rule iffI)
  fix price
  assume "price \<in> dom (abs_of m)"
  then obtain l where "map_of m (Rat_RatString price) = Some l" by (auto simp: abs_of_def)
  then have "(Rat_RatString price, l) \<in> set m" by (rule map_of_SomeD)
  moreover from this have "ll_price l = price"
    using ok by (auto simp: side_ok_def level_ok_def list_all_iff Rat_RatString_inj)
  ultimately show "price \<in> ll_price ` snd ` set m" by force
next
  fix price
  assume "price \<in> ll_price ` snd ` set m"
  then obtain l where "l \<in> snd ` set m" "price = ll_price l" by auto
  then show "price \<in> dom (abs_of m)" using side_ok_level(3) [OF ok] by (simp add: abs_of_def dom_def)
qed

lemma abs_best_pruneLevels:
  assumes ok: "side_ok m"
  shows "abs_of (pruneLevels m depth d) = abs_best (nat depth) d (abs_of m)"
proof
  fix price
  let ?o = "orderedLevels m d" and ?n = "nat depth" and ?m' = "pruneLevels m depth d"
  note o = orderedLevels_spec [OF ok, where d = d]
  note prune = pruneLevels_spec [OF ok, of depth d]
  have dom: "dom (abs_of m) = set (map ll_price ?o)" using abs_of_dom [OF ok] o(2) by simp
  show "abs_of ?m' price = abs_best ?n d (abs_of m) price"
  proof (cases "map_of m (Rat_RatString price)")
    case None
    then have "Rat_RatString price \<notin> fst ` set m" by (simp add: map_of_eq_None_iff)
    then have "Rat_RatString price \<notin> fst ` set ?m'" using prune by auto
    then have "map_of ?m' (Rat_RatString price) = None" by (simp add: map_of_eq_None_iff)
    with None show ?thesis by (simp add: abs_of_def abs_best_def)
  next
    case (Some l)
    then have mem: "(Rat_RatString price, l) \<in> set m" by (rule map_of_SomeD)
    then have price: "ll_price l = price" using ok by (auto simp: side_ok_def level_ok_def list_all_iff Rat_RatString_inj)
    from mem o(2) have "l \<in> set ?o" by force
    then obtain i where i: "i < length ?o" "?o ! i = l" by (auto simp: in_set_conv_nth)
    have "{q \<in> dom (abs_of m). best_first d q price} = set (take i (map ll_price ?o))"
      using sorted_rank [OF o(1), of i] i price dom by simp
    moreover have "distinct (take i (map ll_price ?o))"
      using best_first_distinct [OF o(1)] by (rule distinct_take)
    ultimately have rank: "card {q \<in> dom (abs_of m). best_first d q price} = i"
      using i by (simp add: distinct_card)
    have "l \<in> set (take ?n ?o) \<longleftrightarrow> i < ?n"
      using i o(4) by (auto simp: in_set_conv_nth nth_eq_iff_index_eq)
    then have "(Rat_RatString price, l) \<in> set ?m' \<longleftrightarrow> i < ?n" using prune mem by auto
    moreover have "map_of ?m' (Rat_RatString price) = (if (Rat_RatString price, l) \<in> set ?m' then Some l else None)"
      using prune Some by (auto simp: side_ok_def map_of_eq_None_iff)
        (use ok mem in \<open>auto simp: side_ok_def dest: eq_key_imp_eq_value\<close>)
    ultimately show ?thesis using Some rank by (simp add: abs_of_def abs_best_def)
  qed
qed

section \<open>Books that are fed by one stream\<close>

text \<open>Several exchanges send the snapshot and the updates on the same connection. Their processors answer
  each message by showing a view, by doing nothing, by asking for a new connection, or by an error
  that ends the stream.\<close>

datatype 'v processed = Shown 'v | Quiet | Reconnecting | Failed go_error

fun shown_views :: "'v processed \<Rightarrow> 'v list" where
  "shown_views (Shown v) = [v]"
| "shown_views _ = []"

text \<open>An answer that neither shows anything nor asks for a connection.\<close>

definition silent :: "'v processed \<Rightarrow> bool" where
  "silent out \<longleftrightarrow> out = Quiet \<or> (\<exists>err. out = Failed err)"

lemma silent_simps [simp]:
  "silent Quiet" "silent (Failed err)" "\<not> silent (Shown v)" "\<not> silent Reconnecting"
  by (simp_all add: silent_def)

lemma silent_shows_nothing: "silent out \<Longrightarrow> shown_views out = []"
  by (auto simp: silent_def)

fun stream_run :: "('p \<Rightarrow> 'm \<Rightarrow> 'p \<times> 'v processed) \<Rightarrow> 'p \<Rightarrow> 'm list \<Rightarrow> 'p \<times> 'v list" where
  "stream_run process p [] = (p, [])"
| "stream_run process p (m # ms) =
     (case process p m of (p', out) \<Rightarrow>
        (case stream_run process p' ms of (p'', vs) \<Rightarrow> (p'', shown_views out @ vs)))"

lemma stream_run_snoc:
  "stream_run process p (ms @ [m]) =
     (case stream_run process p ms of (p', vs) \<Rightarrow>
        (case process p' m of (p'', out) \<Rightarrow> (p'', vs @ shown_views out)))"
  by (induction ms arbitrary: p) (simp_all split: prod.splits)

locale snapshot_stream = sequenced_book good position sides follows final effect accept
  for good :: "'st \<Rightarrow> bool" and position :: "'st \<Rightarrow> 'k" and sides :: "'st \<Rightarrow> abs_book"
    and follows :: "'k \<Rightarrow> 'ev \<Rightarrow> bool" and final :: "'ev \<Rightarrow> 'k" and effect :: "'ev \<Rightarrow> abs_book \<Rightarrow> abs_book"
    and accept :: "'st \<Rightarrow> 'ev \<Rightarrow> 'st option" +
  fixes gen :: "'p \<Rightarrow> 64 word"
    and live :: "'p \<Rightarrow> 'st option"
    and process :: "'p \<Rightarrow> 'm \<Rightarrow> 'p \<times> 'v processed"
    and mgen :: "'m \<Rightarrow> 64 word"
    and event :: "'m \<Rightarrow> 'ev"
    and snap :: "'m \<Rightarrow> bool"
    and start :: "'ev \<Rightarrow> 'k"
    and render :: "'p \<Rightarrow> 'st \<Rightarrow> 'v"
  assumes process_live: "\<lbrakk>\<And>st. live p = Some st \<Longrightarrow> good st; process p m = (p', out); live p' = Some st'\<rbrakk> \<Longrightarrow>
      live p = Some st' \<and> gen p' = gen p \<or>
      snap m \<and> mgen m = gen p' \<and> good st' \<and> position st' = start (event m) \<and> sides st' = effect (event m) abs_empty \<or>
      (\<exists>st. live p = Some st \<and> gen p' = gen p \<and> mgen m = gen p \<and> \<not> snap m \<and> accept st (event m) = Some st')"
    and process_shown: "process p m = (p', Shown v) \<Longrightarrow> \<exists>st. live p' = Some st \<and> v = render p' st"
begin

text \<open>A live book was made from a snapshot and a chain of updates that came after it on its connection.\<close>

definition streamed :: "'m list \<Rightarrow> 64 word \<Rightarrow> 'st \<Rightarrow> bool" where
  "streamed ms g st \<longleftrightarrow> (\<exists>before m after evs. ms = before @ m # after \<and> snap m \<and> mgen m = g \<and>
     subseq evs (map event (filter (\<lambda>x. mgen x = g \<and> \<not> snap x) after)) \<and>
     tracks (start (event m)) (effect (event m) abs_empty) evs st)"

lemma streamedI:
  "\<lbrakk>ms = before @ m # after; snap m; mgen m = g; subseq evs (map event (filter (\<lambda>x. mgen x = g \<and> \<not> snap x) after));
    tracks (start (event m)) (effect (event m) abs_empty) evs st\<rbrakk> \<Longrightarrow> streamed ms g st"
  by (auto simp: streamed_def)

lemma streamed_good: "streamed ms g st \<Longrightarrow> good st"
  by (auto simp: streamed_def tracks_def)

lemma streamed_mono:
  assumes "streamed ms g st"
  shows "streamed (ms @ [x]) g st"
proof -
  from assms obtain before m after evs where parts: "ms = before @ m # after" "snap m" "mgen m = g"
    "subseq evs (map event (filter (\<lambda>x. mgen x = g \<and> \<not> snap x) after))"
    "tracks (start (event m)) (effect (event m) abs_empty) evs st" by (auto simp: streamed_def)
  have "subseq evs (map event (filter (\<lambda>x. mgen x = g \<and> \<not> snap x) (after @ [x])))"
    using parts(4) by (auto intro: subseq_rev_drop_many)
  from streamedI [OF _ parts(2,3) this parts(5)] parts(1) show ?thesis by simp
qed

lemma streamed_accept:
  assumes "streamed ms g st" "accept st (event x) = Some st'" "mgen x = g" "\<not> snap x"
  shows "streamed (ms @ [x]) g st'"
proof -
  from assms(1) obtain before m after evs where parts: "ms = before @ m # after" "snap m" "mgen m = g"
    "subseq evs (map event (filter (\<lambda>x. mgen x = g \<and> \<not> snap x) after))"
    "tracks (start (event m)) (effect (event m) abs_empty) evs st" by (auto simp: streamed_def)
  have "subseq (evs @ [event x]) (map event (filter (\<lambda>x. mgen x = g \<and> \<not> snap x) (after @ [x])))"
    using parts(4) assms(3,4) by simp
  from streamedI [OF _ parts(2,3) this tracks_accept [OF parts(5) assms(2)]] parts(1) show ?thesis by simp
qed

lemma streamed_snapshot:
  assumes "snap m" "mgen m = g" "good st" "position st = start (event m)" "sides st = effect (event m) abs_empty"
  shows "streamed (ms @ [m]) g st"
proof -
  have "tracks (start (event m)) (effect (event m) abs_empty) [] st"
    using tracks_refl [OF assms(3)] assms(4,5) by simp
  then show ?thesis using streamedI [of "ms @ [m]" ms m "[]" g "[]" st] assms(1,2) by simp
qed

lemma run_streamed:
  assumes "live p0 = None"
  shows "(\<forall>st. live (fst (stream_run process p0 ms)) = Some st \<longrightarrow> streamed ms (gen (fst (stream_run process p0 ms))) st) \<and>
     (\<forall>v \<in> set (snd (stream_run process p0 ms)). \<exists>p st. v = render p st \<and> streamed ms (gen p) st)"
proof (induction ms rule: rev_induct)
  case Nil
  then show ?case using assms by simp
next
  case (snoc m ms)
  obtain p vs where run: "stream_run process p0 ms = (p, vs)" by (cases "stream_run process p0 ms")
  obtain p' out where step: "process p m = (p', out)" by (cases "process p m")
  have IH: "\<And>st. live p = Some st \<Longrightarrow> streamed ms (gen p) st"
    and IHv: "\<And>v. v \<in> set vs \<Longrightarrow> \<exists>p st. v = render p st \<and> streamed ms (gen p) st"
    using snoc run by simp_all
  have live: "streamed (ms @ [m]) (gen p') st'" if "live p' = Some st'" for st'
    using process_live [OF streamed_good [OF IH] step that] streamed_mono [OF IH] streamed_accept [OF IH] streamed_snapshot
    by metis
  have "\<exists>p st. v = render p st \<and> streamed (ms @ [m]) (gen p) st" if "v \<in> set vs" for v
    using IHv [OF that] streamed_mono by blast
  moreover have "\<exists>p st. v = render p st \<and> streamed (ms @ [m]) (gen p) st" if "out = Shown v" for v
    using process_shown [of p m p' v] step that live by auto
  ultimately show ?case using live by (cases out) (auto simp: stream_run_snoc run step)
qed

end

section \<open>Messages with several events\<close>

text \<open>The loop over the events of a message: it takes the handler up to the first error or reconnection.\<close>

fun run_events :: "('p \<Rightarrow> 'e \<Rightarrow> 'p \<times> 'v processed) \<Rightarrow> 'p \<Rightarrow> 'e list \<Rightarrow> 'p \<times> 'v list \<times> 'v processed" where
  "run_events step p [] = (p, [], Quiet)"
| "run_events step p (e # es) =
     (case step p e of
        (p, Failed err) \<Rightarrow> (p, [], Failed err)
      | (p, Reconnecting) \<Rightarrow> (p, [], Reconnecting)
      | (p, Quiet) \<Rightarrow> run_events step p es
      | (p, Shown v) \<Rightarrow> (case run_events step p es of (p, vs, out) \<Rightarrow> (p, v # vs, out)))"

text \<open>The messages of a stream, one after the other.\<close>

fun batch_run :: "('p \<Rightarrow> 'm \<Rightarrow> 'p \<times> 'v list \<times> 'v processed) \<Rightarrow> 'p \<Rightarrow> 'm list \<Rightarrow> 'p \<times> 'v list" where
  "batch_run handle p [] = (p, [])"
| "batch_run handle p (m # ms) =
     (case handle p m of (p, vs, out) \<Rightarrow> (case batch_run handle p ms of (p, ws) \<Rightarrow> (p, vs @ ws)))"

lemma stream_run_append:
  "stream_run process p (xs @ ys) =
     (case stream_run process p xs of (p', vs) \<Rightarrow> (case stream_run process p' ys of (p'', ws) \<Rightarrow> (p'', vs @ ws)))"
  by (induction xs arbitrary: p) (simp_all split: prod.splits)

text \<open>A loop is a run over the events it got to.\<close>

lemma run_events_stream:
  "run_events step p es = (p', vs, out) \<Longrightarrow> \<exists>ts. subseq ts es \<and> stream_run step p ts = (p', vs)"
proof (induction es arbitrary: p p' vs out)
  case Nil
  then show ?case by auto
next
  case (Cons e es)
  obtain q res where proc: "step p e = (q, res)" by fastforce
  show ?case
  proof (cases "\<exists>ws o'. run_events step q es = (p', ws, o') \<and> vs = shown_views res @ ws")
    case True
    then obtain ws o' where rest: "run_events step q es = (p', ws, o')" "vs = shown_views res @ ws" by blast
    from Cons.IH [OF rest(1)] obtain ts where "subseq ts es" "stream_run step q ts = (p', ws)" by blast
    with proc rest(2) show ?thesis by (intro exI [of _ "e # ts"]) simp
  next
    case False
    with Cons.prems proc have "p' = q" "vs = []" "shown_views res = []"
      by (auto split: processed.splits prod.splits)
    with proc show ?thesis by (intro exI [of _ "[e]"]) simp
  qed
qed

lemma run_events_filter:
  assumes "\<And>p e. step' p e = (if P e then step p e else (p, Quiet))"
  shows "run_events step' p es = run_events step p (filter P es)"
  by (induction es arbitrary: p) (simp_all add: assms split: prod.split processed.split)

text \<open>A stream of messages is a run over events of their expansions.\<close>

lemma batch_run_stream:
  assumes handle: "\<And>p m p' vs out. handle p m = (p', vs, out) \<Longrightarrow> \<exists>ts. subseq ts (expand m) \<and> stream_run step p ts = (p', vs)"
  shows "batch_run handle p ms = (p', vs) \<Longrightarrow> \<exists>ts. subseq ts (concat (map expand ms)) \<and> stream_run step p ts = (p', vs)"
proof (induction ms arbitrary: p p' vs)
  case Nil
  then show ?case by auto
next
  case (Cons m ms)
  obtain q ws out where first: "handle p m = (q, ws, out)" by (cases "handle p m") auto
  obtain us where rest: "batch_run handle q ms = (p', us)" "vs = ws @ us"
    using Cons.prems first by (auto split: prod.splits)
  from handle [OF first] obtain ts1 where "subseq ts1 (expand m)" "stream_run step p ts1 = (q, ws)" by blast
  moreover from Cons.IH [OF rest(1)] obtain ts where "subseq ts (concat (map expand ms))" "stream_run step q ts = (p', us)" by blast
  ultimately show ?case using rest(2)
    by (intro exI [of _ "ts1 @ ts"]) (simp add: stream_run_append list_emb_append_mono)
qed

lemma subseq_of_map: "subseq ys (map f xs) \<Longrightarrow> \<exists>zs. subseq zs xs \<and> ys = map f zs"
proof (induction xs arbitrary: ys)
  case (Cons x xs)
  show ?case
  proof (cases "\<exists>zs. ys = f x # zs \<and> subseq zs (map f xs)")
    case True
    then obtain zs where zs: "ys = f x # zs" "subseq zs (map f xs)" by blast
    from Cons.IH [OF zs(2)] obtain us where "subseq us xs" "zs = map f us" by blast
    with zs(1) show ?thesis by (intro exI [of _ "x # us"]) simp
  next
    case False
    with Cons.prems have "subseq ys (map f xs)" by (cases ys) (auto split: if_splits)
    from Cons.IH [OF this] show ?thesis by (auto intro: list_emb_Cons)
  qed
qed (use list_emb_Nil2 in auto)

end
