(* ===== verification/Binance_Book.thy ===== *)
theory Binance_Book
  imports Sequenced_Book
begin

text \<open>
  The Binance Spot local order book (\<open>exchange/binance/local_order_book.go\<close>): a stream of depth
  updates is buffered, joined with a REST snapshot by update IDs and then followed update by update;
  a gap or a new connection starts over.

  The select loop \<open>runInputs\<close> is a step function: its local variables are the record \<open>depth_run\<close>,
  the cases of the select are the datatype \<open>depth_select\<close>, and a step returns the new variables,
  the views handed to the handler and, when the loop returns, its error.
\<close>

section \<open>Data\<close>

abbreviation MaxInt64 :: int where "MaxInt64 \<equiv> 2 ^ 63 - 1"

record DepthEvent =
  de_EventType :: string
  de_EventTime :: int
  de_Symbol :: string
  de_FirstUpdateID :: int
  de_FinalUpdateID :: int
  de_LastUpdateID :: int
  de_Bids :: "string list list"
  de_Asks :: "string list list"
  de_PartialBids :: "string list list"
  de_PartialAsks :: "string list list"

record DepthSnapshot =
  ds_LastUpdateID :: int
  ds_Bids :: "(string \<times> string) list"
  ds_Asks :: "(string \<times> string) list"

record LocalOrderBookConfig =
  lc_RESTClient :: bool
  lc_Symbol :: string
  lc_EgressRouteID :: EgressRouteID
  lc_SnapshotLimit :: int
  lc_MaxBufferedEvents :: int
  lc_ViewDepth :: int
  lc_SnapshotTimeout :: int
  lc_SnapshotRetryInterval :: int

record LocalOrderBookView =
  lv_Symbol :: string
  lv_Generation :: "64 word"
  lv_SynchronizationID :: "64 word"
  lv_GapCount :: "64 word"
  lv_LastUpdateID :: int
  lv_EventTime :: int
  lv_Bids :: "(string \<times> string) list"
  lv_Asks :: "(string \<times> string) list"

record LocalOrderBook =
  lb_symbol :: string
  lb_routeID :: EgressRouteID
  lb_maxBufferedEvents :: int
  lb_viewDepth :: int
  lb_snapshotTimeout :: int
  lb_snapshotRetryInterval :: int
  lb_snapshotLimit :: int

record depthInput =
  di_generation :: "64 word"
  di_event :: DepthEvent

record localDepthState =
  ld_bids :: depth_side
  ld_asks :: depth_side
  ld_lastUpdateID :: int
  ld_eventTime :: int

section \<open>Construction\<close>

definition validateSymbol :: "string \<Rightarrow> go_error option" where
  "validateSymbol symbol =
     (if TrimSpace symbol = [] \<or> TrimSpace symbol \<noteq> symbol
      then Some (validationError ''symbol is required and cannot have surrounding whitespace'' [])
      else None)"

definition NewLocalOrderBook :: "LocalOrderBookConfig \<Rightarrow> LocalOrderBook result" where
  "NewLocalOrderBook config =
     (if \<not> lc_RESTClient config then Inl (errorText ''Binance local order book REST client is required'')
      else case validateSymbol (lc_Symbol config) of
        Some err \<Rightarrow> Inl err
      | None \<Rightarrow>
          let symbol = ToUpper (lc_Symbol config); route = TrimSpace (lc_EgressRouteID config)
          in if route = [] then Inl (Sentinel ErrMissingEgressRoute)
             else
               let limit = (if lc_SnapshotLimit config = 0 then 5000 else lc_SnapshotLimit config)
               in if limit < 1 \<or> 5000 < limit
                  then Inl (validationError ''local order book snapshot limit must be between 1 and 5000'' [])
                  else
                    let buffered = (if lc_MaxBufferedEvents config = 0 then 4096 else lc_MaxBufferedEvents config)
                    in if buffered < 1
                       then Inl (validationError ''local order book event buffer size must be positive'' [])
                       else
                         let depth = (if lc_ViewDepth config = 0 then (if limit < 20 then limit else 20)
                                      else lc_ViewDepth config)
                         in if depth < 1 \<or> limit < depth
                            then Inl (validationError ''local order book view depth must not exceed snapshot limit'' [])
                            else
                              let timeout = (if lc_SnapshotTimeout config = 0 then 10000000000
                                             else lc_SnapshotTimeout config);
                                  retry = (if lc_SnapshotRetryInterval config = 0 then 250000000
                                           else lc_SnapshotRetryInterval config)
                              in if timeout < 0 \<or> retry < 0
                                 then Inl (validationError ''local order book snapshot durations must be positive'' [])
                                 else Inr \<lparr>lb_symbol = symbol, lb_routeID = route, lb_maxBufferedEvents = buffered,
                                           lb_viewDepth = depth, lb_snapshotTimeout = timeout,
                                           lb_snapshotRetryInterval = retry, lb_snapshotLimit = limit\<rparr>)"

section \<open>Snapshots and updates\<close>

definition level_fields :: "(string \<times> string) list \<Rightarrow> string list list" where
  "level_fields levels = map (\<lambda>(price, quantity). [price, quantity]) levels"

definition newLocalDepthState :: "DepthSnapshot \<Rightarrow> localDepthState result" where
  "newLocalDepthState snapshot =
     (case applyLocalLevels [] (level_fields (ds_Bids snapshot)) of
        Inl err \<Rightarrow> Inl err
      | Inr bids \<Rightarrow>
          (case applyLocalLevels [] (level_fields (ds_Asks snapshot)) of
             Inl err \<Rightarrow> Inl err
           | Inr asks \<Rightarrow>
               Inr \<lparr>ld_bids = bids, ld_asks = asks, ld_lastUpdateID = ds_LastUpdateID snapshot, ld_eventTime = 0\<rparr>))"

definition validateDepthSnapshot :: "DepthSnapshot \<Rightarrow> go_error option" where
  "validateDepthSnapshot snapshot =
     (if ds_LastUpdateID snapshot \<le> 0 \<or> ds_LastUpdateID snapshot = MaxInt64
      then Some (validationError ''local order book snapshot update ID is invalid'' [])
      else case checkDepthFields (level_fields (ds_Bids snapshot)) of
             Some err \<Rightarrow> Some err
           | None \<Rightarrow> checkDepthFields (level_fields (ds_Asks snapshot)))"

definition validateInput :: "LocalOrderBook \<Rightarrow> depthInput \<Rightarrow> go_error option" where
  "validateInput book input =
     (let event = di_event input
      in if di_generation input = 0
         then Some (validationError ''local order book WebSocket generation is zero'' [])
         else if de_EventType event \<noteq> ''depthUpdate'' \<or> de_Symbol event \<noteq> lb_symbol book
         then Some (validationError ''local order book received an unexpected depth event'' [])
         else if de_FirstUpdateID event \<le> 0 \<or> de_FinalUpdateID event < de_FirstUpdateID event
         then Some (validationError ''local order book depth update IDs are invalid'' [])
         else checkDepthFields (de_Bids event @ de_Asks event))"

text \<open>\<open>state.apply\<close>: ignored as old, refused as a gap, or applied.\<close>

datatype apply_result = Ignored | Gap | Applied localDepthState

definition localDepthState_apply :: "localDepthState \<Rightarrow> DepthEvent \<Rightarrow> apply_result result" where
  "localDepthState_apply state event =
     (if de_FinalUpdateID event \<le> ld_lastUpdateID state then Inr Ignored
      else if wrap64 (ld_lastUpdateID state + 1) < de_FirstUpdateID event then Inr Gap
      else case applyLocalLevels (ld_bids state) (de_Bids event) of
             Inl err \<Rightarrow> Inl err
           | Inr bids \<Rightarrow>
               (case applyLocalLevels (ld_asks state) (de_Asks event) of
                  Inl err \<Rightarrow> Inl err
                | Inr asks \<Rightarrow>
                    Inr (Applied \<lparr>ld_bids = bids, ld_asks = asks,
                                  ld_lastUpdateID = de_FinalUpdateID event, ld_eventTime = de_EventTime event\<rparr>)))"

definition localDepthState_view ::
  "localDepthState \<Rightarrow> string \<Rightarrow> 64 word \<Rightarrow> 64 word \<Rightarrow> 64 word \<Rightarrow> int \<Rightarrow> LocalOrderBookView" where
  "localDepthState_view state symbol generation synchronizationID gapCount depth =
     \<lparr>lv_Symbol = symbol, lv_Generation = generation, lv_SynchronizationID = synchronizationID,
      lv_GapCount = gapCount, lv_LastUpdateID = ld_lastUpdateID state, lv_EventTime = ld_eventTime state,
      lv_Bids = sortedLocalLevels (ld_bids state) depth True,
      lv_Asks = sortedLocalLevels (ld_asks state) depth False\<rparr>"

section \<open>The select loop\<close>

record depth_run =
  ru_buffer :: "depthInput list"
  ru_generation :: "64 word"
  ru_state :: "localDepthState option"
  ru_pending :: "DepthSnapshot option"
  ru_synchronizationID :: "64 word"
  ru_gapCount :: "64 word"
  ru_fetching :: bool
  ru_retry :: bool

definition run_init :: depth_run where
  "run_init = \<lparr>ru_buffer = [], ru_generation = 0, ru_state = None, ru_pending = None,
     ru_synchronizationID = 0, ru_gapCount = 0, ru_fetching = False, ru_retry = False\<rparr>"

datatype depth_select =
    CtxDone go_error
  | StreamDone "go_error option"
  | RetryFired
  | SnapshotResult "DepthSnapshot result"
  | Input depthInput

definition startSnapshot :: "depth_run \<Rightarrow> depth_run" where
  "startSnapshot r = (if ru_fetching r then r else r\<lparr>ru_retry := False, ru_fetching := True\<rparr>)"

definition scheduleRetry :: "depth_run \<Rightarrow> depth_run" where
  "scheduleRetry r = (if ru_retry r then r else r\<lparr>ru_retry := True\<rparr>)"

text \<open>The replay of the buffer on the candidate: done, or stopped at a gap with what is left.\<close>

fun replay :: "localDepthState \<Rightarrow> depthInput list \<Rightarrow> (localDepthState + depthInput list) result" where
  "replay candidate [] = Inr (Inl candidate)"
| "replay candidate (input # rest) =
     (case localDepthState_apply candidate (di_event input) of
        Inl err \<Rightarrow> Inl err
      | Inr Gap \<Rightarrow> Inr (Inr (input # rest))
      | Inr Ignored \<Rightarrow> replay candidate rest
      | Inr (Applied candidate') \<Rightarrow> replay candidate' rest)"

definition trySynchronize :: "depth_run \<Rightarrow> bool result \<times> depth_run" where
  "trySynchronize r =
     (case ru_pending r of
        None \<Rightarrow> (Inr False, r)
      | Some snapshot \<Rightarrow>
          if ru_buffer r = [] then (Inr False, r)
          else
            let buffer = dropWhile (\<lambda>input. de_FinalUpdateID (di_event input) \<le> ds_LastUpdateID snapshot) (ru_buffer r);
                r = r\<lparr>ru_buffer := buffer\<rparr>
            in case buffer of
                 [] \<Rightarrow> (Inr False, r)
               | first # _ \<Rightarrow>
                   if ds_LastUpdateID snapshot = MaxInt64
                   then (Inl (validationError ''local order book snapshot update ID is invalid'' []), r)
                   else if ds_LastUpdateID snapshot + 1 < de_FirstUpdateID (di_event first)
                   then (Inr False, scheduleRetry (r\<lparr>ru_pending := None\<rparr>))
                   else case newLocalDepthState snapshot of
                          Inl err \<Rightarrow> (Inl err, r)
                        | Inr candidate \<Rightarrow>
                            (case replay candidate buffer of
                               Inl err \<Rightarrow> (Inl err, r)
                             | Inr (Inr rest) \<Rightarrow>
                                 (Inr False, scheduleRetry (r\<lparr>ru_gapCount := ru_gapCount r + 1, ru_buffer := rest,
                                                               ru_pending := None\<rparr>))
                             | Inr (Inl state) \<Rightarrow>
                                 (Inr True, r\<lparr>ru_state := Some state, ru_pending := None, ru_buffer := [],
                                              ru_synchronizationID := ru_synchronizationID r + 1\<rparr>)))"

type_synonym depth_outcome = "depth_run \<times> LocalOrderBookView list \<times> go_error option option"

definition publish ::
  "(LocalOrderBookView \<Rightarrow> go_error option) \<Rightarrow> LocalOrderBook \<Rightarrow> depth_run \<Rightarrow> depth_outcome" where
  "publish handler book r =
     (case ru_state r of
        None \<Rightarrow> (r, [], None)
      | Some state \<Rightarrow>
          let view = localDepthState_view state (lb_symbol book) (ru_generation r) (ru_synchronizationID r)
                       (ru_gapCount r) (lb_viewDepth book)
          in (r, [view], map_option Some (handler view)))"

definition synchronize_and_publish ::
  "(LocalOrderBookView \<Rightarrow> go_error option) \<Rightarrow> LocalOrderBook \<Rightarrow> depth_run \<Rightarrow> depth_outcome" where
  "synchronize_and_publish handler book r =
     (case trySynchronize r of
        (Inl err, r') \<Rightarrow> (r', [], Some (Some err))
      | (Inr synchronized, r') \<Rightarrow> if synchronized then publish handler book r' else (r', [], None))"

text \<open>The case of an input: a new generation resets, a live book is updated, otherwise the input is
  buffered and a synchronisation is tried or started.\<close>

definition enter_generation :: "depthInput \<Rightarrow> depth_run \<Rightarrow> depth_run" where
  "enter_generation input r =
     (if ru_generation r = 0 \<or> ru_generation r < di_generation input
      then r\<lparr>ru_generation := di_generation input, ru_state := None, ru_pending := None, ru_buffer := []\<rparr>
      else r)"

definition update_book ::
  "(LocalOrderBookView \<Rightarrow> go_error option) \<Rightarrow> LocalOrderBook \<Rightarrow> depthInput \<Rightarrow> localDepthState \<Rightarrow> depth_run \<Rightarrow>
   depth_outcome" where
  "update_book handler book input state r =
     (case localDepthState_apply state (di_event input) of
        Inl err \<Rightarrow> (r, [], Some (Some err))
      | Inr Gap \<Rightarrow>
          (startSnapshot (r\<lparr>ru_gapCount := ru_gapCount r + 1, ru_state := None, ru_pending := None,
                           ru_buffer := [input]\<rparr>), [], None)
      | Inr (Applied state') \<Rightarrow> publish handler book (r\<lparr>ru_state := Some state'\<rparr>)
      | Inr Ignored \<Rightarrow> (r, [], None))"

definition buffer_input ::
  "(LocalOrderBookView \<Rightarrow> go_error option) \<Rightarrow> LocalOrderBook \<Rightarrow> depthInput \<Rightarrow> depth_run \<Rightarrow> depth_outcome" where
  "buffer_input handler book input r0 =
     (let r = r0\<lparr>ru_buffer := ru_buffer r0 @ [input]\<rparr>
      in if lb_maxBufferedEvents book < int (length (ru_buffer r))
         then (r, [], Some (Some (Sentinel ErrDepthBufferOverflow)))
         else case (if ru_pending r \<noteq> None then synchronize_and_publish handler book r else (r, [], None)) of
                (r', views, Some ret) \<Rightarrow> (r', views, Some ret)
              | (r', views, None) \<Rightarrow>
                  if ru_state r' = None \<and> ru_pending r' = None \<and> \<not> ru_fetching r' \<and> \<not> ru_retry r'
                  then (startSnapshot r', views, None)
                  else (r', views, None))"

definition runInputs_step ::
  "(LocalOrderBookView \<Rightarrow> go_error option) \<Rightarrow> LocalOrderBook \<Rightarrow> depth_select \<Rightarrow> depth_run \<Rightarrow> depth_outcome" where
  "runInputs_step handler book sel r =
     (case sel of
        CtxDone err \<Rightarrow> (r, [], Some (Some err))
      | StreamDone err \<Rightarrow> (r, [], Some err)
      | RetryFired \<Rightarrow> (startSnapshot (r\<lparr>ru_retry := False\<rparr>), [], None)
      | SnapshotResult result \<Rightarrow>
          let r = r\<lparr>ru_fetching := False\<rparr>
          in (case result of
                Inl err \<Rightarrow> (scheduleRetry r, [], None)
              | Inr snapshot \<Rightarrow>
                  (case validateDepthSnapshot snapshot of
                     Some err \<Rightarrow> (r, [], Some (Some err))
                   | None \<Rightarrow> synchronize_and_publish handler book (r\<lparr>ru_pending := Some snapshot\<rparr>)))
      | Input input \<Rightarrow>
          (case validateInput book input of
             Some err \<Rightarrow> (r, [], Some (Some err))
           | None \<Rightarrow>
               if di_generation input < ru_generation r then (r, [], None)
               else
                 let r = enter_generation input r
                 in (case ru_state r of
                       Some state \<Rightarrow> update_book handler book input state r
                     | None \<Rightarrow> buffer_input handler book input r)))"

section \<open>The book as snapshot and chain of updates\<close>

definition depth_accept :: "localDepthState \<Rightarrow> DepthEvent \<Rightarrow> localDepthState option" where
  "depth_accept st ev = (case localDepthState_apply st ev of Inr (Applied st') \<Rightarrow> Some st' | _ \<Rightarrow> None)"

definition depth_follows :: "int \<Rightarrow> DepthEvent \<Rightarrow> bool" where
  "depth_follows k ev \<longleftrightarrow> de_FirstUpdateID ev \<le> k + 1 \<and> k < de_FinalUpdateID ev"

definition depth_effect :: "DepthEvent \<Rightarrow> abs_book \<Rightarrow> abs_book" where
  "depth_effect ev = abs_levels (de_Bids ev) (de_Asks ev)"

definition depth_sides :: "localDepthState \<Rightarrow> abs_book" where
  "depth_sides st = (abs_of (ld_bids st), abs_of (ld_asks st))"

definition depth_good :: "localDepthState \<Rightarrow> bool" where
  "depth_good st \<longleftrightarrow> side_ok (ld_bids st) \<and> side_ok (ld_asks st) \<and> 0 < ld_lastUpdateID st"

definition snapshot_book :: "DepthSnapshot \<Rightarrow> abs_book" where
  "snapshot_book s = abs_levels (level_fields (ds_Bids s)) (level_fields (ds_Asks s)) abs_empty"

text \<open>The successor of the last update ID can wrap only downwards, and then the event is a gap.\<close>

lemma wrap64_le: "0 \<le> x \<Longrightarrow> wrap64 x \<le> x"
  unfolding wrap64_def using zmod_le_nonneg_dividend [of "x + 2 ^ 63" "2 ^ 64"] by simp

lemma localDepthState_apply_Applied:
  assumes "depth_good st" "localDepthState_apply st ev = Inr (Applied st')"
  shows "depth_good st' \<and> depth_follows (ld_lastUpdateID st) ev \<and> ld_lastUpdateID st' = de_FinalUpdateID ev \<and>
     depth_sides st' = depth_effect ev (depth_sides st)"
proof -
  from assms obtain bids asks where parts:
    "applyLocalLevels (ld_bids st) (de_Bids ev) = Inr bids" "applyLocalLevels (ld_asks st) (de_Asks ev) = Inr asks"
    "ld_lastUpdateID st < de_FinalUpdateID ev" "de_FirstUpdateID ev \<le> wrap64 (ld_lastUpdateID st + 1)"
    "ld_bids st' = bids" "ld_asks st' = asks" "ld_lastUpdateID st' = de_FinalUpdateID ev"
    by (auto simp: localDepthState_apply_def split: if_splits sum.splits)
  have "wrap64 (ld_lastUpdateID st + 1) \<le> ld_lastUpdateID st + 1"
    using assms(1) by (intro wrap64_le) (simp add: depth_good_def)
  with parts assms(1) applyLocalLevels_refines [OF _ parts(1)] applyLocalLevels_refines [OF _ parts(2)]
  show ?thesis
    by (auto simp: depth_good_def depth_follows_def depth_sides_def depth_effect_def abs_levels_def)
qed

interpretation depth: sequenced_book depth_good ld_lastUpdateID depth_sides depth_follows de_FinalUpdateID
  depth_effect depth_accept
proof unfold_locales
  fix st ev st'
  assume "depth_good st" "depth_accept st ev = Some st'"
  then have "depth_good st" "localDepthState_apply st ev = Inr (Applied st')"
    by (auto simp: depth_accept_def split: sum.splits apply_result.splits)
  note applied = localDepthState_apply_Applied [OF this]
  show "depth_good st'" "depth_follows (ld_lastUpdateID st) ev" "ld_lastUpdateID st' = de_FinalUpdateID ev"
    "depth_sides st' = depth_effect ev (depth_sides st)" using applied by simp_all
qed

lemma newLocalDepthState_good:
  assumes "newLocalDepthState s = Inr st" "0 < ds_LastUpdateID s"
  shows "depth_good st \<and> ld_lastUpdateID st = ds_LastUpdateID s \<and> depth_sides st = snapshot_book s"
proof -
  from assms obtain bids asks where parts:
    "applyLocalLevels [] (level_fields (ds_Bids s)) = Inr bids" "applyLocalLevels [] (level_fields (ds_Asks s)) = Inr asks"
    "st = \<lparr>ld_bids = bids, ld_asks = asks, ld_lastUpdateID = ds_LastUpdateID s, ld_eventTime = 0\<rparr>"
    by (auto simp: newLocalDepthState_def split: sum.splits)
  with assms(2) applyLocalLevels_refines [OF side_ok_Nil parts(1)] applyLocalLevels_refines [OF side_ok_Nil parts(2)]
  show ?thesis by (simp add: depth_good_def depth_sides_def snapshot_book_def abs_levels_def abs_empty_def)
qed

text \<open>Validated snapshots and events never fail to apply.\<close>

lemma newLocalDepthState_total:
  assumes "validateDepthSnapshot s = None"
  shows "\<exists>st. newLocalDepthState s = Inr st"
proof -
  have "list_all fields_ok (level_fields (ds_Bids s))" "list_all fields_ok (level_fields (ds_Asks s))"
    using assms by (auto simp: validateDepthSnapshot_def checkDepthFields_None split: if_splits option.splits)
  then show ?thesis
    using applyLocalLevels_total [of "level_fields (ds_Bids s)" "[]"] applyLocalLevels_total [of "level_fields (ds_Asks s)" "[]"]
    by (auto simp: newLocalDepthState_def)
qed

lemma localDepthState_apply_total:
  assumes "validateInput book input = None"
  shows "\<exists>result. localDepthState_apply st (di_event input) = Inr result"
proof -
  have "list_all fields_ok (de_Bids (di_event input))" "list_all fields_ok (de_Asks (di_event input))"
    using assms by (auto simp: validateInput_def checkDepthFields_None Let_def split: if_splits)
  then show ?thesis
    using applyLocalLevels_total [of "de_Bids (di_event input)" "ld_bids st"]
      applyLocalLevels_total [of "de_Asks (di_event input)" "ld_asks st"]
    by (auto simp: localDepthState_apply_def)
qed

section \<open>Replaying the buffer\<close>

definition depth_tracks :: "DepthSnapshot \<Rightarrow> DepthEvent list \<Rightarrow> localDepthState \<Rightarrow> bool" where
  "depth_tracks s evs st \<longleftrightarrow> depth_good st \<and>
     chained depth_follows de_FinalUpdateID (ds_LastUpdateID s) evs \<and>
     ld_lastUpdateID st = end_of de_FinalUpdateID (ds_LastUpdateID s) evs \<and>
     depth_sides st = fold depth_effect evs (snapshot_book s)"

lemma depth_tracks_locale: "depth_tracks s evs st = depth.tracks (ds_LastUpdateID s) (snapshot_book s) evs st"
  by (simp add: depth_tracks_def depth.tracks_def)

lemma depth_tracks_start:
  "newLocalDepthState s = Inr st \<Longrightarrow> 0 < ds_LastUpdateID s \<Longrightarrow> depth_tracks s [] st"
  using newLocalDepthState_good [of s st] depth.tracks_refl [of st] by (simp add: depth_tracks_locale)

lemma depth_tracks_accept:
  assumes "depth_tracks s evs st" "localDepthState_apply st ev = Inr (Applied st')"
  shows "depth_tracks s (evs @ [ev]) st'"
proof -
  have "depth_accept st ev = Some st'" using assms(2) by (simp add: depth_accept_def)
  with assms(1) show ?thesis unfolding depth_tracks_locale by (rule depth.tracks_accept)
qed

lemma replay_tracks:
  "replay st inputs = Inr (Inl st') \<Longrightarrow> depth_tracks s evs st \<Longrightarrow>
     \<exists>more_evs. subseq more_evs (map di_event inputs) \<and> depth_tracks s (evs @ more_evs) st'"
proof (induction st inputs arbitrary: evs rule: replay.induct)
  case (1 st)
  then show ?case by (auto intro: exI [of _ "[]"])
next
  case (2 st input rest)
  show ?case
  proof (cases "localDepthState_apply st (di_event input)")
    case (Inr result)
    show ?thesis
    proof (cases result)
      case Ignored
      then show ?thesis using 2(1) [OF Inr Ignored, of evs] 2(3,4) Inr by auto
    next
      case (Applied st1)
      then obtain more_evs where "subseq more_evs (map di_event rest)"
        "depth_tracks s ((evs @ [di_event input]) @ more_evs) st'"
        using 2(2) [OF Inr Applied, of "evs @ [di_event input]"] 2(3) Inr depth_tracks_accept [OF 2(4)] by fastforce
      then show ?thesis by (intro exI [of _ "di_event input # more_evs"]) simp
    qed (use 2(3) Inr in simp)
  qed (use 2(3) in simp)
qed

section \<open>Runs of the loop\<close>

text \<open>A run is any sequence of selected cases, as long as a timer fires only when it is set and a
  snapshot arrives only when one was asked for. The handler may decide differently at every call.\<close>

definition select_enabled :: "depth_select \<Rightarrow> depth_run \<Rightarrow> bool" where
  "select_enabled sel r =
     (case sel of RetryFired \<Rightarrow> ru_retry r | SnapshotResult _ \<Rightarrow> ru_fetching r | _ \<Rightarrow> True)"

inductive book_run ::
  "LocalOrderBook \<Rightarrow> depth_select list \<Rightarrow> depth_run \<Rightarrow> LocalOrderBookView list \<Rightarrow> go_error option option \<Rightarrow> bool"
  for book where
  start: "book_run book [] run_init [] None"
| step: "book_run book tr r views None \<Longrightarrow> select_enabled sel r \<Longrightarrow>
    runInputs_step handler book sel r = (r', views', ret) \<Longrightarrow> book_run book (tr @ [sel]) r' (views @ views') ret"

text \<open>The updates of one connection generation in the order they were received.\<close>

definition gen_events :: "64 word \<Rightarrow> depth_select list \<Rightarrow> DepthEvent list" where
  "gen_events g tr =
     concat (map (\<lambda>sel. case sel of Input i \<Rightarrow> if di_generation i = g then [di_event i] else [] | _ \<Rightarrow> []) tr)"

text \<open>Where a live book comes from: a snapshot that was received and a chain of received updates.\<close>

definition sourced :: "depth_select list \<Rightarrow> 64 word \<Rightarrow> localDepthState \<Rightarrow> bool" where
  "sourced tr g st \<longleftrightarrow> (\<exists>s evs. SnapshotResult (Inr s) \<in> set tr \<and> evs \<noteq> [] \<and>
     subseq evs (gen_events g tr) \<and> depth_tracks s evs st)"

definition data_inv :: "LocalOrderBook \<Rightarrow> depth_select list \<Rightarrow> depth_run \<Rightarrow> bool" where
  "data_inv book tr r \<longleftrightarrow>
     suffix (map di_event (ru_buffer r)) (gen_events (ru_generation r) tr) \<and>
     list_all (\<lambda>i. validateInput book i = None) (ru_buffer r) \<and>
     (\<forall>s. ru_pending r = Some s \<longrightarrow> SnapshotResult (Inr s) \<in> set tr \<and> validateDepthSnapshot s = None) \<and>
     (\<forall>st. ru_state r = Some st \<longrightarrow> sourced tr (ru_generation r) st \<and> ru_buffer r = [])"

lemma gen_events_snoc:
  "gen_events g (tr @ [sel]) = gen_events g tr @
     (case sel of Input i \<Rightarrow> if di_generation i = g then [di_event i] else [] | _ \<Rightarrow> [])"
  by (simp add: gen_events_def)

lemma subseq_append_right: "subseq xs ys \<Longrightarrow> subseq xs (ys @ zs)"
  by (metis subseq_rev_drop_many)

lemma sourced_mono: "sourced tr g st \<Longrightarrow> sourced (tr @ [sel]) g st"
  unfolding sourced_def gen_events_snoc by (auto intro: subseq_append_right)

lemma sourced_accept:
  assumes "sourced tr g st" "localDepthState_apply st (di_event i) = Inr (Applied st')" "di_generation i = g"
  shows "sourced (tr @ [Input i]) g st'"
proof -
  from assms(1) obtain s evs where src: "SnapshotResult (Inr s) \<in> set tr" "evs \<noteq> []"
    "subseq evs (gen_events g tr)" "depth_tracks s evs st" by (auto simp: sourced_def)
  have "subseq (evs @ [di_event i]) (gen_events g (tr @ [Input i]))"
    using src(3) assms(3) by (simp add: gen_events_snoc)
  with src depth_tracks_accept [OF src(4) assms(2)] show ?thesis
    by (auto simp: sourced_def intro!: exI [of _ s] exI [of _ "evs @ [di_event i]"])
qed

lemma validateDepthSnapshot_pos: "validateDepthSnapshot s = None \<Longrightarrow> 0 < ds_LastUpdateID s \<and> ds_LastUpdateID s \<noteq> MaxInt64"
  by (auto simp: validateDepthSnapshot_def split: if_splits)

lemma replay_total:
  "list_all (\<lambda>i. validateInput book i = None) inputs \<Longrightarrow> \<exists>out. replay st inputs = Inr out"
proof (induction inputs arbitrary: st)
  case (Cons i rest)
  then obtain result where "localDepthState_apply st (di_event i) = Inr result"
    using localDepthState_apply_total [of book i st] by auto
  with Cons show ?case by (cases result) auto
qed simp

lemma replay_rest_suffix: "replay st inputs = Inr (Inr rest) \<Longrightarrow> suffix rest inputs"
  by (induction st inputs rule: replay.induct) (auto intro: suffix_ConsI split: sum.splits apply_result.splits)

text \<open>The first relevant update is applied, so a synchronised book has seen at least one.\<close>

lemma replay_sourced:
  assumes "newLocalDepthState s = Inr base" "0 < ds_LastUpdateID s" "replay base (i # rest) = Inr (Inl st)"
    "ds_LastUpdateID s < de_FinalUpdateID (di_event i)"
  shows "\<exists>evs. evs \<noteq> [] \<and> subseq evs (map di_event (i # rest)) \<and> depth_tracks s evs st"
proof -
  note base = newLocalDepthState_good [OF assms(1,2)]
  have "localDepthState_apply base (di_event i) \<noteq> Inr Ignored"
    using base assms(4) by (auto simp: localDepthState_apply_def split: sum.splits)
  with assms(3) obtain st1 where st1: "localDepthState_apply base (di_event i) = Inr (Applied st1)"
    "replay st1 rest = Inr (Inl st)"
    by (auto split: sum.splits apply_result.splits)
  have "depth_tracks s [di_event i] st1"
    using depth_tracks_accept [OF depth_tracks_start [OF assms(1,2)] st1(1)] by simp
  from replay_tracks [OF st1(2) this] obtain more_evs where
    "subseq more_evs (map di_event rest)" "depth_tracks s ([di_event i] @ more_evs) st" by auto
  then show ?thesis by (intro exI [of _ "di_event i # more_evs"]) simp
qed

lemma data_inv_buffer:
  assumes "data_inv book tr r" "suffix buffer (ru_buffer r)" "ru_state r = None"
    "\<forall>s. p = Some s \<longrightarrow> ru_pending r = Some s"
  shows "data_inv book tr (r\<lparr>ru_buffer := buffer, ru_pending := p\<rparr>)"
proof -
  obtain pre where "ru_buffer r = pre @ buffer" using assms(2) by (auto simp: suffix_def)
  moreover from this assms(1) have "suffix (map di_event buffer) (gen_events (ru_generation r) tr)"
    by (auto simp: data_inv_def suffix_def)
  ultimately show ?thesis using assms by (auto simp: data_inv_def)
qed

section \<open>Synchronisation\<close>

text \<open>With validated inputs the outcomes of a synchronisation are three: it waits for more updates,
  it gives the snapshot up and a retry is scheduled, or the book is live.\<close>

lemma trySynchronize_pending:
  assumes inv: "data_inv book tr r" and p: "ru_pending r = Some s"
    and buffer: "buffer = dropWhile (\<lambda>i. de_FinalUpdateID (di_event i) \<le> ds_LastUpdateID s) (ru_buffer r)"
    and ne: "buffer \<noteq> []"
  obtains
    (retry) n rest where "trySynchronize r = (Inr False, scheduleRetry (r\<lparr>ru_gapCount := n, ru_buffer := rest, ru_pending := None\<rparr>))"
      "suffix rest (ru_buffer r)"
  | (synced) st where "trySynchronize r = (Inr True, r\<lparr>ru_state := Some st, ru_pending := None, ru_buffer := [],
        ru_synchronizationID := ru_synchronizationID r + 1\<rparr>)" "sourced tr (ru_generation r) st"
proof -
  from p ne buffer have bne: "ru_buffer r \<noteq> []" by auto
  obtain i rest where br: "buffer = i # rest" using ne by (cases buffer) auto
  have suf: "suffix buffer (ru_buffer r)" unfolding buffer by (rule suffix_dropWhile)
  have i: "ds_LastUpdateID s < de_FinalUpdateID (di_event i)"
    using hd_dropWhile [of "\<lambda>i. de_FinalUpdateID (di_event i) \<le> ds_LastUpdateID s" "ru_buffer r"] ne
    unfolding buffer [symmetric] by (simp add: br)
  have s: "0 < ds_LastUpdateID s" "ds_LastUpdateID s \<noteq> MaxInt64" "SnapshotResult (Inr s) \<in> set tr"
    using inv p validateDepthSnapshot_pos [of s] by (auto simp: data_inv_def)
  obtain base where base: "newLocalDepthState s = Inr base"
    using inv p newLocalDepthState_total [of s] by (auto simp: data_inv_def)
  have "list_all (\<lambda>i. validateInput book i = None) buffer"
    using inv suf by (auto simp: data_inv_def suffix_def)
  then obtain out where out: "replay base buffer = Inr out" using replay_total by blast
  have eq: "trySynchronize r =
      (if ds_LastUpdateID s + 1 < de_FirstUpdateID (di_event i)
       then (Inr False, scheduleRetry (r\<lparr>ru_buffer := buffer, ru_pending := None\<rparr>))
       else case out of
         Inr rest' \<Rightarrow> (Inr False, scheduleRetry (r\<lparr>ru_gapCount := ru_gapCount r + 1, ru_buffer := rest', ru_pending := None\<rparr>))
       | Inl st \<Rightarrow> (Inr True, r\<lparr>ru_state := Some st, ru_pending := None, ru_buffer := [],
                               ru_synchronizationID := ru_synchronizationID r + 1\<rparr>))"
    using p bne s(2) br out base unfolding trySynchronize_def
    by (auto simp: Let_def buffer [symmetric] split: sum.splits)
  show thesis
  proof (cases "ds_LastUpdateID s + 1 < de_FirstUpdateID (di_event i)")
    case True
    with eq suf show thesis by (intro retry [of buffer "ru_gapCount r"]) simp_all
  next
    case False
    show thesis
    proof (cases out)
      case (Inl st)
      obtain evs where evs: "evs \<noteq> []" "subseq evs (map di_event buffer)" "depth_tracks s evs st"
        using replay_sourced [OF base s(1) _ i, of rest st] out Inl br by auto
      have "suffix (map di_event buffer) (gen_events (ru_generation r) tr)"
        using inv suf by (auto simp: data_inv_def suffix_def)
      then have "subseq evs (gen_events (ru_generation r) tr)"
        using evs(2) suffix_imp_subseq subseq_order.order_trans by blast
      then have "sourced tr (ru_generation r) st" using s(3) evs by (auto simp: sourced_def)
      with eq False Inl show thesis by (intro synced [of st]) simp_all
    next
      case (Inr rest')
      then have "suffix rest' (ru_buffer r)"
        using replay_rest_suffix out suf suffix_order.order_trans by blast
      with eq False Inr show thesis by (intro retry [of rest' "ru_gapCount r + 1"]) simp_all
    qed
  qed
qed

lemma trySynchronize_cases:
  assumes inv: "data_inv book tr r"
  obtains
    (waiting) buffer where "trySynchronize r = (Inr False, r\<lparr>ru_buffer := buffer\<rparr>)" "suffix buffer (ru_buffer r)"
      "ru_pending r = None \<or> buffer = []"
  | (retry) n buffer where "trySynchronize r = (Inr False, scheduleRetry (r\<lparr>ru_gapCount := n, ru_buffer := buffer, ru_pending := None\<rparr>))"
      "suffix buffer (ru_buffer r)" "ru_pending r \<noteq> None"
  | (synced) st where "trySynchronize r = (Inr True, r\<lparr>ru_state := Some st, ru_pending := None, ru_buffer := [],
        ru_synchronizationID := ru_synchronizationID r + 1\<rparr>)" "sourced tr (ru_generation r) st" "ru_pending r \<noteq> None"
proof (cases "ru_pending r")
  case None
  then show thesis by (intro waiting [of "ru_buffer r"]) (simp_all add: trySynchronize_def)
next
  case (Some s)
  let ?buffer = "dropWhile (\<lambda>i. de_FinalUpdateID (di_event i) \<le> ds_LastUpdateID s) (ru_buffer r)"
  show thesis
  proof (cases "?buffer = []")
    case True
    then have "trySynchronize r = (Inr False, r\<lparr>ru_buffer := []\<rparr>)"
      using Some unfolding trySynchronize_def by (cases "ru_buffer r = []") (simp_all add: Let_def del: dropWhile_eq_Nil_conv)
    then show thesis by (intro waiting [of "[]"]) simp_all
  next
    case False
    from inv Some refl False show thesis
      by (rule trySynchronize_pending) (use Some in \<open>auto intro: retry synced\<close>)
  qed
qed

section \<open>What every step keeps\<close>

definition views_ok :: "LocalOrderBook \<Rightarrow> depth_run \<Rightarrow> LocalOrderBookView list \<Rightarrow> bool" where
  "views_ok book r views \<longleftrightarrow> (\<forall>v \<in> set views. \<exists>st. ru_state r = Some st \<and>
     v = localDepthState_view st (lb_symbol book) (ru_generation r) (ru_synchronizationID r) (ru_gapCount r)
           (lb_viewDepth book))"

lemma views_ok_Nil [simp]: "views_ok book r []"
  by (simp add: views_ok_def)

lemma publish_views: "publish handler book r = (r', views, ret) \<Longrightarrow> r' = r \<and> views_ok book r views"
  by (auto simp: publish_def views_ok_def Let_def split: option.splits)

lemma data_inv_control [simp]:
  "data_inv book tr (startSnapshot r) = data_inv book tr r"
  "data_inv book tr (scheduleRetry r) = data_inv book tr r"
  "data_inv book tr (r\<lparr>ru_retry := b\<rparr>) = data_inv book tr r"
  "data_inv book tr (r\<lparr>ru_fetching := b\<rparr>) = data_inv book tr r"
  "data_inv book tr (r\<lparr>ru_gapCount := n\<rparr>) = data_inv book tr r"
  "data_inv book tr (r\<lparr>ru_synchronizationID := n\<rparr>) = data_inv book tr r"
  by (auto simp: data_inv_def startSnapshot_def scheduleRetry_def)

lemma data_inv_mono:
  assumes "data_inv book tr r" "\<And>i. sel = Input i \<Longrightarrow> di_generation i \<noteq> ru_generation r"
  shows "data_inv book (tr @ [sel]) r"
  using assms by (auto simp: data_inv_def gen_events_snoc sourced_mono split: depth_select.splits)

lemma synchronize_and_publish_cases:
  assumes inv: "data_inv book tr r"
  obtains
    (waiting) buffer where "synchronize_and_publish handler book r = (r\<lparr>ru_buffer := buffer\<rparr>, [], None)"
      "suffix buffer (ru_buffer r)" "ru_pending r = None \<or> buffer = []"
  | (retry) n buffer where "synchronize_and_publish handler book r =
        (scheduleRetry (r\<lparr>ru_gapCount := n, ru_buffer := buffer, ru_pending := None\<rparr>), [], None)"
      "suffix buffer (ru_buffer r)" "ru_pending r \<noteq> None"
  | (synced) st where "synchronize_and_publish handler book r =
        publish handler book (r\<lparr>ru_state := Some st, ru_pending := None, ru_buffer := [],
          ru_synchronizationID := ru_synchronizationID r + 1\<rparr>)" "sourced tr (ru_generation r) st" "ru_pending r \<noteq> None"
  using inv by (rule trySynchronize_cases) (auto simp: synchronize_and_publish_def intro: that)

lemma synchronize_and_publish_inv:
  assumes inv: "data_inv book tr r" and none: "ru_state r = None"
    and out: "synchronize_and_publish handler book r = (r', views, ret)"
  shows "data_inv book tr r' \<and> views_ok book r' views"
  using inv
proof (rule synchronize_and_publish_cases [where handler = handler])
  fix buffer
  assume "synchronize_and_publish handler book r = (r\<lparr>ru_buffer := buffer\<rparr>, [], None)" "suffix buffer (ru_buffer r)"
  moreover have "data_inv book tr (r\<lparr>ru_buffer := buffer, ru_pending := ru_pending r\<rparr>)"
    using calculation(2) by (intro data_inv_buffer [OF inv _ none]) simp_all
  then have "data_inv book tr (r\<lparr>ru_buffer := buffer\<rparr>)" by (simp add: data_inv_def)
  ultimately show ?thesis using out by simp
next
  fix n buffer
  assume "synchronize_and_publish handler book r =
      (scheduleRetry (r\<lparr>ru_gapCount := n, ru_buffer := buffer, ru_pending := None\<rparr>), [], None)"
    "suffix buffer (ru_buffer r)"
  moreover have "data_inv book tr (r\<lparr>ru_gapCount := n\<rparr>)" using inv by simp
  ultimately show ?thesis using out none data_inv_buffer [of book tr "r\<lparr>ru_gapCount := n\<rparr>" buffer None] by simp
next
  fix st
  assume "synchronize_and_publish handler book r =
      publish handler book (r\<lparr>ru_state := Some st, ru_pending := None, ru_buffer := [],
          ru_synchronizationID := ru_synchronizationID r + 1\<rparr>)" "sourced tr (ru_generation r) st"
  with out publish_views inv show ?thesis by (fastforce simp: data_inv_def)
qed

lemma update_book_inv:
  assumes inv: "data_inv book tr r" and st: "ru_state r = Some st" and gen: "di_generation i = ru_generation r"
    and valid: "validateInput book i = None" and out: "update_book handler book i st r = (r', views, ret)"
  shows "data_inv book (tr @ [Input i]) r' \<and> views_ok book r' views"
proof -
  have src: "sourced tr (ru_generation r) st" "ru_buffer r = []" using inv st by (auto simp: data_inv_def)
  have pend: "\<forall>s. ru_pending r = Some s \<longrightarrow> SnapshotResult (Inr s) \<in> set tr \<and> validateDepthSnapshot s = None"
    using inv by (simp add: data_inv_def)
  obtain result where result: "localDepthState_apply st (di_event i) = Inr result"
    using localDepthState_apply_total [OF valid] by auto
  show ?thesis
  proof (cases result)
    case Ignored
    then show ?thesis using out result st src pend sourced_mono [OF src(1)] by (auto simp: update_book_def data_inv_def)
  next
    case Gap
    let ?r = "r\<lparr>ru_gapCount := ru_gapCount r + 1, ru_state := None, ru_pending := None, ru_buffer := [i]\<rparr>"
    have "data_inv book (tr @ [Input i]) ?r" using valid gen by (simp add: data_inv_def gen_events_snoc suffix_def)
    then show ?thesis using Gap out result by (auto simp: update_book_def)
  next
    case (Applied st')
    then have "publish handler book (r\<lparr>ru_state := Some st'\<rparr>) = (r', views, ret)"
      using out result by (simp add: update_book_def)
    with publish_views [OF this] pend src sourced_accept [OF src(1) result [unfolded Applied] gen]
    show ?thesis by (auto simp: data_inv_def)
  qed
qed

lemma buffer_input_inv:
  assumes inv: "data_inv book tr r" and none: "ru_state r = None" and gen: "di_generation i = ru_generation r"
    and valid: "validateInput book i = None" and out: "buffer_input handler book i r = (r', views, ret)"
  shows "data_inv book (tr @ [Input i]) r' \<and> views_ok book r' views"
proof -
  let ?r = "r\<lparr>ru_buffer := ru_buffer r @ [i]\<rparr>"
  have inv': "data_inv book (tr @ [Input i]) ?r"
    using inv none gen valid by (auto simp: data_inv_def gen_events_snoc suffix_def)
  show ?thesis
  proof (cases "lb_maxBufferedEvents book < int (length (ru_buffer ?r)) \<or> ru_pending r = None")
    case True
    then show ?thesis using out inv' by (auto simp: buffer_input_def Let_def split: if_splits)
  next
    case False
    obtain r1 vs1 ret1 where sync: "synchronize_and_publish handler book ?r = (r1, vs1, ret1)"
      using prod_cases3 by blast
    have sync_inv: "data_inv book (tr @ [Input i]) r1 \<and> views_ok book r1 vs1"
      using synchronize_and_publish_inv [OF inv' _ sync] none by simp
    have "r' = r1 \<and> views = vs1 \<or> r' = startSnapshot r1 \<and> views = vs1 \<and> ru_state r1 = None"
      using False out sync by (auto simp: buffer_input_def Let_def split: option.splits if_splits)
    with sync_inv show ?thesis by (auto simp: views_ok_def)
  qed
qed

lemma enter_generation_inv: "data_inv book tr r \<Longrightarrow> data_inv book tr (enter_generation i r)"
  by (simp add: enter_generation_def data_inv_def)

lemma enter_generation_current:
  "validateInput book i = None \<Longrightarrow> \<not> di_generation i < ru_generation r \<Longrightarrow>
     ru_generation (enter_generation i r) = di_generation i"
  by (auto simp: enter_generation_def)

lemma runInputs_input_inv:
  assumes inv: "data_inv book tr r" and out: "runInputs_step handler book (Input i) r = (r', views, ret)"
    and valid: "validateInput book i = None"
  shows "data_inv book (tr @ [Input i]) r' \<and> views_ok book r' views"
proof (cases "di_generation i < ru_generation r")
  case True
  with data_inv_mono [OF inv, of "Input i"] out valid show ?thesis by (auto simp: runInputs_step_def)
next
  case False
  let ?r = "enter_generation i r"
  have gen: "di_generation i = ru_generation ?r" using enter_generation_current [OF valid False] by simp
  note inv' = enter_generation_inv [OF inv, of i]
  show ?thesis
  proof (cases "ru_state ?r")
    case None
    with out valid False have "buffer_input handler book i ?r = (r', views, ret)" by (simp add: runInputs_step_def Let_def)
    with buffer_input_inv [OF inv' None gen valid] show ?thesis by simp
  next
    case (Some st)
    with out valid False have "update_book handler book i st ?r = (r', views, ret)" by (simp add: runInputs_step_def Let_def)
    with update_book_inv [OF inv' Some gen valid] show ?thesis by simp
  qed
qed

lemma runInputs_snapshot_inv:
  assumes inv: "data_inv book tr r" and out: "runInputs_step handler book (SnapshotResult result) r = (r', views, ret)"
    and none: "ru_state r = None"
  shows "data_inv book (tr @ [SnapshotResult result]) r' \<and> views_ok book r' views"
proof -
  let ?r = "r\<lparr>ru_fetching := False\<rparr>" and ?tr = "tr @ [SnapshotResult result]"
  have inv': "data_inv book ?tr ?r" using data_inv_mono [OF inv, of "SnapshotResult result"] by simp
  show ?thesis
  proof (cases "\<exists>s. result = Inr s \<and> validateDepthSnapshot s = None")
    case False
    then show ?thesis using out inv'
      by (auto simp: runInputs_step_def Let_def split: sum.splits option.splits)
  next
    case True
    then obtain s where s: "result = Inr s" "validateDepthSnapshot s = None" by auto
    then have "data_inv book ?tr (?r\<lparr>ru_pending := Some s\<rparr>)" using inv' by (simp add: data_inv_def)
    then show ?thesis
      by (rule synchronize_and_publish_inv [where handler = handler and ret = ret])
        (use out s none in \<open>simp_all add: runInputs_step_def Let_def\<close>)
  qed
qed

text \<open>A step keeps the invariant and publishes the book it leaves, or ends the run with nothing shown.\<close>

lemma runInputs_step_inv:
  assumes inv: "data_inv book tr r" and out: "runInputs_step handler book sel r = (r', views, ret)"
    and fresh: "\<And>result. sel = SnapshotResult result \<Longrightarrow> ru_state r = None"
  shows "views_ok book r' views \<and> (data_inv book (tr @ [sel]) r' \<or> ret \<noteq> None \<and> views = [])"
proof (cases sel)
  case (SnapshotResult result)
  with runInputs_snapshot_inv [OF inv] out fresh show ?thesis by blast
next
  case (Input i)
  show ?thesis
  proof (cases "validateInput book i")
    case None
    with runInputs_input_inv [OF inv] out Input show ?thesis by blast
  next
    case (Some err)
    with out Input show ?thesis by (auto simp: runInputs_step_def)
  qed
qed (use out data_inv_mono [OF inv, of sel] in \<open>auto simp: runInputs_step_def\<close>)

section \<open>Phases\<close>

text \<open>What the loop is doing: following a live book, holding a snapshot, fetching one, or waiting to
  retry. It is always exactly one of them once the first update arrived.\<close>

definition phases :: "depth_run \<Rightarrow> nat" where
  "phases r = of_bool (ru_state r \<noteq> None) + of_bool (ru_pending r \<noteq> None) + of_bool (ru_fetching r) + of_bool (ru_retry r)"

definition phase_inv :: "LocalOrderBook \<Rightarrow> depth_run \<Rightarrow> bool" where
  "phase_inv book r \<longleftrightarrow> phases r = of_bool (ru_generation r \<noteq> 0) \<and>
     int (length (ru_buffer r)) \<le> lb_maxBufferedEvents book \<and> (ru_generation r = 0 \<longrightarrow> ru_buffer r = [])"

lemma suffix_bound: "suffix xs ys \<Longrightarrow> int (length ys) \<le> n \<Longrightarrow> int (length xs) \<le> n"
  using suffix_length_le by fastforce

lemma synchronize_and_publish_phase:
  assumes inv: "data_inv book tr r" and pending: "ru_pending r \<noteq> None" "ru_state r = None" "\<not> ru_fetching r" "\<not> ru_retry r"
    and bound: "int (length (ru_buffer r)) \<le> lb_maxBufferedEvents book" and max: "0 \<le> lb_maxBufferedEvents book"
    and out: "synchronize_and_publish handler book r = (r', views, ret)"
  shows "phases r' = 1 \<and> ru_generation r' = ru_generation r \<and> int (length (ru_buffer r')) \<le> lb_maxBufferedEvents book"
  using inv
proof (rule synchronize_and_publish_cases [where handler = handler])
  fix buffer
  assume "synchronize_and_publish handler book r = (r\<lparr>ru_buffer := buffer\<rparr>, [], None)" "suffix buffer (ru_buffer r)"
  with out pending suffix_bound [OF this(2) bound] show ?thesis by (auto simp: phases_def)
next
  fix n buffer
  assume "synchronize_and_publish handler book r =
      (scheduleRetry (r\<lparr>ru_gapCount := n, ru_buffer := buffer, ru_pending := None\<rparr>), [], None)"
    "suffix buffer (ru_buffer r)"
  with out pending suffix_bound [OF this(2) bound] show ?thesis by (auto simp: phases_def scheduleRetry_def)
next
  fix st
  assume "synchronize_and_publish handler book r =
      publish handler book (r\<lparr>ru_state := Some st, ru_pending := None, ru_buffer := [],
          ru_synchronizationID := ru_synchronizationID r + 1\<rparr>)"
  with out publish_views pending max show ?thesis by (fastforce simp: phases_def)
qed

lemma phases_simps [simp]:
  "phases (r\<lparr>ru_buffer := b\<rparr>) = phases r" "phases (r\<lparr>ru_gapCount := n\<rparr>) = phases r"
  by (simp_all add: phases_def)

lemma update_book_phase:
  assumes "phases r = 1" "ru_state r = Some st" "1 \<le> lb_maxBufferedEvents book" "ru_buffer r = []"
    "update_book handler book i st r = (r', views, None)"
  shows "phases r' = 1 \<and> ru_generation r' = ru_generation r \<and> int (length (ru_buffer r')) \<le> lb_maxBufferedEvents book"
  using assms publish_views
  by (fastforce simp: update_book_def phases_def startSnapshot_def split: sum.splits apply_result.splits if_splits)

lemma buffer_input_phase:
  assumes inv: "data_inv book tr r" and none: "ru_state r = None" and gen: "di_generation i = ru_generation r"
    and valid: "validateInput book i = None" and phases: "phases r \<le> 1"
    and out: "buffer_input handler book i r = (r', views, None)"
  shows "phases r' = 1 \<and> ru_generation r' = ru_generation r \<and> int (length (ru_buffer r')) \<le> lb_maxBufferedEvents book"
proof -
  let ?r = "r\<lparr>ru_buffer := ru_buffer r @ [i]\<rparr>"
  have bound: "int (length (ru_buffer ?r)) \<le> lb_maxBufferedEvents book"
    using out by (auto simp: buffer_input_def Let_def split: if_splits)
  show ?thesis
  proof (cases "ru_pending r")
    case None
    with out bound none phases show ?thesis
      by (auto simp: buffer_input_def Let_def phases_def startSnapshot_def split: if_splits)
  next
    case (Some s)
    have inv': "data_inv book (tr @ [Input i]) ?r"
      using inv none gen valid by (auto simp: data_inv_def gen_events_snoc suffix_def)
    obtain r1 vs1 ret1 where sync: "synchronize_and_publish handler book ?r = (r1, vs1, ret1)"
      using prod_cases3 by blast
    have ph: "phases r1 = 1 \<and> ru_generation r1 = ru_generation r \<and> int (length (ru_buffer r1)) \<le> lb_maxBufferedEvents book"
      using synchronize_and_publish_phase [OF inv' _ _ _ _ bound _ sync] Some none phases bound
      by (simp add: phases_def split: if_splits)
    then have "\<not> (ru_state r1 = None \<and> ru_pending r1 = None \<and> \<not> ru_fetching r1 \<and> \<not> ru_retry r1)"
      by (auto simp: phases_def of_bool_def split: if_splits)
    with out sync Some bound have "r' = r1" by (auto simp: buffer_input_def Let_def split: option.splits if_splits)
    with ph show ?thesis by simp
  qed
qed

lemma enter_generation_phase:
  assumes "phase_inv book r"
  shows "phases (enter_generation i r) \<le> 1 \<and>
    (ru_state (enter_generation i r) \<noteq> None \<longrightarrow> phases (enter_generation i r) = 1)"
  using assms by (auto simp: phase_inv_def phases_def enter_generation_def of_bool_def split: if_splits)

lemma runInputs_input_phase:
  assumes ph: "phase_inv book r" and inv: "data_inv book tr r" and max: "1 \<le> lb_maxBufferedEvents book"
    and out: "runInputs_step handler book (Input i) r = (r', views, None)"
  shows "phase_inv book r'"
proof -
  have valid: "validateInput book i = None" using out by (auto simp: runInputs_step_def split: option.splits)
  have pos: "di_generation i \<noteq> 0" using valid by (auto simp: validateInput_def Let_def split: if_splits)
  show ?thesis
  proof (cases "di_generation i < ru_generation r")
    case True
    then show ?thesis using ph out valid by (simp add: runInputs_step_def)
  next
    case False
    let ?r = "enter_generation i r"
    have gen: "di_generation i = ru_generation ?r" using enter_generation_current [OF valid False] by simp
    note inv' = enter_generation_inv [OF inv, of i] and ph' = enter_generation_phase [OF ph, of i]
    have "phases r' = 1 \<and> ru_generation r' = ru_generation ?r \<and> int (length (ru_buffer r')) \<le> lb_maxBufferedEvents book"
    proof (cases "ru_state ?r")
      case None
      with out valid False have "buffer_input handler book i ?r = (r', views, None)" by (simp add: runInputs_step_def Let_def)
      then show ?thesis using buffer_input_phase [OF inv' None gen valid] ph' by simp
    next
      case (Some st)
      with out valid False have "update_book handler book i st ?r = (r', views, None)" by (simp add: runInputs_step_def Let_def)
      then show ?thesis using update_book_phase [OF _ Some max] ph' Some inv' by (auto simp: data_inv_def)
    qed
    with gen pos show ?thesis by (simp add: phase_inv_def)
  qed
qed

lemma runInputs_step_phase:
  assumes ph: "phase_inv book r" and inv: "data_inv book tr r" and max: "1 \<le> lb_maxBufferedEvents book"
    and enabled: "select_enabled sel r" and out: "runInputs_step handler book sel r = (r', views, None)"
  shows "phase_inv book r'"
proof (cases sel)
  case RetryFired
  then show ?thesis using ph enabled out
    by (auto simp: runInputs_step_def select_enabled_def phase_inv_def phases_def startSnapshot_def split: if_splits)
next
  case (SnapshotResult result)
  let ?r = "r\<lparr>ru_fetching := False\<rparr>"
  have idle: "ru_state r = None" "ru_pending r = None" "\<not> ru_retry r" "ru_generation r \<noteq> 0"
    using ph enabled SnapshotResult
    by (simp_all add: select_enabled_def phase_inv_def phases_def of_bool_def split: if_splits)
  show ?thesis
  proof (cases result)
    case (Inl err)
    with SnapshotResult out ph idle show ?thesis
      by (auto simp: runInputs_step_def Let_def scheduleRetry_def phase_inv_def phases_def)
  next
    case (Inr s)
    with SnapshotResult out have s: "validateDepthSnapshot s = None"
      "synchronize_and_publish handler book (?r\<lparr>ru_pending := Some s\<rparr>) = (r', views, None)"
      by (auto simp: runInputs_step_def Let_def split: option.splits)
    have "data_inv book (tr @ [sel]) (?r\<lparr>ru_pending := Some s\<rparr>)"
      using data_inv_mono [OF inv, of sel] SnapshotResult Inr s(1) by (simp add: data_inv_def)
    from synchronize_and_publish_phase [OF this _ _ _ _ _ _ s(2)] idle ph max show ?thesis
      by (simp add: phase_inv_def)
  qed
next
  case (Input i)
  with runInputs_input_phase [OF ph inv max] out show ?thesis by blast
qed (use out in \<open>simp_all add: runInputs_step_def\<close>)

section \<open>Properties of the book\<close>

lemma book_run_inv:
  assumes run: "book_run book tr r views ret" and max: "1 \<le> lb_maxBufferedEvents book"
  shows "(ret = None \<longrightarrow> data_inv book tr r \<and> phase_inv book r) \<and>
     (\<forall>v \<in> set views. \<exists>st. sourced tr (lv_Generation v) st \<and>
        v = localDepthState_view st (lb_symbol book) (lv_Generation v) (lv_SynchronizationID v) (lv_GapCount v) (lb_viewDepth book))"
  using run
proof induction
  case start
  then show ?case using max
    by (simp add: data_inv_def phase_inv_def phases_def run_init_def gen_events_def)
next
  case (step tr r views sel handler r' views' ret)
  then have inv: "data_inv book tr r" and ph: "phase_inv book r" by simp_all
  have fresh: "ru_state r = None" if "sel = SnapshotResult result" for result
    using ph step.hyps(2) that by (simp add: select_enabled_def phase_inv_def phases_def of_bool_def split: if_splits)
  have after: "views_ok book r' views' \<and> (data_inv book (tr @ [sel]) r' \<or> ret \<noteq> None \<and> views' = [])"
    using runInputs_step_inv [OF inv step.hyps(3)] fresh by blast
  have "\<exists>st. sourced (tr @ [sel]) (lv_Generation v) st \<and>
      v = localDepthState_view st (lb_symbol book) (lv_Generation v) (lv_SynchronizationID v) (lv_GapCount v) (lb_viewDepth book)"
    if "v \<in> set views'" for v
  proof -
    from that after have "data_inv book (tr @ [sel]) r'" "views_ok book r' views'" by auto
    with that show ?thesis by (fastforce simp: views_ok_def data_inv_def localDepthState_view_def)
  qed
  moreover have "\<exists>st. sourced (tr @ [sel]) (lv_Generation v) st \<and>
      v = localDepthState_view st (lb_symbol book) (lv_Generation v) (lv_SynchronizationID v) (lv_GapCount v) (lb_viewDepth book)"
    if "v \<in> set views" for v using that step.IH sourced_mono by blast
  moreover have "data_inv book (tr @ [sel]) r' \<and> phase_inv book r'" if "ret = None"
    using that after runInputs_step_phase [OF ph inv max step.hyps(2)] step.hyps(3) by simp
  ultimately show ?case by auto
qed

lemma NewLocalOrderBook_bounds:
  "NewLocalOrderBook config = Inr book \<Longrightarrow> 1 \<le> lb_maxBufferedEvents book"
  by (auto simp: NewLocalOrderBook_def Let_def split: if_splits option.splits)

text \<open>C2. The Binance local order book never shows a book with a hole. In every run of the select loop,
  whatever arrives in whatever order and whatever the handler answers, each published view comes
  from one snapshot that was received and a non-empty chain of updates of the view's own connection
  generation, taken in the order of arrival, in which every update starts at or before the successor
  of the last update ID and ends after it. The view carries the ID of the last of them, and its
  sides are the best levels, in strict price order and with positive quantities, of exactly the
  book these updates make of the snapshot.\<close>

theorem book_views_gapless:
  assumes "NewLocalOrderBook config = Inr book" "book_run book tr r views ret" "v \<in> set views"
  shows "\<exists>s evs. SnapshotResult (Inr s) \<in> set tr \<and> evs \<noteq> [] \<and> subseq evs (gen_events (lv_Generation v) tr) \<and>
     chained (\<lambda>k ev. de_FirstUpdateID ev \<le> k + 1 \<and> k < de_FinalUpdateID ev) de_FinalUpdateID (ds_LastUpdateID s) evs \<and>
     lv_LastUpdateID v = de_FinalUpdateID (last evs) \<and>
     view_of (fst (fold depth_effect evs (snapshot_book s))) (lb_viewDepth book) True (lv_Bids v) \<and>
     view_of (snd (fold depth_effect evs (snapshot_book s))) (lb_viewDepth book) False (lv_Asks v)"
proof -
  from book_run_inv [OF assms(2) NewLocalOrderBook_bounds [OF assms(1)]] assms(3) obtain st where src: "sourced tr (lv_Generation v) st"
    and v: "v = localDepthState_view st (lb_symbol book) (lv_Generation v) (lv_SynchronizationID v) (lv_GapCount v) (lb_viewDepth book)"
    by blast
  from src obtain s evs where s: "SnapshotResult (Inr s) \<in> set tr" "evs \<noteq> []"
    "subseq evs (gen_events (lv_Generation v) tr)" "depth_tracks s evs st" by (auto simp: sourced_def)
  then have tracked: "depth_good st" "chained depth_follows de_FinalUpdateID (ds_LastUpdateID s) evs"
    "ld_lastUpdateID st = de_FinalUpdateID (last evs)" "depth_sides st = fold depth_effect evs (snapshot_book s)"
    by (auto simp: depth_tracks_def end_of_def)
  have shown: "lv_LastUpdateID v = ld_lastUpdateID st" "lv_Bids v = sortedLocalLevels (ld_bids st) (lb_viewDepth book) True"
    "lv_Asks v = sortedLocalLevels (ld_asks st) (lb_viewDepth book) False"
    by (subst v, simp add: localDepthState_view_def)+
  have "view_of (fst (depth_sides st)) (lb_viewDepth book) True (lv_Bids v)"
    "view_of (snd (depth_sides st)) (lb_viewDepth book) False (lv_Asks v)"
    using tracked(1) by (simp_all add: shown depth_good_def depth_sides_def sortedLocalLevels_view)
  with s tracked shown show ?thesis unfolding tracked(4) depth_follows_def [abs_def]
    by (intro exI [of _ s] exI [of _ evs]) simp
qed

text \<open>C3. The loop of the Binance local order book is never stuck: once an update has arrived it is,
  as long as it runs, in exactly one of four situations (following a live book, holding a snapshot
  that waits for updates, fetching a snapshot, waiting for the retry timer), so without a live book
  there is always an event on its way that continues the synchronisation; and the buffer never
  exceeds its configured size.\<close>

theorem book_never_stuck:
  assumes "NewLocalOrderBook config = Inr book" "book_run book tr r views None"
  shows "of_bool (ru_state r \<noteq> None) + of_bool (ru_pending r \<noteq> None) + of_bool (ru_fetching r) + of_bool (ru_retry r) =
      (of_bool (ru_generation r \<noteq> 0) :: nat) \<and> int (length (ru_buffer r)) \<le> lb_maxBufferedEvents book"
  using book_run_inv [OF assms(2) NewLocalOrderBook_bounds [OF assms(1)]] by (simp add: phase_inv_def phases_def)

section \<open>A concrete run\<close>

definition book_demo_config :: LocalOrderBookConfig where
  "book_demo_config = \<lparr>lc_RESTClient = True, lc_Symbol = ''btcusdt'', lc_EgressRouteID = '' r1'', lc_SnapshotLimit = 0,
     lc_MaxBufferedEvents = 4, lc_ViewDepth = 2, lc_SnapshotTimeout = 0, lc_SnapshotRetryInterval = 0\<rparr>"

definition book_demo :: LocalOrderBook where
  "book_demo = \<lparr>lb_symbol = ''BTCUSDT'', lb_routeID = ''r1'', lb_maxBufferedEvents = 4, lb_viewDepth = 2,
     lb_snapshotTimeout = 10000000000, lb_snapshotRetryInterval = 250000000, lb_snapshotLimit = 5000\<rparr>"

definition book_demo_input :: depthInput where
  "book_demo_input = \<lparr>di_generation = 1, di_event =
     \<lparr>de_EventType = ''depthUpdate'', de_EventTime = 7, de_Symbol = ''BTCUSDT'', de_FirstUpdateID = 3,
      de_FinalUpdateID = 6, de_LastUpdateID = 0, de_Bids = [[''9'', ''1'']], de_Asks = [],
      de_PartialBids = [], de_PartialAsks = []\<rparr>\<rparr>"

definition book_demo_snapshot :: DepthSnapshot where
  "book_demo_snapshot = \<lparr>ds_LastUpdateID = 4, ds_Bids = [(''9.0'', ''2'')], ds_Asks = [(''12'', ''5'')]\<rparr>"

definition book_demo_state :: depth_run where
  "book_demo_state =
     \<lparr>ru_buffer = [], ru_generation = 1,
      ru_state = Some \<lparr>ld_bids = [(''9'', \<lparr>ll_priceText = ''9'', ll_quantityText = ''1'', ll_price = 9\<rparr>)],
                       ld_asks = [(''12'', \<lparr>ll_priceText = ''12'', ll_quantityText = ''5'', ll_price = 12\<rparr>)],
                       ld_lastUpdateID = 6, ld_eventTime = 7\<rparr>,
      ru_pending = None, ru_synchronizationID = 1, ru_gapCount = 0, ru_fetching = False, ru_retry = False\<rparr>"

definition book_demo_view :: LocalOrderBookView where
  "book_demo_view = \<lparr>lv_Symbol = ''BTCUSDT'', lv_Generation = 1, lv_SynchronizationID = 1, lv_GapCount = 0,
     lv_LastUpdateID = 6, lv_EventTime = 7, lv_Bids = [(''9'', ''1'')], lv_Asks = [(''12'', ''5'')]\<rparr>"

lemma book_demo_new: "NewLocalOrderBook book_demo_config = Inr book_demo"
  by code_simp

lemma book_demo_first:
  "runInputs_step (\<lambda>_. None) book_demo (Input book_demo_input) run_init =
     (run_init\<lparr>ru_buffer := [book_demo_input], ru_generation := 1, ru_fetching := True\<rparr>, [], None)"
  by code_simp

lemma book_demo_second:
  "runInputs_step (\<lambda>_. None) book_demo (SnapshotResult (Inr book_demo_snapshot))
     (run_init\<lparr>ru_buffer := [book_demo_input], ru_generation := 1, ru_fetching := True\<rparr>) =
     (book_demo_state, [book_demo_view], None)"
  by code_simp

lemma book_demo_fetching:
  "book_run book_demo [Input book_demo_input]
     (run_init\<lparr>ru_buffer := [book_demo_input], ru_generation := 1, ru_fetching := True\<rparr>) [] None"
  using book_run.step [OF book_run.start _ book_demo_first] by (simp add: select_enabled_def)

lemma book_demo_run:
  "book_run book_demo [Input book_demo_input, SnapshotResult (Inr book_demo_snapshot)] book_demo_state [book_demo_view] None"
  using book_run.step [OF book_demo_fetching _ book_demo_second] by (simp add: select_enabled_def)

theorem book_views_gapless_witness:
  "\<exists>s evs. SnapshotResult (Inr s) \<in> set [Input book_demo_input, SnapshotResult (Inr book_demo_snapshot)] \<and> evs \<noteq> [] \<and>
     lv_LastUpdateID book_demo_view = de_FinalUpdateID (last evs) \<and>
     view_of (fst (fold depth_effect evs (snapshot_book s))) 2 True (lv_Bids book_demo_view)"
  using book_views_gapless [OF book_demo_new book_demo_run, of book_demo_view] by (auto simp: book_demo_def)

theorem book_never_stuck_witness:
  "int (length (ru_buffer book_demo_state)) \<le> 4 \<and>
   of_bool (ru_state book_demo_state \<noteq> None) + of_bool (ru_pending book_demo_state \<noteq> None) +
   of_bool (ru_fetching book_demo_state) + of_bool (ru_retry book_demo_state) = (1 :: nat)"
  using book_never_stuck [OF book_demo_new book_demo_run] by (simp add: book_demo_def book_demo_state_def)

section \<open>Gaps and synchronisation\<close>

text \<open>C4. A gap is never papered over: when the live Binance book receives a well-formed update of its
  generation that starts after the successor of the last update ID, the handler is not called, the
  book is dropped, the gap is counted, the update is kept as the first of the next synchronisation
  and a fresh snapshot is requested at once.\<close>

theorem book_gap_resynchronises:
  assumes live: "ru_state r = Some st" "\<not> ru_fetching r" and gen: "di_generation i = ru_generation r"
    and valid: "validateInput book i = None"
    and gap: "0 < ld_lastUpdateID st" "ld_lastUpdateID st + 1 < de_FirstUpdateID (di_event i)"
  shows "runInputs_step handler book (Input i) r =
     (r\<lparr>ru_state := None, ru_pending := None, ru_buffer := [i], ru_gapCount := ru_gapCount r + 1,
        ru_retry := False, ru_fetching := True\<rparr>, [], None)"
proof -
  have ids: "0 < de_FirstUpdateID (di_event i)" "de_FirstUpdateID (di_event i) \<le> de_FinalUpdateID (di_event i)"
    "di_generation i \<noteq> 0"
    using valid by (auto simp: validateInput_def Let_def split: if_splits)
  have "localDepthState_apply st (di_event i) = Inr Gap"
    using ids gap wrap64_le [of "ld_lastUpdateID st + 1"] by (simp add: localDepthState_apply_def)
  moreover have "enter_generation i r = r" using gen ids by (simp add: enter_generation_def)
  ultimately show ?thesis using live gen valid
    by (simp add: runInputs_step_def Let_def update_book_def startSnapshot_def)
qed

theorem book_gap_resynchronises_witness:
  "runInputs_step (\<lambda>_. None) book_demo
     (Input (book_demo_input\<lparr>di_event := (di_event book_demo_input)\<lparr>de_FirstUpdateID := 9, de_FinalUpdateID := 9\<rparr>\<rparr>))
     book_demo_state =
   (book_demo_state\<lparr>ru_state := None, ru_pending := None,
      ru_buffer := [book_demo_input\<lparr>di_event := (di_event book_demo_input)\<lparr>de_FirstUpdateID := 9, de_FinalUpdateID := 9\<rparr>\<rparr>],
      ru_gapCount := ru_gapCount book_demo_state + 1, ru_retry := False, ru_fetching := True\<rparr>, [], None)"
proof (rule book_gap_resynchronises [where st = "the (ru_state book_demo_state)"])
  show "validateInput book_demo (book_demo_input\<lparr>di_event := (di_event book_demo_input)
      \<lparr>de_FirstUpdateID := 9, de_FinalUpdateID := 9\<rparr>\<rparr>) = None" by code_simp
qed (simp_all add: book_demo_state_def book_demo_input_def)

text \<open>Updates that reach a position: old ones are skipped, the others attach.\<close>

fun reaches :: "int \<Rightarrow> DepthEvent list \<Rightarrow> bool" where
  "reaches k [] = True"
| "reaches k (ev # evs) =
     (if de_FinalUpdateID ev \<le> k then reaches k evs
      else de_FirstUpdateID ev \<le> k + 1 \<and> reaches (de_FinalUpdateID ev) evs)"

lemma reaches_dropWhile:
  "reaches k (map di_event inputs) \<Longrightarrow>
     reaches k (map di_event (dropWhile (\<lambda>i. de_FinalUpdateID (di_event i) \<le> k) inputs))"
  by (induction inputs) auto

lemma replay_reaches:
  "list_all (\<lambda>i. validateInput book i = None \<and> de_FinalUpdateID (di_event i) \<le> MaxInt64) inputs \<Longrightarrow>
   0 < ld_lastUpdateID st \<Longrightarrow> reaches (ld_lastUpdateID st) (map di_event inputs) \<Longrightarrow>
     \<exists>st'. replay st inputs = Inr (Inl st')"
proof (induction inputs arbitrary: st)
  case (Cons i rest)
  obtain result where result: "localDepthState_apply st (di_event i) = Inr result"
    using localDepthState_apply_total [of book i st] Cons.prems(1) by auto
  show ?case
  proof (cases "de_FinalUpdateID (di_event i) \<le> ld_lastUpdateID st")
    case True
    then have "localDepthState_apply st (di_event i) = Inr Ignored" by (simp add: localDepthState_apply_def)
    then show ?thesis using Cons True by simp
  next
    case False
    have "int64 (ld_lastUpdateID st + 1)" using False Cons.prems by (auto simp: int64_def)
    then have "\<exists>st1. result = Applied st1 \<and> ld_lastUpdateID st1 = de_FinalUpdateID (di_event i)"
      using result False Cons.prems(3) by (auto simp: localDepthState_apply_def wrap64_id split: sum.splits if_splits)
    then show ?thesis using Cons False result by fastforce
  qed
qed simp

text \<open>Synchronisation succeeds when it can: when a valid snapshot arrives while the Binance loop is
  waiting for one and the buffered updates go on from it (the first relevant one starts at or before
  the snapshot's successor and each next one attaches), the book becomes live, the buffer is
  emptied, the synchronisation counter advances and exactly one view is published.\<close>

theorem book_snapshot_synchronises:
  assumes made: "NewLocalOrderBook config = Inr book" and run: "book_run book tr r views None" and fetching: "ru_fetching r"
    and s: "validateDepthSnapshot s = None"
    and new: "\<exists>i \<in> set (ru_buffer r). ds_LastUpdateID s < de_FinalUpdateID (di_event i)"
    and chain: "reaches (ds_LastUpdateID s) (map di_event (ru_buffer r))"
    and width: "\<forall>i \<in> set (ru_buffer r). de_FinalUpdateID (di_event i) \<le> MaxInt64"
  shows "\<exists>st v. runInputs_step handler book (SnapshotResult (Inr s)) r =
     (r\<lparr>ru_state := Some st, ru_pending := None, ru_buffer := [], ru_fetching := False,
        ru_synchronizationID := ru_synchronizationID r + 1\<rparr>, [v], map_option Some (handler v))"
proof -
  let ?b = "dropWhile (\<lambda>i. de_FinalUpdateID (di_event i) \<le> ds_LastUpdateID s) (ru_buffer r)"
  let ?r = "r\<lparr>ru_fetching := False, ru_pending := Some s\<rparr>"
  have valid: "list_all (\<lambda>i. validateInput book i = None) (ru_buffer r)"
    using book_run_inv [OF run NewLocalOrderBook_bounds [OF made]] by (simp add: data_inv_def)
  have "ru_buffer r \<noteq> []" "?b \<noteq> []" using new by (auto simp: not_le)
  have suf: "suffix ?b (ru_buffer r)" by (rule suffix_dropWhile)
  obtain i rest where b: "?b = i # rest" using \<open>?b \<noteq> []\<close> by (cases ?b) auto
  have i: "ds_LastUpdateID s < de_FinalUpdateID (di_event i)"
    using hd_dropWhile [OF \<open>?b \<noteq> []\<close>] unfolding b by simp
  have reach: "reaches (ds_LastUpdateID s) (map di_event ?b)"
    using chain by (rule reaches_dropWhile)
  note s_pos = validateDepthSnapshot_pos [OF s]
  obtain base where base: "newLocalDepthState s = Inr base" using newLocalDepthState_total [OF s] by auto
  note base_good = newLocalDepthState_good [OF base] s_pos
  have "list_all (\<lambda>i. validateInput book i = None \<and> de_FinalUpdateID (di_event i) \<le> MaxInt64) ?b"
    using valid width suf by (auto simp: list_all_iff dest: set_mono_suffix)
  then obtain st where st: "replay base ?b = Inr (Inl st)"
    using replay_reaches [of book ?b base] reach base_good by auto
  have first: "\<not> ds_LastUpdateID s + 1 < de_FirstUpdateID (di_event i)" using reach i unfolding b by simp
  have "trySynchronize ?r = (Inr True, ?r\<lparr>ru_state := Some st, ru_pending := None, ru_buffer := [],
      ru_synchronizationID := ru_synchronizationID r + 1\<rparr>)"
    using \<open>ru_buffer r \<noteq> []\<close> s_pos base st first unfolding trySynchronize_def
    by (simp add: b Let_def)
  then show ?thesis using s
    by (intro exI [of _ st]) (simp add: runInputs_step_def Let_def synchronize_and_publish_def publish_def)
qed

theorem book_snapshot_synchronises_witness:
  "\<exists>st v. runInputs_step (\<lambda>_. None) book_demo (SnapshotResult (Inr book_demo_snapshot))
     (run_init\<lparr>ru_buffer := [book_demo_input], ru_generation := 1, ru_fetching := True\<rparr>) =
     (run_init\<lparr>ru_buffer := [book_demo_input], ru_generation := 1, ru_fetching := True\<rparr>
        \<lparr>ru_state := Some st, ru_pending := None, ru_buffer := [], ru_fetching := False,
         ru_synchronizationID := ru_synchronizationID (run_init\<lparr>ru_buffer := [book_demo_input], ru_generation := 1,
           ru_fetching := True\<rparr>) + 1\<rparr>, [v], map_option Some None)"
proof (rule book_snapshot_synchronises [OF book_demo_new book_demo_fetching])
  show "validateDepthSnapshot book_demo_snapshot = None" by code_simp
qed (simp_all add: book_demo_def book_demo_input_def book_demo_snapshot_def)

end
