(* ===== verification/Bitget_Book.thy ===== *)
theory Bitget_Book
  imports Sequenced_Book
begin

text \<open>
  The Bitget local order book (\<open>exchange/bitget/local_order_book.go\<close>): a snapshot and updates that name
  the sequence number before and after them. The first update after a snapshot only has to cover the
  snapshot's number, every later one has to start where the last one ended. After a gap the book waits
  for the next connection.

  The variables that the handler of \<open>Run\<close> closes over are the record \<open>bitget_Processor\<close>. The decoder of
  the JSON payload is a parameter.
\<close>

section \<open>Data\<close>

record bitget_OrderBookConfig =
  gc_Symbol :: string
  gc_EgressRouteID :: EgressRouteID
  gc_ViewDepth :: int

record bitget_BookLevel =
  gl_Price :: string
  gl_Quantity :: string

record bitget_View =
  gv_Symbol :: string
  gv_Generation :: "64 word"
  gv_SynchronizationID :: "64 word"
  gv_GapCount :: "64 word"
  gv_Sequence :: int
  gv_Timestamp :: int
  gv_MaxDepth :: string
  gv_Bids :: "(string \<times> string) list"
  gv_Asks :: "(string \<times> string) list"

record bitget_OrderBook =
  gb_symbol :: string
  gb_routeID :: EgressRouteID
  gb_viewDepth :: int

record bitget_State =
  gs_bids :: depth_side
  gs_asks :: depth_side
  gs_sequence :: int
  gs_timestamp :: int
  gs_maxDepth :: string
  gs_bridged :: bool

record bitget_StreamArgument =
  ga_InstrumentType :: string
  ga_Topic :: string
  ga_Symbol :: string
  ga_Interval :: string

record bitget_StreamMessage =
  gm_Event :: string
  gm_Code :: string
  gm_Message :: string
  gm_ConnectionID :: string
  gm_Argument :: bitget_StreamArgument
  gm_Action :: string
  gm_Timestamp :: int
  gm_Data :: string
  gm_Pong :: bool

record bitget_StreamOrderBook =
  go_Asks :: "bitget_BookLevel list"
  go_Bids :: "bitget_BookLevel list"
  go_PreviousSequence :: int
  go_Sequence :: int
  go_MaxDepth :: string
  go_Timestamp :: string

record bitget_Processor =
  gp_state :: "bitget_State option"
  gp_currentGeneration :: "64 word"
  gp_recoveryGeneration :: "64 word"
  gp_synchronizationID :: "64 word"
  gp_gapCount :: "64 word"

definition bitget_fields :: "bitget_BookLevel list \<Rightarrow> string list list" where
  "bitget_fields levels = map (\<lambda>l. [gl_Price l, gl_Quantity l]) levels"

section \<open>Operations\<close>

definition bitget_validateSymbol :: "string \<Rightarrow> go_error option" where
  "bitget_validateSymbol symbol =
     (if TrimSpace symbol = [] \<or> TrimSpace symbol \<noteq> symbol
      then Some (validationError ''symbol is required and cannot have surrounding whitespace'' [])
      else None)"

definition bitget_NewLocalOrderBook :: "bitget_OrderBookConfig \<Rightarrow> bitget_OrderBook result" where
  "bitget_NewLocalOrderBook config =
     (case bitget_validateSymbol (gc_Symbol config) of
        Some err \<Rightarrow> Inl err
      | None \<Rightarrow>
          let symbol = ToUpper (gc_Symbol config); route = TrimSpace (gc_EgressRouteID config)
          in if route = [] then Inl (Sentinel ErrMissingEgressRoute)
             else
               let viewDepth = (if gc_ViewDepth config = 0 then 20 else gc_ViewDepth config)
               in if viewDepth < 1 \<or> 1000 < viewDepth
                  then Inl (validationError ''local order book view depth must be between 1 and 1000'' [])
                  else Inr \<lparr>gb_symbol = symbol, gb_routeID = route, gb_viewDepth = viewDepth\<rparr>)"

definition bitget_hasSpotBooksArgument :: "bitget_StreamArgument list \<Rightarrow> string \<Rightarrow> bool" where
  "bitget_hasSpotBooksArgument arguments symbol =
     list_ex (\<lambda>a. ga_InstrumentType a = ''spot'' \<and> ga_Topic a = ''books'' \<and> EqualFold (ga_Symbol a) symbol) arguments"

definition bitget_validateUpdate :: "string \<Rightarrow> bitget_StreamOrderBook \<Rightarrow> int \<Rightarrow> int result" where
  "bitget_validateUpdate action update envelopeTimestamp =
     (if action \<noteq> ''snapshot'' \<and> action \<noteq> ''update''
      then Inl (validationError ''local order book action must be snapshot or update'' [])
      else if go_Sequence update \<le> 0 \<or> go_PreviousSequence update < 0
      then Inl (validationError ''local order book sequence is invalid'' [])
      else case checkDepthFields (bitget_fields (go_Bids update @ go_Asks update)) of
        Some err \<Rightarrow> Inl err
      | None \<Rightarrow>
          if go_MaxDepth update \<noteq> [] \<and>
             (case Atoi (go_MaxDepth update) of None \<Rightarrow> True | Some maxDepth \<Rightarrow> maxDepth < 0 \<or> 1000 < maxDepth)
          then Inl (validationError ''local order book maximum depth is invalid'' [])
          else if go_Timestamp update \<noteq> [] \<and>
             (case Atoi (go_Timestamp update) of None \<Rightarrow> True | Some parsed \<Rightarrow> parsed \<le> 0)
          then Inl (validationError ''local order book timestamp is invalid'' [])
          else
            let timestamp = (if go_Timestamp update \<noteq> [] then the (Atoi (go_Timestamp update)) else envelopeTimestamp)
            in if timestamp \<le> 0 then Inl (validationError ''local order book timestamp is invalid'' [])
               else Inr timestamp)"

definition bitget_apply :: "bitget_State \<Rightarrow> bitget_StreamOrderBook \<Rightarrow> int \<Rightarrow> bitget_State result" where
  "bitget_apply st update timestamp =
     (case applyLocalLevels (gs_bids st) (bitget_fields (go_Bids update)) of
        Inl err \<Rightarrow> Inl err
      | Inr bids \<Rightarrow>
          (case applyLocalLevels (gs_asks st) (bitget_fields (go_Asks update)) of
             Inl err \<Rightarrow> Inl err
           | Inr asks \<Rightarrow>
               Inr \<lparr>gs_bids = bids, gs_asks = asks, gs_sequence = go_Sequence update, gs_timestamp = timestamp,
                    gs_maxDepth = (if go_MaxDepth update \<noteq> [] then go_MaxDepth update else gs_maxDepth st),
                    gs_bridged = gs_bridged st\<rparr>))"

definition bitget_newState :: "bitget_StreamOrderBook \<Rightarrow> int \<Rightarrow> bitget_State result" where
  "bitget_newState update timestamp =
     bitget_apply \<lparr>gs_bids = [], gs_asks = [], gs_sequence = 0, gs_timestamp = 0, gs_maxDepth = [], gs_bridged = False\<rparr>
       update timestamp"

definition bitget_view :: "bitget_OrderBook \<Rightarrow> bitget_Processor \<Rightarrow> bitget_State \<Rightarrow> bitget_View" where
  "bitget_view book p st =
     \<lparr>gv_Symbol = gb_symbol book, gv_Generation = gp_currentGeneration p, gv_SynchronizationID = gp_synchronizationID p,
      gv_GapCount = gp_gapCount p, gv_Sequence = gs_sequence st, gv_Timestamp = gs_timestamp st,
      gv_MaxDepth = gs_maxDepth st,
      gv_Bids = sortedLocalLevels (gs_bids st) (gb_viewDepth book) True,
      gv_Asks = sortedLocalLevels (gs_asks st) (gb_viewDepth book) False\<rparr>"

text \<open>The closures \<open>publish\<close> and \<open>recoverFromGap\<close>.\<close>

definition bitget_publish ::
  "bitget_OrderBook \<Rightarrow> bitget_Processor \<Rightarrow> bitget_State \<Rightarrow> bitget_Processor \<times> bitget_View processed" where
  "bitget_publish book p st = (let p' = p\<lparr>gp_state := Some st\<rparr> in (p', Shown (bitget_view book p' st)))"

definition bitget_recoverFromGap :: "bitget_Processor \<Rightarrow> bitget_Processor \<times> bitget_View processed" where
  "bitget_recoverFromGap p =
     (p\<lparr>gp_gapCount := gp_gapCount p + 1, gp_state := None, gp_recoveryGeneration := gp_currentGeneration p\<rparr>, Reconnecting)"

definition bitget_update ::
  "bitget_OrderBook \<Rightarrow> bitget_StreamOrderBook \<Rightarrow> int \<Rightarrow> bitget_Processor \<Rightarrow>
   bitget_Processor \<times> bitget_View processed" where
  "bitget_update book update timestamp p =
     (if go_Sequence update \<le> go_PreviousSequence update then bitget_recoverFromGap p
      else case gp_state p of
        None \<Rightarrow> bitget_recoverFromGap p
      | Some st \<Rightarrow>
          if \<not> gs_bridged st then
            (if gs_sequence st < go_PreviousSequence update \<or> go_Sequence update < gs_sequence st
             then bitget_recoverFromGap p
             else case bitget_apply st update timestamp of
                    Inl err \<Rightarrow> (p, Failed err)
                  | Inr st' \<Rightarrow> bitget_publish book p (st'\<lparr>gs_bridged := True\<rparr>))
          else if go_PreviousSequence update = 0 \<or> go_Sequence update < gs_sequence st then bitget_recoverFromGap p
          else if go_Sequence update = gs_sequence st then (p, Quiet)
          else if go_PreviousSequence update \<noteq> gs_sequence st then bitget_recoverFromGap p
          else case bitget_apply st update timestamp of
                 Inl err \<Rightarrow> (p, Failed err)
               | Inr st' \<Rightarrow> bitget_publish book p st')"

definition bitget_DecodeData ::
  "(string \<Rightarrow> bitget_StreamOrderBook list result) \<Rightarrow> bitget_StreamMessage \<Rightarrow> bitget_StreamOrderBook list result" where
  "bitget_DecodeData Unmarshal message =
     (if gm_Pong message \<or> gm_Data message = []
      then Inl (errorText ''Bitget stream message does not contain channel data'')
      else case Unmarshal (gm_Data message) of
             Inl err \<Rightarrow> Inl (Errorf ''decode Bitget stream data: %w'' [] [err])
           | Inr updates \<Rightarrow> Inr updates)"

text \<open>What the handler does with a depth message of the current generation.\<close>

definition bitget_depth_message ::
  "(string \<Rightarrow> bitget_StreamOrderBook list result) \<Rightarrow> bitget_OrderBook \<Rightarrow> bitget_Processor \<Rightarrow> bitget_StreamMessage \<Rightarrow>
   bitget_Processor \<times> bitget_View processed" where
  "bitget_depth_message Unmarshal book p message =
     (case bitget_DecodeData Unmarshal message of
        Inl err \<Rightarrow> (p, Failed err)
      | Inr updates \<Rightarrow>
          if length updates \<noteq> 1
          then (p, Failed (validationError ''local order book message must contain exactly one depth item'' []))
          else let update = hd updates in
            case bitget_validateUpdate (gm_Action message) update (gm_Timestamp message) of
              Inl err \<Rightarrow> (p, Failed err)
            | Inr timestamp \<Rightarrow>
                if gm_Action message = ''snapshot'' then
                  (case bitget_newState update timestamp of
                     Inl err \<Rightarrow> (p, Failed err)
                   | Inr st \<Rightarrow> bitget_publish book (p\<lparr>gp_synchronizationID := gp_synchronizationID p + 1\<rparr>) st)
                else if gm_Action message = ''update'' then bitget_update book update timestamp p
                else (p, Failed (validationError ''local order book action must be snapshot or update'' [])))"

text \<open>The message handler of \<open>Run\<close>; the generation is what the stream reports at the time.\<close>

definition bitget_on_message ::
  "(string \<Rightarrow> bitget_StreamOrderBook list result) \<Rightarrow> bitget_OrderBook \<Rightarrow> bitget_Processor \<Rightarrow>
   64 word \<times> bitget_StreamMessage \<Rightarrow> bitget_Processor \<times> bitget_View processed" where
  "bitget_on_message Unmarshal book p = (\<lambda>(generation, message).
     if gm_Pong message then (p, Quiet)
     else if gm_Event message \<noteq> [] then
       (if gm_Event message = ''error'' \<or> (gm_Code message \<noteq> [] \<and> gm_Code message \<noteq> ''0'')
        then (p, Failed (Errorf ''Bitget books subscription failed with code %s: %s''
               [StrArg (gm_Code message), StrArg (gm_Message message)] []))
        else (p, Quiet))
     else if ga_InstrumentType (gm_Argument message) \<noteq> ''spot'' \<or> ga_Topic (gm_Argument message) \<noteq> ''books'' \<or>
       \<not> EqualFold (ga_Symbol (gm_Argument message)) (gb_symbol book)
     then (p, Quiet)
     else if generation = 0
     then (p, Failed (validationError ''local order book WebSocket generation is zero'' []))
     else if generation < gp_currentGeneration p then (p, Quiet)
     else
       let p = (if gp_currentGeneration p < generation
                then p\<lparr>gp_currentGeneration := generation, gp_state := None, gp_recoveryGeneration := 0\<rparr> else p)
       in if gp_recoveryGeneration p = generation then (p, Quiet)
          else bitget_depth_message Unmarshal book p message)"

definition bitget_init :: bitget_Processor where
  "bitget_init = \<lparr>gp_state = None, gp_currentGeneration = 0, gp_recoveryGeneration = 0, gp_synchronizationID = 0,
     gp_gapCount = 0\<rparr>"

section \<open>A processed stream is a chain of updates\<close>

definition bitget_good :: "bitget_State \<Rightarrow> bool" where
  "bitget_good st \<longleftrightarrow> side_ok (gs_bids st) \<and> side_ok (gs_asks st) \<and> 0 < gs_sequence st"

definition bitget_position :: "bitget_State \<Rightarrow> bool \<times> int" where
  "bitget_position st = (gs_bridged st, gs_sequence st)"

definition bitget_sides :: "bitget_State \<Rightarrow> abs_book" where
  "bitget_sides st = (abs_of (gs_bids st), abs_of (gs_asks st))"

definition bitget_follows :: "bool \<times> int \<Rightarrow> int \<times> bitget_StreamOrderBook \<Rightarrow> bool" where
  "bitget_follows = (\<lambda>(bridged, k) (_, u). go_PreviousSequence u < go_Sequence u \<and>
     (if bridged then go_PreviousSequence u = k else go_PreviousSequence u \<le> k \<and> k \<le> go_Sequence u))"

definition bitget_start :: "int \<times> bitget_StreamOrderBook \<Rightarrow> bool \<times> int" where
  "bitget_start = (\<lambda>(_, u). (False, go_Sequence u))"

definition bitget_final :: "int \<times> bitget_StreamOrderBook \<Rightarrow> bool \<times> int" where
  "bitget_final = (\<lambda>(_, u). (True, go_Sequence u))"

definition bitget_effect :: "int \<times> bitget_StreamOrderBook \<Rightarrow> abs_book \<Rightarrow> abs_book" where
  "bitget_effect = (\<lambda>(_, u). abs_levels (bitget_fields (go_Bids u)) (bitget_fields (go_Asks u)))"

definition bitget_accept :: "bitget_State \<Rightarrow> int \<times> bitget_StreamOrderBook \<Rightarrow> bitget_State option" where
  "bitget_accept st = (\<lambda>(timestamp, u).
     if \<not> bitget_follows (bitget_position st) (timestamp, u) then None
     else case bitget_apply st u timestamp of Inl _ \<Rightarrow> None | Inr st' \<Rightarrow> Some (st'\<lparr>gs_bridged := True\<rparr>))"

text \<open>What the decoder and the validation find in a message; the empty update stands for a payload they
  refuse.\<close>

definition bitget_event ::
  "(string \<Rightarrow> bitget_StreamOrderBook list result) \<Rightarrow> 64 word \<times> bitget_StreamMessage \<Rightarrow> int \<times> bitget_StreamOrderBook" where
  "bitget_event Unmarshal m =
     (let u = (case Unmarshal (gm_Data (snd m)) of
          Inr (u # _) \<Rightarrow> u
        | _ \<Rightarrow> \<lparr>go_Asks = [], go_Bids = [], go_PreviousSequence = 0, go_Sequence = 0, go_MaxDepth = [], go_Timestamp = []\<rparr>)
      in (case bitget_validateUpdate (gm_Action (snd m)) u (gm_Timestamp (snd m)) of Inr t \<Rightarrow> t | Inl _ \<Rightarrow> 0, u))"

lemma bitget_apply_Inr:
  assumes ok: "side_ok (gs_bids s)" "side_ok (gs_asks s)" and run: "bitget_apply s u t = Inr st"
  shows "side_ok (gs_bids st) \<and> side_ok (gs_asks st) \<and> gs_sequence st = go_Sequence u \<and> gs_bridged st = gs_bridged s \<and>
     bitget_sides st = bitget_effect (t, u) (bitget_sides s)"
proof -
  from run obtain bids asks where parts:
    "applyLocalLevels (gs_bids s) (bitget_fields (go_Bids u)) = Inr bids"
    "applyLocalLevels (gs_asks s) (bitget_fields (go_Asks u)) = Inr asks"
    and st: "gs_bids st = bids" "gs_asks st = asks" "gs_sequence st = go_Sequence u" "gs_bridged st = gs_bridged s"
    by (auto simp: bitget_apply_def split: sum.splits)
  from applyLocalLevels_refines [OF ok(1) parts(1)] applyLocalLevels_refines [OF ok(2) parts(2)] show ?thesis
    by (simp add: st bitget_sides_def bitget_effect_def abs_levels_def)
qed

lemma bitget_fields_append [simp]: "bitget_fields (xs @ ys) = bitget_fields xs @ bitget_fields ys"
  by (simp add: bitget_fields_def)

lemma bitget_validateUpdate_ok:
  "bitget_validateUpdate action u ts = Inr t \<Longrightarrow>
     0 < go_Sequence u \<and> 0 \<le> go_PreviousSequence u \<and> (action = ''snapshot'' \<or> action = ''update'') \<and>
     list_all fields_ok (bitget_fields (go_Bids u)) \<and> list_all fields_ok (bitget_fields (go_Asks u))"
  by (auto simp: bitget_validateUpdate_def checkDepthFields_None split: if_splits option.splits)

lemma bitget_apply_total:
  assumes "list_all fields_ok (bitget_fields (go_Bids u))" "list_all fields_ok (bitget_fields (go_Asks u))"
  shows "\<exists>st'. bitget_apply st u t = Inr st'"
  using applyLocalLevels_total [OF assms(1), of "gs_bids st"] applyLocalLevels_total [OF assms(2), of "gs_asks st"]
  by (auto simp: bitget_apply_def)

interpretation bitget: sequenced_book bitget_good bitget_position bitget_sides bitget_follows bitget_final bitget_effect
  bitget_accept
proof unfold_locales
  fix st e st'
  assume good: "bitget_good st" and "bitget_accept st e = Some st'"
  then obtain t u s where e: "e = (t, u)" "bitget_follows (bitget_position st) e" "st' = s\<lparr>gs_bridged := True\<rparr>"
    and run: "bitget_apply st u t = Inr s"
    by (cases e) (auto simp: bitget_accept_def split: if_splits sum.splits)
  have "0 < go_Sequence u"
    using e(2) good by (auto simp: bitget_follows_def bitget_position_def bitget_good_def e(1) split: if_splits)
  then show "bitget_good st'" "bitget_position st' = bitget_final e" "bitget_sides st' = bitget_effect e (bitget_sides st)"
    using bitget_apply_Inr [OF _ _ run] good
    by (simp_all add: e(1,3) bitget_good_def bitget_position_def bitget_final_def bitget_sides_def)
  show "bitget_follows (bitget_position st) e" by (rule e(2))
qed

lemma bitget_newState_good:
  assumes "bitget_newState u t = Inr st" "0 < go_Sequence u"
  shows "bitget_good st \<and> bitget_position st = bitget_start (t, u) \<and> bitget_sides st = bitget_effect (t, u) abs_empty"
  using bitget_apply_Inr [OF _ _ assms(1) [unfolded bitget_newState_def]] assms(2)
  by (simp add: bitget_good_def bitget_position_def bitget_start_def bitget_sides_def abs_empty_def)

text \<open>An update extends the chain exactly when it follows; otherwise nothing is shown.\<close>

lemma bitget_update_eq:
  assumes "gp_state p = Some st" "0 < gs_sequence st"
  shows "bitget_update book u t p =
     (if bitget_follows (bitget_position st) (t, u) then
        (case bitget_apply st u t of
           Inl err \<Rightarrow> (p, Failed err) | Inr st' \<Rightarrow> bitget_publish book p (st'\<lparr>gs_bridged := True\<rparr>))
      else if gs_bridged st \<and> go_PreviousSequence u < go_Sequence u \<and> go_PreviousSequence u \<noteq> 0 \<and>
        go_Sequence u = gs_sequence st
      then (p, Quiet) else bitget_recoverFromGap p)"
proof (cases "gs_bridged st")
  case True
  have keep: "st'\<lparr>gs_bridged := True\<rparr> = st'" if "bitget_apply st u t = Inr st'" for st'
    using that True by (auto simp: bitget_apply_def split: sum.splits)
  show ?thesis unfolding bitget_update_def assms(1) bitget_follows_def bitget_position_def
    using True assms(2) keep by (auto split: sum.splits)
qed (use assms in \<open>auto simp: bitget_update_def bitget_follows_def bitget_position_def split: sum.splits\<close>)

lemma bitget_update_None: "gp_state p = None \<Longrightarrow> bitget_update book u t p = bitget_recoverFromGap p"
  by (simp add: bitget_update_def)

lemma bitget_update_live:
  assumes "bitget_update book u t p = (p', out)" "gp_state p' = Some st'" "\<And>st. gp_state p = Some st \<Longrightarrow> bitget_good st"
  shows "gp_currentGeneration p' = gp_currentGeneration p \<and> (gp_state p = Some st' \<or>
     (\<exists>st. gp_state p = Some st \<and> bitget_accept st (t, u) = Some st'))"
proof (cases "gp_state p")
  case None
  with assms(1,2) show ?thesis by (auto simp: bitget_update_None bitget_recoverFromGap_def)
next
  case (Some st)
  then have "0 < gs_sequence st" using assms(3) by (simp add: bitget_good_def)
  note eq = bitget_update_eq [OF Some this]
  show ?thesis using assms(1,2) Some unfolding eq bitget_accept_def bitget_publish_def bitget_recoverFromGap_def
    by (auto simp: Let_def split: if_splits sum.splits)
qed

lemma bitget_depth_message_cases:
  assumes "bitget_depth_message Unmarshal book p message = (p', out)"
  shows "p' = p \<and> (\<exists>err. out = Failed err) \<or>
     bitget_validateUpdate (gm_Action message) (snd (bitget_event Unmarshal (g, message))) (gm_Timestamp message) =
       Inr (fst (bitget_event Unmarshal (g, message))) \<and>
     (if gm_Action message = ''snapshot'' then
        \<exists>st. bitget_newState (snd (bitget_event Unmarshal (g, message))) (fst (bitget_event Unmarshal (g, message))) = Inr st \<and>
          (p', out) = bitget_publish book (p\<lparr>gp_synchronizationID := gp_synchronizationID p + 1\<rparr>) st
      else bitget_update book (snd (bitget_event Unmarshal (g, message))) (fst (bitget_event Unmarshal (g, message))) p = (p', out))"
proof (cases "bitget_DecodeData Unmarshal message")
  case (Inl err)
  with assms show ?thesis by (auto simp: bitget_depth_message_def)
next
  case (Inr updates)
  show ?thesis
  proof (cases updates rule: remdups_adj.cases)
    case (2 u)
    with Inr have ev: "snd (bitget_event Unmarshal (g, message)) = u"
      "fst (bitget_event Unmarshal (g, message)) =
        (case bitget_validateUpdate (gm_Action message) u (gm_Timestamp message) of Inr t \<Rightarrow> t | Inl _ \<Rightarrow> 0)"
      by (auto simp: bitget_event_def bitget_DecodeData_def Let_def split: if_splits sum.splits)
    show ?thesis unfolding ev using assms Inr 2
      by (auto simp: bitget_depth_message_def dest: bitget_validateUpdate_ok split: if_splits sum.splits)
  qed (use assms Inr in \<open>auto simp: bitget_depth_message_def\<close>)
qed

lemma bitget_on_message_cases:
  assumes "bitget_on_message Unmarshal book p (g, message) = (p', out)"
  shows "p' = p \<and> silent out \<or>
     (\<exists>q. q = (if gp_currentGeneration p < g
           then p\<lparr>gp_currentGeneration := g, gp_state := None, gp_recoveryGeneration := 0\<rparr> else p) \<and>
        gp_currentGeneration q = g \<and>
        (p' = q \<and> silent out \<or> bitget_depth_message Unmarshal book q message = (p', out)))"
  using assms
  by (auto simp: bitget_on_message_def Let_def split: if_splits)

lemma bitget_publish_simps [simp]:
  "gp_state (fst (bitget_publish book p st)) = Some st"
  "gp_currentGeneration (fst (bitget_publish book p st)) = gp_currentGeneration p"
  by (simp_all add: bitget_publish_def Let_def)

lemma bitget_depth_live:
  assumes step: "bitget_depth_message Unmarshal book q message = (p', out)" "gp_state p' = Some st'"
    and good: "\<And>st. gp_state q = Some st \<Longrightarrow> bitget_good st"
  shows "gp_currentGeneration p' = gp_currentGeneration q \<and> (gp_state q = Some st' \<or>
     gm_Action message = ''snapshot'' \<and> bitget_good st' \<and> bitget_position st' = bitget_start (bitget_event Unmarshal (g, message)) \<and>
       bitget_sides st' = bitget_effect (bitget_event Unmarshal (g, message)) abs_empty \<or>
     gm_Action message \<noteq> ''snapshot'' \<and>
       (\<exists>st. gp_state q = Some st \<and> bitget_accept st (bitget_event Unmarshal (g, message)) = Some st'))"
proof -
  obtain t u where e: "bitget_event Unmarshal (g, message) = (t, u)" by (cases "bitget_event Unmarshal (g, message)")
  from bitget_depth_message_cases [OF step(1), of g, unfolded e fst_conv snd_conv]
  consider "p' = q"
    | (snapshot) st where "gm_Action message = ''snapshot''" "bitget_newState u t = Inr st" "0 < go_Sequence u"
        "(p', out) = bitget_publish book (q\<lparr>gp_synchronizationID := gp_synchronizationID q + 1\<rparr>) st"
    | (update) "gm_Action message \<noteq> ''snapshot''" "bitget_update book u t q = (p', out)"
    by (auto dest: bitget_validateUpdate_ok split: if_splits)
  then show ?thesis
  proof cases
    case snapshot
    from arg_cong [OF snapshot(4), of fst] step(2) have "st' = st" "gp_currentGeneration p' = gp_currentGeneration q"
      by auto
    with bitget_newState_good [OF snapshot(2,3)] snapshot(1) show ?thesis by (simp add: e)
  next
    case update
    from bitget_update_live [OF update(2) step(2) good] update(1) show ?thesis by (auto simp: e)
  qed (use step(2) in simp)
qed

lemma bitget_depth_shown:
  assumes "bitget_depth_message Unmarshal book q message = (p', Shown v)"
  shows "\<exists>st. gp_state p' = Some st \<and> v = bitget_view book p' st"
  using bitget_depth_message_cases [OF assms, of 0]
  by (auto simp: bitget_publish_def bitget_update_def bitget_recoverFromGap_def Let_def
      split: if_splits option.splits sum.splits)

interpretation bitget_stream: snapshot_stream bitget_good bitget_position bitget_sides bitget_follows bitget_final
  bitget_effect bitget_accept gp_currentGeneration gp_state "bitget_on_message Unmarshal book" fst
  "bitget_event Unmarshal" "\<lambda>m. gm_Action (snd m) = ''snapshot''" bitget_start "bitget_view book" for book Unmarshal
proof unfold_locales
  fix p m p' out st'
  assume good: "\<And>st. gp_state p = Some st \<Longrightarrow> bitget_good st"
    and step: "bitget_on_message Unmarshal book p m = (p', out)" and live: "gp_state p' = Some st'"
  obtain g message where m: "m = (g, message)" by (cases m)
  from bitget_on_message_cases [OF step [unfolded m]]
  consider "p' = p"
    | (depth) q where "q = (if gp_currentGeneration p < g
           then p\<lparr>gp_currentGeneration := g, gp_state := None, gp_recoveryGeneration := 0\<rparr> else p)"
        "gp_currentGeneration q = g" "p' = q \<or> bitget_depth_message Unmarshal book q message = (p', out)" by auto
  then show "gp_state p = Some st' \<and> gp_currentGeneration p' = gp_currentGeneration p \<or>
      gm_Action (snd m) = ''snapshot'' \<and> fst m = gp_currentGeneration p' \<and> bitget_good st' \<and>
      bitget_position st' = bitget_start (bitget_event Unmarshal m) \<and>
      bitget_sides st' = bitget_effect (bitget_event Unmarshal m) abs_empty \<or>
      (\<exists>st. gp_state p = Some st \<and> gp_currentGeneration p' = gp_currentGeneration p \<and> fst m = gp_currentGeneration p \<and>
        \<not> gm_Action (snd m) = ''snapshot'' \<and> bitget_accept st (bitget_event Unmarshal m) = Some st')"
  proof cases
    case depth
    have kept: "q = p" if "gp_state q = Some st" for st using that depth(1) by (auto split: if_splits)
    have goodq: "bitget_good st" if "gp_state q = Some st" for st using kept [OF that] good that by simp
    show ?thesis
    proof (cases "p' = q")
      case True
      with live kept show ?thesis by auto
    next
      case False
      with depth(3) have "bitget_depth_message Unmarshal book q message = (p', out)" by simp
      from bitget_depth_live [OF this live goodq, of g] kept depth(2) show ?thesis by (auto simp: m)
    qed
  qed (use live in simp)
next
  fix p m p' v
  assume step: "bitget_on_message Unmarshal book p m = (p', Shown v)"
  obtain g message where m: "m = (g, message)" by (cases m)
  from bitget_on_message_cases [OF step [unfolded m]] bitget_depth_shown
  show "\<exists>st. gp_state p' = Some st \<and> v = bitget_view book p' st" by auto
qed

section \<open>Properties\<close>

text \<open>C5. Every view the Bitget book shows is a snapshot of the connection it names, brought up to date by a
  chain: the first update after the snapshot starts at or before the snapshot's sequence number and
  does not end before it, every later one starts exactly where the one before it ended, none is empty,
  all came after the snapshot on the same connection, and the shown sides are the best levels of what
  the chain makes of the snapshot.\<close>

theorem bitget_views_gapless:
  assumes "v \<in> set (snd (stream_run (bitget_on_message Unmarshal book) bitget_init ms))"
  shows "\<exists>before m after evs. ms = before @ m # after \<and> gm_Action (snd m) = ''snapshot'' \<and> fst m = gv_Generation v \<and>
     subseq evs (map (bitget_event Unmarshal)
       (filter (\<lambda>x. fst x = gv_Generation v \<and> gm_Action (snd x) \<noteq> ''snapshot'') after)) \<and>
     chained (\<lambda>(bridged, k) (_, u). go_PreviousSequence u < go_Sequence u \<and>
         (if bridged then go_PreviousSequence u = k else go_PreviousSequence u \<le> k \<and> k \<le> go_Sequence u))
       bitget_final (bitget_start (bitget_event Unmarshal m)) evs \<and>
     gv_Sequence v = snd (end_of bitget_final (bitget_start (bitget_event Unmarshal m)) evs) \<and>
     view_of (fst (fold bitget_effect evs (bitget_effect (bitget_event Unmarshal m) abs_empty)))
       (gb_viewDepth book) True (gv_Bids v) \<and>
     view_of (snd (fold bitget_effect evs (bitget_effect (bitget_event Unmarshal m) abs_empty)))
       (gb_viewDepth book) False (gv_Asks v)"
proof -
  have "gp_state bitget_init = None" by (simp add: bitget_init_def)
  from bitget_stream.run_streamed [OF this, of Unmarshal book ms] assms
  obtain p st where v: "v = bitget_view book p st"
    and st: "bitget_stream.streamed Unmarshal ms (gp_currentGeneration p) st" by blast
  have shown: "gv_Generation v = gp_currentGeneration p" "gv_Sequence v = snd (bitget_position st)"
    "gv_Bids v = sortedLocalLevels (gs_bids st) (gb_viewDepth book) True"
    "gv_Asks v = sortedLocalLevels (gs_asks st) (gb_viewDepth book) False"
    by (simp_all add: v bitget_view_def bitget_position_def)
  have "view_of (fst (bitget_sides st)) (gb_viewDepth book) True (gv_Bids v)"
    "view_of (snd (bitget_sides st)) (gb_viewDepth book) False (gv_Asks v)"
    using bitget_stream.streamed_good [OF st]
    by (simp_all add: shown bitget_good_def bitget_sides_def sortedLocalLevels_view)
  moreover from st obtain before m after evs where "ms = before @ m # after" "gm_Action (snd m) = ''snapshot''"
    "fst m = gp_currentGeneration p"
    "subseq evs (map (bitget_event Unmarshal)
       (filter (\<lambda>x. fst x = gp_currentGeneration p \<and> gm_Action (snd x) \<noteq> ''snapshot'') after))"
    "chained bitget_follows bitget_final (bitget_start (bitget_event Unmarshal m)) evs"
    "bitget_position st = end_of bitget_final (bitget_start (bitget_event Unmarshal m)) evs"
    "bitget_sides st = fold bitget_effect evs (bitget_effect (bitget_event Unmarshal m) abs_empty)"
    unfolding bitget_stream.streamed_def bitget.tracks_def by blast
  ultimately show ?thesis
    unfolding shown(1,2) bitget_follows_def [symmetric]
    by (intro exI conjI) (assumption | simp only:)+
qed

definition bitget_demo_book :: bitget_OrderBook where
  "bitget_demo_book = \<lparr>gb_symbol = ''B'', gb_routeID = ''r'', gb_viewDepth = 1\<rparr>"

definition bitget_demo_update :: "int \<Rightarrow> int \<Rightarrow> bitget_StreamOrderBook" where
  "bitget_demo_update pseq sequence = \<lparr>go_Asks = [\<lparr>gl_Price = ''3'', gl_Quantity = ''1''\<rparr>], go_Bids = [],
     go_PreviousSequence = pseq, go_Sequence = sequence, go_MaxDepth = [], go_Timestamp = []\<rparr>"

definition bitget_demo_unmarshal :: "string \<Rightarrow> bitget_StreamOrderBook list result" where
  "bitget_demo_unmarshal s =
     (if s = ''s'' then Inr [bitget_demo_update 0 7]
      else if s = ''u'' then Inr [bitget_demo_update 6 9] else Inr [bitget_demo_update 8 9])"

definition bitget_demo_message :: "string \<Rightarrow> string \<Rightarrow> 64 word \<times> bitget_StreamMessage" where
  "bitget_demo_message action payload = (1, \<lparr>gm_Event = [], gm_Code = [], gm_Message = [], gm_ConnectionID = [],
     gm_Argument = \<lparr>ga_InstrumentType = ''spot'', ga_Topic = ''books'', ga_Symbol = ''b'', ga_Interval = []\<rparr>,
     gm_Action = action, gm_Timestamp = 5, gm_Data = payload, gm_Pong = False\<rparr>)"

definition bitget_demo :: "(64 word \<times> bitget_StreamMessage) list" where
  "bitget_demo = [bitget_demo_message ''snapshot'' ''s'', bitget_demo_message ''update'' ''u'']"

definition bitget_demo_view :: bitget_View where
  "bitget_demo_view = \<lparr>gv_Symbol = ''B'', gv_Generation = 1, gv_SynchronizationID = 1, gv_GapCount = 0, gv_Sequence = 9,
     gv_Timestamp = 5, gv_MaxDepth = [], gv_Bids = [], gv_Asks = [(''3'', ''1'')]\<rparr>"

lemma bitget_demo_shown:
  "list_ex (\<lambda>v. v = bitget_demo_view)
     (snd (stream_run (bitget_on_message bitget_demo_unmarshal bitget_demo_book) bitget_init bitget_demo))"
  by code_simp

theorem bitget_views_gapless_witness:
  "\<exists>before m after evs. bitget_demo = before @ m # after \<and> gm_Action (snd m) = ''snapshot'' \<and> fst m = 1 \<and>
     9 = snd (end_of bitget_final (bitget_start (bitget_event bitget_demo_unmarshal m)) evs)"
proof -
  have "bitget_demo_view \<in> set (snd (stream_run (bitget_on_message bitget_demo_unmarshal bitget_demo_book) bitget_init bitget_demo))"
    using bitget_demo_shown unfolding list_ex_iff by blast
  from bitget_views_gapless [OF this]
  have "\<exists>before m after evs. bitget_demo = before @ m # after \<and> gm_Action (snd m) = ''snapshot'' \<and>
     fst m = gv_Generation bitget_demo_view \<and>
     gv_Sequence bitget_demo_view = snd (end_of bitget_final (bitget_start (bitget_event bitget_demo_unmarshal m)) evs)"
    by blast
  then show ?thesis unfolding bitget_demo_view_def bitget_View.select_convs .
qed

text \<open>After a gap the book answers nothing until the generation changes.\<close>

lemma bitget_waiting:
  assumes "gp_recoveryGeneration p = gp_currentGeneration p" "g \<le> gp_currentGeneration p"
  shows "\<exists>out. bitget_on_message Unmarshal book p (g, message) = (p, out) \<and> silent out"
  using assms by (auto simp: bitget_on_message_def Let_def not_less dest: order.antisym)

lemma bitget_waiting_run:
  assumes "gp_recoveryGeneration p = gp_currentGeneration p" "\<forall>x \<in> set ms. fst x \<le> gp_currentGeneration p"
  shows "stream_run (bitget_on_message Unmarshal book) p ms = (p, [])"
  using assms(2)
proof (induction ms)
  case (Cons m ms)
  obtain g message where m: "m = (g, message)" by (cases m)
  with Cons bitget_waiting [OF assms(1), of g Unmarshal book message] show ?case by (auto dest: silent_shows_nothing)
qed simp

lemma bitget_update_reconnecting:
  assumes "bitget_update book u t q = (p', Reconnecting)"
  shows "(p', Reconnecting) = bitget_recoverFromGap q"
  using assms by (auto simp: bitget_update_def bitget_publish_def Let_def split: if_splits option.splits sum.splits)

lemma bitget_reconnecting:
  assumes "bitget_on_message Unmarshal book p (g, message) = (p', Reconnecting)"
  shows "gp_gapCount p' = gp_gapCount p + 1 \<and> gp_state p' = None \<and> gp_recoveryGeneration p' = g \<and>
     gp_currentGeneration p' = g"
proof -
  from bitget_on_message_cases [OF assms] obtain q where q: "gp_currentGeneration q = g"
    and new: "q = (if gp_currentGeneration p < g
      then p\<lparr>gp_currentGeneration := g, gp_state := None, gp_recoveryGeneration := 0\<rparr> else p)"
    and depth: "bitget_depth_message Unmarshal book q message = (p', Reconnecting)"
    by auto
  have gaps: "gp_gapCount q = gp_gapCount p" by (simp add: new)
  from bitget_depth_message_cases [OF depth, of g] have "(p', Reconnecting) = bitget_recoverFromGap q"
    by (auto simp: bitget_publish_def Let_def dest: bitget_update_reconnecting split: if_splits)
  with q gaps show ?thesis by (simp add: bitget_recoverFromGap_def)
qed

text \<open>When the Bitget book asks for a new connection, it has discarded its levels and counted one gap, and
  whatever arrives from the connection of the gap or an older one afterwards, it shows nothing, asks for
  nothing, and stays as it is.\<close>

theorem bitget_gap_waits:
  assumes "bitget_on_message Unmarshal book p m = (p', Reconnecting)" "\<forall>x \<in> set ms. fst x \<le> fst m"
  shows "gp_gapCount p' = gp_gapCount p + 1 \<and> gp_state p' = None \<and>
     stream_run (bitget_on_message Unmarshal book) p' ms = (p', []) \<and>
     (\<forall>x \<in> set ms. silent (snd (bitget_on_message Unmarshal book p' x)))"
proof -
  obtain g message where m: "m = (g, message)" by (cases m)
  note gap = bitget_reconnecting [OF assms(1) [unfolded m]]
  have silent: "silent (snd (bitget_on_message Unmarshal book p' x))" if "x \<in> set ms" for x
    using bitget_waiting [of p' "fst x" Unmarshal book "snd x"] gap assms(2) that m by auto
  have "stream_run (bitget_on_message Unmarshal book) p' ms = (p', [])"
    using gap assms(2) m by (intro bitget_waiting_run) auto
  with gap silent show ?thesis by blast
qed

lemma bitget_demo_gap:
  "case bitget_on_message bitget_demo_unmarshal bitget_demo_book bitget_init (bitget_demo_message ''update'' ''x'') of
     (p, out) \<Rightarrow> out = Reconnecting \<and> gp_gapCount p = 1"
  by code_simp

theorem bitget_gap_waits_witness:
  "\<exists>p. gp_gapCount p = 1 \<and>
     stream_run (bitget_on_message bitget_demo_unmarshal bitget_demo_book) p bitget_demo = (p, [])"
proof -
  obtain p where "bitget_on_message bitget_demo_unmarshal bitget_demo_book bitget_init
      (bitget_demo_message ''update'' ''x'') = (p, Reconnecting)" and gaps: "gp_gapCount p = 1"
    using bitget_demo_gap by (auto split: prod.splits)
  from bitget_gap_waits [OF this(1), of bitget_demo] gaps show ?thesis
    by (auto simp: bitget_demo_def bitget_demo_message_def)
qed

text \<open>A valid update is shown by a live Bitget book exactly when it follows; an update that ends where the book
  already is changes nothing once the book is bridged; any other one discards the book.\<close>

theorem bitget_update_outcome:
  assumes valid: "bitget_validateUpdate ''update'' u ts = Inr t" and live: "gp_state p = Some st" "bitget_good st"
  shows "if go_PreviousSequence u < go_Sequence u \<and>
           (if gs_bridged st then go_PreviousSequence u = gs_sequence st
            else go_PreviousSequence u \<le> gs_sequence st \<and> gs_sequence st \<le> go_Sequence u)
     then \<exists>st'. gp_state (fst (bitget_update book u t p)) = Some st' \<and> gs_bridged st' \<and> gs_sequence st' = go_Sequence u \<and>
       snd (bitget_update book u t p) = Shown (bitget_view book (fst (bitget_update book u t p)) st')
     else if gs_bridged st \<and> 0 < go_PreviousSequence u \<and> go_PreviousSequence u < go_Sequence u \<and>
       go_Sequence u = gs_sequence st
     then bitget_update book u t p = (p, Quiet)
     else snd (bitget_update book u t p) = Reconnecting \<and> gp_state (fst (bitget_update book u t p)) = None"
proof -
  have "0 < gs_sequence st" using live(2) by (simp add: bitget_good_def)
  note eq = bitget_update_eq [OF live(1) this, of book u t]
  note ok = bitget_validateUpdate_ok [OF valid]
  obtain st' where st': "bitget_apply st u t = Inr st'" using bitget_apply_total ok by blast
  have "gs_sequence st' = go_Sequence u"
    using bitget_apply_Inr [OF _ _ st'] live(2) by (simp add: bitget_good_def)
  then show ?thesis using ok st' unfolding eq bitget_follows_def bitget_position_def
    by (auto simp: bitget_publish_def bitget_recoverFromGap_def Let_def)
qed


theorem bitget_update_outcome_witness:
  "\<exists>p. snd (bitget_update bitget_demo_book (bitget_demo_update 9 12) 5 p) = Reconnecting"
proof -
  let ?st = "\<lparr>gs_bids = [], gs_asks = [], gs_sequence = 7, gs_timestamp = 5, gs_maxDepth = [], gs_bridged = False\<rparr>"
  have "bitget_validateUpdate ''update'' (bitget_demo_update 9 12) 5 = Inr 5" by code_simp
  from bitget_update_outcome [OF this, of "bitget_init\<lparr>gp_state := Some ?st\<rparr>" ?st bitget_demo_book] show ?thesis
    by (intro exI [of _ "bitget_init\<lparr>gp_state := Some ?st\<rparr>"]) (simp add: bitget_good_def bitget_demo_update_def)
qed

end
