(* ===== verification/Go_Url.thy ===== *)
theory Go_Url
  imports Go_Decimal
begin

text \<open>
  What the adapters use of \<open>net/url\<close>: query values, their encoding, and \<open>strings.Split\<close> at one
  byte. A query map is an association list with distinct keys. The lemmas show that the encoded text
  determines the pairs: a server that decodes it reads exactly what was set.
\<close>

section \<open>Definitions\<close>

type_synonym url_Values = "(string \<times> string list) list"

definition Values_Set :: "url_Values \<Rightarrow> string \<Rightarrow> string \<Rightarrow> url_Values" where
  "Values_Set vs k v = AList.update k [v] vs"

definition hex_digit :: "nat \<Rightarrow> char" where
  "hex_digit n = (if n < 10 then char_of (48 + n) else char_of (55 + n))"

definition hex_value :: "char \<Rightarrow> nat" where
  "hex_value c = (if (of_char c :: nat) < 58 then of_char c - 48 else of_char c - 55)"

definition query_safe :: "char \<Rightarrow> bool" where
  "query_safe c \<longleftrightarrow> (let n = (of_char c :: nat) in (48 \<le> n \<and> n \<le> 57) \<or> (65 \<le> n \<and> n \<le> 90) \<or> (97 \<le> n \<and> n \<le> 122) \<or>
     n = 45 \<or> n = 46 \<or> n = 95 \<or> n = 126)"

definition escape_char :: "char \<Rightarrow> string" where
  "escape_char c = (if query_safe c then [c] else if c = CHR '' '' then ''+''
     else [CHR ''%'', hex_digit (of_char c div 16), hex_digit (of_char c mod 16)])"

definition QueryEscape :: "string \<Rightarrow> string" where
  "QueryEscape s = concat (map escape_char s)"

fun QueryUnescape :: "string \<Rightarrow> string" where
  "QueryUnescape [] = []"
| "QueryUnescape (c # rest) =
     (if c = CHR ''%'' then
        (case rest of
           a # b # rest' \<Rightarrow> char_of (16 * hex_value a + hex_value b) # QueryUnescape rest'
         | _ \<Rightarrow> [])
      else if c = CHR ''+'' then CHR '' '' # QueryUnescape rest
      else c # QueryUnescape rest)"

fun split_on :: "char \<Rightarrow> string \<Rightarrow> string list" where
  "split_on sep [] = [[]]"
| "split_on sep (c # rest) =
     (if c = sep then [] # split_on sep rest
      else case split_on sep rest of part # parts \<Rightarrow> (c # part) # parts | [] \<Rightarrow> [[c]])"

fun join_with :: "char \<Rightarrow> string list \<Rightarrow> string" where
  "join_with sep [] = []"
| "join_with sep [s] = s"
| "join_with sep (s # t # rest) = s @ sep # join_with sep (t # rest)"

definition encode_pair :: "string \<times> string \<Rightarrow> string" where
  "encode_pair = (\<lambda>(k, v). QueryEscape k @ ''='' @ QueryEscape v)"

text \<open>The pairs in the order \<open>Values.Encode\<close> writes them: sorted by key.\<close>

definition Values_pairs :: "url_Values \<Rightarrow> (string \<times> string) list" where
  "Values_pairs vs = concat (map (\<lambda>k. map (Pair k) (case map_of vs k of Some xs \<Rightarrow> xs | None \<Rightarrow> [])) (sort (map fst vs)))"

definition Values_Encode :: "url_Values \<Rightarrow> string" where
  "Values_Encode vs = join_with CHR ''&'' (map encode_pair (Values_pairs vs))"

text \<open>How a server reads a query: the reference the encoding is measured against.\<close>

definition decode_query :: "string \<Rightarrow> (string \<times> string) list" where
  "decode_query s = (if s = [] then []
     else map (\<lambda>part. (QueryUnescape (fst (Cut part CHR ''='')), QueryUnescape (snd (Cut part CHR ''=''))))
       (split_on CHR ''&'' s))"

section \<open>Decoding inverts encoding\<close>

lemma split_on_nonempty [simp]: "split_on sep s \<noteq> []"
  by (induction sep s rule: split_on.induct) (auto split: list.splits)

lemma split_on_no_sep: "sep \<notin> set s \<Longrightarrow> split_on sep s = [s]"
  by (induction s) auto

lemma split_on_append: "sep \<notin> set s \<Longrightarrow> split_on sep (s @ sep # t) = s # split_on sep t"
  by (induction s) auto

lemma split_join: "xs \<noteq> [] \<Longrightarrow> list_all (\<lambda>s. sep \<notin> set s) xs \<Longrightarrow> split_on sep (join_with sep xs) = xs"
  by (induction sep xs rule: join_with.induct) (auto simp: split_on_no_sep split_on_append)

lemma hex_digit_value: "n < 16 \<Longrightarrow> hex_value (hex_digit n) = n"
  by (auto simp: hex_digit_def hex_value_def)

lemma hex_digit_char: "n < 16 \<Longrightarrow> hex_digit n \<noteq> CHR ''&'' \<and> hex_digit n \<noteq> CHR ''=''"
proof -
  assume n: "n < 16"
  then have "(of_char (hex_digit n) :: nat) = (if n < 10 then 48 + n else 55 + n)" by (simp add: hex_digit_def)
  then have "(of_char (hex_digit n) :: nat) \<noteq> of_char (CHR ''&'')" "(of_char (hex_digit n) :: nat) \<noteq> of_char (CHR ''='')"
    using n by auto
  then show ?thesis by auto
qed

lemma char_hex: "char_of (16 * (of_char c div 16) + of_char c mod 16 :: nat) = c"
  by (metis char_of_char mult_div_mod_eq)

lemma of_char_16: "(of_char c :: nat) div 16 < 16"
proof -
  have "(of_char c :: nat) < 256" by simp
  then show ?thesis by (simp add: less_mult_imp_div_less)
qed

lemma escape_char_clean: "x \<in> set (escape_char c) \<Longrightarrow> x \<noteq> CHR ''&'' \<and> x \<noteq> CHR ''=''"
  using hex_digit_char [OF of_char_16 [of c]] hex_digit_char [of "of_char c mod 16"]
  by (auto simp: escape_char_def query_safe_def split: if_splits)

lemma QueryEscape_clean: "CHR ''&'' \<notin> set (QueryEscape s)" "CHR ''='' \<notin> set (QueryEscape s)"
  using escape_char_clean by (auto simp: QueryEscape_def)

lemma QueryUnescape_escape_char: "QueryUnescape (escape_char c @ rest) = c # QueryUnescape rest"
proof (cases "query_safe c \<or> c = CHR '' ''")
  case True
  then show ?thesis by (auto simp: escape_char_def query_safe_def)
next
  case False
  then have "QueryUnescape (escape_char c @ rest) =
      char_of (16 * hex_value (hex_digit (of_char c div 16)) + hex_value (hex_digit (of_char c mod 16))) # QueryUnescape rest"
    by (simp add: escape_char_def)
  also have "\<dots> = char_of (16 * (of_char c div 16) + of_char c mod 16 :: nat) # QueryUnescape rest"
    by (simp only: hex_digit_value [OF of_char_16] hex_digit_value mod_less_divisor zero_less_numeral)
  finally show ?thesis by (simp only: char_hex)
qed

lemma QueryUnescape_escape [simp]: "QueryUnescape (QueryEscape s) = s"
  by (induction s) (simp_all add: QueryEscape_def QueryUnescape_escape_char)

lemma Cut_pair: "Cut (encode_pair (k, v)) CHR ''='' = (QueryEscape k, QueryEscape v)"
  using QueryEscape_clean(2) [of k]
  by (auto simp: Cut_def encode_pair_def takeWhile_append dropWhile_append)

lemma encode_pair_clean: "CHR ''&'' \<notin> set (encode_pair p)" "encode_pair p \<noteq> []"
  using QueryEscape_clean(1) by (auto simp: encode_pair_def split: prod.splits)

lemma join_with_Nil_iff: "join_with sep xs = [] \<longleftrightarrow> xs = [] \<or> xs = [[]]"
  by (induction sep xs rule: join_with.induct) auto

lemma decode_Encode: "decode_query (Values_Encode vs) = Values_pairs vs"
proof (cases "Values_pairs vs = []")
  case False
  let ?parts = "map encode_pair (Values_pairs vs)"
  have "?parts \<noteq> [[]]" using encode_pair_clean(2) by (cases "Values_pairs vs") auto
  then have "Values_Encode vs \<noteq> []" using False by (simp add: Values_Encode_def join_with_Nil_iff)
  moreover have "split_on CHR ''&'' (Values_Encode vs) = ?parts"
    unfolding Values_Encode_def using False encode_pair_clean(1) by (intro split_join) (auto simp: list_all_iff)
  ultimately show ?thesis by (auto simp: decode_query_def Cut_pair intro!: map_idI)
qed (simp add: decode_query_def Values_Encode_def)

lemma Values_pairs_set: "distinct (map fst vs) \<Longrightarrow> set (Values_pairs vs) = {(k, v). \<exists>xs. (k, xs) \<in> set vs \<and> v \<in> set xs}"
  by (force simp: Values_pairs_def split: option.splits dest: map_of_SomeD)

end
