(* ===== verification/Executor_Rules.thy ===== *)
theory Executor_Rules
  imports Exchange_Executor
begin

text \<open>
  Executions of the exchange adapters (\<open>exchange/executor.go\<close> with a builder of the adapter). A builder
  reads and writes state of its own, such as the variables its closure captures; \<open>lift_executor\<close> puts
  an executor on a world that carries such state along untouched. The locale \<open>attempt_protocol\<close> is the
  proof rule for an execution: assertions for the moments before an attempt, after the builder and after
  the transmission.
\<close>

section \<open>An executor on a larger world\<close>

definition lift_step :: "('w \<Rightarrow> 'a \<times> 'w) \<Rightarrow> 'w \<times> 's \<Rightarrow> 'a \<times> 'w \<times> 's" where
  "lift_step f = (\<lambda>(w, s). case f w of (r, w') \<Rightarrow> (r, w', s))"

definition lift_limiter :: "'w limiter_ops \<Rightarrow> ('w \<times> 's) limiter_ops" where
  "lift_limiter l =
     \<lparr>lo_Wait = (\<lambda>ctx cs. lift_step (lo_Wait l ctx cs)), lo_BlockFor = (\<lambda>keys d. lift_step (lo_BlockFor l keys d))\<rparr>"

definition lift_executor :: "'w Executor \<Rightarrow> ('w \<times> 's) Executor" where
  "lift_executor x =
     \<lparr>xe_sender = (\<lambda>ctx r rq. lift_step (xe_sender x ctx r rq)), xe_limiter = lift_limiter (xe_limiter x),
      xe_maxResponseBodyBytes = xe_maxResponseBodyBytes x, xe_readRetryPolicy = xe_readRetryPolicy x,
      xe_observer = map_option (\<lambda>f ob (w, s). (f ob w, s)) (xe_observer x)\<rparr>"

definition lift_runtime :: "'w go_runtime \<Rightarrow> ('w \<times> 's) go_runtime" where
  "lift_runtime rt =
     \<lparr>go_now = (\<lambda>(w, s). go_now rt w), go_ctxErr = (\<lambda>ctx (w, s). go_ctxErr rt ctx w),
      go_Int64N = (\<lambda>n. lift_step (go_Int64N rt n)), go_timer = (\<lambda>ctx d. lift_step (go_timer rt ctx d)),
      go_ParseTime = go_ParseTime rt\<rparr>"

lemmas lift_defs = lift_step_def lift_limiter_def lift_executor_def lift_runtime_def

section \<open>Assertions along an execution\<close>

text \<open>
  \<open>P\<close> holds before an attempt, \<open>F\<close> after a builder that gave no request, \<open>B rq\<close> after one that gave
  \<open>rq\<close>, and \<open>R\<close> after \<open>rq\<close> was handed to the sender.
\<close>

locale attempt_protocol =
  fixes rt :: "'w go_runtime" and x :: "'w Executor" and route :: EgressRouteID and b :: "'w BuildRequest"
    and P F R :: "'w \<Rightarrow> bool" and B :: "http_Request \<Rightarrow> 'w \<Rightarrow> bool"
  assumes wait: "P w \<Longrightarrow> lo_Wait (xe_limiter x) ctx cs w = (we, w') \<Longrightarrow> P w'"
    and build: "P w \<Longrightarrow> b ctx w = (r, w') \<Longrightarrow> (case r of Inr (Some rq) \<Rightarrow> B rq w' | _ \<Rightarrow> F w')"
    and send: "B rq w \<Longrightarrow> xe_sender x c route (Some rq) w = (r', w') \<Longrightarrow> R w'"
    and observer: "xe_observer x = Some f \<Longrightarrow> (P w \<longrightarrow> P (f ob w)) \<and> (F w \<longrightarrow> F (f ob w)) \<and> (R w \<longrightarrow> R (f ob w))"
    and block: "R w \<Longrightarrow> R (snd (lo_BlockFor (xe_limiter x) keys d w))"
    and random: "R w \<Longrightarrow> R (snd (go_Int64N rt n w))"
    and timer: "R w \<Longrightarrow> R (snd (go_timer rt ctx d w))"
begin

lemma observe_keeps:
  "P w \<Longrightarrow> P (observe rt x e ep a st code err w)"
  "F w \<Longrightarrow> F (observe rt x e ep a st code err w)"
  "R w \<Longrightarrow> R (observe rt x e ep a st code err w)"
  using observer by (auto simp: observe_def split: option.split)

lemma retry_after_keeps: "R w \<Longrightarrow> R (applyRetryAfter rt x hs cs w)"
  using block by (auto simp: applyRetryAfter_def Let_def)

lemma wait_before_retry_keeps: "R w \<Longrightarrow> waitBeforeRetry rt x ctx a w = (we, w') \<Longrightarrow> R w'"
  using random [of w] timer
  by (auto simp: waitBeforeRetry_def Let_def split: prod.splits if_splits)
     (metis snd_conv)+

lemma response_keeps:
  assumes "R w" "attempt_response rt x ctx e ep a st hr w = (resp, retry, err, w')"
  shows "R w'"
  using assms retry_after_keeps observe_keeps(3)
  by (auto simp: attempt_response_def Let_def split: sum.splits if_splits)

lemma send_keeps:
  assumes "B rq w" "ex_EgressRouteID e = route" "attempt_send rt x ctx e a st rq w = (resp, retry, err, w')"
  shows "R w'"
proof -
  obtain r w1 where sent: "xe_sender x (Some ctx) route (Some rq) w = (r, w1)" by fastforce
  then have "R w1" using assms(1) send by blast
  with assms(2,3) sent observe_keeps(3) response_keeps show ?thesis
    by (auto simp: attempt_send_def Let_def split: sum.splits)
qed

lemma attempt:
  assumes "P w" "ex_EgressRouteID e = route" "executeAttempt rt x ctx e b a w = (resp, retry, err, w')"
  shows "(P w' \<or> F w') \<and> err \<noteq> None \<and> \<not> retry \<or>
     R w' \<and> (retry \<longrightarrow> ex_Operation e = OperationRead) \<and>
     (ex_Operation e = OperationMutation \<longrightarrow> pred_option unknown_outcome err)"
proof -
  obtain we w1 where granted: "lo_Wait (xe_limiter x) ctx (ex_Charges e) w = (we, w1)" by fastforce
  then have P: "P w1" using assms(1) wait by blast
  obtain r w2 where built: "b ctx w1 = (r, w2)" by fastforce
  note after = build [OF P built]
  show ?thesis
  proof (cases "\<exists>rq. we = None \<and> r = Inr (Some rq)")
    case True
    then obtain rq where rq: "we = None" "r = Inr (Some rq)" by blast
    then have "attempt_send rt x ctx e a (go_now rt w) rq w2 = (resp, retry, err, w')"
      using assms(3) granted built by (simp add: executeAttempt_def Let_def)
    with rq after assms(2) show ?thesis using send_keeps attempt_send_result by fastforce
  next
    case False
    with assms(3) granted built P after observe_keeps show ?thesis
      by (auto simp: executeAttempt_def Let_def split: option.splits sum.splits)
  qed
qed

text \<open>An execution of a mutation makes one attempt.\<close>

lemma mutation:
  assumes "Execute rt x ctx e w = (resp, err, w')" "P w" "ex_Operation e = OperationMutation"
    "ex_EgressRouteID e = route" "ex_Build e = Some b"
  shows "(P w' \<or> F w') \<and> err \<noteq> None \<or> R w' \<and> pred_option unknown_outcome err"
proof (cases "\<exists>c. ctx = Some c \<and> ExchangeID_Valid (ex_Exchange e) \<and> TrimSpace (ex_EgressRouteID e) \<noteq> []")
  case True
  then obtain c where c: "ctx = Some c" "ExchangeID_Valid (ex_Exchange e)" "TrimSpace (ex_EgressRouteID e) \<noteq> []" by blast
  define rc where "rc = (if 0 < ex_Timeout e then WithTimeoutCtx c (ex_Timeout e) else c)"
  obtain resp1 retry err1 w1 where att: "executeAttempt rt x rc e b 1 w = (resp1, retry, err1, w1)"
    by (cases "executeAttempt rt x rc e b 1 w") auto
  note one = attempt [OF assms(2,4) att]
  have "Execute rt x ctx e w = execute_loop rt x rc e b 1 (nat 1) 1 w"
    using c assms(3,5) by (simp add: Execute_def rc_def maxAttempts_of_def Let_def)
  also have "\<dots> = (resp1, err1, w1)"
    using att one assms(3) by (auto simp: eval_nat_numeral)
  finally show ?thesis using one assms(1,3) by auto
qed (use assms in \<open>auto simp: Execute_def split: option.splits if_splits\<close>)

text \<open>A read may make several; the state after a transmission is one to start the next attempt from.\<close>

lemma loop:
  assumes "\<And>w. R w \<Longrightarrow> P w" "ex_EgressRouteID e = route"
  shows "P w \<Longrightarrow> execute_loop rt x ctx e b m n a w = (resp, err, w') \<Longrightarrow> P w' \<or> F w'"
proof (induction n arbitrary: a w)
  case (Suc n)
  obtain resp1 retry err1 w1 where att: "executeAttempt rt x ctx e b a w = (resp1, retry, err1, w1)"
    by (cases "executeAttempt rt x ctx e b a w") auto
  note one = attempt [OF Suc.prems(1) assms(2) att]
  show ?case
  proof (cases "retry \<and> a \<noteq> m")
    case False
    with Suc.prems att one assms(1) show ?thesis by (auto split: if_splits)
  next
    case True
    obtain we w2 where wt: "waitBeforeRetry rt x ctx a w1 = (we, w2)" by fastforce
    with True one have "P w2" using assms(1) wait_before_retry_keeps by blast
    with Suc att True wt show ?thesis by (auto split: option.splits)
  qed
qed simp

lemma read:
  assumes "\<And>w. R w \<Longrightarrow> P w" "Execute rt x ctx e w = (resp, err, w')" "P w" "ex_EgressRouteID e = route"
    "ex_Build e = Some b"
  shows "P w' \<or> F w'"
  using assms(2,3,5) loop [OF assms(1,4)]
  by (auto simp: Execute_def Let_def simp del: execute_loop.simps split: option.splits if_splits)

end

section \<open>The requests a run hands to the sender\<close>

fun sent :: "exec_event list \<Rightarrow> (EgressRouteID \<times> http_Request) list" where
  "sent [] = []"
| "sent (EvSend r rq # evs) = (r, rq) # sent evs"
| "sent (_ # evs) = sent evs"

lemma sent_append [simp]: "sent (xs @ ys) = sent xs @ sent ys"
  by (induction xs rule: sent.induct) auto

text \<open>What the operations of a recording executor on a larger world do to the record.\<close>

lemma lifted_trace:
  "lo_Wait (xe_limiter (lift_executor (traced_executor x))) ctx cs ((w, evs), s) = (r, w') \<Longrightarrow>
     \<exists>v. w' = ((v, evs @ [EvWait (r = None)]), s)"
  "xe_sender (lift_executor (traced_executor x)) c route (Some rq) ((w, evs), s) = (r', w') \<Longrightarrow>
     \<exists>v. w' = ((v, evs @ [EvSend route rq]), s)"
  "xe_observer (lift_executor (traced_executor x)) = Some f \<Longrightarrow> \<exists>v. f ob ((w, evs), s) = ((v, evs), s)"
  "\<exists>v. snd (lo_BlockFor (xe_limiter (lift_executor (traced_executor x))) keys d ((w, evs), s)) = ((v, evs), s)"
  "\<exists>v. snd (go_Int64N (lift_runtime (traced_runtime rt)) n ((w, evs), s)) = ((v, evs), s)"
  "\<exists>v. snd (go_timer (lift_runtime (traced_runtime rt)) ctx d ((w, evs), s)) = ((v, evs), s)"
  by (auto simp: lift_defs trace_defs split: prod.splits)

end
