(* ===== verification/Request_Values.thy ===== *)
theory Request_Values
  imports Trade_Core Go_Url
begin

text \<open>
  What the \<open>requests.go\<close> files of the adapters share: checks that stop at the first error, texts without
  surrounding whitespace, and query values that are set when they are given. Each adapter has its own copy of
  these functions; they are defined once here. The lemmas show what a passed check says and that a
  query which is built by these setters is read back, key by key, as it was set.
\<close>

section \<open>Checks\<close>

text \<open>The checks of a method in order: the first error is returned.\<close>

fun first_of :: "go_error option list \<Rightarrow> go_error option" where
  "first_of [] = None"
| "first_of (Some err # checks) = Some err"
| "first_of (None # checks) = first_of checks"

definition check_arg :: "bool \<Rightarrow> string \<Rightarrow> go_arg list \<Rightarrow> go_error option" where
  "check_arg bad format arguments = (if bad then Some (validationError format arguments) else None)"

definition validateRequiredText :: "string \<Rightarrow> string \<Rightarrow> go_error option" where
  "validateRequiredText name val =
     check_arg (TrimSpace val = [] \<or> TrimSpace val \<noteq> val)
       ''%s is required and cannot have surrounding whitespace'' [StrArg name]"

definition validateOptionalText :: "string \<Rightarrow> string \<Rightarrow> go_error option" where
  "validateOptionalText name val = (if val = [] then None else validateRequiredText name val)"

definition validatePositiveDecimalText :: "string \<Rightarrow> string \<Rightarrow> go_error option" where
  "validatePositiveDecimalText name val =
     check_arg (\<not> positiveDecimalPattern val \<or> Trim val ''0.'' = []) ''%s must be a positive decimal string'' [StrArg name]"

text \<open>\<open>start.After(end)\<close> on optional times.\<close>

definition time_after :: "int option \<Rightarrow> int option \<Rightarrow> bool" where
  "time_after s e = (case (s, e) of (Some a, Some b) \<Rightarrow> b < a | _ \<Rightarrow> False)"

section \<open>Query values\<close>

definition setIfNotEmpty :: "url_Values \<Rightarrow> string \<Rightarrow> string \<Rightarrow> url_Values" where
  "setIfNotEmpty vs key val = (if val \<noteq> [] then Values_Set vs key val else vs)"

definition setPositiveInt :: "url_Values \<Rightarrow> string \<Rightarrow> int \<Rightarrow> url_Values" where
  "setPositiveInt vs key val = (if 0 < val then Values_Set vs key (int_str val) else vs)"

definition UnixMilli :: "int \<Rightarrow> int" where
  "UnixMilli nanoseconds = wrap64 (nanoseconds div 1000000)"

definition setTime :: "url_Values \<Rightarrow> string \<Rightarrow> int option \<Rightarrow> url_Values" where
  "setTime vs key val = (case val of None \<Rightarrow> vs | Some t \<Rightarrow> Values_Set vs key (int_str (UnixMilli t)))"

section \<open>What the checks decide\<close>

lemma first_of_None: "first_of cs = None \<longleftrightarrow> (\<forall>c \<in> set cs. c = None)"
  by (induction cs rule: first_of.induct) auto

lemma first_of_simps [simp]:
  "first_of (c # cs) = None \<longleftrightarrow> c = None \<and> first_of cs = None"
  by (simp add: first_of_None)

lemma case_error_None: "(case c of Some err \<Rightarrow> Some err | None \<Rightarrow> d) = None \<longleftrightarrow> c = None \<and> d = None"
  by (simp split: option.split)

lemma first_of_Some: "first_of cs = Some err \<Longrightarrow> Some err \<in> set cs"
  by (induction cs rule: first_of.induct) auto

lemma check_arg_None [simp]: "check_arg bad f xs = None \<longleftrightarrow> \<not> bad"
  by (simp add: check_arg_def)

definition plain_text :: "string \<Rightarrow> bool" where
  "plain_text s \<longleftrightarrow> s \<noteq> [] \<and> TrimSpace s = s"

lemma validateRequiredText_None [simp]: "validateRequiredText name val = None \<longleftrightarrow> plain_text val"
  by (auto simp: validateRequiredText_def plain_text_def)

lemma validateOptionalText_None [simp]: "validateOptionalText name val = None \<longleftrightarrow> val = [] \<or> plain_text val"
  by (auto simp: validateOptionalText_def)

lemma validatePositiveDecimalText_None [simp]:
  "validatePositiveDecimalText name val = None \<longleftrightarrow> positiveDecimalPattern val \<and> 0 < decimal_value val"
  using Trim_zero_pos [of val] by (auto simp: validatePositiveDecimalText_def)

section \<open>Queries read back\<close>

definition single_valued :: "url_Values \<Rightarrow> bool" where
  "single_valued vs \<longleftrightarrow> distinct (map fst vs) \<and> list_all (\<lambda>p. length (snd p) = 1) vs"

lemma single_valued_Set [intro]: "single_valued vs \<Longrightarrow> single_valued (Values_Set vs k v)"
proof -
  have "list_all (\<lambda>p. length (snd p) = 1) vs \<Longrightarrow> list_all (\<lambda>p. length (snd p) = 1) (AList.update k [v] vs)"
    by (induction vs) auto
  then show "single_valued vs \<Longrightarrow> single_valued (Values_Set vs k v)"
    by (auto simp: single_valued_def Values_Set_def distinct_update)
qed

lemma single_valued_setters [intro]:
  "single_valued []" "single_valued vs \<Longrightarrow> single_valued (setIfNotEmpty vs k v)"
  "single_valued vs \<Longrightarrow> single_valued (setPositiveInt vs k n)" "single_valued vs \<Longrightarrow> single_valued (setTime vs k t)"
  by (auto simp: setIfNotEmpty_def setPositiveInt_def setTime_def single_valued_def [of "[]"]
      split: option.split intro!: single_valued_Set)

lemma map_of_pairs:
  assumes "single_valued vs"
  shows "map_of (Values_pairs vs) k = map_option hd (map_of vs k)"
proof -
  let ?val = "\<lambda>k. hd (the (map_of vs k))"
  have one: "(case map_of vs k of Some xs \<Rightarrow> xs | None \<Rightarrow> []) = [?val k]" if "k \<in> fst ` set vs" for k
  proof -
    from that obtain xs where xs: "map_of vs k = Some xs" by (metis map_of_eq_None_iff not_Some_eq)
    then have "length xs = 1" using assms by (auto simp: single_valued_def list_all_iff dest: map_of_SomeD)
    then show ?thesis using xs by (cases xs) auto
  qed
  have "Values_pairs vs = concat (map (\<lambda>k. [(k, ?val k)]) (sort (map fst vs)))"
    unfolding Values_pairs_def by (intro arg_cong [where f = concat] map_cong refl) (auto simp: one)
  also have "\<dots> = map (\<lambda>k. (k, ?val k)) (sort (map fst vs))" by (simp add: concat_map_singleton)
  finally have "Values_pairs vs = \<dots>" .
  then have "map_of (Values_pairs vs) k = (if k \<in> fst ` set vs then Some (?val k) else None)"
    by (simp add: map_of_map_restrict restrict_map_def)
  then show ?thesis by (auto simp: map_of_eq_None_iff dest: weak_map_of_SomeI split: option.split)
qed

lemma query_reads_back: "single_valued vs \<Longrightarrow> map_of (decode_query (Values_Encode vs)) k = map_option hd (map_of vs k)"
  by (simp add: decode_Encode map_of_pairs)

text \<open>Reading one key back, setter by setter.\<close>

definition reads :: "url_Values \<Rightarrow> string \<Rightarrow> string option" where
  "reads vs k = map_option hd (map_of vs k)"

lemma reads_setters:
  "reads (Values_Set vs k v) x = (if x = k then Some v else reads vs x)"
  "reads [] x = None"
  "reads (setIfNotEmpty vs k v) x = (if x = k \<and> v \<noteq> [] then Some v else reads vs x)"
  "reads (setPositiveInt vs k n) x = (if x = k \<and> 0 < n then Some (int_str n) else reads vs x)"
  "reads (setTime vs k t) x = (if x = k \<and> t \<noteq> None then Some (int_str (UnixMilli (the t))) else reads vs x)"
  by (auto simp: reads_def Values_Set_def update_conv' setIfNotEmpty_def setPositiveInt_def setTime_def
      split: option.split)

lemma dom_within:
  assumes "\<And>k. k \<notin> S \<Longrightarrow> f k = None"
  shows "dom f \<subseteq> S"
proof
  fix k
  assume "k \<in> dom f"
  then show "k \<in> S" using assms [of k] by (cases "k \<in> S") (simp_all add: dom_def)
qed

end
