(* ===== verification/Signed_Calls.thy ===== *)
theory Signed_Calls
  imports Executor_Rules Credential_Policy Request_Values
begin

text \<open>
  What the REST clients of the adapters share. A call runs on the world of its executor together with
  \<open>call_memory\<close>: the byte store of the key material, the clock offset of the client, and the two variables the
  closures of a call capture. \<open>url.Parse\<close> and the credential provider are parameters; a provider returns
  material and an error, as its Go signature does.

  A signed call asks the provider for key material in its builder, signs a request with it, and destroys the
  variable the material is in when it returns. The locale \<open>signed_builder\<close> is the contract of such a builder
  and \<open>signed_call\<close> that of the whole call; their lemmas say which requests are sent, what an error
  means after a mutation was sent, and what becomes of the key material.
\<close>

section \<open>State\<close>

record call_memory =
  bm_heap :: byte_heap
  bm_offset :: int
  bm_material :: Material
  bm_startedAt :: int

text \<open>The result of \<open>url.Parse\<close>; \<open>ul_User\<close> says whether there is user information.\<close>

record parsed_URL =
  ul_Scheme :: string
  ul_Host :: string
  ul_Path :: string
  ul_User :: bool
  ul_RawQuery :: string
  ul_Fragment :: string

type_synonym 'w key_Provider =
  "go_context \<Rightarrow> string \<Rightarrow> 'w \<times> byte_heap \<Rightarrow> (Material \<times> go_error option) \<times> 'w \<times> byte_heap"

text \<open>The executor with what the client uses of its \<open>Limiter()\<close>.\<close>

record 'w rest_executor =
  rx_runtime :: "'w go_runtime"
  rx_executor :: "'w Executor"
  rx_SetRule :: "Rule \<Rightarrow> 'w \<Rightarrow> go_error option \<times> 'w"
  rx_ObserveUsed :: "string \<Rightarrow> int \<Rightarrow> 'w \<Rightarrow> go_error option \<times> 'w"

abbreviation zeroSlice :: byte_slice where "zeroSlice \<equiv> \<lparr>sl_array = 0, sl_offset = 0, sl_len = 0\<rparr>"
abbreviation zeroMaterial :: Material where
  "zeroMaterial \<equiv> \<lparr>mt_APIKey = zeroSlice, mt_SecretKey = zeroSlice, mt_Passphrase = zeroSlice, mt_Extra = []\<rparr>"

text \<open>The deferred \<open>material.Destroy()\<close>.\<close>

definition key_destroy :: "call_memory \<Rightarrow> call_memory" where
  "key_destroy m =
     (case Material_Destroy (Some (bm_material m)) (bm_heap m) of
        (material, h) \<Rightarrow> m\<lparr>bm_material := (case material of Some x \<Rightarrow> x | None \<Rightarrow> bm_material m), bm_heap := h\<rparr>)"

text \<open>The bytes a slice shows.\<close>

definition slice_string :: "byte_heap \<Rightarrow> byte_slice \<Rightarrow> string" where
  "slice_string h s = map (\<lambda>i. char_of (unat (slice_get h s i))) [0..<sl_len s]"

section \<open>Execution\<close>

abbreviation rest_Execute ::
  "'w rest_executor \<Rightarrow> go_context option \<Rightarrow> ('w \<times> call_memory) Execution \<Rightarrow> 'w \<times> call_memory \<Rightarrow>
   Response \<times> go_error option \<times> 'w \<times> call_memory" where
  "rest_Execute ex \<equiv> Execute (lift_runtime (rx_runtime ex)) (lift_executor (rx_executor ex))"

definition firstNonEmpty :: "string list \<Rightarrow> string" where
  "firstNonEmpty values = (case filter (\<lambda>s. s \<noteq> []) values of s # _ \<Rightarrow> s | [] \<Rightarrow> [])"

section \<open>The material behind a call\<close>

text \<open>
  What the provider gave for the secret of the descriptor, read from a
  memory \<open>m0\<close> and left in the memory \<open>m\<close>.
\<close>

definition key_resolved :: "Descriptor \<Rightarrow> 'w key_Provider \<Rightarrow> call_memory \<Rightarrow> Material \<Rightarrow> byte_heap \<Rightarrow> bool" where
  "key_resolved d p m0 material h \<longleftrightarrow>
     (\<exists>c w1 err w2. p c (de_SecretRef d) (w1, bm_heap m0) = ((material, err), w2, h))"

definition key_left :: "Descriptor \<Rightarrow> 'w key_Provider \<Rightarrow> call_memory \<Rightarrow> call_memory \<Rightarrow> bool" where
  "key_left d p m0 m \<longleftrightarrow>
     (\<exists>material h. key_resolved d p m0 material h \<and> m = m0\<lparr>bm_heap := h, bm_material := material\<rparr>)"

section \<open>Recording what a call transmits\<close>

definition traced_provider :: "'w key_Provider \<Rightarrow> ('w \<times> exec_event list) key_Provider" where
  "traced_provider p ctx ref = (\<lambda>((w, evs), h). case p ctx ref (w, h) of (r, w', h') \<Rightarrow> (r, (w', evs), h'))"

definition traced_rest_executor :: "'w rest_executor \<Rightarrow> ('w \<times> exec_event list) rest_executor" where
  "traced_rest_executor ex =
     \<lparr>rx_runtime = traced_runtime (rx_runtime ex), rx_executor = traced_executor (rx_executor ex),
      rx_SetRule = (\<lambda>rule. lift_step (rx_SetRule ex rule)), rx_ObserveUsed = (\<lambda>key n. lift_step (rx_ObserveUsed ex key n))\<rparr>"

lemma traced_rest_executor_fields [simp]:
  "rx_runtime (traced_rest_executor ex) = traced_runtime (rx_runtime ex)"
  "rx_executor (traced_rest_executor ex) = traced_executor (rx_executor ex)"
  by (simp_all add: traced_rest_executor_def)

lemma traced_provider_iff:
  "traced_provider p c ref ((w, evs), h) = (r, (w', evs'), h') \<longleftrightarrow> p c ref (w, h) = (r, w', h') \<and> evs' = evs"
  by (auto simp: traced_provider_def split: prod.split)

lemma traced_resolved: "key_resolved d (traced_provider p) m0 material h \<longleftrightarrow> key_resolved d p m0 material h"
  by (simp add: key_resolved_def split_paired_Ex traced_provider_iff)

lemma traced_left: "key_left d (traced_provider p) m0 m \<longleftrightarrow> key_left d p m0 m"
  by (simp add: key_left_def traced_resolved)

lemma key_destroy_zero: "bm_heap (key_destroy (m\<lparr>bm_material := zeroMaterial\<rparr>)) = bm_heap m"
  by (simp add: key_destroy_def Material_Destroy_def zero_slice_def)

section \<open>The contract of a signing builder\<close>

text \<open>
  A builder on the recording world gives a good request or an error, transmits nothing, and leaves memory as
  \<open>left\<close> says.
\<close>

locale signed_builder =
  fixes build :: "(('w \<times> exec_event list) \<times> call_memory) BuildRequest"
    and good :: "http_Request \<Rightarrow> bool" and left :: "call_memory \<Rightarrow> call_memory \<Rightarrow> bool"
  assumes built: "build ctx ((w, evs), m) = (r, w', m') \<Longrightarrow> left m m' \<and> (\<exists>v. w' = (v, evs)) \<and>
    (case r of Inl err \<Rightarrow> True | Inr None \<Rightarrow> False | Inr (Some rq) \<Rightarrow> good rq)"
begin

text \<open>A mutation: nothing was sent yet, or one good request was.\<close>

lemma mutating:
  "attempt_protocol (lift_runtime (traced_runtime rt)) (lift_executor (traced_executor x)) route build
     (\<lambda>((w, evs), m). sent evs = [] \<and> m = m0) (\<lambda>((w, evs), m). sent evs = [] \<and> left m0 m)
     (\<lambda>((w, evs), m). left m0 m \<and> (\<exists>rq. sent evs = [(route, rq)] \<and> good rq))
     (\<lambda>rq ((w, evs), m). sent evs = [] \<and> good rq \<and> left m0 m)"
proof (unfold_locales, goal_cases)
  case (2 w ctx r w')
  then obtain v evs w1 m1 where w: "w = ((v, evs), m0)" "sent evs = []" "w' = (w1, m1)" by (cases w') auto
  with built [of ctx v evs m0 r w1 m1] 2(2) show ?case by (auto split: sum.split option.split)
next
  case (4 f w ob)
  obtain v evs m where w: "w = ((v, evs), m)" by (cases w) auto
  with lifted_trace(3) [OF 4, of ob v evs m] show ?case by auto
next
  case (5 w keys dd)
  obtain v evs m where w: "w = ((v, evs), m)" by (cases w) auto
  with 5 lifted_trace(4) [of x keys dd v evs m] show ?case by auto
next
  case (6 w n)
  obtain v evs m where w: "w = ((v, evs), m)" by (cases w) auto
  with 6 lifted_trace(5) [of rt n v evs m] show ?case by auto
next
  case (7 w ctx dd)
  obtain v evs m where w: "w = ((v, evs), m)" by (cases w) auto
  with 7 lifted_trace(6) [of rt ctx dd v evs m] show ?case by auto
qed (auto dest: lifted_trace(1,2))

text \<open>A read: every request that was sent is good.\<close>

lemma reading:
  "attempt_protocol (lift_runtime (traced_runtime rt)) (lift_executor (traced_executor x)) route build
     (\<lambda>((w, evs), m). list_all (\<lambda>(r, rq). r = route \<and> good rq) (sent evs))
     (\<lambda>((w, evs), m). list_all (\<lambda>(r, rq). r = route \<and> good rq) (sent evs))
     (\<lambda>((w, evs), m). list_all (\<lambda>(r, rq). r = route \<and> good rq) (sent evs))
     (\<lambda>rq ((w, evs), m). good rq \<and> list_all (\<lambda>(r, rq). r = route \<and> good rq) (sent evs))"
proof (unfold_locales, goal_cases)
  case (2 w ctx r w')
  obtain v evs m w1 m1 where w: "w = ((v, evs), m)" "w' = (w1, m1)" by (cases w, cases w') auto
  with built [of ctx v evs m r w1 m1] 2 show ?case by (auto split: sum.split option.split)
next
  case (4 f w ob)
  obtain v evs m where w: "w = ((v, evs), m)" by (cases w) auto
  with lifted_trace(3) [OF 4, of ob v evs m] show ?case by auto
next
  case (5 w keys dd)
  obtain v evs m where w: "w = ((v, evs), m)" by (cases w) auto
  with 5 lifted_trace(4) [of x keys dd v evs m] show ?case by auto
next
  case (6 w n)
  obtain v evs m where w: "w = ((v, evs), m)" by (cases w) auto
  with 6 lifted_trace(5) [of rt n v evs m] show ?case by auto
next
  case (7 w ctx dd)
  obtain v evs m where w: "w = ((v, evs), m)" by (cases w) auto
  with 7 lifted_trace(6) [of rt ctx dd v evs m] show ?case by auto
qed (auto dest: lifted_trace(1,2))

lemma execution_mutation:
  assumes "Execute (lift_runtime (traced_runtime rt)) (lift_executor (traced_executor x)) ctx e ((v, []), m) =
      (response, err, (w1, evs), m1)"
    "ex_Operation e = OperationMutation" "ex_Build e = Some build"
  shows "sent evs = [] \<and> m1 = m \<and> err \<noteq> None \<or> sent evs = [] \<and> left m m1 \<and> err \<noteq> None \<or>
    left m m1 \<and> (\<exists>rq. sent evs = [(ex_EgressRouteID e, rq)] \<and> good rq) \<and> pred_option unknown_outcome err"
  using attempt_protocol.mutation [OF mutating [of rt x "ex_EgressRouteID e" m] assms(1) _ assms(2) refl assms(3)] by auto

lemma execution_sends:
  assumes "Execute (lift_runtime (traced_runtime rt)) (lift_executor (traced_executor x)) ctx e ((v, []), m) =
      (response, err, (w1, evs), m1)" "ex_Build e = Some build"
  shows "list_all (\<lambda>(r, rq). r = ex_EgressRouteID e \<and> good rq) (sent evs)"
  using attempt_protocol.read [OF reading [of rt x "ex_EgressRouteID e"] _ assms(1) _ refl assms(2)] by auto

end

section \<open>The contract of a signed call\<close>

text \<open>A run of the executor that a call makes, with its builder.\<close>

definition signed_run ::
  "(http_Request \<Rightarrow> bool) \<Rightarrow> (call_memory \<Rightarrow> call_memory \<Rightarrow> bool) \<Rightarrow> EgressRouteID \<Rightarrow> OperationKind \<Rightarrow>
   ('w \<times> exec_event list) \<times> call_memory \<Rightarrow> Response \<Rightarrow> go_error option \<Rightarrow> ('w \<times> exec_event list) \<times> call_memory \<Rightarrow> bool" where
  "signed_run good left route operation s response err s' \<longleftrightarrow>
     (\<exists>build rt x ctx e. signed_builder build good left \<and> ex_EgressRouteID e = route \<and> ex_Operation e = operation \<and>
        ex_Build e = Some build \<and>
        Execute (lift_runtime (traced_runtime rt)) (lift_executor (traced_executor x)) ctx e s = (response, err, s'))"

lemma signed_run_mutation:
  assumes "signed_run good left route OperationMutation ((v, []), m) response err ((w1, evs), m1)"
  shows "sent evs = [] \<and> m1 = m \<and> err \<noteq> None \<or> sent evs = [] \<and> left m m1 \<and> err \<noteq> None \<or>
    left m m1 \<and> (\<exists>rq. sent evs = [(route, rq)] \<and> good rq) \<and> pred_option unknown_outcome err"
  using assms signed_builder.execution_mutation unfolding signed_run_def by metis

lemma signed_run_sends:
  assumes "signed_run good left route operation ((v, []), m) response err ((w1, evs), m1)"
  shows "list_all (\<lambda>(r, rq). r = route \<and> good rq) (sent evs)"
  using assms signed_builder.execution_sends unfolding signed_run_def by metis

text \<open>
  A call either is refused before it reaches the executor, or has credentials that allow its route and
  its permission, makes one run with the material variable empty, and destroys the variable.
\<close>

locale signed_call =
  fixes call :: "OperationKind \<Rightarrow> ('w \<times> exec_event list) \<times> call_memory \<Rightarrow>
      Response result \<times> ('w \<times> exec_event list) \<times> call_memory"
    and credentials :: "Descriptor option" and provider :: "'w key_Provider option"
    and resolved :: "RequestOptions result" and permission :: Permission
    and good :: "Descriptor \<Rightarrow> 'w key_Provider \<Rightarrow> http_Request \<Rightarrow> bool"
  assumes runs: "call operation ((w, evs), m) = (res, (w', m')) \<Longrightarrow>
     (\<exists>err v. res = Inl err \<and> w' = (v, evs) \<and> m' = m) \<or>
     (\<exists>d p o' (v :: 'w) response err (w1 :: 'w \<times> exec_event list) m1. credentials = Some d \<and> provider = Some p \<and> resolved = Inr o' \<and>
        AllowsEgressRoute d (ro_EgressRouteID o') \<and> AllowsPermission d permission \<and>
        signed_run (good d p) (key_left d p) (ro_EgressRouteID o') operation
          ((v, evs), m\<lparr>bm_material := zeroMaterial\<rparr>) response err (w1, m1) \<and>
        m' = key_destroy m1 \<and> snd w' = snd w1 \<and> res = (case err of Some e \<Rightarrow> Inl e | None \<Rightarrow> Inr response))"
begin

lemma call_cases:
  assumes "call operation ((w, []), m) = (res, ((w', evs), m'))"
  obtains (refused) err where "res = Inl err" "evs = []" "m' = m"
  | (run) d p o' and v :: 'w and response err and w1 :: 'w and m1 where "credentials = Some d" "provider = Some p" "resolved = Inr o'"
      "AllowsEgressRoute d (ro_EgressRouteID o')" "AllowsPermission d permission"
      "signed_run (good d p) (key_left d p) (ro_EgressRouteID o') operation
         ((v, []), m\<lparr>bm_material := zeroMaterial\<rparr>) response err ((w1, evs), m1)"
      "m' = key_destroy m1" "res = (case err of Some e \<Rightarrow> Inl e | None \<Rightarrow> Inr response)"
  using runs [OF assms]
proof (elim disjE exE conjE)
  fix d p o' response err m1 and v :: 'w and w1 :: "'w \<times> exec_event list"
  assume run': "credentials = Some d" "provider = Some p" "resolved = Inr o'"
      "AllowsEgressRoute d (ro_EgressRouteID o')" "AllowsPermission d permission"
      "signed_run (good d p) (key_left d p) (ro_EgressRouteID o') operation
         ((v, []), m\<lparr>bm_material := zeroMaterial\<rparr>) response err (w1, m1)"
      "m' = key_destroy m1" "snd (w', evs) = snd w1" "res = (case err of Some e \<Rightarrow> Inl e | None \<Rightarrow> Inr response)"
  then have "w1 = (fst w1, evs)" by (cases w1) simp
  with run'(6) have "signed_run (good d p) (key_left d p) (ro_EgressRouteID o') operation
      ((v, []), m\<lparr>bm_material := zeroMaterial\<rparr>) response err ((fst w1, evs), m1)" by simp
  from run [OF run'(1-5) this run'(7,9)] show thesis .
qed (use refused in simp)

lemma sends:
  assumes "call operation ((w, []), m) = (res, ((w', evs), m'))"
  shows "sent evs = [] \<or> (\<exists>d p o'. credentials = Some d \<and> provider = Some p \<and> resolved = Inr o' \<and>
     AllowsEgressRoute d (ro_EgressRouteID o') \<and> AllowsPermission d permission \<and>
     list_all (\<lambda>(r, rq). r = ro_EgressRouteID o' \<and> good d p rq) (sent evs))"
  using assms
proof (cases rule: call_cases)
  case (run d p o' v response err w1 m1)
  with signed_run_sends [OF run(6)] show ?thesis by blast
qed simp

lemma requests_signed:
  assumes "call operation ((w, []), m) = (res, ((w', evs), m'))" "(r, rq) \<in> set (sent evs)"
  shows "\<exists>d p o'. credentials = Some d \<and> provider = Some p \<and> resolved = Inr o' \<and> r = ro_EgressRouteID o' \<and>
     r \<in> set (de_AllowedEgressRouteIDs d) \<and> permission \<in> set (de_Permissions d) \<and> good d p rq"
  using sends [OF assms(1)] assms(2) by (fastforce simp: list_all_iff AllowsEgressRoute_def AllowsPermission_def)

lemma mutation_run:
  assumes "call OperationMutation ((w, []), m) = (res, ((w', evs), m'))"
  obtains (unsent) err where "res = Inl err" "sent evs = []" "bm_heap m' = bm_heap m"
  | (unbuilt) err d p m1 where "res = Inl err" "sent evs = []" "credentials = Some d" "provider = Some p"
      "key_left d p (m\<lparr>bm_material := zeroMaterial\<rparr>) m1" "m' = key_destroy m1"
  | (transmitted) d p o' rq m1 where "credentials = Some d" "provider = Some p" "resolved = Inr o'"
      "sent evs = [(ro_EgressRouteID o', rq)]" "good d p rq"
      "key_left d p (m\<lparr>bm_material := zeroMaterial\<rparr>) m1" "m' = key_destroy m1"
      "case res of Inl err \<Rightarrow> unknown_outcome err | Inr response \<Rightarrow> True"
  using assms
proof (cases rule: call_cases)
  case refused
  then show thesis using unsent by simp
next
  case (run d p o' v response err w1 m1)
  let ?m = "m\<lparr>bm_material := zeroMaterial\<rparr>"
  from signed_run_mutation [OF run(6)] consider "sent evs = []" "m1 = ?m" "err \<noteq> None"
      | "sent evs = []" "key_left d p ?m m1" "err \<noteq> None"
      | rq where "key_left d p ?m m1" "sent evs = [(ro_EgressRouteID o', rq)]" "good d p rq" "pred_option unknown_outcome err"
      by blast
  then show thesis
  proof cases
    case 1
    then show thesis using run(7,8) unsent key_destroy_zero by (metis option.case(2) option.exhaust)
  next
    case 2
    then show thesis using run(1,2,7,8) unbuilt by (metis option.case(2) option.exhaust)
  next
    case 3
    show thesis by (rule transmitted [OF run(1-3) 3(2,3,1) run(7)]) (use 3(4) run(8) in \<open>auto split: option.split\<close>)
  qed
qed

lemma mutation_erases:
  assumes "call OperationMutation ((w, []), m) = (res, ((w', evs), m'))"
  shows "bm_heap m' = bm_heap m \<or> (\<exists>d p material h. credentials = Some d \<and> provider = Some p \<and>
     key_resolved d p m material h \<and>
     (\<forall>a j. j < length (h a) \<longrightarrow> bm_heap m' a ! j =
        (if \<exists>s \<in> {mt_APIKey material, mt_SecretKey material, mt_Passphrase material} \<union> snd ` set (mt_Extra material). covers s a j
         then 0 else h a ! j)))"
proof -
  have erased: ?thesis if left: "credentials = Some d" "provider = Some p"
    "key_left d p (m\<lparr>bm_material := zeroMaterial\<rparr>) m1" "m' = key_destroy m1" for d p m1
  proof -
    from left(3) obtain material h where mat: "key_resolved d p (m\<lparr>bm_material := zeroMaterial\<rparr>) material h"
      "m1 = m\<lparr>bm_material := zeroMaterial\<rparr>\<lparr>bm_heap := h, bm_material := material\<rparr>" unfolding key_left_def by blast
    then have res: "key_resolved d p m material h" by (simp add: key_resolved_def)
    obtain x h1 where des: "Material_Destroy (Some material) h = (x, h1)" by fastforce
    then have "bm_heap m' = h1" using left(4) mat(2) by (simp add: key_destroy_def)
    with Material_Destroy_effect [OF des] res left(1,2) show ?thesis by blast
  qed
  from assms show ?thesis
    by (cases rule: mutation_run) (use erased in blast)+
qed

end

end
