(* ===== verification/Bybit_Requests.thy ===== *)
theory Bybit_Requests
  imports Request_Values
begin

text \<open>
  The requests of the Bybit V5 adapter (\<open>exchange/bybit/requests.go\<close>): their validation and the query
  values they are sent as. Texts are byte lists; an optional time is its distance from the Unix epoch in
  nanoseconds.
\<close>

section \<open>Types\<close>

type_synonym Category = string
abbreviation CategorySpot :: Category where "CategorySpot \<equiv> ''spot''"
abbreviation CategoryLinear :: Category where "CategoryLinear \<equiv> ''linear''"

abbreviation bybit_SideBuy :: string where "bybit_SideBuy \<equiv> ''Buy''"
abbreviation bybit_SideSell :: string where "bybit_SideSell \<equiv> ''Sell''"
abbreviation bybit_OrderTypeMarket :: string where "bybit_OrderTypeMarket \<equiv> ''Market''"
abbreviation bybit_OrderTypeLimit :: string where "bybit_OrderTypeLimit \<equiv> ''Limit''"
abbreviation bybit_GTC :: string where "bybit_GTC \<equiv> ''GTC''"
abbreviation bybit_IOC :: string where "bybit_IOC \<equiv> ''IOC''"
abbreviation bybit_FOK :: string where "bybit_FOK \<equiv> ''FOK''"
abbreviation bybit_PostOnly :: string where "bybit_PostOnly \<equiv> ''PostOnly''"
abbreviation AccountTypeUnified :: string where "AccountTypeUnified \<equiv> ''UNIFIED''"
abbreviation MarketUnitBaseCoin :: string where "MarketUnitBaseCoin \<equiv> ''baseCoin''"
abbreviation MarketUnitQuoteCoin :: string where "MarketUnitQuoteCoin \<equiv> ''quoteCoin''"

record bybit_InstrumentsRequest =
  yin_Category :: Category
  yin_Symbol :: string
  yin_BaseCoin :: string
  yin_Status :: string
  yin_Limit :: int
  yin_Cursor :: string

record bybit_TickersRequest =
  yti_Category :: Category
  yti_Symbol :: string

record bybit_OrderBookRequest =
  yor_Category :: Category
  yor_Symbol :: string
  yor_Limit :: int

record bybit_RecentTradesRequest =
  yrt_Category :: Category
  yrt_Symbol :: string
  yrt_Limit :: int

record bybit_CandlesRequest =
  ycr_Category :: Category
  ycr_Symbol :: string
  ycr_Interval :: string
  ycr_StartTime :: "int option"
  ycr_EndTime :: "int option"
  ycr_Limit :: int

record bybit_WalletBalanceRequest =
  ywb_AccountType :: string
  ywb_Coins :: "string list"

record bybit_PositionsRequest =
  yps_Category :: Category
  yps_Symbol :: string
  yps_SettleCoin :: string
  yps_Limit :: int
  yps_Cursor :: string

record bybit_PlaceOrderRequest =
  ypo_Category :: Category
  ypo_Symbol :: string
  ypo_Side :: string
  ypo_OrderType :: string
  ypo_Quantity :: string
  ypo_Price :: string
  ypo_TimeInForce :: string
  ypo_PositionIndex :: int
  ypo_OrderLinkID :: string
  ypo_ReduceOnly :: bool
  ypo_CloseOnTrigger :: bool
  ypo_MarketUnit :: string

record bybit_CancelOrderRequest =
  yco_Category :: Category
  yco_Symbol :: string
  yco_OrderID :: string
  yco_OrderLinkID :: string

record bybit_OrderInfoRequest =
  yoi_Category :: Category
  yoi_Symbol :: string
  yoi_OrderID :: string
  yoi_OrderLinkID :: string

record bybit_OpenOrdersRequest =
  yoo_Category :: Category
  yoo_Symbol :: string
  yoo_BaseCoin :: string
  yoo_SettleCoin :: string
  yoo_Limit :: int
  yoo_Cursor :: string

record bybit_OrderHistoryRequest =
  yoh_Category :: Category
  yoh_Symbol :: string
  yoh_BaseCoin :: string
  yoh_SettleCoin :: string
  yoh_StartTime :: "int option"
  yoh_EndTime :: "int option"
  yoh_Limit :: int
  yoh_Cursor :: string

section \<open>Shared checks\<close>

definition orderLinkIDPattern :: "string \<Rightarrow> bool" where
  "orderLinkIDPattern s \<longleftrightarrow> s \<noteq> [] \<and> length s \<le> 36 \<and>
     list_all (\<lambda>c. let n = (of_char c :: nat) in (48 \<le> n \<and> n \<le> 57) \<or> (65 \<le> n \<and> n \<le> 90) \<or> (97 \<le> n \<and> n \<le> 122) \<or>
       n = 95 \<or> n = 45) s"

definition validateCategory :: "Category \<Rightarrow> go_error option" where
  "validateCategory category =
     check_arg (category \<noteq> CategorySpot \<and> category \<noteq> CategoryLinear) ''category must be spot or linear'' []"

definition validateOrderIdentity :: "string \<Rightarrow> string \<Rightarrow> go_error option" where
  "validateOrderIdentity orderID orderLinkID = first_of
     [validateOptionalText ''orderId'' orderID,
      validateOptionalText ''orderLinkId'' orderLinkID,
      check_arg (orderID = [] \<and> orderLinkID = []) ''orderId or orderLinkId is required'' [],
      check_arg (orderLinkID \<noteq> [] \<and> \<not> orderLinkIDPattern orderLinkID) ''orderLinkId has an invalid format'' []]"

definition validateOrderFilters :: "string \<Rightarrow> string \<Rightarrow> string \<Rightarrow> go_error option" where
  "validateOrderFilters symbol baseCoin settleCoin = first_of
     [validateOptionalText ''symbol'' symbol, validateOptionalText ''baseCoin'' baseCoin,
      validateOptionalText ''settleCoin'' settleCoin]"

definition validatePage :: "int \<Rightarrow> int \<Rightarrow> string \<Rightarrow> go_error option" where
  "validatePage limit maximum cursor = first_of
     [check_arg (limit < 0 \<or> maximum < limit) ''page limit must be between 1 and %d or zero for default'' [IntArg maximum],
      validateOptionalText ''cursor'' cursor]"

definition bybit_CandleInterval_valid :: "string \<Rightarrow> bool" where
  "bybit_CandleInterval_valid interval \<longleftrightarrow>
     interval \<in> set [''1'', ''3'', ''5'', ''15'', ''30'', ''60'', ''120'', ''240'', ''360'', ''720'', ''D'', ''W'', ''M'']"

definition bybit_TimeInForce_valid :: "string \<Rightarrow> bool" where
  "bybit_TimeInForce_valid t \<longleftrightarrow> t = bybit_GTC \<or> t = bybit_IOC \<or> t = bybit_FOK \<or> t = bybit_PostOnly"

section \<open>Validation\<close>

definition bybit_Instruments_validate :: "bybit_InstrumentsRequest \<Rightarrow> go_error option" where
  "bybit_Instruments_validate r = first_of
     [validateCategory (yin_Category r), validateOptionalText ''symbol'' (yin_Symbol r),
      validateOptionalText ''baseCoin'' (yin_BaseCoin r), validateOptionalText ''status'' (yin_Status r),
      validatePage (yin_Limit r) 1000 (yin_Cursor r)]"

definition bybit_Tickers_validate :: "bybit_TickersRequest \<Rightarrow> go_error option" where
  "bybit_Tickers_validate r = first_of
     [validateCategory (yti_Category r), validateOptionalText ''symbol'' (yti_Symbol r)]"

definition bybit_OrderBook_validate :: "bybit_OrderBookRequest \<Rightarrow> go_error option" where
  "bybit_OrderBook_validate r = first_of
     [validateCategory (yor_Category r), validateRequiredText ''symbol'' (yor_Symbol r),
      check_arg (yor_Limit r < 0 \<or> 1000 < yor_Limit r)
        ''order book limit must be between 1 and %d or zero for default'' [IntArg 1000]]"

definition bybit_RecentTrades_validate :: "bybit_RecentTradesRequest \<Rightarrow> go_error option" where
  "bybit_RecentTrades_validate r = first_of
     [validateCategory (yrt_Category r), validateRequiredText ''symbol'' (yrt_Symbol r),
      check_arg (yrt_Limit r < 0 \<or> 1000 < yrt_Limit r)
        ''recent trade limit must be between 1 and 1000 or zero for default'' []]"

definition bybit_Candles_validate :: "bybit_CandlesRequest \<Rightarrow> go_error option" where
  "bybit_Candles_validate r = first_of
     [validateCategory (ycr_Category r), validateRequiredText ''symbol'' (ycr_Symbol r),
      check_arg (\<not> bybit_CandleInterval_valid (ycr_Interval r)) ''unsupported candle interval %q'' [StrArg (ycr_Interval r)],
      check_arg (ycr_Limit r < 0 \<or> 1000 < ycr_Limit r)
        ''candle limit must be between 1 and 1000 or zero for default'' [],
      check_arg (time_after (ycr_StartTime r) (ycr_EndTime r)) ''candle start time cannot be after end time'' []]"

fun validate_coins :: "string list \<Rightarrow> string set \<Rightarrow> go_error option" where
  "validate_coins [] seen = None"
| "validate_coins (coin # coins) seen =
     (case first_of
        [validateRequiredText ''coin'' coin,
         check_arg (CHR '','' \<in> set coin) ''coin cannot contain a comma'' [],
         check_arg (coin \<in> seen) ''duplicate coin %q'' [StrArg coin]] of
        Some err \<Rightarrow> Some err
      | None \<Rightarrow> validate_coins coins (insert coin seen))"

definition bybit_WalletBalance_validate :: "bybit_WalletBalanceRequest \<Rightarrow> go_error option" where
  "bybit_WalletBalance_validate r = first_of
     [check_arg (ywb_AccountType r \<noteq> [] \<and> ywb_AccountType r \<noteq> AccountTypeUnified)
        ''account type must be UNIFIED or empty for default'' [],
      validate_coins (ywb_Coins r) {}]"

definition bybit_Positions_validate :: "bybit_PositionsRequest \<Rightarrow> go_error option" where
  "bybit_Positions_validate r = first_of
     [check_arg (yps_Category r \<noteq> CategoryLinear) ''positions support only linear category'' [],
      validateOptionalText ''symbol'' (yps_Symbol r), validateOptionalText ''settleCoin'' (yps_SettleCoin r),
      check_arg (yps_Symbol r = [] \<and> yps_SettleCoin r = []) ''symbol or settleCoin is required'' [],
      validatePage (yps_Limit r) 200 (yps_Cursor r)]"

definition bybit_PlaceOrder_validate :: "bybit_PlaceOrderRequest \<Rightarrow> go_error option" where
  "bybit_PlaceOrder_validate r = first_of
     [validateCategory (ypo_Category r), validateRequiredText ''symbol'' (ypo_Symbol r),
      check_arg (ypo_Side r \<noteq> bybit_SideBuy \<and> ypo_Side r \<noteq> bybit_SideSell) ''side must be Buy or Sell'' [],
      check_arg (ypo_OrderType r \<noteq> bybit_OrderTypeLimit \<and> ypo_OrderType r \<noteq> bybit_OrderTypeMarket)
        ''order type must be Limit or Market'' [],
      validatePositiveDecimalText ''qty'' (ypo_Quantity r),
      (if ypo_OrderType r = bybit_OrderTypeLimit then validatePositiveDecimalText ''price'' (ypo_Price r)
       else check_arg (ypo_Price r \<noteq> []) ''market order does not accept price'' []),
      check_arg (ypo_TimeInForce r \<noteq> [] \<and> \<not> bybit_TimeInForce_valid (ypo_TimeInForce r))
        ''unsupported time in force %q'' [StrArg (ypo_TimeInForce r)],
      check_arg (ypo_PositionIndex r < 0 \<or> 2 < ypo_PositionIndex r) ''position index must be 0, 1, or 2'' [],
      check_arg (ypo_OrderLinkID r \<noteq> [] \<and> \<not> orderLinkIDPattern (ypo_OrderLinkID r))
        ''orderLinkId has an invalid format'' [],
      check_arg (ypo_Category r = CategorySpot \<and> (ypo_PositionIndex r \<noteq> 0 \<or> ypo_ReduceOnly r \<or> ypo_CloseOnTrigger r))
        ''Spot order does not accept positionIdx, reduceOnly, or closeOnTrigger'' [],
      check_arg (ypo_MarketUnit r \<noteq> [] \<and> ypo_MarketUnit r \<noteq> MarketUnitBaseCoin \<and> ypo_MarketUnit r \<noteq> MarketUnitQuoteCoin)
        ''market unit must be baseCoin or quoteCoin'' [],
      check_arg (ypo_MarketUnit r \<noteq> [] \<and> (ypo_Category r \<noteq> CategorySpot \<or> ypo_OrderType r \<noteq> bybit_OrderTypeMarket))
        ''market unit is available only for Spot market orders'' []]"

definition bybit_CancelOrder_validate :: "bybit_CancelOrderRequest \<Rightarrow> go_error option" where
  "bybit_CancelOrder_validate r = first_of
     [validateCategory (yco_Category r), validateRequiredText ''symbol'' (yco_Symbol r),
      validateOrderIdentity (yco_OrderID r) (yco_OrderLinkID r)]"

definition bybit_OrderInfo_validate :: "bybit_OrderInfoRequest \<Rightarrow> go_error option" where
  "bybit_OrderInfo_validate r = first_of
     [validateCategory (yoi_Category r), validateOptionalText ''symbol'' (yoi_Symbol r),
      validateOrderIdentity (yoi_OrderID r) (yoi_OrderLinkID r)]"

definition bybit_OpenOrders_validate :: "bybit_OpenOrdersRequest \<Rightarrow> go_error option" where
  "bybit_OpenOrders_validate r = first_of
     [validateCategory (yoo_Category r), validateOrderFilters (yoo_Symbol r) (yoo_BaseCoin r) (yoo_SettleCoin r),
      check_arg (yoo_Category r = CategorySpot \<and> (yoo_BaseCoin r \<noteq> [] \<or> yoo_SettleCoin r \<noteq> []))
        ''Spot open orders support only symbol filter'' [],
      check_arg (yoo_Category r = CategoryLinear \<and> yoo_Symbol r = [] \<and> yoo_BaseCoin r = [] \<and> yoo_SettleCoin r = [])
        ''linear open orders require symbol, baseCoin, or settleCoin'' [],
      validatePage (yoo_Limit r) 50 (yoo_Cursor r)]"

definition bybit_OrderHistory_validate :: "bybit_OrderHistoryRequest \<Rightarrow> go_error option" where
  "bybit_OrderHistory_validate r = first_of
     [validateCategory (yoh_Category r), validateOrderFilters (yoh_Symbol r) (yoh_BaseCoin r) (yoh_SettleCoin r),
      check_arg (time_after (yoh_StartTime r) (yoh_EndTime r)) ''order history start time cannot be after end time'' [],
      check_arg (case (yoh_StartTime r, yoh_EndTime r) of
          (Some s, Some e) \<Rightarrow> 7 * 24 * 3600 * 1000000000 < saturate64 (e - s)
        | _ \<Rightarrow> False)
        ''order history time range cannot exceed 7 days'' [],
      validatePage (yoh_Limit r) 50 (yoh_Cursor r)]"

section \<open>Query values\<close>

definition categoryValues :: "Category \<Rightarrow> url_Values" where
  "categoryValues category = Values_Set [] ''category'' category"

definition orderFilterValues :: "Category \<Rightarrow> string \<Rightarrow> string \<Rightarrow> string \<Rightarrow> url_Values" where
  "orderFilterValues category symbol baseCoin settleCoin =
     setIfNotEmpty (setIfNotEmpty (setIfNotEmpty (categoryValues category) ''symbol'' symbol) ''baseCoin'' baseCoin)
       ''settleCoin'' settleCoin"

definition bybit_Instruments_values :: "bybit_InstrumentsRequest \<Rightarrow> url_Values" where
  "bybit_Instruments_values r =
     (let vs = categoryValues (yin_Category r);
          vs = setIfNotEmpty vs ''symbol'' (yin_Symbol r);
          vs = setIfNotEmpty vs ''baseCoin'' (yin_BaseCoin r);
          vs = setIfNotEmpty vs ''status'' (yin_Status r);
          vs = setPositiveInt vs ''limit'' (yin_Limit r)
      in setIfNotEmpty vs ''cursor'' (yin_Cursor r))"

definition bybit_Tickers_values :: "bybit_TickersRequest \<Rightarrow> url_Values" where
  "bybit_Tickers_values r = setIfNotEmpty (categoryValues (yti_Category r)) ''symbol'' (yti_Symbol r)"

definition bybit_OrderBook_values :: "bybit_OrderBookRequest \<Rightarrow> url_Values" where
  "bybit_OrderBook_values r =
     setPositiveInt (Values_Set (categoryValues (yor_Category r)) ''symbol'' (yor_Symbol r)) ''limit'' (yor_Limit r)"

definition bybit_RecentTrades_values :: "bybit_RecentTradesRequest \<Rightarrow> url_Values" where
  "bybit_RecentTrades_values r =
     setPositiveInt (Values_Set (categoryValues (yrt_Category r)) ''symbol'' (yrt_Symbol r)) ''limit'' (yrt_Limit r)"

definition bybit_Candles_values :: "bybit_CandlesRequest \<Rightarrow> url_Values" where
  "bybit_Candles_values r =
     (let vs = categoryValues (ycr_Category r);
          vs = Values_Set vs ''symbol'' (ycr_Symbol r);
          vs = Values_Set vs ''interval'' (ycr_Interval r);
          vs = setTime vs ''start'' (ycr_StartTime r);
          vs = setTime vs ''end'' (ycr_EndTime r)
      in setPositiveInt vs ''limit'' (ycr_Limit r))"

definition bybit_WalletBalance_values :: "bybit_WalletBalanceRequest \<Rightarrow> url_Values" where
  "bybit_WalletBalance_values r =
     (let accountType = (if ywb_AccountType r = [] then AccountTypeUnified else ywb_AccountType r);
          vs = Values_Set [] ''accountType'' accountType
      in if ywb_Coins r \<noteq> [] then Values_Set vs ''coin'' (join_with CHR '','' (ywb_Coins r)) else vs)"

definition bybit_Positions_values :: "bybit_PositionsRequest \<Rightarrow> url_Values" where
  "bybit_Positions_values r =
     (let vs = categoryValues (yps_Category r);
          vs = setIfNotEmpty vs ''symbol'' (yps_Symbol r);
          vs = setIfNotEmpty vs ''settleCoin'' (yps_SettleCoin r);
          vs = setPositiveInt vs ''limit'' (yps_Limit r)
      in setIfNotEmpty vs ''cursor'' (yps_Cursor r))"

definition bybit_OrderInfo_values :: "bybit_OrderInfoRequest \<Rightarrow> url_Values" where
  "bybit_OrderInfo_values r =
     (let vs = categoryValues (yoi_Category r);
          vs = setIfNotEmpty vs ''symbol'' (yoi_Symbol r);
          vs = setIfNotEmpty vs ''orderId'' (yoi_OrderID r)
      in setIfNotEmpty vs ''orderLinkId'' (yoi_OrderLinkID r))"

definition bybit_OpenOrders_values :: "bybit_OpenOrdersRequest \<Rightarrow> url_Values" where
  "bybit_OpenOrders_values r =
     (let vs = orderFilterValues (yoo_Category r) (yoo_Symbol r) (yoo_BaseCoin r) (yoo_SettleCoin r);
          vs = setPositiveInt vs ''limit'' (yoo_Limit r)
      in setIfNotEmpty vs ''cursor'' (yoo_Cursor r))"

definition bybit_OrderHistory_values :: "bybit_OrderHistoryRequest \<Rightarrow> url_Values" where
  "bybit_OrderHistory_values r =
     (let vs = orderFilterValues (yoh_Category r) (yoh_Symbol r) (yoh_BaseCoin r) (yoh_SettleCoin r);
          vs = setTime vs ''startTime'' (yoh_StartTime r);
          vs = setTime vs ''endTime'' (yoh_EndTime r);
          vs = setPositiveInt vs ''limit'' (yoh_Limit r)
      in setIfNotEmpty vs ''cursor'' (yoh_Cursor r))"

section \<open>What the checks decide\<close>

lemma validateCategory_None [simp]: "validateCategory c = None \<longleftrightarrow> c = CategorySpot \<or> c = CategoryLinear"
  by (auto simp: validateCategory_def)

lemma validateOrderIdentity_None [simp]:
  "validateOrderIdentity orderID orderLinkID = None \<longleftrightarrow>
     (orderID = [] \<or> plain_text orderID) \<and> (orderLinkID = [] \<or> plain_text orderLinkID \<and> orderLinkIDPattern orderLinkID) \<and>
     (orderID \<noteq> [] \<or> orderLinkID \<noteq> [])"
  by (auto simp: validateOrderIdentity_def)

lemma validatePage_None [simp]:
  "validatePage limit maximum cursor = None \<longleftrightarrow> 0 \<le> limit \<and> limit \<le> maximum \<and> (cursor = [] \<or> plain_text cursor)"
  by (auto simp: validatePage_def)

lemma validateOrderFilters_None [simp]:
  "validateOrderFilters s b c = None \<longleftrightarrow> (s = [] \<or> plain_text s) \<and> (b = [] \<or> plain_text b) \<and> (c = [] \<or> plain_text c)"
  by (auto simp: validateOrderFilters_def)

lemma category_values [simp]:
  "single_valued (categoryValues c)" "reads (categoryValues c) x = (if x = ''category'' then Some c else None)"
  by (auto simp: categoryValues_def reads_setters intro: single_valued_setters single_valued_Set)

text \<open>C24. The query of an order history request determines the request: a server that decodes it reads the
  category, each filter, time bound, limit and cursor that was given, byte for byte, and nothing else.\<close>

theorem bybit_OrderHistory_query_roundtrip:
  "let query = map_of (decode_query (Values_Encode (bybit_OrderHistory_values r))) in
     query ''category'' = Some (yoh_Category r) \<and>
     query ''symbol'' = (if yoh_Symbol r = [] then None else Some (yoh_Symbol r)) \<and>
     query ''baseCoin'' = (if yoh_BaseCoin r = [] then None else Some (yoh_BaseCoin r)) \<and>
     query ''settleCoin'' = (if yoh_SettleCoin r = [] then None else Some (yoh_SettleCoin r)) \<and>
     query ''startTime'' = map_option (\<lambda>t. int_str (UnixMilli t)) (yoh_StartTime r) \<and>
     query ''endTime'' = map_option (\<lambda>t. int_str (UnixMilli t)) (yoh_EndTime r) \<and>
     query ''limit'' = (if 0 < yoh_Limit r then Some (int_str (yoh_Limit r)) else None) \<and>
     query ''cursor'' = (if yoh_Cursor r = [] then None else Some (yoh_Cursor r)) \<and>
     dom query \<subseteq> {''category'', ''symbol'', ''baseCoin'', ''settleCoin'', ''startTime'', ''endTime'', ''limit'', ''cursor''}"
proof -
  have "single_valued (bybit_OrderHistory_values r)"
    unfolding bybit_OrderHistory_values_def orderFilterValues_def Let_def by (intro single_valued_setters category_values)
  then have query: "map_of (decode_query (Values_Encode (bybit_OrderHistory_values r))) = reads (bybit_OrderHistory_values r)"
    by (simp add: fun_eq_iff query_reads_back reads_def)
  note r = reads_setters bybit_OrderHistory_values_def orderFilterValues_def Let_def
  have "dom (reads (bybit_OrderHistory_values r)) \<subseteq>
      {''category'', ''symbol'', ''baseCoin'', ''settleCoin'', ''startTime'', ''endTime'', ''limit'', ''cursor''}"
    by (rule dom_within) (simp add: r)
  then show ?thesis unfolding query Let_def [of "reads _"]
    by (cases "yoh_StartTime r"; cases "yoh_EndTime r") (simp_all add: r)
qed

end
