(* ===== verification/Okx_Requests.thy ===== *)
theory Okx_Requests
  imports Request_Values
begin

text \<open>
  The requests of the OKX V5 adapter (\<open>exchange/okx/requests.go\<close>, with the enumerations of \<open>types.go\<close>): their
  validation and the query values they are sent as. The checks of texts and the setters are those of
  \<open>Request_Values\<close>. A Go map is ranged over in an unspecified order, which is an argument here.
\<close>

section \<open>Types\<close>

type_synonym InstrumentType = string
abbreviation InstrumentTypeSpot :: InstrumentType where "InstrumentTypeSpot \<equiv> ''SPOT''"
abbreviation InstrumentTypeSwap :: InstrumentType where "InstrumentTypeSwap \<equiv> ''SWAP''"

abbreviation okx_SideBuy :: string where "okx_SideBuy \<equiv> ''buy''"
abbreviation okx_SideSell :: string where "okx_SideSell \<equiv> ''sell''"
abbreviation TradeModeCash :: string where "TradeModeCash \<equiv> ''cash''"
abbreviation TradeModeCross :: string where "TradeModeCross \<equiv> ''cross''"
abbreviation TradeModeIsolated :: string where "TradeModeIsolated \<equiv> ''isolated''"
abbreviation PositionSideNet :: string where "PositionSideNet \<equiv> ''net''"
abbreviation PositionSideLong :: string where "PositionSideLong \<equiv> ''long''"
abbreviation PositionSideShort :: string where "PositionSideShort \<equiv> ''short''"
abbreviation okx_OrderTypeMarket :: string where "okx_OrderTypeMarket \<equiv> ''market''"
abbreviation okx_OrderTypeLimit :: string where "okx_OrderTypeLimit \<equiv> ''limit''"
abbreviation okx_OrderTypePostOnly :: string where "okx_OrderTypePostOnly \<equiv> ''post_only''"
abbreviation okx_OrderTypeFOK :: string where "okx_OrderTypeFOK \<equiv> ''fok''"
abbreviation okx_OrderTypeIOC :: string where "okx_OrderTypeIOC \<equiv> ''ioc''"
abbreviation okx_OrderTypeOptimalLimitIOC :: string where "okx_OrderTypeOptimalLimitIOC \<equiv> ''optimal_limit_ioc''"
abbreviation TargetCurrencyBase :: string where "TargetCurrencyBase \<equiv> ''base_ccy''"
abbreviation TargetCurrencyQuote :: string where "TargetCurrencyQuote \<equiv> ''quote_ccy''"

record okx_InstrumentsRequest =
  oin_InstrumentType :: InstrumentType
  oin_Underlying :: string
  oin_InstrumentFamily :: string
  oin_InstrumentID :: string

record okx_TickersRequest =
  oti_InstrumentType :: InstrumentType

record okx_OrderBookRequest =
  oor_InstrumentID :: string
  oor_Size :: int

record okx_RecentTradesRequest =
  ort_InstrumentID :: string
  ort_Limit :: int

record okx_CandlesRequest =
  ocr_InstrumentID :: string
  ocr_Interval :: string
  ocr_After :: "int option"
  ocr_Before :: "int option"
  ocr_Limit :: int

record okx_BalanceRequest =
  obr_Currencies :: "string list"

record okx_PositionsRequest =
  ops_InstrumentType :: InstrumentType
  ops_InstrumentID :: string
  ops_PositionID :: string

record okx_PlaceOrderRequest =
  opo_InstrumentType :: InstrumentType
  opo_InstrumentID :: string
  opo_TradeMode :: string
  opo_ClientOrderID :: string
  opo_Side :: string
  opo_PositionSide :: string
  opo_OrderType :: string
  opo_Quantity :: string
  opo_Price :: string
  opo_ReduceOnly :: bool
  opo_TargetCurrency :: string

record okx_CancelOrderRequest =
  oco_InstrumentID :: string
  oco_OrderID :: string
  oco_ClientOrderID :: string

record okx_OrderInfoRequest =
  ooi_InstrumentID :: string
  ooi_OrderID :: string
  ooi_ClientOrderID :: string

record okx_OpenOrdersRequest =
  ooo_InstrumentType :: InstrumentType
  ooo_InstrumentID :: string
  ooo_OrderType :: string
  ooo_AfterOrderID :: string
  ooo_BeforeOrderID :: string
  ooo_Limit :: int

record okx_OrderHistoryRequest =
  ooh_InstrumentType :: InstrumentType
  ooh_InstrumentID :: string
  ooh_OrderType :: string
  ooh_State :: string
  ooh_AfterOrderID :: string
  ooh_BeforeOrderID :: string
  ooh_BeginTime :: "int option"
  ooh_EndTime :: "int option"
  ooh_Limit :: int

section \<open>Shared checks\<close>

definition clientOrderIDPattern :: "string \<Rightarrow> bool" where
  "clientOrderIDPattern s \<longleftrightarrow> s \<noteq> [] \<and> length s \<le> 32 \<and>
     list_all (\<lambda>c. let n = (of_char c :: nat) in (48 \<le> n \<and> n \<le> 57) \<or> (65 \<le> n \<and> n \<le> 90) \<or> (97 \<le> n \<and> n \<le> 122)) s"

definition validateInstrumentType :: "InstrumentType \<Rightarrow> go_error option" where
  "validateInstrumentType instrumentType =
     check_arg (instrumentType \<noteq> InstrumentTypeSpot \<and> instrumentType \<noteq> InstrumentTypeSwap)
       ''instrument type must be SPOT or SWAP'' []"

definition okx_validateOrderIdentity :: "string \<Rightarrow> string \<Rightarrow> go_error option" where
  "okx_validateOrderIdentity orderID clientOrderID = first_of
     [validateOptionalText ''ordId'' orderID,
      validateOptionalText ''clOrdId'' clientOrderID,
      check_arg (orderID = [] \<and> clientOrderID = []) ''ordId or clOrdId is required'' [],
      check_arg (clientOrderID \<noteq> [] \<and> \<not> clientOrderIDPattern clientOrderID) ''clOrdId has an invalid format'' []]"

definition validateOrderPage :: "string \<Rightarrow> string \<Rightarrow> int \<Rightarrow> go_error option" where
  "validateOrderPage after before limit = first_of
     [validateOptionalText ''after'' after, validateOptionalText ''before'' before,
      check_arg (limit < 0 \<or> 100 < limit) ''order page limit must be between 1 and 100 or zero for default'' []]"

definition okx_CandleInterval_valid :: "string \<Rightarrow> bool" where
  "okx_CandleInterval_valid interval \<longleftrightarrow>
     interval \<in> set [''1m'', ''3m'', ''5m'', ''15m'', ''30m'', ''1H'', ''2H'', ''4H'', ''6H'', ''12H'', ''1D'', ''2D'', ''3D'',
       ''1W'', ''1M'', ''3M'']"

definition okx_OrderType_valid :: "string \<Rightarrow> bool" where
  "okx_OrderType_valid t \<longleftrightarrow> t = okx_OrderTypeMarket \<or> t = okx_OrderTypeLimit \<or> t = okx_OrderTypePostOnly \<or>
     t = okx_OrderTypeFOK \<or> t = okx_OrderTypeIOC \<or> t = okx_OrderTypeOptimalLimitIOC"

definition okx_requiresPrice :: "string \<Rightarrow> bool" where
  "okx_requiresPrice t \<longleftrightarrow> t = okx_OrderTypeLimit \<or> t = okx_OrderTypePostOnly \<or> t = okx_OrderTypeFOK \<or> t = okx_OrderTypeIOC"

definition okx_PositionSide_valid :: "string \<Rightarrow> bool" where
  "okx_PositionSide_valid s \<longleftrightarrow> s = PositionSideNet \<or> s = PositionSideLong \<or> s = PositionSideShort"

section \<open>Validation\<close>

definition okx_Instruments_validate ::
  "((string \<times> string) list \<Rightarrow> (string \<times> string) list) \<Rightarrow> okx_InstrumentsRequest \<Rightarrow> go_error option" where
  "okx_Instruments_validate visit r = first_of
     [validateInstrumentType (oin_InstrumentType r),
      first_of (map (\<lambda>(name, val). validateOptionalText name val)
        (visit [(''uly'', oin_Underlying r), (''instFamily'', oin_InstrumentFamily r), (''instId'', oin_InstrumentID r)])),
      check_arg (oin_InstrumentType r = InstrumentTypeSpot \<and> (oin_Underlying r \<noteq> [] \<or> oin_InstrumentFamily r \<noteq> []))
        ''Spot instruments do not accept uly or instFamily'' []]"

definition okx_Tickers_validate :: "okx_TickersRequest \<Rightarrow> go_error option" where
  "okx_Tickers_validate r = validateInstrumentType (oti_InstrumentType r)"

definition okx_OrderBook_validate :: "okx_OrderBookRequest \<Rightarrow> go_error option" where
  "okx_OrderBook_validate r = first_of
     [validateRequiredText ''instId'' (oor_InstrumentID r),
      check_arg (oor_Size r < 0 \<or> 400 < oor_Size r) ''order book size must be between 1 and 400 or zero for default'' []]"

definition okx_RecentTrades_validate :: "okx_RecentTradesRequest \<Rightarrow> go_error option" where
  "okx_RecentTrades_validate r = first_of
     [validateRequiredText ''instId'' (ort_InstrumentID r),
      check_arg (ort_Limit r < 0 \<or> 500 < ort_Limit r) ''recent trade limit must be between 1 and 500 or zero for default'' []]"

definition okx_Candles_validate :: "okx_CandlesRequest \<Rightarrow> go_error option" where
  "okx_Candles_validate r = first_of
     [validateRequiredText ''instId'' (ocr_InstrumentID r),
      check_arg (\<not> okx_CandleInterval_valid (ocr_Interval r)) ''unsupported candle interval %q'' [StrArg (ocr_Interval r)],
      check_arg (ocr_Limit r < 0 \<or> 300 < ocr_Limit r) ''candle limit must be between 1 and 300 or zero for default'' []]"

fun validate_currencies :: "string list \<Rightarrow> string set \<Rightarrow> go_error option" where
  "validate_currencies [] seen = None"
| "validate_currencies (currency # rest) seen =
     (case first_of
        [validateRequiredText ''ccy'' currency,
         check_arg (CHR '','' \<in> set currency) ''currency cannot contain a comma'' [],
         check_arg (currency \<in> seen) ''duplicate currency %q'' [StrArg currency]] of
        Some err \<Rightarrow> Some err
      | None \<Rightarrow> validate_currencies rest (insert currency seen))"

definition okx_Balance_validate :: "okx_BalanceRequest \<Rightarrow> go_error option" where
  "okx_Balance_validate r = validate_currencies (obr_Currencies r) {}"

definition okx_Positions_validate :: "okx_PositionsRequest \<Rightarrow> go_error option" where
  "okx_Positions_validate r = first_of
     [check_arg (ops_InstrumentType r \<noteq> InstrumentTypeSwap) ''positions support only SWAP instrument type'' [],
      validateOptionalText ''instId'' (ops_InstrumentID r), validateOptionalText ''posId'' (ops_PositionID r)]"

definition okx_PlaceOrder_validate :: "okx_PlaceOrderRequest \<Rightarrow> go_error option" where
  "okx_PlaceOrder_validate r = first_of
     [validateInstrumentType (opo_InstrumentType r), validateRequiredText ''instId'' (opo_InstrumentID r),
      check_arg (opo_Side r \<noteq> okx_SideBuy \<and> opo_Side r \<noteq> okx_SideSell) ''side must be buy or sell'' [],
      check_arg (\<not> okx_OrderType_valid (opo_OrderType r)) ''unsupported order type %q'' [StrArg (opo_OrderType r)],
      validatePositiveDecimalText ''sz'' (opo_Quantity r),
      (if okx_requiresPrice (opo_OrderType r) then validatePositiveDecimalText ''px'' (opo_Price r)
       else check_arg (opo_Price r \<noteq> []) ''order type %q does not accept price'' [StrArg (opo_OrderType r)]),
      check_arg (opo_ClientOrderID r \<noteq> [] \<and> \<not> clientOrderIDPattern (opo_ClientOrderID r)) ''clOrdId has an invalid format'' [],
      (if opo_InstrumentType r = InstrumentTypeSpot
       then first_of
         [check_arg (opo_TradeMode r \<noteq> TradeModeCash) ''Spot order trade mode must be cash'' [],
          check_arg (opo_PositionSide r \<noteq> [] \<or> opo_ReduceOnly r) ''Spot order does not accept posSide or reduceOnly'' []]
       else first_of
         [check_arg (opo_TradeMode r \<noteq> TradeModeCross \<and> opo_TradeMode r \<noteq> TradeModeIsolated)
            ''SWAP order trade mode must be cross or isolated'' [],
          check_arg (opo_PositionSide r \<noteq> [] \<and> \<not> okx_PositionSide_valid (opo_PositionSide r))
            ''unsupported position side %q'' [StrArg (opo_PositionSide r)]]),
      check_arg (opo_TargetCurrency r \<noteq> [] \<and> opo_TargetCurrency r \<noteq> TargetCurrencyBase \<and>
          opo_TargetCurrency r \<noteq> TargetCurrencyQuote)
        ''target currency must be base_ccy or quote_ccy'' [],
      check_arg (opo_TargetCurrency r \<noteq> [] \<and>
          (opo_InstrumentType r \<noteq> InstrumentTypeSpot \<or> opo_OrderType r \<noteq> okx_OrderTypeMarket))
        ''target currency is available only for Spot market orders'' []]"

definition okx_CancelOrder_validate :: "okx_CancelOrderRequest \<Rightarrow> go_error option" where
  "okx_CancelOrder_validate r = first_of
     [validateRequiredText ''instId'' (oco_InstrumentID r),
      okx_validateOrderIdentity (oco_OrderID r) (oco_ClientOrderID r)]"

definition okx_OrderInfo_validate :: "okx_OrderInfoRequest \<Rightarrow> go_error option" where
  "okx_OrderInfo_validate r = first_of
     [validateRequiredText ''instId'' (ooi_InstrumentID r),
      okx_validateOrderIdentity (ooi_OrderID r) (ooi_ClientOrderID r)]"

definition okx_OpenOrders_validate :: "okx_OpenOrdersRequest \<Rightarrow> go_error option" where
  "okx_OpenOrders_validate r = first_of
     [validateInstrumentType (ooo_InstrumentType r), validateOptionalText ''instId'' (ooo_InstrumentID r),
      check_arg (ooo_OrderType r \<noteq> [] \<and> \<not> okx_OrderType_valid (ooo_OrderType r))
        ''unsupported order type %q'' [StrArg (ooo_OrderType r)],
      validateOrderPage (ooo_AfterOrderID r) (ooo_BeforeOrderID r) (ooo_Limit r)]"

definition okx_OrderHistory_validate :: "okx_OrderHistoryRequest \<Rightarrow> go_error option" where
  "okx_OrderHistory_validate r = first_of
     [validateInstrumentType (ooh_InstrumentType r), validateOptionalText ''instId'' (ooh_InstrumentID r),
      check_arg (ooh_OrderType r \<noteq> [] \<and> \<not> okx_OrderType_valid (ooh_OrderType r))
        ''unsupported order type %q'' [StrArg (ooh_OrderType r)],
      validateOptionalText ''state'' (ooh_State r),
      check_arg (time_after (ooh_BeginTime r) (ooh_EndTime r)) ''order history begin time cannot be after end time'' [],
      check_arg (case (ooh_BeginTime r, ooh_EndTime r) of
          (Some s, Some e) \<Rightarrow> 7 * 24 * 3600 * 1000000000 < saturate64 (e - s)
        | _ \<Rightarrow> False)
        ''order history time range cannot exceed 7 days'' [],
      validateOrderPage (ooh_AfterOrderID r) (ooh_BeforeOrderID r) (ooh_Limit r)]"

section \<open>Query values\<close>

definition instrumentTypeValues :: "InstrumentType \<Rightarrow> url_Values" where
  "instrumentTypeValues instrumentType = Values_Set [] ''instType'' instrumentType"

definition setOrderListValues ::
  "url_Values \<Rightarrow> string \<Rightarrow> string \<Rightarrow> string \<Rightarrow> string \<Rightarrow> string \<Rightarrow> int option \<Rightarrow> int option \<Rightarrow> int \<Rightarrow> url_Values" where
  "setOrderListValues vs instrumentID orderType state after before begin_time end_time limit =
     (let vs = setIfNotEmpty vs ''instId'' instrumentID;
          vs = setIfNotEmpty vs ''ordType'' orderType;
          vs = setIfNotEmpty vs ''state'' state;
          vs = setIfNotEmpty vs ''after'' after;
          vs = setIfNotEmpty vs ''before'' before;
          vs = setTime vs ''begin'' begin_time;
          vs = setTime vs ''end'' end_time
      in setPositiveInt vs ''limit'' limit)"

definition okx_Instruments_values :: "okx_InstrumentsRequest \<Rightarrow> url_Values" where
  "okx_Instruments_values r =
     (let vs = instrumentTypeValues (oin_InstrumentType r);
          vs = setIfNotEmpty vs ''uly'' (oin_Underlying r);
          vs = setIfNotEmpty vs ''instFamily'' (oin_InstrumentFamily r)
      in setIfNotEmpty vs ''instId'' (oin_InstrumentID r))"

definition okx_Tickers_values :: "okx_TickersRequest \<Rightarrow> url_Values" where
  "okx_Tickers_values r = instrumentTypeValues (oti_InstrumentType r)"

definition okx_OrderBook_values :: "okx_OrderBookRequest \<Rightarrow> url_Values" where
  "okx_OrderBook_values r = setPositiveInt (Values_Set [] ''instId'' (oor_InstrumentID r)) ''sz'' (oor_Size r)"

definition okx_RecentTrades_values :: "okx_RecentTradesRequest \<Rightarrow> url_Values" where
  "okx_RecentTrades_values r = setPositiveInt (Values_Set [] ''instId'' (ort_InstrumentID r)) ''limit'' (ort_Limit r)"

definition okx_Candles_values :: "okx_CandlesRequest \<Rightarrow> url_Values" where
  "okx_Candles_values r =
     (let vs = Values_Set [] ''instId'' (ocr_InstrumentID r);
          vs = Values_Set vs ''bar'' (ocr_Interval r);
          vs = setTime vs ''after'' (ocr_After r);
          vs = setTime vs ''before'' (ocr_Before r)
      in setPositiveInt vs ''limit'' (ocr_Limit r))"

definition okx_Balance_values :: "okx_BalanceRequest \<Rightarrow> url_Values" where
  "okx_Balance_values r =
     (if obr_Currencies r \<noteq> [] then Values_Set [] ''ccy'' (join_with CHR '','' (obr_Currencies r)) else [])"

definition okx_Positions_values :: "okx_PositionsRequest \<Rightarrow> url_Values" where
  "okx_Positions_values r =
     (let vs = instrumentTypeValues (ops_InstrumentType r);
          vs = setIfNotEmpty vs ''instId'' (ops_InstrumentID r)
      in setIfNotEmpty vs ''posId'' (ops_PositionID r))"

definition okx_OrderInfo_values :: "okx_OrderInfoRequest \<Rightarrow> url_Values" where
  "okx_OrderInfo_values r =
     (let vs = Values_Set [] ''instId'' (ooi_InstrumentID r);
          vs = setIfNotEmpty vs ''ordId'' (ooi_OrderID r)
      in setIfNotEmpty vs ''clOrdId'' (ooi_ClientOrderID r))"

definition okx_OpenOrders_values :: "okx_OpenOrdersRequest \<Rightarrow> url_Values" where
  "okx_OpenOrders_values r =
     setOrderListValues (instrumentTypeValues (ooo_InstrumentType r)) (ooo_InstrumentID r) (ooo_OrderType r) []
       (ooo_AfterOrderID r) (ooo_BeforeOrderID r) None None (ooo_Limit r)"

definition okx_OrderHistory_values :: "okx_OrderHistoryRequest \<Rightarrow> url_Values" where
  "okx_OrderHistory_values r =
     setOrderListValues (instrumentTypeValues (ooh_InstrumentType r)) (ooh_InstrumentID r) (ooh_OrderType r) (ooh_State r)
       (ooh_AfterOrderID r) (ooh_BeforeOrderID r) (ooh_BeginTime r) (ooh_EndTime r) (ooh_Limit r)"

section \<open>What the checks decide\<close>

lemma validateInstrumentType_None [simp]:
  "validateInstrumentType t = None \<longleftrightarrow> t = InstrumentTypeSpot \<or> t = InstrumentTypeSwap"
  by (auto simp: validateInstrumentType_def)

lemma okx_validateOrderIdentity_None [simp]:
  "okx_validateOrderIdentity orderID clientOrderID = None \<longleftrightarrow>
     (orderID = [] \<or> plain_text orderID) \<and>
     (clientOrderID = [] \<or> plain_text clientOrderID \<and> clientOrderIDPattern clientOrderID) \<and>
     (orderID \<noteq> [] \<or> clientOrderID \<noteq> [])"
  by (auto simp: okx_validateOrderIdentity_def)

lemma validateOrderPage_None [simp]:
  "validateOrderPage after before limit = None \<longleftrightarrow>
     (after = [] \<or> plain_text after) \<and> (before = [] \<or> plain_text before) \<and> 0 \<le> limit \<and> limit \<le> 100"
  by (auto simp: validateOrderPage_def)

text \<open>In which order the fields of an instruments request are looked at decides which error is reported, and nothing else.\<close>

lemma okx_Instruments_validate_None:
  assumes "\<And>xs :: (string \<times> string) list. set (visit xs) = set xs"
  shows "okx_Instruments_validate visit r = None \<longleftrightarrow>
    (oin_InstrumentType r = InstrumentTypeSpot \<and> oin_Underlying r = [] \<and> oin_InstrumentFamily r = [] \<or>
     oin_InstrumentType r = InstrumentTypeSwap \<and> (oin_Underlying r = [] \<or> plain_text (oin_Underlying r)) \<and>
     (oin_InstrumentFamily r = [] \<or> plain_text (oin_InstrumentFamily r))) \<and>
    (oin_InstrumentID r = [] \<or> plain_text (oin_InstrumentID r))"
  by (auto simp: okx_Instruments_validate_def first_of_None assms)

text \<open>The currencies of a balance request are read back from the comma separated list they are sent as.\<close>

lemma validate_currencies_None:
  "validate_currencies cs seen = None \<longleftrightarrow>
     list_all (\<lambda>c. plain_text c \<and> CHR '','' \<notin> set c) cs \<and> distinct cs \<and> set cs \<inter> seen = {}"
  by (induction cs arbitrary: seen) (auto simp: case_error_None)

lemma okx_Balance_currencies:
  assumes "okx_Balance_validate r = None" "obr_Currencies r \<noteq> []"
  shows "reads (okx_Balance_values r) ''ccy'' = Some (join_with CHR '','' (obr_Currencies r)) \<and>
    split_on CHR '','' (join_with CHR '','' (obr_Currencies r)) = obr_Currencies r"
  using assms by (auto simp: okx_Balance_validate_def validate_currencies_None okx_Balance_values_def reads_setters
      intro!: split_join elim: list.pred_mono_strong)

end
