(* ===== verification/Go_Encoding.thy ===== *)
theory Go_Encoding
  imports Go_Decimal
begin

text \<open>
  Encodings of the standard library that the signers use: \<open>encoding/hex\<close>, \<open>encoding/base64\<close> (the standard
  alphabet with padding), and \<open>time.Format\<close> with the layout \<open>2006-01-02T15:04:05.000Z\<close> in UTC. A byte is a character.
  The lemmas show that the two byte encodings can be decoded, so that a signature text determines the
  signature.
\<close>

section \<open>Hexadecimal\<close>

definition lower_hex_digit :: "nat \<Rightarrow> char" where
  "lower_hex_digit n = (if n < 10 then char_of (48 + n) else char_of (87 + n))"

definition hex_EncodeToString :: "string \<Rightarrow> string" where
  "hex_EncodeToString s = concat (map (\<lambda>c. [lower_hex_digit (of_char c div 16), lower_hex_digit (of_char c mod 16)]) s)"

section \<open>Base 64\<close>

definition base64_char :: "nat \<Rightarrow> char" where
  "base64_char n = char_of (if n < 26 then 65 + n else if n < 52 then 71 + n else if n < 62 then n - 4 else if n = 62 then 43 else 47)"

definition base64_value :: "char \<Rightarrow> nat" where
  "base64_value c =
     (let n = of_char c :: nat
      in if 65 \<le> n \<and> n \<le> 90 then n - 65 else if 97 \<le> n \<and> n \<le> 122 then n - 71
         else if 48 \<le> n \<and> n \<le> 57 then n + 4 else if n = 43 then 62 else 63)"

fun base64_EncodeToString :: "string \<Rightarrow> string" where
  "base64_EncodeToString [] = []"
| "base64_EncodeToString [a] =
     (let a = of_char a :: nat in [base64_char (a div 4), base64_char (a mod 4 * 16), CHR ''='', CHR ''=''])"
| "base64_EncodeToString [a, b] =
     (let a = of_char a :: nat; b = of_char b :: nat
      in [base64_char (a div 4), base64_char (a mod 4 * 16 + b div 16), base64_char (b mod 16 * 4), CHR ''=''])"
| "base64_EncodeToString (a # b # c # rest) =
     (let a = of_char a :: nat; b = of_char b :: nat; c = of_char c :: nat
      in [base64_char (a div 4), base64_char (a mod 4 * 16 + b div 16), base64_char (b mod 16 * 4 + c div 64),
          base64_char (c mod 64)] @ base64_EncodeToString rest)"

fun base64_DecodeString :: "string \<Rightarrow> string" where
  "base64_DecodeString (w # x # y # z # rest) =
     (let w = base64_value w; x = base64_value x; a = char_of (w * 4 + x div 16)
      in if y = CHR ''='' then [a]
         else
           let y' = base64_value y; b = char_of (x mod 16 * 16 + y' div 4)
           in if z = CHR ''='' then [a, b]
              else a # b # char_of (y' mod 4 * 64 + base64_value z) # base64_DecodeString rest)"
| "base64_DecodeString _ = []"

section \<open>Time stamps\<close>

text \<open>The date of a day that is counted from 1 January 1970, in the proleptic Gregorian calendar.\<close>

definition civil_date :: "int \<Rightarrow> int \<times> int \<times> int" where
  "civil_date days =
     (let z = days + 719468;
          era = z div 146097;
          doe = z mod 146097;
          yoe = (doe - doe div 1460 + doe div 36524 - doe div 146096) div 365;
          doy = doe - (365 * yoe + yoe div 4 - yoe div 100);
          mp = (5 * doy + 2) div 153;
          d = doy - (153 * mp + 2) div 5 + 1;
          m = (if mp < 10 then mp + 3 else mp - 9)
      in (yoe + era * 400 + (if m \<le> 2 then 1 else 0), m, d))"

definition zero_pad :: "nat \<Rightarrow> int \<Rightarrow> string" where
  "zero_pad width n =
     (let digits = nat_str (nat \<bar>n\<bar>); padded = replicate (width - length digits) CHR ''0'' @ digits
      in if n < 0 then CHR ''-'' # padded else padded)"

definition Format_RFC3339Milli :: "int \<Rightarrow> string" where
  "Format_RFC3339Milli millis =
     (let seconds = millis div 1000;
          (y, m, d) = civil_date (seconds div 86400);
          s = seconds mod 86400
      in zero_pad 4 y @ ''-'' @ zero_pad 2 m @ ''-'' @ zero_pad 2 d @ ''T'' @ zero_pad 2 (s div 3600) @ '':'' @
         zero_pad 2 (s mod 3600 div 60) @ '':'' @ zero_pad 2 (s mod 60) @ ''.'' @ zero_pad 3 (millis mod 1000) @ ''Z'')"

section \<open>Decoding inverts encoding\<close>

lemma base64_value_char [simp]: "n < 64 \<Longrightarrow> base64_value (base64_char n) = n"
  by (auto simp: base64_value_def base64_char_def Let_def)

lemma base64_char_no_pad [simp]: "n < 64 \<Longrightarrow> base64_char n \<noteq> CHR ''=''"
proof
  assume n: "n < 64" and eq: "base64_char n = CHR ''=''"
  from eq have "(of_char (base64_char n) :: nat) = of_char (CHR ''='')" by simp
  with n show False by (auto simp: base64_char_def split: if_splits)
qed

lemma of_char_bounds: "(of_char c :: nat) div 4 < 64" "(of_char c :: nat) div 16 < 16" "(of_char c :: nat) div 64 < 4"
proof -
  have "(of_char c :: nat) < 256" by simp
  then show "(of_char c :: nat) div 4 < 64" "(of_char c :: nat) div 16 < 16" "(of_char c :: nat) div 64 < 4"
    by (simp_all add: less_mult_imp_div_less)
qed

lemma base64_sextets [simp]:
  "(of_char a :: nat) mod 4 * 16 < 64" "(of_char a :: nat) mod 4 * 16 + of_char b div 16 < 64"
  "(of_char b :: nat) mod 16 * 4 < 64" "(of_char b :: nat) mod 16 * 4 + of_char c div 64 < 64"
  "(of_char c :: nat) div 4 < 64" "(of_char c :: nat) mod 64 < 64"
proof -
  have "(of_char a :: nat) mod 4 < 4" "(of_char b :: nat) mod 16 < 16" by simp_all
  note bounds = this of_char_bounds [of b] of_char_bounds [of c]
  show "(of_char a :: nat) mod 4 * 16 < 64" using bounds by linarith
  show "(of_char a :: nat) mod 4 * 16 + of_char b div 16 < 64" using bounds by linarith
  show "(of_char b :: nat) mod 16 * 4 < 64" using bounds by linarith
  show "(of_char b :: nat) mod 16 * 4 + of_char c div 64 < 64" using bounds by linarith
  show "(of_char c :: nat) div 4 < 64" using bounds by linarith
  show "(of_char c :: nat) mod 64 < 64" by simp
qed

lemma base64_octets:
  "char_of ((of_char a :: nat) div 4 * 4 + (of_char a mod 4 * 16 + of_char b div 16) div 16) = a"
  "char_of ((of_char a mod 4 * 16 + (of_char b :: nat) div 16) mod 16 * 16 + (of_char b mod 16 * 4 + of_char c div 64) div 4) = b"
  "char_of ((of_char b mod 16 * 4 + (of_char c :: nat) div 64) mod 4 * 64 + of_char c mod 64) = c"
proof -
  have "(of_char a :: nat) div 4 * 4 + (of_char a mod 4 * 16 + of_char b div 16) div 16 = of_char a"
    using of_char_bounds [of b] by simp
  then show "char_of ((of_char a :: nat) div 4 * 4 + (of_char a mod 4 * 16 + of_char b div 16) div 16) = a" by simp
  have "(of_char a mod 4 * 16 + (of_char b :: nat) div 16) mod 16 * 16 + (of_char b mod 16 * 4 + of_char c div 64) div 4 = of_char b"
    using of_char_bounds [of b] of_char_bounds [of c] by simp
  then show "char_of ((of_char a mod 4 * 16 + (of_char b :: nat) div 16) mod 16 * 16 + (of_char b mod 16 * 4 + of_char c div 64) div 4) = b"
    by simp
  have "(of_char b mod 16 * 4 + (of_char c :: nat) div 64) mod 4 * 64 + of_char c mod 64 = of_char c"
    using of_char_bounds [of c] by simp
  then show "char_of ((of_char b mod 16 * 4 + (of_char c :: nat) div 64) mod 4 * 64 + of_char c mod 64) = c" by simp
qed

lemma base64_decode_encode: "base64_DecodeString (base64_EncodeToString s) = s"
proof (induction s rule: base64_EncodeToString.induct)
  case (2 a)
  then show ?case using base64_octets(1) [of a "char_of (0 :: nat)"] by (simp add: Let_def)
next
  case (3 a b)
  then show ?case
    using base64_octets(1) [of a b] base64_octets(2) [of a b "char_of (0 :: nat)"] by (simp add: Let_def)
next
  case (4 a b c rest)
  then show ?case using base64_octets(1,2) [of a b] base64_octets(3) [of b c] by (simp add: Let_def)
qed simp

lemma base64_inject: "base64_EncodeToString s = base64_EncodeToString t \<longleftrightarrow> s = t"
  by (metis base64_decode_encode)

text \<open>Three instants: the epoch, the last millisecond of a leap day, and the last one of a century.\<close>

lemma Format_RFC3339Milli_examples:
  "Format_RFC3339Milli 0 = ''1970-01-01T00:00:00.000Z''"
  "Format_RFC3339Milli 1709251199999 = ''2024-02-29T23:59:59.999Z''"
  "Format_RFC3339Milli 4102444799999 = ''2099-12-31T23:59:59.999Z''"
  by code_simp+

end
