(* ===== verification/Page_Loops.thy ===== *)
theory Page_Loops
  imports Trade_Core
begin

text \<open>
  The loop by which the unified adapters collect the pages of a listing: fetch the page of a cursor, convert and
  collect its items, and go on with the cursor the page names, unless it names none or one that was seen
  before. An exchange that always answers with a fresh cursor keeps the loop going; that run is the value
  \<open>None\<close>. What an adapter converts, and where its pages carry the cursor, are arguments.
\<close>

partial_function (option) page_loop ::
  "('c \<Rightarrow> 'w \<Rightarrow> 'p result \<times> 'w) \<Rightarrow> ('p \<Rightarrow> 'b list result) \<Rightarrow> ('p \<Rightarrow> 'c option result) \<Rightarrow> string \<Rightarrow> 'c \<Rightarrow> 'c set \<Rightarrow>
   'b list \<Rightarrow> 'w \<Rightarrow> ('b list result \<times> 'w) option" where
  "page_loop fetch convert follow repeated cursor seen items w =
     (case fetch cursor w of
        (Inl err, w) \<Rightarrow> Some (Inl err, w)
      | (Inr page, w) \<Rightarrow>
          (case convert page of
             Inl err \<Rightarrow> Some (Inl err, w)
           | Inr converted \<Rightarrow>
               let items = items @ converted
               in case follow page of
                    Inl err \<Rightarrow> Some (Inl err, w)
                  | Inr None \<Rightarrow> Some (Inr items, w)
                  | Inr (Some c) \<Rightarrow>
                      if c \<in> seen then Some (Inl (errorText repeated), w)
                      else page_loop fetch convert follow repeated c (insert c seen) items w))"

text \<open>A chain of pages: each is what the exchange answered to the cursor of the one before it, and the last names none.\<close>

fun page_chain ::
  "('c \<Rightarrow> 'w \<Rightarrow> 'p result \<times> 'w) \<Rightarrow> ('p \<Rightarrow> 'c option result) \<Rightarrow> 'c \<Rightarrow> 'w \<Rightarrow> 'p list \<Rightarrow> 'w \<Rightarrow> bool" where
  "page_chain fetch follow cursor w [] w' = False"
| "page_chain fetch follow cursor w (page # pages) w' =
     (case fetch cursor w of
        (Inl err, w1) \<Rightarrow> False
      | (Inr p, w1) \<Rightarrow> p = page \<and>
          (case follow page of
             Inl err \<Rightarrow> False
           | Inr None \<Rightarrow> pages = [] \<and> w1 = w'
           | Inr (Some c) \<Rightarrow> page_chain fetch follow c w1 pages w'))"

definition named_cursors :: "('p \<Rightarrow> 'c option result) \<Rightarrow> 'p list \<Rightarrow> 'c list" where
  "named_cursors follow pages = concat (map (\<lambda>p. case follow p of Inr (Some c) \<Rightarrow> [c] | _ \<Rightarrow> []) pages)"

lemma named_cursors_simps [simp]:
  "named_cursors follow [] = []"
  "named_cursors follow (p # pages) = (case follow p of Inr (Some c) \<Rightarrow> [c] | _ \<Rightarrow> []) @ named_cursors follow pages"
  by (simp_all add: named_cursors_def)

text \<open>A success: the items of a chain of pages, converted one by one, whose cursors are all different.\<close>

definition page_result ::
  "('c \<Rightarrow> 'w \<Rightarrow> 'p result \<times> 'w) \<Rightarrow> ('p \<Rightarrow> 'b list result) \<Rightarrow> ('p \<Rightarrow> 'c option result) \<Rightarrow> 'c \<Rightarrow> 'c set \<Rightarrow> 'b list \<Rightarrow> 'w \<Rightarrow>
   'b list result \<times> 'w \<Rightarrow> bool" where
  "page_result fetch convert follow cursor seen items w y \<longleftrightarrow>
     (\<forall>res w'. y = (Inr res, w') \<longrightarrow> (\<exists>pages converted. page_chain fetch follow cursor w pages w' \<and>
       map convert pages = map Inr converted \<and> res = items @ concat converted \<and>
       distinct (named_cursors follow pages) \<and> set (named_cursors follow pages) \<inter> seen = {}))"

lemma page_loop_result:
  "page_loop fetch convert follow repeated cursor seen items w = Some y \<Longrightarrow> page_result fetch convert follow cursor seen items w y"
proof (erule page_loop.raw_induct
    [where P = "\<lambda>fetch convert follow repeated cursor seen items w y. page_result fetch convert follow cursor seen items w y", rotated],
    goal_cases)
  case (1 loop fetch convert follow repeated cursor seen items w y)
  show ?case unfolding page_result_def
  proof (intro allI impI)
    fix res w'
    assume y: "y = (Inr res, w')"
    with 1(2) obtain page w1 xs where page: "fetch cursor w = (Inr page, w1)" "convert page = Inr xs"
      by (auto split: prod.splits sum.splits)
    then have step: "(case follow page of Inl err \<Rightarrow> Some (Inl err, w1) | Inr None \<Rightarrow> Some (Inr (items @ xs), w1)
      | Inr (Some c) \<Rightarrow> if c \<in> seen then Some (Inl (errorText repeated), w1)
          else loop fetch convert follow repeated c (insert c seen) (items @ xs) w1) = Some (Inr res, w')"
      using 1(2) y by (simp add: Let_def)
    show "\<exists>pages converted. page_chain fetch follow cursor w pages w' \<and>
       map convert pages = map Inr converted \<and> res = items @ concat converted \<and>
       distinct (named_cursors follow pages) \<and> set (named_cursors follow pages) \<inter> seen = {}"
    proof (cases "follow page")
      case (Inr next_cursor)
      show ?thesis
      proof (cases next_cursor)
        case None
        with Inr step page show ?thesis by (intro exI [of _ "[page]"] exI [of _ "[xs]"]) simp
      next
        case (Some c)
        with Inr step have fresh: "c \<notin> seen" by (auto split: if_splits)
        with Some Inr step have "loop fetch convert follow repeated c (insert c seen) (items @ xs) w1 = Some (Inr res, w')" by simp
        from 1(1) [OF this, unfolded page_result_def] obtain pages converted where rest: "page_chain fetch follow c w1 pages w'"
          "map convert pages = map Inr converted" "res = (items @ xs) @ concat converted"
          "distinct (named_cursors follow pages)" "set (named_cursors follow pages) \<inter> insert c seen = {}" by blast
        with page Inr Some fresh show ?thesis
          by (intro exI [of _ "page # pages"] exI [of _ "xs # converted"]) auto
      qed
    qed (use step in simp)
  qed
qed

text \<open>The loop ends when the cursors that can be named are finitely many.\<close>

lemma page_loop_returns:
  assumes "finite C" "\<And>cursor w page w1 c. fetch cursor w = (Inr page, w1) \<Longrightarrow> follow page = Inr (Some c) \<Longrightarrow> c \<in> C"
  shows "seen \<subseteq> C \<Longrightarrow> \<exists>y. page_loop fetch convert follow repeated cursor seen items w = Some y"
proof (induction "card (C - seen)" arbitrary: cursor seen items w rule: less_induct)
  case less
  show ?case
  proof (cases "\<exists>page w1 xs c. fetch cursor w = (Inr page, w1) \<and> convert page = Inr xs \<and> follow page = Inr (Some c) \<and> c \<notin> seen")
    case True
    then obtain page w1 xs c where step: "fetch cursor w = (Inr page, w1)" "convert page = Inr xs" "follow page = Inr (Some c)"
      "c \<notin> seen" by blast
    then have inC: "c \<in> C" using assms(2) by blast
    then have "card (C - insert c seen) < card (C - seen)"
      using step(4) assms(1) by (intro psubset_card_mono) auto
    moreover have "insert c seen \<subseteq> C" using inC less(2) by simp
    ultimately obtain y where "page_loop fetch convert follow repeated c (insert c seen) (items @ xs) w1 = Some y"
      using less(1) by blast
    with step show ?thesis by (subst page_loop.simps) (simp add: Let_def)
  next
    case False
    then show ?thesis
      by (subst page_loop.simps) (auto simp: Let_def split: prod.split sum.split option.split)
  qed
qed

end
