(* ===== verification/Okx_Native.thy ===== *)
theory Okx_Native
  imports Okx_Requests
begin

text \<open>
  The values the OKX client returns (\<open>exchange/okx/types.go\<close>). The \<open>Raw\<close> fields, which only carry the bytes a value
  was decoded from, are left out. Levels and candles are sent as arrays of texts; the step from the array
  to the record is written out, the decoder of arrays of texts is a parameter.
\<close>

record okx_Instrument =
  oit_InstrumentType :: InstrumentType
  oit_InstrumentID :: string
  oit_Underlying :: string
  oit_InstrumentFamily :: string
  oit_Category :: string
  oit_BaseCurrency :: string
  oit_QuoteCurrency :: string
  oit_SettleCurrency :: string
  oit_ContractValue :: string
  oit_ContractMultiple :: string
  oit_ContractValueCcy :: string
  oit_ContractType :: string
  oit_ListTime :: string
  oit_ExpiryTime :: string
  oit_MaximumLeverage :: string
  oit_TickSize :: string
  oit_LotSize :: string
  oit_MinimumSize :: string
  oit_MaximumLimitSize :: string
  oit_MaximumMarketSize :: string
  oit_State :: string

record okx_Ticker =
  otk_InstrumentType :: InstrumentType
  otk_InstrumentID :: string
  otk_LastPrice :: string
  otk_LastSize :: string
  otk_AskPrice :: string
  otk_AskSize :: string
  otk_BidPrice :: string
  otk_BidSize :: string
  otk_Open24h :: string
  otk_High24h :: string
  otk_Low24h :: string
  otk_VolumeCurrency24h :: string
  otk_Volume24h :: string
  otk_Timestamp :: string

record okx_BookLevel =
  oxl_Price :: string
  oxl_Quantity :: string
  oxl_LiquidatedOrderCount :: string
  oxl_OrderCount :: string

text \<open>\<open>OrderBook\<close>: a snapshot of the REST API and an event of the stream.\<close>

record okx_Event =
  oxe_Asks :: "okx_BookLevel list"
  oxe_Bids :: "okx_BookLevel list"
  oxe_Timestamp :: string
  oxe_Checksum :: int
  oxe_PreviousSequenceID :: int
  oxe_SequenceID :: int

record okx_PublicTrade =
  opt_InstrumentID :: string
  opt_TradeID :: string
  opt_Price :: string
  opt_Quantity :: string
  opt_Side :: string
  opt_Timestamp :: string

record okx_Candle =
  ocd_Timestamp :: string
  ocd_Open :: string
  ocd_High :: string
  ocd_Low :: string
  ocd_Close :: string
  ocd_Volume :: string
  ocd_VolumeCurrency :: string
  ocd_VolumeQuoteCurrency :: string
  ocd_Confirmed :: bool

record okx_BalanceDetail =
  obd_Currency :: string
  obd_Equity :: string
  obd_CashBalance :: string
  obd_UpdateTime :: string
  obd_IsolatedEquity :: string
  obd_AvailableEquity :: string
  obd_DiscountEquity :: string
  obd_AvailableBalance :: string
  obd_FrozenBalance :: string
  obd_OrderFrozen :: string
  obd_Liability :: string
  obd_UnrealisedPnL :: string
  obd_CrossLiability :: string
  obd_IsolatedLiability :: string
  obd_MarginRatio :: string
  obd_Interest :: string

record okx_Balance =
  oba_TotalEquity :: string
  oba_IsolatedEquity :: string
  oba_AdjustedEquity :: string
  oba_OrderFrozen :: string
  oba_MarginRatio :: string
  oba_NotionalUSD :: string
  oba_UpdateTime :: string
  oba_Details :: "okx_BalanceDetail list"

record okx_Position =
  opn_InstrumentType :: InstrumentType
  opn_InstrumentID :: string
  opn_MarginMode :: string
  opn_PositionID :: string
  opn_PositionSide :: string
  opn_Position :: string
  opn_PositionCcy :: string
  opn_AvailablePosition :: string
  opn_AveragePrice :: string
  opn_UnrealisedPnL :: string
  opn_UnrealisedPnLRatio :: string
  opn_Leverage :: string
  opn_LiquidationPrice :: string
  opn_MarkPrice :: string
  opn_InitialMargin :: string
  opn_Margin :: string
  opn_MaintenanceMargin :: string
  opn_NotionalUSD :: string
  opn_ADL :: string
  opn_CreatedTime :: string
  opn_UpdatedTime :: string

record okx_Order =
  ood_InstrumentType :: InstrumentType
  ood_InstrumentID :: string
  ood_OrderID :: string
  ood_ClientOrderID :: string
  ood_Tag :: string
  ood_Price :: string
  ood_Quantity :: string
  ood_OrderType :: string
  ood_Side :: string
  ood_PositionSide :: string
  ood_TradeMode :: string
  ood_ExecutedQuantity :: string
  ood_FillPrice :: string
  ood_FillQuantity :: string
  ood_AveragePrice :: string
  ood_State :: string
  ood_FeeCurrency :: string
  ood_Fee :: string
  ood_PnL :: string
  ood_TargetCurrency :: string
  ood_ReduceOnly :: string
  ood_CancelSource :: string
  ood_CreatedTime :: string
  ood_UpdatedTime :: string

record okx_OrderReference =
  orf_OrderID :: string
  orf_ClientOrderID :: string
  orf_Tag :: string
  orf_Timestamp :: string
  orf_StatusCode :: string
  orf_StatusMessage :: string

text \<open>An order page without its raw bytes is its list of orders.\<close>

record okx_OrderPage =
  opg_Orders :: "okx_Order list"

section \<open>Arrays of texts\<close>

definition okx_BookLevel_Unmarshal :: "(string \<Rightarrow> string list result) \<Rightarrow> string \<Rightarrow> okx_BookLevel result" where
  "okx_BookLevel_Unmarshal Texts raw =
     (case Texts raw of
        Inl err \<Rightarrow> Inl (Errorf ''decode OKX book level: %w'' [] [err])
      | Inr xs \<Rightarrow>
          if length xs < 4
          then Inl (Errorf ''OKX book level has %d fields, want at least 4'' [IntArg (int (length xs))] [])
          else Inr \<lparr>oxl_Price = xs ! 0, oxl_Quantity = xs ! 1, oxl_LiquidatedOrderCount = xs ! 2, oxl_OrderCount = xs ! 3\<rparr>)"

definition okx_Candle_Unmarshal :: "(string \<Rightarrow> string list result) \<Rightarrow> string \<Rightarrow> okx_Candle result" where
  "okx_Candle_Unmarshal Texts raw =
     (case Texts raw of
        Inl err \<Rightarrow> Inl (Errorf ''decode OKX candle: %w'' [] [err])
      | Inr xs \<Rightarrow>
          if length xs < 9
          then Inl (Errorf ''OKX candle has %d fields, want at least 9'' [IntArg (int (length xs))] [])
          else Inr \<lparr>ocd_Timestamp = xs ! 0, ocd_Open = xs ! 1, ocd_High = xs ! 2, ocd_Low = xs ! 3, ocd_Close = xs ! 4,
                    ocd_Volume = xs ! 5, ocd_VolumeCurrency = xs ! 6, ocd_VolumeQuoteCurrency = xs ! 7,
                    ocd_Confirmed = (xs ! 8 = ''1'')\<rparr>)"

end
