(* ===== verification/Okx_Client.thy ===== *)
theory Okx_Client
  imports Signed_Calls Go_Encoding Okx_Native
begin

text \<open>
  The OKX V5 REST client (\<open>exchange/okx/client.go\<close>, \<open>limits.go\<close>, \<open>signer.go\<close>): its construction, public and signed
  requests, rate-limit charges, and the classification of responses. It runs on the same world as the
  other clients of \<open>Signed_Calls\<close> and meets the contracts stated there. HMAC-SHA256, the JSON codec and
  \<open>Duration.String\<close> are parameters. Header names are in canonical form.
\<close>

section \<open>State\<close>

abbreviation ExchangeOKX :: ExchangeID where "ExchangeOKX \<equiv> ''okx''"

record 'w okx_Config =
  ocf_Executor :: "'w rest_executor option"
  ocf_Credentials :: "Descriptor option"
  ocf_CredentialProvider :: "'w key_Provider option"
  ocf_DefaultEgressRouteID :: EgressRouteID
  ocf_BaseURL :: string
  ocf_AllowInsecureHTTP :: bool
  ocf_RequestTimeout :: int
  ocf_DemoTrading :: bool
  ocf_Now :: "('w \<Rightarrow> int) option"

record 'w okx_Client =
  ocl_executor :: "'w rest_executor"
  ocl_credentials :: "Descriptor option"
  ocl_credentialProvider :: "'w key_Provider option"
  ocl_defaultEgressRouteID :: EgressRouteID
  ocl_baseURL :: string
  ocl_requestTimeout :: int
  ocl_demoTrading :: bool
  ocl_now :: "'w \<Rightarrow> int"

text \<open>What a call needs besides the client: \<open>url.Parse\<close>, \<open>URL.EscapedPath\<close>, HMAC-SHA256, the decoder of the envelope, and
  \<open>Duration.String\<close>.\<close>

record okx_lib =
  ol_ParseURL :: "string \<Rightarrow> parsed_URL result"
  ol_EscapedPath :: "parsed_URL \<Rightarrow> string"
  ol_HMAC :: "string \<Rightarrow> string \<Rightarrow> string"
  ol_Envelope :: "string \<Rightarrow> (string \<times> string \<times> string) result"
  ol_DurationString :: "int \<Rightarrow> string"

section \<open>Construction\<close>

abbreviation okx_DefaultBaseURL :: string where "okx_DefaultBaseURL \<equiv> ''https://www.okx.com''"
abbreviation okx_DefaultRequestTimeout :: int where "okx_DefaultRequestTimeout \<equiv> 10 * second"

definition okx_check_baseURL :: "(string \<Rightarrow> parsed_URL result) \<Rightarrow> bool \<Rightarrow> string \<Rightarrow> string result" where
  "okx_check_baseURL ParseURL allowInsecureHTTP baseURL =
     (case ParseURL baseURL of
        Inl err \<Rightarrow> Inl (Errorf ''invalid OKX base URL %q'' [StrArg baseURL] [])
      | Inr u \<Rightarrow>
          if ul_Host u = [] \<or> ul_User u \<or> ul_RawQuery u \<noteq> [] \<or> ul_Fragment u \<noteq> [] \<or> (ul_Path u \<noteq> [] \<and> ul_Path u \<noteq> ''/'')
          then Inl (Errorf ''invalid OKX base URL %q'' [StrArg baseURL] [])
          else if ul_Scheme u \<noteq> ''https'' \<and> \<not> (allowInsecureHTTP \<and> ul_Scheme u = ''http'')
          then Inl (errorText ''OKX base URL must use HTTPS'')
          else Inr (ul_Scheme u @ ''://'' @ ul_Host u))"

definition okx_check_credentials :: "Descriptor option \<Rightarrow> bool \<Rightarrow> go_error option" where
  "okx_check_credentials credentials provided =
     (case credentials of
        Some d \<Rightarrow>
          (case Descriptor_Validate d of
             Some err \<Rightarrow> Some err
           | None \<Rightarrow>
               if de_Exchange d \<noteq> ExchangeOKX then Some (errorText ''credential exchange must be OKX'')
               else if \<not> provided then Some (errorText ''credential provider is required for private OKX requests'')
               else None)
      | None \<Rightarrow> if provided then Some (errorText ''credential descriptor is required with credential provider'') else None)"

definition okx_New :: "(string \<Rightarrow> parsed_URL result) \<Rightarrow> ('w \<Rightarrow> int) \<Rightarrow> 'w okx_Config \<Rightarrow> 'w okx_Client result" where
  "okx_New ParseURL time_Now config =
     (case ocf_Executor config of
        None \<Rightarrow> Inl (errorText ''OKX executor is required'')
      | Some executor \<Rightarrow>
          let defaultRouteID = TrimSpace (ocf_DefaultEgressRouteID config)
          in if defaultRouteID = [] then Inl (Sentinel ErrMissingEgressRoute)
             else
               let baseURL = (if ocf_BaseURL config = [] then okx_DefaultBaseURL else ocf_BaseURL config);
                   timeout = (if ocf_RequestTimeout config = 0 then okx_DefaultRequestTimeout else ocf_RequestTimeout config)
               in case okx_check_baseURL ParseURL (ocf_AllowInsecureHTTP config) baseURL of
                    Inl err \<Rightarrow> Inl err
                  | Inr parsed \<Rightarrow>
                      if timeout < 0 then Inl (errorText ''OKX request timeout cannot be negative'')
                      else case okx_check_credentials (ocf_Credentials config) (ocf_CredentialProvider config \<noteq> None) of
                             Some err \<Rightarrow> Inl err
                           | None \<Rightarrow>
                               Inr \<lparr>ocl_executor = executor, ocl_credentials = ocf_Credentials config,
                                    ocl_credentialProvider = ocf_CredentialProvider config,
                                    ocl_defaultEgressRouteID = defaultRouteID, ocl_baseURL = parsed,
                                    ocl_requestTimeout = timeout, ocl_demoTrading = ocf_DemoTrading config,
                                    ocl_now = (case ocf_Now config of Some f \<Rightarrow> f | None \<Rightarrow> time_Now)\<rparr>)"

section \<open>Rate limits\<close>

record okx_endpointLimit =
  oll_requests :: int
  oll_window :: int
  oll_account :: bool
  oll_discriminator :: string

definition okx_publicLimit :: "int \<Rightarrow> int \<Rightarrow> string \<Rightarrow> okx_endpointLimit" where
  "okx_publicLimit requests window discriminator =
     \<lparr>oll_requests = requests, oll_window = window, oll_account = False, oll_discriminator = discriminator\<rparr>"

definition okx_accountLimit :: "int \<Rightarrow> int \<Rightarrow> string \<Rightarrow> okx_endpointLimit" where
  "okx_accountLimit requests window discriminator =
     \<lparr>oll_requests = requests, oll_window = window, oll_account = True, oll_discriminator = discriminator\<rparr>"

definition durationKey :: "(int \<Rightarrow> string) \<Rightarrow> int \<Rightarrow> string" where
  "durationKey Show window =
     (if window mod second = 0 then int_str (window div second) @ ''seconds'' else Show window)"

definition okx_rateLimitEndpointKey :: "(int \<Rightarrow> string) \<Rightarrow> string \<Rightarrow> string \<Rightarrow> string \<Rightarrow> string \<Rightarrow> string \<Rightarrow> int \<Rightarrow> string" where
  "okx_rateLimitEndpointKey Show scope scopeID verb path discriminator window =
     (let key = ''okx:'' @ scope @ '':'' @ scopeID @ '':endpoint:'' @ ToUpper verb @ '':'' @ 
       (case path of c # rest \<Rightarrow> (if c = CHR ''/'' then rest else path) | [] \<Rightarrow> []);
          key = (if discriminator \<noteq> [] then key @ '':'' @ discriminator else key)
      in key @ '':'' @ durationKey Show window)"

definition okx_rateLimitCharges ::
  "(int \<Rightarrow> string) \<Rightarrow> 'w rest_executor \<Rightarrow> EgressRouteID \<Rightarrow> string \<Rightarrow> string \<Rightarrow> string \<Rightarrow> okx_endpointLimit \<Rightarrow> 'w \<Rightarrow>
   Charge list result \<times> 'w" where
  "okx_rateLimitCharges Show ex routeID accountID verb path limit w =
     (let (scope, scopeID) = (if oll_account limit then (''account'', accountID) else (''route'', routeID))
      in if TrimSpace scopeID = []
         then (Inl (Errorf ''OKX endpoint rate limit requires %s scope ID'' [StrArg scope] []), w)
         else
           let key = okx_rateLimitEndpointKey Show scope scopeID verb path (oll_discriminator limit) (oll_window limit)
           in case rx_SetRule ex \<lparr>rule_Key = key, rule_Limit = oll_requests limit, rule_Window = oll_window limit\<rparr> w of
                (Some err, w) \<Rightarrow> (Inl err, w)
              | (None, w) \<Rightarrow> (Inr [\<lparr>charge_Key = key, charge_Units = 1\<rparr>], w))"

section \<open>Requests\<close>

definition okx_resolveOptions :: "'w okx_Client \<Rightarrow> RequestOption option list \<Rightarrow> RequestOptions result" where
  "okx_resolveOptions client options =
     (case ResolveRequestOptions (ocl_defaultEgressRouteID client) options of
        Inl err \<Rightarrow> Inl err
      | Inr resolved \<Rightarrow>
          Inr (if ro_Timeout resolved = 0 then resolved\<lparr>ro_Timeout := ocl_requestTimeout client\<rparr> else resolved))"

text \<open>The rendered URL, and the request with the path and raw query of its URL that are signed.\<close>

definition okx_requestURL :: "'w okx_Client \<Rightarrow> string \<Rightarrow> url_Values \<Rightarrow> string" where
  "okx_requestURL client path query =
     ocl_baseURL client @ path @ (let q = Values_Encode query in if q = [] then [] else CHR ''?'' # q)"

definition okx_newRequest ::
  "okx_lib \<Rightarrow> 'w okx_Client \<Rightarrow> string \<Rightarrow> string \<Rightarrow> url_Values \<Rightarrow> string \<Rightarrow> (http_Request \<times> parsed_URL) result" where
  "okx_newRequest lib client verb path query body =
     (case ol_ParseURL lib (okx_requestURL client path query) of
        Inl err \<Rightarrow> Inl (Errorf ''create OKX request: %w'' [] [err])
      | Inr u \<Rightarrow>
          Inr (\<lparr>rq_Context = Background, rq_Method = verb, rq_URL = Some (okx_requestURL client path query, ul_Path u),
                rq_Header = [(''Accept'', ''application/json''), (''Content-Type'', ''application/json''),
                             (''User-Agent'', ''cex-sdk-go/0'')] @
                            (if ocl_demoTrading client then [(''X-Simulated-Trading'', ''1'')] else []),
                rq_Body = body\<rparr>, u))"

definition okx_signaturePayload :: "string \<Rightarrow> string \<Rightarrow> string \<Rightarrow> string \<Rightarrow> string" where
  "okx_signaturePayload timestamp verb requestPath body = timestamp @ verb @ requestPath @ body"

definition okx_SignHMACSHA256 :: "(string \<Rightarrow> string \<Rightarrow> string) \<Rightarrow> string \<Rightarrow> string \<Rightarrow> string result" where
  "okx_SignHMACSHA256 hmac secret payload =
     (if secret = [] then Inl (errorText ''OKX HMAC secret is required'')
      else Inr (base64_EncodeToString (hmac secret payload)))"

definition okx_authError :: "ErrorCategory \<Rightarrow> string \<Rightarrow> go_error \<Rightarrow> go_error" where
  "okx_authError category accountID cause =
     ErrAPI (APIError category ExchangeOKX accountID [] False 0 [] [] (Some cause))"

definition okx_requestPath :: "okx_lib \<Rightarrow> parsed_URL \<Rightarrow> string" where
  "okx_requestPath lib u = ol_EscapedPath lib u @ (if ul_RawQuery u \<noteq> [] then CHR ''?'' # ul_RawQuery u else [])"

text \<open>The builder of a signed request.\<close>

definition okx_signed_build ::
  "okx_lib \<Rightarrow> 'w okx_Client \<Rightarrow> Descriptor \<Rightarrow> 'w key_Provider \<Rightarrow> string \<Rightarrow> string \<Rightarrow> url_Values \<Rightarrow> string \<Rightarrow>
   ('w \<times> call_memory) BuildRequest" where
  "okx_signed_build lib client d provider verb path query body ctx = (\<lambda>(w, m).
     case provider ctx (de_SecretRef d) (w, bm_heap m) of ((material, resolveErr), w, h) \<Rightarrow>
       let m = m\<lparr>bm_heap := h, bm_material := material\<rparr>
       in case resolveErr of
            Some err \<Rightarrow> (Inl (okx_authError ErrorAuthentication (de_AccountID d) err), w, m)
          | None \<Rightarrow>
              if sl_len (mt_APIKey material) = 0 \<or> sl_len (mt_SecretKey material) = 0 \<or> sl_len (mt_Passphrase material) = 0
              then (Inl (okx_authError ErrorAuthentication (de_AccountID d)
                      (errorText ''OKX API key, HMAC secret, and passphrase are required'')), w, m)
              else case okx_newRequest lib client verb path query body of
                     Inl err \<Rightarrow> (Inl err, w, m)
                   | Inr (request, u) \<Rightarrow>
                       let timestamp = Format_RFC3339Milli (wrap64 (UnixMilli (ocl_now client w) + bm_offset m))
                       in case okx_SignHMACSHA256 (ol_HMAC lib) (slice_string h (mt_SecretKey material))
                                 (okx_signaturePayload timestamp verb (okx_requestPath lib u) body) of
                            Inl err \<Rightarrow> (Inl err, w, m)
                          | Inr signature \<Rightarrow>
                              (Inr (Some (request\<lparr>rq_Header := rq_Header request @
                                 [(''Ok-Access-Key'', slice_string h (mt_APIKey material)), (''Ok-Access-Sign'', signature),
                                  (''Ok-Access-Timestamp'', timestamp),
                                  (''Ok-Access-Passphrase'', slice_string h (mt_Passphrase material))]\<rparr>)), w, m))"

definition okx_public_build ::
  "okx_lib \<Rightarrow> 'w okx_Client \<Rightarrow> string \<Rightarrow> string \<Rightarrow> url_Values \<Rightarrow> ('w \<times> call_memory \<Rightarrow> 'w \<times> call_memory) option \<Rightarrow>
   ('w \<times> call_memory) BuildRequest" where
  "okx_public_build lib client verb path query beforeBuild ctx s =
     (let s = (case beforeBuild of Some f \<Rightarrow> f s | None \<Rightarrow> s)
      in case okx_newRequest lib client verb path query [] of
           Inl err \<Rightarrow> (Inl err, s)
         | Inr (request, u) \<Rightarrow> (Inr (Some request), s))"

definition okx_execution ::
  "string \<Rightarrow> RequestOptions \<Rightarrow> Charge list \<Rightarrow> OperationKind \<Rightarrow> ('w \<times> call_memory) BuildRequest \<Rightarrow> ('w \<times> call_memory) Execution" where
  "okx_execution accountID resolved charges operation build =
     \<lparr>ex_Exchange = ExchangeOKX, ex_EndpointID = [], ex_AccountID = accountID,
      ex_EgressRouteID = ro_EgressRouteID resolved, ex_Timeout = ro_Timeout resolved, ex_Charges = charges,
      ex_Operation = operation, ex_Build = Some build\<rparr>"

text \<open>The callers ignore the route that the Go functions return beside the response; it is left out.\<close>

definition okx_executePublic ::
  "okx_lib \<Rightarrow> 'w okx_Client \<Rightarrow> go_context option \<Rightarrow> string \<Rightarrow> string \<Rightarrow> url_Values \<Rightarrow> okx_endpointLimit \<Rightarrow>
   ('w \<times> call_memory \<Rightarrow> 'w \<times> call_memory) option \<Rightarrow> RequestOption option list \<Rightarrow> 'w \<times> call_memory \<Rightarrow>
   Response result \<times> 'w \<times> call_memory" where
  "okx_executePublic lib client ctx verb path query limit beforeBuild options = (\<lambda>(w, m).
     case okx_resolveOptions client options of
       Inl err \<Rightarrow> (Inl err, w, m)
     | Inr resolved \<Rightarrow>
         (case okx_rateLimitCharges (ol_DurationString lib) (ocl_executor client) (ro_EgressRouteID resolved) [] verb path limit w of
            (Inl err, w) \<Rightarrow> (Inl err, w, m)
          | (Inr charges, w) \<Rightarrow>
              (case rest_Execute (ocl_executor client) ctx
                      (okx_execution [] resolved charges OperationRead
                         (okx_public_build lib client verb path query beforeBuild)) (w, m) of
                 (response, Some err, w, m) \<Rightarrow> (Inl err, w, m)
               | (response, None, w, m) \<Rightarrow> (Inr response, w, m))))"

definition okx_executeSigned ::
  "okx_lib \<Rightarrow> 'w okx_Client \<Rightarrow> go_context option \<Rightarrow> string \<Rightarrow> string \<Rightarrow> url_Values \<Rightarrow> string \<Rightarrow> okx_endpointLimit \<Rightarrow>
   Permission \<Rightarrow> OperationKind \<Rightarrow> RequestOption option list \<Rightarrow> 'w \<times> call_memory \<Rightarrow>
   Response result \<times> 'w \<times> call_memory" where
  "okx_executeSigned lib client ctx verb path query body limit permission operation options = (\<lambda>(w, m).
     case okx_resolveOptions client options of
       Inl err \<Rightarrow> (Inl err, w, m)
     | Inr resolved \<Rightarrow>
         (case (ocl_credentials client, ocl_credentialProvider client) of
            (Some d, Some provider) \<Rightarrow>
              (case RequireEgressRoute d (ro_EgressRouteID resolved) of
                 Some err \<Rightarrow> (Inl (okx_authError ErrorAuthorization (de_AccountID d) err), w, m)
               | None \<Rightarrow>
                   (case RequirePermission d permission of
                      Some err \<Rightarrow> (Inl (okx_authError ErrorAuthorization (de_AccountID d) err), w, m)
                    | None \<Rightarrow>
                        (case okx_rateLimitCharges (ol_DurationString lib) (ocl_executor client) (ro_EgressRouteID resolved)
                                (de_AccountID d) verb path limit w of
                           (Inl err, w) \<Rightarrow> (Inl err, w, m)
                         | (Inr charges, w) \<Rightarrow>
                             (case rest_Execute (ocl_executor client) ctx
                                     (okx_execution (de_AccountID d) resolved charges operation
                                        (okx_signed_build lib client d provider verb path query body))
                                     (w, m\<lparr>bm_material := zeroMaterial\<rparr>) of
                                (response, Some err, w, m) \<Rightarrow> (Inl err, w, key_destroy m)
                              | (response, None, w, m) \<Rightarrow> (Inr response, w, key_destroy m)))))
          | _ \<Rightarrow> (Inl (okx_authError ErrorAuthentication [] (errorText ''private OKX request requires credentials'')), w, m)))"

section \<open>Responses\<close>

definition okx_classifyError :: "int \<Rightarrow> string \<Rightarrow> OperationKind \<Rightarrow> ErrorCategory \<times> bool" where
  "okx_classifyError status code operation =
     (if status = 429 \<or> code = ''50011'' \<or> code = ''50040'' \<or> code = ''50061'' then (ErrorRateLimited, True)
      else if code \<in> set [''50102'', ''50103'', ''50104'', ''50105'', ''50106'', ''50111'', ''50112'', ''50113'', ''50119'']
      then (ErrorAuthentication, False)
      else if code \<in> set [''50114'', ''50120''] then (ErrorAuthorization, False)
      else if code \<in> set [''51400'', ''51401'', ''51603''] then (ErrorOrderNotFound, False)
      else if code \<in> set [''51008'', ''51119'', ''51131''] then (ErrorInsufficientBalance, False)
      else if code \<in> set [''50001'', ''50004'', ''50013'', ''50026'', ''51149'']
      then (if operation = OperationMutation then (ErrorUnknownExecutionState, False) else (ErrorExchangeUnavailable, True))
      else if 500 \<le> status
      then (if operation = OperationMutation then (ErrorUnknownExecutionState, False) else (ErrorExchangeUnavailable, True))
      else if status = 401 then (ErrorAuthentication, False)
      else if status = 403 then (ErrorAuthorization, False)
      else if (400 \<le> status \<and> status < 500) \<or> code \<noteq> [] then (ErrorValidation, False)
      else (ErrorInternal, False))"

definition okx_accountID :: "'w okx_Client \<Rightarrow> string" where
  "okx_accountID client = (case ocl_credentials client of Some d \<Rightarrow> de_AccountID d | None \<Rightarrow> [])"

definition okx_decodeError ::
  "'w okx_Client \<Rightarrow> Response \<Rightarrow> string \<Rightarrow> string \<Rightarrow> OperationKind \<Rightarrow> go_error option \<Rightarrow> go_error" where
  "okx_decodeError client response code message operation cause =
     (let (category, retryable) = okx_classifyError (re_StatusCode response) code operation
      in ErrAPI (APIError category ExchangeOKX (okx_accountID client)
           (firstNonEmpty [header_get (re_Header response) ''Ok-Access-Trace'', header_get (re_Header response) ''X-Request-Id''])
           retryable (re_StatusCode response) code message cause))"

definition okx_decodeBodyError :: "'w okx_Client \<Rightarrow> Response \<Rightarrow> OperationKind \<Rightarrow> go_error \<Rightarrow> go_error" where
  "okx_decodeBodyError client response operation cause =
     (let (category, retryable) = okx_classifyError (re_StatusCode response) [] operation;
          (category, retryable) =
            (if category = ErrorInternal
             then if operation = OperationMutation then (ErrorUnknownExecutionState, False)
                  else (ErrorExchangeUnavailable, operation = OperationRead)
             else (category, retryable))
      in ErrAPI (APIError category ExchangeOKX (okx_accountID client) [] retryable (re_StatusCode response) [] []
           (Some (Errorf ''decode OKX JSON response: %w'' [] [cause]))))"

text \<open>The envelope: code, message and raw data.\<close>

definition okx_responseData :: "okx_lib \<Rightarrow> 'w okx_Client \<Rightarrow> Response \<Rightarrow> OperationKind \<Rightarrow> string result" where
  "okx_responseData lib client response operation =
     (case ol_Envelope lib (re_Body response) of
        Inl err \<Rightarrow> Inl (okx_decodeBodyError client response operation err)
      | Inr (code, message, raw) \<Rightarrow>
          if code = [] then Inl (okx_decodeBodyError client response operation (errorText ''OKX response code is missing''))
          else if re_StatusCode response < 200 \<or> 300 \<le> re_StatusCode response \<or> code \<noteq> ''0''
          then Inl (okx_decodeError client response code message operation None)
          else Inr raw)"

definition okx_encodeBody :: "string result \<Rightarrow> string result" where
  "okx_encodeBody marshalled =
     (case marshalled of
        Inl err \<Rightarrow> Inl (Errorf ''encode OKX JSON request: %w'' [] [err])
      | Inr body \<Rightarrow> Inr body)"

definition okx_decodeData :: "(string \<Rightarrow> 'a result) \<Rightarrow> string \<Rightarrow> 'a result" where
  "okx_decodeData Unmarshal raw =
     (case Unmarshal raw of
        Inl err \<Rightarrow> Inl (Errorf ''decode OKX response data: %w'' [] [err])
      | Inr val \<Rightarrow> Inr val)"

fun okx_decode_each :: "(string \<Rightarrow> 'a result) \<Rightarrow> string list \<Rightarrow> 'a list result" where
  "okx_decode_each Unmarshal [] = Inr []"
| "okx_decode_each Unmarshal (item # rest) =
     (case okx_decodeData Unmarshal item of
        Inl err \<Rightarrow> Inl err
      | Inr val \<Rightarrow>
          (case okx_decode_each Unmarshal rest of
             Inl err \<Rightarrow> Inl err
           | Inr vals \<Rightarrow> Inr (val # vals)))"

definition okx_decodeItems :: "(string \<Rightarrow> string list result) \<Rightarrow> (string \<Rightarrow> 'a result) \<Rightarrow> string \<Rightarrow> 'a list result" where
  "okx_decodeItems RawItems Unmarshal raw =
     (case okx_decodeData RawItems raw of
        Inl err \<Rightarrow> Inl err
      | Inr items \<Rightarrow> okx_decode_each Unmarshal items)"

section \<open>What a signed request is\<close>

text \<open>The signature covers the time stamp, the verb, the path with its query, and the body.\<close>

definition okx_signed_request ::
  "okx_lib \<Rightarrow> 'w okx_Client \<Rightarrow> string \<Rightarrow> string \<Rightarrow> url_Values \<Rightarrow> string \<Rightarrow> Descriptor \<Rightarrow> 'w key_Provider \<Rightarrow> http_Request \<Rightarrow> bool" where
  "okx_signed_request lib client verb path query body d p rq \<longleftrightarrow>
     rq_Method rq = verb \<and> rq_Body rq = body \<and>
     (ocl_demoTrading client \<longleftrightarrow> header_get (rq_Header rq) ''X-Simulated-Trading'' = ''1'') \<and>
     (\<exists>u m0 material h t. ol_ParseURL lib (okx_requestURL client path query) = Inr u \<and>
        rq_URL rq = Some (okx_requestURL client path query, ul_Path u) \<and>
        key_resolved d p m0 material h \<and>
        slice_string h (mt_APIKey material) \<noteq> [] \<and> slice_string h (mt_SecretKey material) \<noteq> [] \<and>
        slice_string h (mt_Passphrase material) \<noteq> [] \<and>
        header_get (rq_Header rq) ''Ok-Access-Key'' = slice_string h (mt_APIKey material) \<and>
        header_get (rq_Header rq) ''Ok-Access-Passphrase'' = slice_string h (mt_Passphrase material) \<and>
        header_get (rq_Header rq) ''Ok-Access-Timestamp'' = Format_RFC3339Milli t \<and>
        header_get (rq_Header rq) ''Ok-Access-Sign'' =
          base64_EncodeToString (ol_HMAC lib (slice_string h (mt_SecretKey material))
            (Format_RFC3339Milli t @ verb @ ol_EscapedPath lib u @
               (if ul_RawQuery u = [] then [] else CHR ''?'' # ul_RawQuery u) @ body)))"

text \<open>The request a signing builder returns.\<close>

definition okx_signed :: "okx_lib \<Rightarrow> string \<Rightarrow> string \<Rightarrow> Material \<Rightarrow> byte_heap \<Rightarrow> string \<Rightarrow> parsed_URL \<Rightarrow> http_Request \<Rightarrow> http_Request" where
  "okx_signed lib verb body material h timestamp u request = request\<lparr>rq_Header := rq_Header request @
     [(''Ok-Access-Key'', slice_string h (mt_APIKey material)),
      (''Ok-Access-Sign'', base64_EncodeToString (ol_HMAC lib (slice_string h (mt_SecretKey material))
         (okx_signaturePayload timestamp verb (okx_requestPath lib u) body))),
      (''Ok-Access-Timestamp'', timestamp), (''Ok-Access-Passphrase'', slice_string h (mt_Passphrase material))]\<rparr>"

lemma okx_signed_is_signed:
  assumes "okx_newRequest lib client verb path query body = Inr (request, u)" "key_resolved d p m0 material h"
    "slice_string h (mt_APIKey material) \<noteq> []" "slice_string h (mt_SecretKey material) \<noteq> []"
    "slice_string h (mt_Passphrase material) \<noteq> []"
  shows "okx_signed_request lib client verb path query body d p
    (okx_signed lib verb body material h (Format_RFC3339Milli t) u request)"
proof -
  have u: "ol_ParseURL lib (okx_requestURL client path query) = Inr u"
    "request = \<lparr>rq_Context = Background, rq_Method = verb, rq_URL = Some (okx_requestURL client path query, ul_Path u),
       rq_Header = [(''Accept'', ''application/json''), (''Content-Type'', ''application/json''),
         (''User-Agent'', ''cex-sdk-go/0'')] @ (if ocl_demoTrading client then [(''X-Simulated-Trading'', ''1'')] else []),
       rq_Body = body\<rparr>"
    using assms(1) by (auto simp: okx_newRequest_def split: sum.splits)
  show ?thesis unfolding okx_signed_request_def
    by (intro conjI exI [of _ u] exI [of _ m0] exI [of _ material] exI [of _ h] exI [of _ t])
       (use u assms(2-) in \<open>simp_all add: header_get_def okx_signed_def okx_signaturePayload_def okx_requestPath_def\<close>)
qed

lemma okx_signed_build_result:
  assumes "okx_signed_build lib client d p verb path query body ctx (w, m) = (r, w', m')"
  shows "key_left d p m m' \<and>
     (case r of Inl err \<Rightarrow> True | Inr None \<Rightarrow> False
      | Inr (Some rq) \<Rightarrow> okx_signed_request lib client verb path query body d p rq)"
proof -
  obtain material err w1 h where p: "p ctx (de_SecretRef d) (w, bm_heap m) = ((material, err), w1, h)"
    by (cases "p ctx (de_SecretRef d) (w, bm_heap m)") auto
  then have res: "key_resolved d p m material h" unfolding key_resolved_def by blast
  then have left: "key_left d p m (m\<lparr>bm_heap := h, bm_material := material\<rparr>)" unfolding key_left_def by blast
  have keys: "sl_len s = length (slice_string h s)" for s by (simp add: slice_string_def)
  consider (failed) e where "r = Inl e" "m' = m\<lparr>bm_heap := h, bm_material := material\<rparr>"
    | (made) request u t where "sl_len (mt_APIKey material) \<noteq> 0" "sl_len (mt_SecretKey material) \<noteq> 0"
        "sl_len (mt_Passphrase material) \<noteq> 0" "okx_newRequest lib client verb path query body = Inr (request, u)"
        "r = Inr (Some (okx_signed lib verb body material h (Format_RFC3339Milli t) u request))"
        "m' = m\<lparr>bm_heap := h, bm_material := material\<rparr>"
    using assms p
    by (auto simp: okx_signed_build_def okx_SignHMACSHA256_def okx_signed_def Let_def split: option.splits sum.splits if_splits)
  then show ?thesis
  proof cases
    case failed
    with left show ?thesis by simp
  next
    case made
    then have "slice_string h (mt_APIKey material) \<noteq> []" "slice_string h (mt_SecretKey material) \<noteq> []"
      "slice_string h (mt_Passphrase material) \<noteq> []" using keys by auto
    with okx_signed_is_signed [OF made(4) res] made(5,6) left show ?thesis by simp
  qed
qed

section \<open>Recording what a call transmits\<close>

definition okx_traced :: "'w okx_Client \<Rightarrow> ('w \<times> exec_event list) okx_Client" where
  "okx_traced c =
     \<lparr>ocl_executor = traced_rest_executor (ocl_executor c), ocl_credentials = ocl_credentials c,
      ocl_credentialProvider = map_option traced_provider (ocl_credentialProvider c),
      ocl_defaultEgressRouteID = ocl_defaultEgressRouteID c, ocl_baseURL = ocl_baseURL c,
      ocl_requestTimeout = ocl_requestTimeout c, ocl_demoTrading = ocl_demoTrading c,
      ocl_now = (\<lambda>(w, evs). ocl_now c w)\<rparr>"

lemma okx_traced_fields [simp]:
  "ocl_executor (okx_traced c) = traced_rest_executor (ocl_executor c)"
  "ocl_credentials (okx_traced c) = ocl_credentials c"
  "ocl_credentialProvider (okx_traced c) = map_option traced_provider (ocl_credentialProvider c)"
  "ocl_defaultEgressRouteID (okx_traced c) = ocl_defaultEgressRouteID c"
  "ocl_baseURL (okx_traced c) = ocl_baseURL c"
  "ocl_requestTimeout (okx_traced c) = ocl_requestTimeout c"
  "ocl_demoTrading (okx_traced c) = ocl_demoTrading c"
  by (simp_all add: okx_traced_def)

lemma okx_traced_simps [simp]:
  "okx_resolveOptions (okx_traced c) = okx_resolveOptions c"
  "okx_requestURL (okx_traced c) = okx_requestURL c"
  "okx_signed_request lib (okx_traced c) verb path query body d (traced_provider p) rq \<longleftrightarrow>
     okx_signed_request lib c verb path query body d p rq"
proof -
  show "okx_resolveOptions (okx_traced c) = okx_resolveOptions c"
    by (simp add: okx_resolveOptions_def fun_eq_iff split: sum.split)
  show url: "okx_requestURL (okx_traced c) = okx_requestURL c" by (simp add: okx_requestURL_def fun_eq_iff)
  show "okx_signed_request lib (okx_traced c) verb path query body d (traced_provider p) rq \<longleftrightarrow>
     okx_signed_request lib c verb path query body d p rq"
    by (simp add: okx_signed_request_def traced_resolved url)
qed

lemma okx_traced_charges:
  "okx_rateLimitCharges Show (traced_rest_executor ex) r a verb path limit (w, evs) = (res, w') \<Longrightarrow> \<exists>v. w' = (v, evs)"
  by (auto simp: okx_rateLimitCharges_def traced_rest_executor_def lift_step_def Let_def
      split: prod.splits option.splits if_splits)

lemma okx_traced_build:
  "okx_signed_build lib (okx_traced c) d (traced_provider p) verb path query body ctx ((w, evs), m) = (r, w', m') \<Longrightarrow>
     \<exists>v. w' = (v, evs)"
  by (auto simp: okx_signed_build_def traced_provider_def Let_def split: prod.splits option.splits sum.splits if_splits)

interpretation okx_signing: signed_builder
  "okx_signed_build lib (okx_traced c) d (traced_provider p) verb path query body"
  "okx_signed_request lib c verb path query body d p" "key_left d p"
  for lib and c :: "'w okx_Client" and d p verb path query body
proof (unfold_locales, goal_cases)
  case (1 ctx w evs m r w' m')
  from okx_signed_build_result [OF 1, unfolded traced_left okx_traced_simps] okx_traced_build [OF 1] show ?case by blast
qed

text \<open>A call that does not reach the executor sends nothing; otherwise it runs the execution of the builder.\<close>

interpretation okx_calls: signed_call
  "\<lambda>operation. okx_executeSigned lib (okx_traced client) ctx verb path query body limit permission operation options"
  "ocl_credentials client" "ocl_credentialProvider client" "okx_resolveOptions client options" permission
  "okx_signed_request lib client verb path query body"
  for lib and client :: "'w okx_Client" and ctx verb path query body limit permission options
proof (unfold_locales, goal_cases)
  case (1 operation w evs m res w' m')
  show ?case
  proof (cases "\<exists>d p o'. ocl_credentials client = Some d \<and> ocl_credentialProvider client = Some p \<and>
      okx_resolveOptions client options = Inr o' \<and> AllowsEgressRoute d (ro_EgressRouteID o') \<and> AllowsPermission d permission")
    case False
    have "\<exists>err. res = Inl err \<and> w' = (w, evs) \<and> m' = m"
      using 1 False by (auto simp: okx_executeSigned_def RequireEgressRoute_def RequirePermission_def
          split: sum.splits option.splits if_splits)
    then show ?thesis by blast
  next
    case True
    then obtain d p o' where dp: "ocl_credentials client = Some d" "ocl_credentialProvider client = Some p"
      "okx_resolveOptions client options = Inr o'" "AllowsEgressRoute d (ro_EgressRouteID o')" "AllowsPermission d permission"
      by blast
    obtain res1 w1 where charges: "okx_rateLimitCharges (ol_DurationString lib) (traced_rest_executor (ocl_executor client))
        (ro_EgressRouteID o') (de_AccountID d) verb path limit (w, evs) = (res1, w1)" by (rule prod.exhaust)
    from okx_traced_charges [OF this] obtain v where v: "w1 = (v, evs)" by blast
    show ?thesis
    proof (cases res1)
      case (Inl err)
      with 1 dp charges v have "res = Inl err \<and> w' = (v, evs) \<and> m' = m"
        by (simp add: okx_executeSigned_def RequireEgressRoute_def RequirePermission_def)
      then show ?thesis by blast
    next
      case (Inr cs)
      let ?e = "okx_execution (de_AccountID d) o' cs operation
         (okx_signed_build lib (okx_traced client) d (traced_provider p) verb path query body)"
      obtain response err w2 m2 where ex: "rest_Execute (traced_rest_executor (ocl_executor client)) ctx ?e
          ((v, evs), m\<lparr>bm_material := zeroMaterial\<rparr>) = (response, err, w2, m2)"
        by (cases "rest_Execute (traced_rest_executor (ocl_executor client)) ctx ?e ((v, evs), m\<lparr>bm_material := zeroMaterial\<rparr>)") auto
      then have "signed_run (okx_signed_request lib client verb path query body d p) (key_left d p) (ro_EgressRouteID o')
          operation ((v, evs), m\<lparr>bm_material := zeroMaterial\<rparr>) response err (w2, m2)"
        unfolding signed_run_def traced_rest_executor_fields
        by (intro exI conjI) (rule okx_signing.signed_builder_axioms, auto simp: okx_execution_def)
      moreover have "w' = w2 \<and> m' = key_destroy m2 \<and> res = (case err of Some e \<Rightarrow> Inl e | None \<Rightarrow> Inr response)"
        using 1 dp charges v Inr ex
        by (simp add: okx_executeSigned_def RequireEgressRoute_def RequirePermission_def split: option.splits)
      ultimately show ?thesis using dp by blast
    qed
  qed
qed

section \<open>Properties\<close>

text \<open>C15. Every request that a signed call of the OKX client hands to the sender, on the first attempt or a
  retry, goes over the route the options resolve to, which the credentials allow together with the
  permission of the call; it carries the key and the passphrase the provider gave for these
  credentials, and its signature is the base-64 HMAC, under their secret, of exactly its own time stamp, verb,
  path with query, and body; it is marked as simulated exactly for a demo client.\<close>

theorem okx_requests_signed:
  "case okx_executeSigned lib (okx_traced client) ctx verb path query body limit permission operation options ((w, []), m) of
     (res, ((w', evs), m')) \<Rightarrow>
       list_all (\<lambda>(r, rq). \<exists>d p o'. ocl_credentials client = Some d \<and> ocl_credentialProvider client = Some p \<and>
         okx_resolveOptions client options = Inr o' \<and> r = ro_EgressRouteID o' \<and>
         r \<in> set (de_AllowedEgressRouteIDs d) \<and> permission \<in> set (de_Permissions d) \<and>
         okx_signed_request lib client verb path query body d p rq) (sent evs)"
proof -
  obtain res w' evs m' where run: "okx_executeSigned lib (okx_traced client) ctx verb path query body limit permission operation
      options ((w, []), m) = (res, ((w', evs), m'))" by (metis prod.exhaust)
  show ?thesis unfolding run using okx_calls.requests_signed [OF run] by (auto simp: list_all_iff)
qed

end
