(* ===== verification/Okx_Unified.thy ===== *)
theory Okx_Unified
  imports Okx_Client Unified_Candles Page_Loops
begin

text \<open>
  The OKX adapter of the unified Spot API (\<open>exchange/okx/unified.go\<close>): conversion of requests, orders, balances and
  market data, and the loop that collects the open orders. The native client is a record of its
  operations; \<open>Okx_Client\<close> and \<open>Okx_Endpoints\<close> model what they do.
\<close>

section \<open>The native client\<close>

text \<open>What the adapter calls of the native client, with the request options applied.\<close>

record 'w okx_native =
  kn_Instruments :: "okx_InstrumentsRequest \<Rightarrow> 'w \<Rightarrow> okx_Instrument list result \<times> 'w"
  kn_Tickers :: "okx_TickersRequest \<Rightarrow> 'w \<Rightarrow> okx_Ticker list result \<times> 'w"
  kn_OrderBook :: "okx_OrderBookRequest \<Rightarrow> 'w \<Rightarrow> okx_Event result \<times> 'w"
  kn_RecentTrades :: "okx_RecentTradesRequest \<Rightarrow> 'w \<Rightarrow> okx_PublicTrade list result \<times> 'w"
  kn_Candles :: "okx_CandlesRequest \<Rightarrow> 'w \<Rightarrow> okx_Candle list result \<times> 'w"
  kn_Balance :: "okx_BalanceRequest \<Rightarrow> 'w \<Rightarrow> okx_Balance result \<times> 'w"
  kn_PlaceOrder :: "okx_PlaceOrderRequest \<Rightarrow> 'w \<Rightarrow> okx_OrderReference result \<times> 'w"
  kn_CancelOrder :: "okx_CancelOrderRequest \<Rightarrow> 'w \<Rightarrow> okx_OrderReference result \<times> 'w"
  kn_OrderInfo :: "okx_OrderInfoRequest \<Rightarrow> 'w \<Rightarrow> okx_Order result \<times> 'w"
  kn_OpenOrders :: "okx_OpenOrdersRequest \<Rightarrow> 'w \<Rightarrow> okx_OrderPage result \<times> 'w"

section \<open>Conversions\<close>

definition okxSpotInstrumentID :: "Market \<Rightarrow> string" where
  "okxSpotInstrumentID market = mk_Base market @ ''-'' @ mk_Quote market"

definition fromOKXSpotInstrumentID :: "string \<Rightarrow> Market result" where
  "fromOKXSpotInstrumentID val =
     (case split_on CHR ''-'' val of
        [base, quote] \<Rightarrow>
          (let market = \<lparr>mk_Base = base, mk_Quote = quote\<rparr>
           in case Market_Validate market of
                Some err \<Rightarrow> Inl (Errorf ''invalid OKX Spot instrument ID %q: %w'' [StrArg val] [err])
              | None \<Rightarrow> Inr market)
      | _ \<Rightarrow> Inl (Errorf ''invalid OKX Spot instrument ID %q'' [StrArg val] []))"

definition fromOKXBookLevels :: "okx_BookLevel list \<Rightarrow> BookLevel list" where
  "fromOKXBookLevels = map (\<lambda>level. \<lparr>bl_Price = oxl_Price level, bl_Quantity = oxl_Quantity level\<rparr>)"

definition parseOKXMilliseconds :: "string \<Rightarrow> string \<Rightarrow> int result" where
  "parseOKXMilliseconds kind val =
     (case Atoi val of
        None \<Rightarrow> Inl (Errorf ''decode OKX %s timestamp: %w'' [StrArg kind] [ForeignError ''strconv.ParseInt''])
      | Some timestamp \<Rightarrow>
          if timestamp < 0
          then Inl (Errorf ''decode OKX %s timestamp: %w'' [StrArg kind] [errorText ''timestamp must not be negative''])
          else Inr timestamp)"

definition toOKXCandleInterval :: "CandleInterval \<Rightarrow> string" where
  "toOKXCandleInterval v =
     (if v = ''1m'' then ''1m'' else if v = ''3m'' then ''3m'' else if v = ''5m'' then ''5m'' else if v = ''15m'' then ''15m''
      else if v = ''30m'' then ''30m'' else if v = ''1h'' then ''1H'' else if v = ''4h'' then ''4H'' else [])"

definition toOKXSide :: "Side \<Rightarrow> string" where
  "toOKXSide side = (if side = SideBuy then okx_SideBuy else okx_SideSell)"

definition toUnifiedOKXSide :: "string \<Rightarrow> Side" where
  "toUnifiedOKXSide side = (if side = okx_SideBuy then SideBuy else SideSell)"

definition toOKXLimitOrderType :: "TimeInForce \<Rightarrow> string" where
  "toOKXLimitOrderType v =
     (if v = TimeInForceIOC then okx_OrderTypeIOC else if v = TimeInForceFOK then okx_OrderTypeFOK
      else if v = TimeInForcePostOnly then okx_OrderTypePostOnly else okx_OrderTypeLimit)"

definition toUnifiedOKXOrderType :: "string \<Rightarrow> OrderType" where
  "toUnifiedOKXOrderType orderType = (if orderType = okx_OrderTypeMarket then OrderTypeMarket else OrderTypeLimit)"

definition toUnifiedOKXStatus :: "string \<Rightarrow> OrderStatus" where
  "toUnifiedOKXStatus status =
     (if status = ''live'' then OrderStatusNew
      else if status = ''partially_filled'' then OrderStatusPartiallyFilled
      else if status = ''filled'' then OrderStatusFilled
      else if status \<in> set [''canceled'', ''mmp_canceled''] then OrderStatusCanceled
      else OrderStatusUnknown)"

definition fromOKXOrder :: "okx_Order \<Rightarrow> Market \<Rightarrow> Order" where
  "fromOKXOrder native market =
     (let (quantity, quoteAmount) =
            (if ood_OrderType native = okx_OrderTypeMarket \<and> ood_Side native = okx_SideBuy \<and>
                ood_TargetCurrency native \<noteq> TargetCurrencyBase
             then ([], ood_Quantity native) else (ood_Quantity native, []))
      in \<lparr>od_Exchange = ExchangeOKX, od_ID = ood_OrderID native, od_ClientOrderID = ood_ClientOrderID native,
          od_Market = market, od_NativeMarket = ood_InstrumentID native, od_Side = toUnifiedOKXSide (ood_Side native),
          od_Type = toUnifiedOKXOrderType (ood_OrderType native), od_Status = toUnifiedOKXStatus (ood_State native),
          od_Price = ood_Price native, od_Quantity = quantity, od_QuoteAmount = quoteAmount,
          od_ExecutedQuantity = ood_ExecutedQuantity native\<rparr>)"

section \<open>Operations\<close>

definition okx_market_info :: "okx_Instrument \<Rightarrow> MarketInfo" where
  "okx_market_info instrument =
     \<lparr>mi_Exchange = ExchangeOKX, mi_Market = \<lparr>mk_Base = oit_BaseCurrency instrument, mk_Quote = oit_QuoteCurrency instrument\<rparr>,
      mi_NativeMarket = oit_InstrumentID instrument, mi_Status = oit_State instrument,
      mi_PriceIncrement = oit_TickSize instrument, mi_QuantityIncrement = oit_LotSize instrument,
      mi_QuoteAmountIncrement = [], mi_MinimumBaseQuantity = oit_MinimumSize instrument, mi_MinimumQuoteAmount = []\<rparr>"

definition okx_Markets :: "'w okx_native \<Rightarrow> 'w \<Rightarrow> MarketInfo list result \<times> 'w" where
  "okx_Markets client w =
     (case kn_Instruments client \<lparr>oin_InstrumentType = InstrumentTypeSpot, oin_Underlying = [], oin_InstrumentFamily = [],
             oin_InstrumentID = []\<rparr> w of
        (Inl err, w) \<Rightarrow> (Inl err, w)
      | (Inr native, w) \<Rightarrow> (Inr (map okx_market_info native), w))"

text \<open>The loop that looks for the ticker of one instrument; \<open>matched\<close> is what it found so far.\<close>

fun match_ticker :: "string \<Rightarrow> okx_Ticker option \<Rightarrow> okx_Ticker list \<Rightarrow> okx_Ticker option result" where
  "match_ticker nativeMarket matched [] = Inr matched"
| "match_ticker nativeMarket matched (ticker # rest) =
     (if otk_InstrumentID ticker \<noteq> nativeMarket then match_ticker nativeMarket matched rest
      else if matched \<noteq> None then Inl (Errorf ''OKX ticker response contains duplicate %q'' [StrArg nativeMarket] [])
      else match_ticker nativeMarket (Some ticker) rest)"

definition okx_unified_Ticker :: "'w okx_native \<Rightarrow> TickerRequest \<Rightarrow> 'w \<Rightarrow> Ticker result \<times> 'w" where
  "okx_unified_Ticker client request w =
     (case TickerRequest_Validate request of
        Some err \<Rightarrow> (Inl err, w)
      | None \<Rightarrow>
          let nativeMarket = okxSpotInstrumentID (tr_Market request)
          in case kn_Tickers client \<lparr>oti_InstrumentType = InstrumentTypeSpot\<rparr> w of
               (Inl err, w) \<Rightarrow> (Inl err, w)
             | (Inr tickers, w) \<Rightarrow>
                 (case match_ticker nativeMarket None tickers of
                    Inl err \<Rightarrow> (Inl err, w)
                  | Inr None \<Rightarrow> (Inl (Errorf ''OKX ticker response does not contain %q'' [StrArg nativeMarket] []), w)
                  | Inr (Some matched) \<Rightarrow>
                      (Inr \<lparr>tk_Exchange = ExchangeOKX, tk_Market = tr_Market request,
                            tk_NativeMarket = otk_InstrumentID matched, tk_Price = otk_LastPrice matched\<rparr>, w)))"

definition okx_unified_OrderBook :: "'w okx_native \<Rightarrow> OrderBookRequest \<Rightarrow> 'w \<Rightarrow> OrderBook result \<times> 'w" where
  "okx_unified_OrderBook client request w =
     (case OrderBookRequest_Validate request of
        Some err \<Rightarrow> (Inl err, w)
      | None \<Rightarrow>
          let nativeMarket = okxSpotInstrumentID (obr_Market request)
          in case kn_OrderBook client \<lparr>oor_InstrumentID = nativeMarket, oor_Size = obr_Limit request\<rparr> w of
               (Inl err, w) \<Rightarrow> (Inl err, w)
             | (Inr native, w) \<Rightarrow>
                 (case parseOKXMilliseconds ''order book'' (oxe_Timestamp native) of
                    Inl err \<Rightarrow> (Inl err, w)
                  | Inr timestamp \<Rightarrow>
                      (Inr \<lparr>bo_Exchange = ExchangeOKX, bo_Market = obr_Market request, bo_NativeMarket = nativeMarket,
                            bo_Bids = fromOKXBookLevels (oxe_Bids native), bo_Asks = fromOKXBookLevels (oxe_Asks native),
                            bo_Timestamp = timestamp\<rparr>, w)))"

fun okx_public_trades :: "okx_PublicTrade list \<Rightarrow> PublicTrade list result" where
  "okx_public_trades [] = Inr []"
| "okx_public_trades (item # rest) =
     (case parseOKXMilliseconds ''trade'' (opt_Timestamp item) of
        Inl err \<Rightarrow> Inl err
      | Inr timestamp \<Rightarrow>
          (case okx_public_trades rest of
             Inl err \<Rightarrow> Inl err
           | Inr trades \<Rightarrow>
               Inr (\<lparr>pt_ID = opt_TradeID item, pt_Price = opt_Price item, pt_Quantity = opt_Quantity item,
                     pt_Side = toUnifiedOKXSide (opt_Side item), pt_Timestamp = timestamp\<rparr> # trades)))"

definition okx_unified_RecentTrades :: "'w okx_native \<Rightarrow> RecentTradesRequest \<Rightarrow> 'w \<Rightarrow> PublicTrade list result \<times> 'w" where
  "okx_unified_RecentTrades client request w =
     (case RecentTradesRequest_Validate request of
        Some err \<Rightarrow> (Inl err, w)
      | None \<Rightarrow>
          (case kn_RecentTrades client \<lparr>ort_InstrumentID = okxSpotInstrumentID (rtr_Market request),
                  ort_Limit = rtr_Limit request\<rparr> w of
             (Inl err, w) \<Rightarrow> (Inl err, w)
           | (Inr native, w) \<Rightarrow> (okx_public_trades native, w)))"

fun okx_unified_candles :: "okx_Candle list \<Rightarrow> Candle list result" where
  "okx_unified_candles [] = Inr []"
| "okx_unified_candles (item # rest) =
     (case parseOKXMilliseconds ''candle'' (ocd_Timestamp item) of
        Inl err \<Rightarrow> Inl err
      | Inr startTime \<Rightarrow>
          (case okx_unified_candles rest of
             Inl err \<Rightarrow> Inl err
           | Inr candles \<Rightarrow>
               Inr (\<lparr>cd_StartTime = startTime, cd_Open = ocd_Open item, cd_High = ocd_High item, cd_Low = ocd_Low item,
                     cd_Close = ocd_Close item, cd_Volume = ocd_Volume item\<rparr> # candles)))"

definition okx_unified_Candles :: "'w okx_native \<Rightarrow> CandlesRequest \<Rightarrow> 'w \<Rightarrow> Candle list result \<times> 'w" where
  "okx_unified_Candles client request w =
     (case CandlesRequest_Validate request of
        Some err \<Rightarrow> (Inl err, w)
      | None \<Rightarrow>
          (case kn_Candles client \<lparr>ocr_InstrumentID = okxSpotInstrumentID (cr_Market request),
                  ocr_Interval = toOKXCandleInterval (cr_Interval request), ocr_After = None, ocr_Before = None,
                  ocr_Limit = cr_Limit request\<rparr> w of
             (Inl err, w) \<Rightarrow> (Inl err, w)
           | (Inr native, w) \<Rightarrow> (okx_unified_candles native, w)))"

definition okx_unified_Balances :: "'w okx_native \<Rightarrow> 'w \<Rightarrow> Balance list result \<times> 'w" where
  "okx_unified_Balances client w =
     (case kn_Balance client \<lparr>obr_Currencies = []\<rparr> w of
        (Inl err, w) \<Rightarrow> (Inl err, w)
      | (Inr account, w) \<Rightarrow>
          (Inr (map (\<lambda>detail. \<lparr>ba_Asset = obd_Currency detail, ba_Available = obd_AvailableBalance detail,
                               ba_Locked = obd_FrozenBalance detail\<rparr>) (oba_Details account)), w))"

text \<open>The native request of a unified order.\<close>

definition okx_nativeRequest :: "PlaceOrderRequest \<Rightarrow> okx_PlaceOrderRequest" where
  "okx_nativeRequest request =
     (let native = \<lparr>opo_InstrumentType = InstrumentTypeSpot, opo_InstrumentID = okxSpotInstrumentID (po_Market request),
            opo_TradeMode = TradeModeCash, opo_ClientOrderID = po_ClientOrderID request, opo_Side = toOKXSide (po_Side request),
            opo_PositionSide = [], opo_OrderType = [], opo_Quantity = [], opo_Price = [], opo_ReduceOnly = False,
            opo_TargetCurrency = []\<rparr>
      in if po_Type request = OrderTypeLimit then
           native\<lparr>opo_OrderType := toOKXLimitOrderType (po_TimeInForce request), opo_Quantity := po_Quantity request,
                  opo_Price := po_Price request\<rparr>
         else
           let native = native\<lparr>opo_OrderType := okx_OrderTypeMarket\<rparr>
           in if po_Side request = SideBuy
              then native\<lparr>opo_Quantity := po_QuoteAmount request, opo_TargetCurrency := TargetCurrencyQuote\<rparr>
              else native\<lparr>opo_Quantity := po_Quantity request, opo_TargetCurrency := TargetCurrencyBase\<rparr>)"

definition okx_unified_PlaceOrder :: "'w okx_native \<Rightarrow> PlaceOrderRequest \<Rightarrow> 'w \<Rightarrow> Order result \<times> 'w" where
  "okx_unified_PlaceOrder client request w =
     (case PlaceOrderRequest_Validate request of
        Some err \<Rightarrow> (Inl err, w)
      | None \<Rightarrow>
          (case kn_PlaceOrder client (okx_nativeRequest request) w of
             (Inl err, w) \<Rightarrow> (Inl err, w)
           | (Inr reference, w) \<Rightarrow>
               (Inr \<lparr>od_Exchange = ExchangeOKX, od_ID = orf_OrderID reference, od_ClientOrderID = orf_ClientOrderID reference,
                     od_Market = po_Market request, od_NativeMarket = opo_InstrumentID (okx_nativeRequest request),
                     od_Side = po_Side request, od_Type = po_Type request, od_Status = OrderStatusAcknowledged,
                     od_Price = po_Price request, od_Quantity = po_Quantity request,
                     od_QuoteAmount = po_QuoteAmount request, od_ExecutedQuantity = []\<rparr>, w)))"

definition okx_unified_Order :: "'w okx_native \<Rightarrow> OrderRequest \<Rightarrow> 'w \<Rightarrow> Order result \<times> 'w" where
  "okx_unified_Order client request w =
     (case OrderRequest_Validate request of
        Some err \<Rightarrow> (Inl err, w)
      | None \<Rightarrow>
          (case kn_OrderInfo client \<lparr>ooi_InstrumentID = okxSpotInstrumentID (or_Market request),
                  ooi_OrderID = or_OrderID request, ooi_ClientOrderID = or_ClientOrderID request\<rparr> w of
             (Inl err, w) \<Rightarrow> (Inl err, w)
           | (Inr native, w) \<Rightarrow> (Inr (fromOKXOrder native (or_Market request)), w)))"

definition okx_unified_CancelOrder :: "'w okx_native \<Rightarrow> OrderRequest \<Rightarrow> 'w \<Rightarrow> Order result \<times> 'w" where
  "okx_unified_CancelOrder client request w =
     (case OrderRequest_Validate request of
        Some err \<Rightarrow> (Inl err, w)
      | None \<Rightarrow>
          let nativeMarket = okxSpotInstrumentID (or_Market request)
          in case kn_CancelOrder client \<lparr>oco_InstrumentID = nativeMarket, oco_OrderID = or_OrderID request,
                    oco_ClientOrderID = or_ClientOrderID request\<rparr> w of
               (Inl err, w) \<Rightarrow> (Inl err, w)
             | (Inr reference, w) \<Rightarrow>
                 (Inr \<lparr>od_Exchange = ExchangeOKX, od_ID = orf_OrderID reference, od_ClientOrderID = orf_ClientOrderID reference,
                       od_Market = or_Market request, od_NativeMarket = nativeMarket,
                       od_Side = [], od_Type = [], od_Status = OrderStatusCancelPending, od_Price = [], od_Quantity = [],
                       od_QuoteAmount = [], od_ExecutedQuantity = []\<rparr>, w))"

text \<open>The orders of a page: all of the requested market, or each of the market its instrument names.\<close>

fun okx_convert_orders :: "bool \<Rightarrow> Market \<Rightarrow> okx_Order list \<Rightarrow> Order list result" where
  "okx_convert_orders allMarkets requested [] = Inr []"
| "okx_convert_orders allMarkets requested (native # rest) =
     (case (if allMarkets then fromOKXSpotInstrumentID (ood_InstrumentID native) else Inr requested) of
        Inl err \<Rightarrow> Inl err
      | Inr market \<Rightarrow>
          (case okx_convert_orders allMarkets requested rest of
             Inl err \<Rightarrow> Inl err
           | Inr orders \<Rightarrow> Inr (fromOKXOrder native market # orders)))"

text \<open>A full page names the ID of its last order as the cursor of the next.\<close>

definition okx_follow :: "okx_OrderPage \<Rightarrow> string option result" where
  "okx_follow page =
     (if int (length (opg_Orders page)) < 100 then Inr None
      else let cursor = ood_OrderID (last (opg_Orders page))
           in if cursor = [] then Inl (errorText ''OKX open orders cursor is empty'') else Inr (Some cursor))"

definition okx_unified_OpenOrders ::
  "'w okx_native \<Rightarrow> OpenOrdersRequest \<Rightarrow> 'w \<Rightarrow> (Order list result \<times> 'w) option" where
  "okx_unified_OpenOrders client request w =
     (case OpenOrdersRequest_Validate request of
        Some err \<Rightarrow> Some (Inl err, w)
      | None \<Rightarrow>
          let requested = (case oo_Market request of Some m \<Rightarrow> m | None \<Rightarrow> \<lparr>mk_Base = [], mk_Quote = []\<rparr>);
              instrumentID = (case oo_Market request of Some m \<Rightarrow> okxSpotInstrumentID m | None \<Rightarrow> [])
          in page_loop
               (\<lambda>cursor. kn_OpenOrders client \<lparr>ooo_InstrumentType = InstrumentTypeSpot, ooo_InstrumentID = instrumentID,
                  ooo_OrderType = [], ooo_AfterOrderID = cursor, ooo_BeforeOrderID = [], ooo_Limit = 100\<rparr>)
               (\<lambda>page. okx_convert_orders (oo_AllMarkets request) requested (opg_Orders page))
               okx_follow ''OKX open orders returned a repeated cursor'' [] {} [] w)"

section \<open>Instruments\<close>

lemma asset_no_dash: "assetPattern s \<Longrightarrow> CHR ''-'' \<notin> set s"
  by (auto simp: assetPattern_def list_all_iff upper_char_def digit_char_def)

lemma split_on_append_iff:
  "split_on sep s = [a, b] \<longleftrightarrow> s = a @ sep # b \<and> sep \<notin> set a \<and> sep \<notin> set b"
proof
  assume split: "split_on sep s = [a, b]"
  have join: "join_with sep (split_on sep t) = t \<and> list_all (\<lambda>p. sep \<notin> set p) (split_on sep t)" for t
  proof (induction sep t rule: split_on.induct)
    case (2 sep c rest)
    show ?case
    proof (cases "split_on sep rest")
      case (Cons part parts)
      with 2 show ?thesis by (cases parts) auto
    qed (use split_on_nonempty in blast)
  qed simp
  from join [of s] split show "s = a @ sep # b \<and> sep \<notin> set a \<and> sep \<notin> set b" by simp
next
  assume "s = a @ sep # b \<and> sep \<notin> set a \<and> sep \<notin> set b"
  then show "split_on sep s = [a, b]" by (simp add: split_on_append split_on_no_sep)
qed

lemma fromOKXSpotInstrumentID_Inr:
  "fromOKXSpotInstrumentID val = Inr market \<longleftrightarrow> Market_Validate market = None \<and> val = okxSpotInstrumentID market"
proof (cases "\<exists>base quote. split_on CHR ''-'' val = [base, quote]")
  case True
  then obtain base quote where split: "split_on CHR ''-'' val = [base, quote]" by blast
  then have val: "val = base @ CHR ''-'' # quote" "CHR ''-'' \<notin> set base" "CHR ''-'' \<notin> set quote"
    by (simp_all add: split_on_append_iff)
  show ?thesis
  proof
    assume "fromOKXSpotInstrumentID val = Inr market"
    with split have "Market_Validate \<lparr>mk_Base = base, mk_Quote = quote\<rparr> = None" "market = \<lparr>mk_Base = base, mk_Quote = quote\<rparr>"
      by (auto simp: fromOKXSpotInstrumentID_def Let_def split: option.splits)
    with val show "Market_Validate market = None \<and> val = okxSpotInstrumentID market" by (simp add: okxSpotInstrumentID_def)
  next
    assume ok: "Market_Validate market = None \<and> val = okxSpotInstrumentID market"
    then have "CHR ''-'' \<notin> set (mk_Base market)" "CHR ''-'' \<notin> set (mk_Quote market)"
      by (auto simp: Market_Validate_None dest: asset_no_dash)
    with ok have "split_on CHR ''-'' val = [mk_Base market, mk_Quote market]"
      by (simp add: split_on_append_iff okxSpotInstrumentID_def)
    with ok show "fromOKXSpotInstrumentID val = Inr market"
      by (cases market) (simp add: fromOKXSpotInstrumentID_def Let_def)
  qed
next
  case False
  then have "\<exists>err. fromOKXSpotInstrumentID val = Inl err"
    by (auto simp: fromOKXSpotInstrumentID_def split: list.split)
  moreover have "\<not> (Market_Validate market = None \<and> val = okxSpotInstrumentID market)"
  proof
    assume ok: "Market_Validate market = None \<and> val = okxSpotInstrumentID market"
    then have "CHR ''-'' \<notin> set (mk_Base market)" "CHR ''-'' \<notin> set (mk_Quote market)"
      by (auto simp: Market_Validate_None dest: asset_no_dash)
    with ok False show False by (auto simp: split_on_append_iff okxSpotInstrumentID_def)
  qed
  ultimately show ?thesis by auto
qed

text \<open>C16. The instrument ID of a market determines the market: reading back the ID of a valid market gives the market,
  and an ID that is read as a market is the ID of exactly that market, which is valid; every other text is refused.\<close>

theorem okx_instrument_roundtrip:
  "fromOKXSpotInstrumentID val = Inr market \<longleftrightarrow> Market_Validate market = None \<and> val = okxSpotInstrumentID market"
  by (rule fromOKXSpotInstrumentID_Inr)

lemma okxSpotInstrumentID_plain:
  assumes "Market_Validate m = None"
  shows "plain_text (okxSpotInstrumentID m)"
proof -
  from assms have "list_all (\<lambda>c. upper_char c \<or> digit_char c \<or> c = CHR ''-'') (okxSpotInstrumentID m)"
    by (auto simp: Market_Validate_None assetPattern_def okxSpotInstrumentID_def list_all_iff)
  then have visible: "\<forall>c \<in> set (okxSpotInstrumentID m). visible_char c"
    by (auto simp: list_all_iff visible_char_def upper_char_def digit_char_def)
  moreover have "okxSpotInstrumentID m \<noteq> []" by (simp add: okxSpotInstrumentID_def)
  ultimately show ?thesis by (simp add: plain_text_def TrimSpace_visible)
qed

section \<open>Orders\<close>

lemma toOKXLimitOrderType_valid:
  "okx_OrderType_valid (toOKXLimitOrderType t)" "okx_requiresPrice (toOKXLimitOrderType t)"
  "toOKXLimitOrderType t \<noteq> okx_OrderTypeMarket"
  by (auto simp: toOKXLimitOrderType_def okx_OrderType_valid_def okx_requiresPrice_def)

lemmas okx_nativeRequest_simps =
  okx_nativeRequest_def okx_PlaceOrder_validate_def toOKXSide_def Let_def

text \<open>A unified order that passes its validation becomes a native Spot order that passes the native validation,
  provided its client order ID has the form OKX accepts; the native order has the same side, asks for exactly the
  quantity (for a market buy the quote amount, marked as such), and keeps the price of a limit order, whose
  time in force became its order type.\<close>

theorem okx_order_refines:
  assumes "PlaceOrderRequest_Validate r = None"
  shows "(okx_PlaceOrder_validate (okx_nativeRequest r) = None \<longleftrightarrow> clientOrderIDPattern (po_ClientOrderID r)) \<and>
     toUnifiedOKXSide (opo_Side (okx_nativeRequest r)) = po_Side r \<and>
     toUnifiedOKXOrderType (opo_OrderType (okx_nativeRequest r)) = po_Type r \<and>
     opo_Quantity (okx_nativeRequest r) =
       (if po_Type r = OrderTypeMarket \<and> po_Side r = SideBuy then po_QuoteAmount r else po_Quantity r) \<and>
     opo_TargetCurrency (okx_nativeRequest r) =
       (if po_Type r = OrderTypeLimit then [] else if po_Side r = SideBuy then TargetCurrencyQuote else TargetCurrencyBase) \<and>
     opo_Price (okx_nativeRequest r) = po_Price r \<and>
     (po_Type r = OrderTypeMarket \<or> opo_OrderType (okx_nativeRequest r) = toOKXLimitOrderType (po_TimeInForce r)) \<and>
     fromOKXSpotInstrumentID (opo_InstrumentID (okx_nativeRequest r)) = Inr (po_Market r) \<and>
     opo_ClientOrderID (okx_nativeRequest r) = po_ClientOrderID r"
proof -
  have market: "Market_Validate (po_Market r) = None" using assms by (simp add: PlaceOrderRequest_Validate_None)
  note instrument = okxSpotInstrumentID_plain [OF market]
  have read: "fromOKXSpotInstrumentID (okxSpotInstrumentID (po_Market r)) = Inr (po_Market r)"
    using market by (simp add: fromOKXSpotInstrumentID_Inr)
  have side: "po_Side r = SideBuy \<or> po_Side r = SideSell" and id: "po_ClientOrderID r \<noteq> []"
    using assms by (simp_all add: PlaceOrderRequest_Validate_None)
  consider (limit) "po_Type r = OrderTypeLimit" "validate_limit r = None"
    | (market) "po_Type r = OrderTypeMarket" "validate_market r = None"
    using assms by (auto simp: PlaceOrderRequest_Validate_None)
  then show ?thesis
  proof cases
    case limit
    with side instrument id read toOKXLimitOrderType_valid [of "po_TimeInForce r"] show ?thesis
      by (auto simp: okx_nativeRequest_simps validate_limit_None toUnifiedOKXSide_def toUnifiedOKXOrderType_def)
  next
    case market
    with side instrument id read show ?thesis
      by (auto simp: okx_nativeRequest_simps validate_market_None toUnifiedOKXSide_def toUnifiedOKXOrderType_def
          okx_OrderType_valid_def okx_requiresPrice_def)
  qed
qed

definition okx_demo_order :: PlaceOrderRequest where
  "okx_demo_order = \<lparr>po_Market = \<lparr>mk_Base = ''BTC'', mk_Quote = ''USDT''\<rparr>, po_Side = SideBuy, po_Type = OrderTypeMarket,
     po_TimeInForce = [], po_Quantity = [], po_QuoteAmount = ''25'', po_Price = [], po_ClientOrderID = ''id1''\<rparr>"

theorem okx_order_refines_witness:
  "okx_PlaceOrder_validate (okx_nativeRequest okx_demo_order) = None \<and>
   opo_Quantity (okx_nativeRequest okx_demo_order) = ''25'' \<and>
   opo_TargetCurrency (okx_nativeRequest okx_demo_order) = TargetCurrencyQuote"
proof -
  have "PlaceOrderRequest_Validate okx_demo_order = None"
    using TrimSpace_visible [of "''id1''"]
    by (simp add: okx_demo_order_def PlaceOrderRequest_Validate_None Market_Validate_None assetPattern_def upper_char_def
        validate_market_None visible_char_def positiveDecimalPattern_def digit_char_def decimal_value_int dec_value_Cons digit_val_def)
  from okx_order_refines [OF this] show ?thesis by (simp add: okx_demo_order_def clientOrderIDPattern_def)
qed

section \<open>Open orders\<close>

lemma okx_convert_orders_Inr:
  "okx_convert_orders False requested natives = Inr (map (\<lambda>native. fromOKXOrder native requested) natives)"
  by (induction natives) auto

lemma okx_convert_all_markets:
  "okx_convert_orders True requested natives = Inr orders \<Longrightarrow>
     list_all2 (\<lambda>native order. fromOKXSpotInstrumentID (ood_InstrumentID native) = Inr (od_Market order) \<and>
       order = fromOKXOrder native (od_Market order)) natives orders"
proof (induction natives arbitrary: orders)
  case (Cons native natives)
  then obtain market rest where "fromOKXSpotInstrumentID (ood_InstrumentID native) = Inr market"
    "okx_convert_orders True requested natives = Inr rest" "orders = fromOKXOrder native market # rest"
    by (auto split: sum.splits)
  with Cons.IH show ?case by (auto simp: fromOKXOrder_def Let_def split: prod.split)
qed simp

text \<open>Collecting the open orders of all markets ends whenever the exchange has finitely many order IDs to
  answer with, and when it succeeds the result is, in order, every order of a gapless chain of pages: the
  first page, and each further one fetched after the last order of the full page before it, up to a
  page that is not full, no page fetched twice, each order with the market its instrument names.\<close>

theorem okx_open_orders_complete:
  assumes valid: "OpenOrdersRequest_Validate request = None" and all: "oo_AllMarkets request" "oo_Market request = None"
    and finite: "finite IDs"
    and ids: "\<And>native w page w1. kn_OpenOrders client native w = (Inr page, w1) \<Longrightarrow> ood_OrderID ` set (opg_Orders page) \<subseteq> IDs"
  shows "\<exists>r w'. okx_unified_OpenOrders client request w = Some (r, w') \<and>
     (case r of
        Inl err \<Rightarrow> True
      | Inr orders \<Rightarrow> \<exists>pages.
          page_chain (\<lambda>cursor. kn_OpenOrders client \<lparr>ooo_InstrumentType = InstrumentTypeSpot, ooo_InstrumentID = [],
            ooo_OrderType = [], ooo_AfterOrderID = cursor, ooo_BeforeOrderID = [], ooo_Limit = 100\<rparr>) okx_follow [] w pages w' \<and>
          list_all2 (\<lambda>native order. fromOKXSpotInstrumentID (ood_InstrumentID native) = Inr (od_Market order) \<and>
            order = fromOKXOrder native (od_Market order)) (concat (map opg_Orders pages)) orders \<and>
          distinct (named_cursors okx_follow pages))"
proof -
  let ?fetch = "\<lambda>cursor. kn_OpenOrders client \<lparr>ooo_InstrumentType = InstrumentTypeSpot, ooo_InstrumentID = [],
    ooo_OrderType = [], ooo_AfterOrderID = cursor, ooo_BeforeOrderID = [], ooo_Limit = 100\<rparr>"
  let ?convert = "\<lambda>page. okx_convert_orders True \<lparr>mk_Base = [], mk_Quote = []\<rparr> (opg_Orders page)"
  let ?run = "page_loop ?fetch ?convert okx_follow ''OKX open orders returned a repeated cursor'' [] {} [] w"
  let ?pair = "\<lambda>native order. fromOKXSpotInstrumentID (ood_InstrumentID native) = Inr (od_Market order) \<and>
    order = fromOKXOrder native (od_Market order)"
  have run: "okx_unified_OpenOrders client request w = ?run" using valid all by (simp add: okx_unified_OpenOrders_def)
  have cursor: "c \<in> IDs" if "?fetch cursor w = (Inr page, w1)" "okx_follow page = Inr (Some c)" for cursor w page w1 c
  proof -
    from that(2) have "opg_Orders page \<noteq> []" "c = ood_OrderID (last (opg_Orders page))"
      by (auto simp: okx_follow_def Let_def split: if_splits)
    with ids [OF that(1)] show ?thesis by auto
  qed
  have "\<exists>y. ?run = Some y" by (rule page_loop_returns [OF finite]) (use cursor in auto)
  then obtain r w' where y: "?run = Some (r, w')" by auto
  show ?thesis
  proof (cases r)
    case (Inr orders)
    with page_loop_result [OF y] obtain pages converted where pages: "page_chain ?fetch okx_follow [] w pages w'"
      "map ?convert pages = map Inr converted" "orders = concat converted" "distinct (named_cursors okx_follow pages)"
      by (auto simp: page_result_def)
    from pages(2) have "list_all2 ?pair (concat (map opg_Orders pages)) (concat converted)"
    proof (induction pages arbitrary: converted)
      case (Cons page pages)
      then obtain xs rest where "okx_convert_orders True \<lparr>mk_Base = [], mk_Quote = []\<rparr> (opg_Orders page) = Inr xs"
        "map ?convert pages = map Inr rest" "converted = xs # rest" by (auto simp: Cons_eq_map_conv)
      with Cons.IH okx_convert_all_markets show ?case by (auto intro!: list_all2_appendI)
    qed simp
    with y run Inr pages show ?thesis by auto
  qed (use y run in auto)
qed

text \<open>An exchange with one open order.\<close>

definition okx_demo_report :: okx_Order where
  "okx_demo_report = \<lparr>ood_InstrumentType = InstrumentTypeSpot, ood_InstrumentID = ''BTC-USDT'', ood_OrderID = ''7'',
     ood_ClientOrderID = ''id1'', ood_Tag = [], ood_Price = [], ood_Quantity = ''25'', ood_OrderType = ''market'',
     ood_Side = ''buy'', ood_PositionSide = ''net'', ood_TradeMode = TradeModeCash, ood_ExecutedQuantity = ''0'',
     ood_FillPrice = [], ood_FillQuantity = [], ood_AveragePrice = [], ood_State = ''live'', ood_FeeCurrency = [],
     ood_Fee = [], ood_PnL = [], ood_TargetCurrency = TargetCurrencyQuote, ood_ReduceOnly = [], ood_CancelSource = [],
     ood_CreatedTime = ''1'', ood_UpdatedTime = ''2''\<rparr>"

definition okx_one_page :: "unit okx_native" where
  "okx_one_page =
     \<lparr>kn_Instruments = \<lambda>_ w. (Inl (errorText []), w), kn_Tickers = \<lambda>_ w. (Inl (errorText []), w),
      kn_OrderBook = \<lambda>_ w. (Inl (errorText []), w), kn_RecentTrades = \<lambda>_ w. (Inl (errorText []), w),
      kn_Candles = \<lambda>_ w. (Inl (errorText []), w), kn_Balance = \<lambda>_ w. (Inl (errorText []), w),
      kn_PlaceOrder = \<lambda>_ w. (Inl (errorText []), w), kn_CancelOrder = \<lambda>_ w. (Inl (errorText []), w),
      kn_OrderInfo = \<lambda>_ w. (Inl (errorText []), w),
      kn_OpenOrders = \<lambda>_ w. (Inr \<lparr>opg_Orders = [okx_demo_report]\<rparr>, w)\<rparr>"

theorem okx_open_orders_complete_witness:
  "\<exists>(pages :: okx_OrderPage list) (orders :: Order list). okx_unified_OpenOrders okx_one_page \<lparr>oo_Market = None, oo_AllMarkets = True\<rparr> () = Some (Inr orders, ()) \<and>
     list_all2 (\<lambda>(native :: okx_Order) (order :: Order). fromOKXSpotInstrumentID (ood_InstrumentID native) = Inr (od_Market order) \<and>
       order = fromOKXOrder native (od_Market order)) (concat (map opg_Orders pages)) orders \<and>
     map od_QuoteAmount orders = [''25'']"
proof -
  define request where "request = \<lparr>oo_Market = None, oo_AllMarkets = True\<rparr>"
  have valid: "OpenOrdersRequest_Validate request = None" "oo_AllMarkets request" "oo_Market request = None"
    by (simp_all add: request_def OpenOrdersRequest_Validate_def)
  have market: "fromOKXSpotInstrumentID ''BTC-USDT'' = Inr \<lparr>mk_Base = ''BTC'', mk_Quote = ''USDT''\<rparr>"
    by (simp add: fromOKXSpotInstrumentID_Inr Market_Validate_None okxSpotInstrumentID_def assetPattern_def upper_char_def)
  obtain orders :: "Order list" where run: "okx_unified_OpenOrders okx_one_page request () = Some (Inr orders, ())"
    and amount: "map od_QuoteAmount orders = [''25'']"
    by (simp add: okx_unified_OpenOrders_def valid okx_one_page_def page_loop.simps okx_follow_def okx_demo_report_def market
        fromOKXOrder_def)
  from okx_open_orders_complete [OF valid, of "{''7''}" okx_one_page "()"] run obtain pages :: "okx_OrderPage list" where
    "list_all2 (\<lambda>(native :: okx_Order) (order :: Order). fromOKXSpotInstrumentID (ood_InstrumentID native) = Inr (od_Market order) \<and>
       order = fromOKXOrder native (od_Market order)) (concat (map opg_Orders pages)) orders"
    by (auto simp: okx_one_page_def okx_demo_report_def)
  with run amount show ?thesis unfolding request_def by (intro exI conjI)
qed

end
