(* ===== verification/Okx_Endpoints.thy ===== *)
theory Okx_Endpoints
  imports Okx_Unified
begin

text \<open>
  The operations of the OKX client (\<open>exchange/okx/market.go\<close>, \<open>account.go\<close>, \<open>orders.go\<close>): each validates its
  request, runs a public or signed call and decodes the data. \<open>okx_native_client\<close> is the client as the unified
  adapter uses it. The JSON codec is the record \<open>okx_json\<close>; a list of raw items is decoded item by item as
  in the code. The time of a response is in nanoseconds.
\<close>

section \<open>Codec\<close>

record okx_json =
  oj_PlaceOrder :: "okx_PlaceOrderRequest \<Rightarrow> string result"
  oj_CancelOrder :: "okx_CancelOrderRequest \<Rightarrow> string result"
  oj_List :: "string \<Rightarrow> string list result"
  oj_ServerTime :: "string \<Rightarrow> string list result"
  oj_Instrument :: "string \<Rightarrow> okx_Instrument result"
  oj_Ticker :: "string \<Rightarrow> okx_Ticker result"
  oj_OrderBook :: "string \<Rightarrow> okx_Event result"
  oj_PublicTrade :: "string \<Rightarrow> okx_PublicTrade result"
  oj_Texts :: "string \<Rightarrow> string list result"
  oj_Balance :: "string \<Rightarrow> okx_Balance result"
  oj_Position :: "string \<Rightarrow> okx_Position result"
  oj_Order :: "string \<Rightarrow> okx_Order result"
  oj_OrderReference :: "string \<Rightarrow> okx_OrderReference result"

section \<open>Calls\<close>

text \<open>The part of a call after its decoding failed.\<close>

definition okx_decoded :: "'w okx_Client \<Rightarrow> Response \<Rightarrow> OperationKind \<Rightarrow> 'a result \<Rightarrow> 'a result" where
  "okx_decoded client response operation res =
     (case res of
        Inl err \<Rightarrow> Inl (okx_decodeBodyError client response operation err)
      | Inr val \<Rightarrow> Inr val)"

text \<open>The first item of a list that must not be empty.\<close>

definition okx_first :: "string \<Rightarrow> 'a list result \<Rightarrow> 'a result" where
  "okx_first missing items =
     (case items of
        Inl err \<Rightarrow> Inl err
      | Inr [] \<Rightarrow> Inl (errorText missing)
      | Inr (x # _) \<Rightarrow> Inr x)"

text \<open>A public or signed call followed by \<open>responseData\<close>: the response and the raw data.\<close>

definition okx_get_public ::
  "okx_lib \<Rightarrow> 'w okx_Client \<Rightarrow> go_context option \<Rightarrow> string \<Rightarrow> url_Values \<Rightarrow> okx_endpointLimit \<Rightarrow> RequestOption option list \<Rightarrow>
   'w \<times> call_memory \<Rightarrow> (Response \<times> string) result \<times> 'w \<times> call_memory" where
  "okx_get_public lib client ctx path query limit options s =
     (case okx_executePublic lib client ctx ''GET'' path query limit None options s of
        (Inl err, s) \<Rightarrow> (Inl err, s)
      | (Inr response, s) \<Rightarrow>
          (case okx_responseData lib client response OperationRead of
             Inl err \<Rightarrow> (Inl err, s)
           | Inr raw \<Rightarrow> (Inr (response, raw), s)))"

definition okx_get_signed ::
  "okx_lib \<Rightarrow> 'w okx_Client \<Rightarrow> go_context option \<Rightarrow> string \<Rightarrow> url_Values \<Rightarrow> okx_endpointLimit \<Rightarrow> RequestOption option list \<Rightarrow>
   'w \<times> call_memory \<Rightarrow> (Response \<times> string) result \<times> 'w \<times> call_memory" where
  "okx_get_signed lib client ctx path query limit options s =
     (case okx_executeSigned lib client ctx ''GET'' path query [] limit PermissionRead OperationRead options s of
        (Inl err, s) \<Rightarrow> (Inl err, s)
      | (Inr response, s) \<Rightarrow>
          (case okx_responseData lib client response OperationRead of
             Inl err \<Rightarrow> (Inl err, s)
           | Inr raw \<Rightarrow> (Inr (response, raw), s)))"

definition okx_post_signed ::
  "okx_lib \<Rightarrow> 'w okx_Client \<Rightarrow> go_context option \<Rightarrow> string \<Rightarrow> string \<Rightarrow> okx_endpointLimit \<Rightarrow> RequestOption option list \<Rightarrow>
   'w \<times> call_memory \<Rightarrow> (Response \<times> string) result \<times> 'w \<times> call_memory" where
  "okx_post_signed lib client ctx path body limit options s =
     (case okx_executeSigned lib client ctx ''POST'' path [] body limit PermissionTrade OperationMutation options s of
        (Inl err, s) \<Rightarrow> (Inl err, s)
      | (Inr response, s) \<Rightarrow>
          (case okx_responseData lib client response OperationMutation of
             Inl err \<Rightarrow> (Inl err, s)
           | Inr raw \<Rightarrow> (Inr (response, raw), s)))"

text \<open>What all operations that answer with a list of items share.\<close>

definition okx_list_result ::
  "okx_json \<Rightarrow> 'w okx_Client \<Rightarrow> (string \<Rightarrow> 'a result) \<Rightarrow> (Response \<times> string) result \<times> 'w \<times> call_memory \<Rightarrow>
   'a list result \<times> 'w \<times> call_memory" where
  "okx_list_result json client Unmarshal called =
     (case called of
        (Inl err, s) \<Rightarrow> (Inl err, s)
      | (Inr (response, raw), s) \<Rightarrow>
          (okx_decoded client response OperationRead (okx_decodeItems (oj_List json) Unmarshal raw), s))"

section \<open>Market data\<close>

text \<open>Division of Go's integers, which truncates towards zero.\<close>

definition okx_quot :: "int \<Rightarrow> int \<Rightarrow> int" where
  "okx_quot a b = (if a < 0 then - (- a div b) else a div b)"

definition okx_ServerTime ::
  "okx_lib \<Rightarrow> okx_json \<Rightarrow> 'w okx_Client \<Rightarrow> go_context option \<Rightarrow> RequestOption option list \<Rightarrow> 'w \<times> call_memory \<Rightarrow>
   int result \<times> 'w \<times> call_memory" where
  "okx_ServerTime lib json client ctx options s =
     (case okx_executePublic lib client ctx ''GET'' ''/api/v5/public/time'' [] (okx_publicLimit 10 (2 * second) [])
             (Some (\<lambda>(w, m). (w, m\<lparr>bm_startedAt := ocl_now client w\<rparr>))) options s of
        (Inl err, s) \<Rightarrow> (Inl err, s)
      | (Inr response, s) \<Rightarrow>
          (case okx_responseData lib client response OperationRead of
             Inl err \<Rightarrow> (Inl err, s)
           | Inr raw \<Rightarrow>
               (case okx_first ''OKX server time response is empty'' (okx_decodeData (oj_ServerTime json) raw) of
                  Inl err \<Rightarrow> (Inl (okx_decodeBodyError client response OperationRead err), s)
                | Inr timestamp \<Rightarrow>
                    (case Atoi timestamp of
                       None \<Rightarrow> (Inl (okx_decodeBodyError client response OperationRead (ForeignError ''strconv.ParseInt'')), s)
                     | Some serverMillis \<Rightarrow>
                         if serverMillis \<le> 0
                         then (Inl (okx_decodeBodyError client response OperationRead (errorText ''invalid OKX server time'')), s)
                         else
                           let (w, m) = s; finishedAt = ocl_now client w;
                               midpointMillis = wrap64 (UnixMilli (bm_startedAt m) +
                                 okx_quot (okx_quot (saturate64 (finishedAt - bm_startedAt m)) millisecond) 2)
                           in (Inr (serverMillis * millisecond), w, m\<lparr>bm_offset := wrap64 (serverMillis - midpointMillis)\<rparr>)))))"

definition okx_Instruments ::
  "((string \<times> string) list \<Rightarrow> (string \<times> string) list) \<Rightarrow> okx_lib \<Rightarrow> okx_json \<Rightarrow> 'w okx_Client \<Rightarrow> go_context option \<Rightarrow>
   RequestOption option list \<Rightarrow> okx_InstrumentsRequest \<Rightarrow> 'w \<times> call_memory \<Rightarrow> okx_Instrument list result \<times> 'w \<times> call_memory" where
  "okx_Instruments visit lib json client ctx options request s =
     (case okx_Instruments_validate visit request of
        Some err \<Rightarrow> (Inl err, s)
      | None \<Rightarrow>
          okx_list_result json client (oj_Instrument json)
            (okx_get_public lib client ctx ''/api/v5/public/instruments'' (okx_Instruments_values request)
               (okx_publicLimit 20 (2 * second) (oin_InstrumentType request)) options s))"

definition okx_Tickers ::
  "okx_lib \<Rightarrow> okx_json \<Rightarrow> 'w okx_Client \<Rightarrow> go_context option \<Rightarrow> RequestOption option list \<Rightarrow> okx_TickersRequest \<Rightarrow>
   'w \<times> call_memory \<Rightarrow> okx_Ticker list result \<times> 'w \<times> call_memory" where
  "okx_Tickers lib json client ctx options request s =
     (case okx_Tickers_validate request of
        Some err \<Rightarrow> (Inl err, s)
      | None \<Rightarrow>
          okx_list_result json client (oj_Ticker json)
            (okx_get_public lib client ctx ''/api/v5/market/tickers'' (okx_Tickers_values request)
               (okx_publicLimit 20 (2 * second) []) options s))"

definition okx_OrderBook_snapshot ::
  "okx_lib \<Rightarrow> okx_json \<Rightarrow> 'w okx_Client \<Rightarrow> go_context option \<Rightarrow> RequestOption option list \<Rightarrow> okx_OrderBookRequest \<Rightarrow>
   'w \<times> call_memory \<Rightarrow> okx_Event result \<times> 'w \<times> call_memory" where
  "okx_OrderBook_snapshot lib json client ctx options request s =
     (case okx_OrderBook_validate request of
        Some err \<Rightarrow> (Inl err, s)
      | None \<Rightarrow>
          (case okx_get_public lib client ctx ''/api/v5/market/books'' (okx_OrderBook_values request)
                  (okx_publicLimit 40 (2 * second) []) options s of
             (Inl err, s) \<Rightarrow> (Inl err, s)
           | (Inr (response, raw), s) \<Rightarrow>
               (okx_decoded client response OperationRead (okx_first ''OKX order book response is empty''
                  (okx_decodeItems (oj_List json) (oj_OrderBook json) raw)), s)))"

definition okx_RecentTrades ::
  "okx_lib \<Rightarrow> okx_json \<Rightarrow> 'w okx_Client \<Rightarrow> go_context option \<Rightarrow> RequestOption option list \<Rightarrow> okx_RecentTradesRequest \<Rightarrow>
   'w \<times> call_memory \<Rightarrow> okx_PublicTrade list result \<times> 'w \<times> call_memory" where
  "okx_RecentTrades lib json client ctx options request s =
     (case okx_RecentTrades_validate request of
        Some err \<Rightarrow> (Inl err, s)
      | None \<Rightarrow>
          okx_list_result json client (oj_PublicTrade json)
            (okx_get_public lib client ctx ''/api/v5/market/trades'' (okx_RecentTrades_values request)
               (okx_publicLimit 100 (2 * second) []) options s))"

definition okx_Candles ::
  "okx_lib \<Rightarrow> okx_json \<Rightarrow> 'w okx_Client \<Rightarrow> go_context option \<Rightarrow> RequestOption option list \<Rightarrow> okx_CandlesRequest \<Rightarrow>
   'w \<times> call_memory \<Rightarrow> okx_Candle list result \<times> 'w \<times> call_memory" where
  "okx_Candles lib json client ctx options request s =
     (case okx_Candles_validate request of
        Some err \<Rightarrow> (Inl err, s)
      | None \<Rightarrow>
          okx_list_result json client (okx_Candle_Unmarshal (oj_Texts json))
            (okx_get_public lib client ctx ''/api/v5/market/candles'' (okx_Candles_values request)
               (okx_publicLimit 40 (2 * second) []) options s))"

section \<open>Account\<close>

definition okx_Balance ::
  "okx_lib \<Rightarrow> okx_json \<Rightarrow> 'w okx_Client \<Rightarrow> go_context option \<Rightarrow> RequestOption option list \<Rightarrow> okx_BalanceRequest \<Rightarrow>
   'w \<times> call_memory \<Rightarrow> okx_Balance result \<times> 'w \<times> call_memory" where
  "okx_Balance lib json client ctx options request s =
     (case okx_Balance_validate request of
        Some err \<Rightarrow> (Inl err, s)
      | None \<Rightarrow>
          (case okx_get_signed lib client ctx ''/api/v5/account/balance'' (okx_Balance_values request)
                  (okx_accountLimit 10 (2 * second) []) options s of
             (Inl err, s) \<Rightarrow> (Inl err, s)
           | (Inr (response, raw), s) \<Rightarrow>
               (okx_decoded client response OperationRead (okx_first ''OKX balance response is empty''
                  (okx_decodeItems (oj_List json) (oj_Balance json) raw)), s)))"

definition okx_Positions ::
  "okx_lib \<Rightarrow> okx_json \<Rightarrow> 'w okx_Client \<Rightarrow> go_context option \<Rightarrow> RequestOption option list \<Rightarrow> okx_PositionsRequest \<Rightarrow>
   'w \<times> call_memory \<Rightarrow> okx_Position list result \<times> 'w \<times> call_memory" where
  "okx_Positions lib json client ctx options request s =
     (case okx_Positions_validate request of
        Some err \<Rightarrow> (Inl err, s)
      | None \<Rightarrow>
          okx_list_result json client (oj_Position json)
            (okx_get_signed lib client ctx ''/api/v5/account/positions'' (okx_Positions_values request)
               (okx_accountLimit 10 (2 * second) []) options s))"

section \<open>Orders\<close>

definition okx_decodeOrderReference ::
  "okx_json \<Rightarrow> 'w okx_Client \<Rightarrow> Response \<Rightarrow> string \<Rightarrow> OperationKind \<Rightarrow> okx_OrderReference result" where
  "okx_decodeOrderReference json client response raw operation =
     (case okx_first ''OKX order acknowledgement is empty'' (okx_decodeItems (oj_List json) (oj_OrderReference json) raw) of
        Inl err \<Rightarrow> Inl (okx_decodeBodyError client response operation err)
      | Inr reference \<Rightarrow>
          if orf_StatusCode reference = []
          then Inl (okx_decodeBodyError client response operation (errorText ''OKX order acknowledgement status code is missing''))
          else if orf_StatusCode reference \<noteq> ''0''
          then Inl (okx_decodeError client response (orf_StatusCode reference) (orf_StatusMessage reference) operation None)
          else if orf_OrderID reference = [] \<and> orf_ClientOrderID reference = []
          then Inl (okx_decodeBodyError client response operation (errorText ''OKX order acknowledgement identity is missing''))
          else Inr reference)"

definition okx_decodeOrderPage :: "okx_lib \<Rightarrow> okx_json \<Rightarrow> 'w okx_Client \<Rightarrow> Response \<Rightarrow> okx_OrderPage result" where
  "okx_decodeOrderPage lib json client response =
     (case okx_responseData lib client response OperationRead of
        Inl err \<Rightarrow> Inl err
      | Inr raw \<Rightarrow>
          (case okx_decodeItems (oj_List json) (oj_Order json) raw of
             Inl err \<Rightarrow> Inl (okx_decodeBodyError client response OperationRead err)
           | Inr orders \<Rightarrow> Inr \<lparr>opg_Orders = orders\<rparr>))"

definition okx_PlaceOrder ::
  "okx_lib \<Rightarrow> okx_json \<Rightarrow> 'w okx_Client \<Rightarrow> go_context option \<Rightarrow> RequestOption option list \<Rightarrow> okx_PlaceOrderRequest \<Rightarrow>
   'w \<times> call_memory \<Rightarrow> okx_OrderReference result \<times> 'w \<times> call_memory" where
  "okx_PlaceOrder lib json client ctx options request s =
     (case okx_PlaceOrder_validate request of
        Some err \<Rightarrow> (Inl err, s)
      | None \<Rightarrow>
          (case okx_encodeBody (oj_PlaceOrder json request) of
             Inl err \<Rightarrow> (Inl err, s)
           | Inr body \<Rightarrow>
               (case okx_post_signed lib client ctx ''/api/v5/trade/order'' body
                       (okx_accountLimit 60 (2 * second) (opo_InstrumentID request)) options s of
                  (Inl err, s) \<Rightarrow> (Inl err, s)
                | (Inr (response, raw), s) \<Rightarrow> (okx_decodeOrderReference json client response raw OperationMutation, s))))"

definition okx_CancelOrder ::
  "okx_lib \<Rightarrow> okx_json \<Rightarrow> 'w okx_Client \<Rightarrow> go_context option \<Rightarrow> RequestOption option list \<Rightarrow> okx_CancelOrderRequest \<Rightarrow>
   'w \<times> call_memory \<Rightarrow> okx_OrderReference result \<times> 'w \<times> call_memory" where
  "okx_CancelOrder lib json client ctx options request s =
     (case okx_CancelOrder_validate request of
        Some err \<Rightarrow> (Inl err, s)
      | None \<Rightarrow>
          (case okx_encodeBody (oj_CancelOrder json request) of
             Inl err \<Rightarrow> (Inl err, s)
           | Inr body \<Rightarrow>
               (case okx_post_signed lib client ctx ''/api/v5/trade/cancel-order'' body
                       (okx_accountLimit 60 (2 * second) (oco_InstrumentID request)) options s of
                  (Inl err, s) \<Rightarrow> (Inl err, s)
                | (Inr (response, raw), s) \<Rightarrow> (okx_decodeOrderReference json client response raw OperationMutation, s))))"

definition okx_OrderInfo ::
  "okx_lib \<Rightarrow> okx_json \<Rightarrow> 'w okx_Client \<Rightarrow> go_context option \<Rightarrow> RequestOption option list \<Rightarrow> okx_OrderInfoRequest \<Rightarrow>
   'w \<times> call_memory \<Rightarrow> okx_Order result \<times> 'w \<times> call_memory" where
  "okx_OrderInfo lib json client ctx options request s =
     (case okx_OrderInfo_validate request of
        Some err \<Rightarrow> (Inl err, s)
      | None \<Rightarrow>
          (case okx_get_signed lib client ctx ''/api/v5/trade/order'' (okx_OrderInfo_values request)
                  (okx_accountLimit 60 (2 * second) (ooi_InstrumentID request)) options s of
             (Inl err, s) \<Rightarrow> (Inl err, s)
           | (Inr (response, raw), s) \<Rightarrow>
               (case okx_decodeItems (oj_List json) (oj_Order json) raw of
                  Inl err \<Rightarrow> (Inl (okx_decodeBodyError client response OperationRead err), s)
                | Inr [] \<Rightarrow> (Inl (okx_decodeError client response ''51603'' ''order does not exist'' OperationRead None), s)
                | Inr (order # _) \<Rightarrow> (Inr order, s))))"

definition okx_OpenOrders ::
  "okx_lib \<Rightarrow> okx_json \<Rightarrow> 'w okx_Client \<Rightarrow> go_context option \<Rightarrow> RequestOption option list \<Rightarrow> okx_OpenOrdersRequest \<Rightarrow>
   'w \<times> call_memory \<Rightarrow> okx_OrderPage result \<times> 'w \<times> call_memory" where
  "okx_OpenOrders lib json client ctx options request s =
     (case okx_OpenOrders_validate request of
        Some err \<Rightarrow> (Inl err, s)
      | None \<Rightarrow>
          (case okx_executeSigned lib client ctx ''GET'' ''/api/v5/trade/orders-pending'' (okx_OpenOrders_values request) []
                  (okx_accountLimit 60 (2 * second) []) PermissionRead OperationRead options s of
             (Inl err, s) \<Rightarrow> (Inl err, s)
           | (Inr response, s) \<Rightarrow> (okx_decodeOrderPage lib json client response, s)))"

definition okx_OrderHistory ::
  "okx_lib \<Rightarrow> okx_json \<Rightarrow> 'w okx_Client \<Rightarrow> go_context option \<Rightarrow> RequestOption option list \<Rightarrow> okx_OrderHistoryRequest \<Rightarrow>
   'w \<times> call_memory \<Rightarrow> okx_OrderPage result \<times> 'w \<times> call_memory" where
  "okx_OrderHistory lib json client ctx options request s =
     (case okx_OrderHistory_validate request of
        Some err \<Rightarrow> (Inl err, s)
      | None \<Rightarrow>
          (case okx_executeSigned lib client ctx ''GET'' ''/api/v5/trade/orders-history'' (okx_OrderHistory_values request) []
                  (okx_accountLimit 40 (2 * second) []) PermissionRead OperationRead options s of
             (Inl err, s) \<Rightarrow> (Inl err, s)
           | (Inr response, s) \<Rightarrow> (okx_decodeOrderPage lib json client response, s)))"

text \<open>The client behind the unified adapter.\<close>

definition okx_native_client ::
  "((string \<times> string) list \<Rightarrow> (string \<times> string) list) \<Rightarrow> okx_lib \<Rightarrow> okx_json \<Rightarrow> 'w okx_Client \<Rightarrow> go_context option \<Rightarrow>
   RequestOption option list \<Rightarrow> ('w \<times> call_memory) okx_native" where
  "okx_native_client visit lib json client ctx options =
     \<lparr>kn_Instruments = okx_Instruments visit lib json client ctx options, kn_Tickers = okx_Tickers lib json client ctx options,
      kn_OrderBook = okx_OrderBook_snapshot lib json client ctx options,
      kn_RecentTrades = okx_RecentTrades lib json client ctx options, kn_Candles = okx_Candles lib json client ctx options,
      kn_Balance = okx_Balance lib json client ctx options, kn_PlaceOrder = okx_PlaceOrder lib json client ctx options,
      kn_CancelOrder = okx_CancelOrder lib json client ctx options, kn_OrderInfo = okx_OrderInfo lib json client ctx options,
      kn_OpenOrders = okx_OpenOrders lib json client ctx options\<rparr>"

section \<open>What the answer to a mutation means\<close>

text \<open>Codes for which the exchange does not know itself whether it acted.\<close>

definition okx_unsure :: "string list" where
  "okx_unsure = [''50001'', ''50004'', ''50013'', ''50026'', ''51149'']"

text \<open>The first item of the data, when it decodes.\<close>

definition okx_acknowledgement :: "okx_json \<Rightarrow> string \<Rightarrow> okx_OrderReference option" where
  "okx_acknowledgement json raw =
     (case okx_decodeItems (oj_List json) (oj_OrderReference json) raw of Inr (ref # _) \<Rightarrow> Some ref | _ \<Rightarrow> None)"

text \<open>The reply of the exchange refuses the request: a 4xx status, an envelope whose code is an error the exchange is sure
  of, an informational or redirect status, or an item with such a code under an envelope without one.\<close>

definition okx_refusal :: "okx_lib \<Rightarrow> okx_json \<Rightarrow> Response \<Rightarrow> bool" where
  "okx_refusal lib json response \<longleftrightarrow>
     (400 \<le> re_StatusCode response \<and> re_StatusCode response < 500) \<or>
     (\<exists>code msg raw. ol_Envelope lib (re_Body response) = Inr (code, msg, raw) \<and> code \<noteq> [] \<and> code \<notin> set okx_unsure \<and>
        (code \<noteq> ''0'' \<or> re_StatusCode response < 200 \<or> 300 \<le> re_StatusCode response \<and> re_StatusCode response < 400 \<or>
           (\<exists>ref. okx_acknowledgement json raw = Some ref \<and> orf_StatusCode ref \<notin> set ([''0'', []] @ okx_unsure))))"

definition okx_accepted :: "okx_lib \<Rightarrow> okx_json \<Rightarrow> Response \<Rightarrow> okx_OrderReference \<Rightarrow> bool" where
  "okx_accepted lib json response ref \<longleftrightarrow> 200 \<le> re_StatusCode response \<and> re_StatusCode response < 300 \<and>
     (\<exists>msg raw. ol_Envelope lib (re_Body response) = Inr (''0'', msg, raw) \<and> okx_acknowledgement json raw = Some ref) \<and>
     orf_StatusCode ref = ''0'' \<and> (orf_OrderID ref \<noteq> [] \<or> orf_ClientOrderID ref \<noteq> [])"

text \<open>An error that was made of a reply: only a rate-limited mutation may be retried, and unless its outcome is
  unknown the reply refused it.\<close>

definition okx_answered_error :: "okx_lib \<Rightarrow> okx_json \<Rightarrow> Response \<Rightarrow> go_error \<Rightarrow> bool" where
  "okx_answered_error lib json response err \<longleftrightarrow>
     (\<exists>a. err = ErrAPI a \<and> ae_HTTPStatus a = re_StatusCode response \<and>
        (ae_Retryable a \<longrightarrow> ae_Category a = ErrorRateLimited) \<and>
        (ae_Category a = ErrorUnknownExecutionState \<or> okx_refusal lib json response))"

lemma okx_answeredI:
  "(retryable \<Longrightarrow> category = ErrorRateLimited) \<Longrightarrow> category = ErrorUnknownExecutionState \<or> okx_refusal lib json response \<Longrightarrow>
     okx_answered_error lib json response
       (ErrAPI (APIError category ex account rid retryable (re_StatusCode response) code msg cause))"
  by (simp add: okx_answered_error_def)

lemma okx_classify_retry:
  assumes "okx_classifyError st code OperationMutation = (category, True)"
  shows "category = ErrorRateLimited"
proof (cases "st = 429 \<or> code = ''50011'' \<or> code = ''50040'' \<or> code = ''50061''")
  case True
  then have "okx_classifyError st code OperationMutation = (ErrorRateLimited, True)"
    unfolding okx_classifyError_def by (rule if_P)
  with assms show ?thesis by simp
next
  case False
  have "\<not> snd (okx_classifyError st code OperationMutation)"
    unfolding okx_classifyError_def if_not_P [OF False]
    by (simp only: if_distrib [where f = snd] snd_conv if_cancel refl if_True not_False_eq_True)
  with assms show ?thesis by simp
qed

lemma okx_classify_no_code:
  "okx_classifyError st [] OperationMutation = (category, retryable) \<Longrightarrow>
     category = ErrorUnknownExecutionState \<or> 400 \<le> st \<and> st < 500 \<or> st < 400 \<and> category = ErrorInternal"
  by (simp add: okx_classifyError_def split: if_split_asm; elim disjE; simp)

lemma okx_classify_zero:
  "okx_classifyError st ''0'' OperationMutation = (category, retryable) \<Longrightarrow>
     category = ErrorUnknownExecutionState \<or> st < 500"
  by (simp add: okx_classifyError_def split: if_split_asm; elim disjE; simp)

lemma okx_classify_unsure:
  assumes "code \<in> set okx_unsure" "okx_classifyError st code OperationMutation = (category, retryable)"
  shows "category = ErrorUnknownExecutionState \<or> 400 \<le> st \<and> st < 500"
proof -
  from assms(1) consider "code = ''50001''" | "code = ''50004''" | "code = ''50013''" | "code = ''50026''" | "code = ''51149''"
    by (auto simp: okx_unsure_def)
  then show ?thesis
    using assms(2) by cases (simp add: okx_classifyError_def split: if_split_asm; elim disjE; simp)+
qed

lemma okx_body_error: "okx_answered_error lib json response (okx_decodeBodyError client response OperationMutation cause)"
proof -
  obtain category retryable where cls: "okx_classifyError (re_StatusCode response) [] OperationMutation = (category, retryable)"
    by fastforce
  show ?thesis
  proof (cases "category = ErrorInternal")
    case True
    then show ?thesis unfolding okx_decodeBodyError_def cls Let_def by (simp add: okx_answeredI)
  next
    case False
    with okx_classify_no_code [OF cls] have "category = ErrorUnknownExecutionState \<or> okx_refusal lib json response"
      unfolding okx_refusal_def by metis
    with False show ?thesis
      unfolding okx_decodeBodyError_def cls Let_def prod.case if_not_P [OF False]
      using cls by (intro okx_answeredI) (simp_all add: okx_classify_retry)
  qed
qed

lemma okx_code_error:
  assumes "\<And>category retryable. okx_classifyError (re_StatusCode response) code OperationMutation = (category, retryable) \<Longrightarrow>
    category = ErrorUnknownExecutionState \<or> okx_refusal lib json response"
  shows "okx_answered_error lib json response (okx_decodeError client response code msg OperationMutation cause)"
proof -
  obtain category retryable where cls: "okx_classifyError (re_StatusCode response) code OperationMutation = (category, retryable)"
    by fastforce
  show ?thesis
    unfolding okx_decodeError_def cls Let_def prod.case
    using cls assms by (intro okx_answeredI) (simp_all add: okx_classify_retry)
qed

lemma okx_envelope_error:
  assumes "ol_Envelope lib (re_Body response) = Inr (code, msg, raw)" "code \<noteq> []"
    "re_StatusCode response < 200 \<or> 300 \<le> re_StatusCode response \<or> code \<noteq> ''0''"
  shows "okx_answered_error lib json response (okx_decodeError client response code msg OperationMutation cause)"
proof (rule okx_code_error)
  fix category retryable
  assume cls: "okx_classifyError (re_StatusCode response) code OperationMutation = (category, retryable)"
  show "category = ErrorUnknownExecutionState \<or> okx_refusal lib json response"
  proof (cases "code \<in> set okx_unsure")
    case True
    with okx_classify_unsure [OF _ cls] show ?thesis unfolding okx_refusal_def by blast
  next
    case False
    have "category = ErrorUnknownExecutionState \<or> re_StatusCode response < 500 \<or> code \<noteq> ''0''"
      using okx_classify_zero cls by blast
    with False assms show ?thesis unfolding okx_refusal_def by fastforce
  qed
qed

lemma okx_item_error:
  assumes "ol_Envelope lib (re_Body response) = Inr (''0'', msg, raw)" "okx_acknowledgement json raw = Some ref"
    "orf_StatusCode ref \<noteq> []" "orf_StatusCode ref \<noteq> ''0''"
  shows "okx_answered_error lib json response
    (okx_decodeError client response (orf_StatusCode ref) (orf_StatusMessage ref) OperationMutation cause)"
proof (rule okx_code_error)
  fix category retryable
  assume cls: "okx_classifyError (re_StatusCode response) (orf_StatusCode ref) OperationMutation = (category, retryable)"
  have zero: "''0'' \<notin> set okx_unsure" by (simp add: okx_unsure_def)
  show "category = ErrorUnknownExecutionState \<or> okx_refusal lib json response"
  proof (cases "orf_StatusCode ref \<in> set okx_unsure")
    case True
    with okx_classify_unsure [OF _ cls] show ?thesis unfolding okx_refusal_def by blast
  next
    case False
    with assms zero have "okx_refusal lib json response" unfolding okx_refusal_def by fastforce
    then show ?thesis ..
  qed
qed

text \<open>The reply to a mutation, decoded: an order reference the exchange accepted, or an error that was made of the reply.\<close>

lemma okx_reply_outcome:
  assumes "okx_responseData lib client response OperationMutation = Inr raw"
  shows "case okx_decodeOrderReference json client response raw OperationMutation of
      Inl err \<Rightarrow> okx_answered_error lib json response err
    | Inr ref \<Rightarrow> okx_accepted lib json response ref"
proof -
  from assms obtain msg where env: "ol_Envelope lib (re_Body response) = Inr (''0'', msg, raw)"
    "200 \<le> re_StatusCode response" "re_StatusCode response < 300"
    by (auto simp: okx_responseData_def split: sum.splits if_splits)
  show ?thesis
  proof (cases "okx_acknowledgement json raw")
    case None
    then have "\<exists>err. okx_first ''OKX order acknowledgement is empty''
        (okx_decodeItems (oj_List json) (oj_OrderReference json) raw) = Inl err"
      by (auto simp: okx_acknowledgement_def okx_first_def split: sum.splits list.splits)
    then show ?thesis using okx_body_error by (auto simp: okx_decodeOrderReference_def)
  next
    case (Some ref)
    then have first: "okx_first ''OKX order acknowledgement is empty''
        (okx_decodeItems (oj_List json) (oj_OrderReference json) raw) = Inr ref"
      by (auto simp: okx_acknowledgement_def okx_first_def split: sum.splits list.splits)
    consider "orf_StatusCode ref = [] \<or> orf_StatusCode ref = ''0'' \<and> orf_OrderID ref = [] \<and> orf_ClientOrderID ref = []"
      | "orf_StatusCode ref \<noteq> []" "orf_StatusCode ref \<noteq> ''0''"
      | "orf_StatusCode ref = ''0''" "orf_OrderID ref \<noteq> [] \<or> orf_ClientOrderID ref \<noteq> []" by blast
    then show ?thesis
    proof cases
      case 1
      then show ?thesis using okx_body_error by (auto simp: okx_decodeOrderReference_def first)
    next
      case 2
      with okx_item_error [OF env(1) Some 2] show ?thesis by (simp add: okx_decodeOrderReference_def first)
    next
      case 3
      with env Some have "okx_accepted lib json response ref" unfolding okx_accepted_def by blast
      with 3 show ?thesis by (auto simp: okx_decodeOrderReference_def first)
    qed
  qed
qed

lemma okx_response_error:
  "okx_responseData lib client response OperationMutation = Inl err \<Longrightarrow> okx_answered_error lib json response err"
  by (auto simp: okx_responseData_def intro: okx_body_error okx_envelope_error split: sum.splits if_splits)

text \<open>The record of a call holds one request, signed over its body, on a route and with a permission the credentials have.\<close>

definition okx_sent_once ::
  "okx_lib \<Rightarrow> 'w okx_Client \<Rightarrow> RequestOption option list \<Rightarrow> string \<Rightarrow> string \<Rightarrow> exec_event list \<Rightarrow> bool" where
  "okx_sent_once lib client options path body evs \<longleftrightarrow>
     (\<exists>d p resolved rq. ocl_credentials client = Some d \<and> ocl_credentialProvider client = Some p \<and>
        okx_resolveOptions client options = Inr resolved \<and>
        AllowsEgressRoute d (ro_EgressRouteID resolved) \<and> AllowsPermission d PermissionTrade \<and>
        sent evs = [(ro_EgressRouteID resolved, rq)] \<and> okx_signed_request lib client ''POST'' path [] body d p rq)"

text \<open>The outcome of a mutation.\<close>

definition okx_mutation_outcome ::
  "okx_lib \<Rightarrow> okx_json \<Rightarrow> 'w okx_Client \<Rightarrow> RequestOption option list \<Rightarrow> string \<Rightarrow> string \<Rightarrow> exec_event list \<Rightarrow>
   okx_OrderReference result \<Rightarrow> bool" where
  "okx_mutation_outcome lib json client options path body evs res \<longleftrightarrow>
     (case res of
        Inr ref \<Rightarrow> okx_sent_once lib client options path body evs \<and> (\<exists>response. okx_accepted lib json response ref)
      | Inl err \<Rightarrow> sent evs = [] \<or> okx_sent_once lib client options path body evs \<and>
          (unknown_outcome err \<or> (\<exists>response. okx_answered_error lib json response err)))"

lemma okx_post_outcome:
  assumes "okx_post_signed lib (okx_traced client) ctx path body limit options ((w, []), m) = (res, ((w', evs), m'))"
  shows "okx_mutation_outcome lib json client options path body evs
    (case res of Inl err \<Rightarrow> Inl err
     | Inr (response, raw) \<Rightarrow> okx_decodeOrderReference json (okx_traced client) response raw OperationMutation)"
proof -
  obtain res1 s1 where run: "okx_executeSigned lib (okx_traced client) ctx ''POST'' path [] body limit
      PermissionTrade OperationMutation options ((w, []), m) = (res1, s1)" by (rule prod.exhaust)
  with assms have s1: "s1 = ((w', evs), m')" by (auto simp: okx_post_signed_def split: sum.splits prod.splits)
  show ?thesis
  proof (cases "sent evs = []")
    case True
    obtain err where "res1 = Inl err"
      by (rule okx_calls.mutation_run [OF run [unfolded s1]]) (use True in auto)
    with assms run s1 True show ?thesis by (auto simp: okx_post_signed_def okx_mutation_outcome_def)
  next
    case False
    obtain d p resolved rq where once: "ocl_credentials client = Some d" "ocl_credentialProvider client = Some p"
      "okx_resolveOptions client options = Inr resolved" "sent evs = [(ro_EgressRouteID resolved, rq)]"
      "okx_signed_request lib client ''POST'' path [] body d p rq"
      "case res1 of Inl err \<Rightarrow> unknown_outcome err | Inr response \<Rightarrow> True"
      by (rule okx_calls.mutation_run [OF run [unfolded s1]]) (use False in auto)
    with okx_calls.sends [OF run [unfolded s1]] have one: "okx_sent_once lib client options path body evs"
      by (auto simp: okx_sent_once_def)
    show ?thesis
    proof (cases res1)
      case (Inl err)
      with assms run s1 one once(6) show ?thesis by (auto simp: okx_post_signed_def okx_mutation_outcome_def)
    next
      case (Inr response)
      show ?thesis
      proof (cases "okx_responseData lib (okx_traced client) response OperationMutation")
        case (Inl err)
        with assms run s1 \<open>res1 = Inr response\<close> have "res = Inl err" by (simp add: okx_post_signed_def)
        with okx_response_error [OF Inl] one show ?thesis by (auto simp: okx_mutation_outcome_def)
      next
        case (Inr raw)
        with assms run s1 \<open>res1 = Inr response\<close> have "res = Inr (response, raw)" by (simp add: okx_post_signed_def)
        with okx_reply_outcome [OF Inr, of json] one show ?thesis
          by (auto simp: okx_mutation_outcome_def split: sum.splits)
      qed
    qed
  qed
qed


lemma okx_CancelOrder_result:
  assumes "okx_CancelOrder lib json (okx_traced client) ctx options request ((w, []), m) = (res, ((w', evs), m'))"
  shows "(okx_CancelOrder_validate request = None \<and> (\<exists>body. oj_CancelOrder json request = Inr body \<and>
      okx_mutation_outcome lib json client options ''/api/v5/trade/cancel-order'' body evs res)) \<or>
    (\<exists>err. res = Inl err \<and> evs = [])"
proof (cases "okx_CancelOrder_validate request = None \<and> (\<exists>body. oj_CancelOrder json request = Inr body)")
  case True
  then obtain body where body: "okx_CancelOrder_validate request = None" "oj_CancelOrder json request = Inr body" by blast
  let ?limit = "okx_accountLimit 60 (2 * second) (oco_InstrumentID request)"
  obtain res1 s1 where post: "okx_post_signed lib (okx_traced client) ctx ''/api/v5/trade/cancel-order'' body ?limit options ((w, []), m) = (res1, s1)"
    by (rule prod.exhaust)
  with assms body have "s1 = ((w', evs), m')" "res = (case res1 of Inl err \<Rightarrow> Inl err
     | Inr (response, raw) \<Rightarrow> okx_decodeOrderReference json (okx_traced client) response raw OperationMutation)"
    by (auto simp: okx_CancelOrder_def okx_encodeBody_def split: sum.splits)
  with okx_post_outcome [of lib client ctx "''/api/v5/trade/cancel-order''" body ?limit options w m res1 w' evs m' json] post body
  show ?thesis by auto
qed (use assms in \<open>auto simp: okx_CancelOrder_def okx_encodeBody_def split: option.splits sum.splits\<close>)

section \<open>Properties\<close>


text \<open>Cancelling through the unified API, down to the wire: the same discipline as for placing an order, with the
  cancel path.\<close>

theorem okx_unified_CancelOrder_wire:
  "case okx_unified_CancelOrder (okx_native_client visit lib json (okx_traced client) ctx options) request ((w, []), m) of
     (res, ((w', evs), m')) \<Rightarrow>
       (\<exists>err. res = Inl err \<and> evs = []) \<or>
       (OrderRequest_Validate request = None \<and>
        (\<exists>body. oj_CancelOrder json \<lparr>oco_InstrumentID = okxSpotInstrumentID (or_Market request),
              oco_OrderID = or_OrderID request, oco_ClientOrderID = or_ClientOrderID request\<rparr> = Inr body \<and>
          (case res of
             Inr order \<Rightarrow> okx_sent_once lib client options ''/api/v5/trade/cancel-order'' body evs \<and>
               od_Status order = OrderStatusCancelPending
           | Inl err \<Rightarrow> sent evs = [] \<or> okx_sent_once lib client options ''/api/v5/trade/cancel-order'' body evs \<and>
               (unknown_outcome err \<or> (\<exists>response. okx_answered_error lib json response err)))))"
proof -
  obtain res w' evs m' where native: "okx_CancelOrder lib json (okx_traced client) ctx options
      \<lparr>oco_InstrumentID = okxSpotInstrumentID (or_Market request), oco_OrderID = or_OrderID request,
       oco_ClientOrderID = or_ClientOrderID request\<rparr>
      ((w, []), m) = (res, ((w', evs), m'))" by (metis prod.exhaust)
  show ?thesis
  proof (cases "OrderRequest_Validate request")
    case None
    with okx_CancelOrder_result [OF native] native show ?thesis
      by (cases res) (auto simp: okx_unified_CancelOrder_def okx_native_client_def okx_mutation_outcome_def Let_def)
  qed (simp add: okx_unified_CancelOrder_def)
qed

end
