(* ===== verification/Bybit_Native.thy ===== *)
theory Bybit_Native
  imports Bybit_Requests
begin

text \<open>
  The values the Bybit client returns (\<open>exchange/bybit/types.go\<close>). The \<open>Raw\<close> fields, which only carry the
  bytes a value was decoded from, are left out.
\<close>

record bybit_PriceFilter =
  ypf_MinimumPrice :: string
  ypf_MaximumPrice :: string
  ypf_TickSize :: string

record bybit_LotSizeFilter =
  ylf_MaximumOrderQuantity :: string
  ylf_MinimumOrderQuantity :: string
  ylf_QuantityStep :: string
  ylf_MaximumMarketOrderQuantity :: string
  ylf_MinimumNotionalValue :: string
  ylf_MinimumOrderAmount :: string
  ylf_MaximumOrderAmount :: string

record bybit_LeverageFilter =
  ylv_MinimumLeverage :: string
  ylv_MaximumLeverage :: string
  ylv_LeverageStep :: string

record bybit_Instrument =
  yit_Symbol :: string
  yit_ContractType :: string
  yit_Status :: string
  yit_BaseCoin :: string
  yit_QuoteCoin :: string
  yit_SettleCoin :: string
  yit_LaunchTime :: string
  yit_DeliveryTime :: string
  yit_DeliveryFeeRate :: string
  yit_PriceScale :: string
  yit_UnifiedMarginTrade :: bool
  yit_FundingInterval :: int
  yit_PriceFilter :: bybit_PriceFilter
  yit_LotSizeFilter :: bybit_LotSizeFilter
  yit_LeverageFilter :: bybit_LeverageFilter

text \<open>\<open>InstrumentPage\<close>, \<open>PositionPage\<close> and \<open>OrderPage\<close>: the category, the items and the cursor of the next page.\<close>

record 'a bybit_page =
  ypg_Category :: Category
  ypg_Items :: "'a list"
  ypg_NextPageCursor :: string

record bybit_Ticker =
  ytk_Symbol :: string
  ytk_LastPrice :: string
  ytk_IndexPrice :: string
  ytk_MarkPrice :: string
  ytk_PreviousPrice24h :: string
  ytk_PriceChange24hRate :: string
  ytk_HighPrice24h :: string
  ytk_LowPrice24h :: string
  ytk_PreviousPrice1h :: string
  ytk_Volume24h :: string
  ytk_Turnover24h :: string
  ytk_FundingRate :: string
  ytk_NextFundingTime :: string
  ytk_BidPrice :: string
  ytk_BidQuantity :: string
  ytk_AskPrice :: string
  ytk_AskQuantity :: string

record bybit_OrderBookSnapshot =
  ybs_Symbol :: string
  ybs_Bids :: "string list list"
  ybs_Asks :: "string list list"
  ybs_Timestamp :: int
  ybs_UpdateID :: int
  ybs_Sequence :: int
  ybs_MatchingTime :: int

record bybit_PublicTrade =
  ypt_ExecutionID :: string
  ypt_Symbol :: string
  ypt_Price :: string
  ypt_Quantity :: string
  ypt_Side :: string
  ypt_Timestamp :: string
  ypt_BlockTrade :: bool

record bybit_Candle =
  ycd_StartTime :: string
  ycd_Open :: string
  ycd_High :: string
  ycd_Low :: string
  ycd_Close :: string
  ycd_Volume :: string
  ycd_Turnover :: string

record bybit_WalletCoin =
  ywc_Coin :: string
  ywc_Equity :: string
  ywc_USDValue :: string
  ywc_WalletBalance :: string
  ywc_AvailableToWithdraw :: string
  ywc_AvailableToBorrow :: string
  ywc_BorrowAmount :: string
  ywc_SpotBorrow :: string
  ywc_Locked :: string
  ywc_UnrealisedPnL :: string
  ywc_CumulativeRealisedPnL :: string

record bybit_WalletAccount =
  ywa_AccountType :: string
  ywa_TotalEquity :: string
  ywa_TotalWalletBalance :: string
  ywa_TotalAvailableBalance :: string
  ywa_TotalPerpetualUPL :: string
  ywa_TotalInitialMargin :: string
  ywa_TotalMaintenanceMargin :: string
  ywa_Coins :: "bybit_WalletCoin list"

record bybit_Position =
  ypn_Symbol :: string
  ypn_Side :: string
  ypn_Size :: string
  ypn_AveragePrice :: string
  ypn_PositionValue :: string
  ypn_Leverage :: string
  ypn_MarkPrice :: string
  ypn_LiquidationPrice :: string
  ypn_UnrealisedPnL :: string
  ypn_CumulativeRealisedPnL :: string
  ypn_PositionIndex :: int
  ypn_TradeMode :: int
  ypn_PositionStatus :: string
  ypn_UpdatedTime :: string

record bybit_Order =
  yod_OrderID :: string
  yod_OrderLinkID :: string
  yod_Symbol :: string
  yod_Side :: string
  yod_OrderType :: string
  yod_Price :: string
  yod_Quantity :: string
  yod_TimeInForce :: string
  yod_OrderStatus :: string
  yod_AveragePrice :: string
  yod_CumulativeExecutedQuantity :: string
  yod_CumulativeExecutedValue :: string
  yod_CumulativeExecutionFee :: string
  yod_LeavesQuantity :: string
  yod_LeavesValue :: string
  yod_ReduceOnly :: bool
  yod_CloseOnTrigger :: bool
  yod_PositionIndex :: int
  yod_CreatedTime :: string
  yod_UpdatedTime :: string

record bybit_OrderReference =
  yrf_OrderID :: string
  yrf_OrderLinkID :: string

end
