(* ===== verification/Bybit_Client.thy ===== *)
theory Bybit_Client
  imports Signed_Calls Go_Encoding Bybit_Native
begin

text \<open>
  The Bybit V5 REST client (\<open>exchange/bybit/client.go\<close>, \<open>limits.go\<close>, \<open>signer.go\<close>): its construction,
  public and signed requests, rate-limit charges, and the classification of responses.

  The client runs on the world of its executor together with \<open>call_memory\<close> (\<open>Signed_Calls\<close>), whose contracts the
  builder of signed requests and the signed call meet. HMAC-SHA256 and the JSON codec are parameters. Header names are
  in canonical form.
\<close>

section \<open>State\<close>

abbreviation ExchangeBybit :: ExchangeID where "ExchangeBybit \<equiv> ''bybit''"

record 'w bybit_Config =
  ycf_Executor :: "'w rest_executor option"
  ycf_Credentials :: "Descriptor option"
  ycf_CredentialProvider :: "'w key_Provider option"
  ycf_DefaultEgressRouteID :: EgressRouteID
  ycf_BaseURL :: string
  ycf_Testnet :: bool
  ycf_AllowInsecureHTTP :: bool
  ycf_RequestTimeout :: int
  ycf_ReceiveWindow :: int
  ycf_Now :: "('w \<Rightarrow> int) option"

record 'w bybit_Client =
  ycl_executor :: "'w rest_executor"
  ycl_credentials :: "Descriptor option"
  ycl_credentialProvider :: "'w key_Provider option"
  ycl_defaultEgressRouteID :: EgressRouteID
  ycl_baseURL :: string
  ycl_requestTimeout :: int
  ycl_receiveWindowMillis :: int
  ycl_now :: "'w \<Rightarrow> int"

text \<open>What a call needs besides the client.\<close>

record bybit_lib =
  bl_ParseURL :: "string \<Rightarrow> parsed_URL result"
  bl_HMAC :: "string \<Rightarrow> string \<Rightarrow> string"
  bl_Envelope :: "string \<Rightarrow> (int \<times> string \<times> string \<times> int) result"

section \<open>Construction\<close>

abbreviation bybit_DefaultBaseURL :: string where "bybit_DefaultBaseURL \<equiv> ''https://api.bybit.com''"
abbreviation bybit_DefaultTestnetBaseURL :: string where "bybit_DefaultTestnetBaseURL \<equiv> ''https://api-testnet.bybit.com''"
abbreviation bybit_DefaultRequestTimeout :: int where "bybit_DefaultRequestTimeout \<equiv> 10 * second"
abbreviation bybit_DefaultReceiveWindow :: int where "bybit_DefaultReceiveWindow \<equiv> 5 * second"

definition bybit_check_baseURL :: "(string \<Rightarrow> parsed_URL result) \<Rightarrow> bool \<Rightarrow> string \<Rightarrow> string result" where
  "bybit_check_baseURL ParseURL allowInsecureHTTP baseURL =
     (case ParseURL baseURL of
        Inl err \<Rightarrow> Inl (Errorf ''invalid Bybit base URL %q'' [StrArg baseURL] [])
      | Inr u \<Rightarrow>
          if ul_Host u = [] \<or> ul_User u \<or> ul_RawQuery u \<noteq> [] \<or> ul_Fragment u \<noteq> [] \<or> (ul_Path u \<noteq> [] \<and> ul_Path u \<noteq> ''/'')
          then Inl (Errorf ''invalid Bybit base URL %q'' [StrArg baseURL] [])
          else if ul_Scheme u \<noteq> ''https'' \<and> \<not> (allowInsecureHTTP \<and> ul_Scheme u = ''http'')
          then Inl (errorText ''Bybit base URL must use HTTPS'')
          else Inr (ul_Scheme u @ ''://'' @ ul_Host u))"

definition bybit_check_credentials :: "Descriptor option \<Rightarrow> bool \<Rightarrow> go_error option" where
  "bybit_check_credentials credentials provided =
     (case credentials of
        Some d \<Rightarrow>
          (case Descriptor_Validate d of
             Some err \<Rightarrow> Some err
           | None \<Rightarrow>
               if de_Exchange d \<noteq> ExchangeBybit then Some (errorText ''credential exchange must be Bybit'')
               else if \<not> provided then Some (errorText ''credential provider is required for private Bybit requests'')
               else None)
      | None \<Rightarrow> if provided then Some (errorText ''credential descriptor is required with credential provider'') else None)"

definition bybit_New ::
  "(string \<Rightarrow> parsed_URL result) \<Rightarrow> ('w \<Rightarrow> int) \<Rightarrow> 'w bybit_Config \<Rightarrow> 'w bybit_Client result" where
  "bybit_New ParseURL time_Now config =
     (case ycf_Executor config of
        None \<Rightarrow> Inl (errorText ''Bybit executor is required'')
      | Some executor \<Rightarrow>
          let defaultRouteID = TrimSpace (ycf_DefaultEgressRouteID config)
          in if defaultRouteID = [] then Inl (Sentinel ErrMissingEgressRoute)
             else
               let baseURL = (if ycf_BaseURL config \<noteq> [] then ycf_BaseURL config
                              else if ycf_Testnet config then bybit_DefaultTestnetBaseURL else bybit_DefaultBaseURL);
                   timeout = (if ycf_RequestTimeout config = 0 then bybit_DefaultRequestTimeout else ycf_RequestTimeout config);
                   window = (if ycf_ReceiveWindow config = 0 then bybit_DefaultReceiveWindow else ycf_ReceiveWindow config)
               in case bybit_check_baseURL ParseURL (ycf_AllowInsecureHTTP config) baseURL of
                    Inl err \<Rightarrow> Inl err
                  | Inr parsed \<Rightarrow>
                      if timeout < 0 then Inl (errorText ''Bybit request timeout cannot be negative'')
                      else if window \<le> 0 \<or> 60 * second < window \<or> window mod millisecond \<noteq> 0
                      then Inl (errorText ''Bybit receive window must be 1-60000 whole milliseconds'')
                      else case bybit_check_credentials (ycf_Credentials config) (ycf_CredentialProvider config \<noteq> None) of
                             Some err \<Rightarrow> Inl err
                           | None \<Rightarrow>
                               Inr \<lparr>ycl_executor = executor, ycl_credentials = ycf_Credentials config,
                                    ycl_credentialProvider = ycf_CredentialProvider config,
                                    ycl_defaultEgressRouteID = defaultRouteID, ycl_baseURL = parsed,
                                    ycl_requestTimeout = timeout, ycl_receiveWindowMillis = window div millisecond,
                                    ycl_now = (case ycf_Now config of Some f \<Rightarrow> f | None \<Rightarrow> time_Now)\<rparr>)"

section \<open>Rate limits\<close>

record bybit_endpointLimit =
  yl_perSecond :: int
  yl_account :: bool

definition publicLimit :: "int \<Rightarrow> bybit_endpointLimit" where
  "publicLimit perSecond = \<lparr>yl_perSecond = perSecond, yl_account = False\<rparr>"

definition accountLimit :: "int \<Rightarrow> bybit_endpointLimit" where
  "accountLimit perSecond = \<lparr>yl_perSecond = perSecond, yl_account = True\<rparr>"

definition rateLimitEndpointKey :: "string \<Rightarrow> string \<Rightarrow> string \<Rightarrow> string" where
  "rateLimitEndpointKey scope scopeID path =
     ''bybit:'' @ scope @ '':'' @ scopeID @ '':endpoint:'' @
     (case path of c # rest \<Rightarrow> (if c = CHR ''/'' then rest else path) | [] \<Rightarrow> []) @ '':1second''"

definition rateLimitCharges ::
  "'w rest_executor \<Rightarrow> EgressRouteID \<Rightarrow> string \<Rightarrow> string \<Rightarrow> bybit_endpointLimit \<Rightarrow> 'w \<Rightarrow> Charge list result \<times> 'w" where
  "rateLimitCharges ex routeID accountID path limit w =
     (let globalKey = ''bybit:route:'' @ routeID @ '':global:5seconds''
      in case rx_SetRule ex \<lparr>rule_Key = globalKey, rule_Limit = 600, rule_Window = 5 * second\<rparr> w of
           (Some err, w) \<Rightarrow> (Inl err, w)
         | (None, w) \<Rightarrow>
             let (scope, scopeID) = (if yl_account limit then (''account'', accountID) else (''route'', routeID))
             in if TrimSpace scopeID = []
                then (Inl (Errorf ''Bybit endpoint rate limit requires %s scope ID'' [StrArg scope] []), w)
                else
                  let endpointKey = rateLimitEndpointKey scope scopeID path
                  in case rx_SetRule ex \<lparr>rule_Key = endpointKey, rule_Limit = yl_perSecond limit, rule_Window = second\<rparr> w of
                       (Some err, w) \<Rightarrow> (Inl err, w)
                     | (None, w) \<Rightarrow>
                         (Inr [\<lparr>charge_Key = globalKey, charge_Units = 1\<rparr>, \<lparr>charge_Key = endpointKey, charge_Units = 1\<rparr>], w))"

definition observeRemaining ::
  "'w rest_executor \<Rightarrow> string \<Rightarrow> string \<Rightarrow> string \<Rightarrow> bybit_endpointLimit \<Rightarrow> (string \<times> string) list \<Rightarrow> 'w \<Rightarrow> 'w" where
  "observeRemaining ex scope scopeID path limit header w =
     (case (Atoi (TrimSpace (header_get header ''X-Bapi-Limit'')), Atoi (TrimSpace (header_get header ''X-Bapi-Limit-Status''))) of
        (Some reportedLimit, Some remaining) \<Rightarrow>
          if reportedLimit \<noteq> yl_perSecond limit \<or> remaining < 0 \<or> reportedLimit < remaining then w
          else snd (rx_ObserveUsed ex (rateLimitEndpointKey scope scopeID path) (reportedLimit - remaining) w)
      | _ \<Rightarrow> w)"

section \<open>Requests\<close>

definition bybit_resolveOptions :: "'w bybit_Client \<Rightarrow> RequestOption option list \<Rightarrow> RequestOptions result" where
  "bybit_resolveOptions client options =
     (case ResolveRequestOptions (ycl_defaultEgressRouteID client) options of
        Inl err \<Rightarrow> Inl err
      | Inr resolved \<Rightarrow>
          Inr (if ro_Timeout resolved = 0 then resolved\<lparr>ro_Timeout := ycl_requestTimeout client\<rparr> else resolved))"

text \<open>The rendered URL, and the request with the raw query of its URL.\<close>

definition bybit_requestURL :: "'w bybit_Client \<Rightarrow> string \<Rightarrow> url_Values \<Rightarrow> string" where
  "bybit_requestURL client path query =
     ycl_baseURL client @ path @ (let q = Values_Encode query in if q = [] then [] else CHR ''?'' # q)"

definition bybit_newRequest ::
  "bybit_lib \<Rightarrow> 'w bybit_Client \<Rightarrow> string \<Rightarrow> string \<Rightarrow> url_Values \<Rightarrow> string \<Rightarrow> (http_Request \<times> string) result" where
  "bybit_newRequest lib client verb path query body =
     (case bl_ParseURL lib (bybit_requestURL client path query) of
        Inl err \<Rightarrow> Inl (Errorf ''create Bybit request: %w'' [] [err])
      | Inr u \<Rightarrow>
          Inr (\<lparr>rq_Context = Background, rq_Method = verb, rq_URL = Some (bybit_requestURL client path query, ul_Path u),
                rq_Header = [(''Accept'', ''application/json''), (''Content-Type'', ''application/json''),
                             (''User-Agent'', ''cex-sdk-go/0'')], rq_Body = body\<rparr>, ul_RawQuery u))"

definition signaturePayload :: "string \<Rightarrow> string \<Rightarrow> int \<Rightarrow> string \<Rightarrow> string" where
  "signaturePayload timestamp apiKey receiveWindow content = timestamp @ apiKey @ int_str receiveWindow @ content"

definition bybit_SignHMACSHA256 :: "(string \<Rightarrow> string \<Rightarrow> string) \<Rightarrow> string \<Rightarrow> string \<Rightarrow> string result" where
  "bybit_SignHMACSHA256 hmac secret payload =
     (if secret = [] then Inl (errorText ''Bybit HMAC secret is required'')
      else Inr (hex_EncodeToString (hmac secret payload)))"

definition bybit_authError :: "ErrorCategory \<Rightarrow> string \<Rightarrow> go_error \<Rightarrow> go_error" where
  "bybit_authError category accountID cause =
     ErrAPI (APIError category ExchangeBybit accountID [] False 0 [] [] (Some cause))"

text \<open>The builder of a signed request.\<close>

definition bybit_signed_build ::
  "bybit_lib \<Rightarrow> 'w bybit_Client \<Rightarrow> Descriptor \<Rightarrow> 'w key_Provider \<Rightarrow> string \<Rightarrow> string \<Rightarrow> url_Values \<Rightarrow> string \<Rightarrow>
   ('w \<times> call_memory) BuildRequest" where
  "bybit_signed_build lib client d provider verb path query body ctx = (\<lambda>(w, m).
     case provider ctx (de_SecretRef d) (w, bm_heap m) of ((material, resolveErr), w, h) \<Rightarrow>
       let m = m\<lparr>bm_heap := h, bm_material := material\<rparr>
       in case resolveErr of
            Some err \<Rightarrow> (Inl (bybit_authError ErrorAuthentication (de_AccountID d) err), w, m)
          | None \<Rightarrow>
              if sl_len (mt_APIKey material) = 0 \<or> sl_len (mt_SecretKey material) = 0
              then (Inl (bybit_authError ErrorAuthentication (de_AccountID d)
                      (errorText ''Bybit API key and HMAC secret are required'')), w, m)
              else case bybit_newRequest lib client verb path query body of
                     Inl err \<Rightarrow> (Inl err, w, m)
                   | Inr (request, rawQuery) \<Rightarrow>
                       let timestamp = int_str (wrap64 (UnixMilli (ycl_now client w) + bm_offset m));
                           content = (if verb = ''GET'' then rawQuery else body);
                           apiKey = slice_string h (mt_APIKey material)
                       in case bybit_SignHMACSHA256 (bl_HMAC lib) (slice_string h (mt_SecretKey material))
                                 (signaturePayload timestamp apiKey (ycl_receiveWindowMillis client) content) of
                            Inl err \<Rightarrow> (Inl err, w, m)
                          | Inr signature \<Rightarrow>
                              (Inr (Some (request\<lparr>rq_Header := rq_Header request @
                                 [(''X-Bapi-Api-Key'', apiKey), (''X-Bapi-Timestamp'', timestamp),
                                  (''X-Bapi-Recv-Window'', int_str (ycl_receiveWindowMillis client)),
                                  (''X-Bapi-Sign'', signature)]\<rparr>)), w, m))"

definition bybit_public_build ::
  "bybit_lib \<Rightarrow> 'w bybit_Client \<Rightarrow> string \<Rightarrow> string \<Rightarrow> url_Values \<Rightarrow> ('w \<times> call_memory \<Rightarrow> 'w \<times> call_memory) option \<Rightarrow>
   ('w \<times> call_memory) BuildRequest" where
  "bybit_public_build lib client verb path query beforeBuild ctx s =
     (let s = (case beforeBuild of Some f \<Rightarrow> f s | None \<Rightarrow> s)
      in case bybit_newRequest lib client verb path query [] of
           Inl err \<Rightarrow> (Inl err, s)
         | Inr (request, rawQuery) \<Rightarrow> (Inr (Some request), s))"

definition bybit_execution ::
  "string \<Rightarrow> RequestOptions \<Rightarrow> Charge list \<Rightarrow> OperationKind \<Rightarrow> ('w \<times> call_memory) BuildRequest \<Rightarrow>
   ('w \<times> call_memory) Execution" where
  "bybit_execution accountID resolved charges operation build =
     \<lparr>ex_Exchange = ExchangeBybit, ex_EndpointID = [], ex_AccountID = accountID,
      ex_EgressRouteID = ro_EgressRouteID resolved, ex_Timeout = ro_Timeout resolved, ex_Charges = charges,
      ex_Operation = operation, ex_Build = Some build\<rparr>"

definition bybit_executePublic ::
  "bybit_lib \<Rightarrow> 'w bybit_Client \<Rightarrow> go_context option \<Rightarrow> string \<Rightarrow> string \<Rightarrow> url_Values \<Rightarrow> bybit_endpointLimit \<Rightarrow>
   ('w \<times> call_memory \<Rightarrow> 'w \<times> call_memory) option \<Rightarrow> RequestOption option list \<Rightarrow> 'w \<times> call_memory \<Rightarrow>
   Response result \<times> 'w \<times> call_memory" where
  "bybit_executePublic lib client ctx verb path query limit beforeBuild options = (\<lambda>(w, m).
     case bybit_resolveOptions client options of
       Inl err \<Rightarrow> (Inl err, w, m)
     | Inr resolved \<Rightarrow>
         (case rateLimitCharges (ycl_executor client) (ro_EgressRouteID resolved) [] path limit w of
            (Inl err, w) \<Rightarrow> (Inl err, w, m)
          | (Inr charges, w) \<Rightarrow>
              (case rest_Execute (ycl_executor client) ctx
                      (bybit_execution [] resolved charges OperationRead
                         (bybit_public_build lib client verb path query beforeBuild)) (w, m) of
                 (response, Some err, w, m) \<Rightarrow> (Inl err, w, m)
               | (response, None, w, m) \<Rightarrow>
                   (Inr response,
                    observeRemaining (ycl_executor client) ''route'' (ro_EgressRouteID resolved) path limit (re_Header response) w, m))))"

definition bybit_executeSigned ::
  "bybit_lib \<Rightarrow> 'w bybit_Client \<Rightarrow> go_context option \<Rightarrow> string \<Rightarrow> string \<Rightarrow> url_Values \<Rightarrow> string \<Rightarrow> bybit_endpointLimit \<Rightarrow>
   Permission \<Rightarrow> OperationKind \<Rightarrow> RequestOption option list \<Rightarrow> 'w \<times> call_memory \<Rightarrow>
   Response result \<times> 'w \<times> call_memory" where
  "bybit_executeSigned lib client ctx verb path query body limit permission operation options = (\<lambda>(w, m).
     case bybit_resolveOptions client options of
       Inl err \<Rightarrow> (Inl err, w, m)
     | Inr resolved \<Rightarrow>
         (case (ycl_credentials client, ycl_credentialProvider client) of
            (Some d, Some provider) \<Rightarrow>
              (case RequireEgressRoute d (ro_EgressRouteID resolved) of
                 Some err \<Rightarrow> (Inl (bybit_authError ErrorAuthorization (de_AccountID d) err), w, m)
               | None \<Rightarrow>
                   (case RequirePermission d permission of
                      Some err \<Rightarrow> (Inl (bybit_authError ErrorAuthorization (de_AccountID d) err), w, m)
                    | None \<Rightarrow>
                        (case rateLimitCharges (ycl_executor client) (ro_EgressRouteID resolved) (de_AccountID d) path limit w of
                           (Inl err, w) \<Rightarrow> (Inl err, w, m)
                         | (Inr charges, w) \<Rightarrow>
                             (case rest_Execute (ycl_executor client) ctx
                                     (bybit_execution (de_AccountID d) resolved charges operation
                                        (bybit_signed_build lib client d provider verb path query body))
                                     (w, m\<lparr>bm_material := zeroMaterial\<rparr>) of
                                (response, Some err, w, m) \<Rightarrow> (Inl err, w, key_destroy m)
                              | (response, None, w, m) \<Rightarrow>
                                  (Inr response,
                                   observeRemaining (ycl_executor client) ''account'' (de_AccountID d) path limit
                                     (re_Header response) w, key_destroy m)))))
          | _ \<Rightarrow> (Inl (bybit_authError ErrorAuthentication [] (errorText ''private Bybit request requires credentials'')), w, m)))"

section \<open>Responses\<close>

text \<open>\<open>strings.ToLower\<close> and \<open>strings.Contains\<close> as \<open>classifyError\<close> uses them: no non-ASCII letter has a lower case
  among the letters of the phrase it looks for.\<close>

definition ToLower_ascii :: "string \<Rightarrow> string" where
  "ToLower_ascii s = map (\<lambda>c. if 65 \<le> (of_char c :: nat) \<and> (of_char c :: nat) \<le> 90 then char_of (of_char c + 32 :: nat) else c) s"

fun str_contains :: "string \<Rightarrow> string \<Rightarrow> bool" where
  "str_contains sub [] = (sub = [])"
| "str_contains sub (c # rest) = (take (length sub) (c # rest) = sub \<or> str_contains sub rest)"

definition bybit_classifyError :: "int \<Rightarrow> string \<Rightarrow> string \<Rightarrow> OperationKind \<Rightarrow> ErrorCategory \<times> bool" where
  "bybit_classifyError status code message operation =
     (if status = 429 \<or> code = ''10006'' \<or> (status = 403 \<and> str_contains ''too frequent'' (ToLower_ascii message))
      then (ErrorRateLimited, True)
      else if code \<in> set [''10003'', ''10004'', ''33004''] then (ErrorAuthentication, False)
      else if code = ''10005'' then (ErrorAuthorization, False)
      else if code = ''110001'' then (ErrorOrderNotFound, False)
      else if code \<in> set [''110004'', ''110007'', ''110012''] then (ErrorInsufficientBalance, False)
      else if code \<in> set [''10000'', ''10016'']
      then (if operation = OperationMutation then (ErrorUnknownExecutionState, False) else (ErrorExchangeUnavailable, True))
      else if 500 \<le> status
      then (if operation = OperationMutation then (ErrorUnknownExecutionState, False) else (ErrorExchangeUnavailable, True))
      else if status = 401 then (ErrorAuthentication, False)
      else if status = 403 then (ErrorAuthorization, False)
      else if (400 \<le> status \<and> status < 500) \<or> code \<noteq> [] then (ErrorValidation, False)
      else (ErrorInternal, False))"

definition bybit_accountID :: "'w bybit_Client \<Rightarrow> string" where
  "bybit_accountID client = (case ycl_credentials client of Some d \<Rightarrow> de_AccountID d | None \<Rightarrow> [])"

definition bybit_decodeError ::
  "'w bybit_Client \<Rightarrow> Response \<Rightarrow> string \<Rightarrow> string \<Rightarrow> OperationKind \<Rightarrow> go_error option \<Rightarrow> go_error" where
  "bybit_decodeError client response code message operation cause =
     (let code = (if code = ''0'' then [] else code);
          (category, retryable) = bybit_classifyError (re_StatusCode response) code message operation
      in ErrAPI (APIError category ExchangeBybit (bybit_accountID client)
           (firstNonEmpty [header_get (re_Header response) ''Traceid'', header_get (re_Header response) ''X-Request-Id''])
           retryable (re_StatusCode response) code message cause))"

definition bybit_decodeBodyError :: "'w bybit_Client \<Rightarrow> Response \<Rightarrow> OperationKind \<Rightarrow> go_error \<Rightarrow> go_error" where
  "bybit_decodeBodyError client response operation cause =
     (let (category, retryable) = bybit_classifyError (re_StatusCode response) [] (re_Body response) operation;
          (category, retryable) =
            (if category = ErrorInternal
             then if operation = OperationMutation then (ErrorUnknownExecutionState, False)
                  else (ErrorExchangeUnavailable, operation = OperationRead)
             else (category, retryable))
      in ErrAPI (APIError category ExchangeBybit (bybit_accountID client) [] retryable (re_StatusCode response) [] []
           (Some (Errorf ''decode Bybit JSON response: %w'' [] [cause]))))"

text \<open>The raw result of the envelope and its time.\<close>

definition bybit_responseResult ::
  "bybit_lib \<Rightarrow> 'w bybit_Client \<Rightarrow> Response \<Rightarrow> OperationKind \<Rightarrow> (string \<times> int) result" where
  "bybit_responseResult lib client response operation =
     (case bl_Envelope lib (re_Body response) of
        Inl err \<Rightarrow> Inl (bybit_decodeBodyError client response operation err)
      | Inr (returnCode, returnMessage, res, time) \<Rightarrow>
          if re_StatusCode response < 200 \<or> 300 \<le> re_StatusCode response \<or> returnCode \<noteq> 0
          then Inl (bybit_decodeError client response (int_str returnCode) returnMessage operation None)
          else Inr (res, time))"

definition bybit_decodeResult :: "(string \<Rightarrow> 'a result) \<Rightarrow> string \<Rightarrow> 'a result" where
  "bybit_decodeResult Unmarshal raw =
     (case Unmarshal raw of
        Inl err \<Rightarrow> Inl (Errorf ''decode Bybit response result: %w'' [] [err])
      | Inr val \<Rightarrow> Inr val)"

section \<open>What a signed request is\<close>

definition bybit_signed_request ::
  "bybit_lib \<Rightarrow> 'w bybit_Client \<Rightarrow> Descriptor \<Rightarrow> 'w key_Provider \<Rightarrow> string \<Rightarrow> string \<Rightarrow> url_Values \<Rightarrow> string \<Rightarrow>
   http_Request \<Rightarrow> bool" where
  "bybit_signed_request lib client d p verb path query body rq \<longleftrightarrow>
     rq_Method rq = verb \<and> rq_Body rq = body \<and>
     (\<exists>u m0 material h t. bl_ParseURL lib (bybit_requestURL client path query) = Inr u \<and>
        rq_URL rq = Some (bybit_requestURL client path query, ul_Path u) \<and>
        key_resolved d p m0 material h \<and>
        slice_string h (mt_APIKey material) \<noteq> [] \<and> slice_string h (mt_SecretKey material) \<noteq> [] \<and>
        header_get (rq_Header rq) ''X-Bapi-Api-Key'' = slice_string h (mt_APIKey material) \<and>
        header_get (rq_Header rq) ''X-Bapi-Timestamp'' = int_str t \<and>
        header_get (rq_Header rq) ''X-Bapi-Recv-Window'' = int_str (ycl_receiveWindowMillis client) \<and>
        header_get (rq_Header rq) ''X-Bapi-Sign'' =
          hex_EncodeToString (bl_HMAC lib (slice_string h (mt_SecretKey material))
            (int_str t @ slice_string h (mt_APIKey material) @ int_str (ycl_receiveWindowMillis client) @
             (if verb = ''GET'' then ul_RawQuery u else body))))"

text \<open>The builder either reports an error or gives a signed request; it leaves the material it resolved.\<close>

lemma bybit_signed_build_result:
  assumes "bybit_signed_build lib client d p verb path query body ctx (w, m) = (r, w', m')"
  shows "key_left d p m m' \<and>
     (case r of Inl err \<Rightarrow> True | Inr None \<Rightarrow> False
      | Inr (Some rq) \<Rightarrow> bybit_signed_request lib client d p verb path query body rq)"
proof -
  obtain material err w1 h where p: "p ctx (de_SecretRef d) (w, bm_heap m) = ((material, err), w1, h)"
    by (cases "p ctx (de_SecretRef d) (w, bm_heap m)") auto
  then have res: "key_resolved d p m material h" unfolding key_resolved_def by blast
  have keys: "sl_len s = length (slice_string h s)" for s by (simp add: slice_string_def)
  consider (failed) e where "r = Inl e" "m' = m\<lparr>bm_heap := h, bm_material := material\<rparr>"
    | (made) request rawQuery t where "sl_len (mt_APIKey material) \<noteq> 0" "sl_len (mt_SecretKey material) \<noteq> 0"
        "bybit_newRequest lib client verb path query body = Inr (request, rawQuery)"
        "r = Inr (Some (request\<lparr>rq_Header := rq_Header request @
           [(''X-Bapi-Api-Key'', slice_string h (mt_APIKey material)), (''X-Bapi-Timestamp'', int_str t),
            (''X-Bapi-Recv-Window'', int_str (ycl_receiveWindowMillis client)),
            (''X-Bapi-Sign'', hex_EncodeToString (bl_HMAC lib (slice_string h (mt_SecretKey material))
               (signaturePayload (int_str t) (slice_string h (mt_APIKey material)) (ycl_receiveWindowMillis client)
                 (if verb = ''GET'' then rawQuery else body))))]\<rparr>))"
        "m' = m\<lparr>bm_heap := h, bm_material := material\<rparr>"
    using assms p
    by (auto simp: bybit_signed_build_def bybit_SignHMACSHA256_def Let_def split: option.splits sum.splits if_splits)
  then show ?thesis
  proof cases
    case failed
    with res show ?thesis unfolding key_left_def by auto
  next
    case made
    have keys_nonempty: "slice_string h (mt_APIKey material) \<noteq> []" "slice_string h (mt_SecretKey material) \<noteq> []"
      using made(1,2) keys by auto
    obtain u where u: "bl_ParseURL lib (bybit_requestURL client path query) = Inr u" "rawQuery = ul_RawQuery u"
      "request = \<lparr>rq_Context = Background, rq_Method = verb, rq_URL = Some (bybit_requestURL client path query, ul_Path u),
         rq_Header = [(''Accept'', ''application/json''), (''Content-Type'', ''application/json''),
           (''User-Agent'', ''cex-sdk-go/0'')], rq_Body = body\<rparr>"
      using made(3) by (auto simp: bybit_newRequest_def split: sum.splits)
    have "bybit_signed_request lib client d p verb path query body (request\<lparr>rq_Header := rq_Header request @
           [(''X-Bapi-Api-Key'', slice_string h (mt_APIKey material)), (''X-Bapi-Timestamp'', int_str t),
            (''X-Bapi-Recv-Window'', int_str (ycl_receiveWindowMillis client)),
            (''X-Bapi-Sign'', hex_EncodeToString (bl_HMAC lib (slice_string h (mt_SecretKey material))
               (signaturePayload (int_str t) (slice_string h (mt_APIKey material)) (ycl_receiveWindowMillis client)
                 (if verb = ''GET'' then rawQuery else body))))]\<rparr>)"
      unfolding bybit_signed_request_def
      by (intro conjI exI [of _ u] exI [of _ m] exI [of _ material] exI [of _ h] exI [of _ t])
         (use u res keys_nonempty in \<open>simp_all add: header_get_def signaturePayload_def\<close>)
    with made(4,5) res show ?thesis unfolding key_left_def by auto
  qed
qed

section \<open>Recording what a call transmits\<close>

definition traced_client :: "'w bybit_Client \<Rightarrow> ('w \<times> exec_event list) bybit_Client" where
  "traced_client c =
     \<lparr>ycl_executor = traced_rest_executor (ycl_executor c), ycl_credentials = ycl_credentials c,
      ycl_credentialProvider = map_option traced_provider (ycl_credentialProvider c),
      ycl_defaultEgressRouteID = ycl_defaultEgressRouteID c, ycl_baseURL = ycl_baseURL c,
      ycl_requestTimeout = ycl_requestTimeout c, ycl_receiveWindowMillis = ycl_receiveWindowMillis c,
      ycl_now = (\<lambda>(w, evs). ycl_now c w)\<rparr>"

lemma traced_client_fields [simp]:
  "ycl_executor (traced_client c) = traced_rest_executor (ycl_executor c)"
  "ycl_credentials (traced_client c) = ycl_credentials c"
  "ycl_credentialProvider (traced_client c) = map_option traced_provider (ycl_credentialProvider c)"
  "ycl_defaultEgressRouteID (traced_client c) = ycl_defaultEgressRouteID c"
  "ycl_baseURL (traced_client c) = ycl_baseURL c"
  "ycl_requestTimeout (traced_client c) = ycl_requestTimeout c"
  "ycl_receiveWindowMillis (traced_client c) = ycl_receiveWindowMillis c"
  "rx_runtime (traced_rest_executor ex) = traced_runtime (rx_runtime ex)"
  "rx_executor (traced_rest_executor ex) = traced_executor (rx_executor ex)"
  by (simp_all add: traced_client_def traced_rest_executor_def)

lemma traced_client_simps [simp]:
  "bybit_resolveOptions (traced_client c) = bybit_resolveOptions c"
  "bybit_requestURL (traced_client c) = bybit_requestURL c"
  by (simp_all add: bybit_resolveOptions_def bybit_requestURL_def fun_eq_iff split: sum.split)

lemma traced_signed_request:
  "bybit_signed_request lib (traced_client c) d (traced_provider p) verb path query body rq \<longleftrightarrow>
     bybit_signed_request lib c d p verb path query body rq"
  by (simp add: bybit_signed_request_def traced_resolved)

lemma traced_rateLimitCharges:
  "rateLimitCharges (traced_rest_executor ex) r a path limit (w, evs) = (res, w') \<Longrightarrow> \<exists>v. w' = (v, evs)"
  by (auto simp: rateLimitCharges_def traced_rest_executor_def lift_step_def Let_def split: prod.splits option.splits if_splits)

lemma traced_observeRemaining:
  "\<exists>v. observeRemaining (traced_rest_executor ex) scope sid path limit hs (w, evs) = (v, evs)"
  by (auto simp: observeRemaining_def traced_rest_executor_def lift_step_def split: prod.splits option.splits)

lemma traced_signed_build_events:
  "bybit_signed_build lib (traced_client c) d (traced_provider p) verb path query body ctx ((w, evs), m) = (r, w', m') \<Longrightarrow>
     \<exists>v. w' = (v, evs)"
  by (auto simp: bybit_signed_build_def traced_provider_def Let_def split: prod.splits option.splits sum.splits if_splits)

text \<open>The builder meets the contract of \<open>signed_builder\<close>.\<close>

interpretation bybit_signing: signed_builder
  "bybit_signed_build lib (traced_client c) d (traced_provider p) verb path query body"
  "bybit_signed_request lib c d p verb path query body" "key_left d p"
  for lib and c :: "'w bybit_Client" and d p verb path query body
proof (unfold_locales, goal_cases)
  case (1 ctx w evs m r w' m')
  from bybit_signed_build_result [OF 1, unfolded traced_left traced_signed_request] traced_signed_build_events [OF 1]
  show ?case by blast
qed

section \<open>Signed calls\<close>

text \<open>A call that does not reach the executor sends nothing; otherwise it runs the execution of the builder.\<close>

lemma bybit_executeSigned_cases:
  assumes "bybit_executeSigned lib (traced_client client) ctx verb path query body limit permission operation options
      ((w, evs), m) = (res, (w', m'))"
  obtains (refused) err v where "res = Inl err" "w' = (v, evs)" "m' = m"
  | (run) d p resolved charges v response err w1 m1 where
      "ycl_credentials client = Some d" "ycl_credentialProvider client = Some p"
      "bybit_resolveOptions client options = Inr resolved"
      "AllowsEgressRoute d (ro_EgressRouteID resolved)" "AllowsPermission d permission"
      "rest_Execute (traced_rest_executor (ycl_executor client)) ctx (bybit_execution (de_AccountID d) resolved charges operation
         (bybit_signed_build lib (traced_client client) d (traced_provider p) verb path query body))
         ((v, evs), m\<lparr>bm_material := zeroMaterial\<rparr>) = (response, err, w1, m1)"
      "m' = key_destroy m1" "snd w' = snd w1" "res = (case err of Some e \<Rightarrow> Inl e | None \<Rightarrow> Inr response)"
proof (cases "bybit_resolveOptions client options")
  case (Inl err)
  show thesis by (rule refused [of err w]) (use assms Inl in \<open>auto simp: bybit_executeSigned_def\<close>)
next
  case (Inr resolved)
  show thesis
  proof (cases "\<exists>d p. ycl_credentials client = Some d \<and> ycl_credentialProvider client = Some p")
    case False
    obtain err where "res = Inl err" "w' = (w, evs)" "m' = m"
      using assms Inr False by (auto simp: bybit_executeSigned_def split: option.splits)
    then show thesis by (rule refused)
  next
    case True
    then obtain d p where dp: "ycl_credentials client = Some d" "ycl_credentialProvider client = Some p" by blast
    obtain res1 w1 where charges: "rateLimitCharges (traced_rest_executor (ycl_executor client)) (ro_EgressRouteID resolved)
        (de_AccountID d) path limit (w, evs) = (res1, w1)" by (rule prod.exhaust)
    from traced_rateLimitCharges [OF this] obtain v where v: "w1 = (v, evs)" by blast
    show thesis
    proof (cases "AllowsEgressRoute d (ro_EgressRouteID resolved) \<and> AllowsPermission d permission \<and> (\<exists>cs. res1 = Inr cs)")
      case False
      then obtain err v where "res = Inl err" "w' = (v, evs)" "m' = m"
        using assms Inr dp charges v
        by (auto simp: bybit_executeSigned_def RequireEgressRoute_def RequirePermission_def split: if_splits sum.splits)
      then show thesis by (rule refused)
    next
      case True
      then obtain cs where cs: "res1 = Inr cs" by blast
      let ?e = "bybit_execution (de_AccountID d) resolved cs operation
         (bybit_signed_build lib (traced_client client) d (traced_provider p) verb path query body)"
      obtain response err w2 m2 where ex: "rest_Execute (traced_rest_executor (ycl_executor client)) ctx ?e
          ((v, evs), m\<lparr>bm_material := zeroMaterial\<rparr>) = (response, err, w2, m2)"
        by (cases "rest_Execute (traced_rest_executor (ycl_executor client)) ctx ?e ((v, evs), m\<lparr>bm_material := zeroMaterial\<rparr>)") auto
      have run': "bybit_executeSigned lib (traced_client client) ctx verb path query body limit permission operation options
          ((w, evs), m) = (case err of
             Some e \<Rightarrow> (Inl e, w2, key_destroy m2)
           | None \<Rightarrow> (Inr response, observeRemaining (traced_rest_executor (ycl_executor client)) ''account''
               (de_AccountID d) path limit (re_Header response) w2, key_destroy m2))"
        using Inr dp charges v True cs ex
        by (simp add: bybit_executeSigned_def RequireEgressRoute_def RequirePermission_def split: option.split)
      obtain v2 evs2 where w2: "w2 = (v2, evs2)" by (cases w2)
      obtain v3 where "observeRemaining (traced_rest_executor (ycl_executor client)) ''account''
               (de_AccountID d) path limit (re_Header response) w2 = (v3, evs2)"
        using traced_observeRemaining [of "ycl_executor client" "''account''" "de_AccountID d" path limit
          "re_Header response" v2 evs2] w2 by auto
      with run' assms w2 have "res = (case err of Some e \<Rightarrow> Inl e | None \<Rightarrow> Inr response)" "snd w' = snd w2" "m' = key_destroy m2"
        by (auto split: option.splits)
      with True dp Inr ex show thesis by (intro run) auto
    qed
  qed
qed

text \<open>The call meets the contract of \<open>signed_call\<close>.\<close>

interpretation bybit_calls: signed_call
  "\<lambda>operation. bybit_executeSigned lib (traced_client client) ctx verb path query body limit permission operation options"
  "ycl_credentials client" "ycl_credentialProvider client" "bybit_resolveOptions client options" permission
  "\<lambda>d p. bybit_signed_request lib client d p verb path query body"
  for lib and client :: "'w bybit_Client" and ctx verb path query body limit permission options
proof (unfold_locales, goal_cases)
  case (1 operation w evs m res w' m')
  then show ?case
  proof (cases rule: bybit_executeSigned_cases)
    case (run d p resolved charges v response err w1 m1)
    have "signed_run (bybit_signed_request lib client d p verb path query body) (key_left d p) (ro_EgressRouteID resolved)
        operation ((v, evs), m\<lparr>bm_material := zeroMaterial\<rparr>) response err (w1, m1)"
      unfolding signed_run_def using run(6) [unfolded traced_client_fields traced_rest_executor_fields]
      by (intro exI conjI) (rule bybit_signing.signed_builder_axioms, auto simp: bybit_execution_def)
    with run show ?thesis by blast
  qed blast
qed

lemmas bybit_executeSigned_sends = bybit_calls.sends
lemmas bybit_mutation_run = bybit_calls.mutation_run

section \<open>Properties\<close>

text \<open>C13. Every request that a signed call of the Bybit client hands to the sender, on the first attempt or a
  retry, goes over the route the options resolve to, which the credentials allow together with the
  permission of the call, and its signature is the HMAC, under the secret the provider gave for these
  credentials, of exactly the timestamp, key and receive window in its headers followed by its own query
  string or body.\<close>

theorem bybit_requests_signed:
  assumes "bybit_executeSigned lib (traced_client client) ctx verb path query body limit permission operation options
      ((w, []), m) = (res, ((w', evs), m'))" "(r, rq) \<in> set (sent evs)"
  shows "\<exists>d p resolved. ycl_credentials client = Some d \<and> ycl_credentialProvider client = Some p \<and>
     bybit_resolveOptions client options = Inr resolved \<and> r = ro_EgressRouteID resolved \<and>
     r \<in> set (de_AllowedEgressRouteIDs d) \<and> permission \<in> set (de_Permissions d) \<and>
     bybit_signed_request lib client d p verb path query body rq"
  by (rule bybit_calls.requests_signed [OF assms])

text \<open>C17. When a mutation returns, whatever happened to it, the key material it asked the provider for is erased:
  every byte of memory that a slice of that material reaches is zero, and no other byte differs from what
  the provider left.\<close>

theorem bybit_mutation_erases_keys:
  assumes "bybit_executeSigned lib (traced_client client) ctx verb path query body limit permission OperationMutation options
      ((w, []), m) = (res, ((w', evs), m'))"
  shows "bm_heap m' = bm_heap m \<or> (\<exists>d p material h. ycl_credentials client = Some d \<and> ycl_credentialProvider client = Some p \<and>
     key_resolved d p m material h \<and>
     (\<forall>a j. j < length (h a) \<longrightarrow> bm_heap m' a ! j =
        (if \<exists>s \<in> {mt_APIKey material, mt_SecretKey material, mt_Passphrase material} \<union> snd ` set (mt_Extra material). covers s a j
         then 0 else h a ! j)))"
  by (rule bybit_calls.mutation_erases [OF assms])

text \<open>A small instance: the sender answers 503 once and then 200, the provider hands out a fresh array each time.\<close>

definition bybit_demo_lib :: bybit_lib where
  "bybit_demo_lib = \<lparr>bl_ParseURL = (\<lambda>s. Inr \<lparr>ul_Scheme = ''https'', ul_Host = ''h'', ul_Path = ''/p'', ul_User = False,
       ul_RawQuery = ''q=1'', ul_Fragment = []\<rparr>),
     bl_HMAC = (\<lambda>secret payload. secret), bl_Envelope = (\<lambda>body. Inr (0, [], body, 1))\<rparr>"

definition bybit_demo_executor :: "nat rest_executor" where
  "bybit_demo_executor =
     \<lparr>rx_runtime = demo_runtime,
      rx_executor = (demo_executor 10)\<lparr>xe_sender := (\<lambda>c r rq w.
        (Inr (if w = 0 then demo_reply\<lparr>rs_StatusCode := 503\<rparr> else demo_reply), Suc w))\<rparr>,
      rx_SetRule = (\<lambda>rule w. (None, w)), rx_ObserveUsed = (\<lambda>key n w. (None, w))\<rparr>"

definition bybit_demo_material :: "nat \<Rightarrow> Material" where
  "bybit_demo_material a =
     \<lparr>mt_APIKey = \<lparr>sl_array = a, sl_offset = 0, sl_len = 1\<rparr>, mt_SecretKey = \<lparr>sl_array = a, sl_offset = 1, sl_len = 1\<rparr>,
      mt_Passphrase = zeroSlice, mt_Extra = []\<rparr>"

definition bybit_demo_client :: "nat bybit_Client" where
  "bybit_demo_client =
     \<lparr>ycl_executor = bybit_demo_executor,
      ycl_credentials = Some \<lparr>de_AccountID = ''a'', de_Exchange = ''bybit'', de_SecretRef = ''s'',
        de_Permissions = [''read'', ''trade''], de_AllowedEgressRouteIDs = [''r'']\<rparr>,
      ycl_credentialProvider = Some (\<lambda>c ref (w, h). ((bybit_demo_material w, None), w, h(w := [7, 9]))),
      ycl_defaultEgressRouteID = ''r'', ycl_baseURL = ''https://h'', ycl_requestTimeout = second,
      ycl_receiveWindowMillis = 5, ycl_now = (\<lambda>w. 3000000)\<rparr>"

definition bybit_demo_memory :: call_memory where
  "bybit_demo_memory = \<lparr>bm_heap = (\<lambda>a. []), bm_offset = 0, bm_material = zeroMaterial, bm_startedAt = 0\<rparr>"

lemma bybit_demo_facts:
  "TrimSpace ''bybit'' = ''bybit''" "TrimSpace ''r'' = ''r''" "TrimSpace ''a'' = ''a''"
  "Atoi [] = None" "wrap64 11 = 11" "wrap64 3 = 3" "int_str 3 = ''3''" "int_str 5 = ''5''"
  "read_limited 11 (demo_reply\<lparr>rs_StatusCode := code\<rparr>) = Inr ''ok''" "read_limited 11 demo_reply = Inr ''ok''"
  by (code_simp, code_simp, code_simp, code_simp, simp add: wrap64_def, simp add: wrap64_def, code_simp, code_simp,
      simp_all add: read_limited_def demo_reply_def)

lemma bybit_demo_charges:
  "\<exists>cs. rateLimitCharges (traced_rest_executor bybit_demo_executor) ''r'' ''a'' path (accountLimit n) s = (Inr cs, s)"
  by (cases s) (simp add: rateLimitCharges_def accountLimit_def traced_rest_executor_def bybit_demo_executor_def lift_step_def
      Let_def bybit_demo_facts)

lemmas bybit_demo_defs = bybit_demo_client_def bybit_demo_executor_def bybit_demo_lib_def bybit_demo_memory_def
  bybit_demo_material_def demo_executor_def demo_runtime_def

abbreviation bybit_demo_provider :: "nat key_Provider" where
  "bybit_demo_provider \<equiv> (\<lambda>c ref (w, h). ((bybit_demo_material w, None), w, h(w := [7, 9])))"

abbreviation bybit_demo_builder where
  "bybit_demo_builder d \<equiv>
     bybit_signed_build bybit_demo_lib (traced_client bybit_demo_client) d (traced_provider bybit_demo_provider)"

lemma bybit_demo_build:
  "\<exists>rq. bybit_demo_builder d verb path query body ctx ((w, evs), m) =
     (Inr (Some rq), (w, evs), m\<lparr>bm_heap := (bm_heap m)(w := [7, 9]), bm_material := bybit_demo_material w\<rparr>)"
  by (simp add: bybit_signed_build_def traced_provider_def bybit_demo_material_def bybit_newRequest_def bybit_SignHMACSHA256_def
     bybit_demo_lib_def slice_string_def Let_def slice_get_def)

text \<open>One attempt: it is granted, built and sent, and a read is retried after the 503.\<close>

lemma bybit_demo_attempt:
  "\<exists>rq response. executeAttempt (lift_runtime (traced_runtime demo_runtime)) (lift_executor (traced_executor (rx_executor bybit_demo_executor)))
     rc (bybit_execution ''a'' resolved cs operation b) (bybit_demo_builder d verb path query body) a ((w, evs), m) =
   (response, operation = OperationRead \<and> w = 0, None,
    (Suc w, evs @ [EvWait True, EvSend (ro_EgressRouteID resolved) rq]),
    m\<lparr>bm_heap := (bm_heap m)(w := [7, 9]), bm_material := bybit_demo_material w\<rparr>) \<and> re_Header response = []"
proof -
  obtain rq where rq: "bybit_demo_builder d verb path query body rc ((w, evs @ [EvWait True]), m) =
     (Inr (Some rq), (w, evs @ [EvWait True]), m\<lparr>bm_heap := (bm_heap m)(w := [7, 9]), bm_material := bybit_demo_material w\<rparr>)"
    using bybit_demo_build by blast
  show ?thesis
    by (cases "rq_URL rq")
       (auto simp: executeAttempt_def attempt_send_def attempt_response_def observe_def lift_defs trace_defs rq
         bybit_execution_def bybit_demo_executor_def demo_executor_def bybit_demo_facts retryableReadStatus_def Let_def
         demo_runtime_def demo_reply_def read_limited_def)
qed

lemma bybit_Execute_loop:
  assumes "operation = OperationRead \<or> operation = OperationMutation"
  shows "Execute rt x (Some c) (bybit_execution ''a'' \<lparr>ro_EgressRouteID = ''r'', ro_Timeout = second\<rparr> cs operation b) s =
     execute_loop rt x (WithTimeoutCtx c second) (bybit_execution ''a'' \<lparr>ro_EgressRouteID = ''r'', ro_Timeout = second\<rparr> cs operation b) b
       (if operation = OperationRead then rp_MaxAttempts (xe_readRetryPolicy x) else 1)
       (nat (if operation = OperationRead then rp_MaxAttempts (xe_readRetryPolicy x) else 1)) 1 s"
  using assms by (auto simp: Execute_def bybit_execution_def ExchangeID_Valid_def bybit_demo_facts maxAttempts_of_def Let_def)

lemma bybit_demo_signed:
  assumes "permission = PermissionRead \<or> permission = PermissionTrade"
  shows "\<exists>cs. bybit_executeSigned bybit_demo_lib (traced_client bybit_demo_client) (Some Background) verb path query body
      (accountLimit n) permission operation [] ((w, []), bybit_demo_memory) =
    (case Execute (lift_runtime (traced_runtime demo_runtime)) (lift_executor (traced_executor (rx_executor bybit_demo_executor)))
        (Some Background) (bybit_execution ''a'' \<lparr>ro_EgressRouteID = ''r'', ro_Timeout = second\<rparr> cs operation
          (bybit_demo_builder (the (ycl_credentials bybit_demo_client)) verb path query body)) ((w, []), bybit_demo_memory) of
       (response, Some err, w, m) \<Rightarrow> (Inl err, w, key_destroy m)
     | (response, None, w, m) \<Rightarrow>
         (Inr response, observeRemaining (traced_rest_executor bybit_demo_executor) ''account'' ''a'' path (accountLimit n) (re_Header response) w,
          key_destroy m))"
proof -
  obtain cs where cs: "rateLimitCharges (traced_rest_executor bybit_demo_executor) ''r'' ''a'' path (accountLimit n) (w, []) = (Inr cs, (w, []))"
    using bybit_demo_charges by blast
  have res: "bybit_resolveOptions bybit_demo_client [] = Inr \<lparr>ro_EgressRouteID = ''r'', ro_Timeout = second\<rparr>"
    by (simp add: bybit_resolveOptions_def ResolveRequestOptions_def bybit_demo_client_def bybit_demo_facts)
  have cl: "ycl_executor bybit_demo_client = bybit_demo_executor" "ycl_credentialProvider bybit_demo_client = Some bybit_demo_provider"
    "\<exists>d. ycl_credentials bybit_demo_client = Some d \<and> de_AccountID d = ''a'' \<and> AllowsEgressRoute d ''r'' \<and>
       AllowsPermission d PermissionRead \<and> AllowsPermission d PermissionTrade"
    by (simp_all add: bybit_demo_client_def AllowsEgressRoute_def AllowsPermission_def)
  have rt: "rx_runtime bybit_demo_executor = demo_runtime" "bybit_demo_memory\<lparr>bm_material := zeroMaterial\<rparr> = bybit_demo_memory"
    by (simp_all add: bybit_demo_executor_def bybit_demo_memory_def)
  show ?thesis
    by (rule exI [of _ cs], use cs res cl rt assms in
        \<open>auto simp: bybit_executeSigned_def RequireEgressRoute_def RequirePermission_def split: prod.split option.split\<close>)
qed

lemma bybit_demo_destroy:
  "m = m0\<lparr>bm_heap := h(a := [7, 9]), bm_material := bybit_demo_material a\<rparr> \<Longrightarrow>
     bm_heap (key_destroy m) a = [0, 0] \<and> (\<forall>b. b \<noteq> a \<longrightarrow> bm_heap (key_destroy m) b = h b)"
  by (auto simp: key_destroy_def bybit_demo_material_def Material_Destroy_def zero_slice_def slice_set_def)

lemma bybit_demo_observe:
  "observeRemaining (traced_rest_executor ex) scope sid path limit [] w = w"
  by (simp add: observeRemaining_def header_get_def bybit_demo_facts)

lemma bybit_demo_mutation:
  "\<exists>rq response m. bybit_executeSigned bybit_demo_lib (traced_client bybit_demo_client) (Some Background) ''POST'' path query body
      (accountLimit 10) PermissionTrade OperationMutation [] ((4, []), bybit_demo_memory) =
     (Inr response, ((5, [EvWait True, EvSend ''r'' rq]), m)) \<and> bm_heap m 4 = [0, 0]"
proof -
  obtain cs where run: "bybit_executeSigned bybit_demo_lib (traced_client bybit_demo_client) (Some Background) ''POST'' path query body
      (accountLimit 10) PermissionTrade OperationMutation [] ((4, []), bybit_demo_memory) =
    (case Execute (lift_runtime (traced_runtime demo_runtime)) (lift_executor (traced_executor (rx_executor bybit_demo_executor)))
        (Some Background) (bybit_execution ''a'' \<lparr>ro_EgressRouteID = ''r'', ro_Timeout = second\<rparr> cs OperationMutation
          (bybit_demo_builder (the (ycl_credentials bybit_demo_client)) ''POST'' path query body)) ((4, []), bybit_demo_memory) of
       (response, Some err, w, m) \<Rightarrow> (Inl err, w, key_destroy m)
     | (response, None, w, m) \<Rightarrow>
         (Inr response, observeRemaining (traced_rest_executor bybit_demo_executor) ''account'' ''a'' path (accountLimit 10) (re_Header response) w,
          key_destroy m))"
    using bybit_demo_signed [of PermissionTrade] by blast
  obtain rq response where att: "executeAttempt (lift_runtime (traced_runtime demo_runtime))
     (lift_executor (traced_executor (rx_executor bybit_demo_executor))) (WithTimeoutCtx Background second)
     (bybit_execution ''a'' \<lparr>ro_EgressRouteID = ''r'', ro_Timeout = second\<rparr> cs OperationMutation
        (bybit_demo_builder (the (ycl_credentials bybit_demo_client)) ''POST'' path query body))
     (bybit_demo_builder (the (ycl_credentials bybit_demo_client)) ''POST'' path query body) 1 ((4, []), bybit_demo_memory) =
   (response, False, None, (5, [EvWait True, EvSend ''r'' rq]),
    bybit_demo_memory\<lparr>bm_heap := (bm_heap bybit_demo_memory)(4 := [7, 9]), bm_material := bybit_demo_material 4\<rparr>)"
    and hdr: "re_Header response = []"
    using bybit_demo_attempt [of "WithTimeoutCtx Background second" "\<lparr>ro_EgressRouteID = ''r'', ro_Timeout = second\<rparr>" cs OperationMutation
      "bybit_demo_builder (the (ycl_credentials bybit_demo_client)) ''POST'' path query body" "the (ycl_credentials bybit_demo_client)"
      "''POST''" path query body 1 4 "[]" bybit_demo_memory] by auto
  show ?thesis
    by (simp add: run bybit_Execute_loop att hdr bybit_demo_observe bybit_demo_destroy)
qed




theorem bybit_requests_signed_witness:
  "\<exists>rq d p. bybit_signed_request bybit_demo_lib bybit_demo_client d p ''POST'' ''/p'' [] ''b'' rq \<and>
     PermissionTrade \<in> set (de_Permissions d)"
proof -
  obtain rq response m where run: "bybit_executeSigned bybit_demo_lib (traced_client bybit_demo_client) (Some Background) ''POST'' ''/p'' [] ''b''
      (accountLimit 10) PermissionTrade OperationMutation [] ((4, []), bybit_demo_memory) =
     (Inr response, ((5, [EvWait True, EvSend ''r'' rq]), m))"
    using bybit_demo_mutation [of "''/p''" "[]" "''b''"] by blast
  from bybit_requests_signed [OF this, of "''r''" rq] show ?thesis by auto
qed

theorem bybit_mutation_erases_keys_witness:
  "\<exists>(m :: call_memory) d (p :: nat key_Provider) material h. bm_heap m 4 = [0, 0] \<and> key_resolved d p bybit_demo_memory material h \<and>
     (\<forall>a j. j < length (h a) \<longrightarrow> bm_heap m a ! j =
        (if \<exists>s \<in> {mt_APIKey material, mt_SecretKey material, mt_Passphrase material} \<union> snd ` set (mt_Extra material). covers s a j
         then 0 else h a ! j))"
proof -
  obtain rq response m where run: "bybit_executeSigned bybit_demo_lib (traced_client bybit_demo_client) (Some Background) ''POST'' ''/p'' [] ''b''
      (accountLimit 10) PermissionTrade OperationMutation [] ((4, []), bybit_demo_memory) =
     (Inr response, ((5, [EvWait True, EvSend ''r'' rq]), m))" and m: "bm_heap m 4 = [0, 0]"
    using bybit_demo_mutation [of "''/p''" "[]" "''b''"] by blast
  have "bm_heap bybit_demo_memory 4 \<noteq> bm_heap m 4" using m by (simp add: bybit_demo_memory_def)
  then have "bm_heap m \<noteq> bm_heap bybit_demo_memory" by metis
  with bybit_mutation_erases_keys [OF run] m show ?thesis by blast
qed


text \<open>What \<open>New\<close> establishes of a client, which no operation changes.\<close>

definition bybit_client_ok :: "'w bybit_Client \<Rightarrow> bool" where
  "bybit_client_ok client \<longleftrightarrow>
     ycl_defaultEgressRouteID client \<noteq> [] \<and> TrimSpace (ycl_defaultEgressRouteID client) = ycl_defaultEgressRouteID client \<and>
     0 \<le> ycl_requestTimeout client \<and> 1 \<le> ycl_receiveWindowMillis client \<and> ycl_receiveWindowMillis client \<le> 60000 \<and>
     (case (ycl_credentials client, ycl_credentialProvider client) of
        (None, None) \<Rightarrow> True
      | (Some d, Some p) \<Rightarrow> Descriptor_Validate d = None \<and> de_Exchange d = ExchangeBybit
      | _ \<Rightarrow> False)"

lemma bybit_check_baseURL_Inr:
  "bybit_check_baseURL ParseURL insecure url = Inr base \<Longrightarrow>
     \<exists>u. ParseURL url = Inr u \<and> base = ul_Scheme u @ ''://'' @ ul_Host u \<and> ul_Host u \<noteq> [] \<and>
       (ul_Scheme u = ''https'' \<or> insecure \<and> ul_Scheme u = ''http'')"
  by (auto simp: bybit_check_baseURL_def split: sum.splits if_splits)

lemma bybit_check_credentials_None:
  "bybit_check_credentials credentials provided = None \<Longrightarrow>
     (case credentials of None \<Rightarrow> \<not> provided | Some d \<Rightarrow> provided \<and> Descriptor_Validate d = None \<and> de_Exchange d = ExchangeBybit)"
  by (auto simp: bybit_check_credentials_def split: option.splits if_splits)

text \<open>C19. Every client that \<open>New\<close> returns is well-formed: a trimmed default route, a timeout that is not
  negative, a receive window of 1 to 60000 ms, and credentials that are valid, for Bybit, and present exactly when
  there is a provider. Unless insecure HTTP was allowed, every URL it requests starts with https and a host.\<close>

theorem bybit_New_wellformed:
  assumes "bybit_New ParseURL time_Now config = Inr client"
  shows "bybit_client_ok client \<and> (ycf_AllowInsecureHTTP config \<or>
     (\<exists>host. host \<noteq> [] \<and> (\<forall>path query. prefix (''https://'' @ host @ path) (bybit_requestURL client path query))))"
proof -
  define url where "url = (if ycf_BaseURL config \<noteq> [] then ycf_BaseURL config
     else if ycf_Testnet config then bybit_DefaultTestnetBaseURL else bybit_DefaultBaseURL)"
  define timeout where "timeout = (if ycf_RequestTimeout config = 0 then bybit_DefaultRequestTimeout else ycf_RequestTimeout config)"
  define window where "window = (if ycf_ReceiveWindow config = 0 then bybit_DefaultReceiveWindow else ycf_ReceiveWindow config)"
  from assms obtain parsed where made:
    "TrimSpace (ycf_DefaultEgressRouteID config) \<noteq> []"
    "bybit_check_baseURL ParseURL (ycf_AllowInsecureHTTP config) url = Inr parsed"
    "bybit_check_credentials (ycf_Credentials config) (ycf_CredentialProvider config \<noteq> None) = None"
    "ycl_defaultEgressRouteID client = TrimSpace (ycf_DefaultEgressRouteID config)" "ycl_baseURL client = parsed"
    "ycl_credentials client = ycf_Credentials config" "ycl_credentialProvider client = ycf_CredentialProvider config"
    "0 \<le> ycl_requestTimeout client"
    "ycl_receiveWindowMillis client = window div millisecond" "0 < window" "window \<le> 60 * second" "window mod millisecond = 0"
    unfolding bybit_New_def Let_def url_def [symmetric] timeout_def [symmetric] window_def [symmetric]
    by (simp split: option.splits sum.splits if_split_asm) auto
  from made(9-12) have "1 \<le> ycl_receiveWindowMillis client \<and> ycl_receiveWindowMillis client \<le> 60000" by auto
  moreover from bybit_check_credentials_None [OF made(3)] have "case (ycl_credentials client, ycl_credentialProvider client) of
        (None, None) \<Rightarrow> True | (Some d, Some p) \<Rightarrow> Descriptor_Validate d = None \<and> de_Exchange d = ExchangeBybit | _ \<Rightarrow> False"
    using made(6,7) by (auto split: option.splits)
  ultimately have ok: "bybit_client_ok client" using made(1,4,8) by (simp add: bybit_client_ok_def)
  from bybit_check_baseURL_Inr [OF made(2)] made(5) have "ycf_AllowInsecureHTTP config \<or>
     (\<exists>host. host \<noteq> [] \<and> (\<forall>path query. prefix (''https://'' @ host @ path) (bybit_requestURL client path query)))"
    by (auto simp: bybit_requestURL_def)
  with ok show ?thesis by blast
qed

theorem bybit_New_wellformed_witness:
  "\<exists>client. bybit_New (\<lambda>s. Inr \<lparr>ul_Scheme = ''https'', ul_Host = ''h'', ul_Path = [], ul_User = False, ul_RawQuery = [], ul_Fragment = []\<rparr>)
       (\<lambda>w. 0) \<lparr>ycf_Executor = Some bybit_demo_executor, ycf_Credentials = None, ycf_CredentialProvider = None,
         ycf_DefaultEgressRouteID = ''r'', ycf_BaseURL = [], ycf_Testnet = False, ycf_AllowInsecureHTTP = False,
         ycf_RequestTimeout = 0, ycf_ReceiveWindow = 0, ycf_Now = None\<rparr> = Inr client \<and>
     bybit_client_ok client \<and> (\<exists>host. \<forall>path query. prefix (''https://'' @ host @ path) (bybit_requestURL client path query))"
proof -
  define config :: "nat bybit_Config" where "config = \<lparr>ycf_Executor = Some bybit_demo_executor, ycf_Credentials = None,
    ycf_CredentialProvider = None, ycf_DefaultEgressRouteID = ''r'', ycf_BaseURL = [], ycf_Testnet = False,
    ycf_AllowInsecureHTTP = False, ycf_RequestTimeout = 0, ycf_ReceiveWindow = 0, ycf_Now = None\<rparr>"
  obtain client where "bybit_New (\<lambda>s. Inr \<lparr>ul_Scheme = ''https'', ul_Host = ''h'', ul_Path = [], ul_User = False, ul_RawQuery = [],
      ul_Fragment = []\<rparr>) (\<lambda>w. 0) config = Inr client"
    by (simp add: config_def bybit_New_def bybit_demo_facts bybit_check_baseURL_def bybit_check_credentials_def Let_def)
  with bybit_New_wellformed [OF this] show ?thesis by (auto simp: config_def)
qed

end
