(* ===== verification/Bybit_Stream.thy ===== *)
theory Bybit_Stream
  imports Bybit_Requests
begin

text \<open>
  The WebSocket subscriptions of the Bybit adapter (\<open>exchange/bybit/websocket.go\<close>): topic names and
  their validation, and \<open>managedStream\<close>, which keeps the set of topics, sends the commands that change it
  in batches, and repeats the whole set on every new connection.

  The commands run under \<open>commandMu\<close>, so each is one step of the model. A command is a record; the
  writer (a session or a connection) answers each command with nil or an error, and every operation
  returns the list of commands the writer took.
\<close>

section \<open>Topics\<close>

text \<open>\<open>unicode.IsControl\<close> on the bytes of a string: C0, DEL, and C1 in its two-byte encoding.\<close>

fun contains_control :: "string \<Rightarrow> bool" where
  "contains_control [] = False"
| "contains_control (c # rest) =
     ((of_char c :: nat) < 32 \<or> (of_char c :: nat) = 127 \<or>
      ((of_char c :: nat) = 0xC2 \<and> rest \<noteq> [] \<and> 0x80 \<le> (of_char (hd rest) :: nat) \<and> (of_char (hd rest) :: nat) \<le> 0x9F) \<or>
      contains_control rest)"

definition streamSymbolPattern :: "string \<Rightarrow> bool" where
  "streamSymbolPattern s \<longleftrightarrow> s \<noteq> [] \<and> list_all (\<lambda>c. (48 \<le> (of_char c :: nat) \<and> (of_char c :: nat) \<le> 57) \<or>
     (65 \<le> (of_char c :: nat) \<and> (of_char c :: nat) \<le> 90)) s"

definition validatePublicTopic :: "string \<Rightarrow> go_error option" where
  "validatePublicTopic topic =
     (if topic = [] \<or> TrimSpace topic \<noteq> topic \<or> contains_control topic
      then Some (validationError ''public WebSocket topic contains invalid whitespace'' [])
      else
        let parts = split_on CHR ''.'' topic;
            kind = (case hd parts of k \<Rightarrow>
              if k = ''tickers'' \<or> k = ''publicTrade'' then
                (if length parts \<noteq> 2 then Some (validationError ''invalid public WebSocket topic %q'' [StrArg topic]) else None)
              else if k = ''orderbook'' then
                (if length parts \<noteq> 3 \<or> (parts ! 1 \<noteq> ''1'' \<and> parts ! 1 \<noteq> ''50'' \<and> parts ! 1 \<noteq> ''200'' \<and> parts ! 1 \<noteq> ''1000'')
                 then Some (validationError ''invalid orderbook WebSocket topic %q'' [StrArg topic]) else None)
              else if k = ''kline'' then
                (if length parts \<noteq> 3 \<or> \<not> bybit_CandleInterval_valid (parts ! 1)
                 then Some (validationError ''invalid kline WebSocket topic %q'' [StrArg topic]) else None)
              else Some (validationError ''unsupported public WebSocket topic %q'' [StrArg topic]))
        in case kind of
             Some err \<Rightarrow> Some err
           | None \<Rightarrow>
               if \<not> streamSymbolPattern (last parts)
               then Some (validationError ''WebSocket symbol must contain uppercase letters and digits'' [])
               else None)"

fun validate_topics :: "string list \<Rightarrow> string list \<Rightarrow> int \<Rightarrow> (string list \<times> int) result" where
  "validate_topics [] validated chars = Inr (validated, chars)"
| "validate_topics (topic # rest) validated chars =
     (case validatePublicTopic topic of
        Some err \<Rightarrow> Inl err
      | None \<Rightarrow>
          if topic \<in> set validated then Inl (validationError ''duplicate public WebSocket topic %q'' [StrArg topic])
          else validate_topics rest (validated @ [topic]) (chars + int (length topic)))"

definition validatePublicTopics :: "Category \<Rightarrow> string list \<Rightarrow> string list result" where
  "validatePublicTopics category topics =
     (case validateCategory category of
        Some err \<Rightarrow> Inl err
      | None \<Rightarrow>
          if topics = [] then Inl (validationError ''at least one public WebSocket topic is required'' [])
          else if 1000 < int (length topics)
          then Inl (validationError ''WebSocket topic count cannot exceed %d'' [IntArg 1000])
          else case validate_topics topics [] 0 of
                 Inl err \<Rightarrow> Inl err
               | Inr (validated, totalCharacters) \<Rightarrow>
                   if 21000 < totalCharacters
                   then Inl (validationError ''public WebSocket topic arguments exceed %d characters'' [IntArg 21000])
                   else Inr validated)"

definition buildPublicTopic :: "Category \<Rightarrow> string \<Rightarrow> string result" where
  "buildPublicTopic category topic =
     (case validatePublicTopics category [topic] of Inl err \<Rightarrow> Inl err | Inr validated \<Rightarrow> Inr (hd validated))"

definition TickerStreamTopic :: "Category \<Rightarrow> string \<Rightarrow> string result" where
  "TickerStreamTopic category symbol = buildPublicTopic category (''tickers.'' @ symbol)"

definition PublicTradeStreamTopic :: "Category \<Rightarrow> string \<Rightarrow> string result" where
  "PublicTradeStreamTopic category symbol = buildPublicTopic category (''publicTrade.'' @ symbol)"

definition KlineStreamTopic :: "Category \<Rightarrow> string \<Rightarrow> string \<Rightarrow> string result" where
  "KlineStreamTopic category symbol interval = buildPublicTopic category (''kline.'' @ interval @ ''.'' @ symbol)"

definition OrderBookStreamTopic :: "Category \<Rightarrow> string \<Rightarrow> int \<Rightarrow> string result" where
  "OrderBookStreamTopic category symbol depth =
     buildPublicTopic category (''orderbook.'' @ int_str depth @ ''.'' @ symbol)"


definition PrivateTopics :: "(string \<times> string option) list" where
  "PrivateTopics = [(''wallet'', None), (''position'', None), (''order'', None), (''execution'', None),
     (''position.linear'', Some ''position''), (''order.spot'', Some ''order''), (''order.linear'', Some ''order''),
     (''execution.spot'', Some ''execution''), (''execution.linear'', Some ''execution'')]"

text \<open>The loop collects the topics, the all-in-one ones and the bases of the categorised ones. Of several
  mixed bases the code reports the one its map iteration meets first, the model the first of the list.\<close>

fun validate_private :: "string list \<Rightarrow> string list \<Rightarrow> string set \<Rightarrow> string set \<Rightarrow> (string list \<times> string set \<times> string set) result" where
  "validate_private [] validated allInOne categorized = Inr (validated, allInOne, categorized)"
| "validate_private (topic # rest) validated allInOne categorized =
     (if TrimSpace topic \<noteq> topic \<or> contains_control topic
      then Inl (validationError ''private WebSocket topic contains invalid whitespace'' [])
      else case map_of PrivateTopics topic of
        None \<Rightarrow> Inl (validationError ''unsupported private WebSocket topic %q'' [StrArg topic])
      | Some base \<Rightarrow>
          if topic \<in> set validated then Inl (validationError ''duplicate private WebSocket topic %q'' [StrArg topic])
          else case base of
                 None \<Rightarrow> validate_private rest (validated @ [topic]) (insert topic allInOne) categorized
               | Some b \<Rightarrow> validate_private rest (validated @ [topic]) allInOne (insert b categorized))"

definition validatePrivateTopics :: "string list \<Rightarrow> string list result" where
  "validatePrivateTopics topics =
     (if topics = [] then Inl (validationError ''at least one private WebSocket topic is required'' [])
      else case validate_private topics [] {} {} of
        Inl err \<Rightarrow> Inl err
      | Inr (validated, allInOne, categorized) \<Rightarrow>
          (case find (\<lambda>b. b \<in> allInOne \<and> b \<in> categorized) [''wallet'', ''position'', ''order'', ''execution''] of
             Some b \<Rightarrow> Inl (validationError ''all-in-one and categorised %s topics cannot be mixed'' [StrArg b])
           | None \<Rightarrow> Inr validated))"

section \<open>The managed stream\<close>

record bybit_managedStream =
  yms_category :: Category
  yms_private :: bool
  yms_topics :: "string set"
  yms_lastCommandAt :: int
  yms_interval :: int
  yms_nextID :: "64 word"

record bybit_streamOperation =
  yop_RequestID :: string
  yop_Operation :: string
  yop_Arguments :: "string list"

text \<open>What a command meets: the clock, a timer raced against the context, and the writer.\<close>

record 'w bybit_wire =
  bw_now :: "'w \<Rightarrow> int"
  bw_timer :: "int \<Rightarrow> 'w \<Rightarrow> go_error option \<times> 'w"
  bw_write :: "bybit_streamOperation \<Rightarrow> 'w \<Rightarrow> go_error option \<times> 'w"

definition bybit_newManagedStream :: "Category \<Rightarrow> string list \<Rightarrow> bool \<Rightarrow> int \<Rightarrow> bybit_managedStream" where
  "bybit_newManagedStream category topics private interval =
     \<lparr>yms_category = category, yms_private = private, yms_topics = set topics, yms_lastCommandAt = 0,
      yms_interval = interval, yms_nextID = 0\<rparr>"

definition bybit_hasTopic :: "bybit_managedStream \<Rightarrow> Category \<Rightarrow> string \<Rightarrow> bool" where
  "bybit_hasTopic managed category topic \<longleftrightarrow> yms_category managed = category \<and> topic \<in> yms_topics managed"

definition bybit_snapshotTopics :: "bybit_managedStream \<Rightarrow> string list" where
  "bybit_snapshotTopics managed = sorted_list_of_set (yms_topics managed)"

definition bybit_waitCommandSlot ::
  "'w bybit_wire \<Rightarrow> bybit_managedStream \<Rightarrow> 'w \<Rightarrow> go_error option \<times> 'w" where
  "bybit_waitCommandSlot wire managed w =
     (let delay = yms_lastCommandAt managed + yms_interval managed - bw_now wire w
      in if delay \<le> 0 then (None, w) else bw_timer wire delay w)"

text \<open>The loop of \<open>writeTopics\<close>; the third component lists the commands that were written.\<close>

function bybit_write_batches ::
  "'w bybit_wire \<Rightarrow> nat \<Rightarrow> string \<Rightarrow> string list \<Rightarrow> bybit_managedStream \<times> 'w \<Rightarrow>
   go_error option \<times> bybit_streamOperation list \<times> bybit_managedStream \<times> 'w" where
  "bybit_write_batches wire batch operation topics (managed, w) =
     (if topics = [] \<or> batch = 0 then (None, [], managed, w)
      else case bybit_waitCommandSlot wire managed w of
        (Some err, w) \<Rightarrow> (Some err, [], managed, w)
      | (None, w) \<Rightarrow>
          let requestID = yms_nextID managed + 1;
              managed = managed\<lparr>yms_nextID := requestID\<rparr>;
              command = \<lparr>yop_RequestID = nat_str (unat requestID), yop_Operation = operation,
                         yop_Arguments = take batch topics\<rparr>
          in case bw_write wire command w of
               (Some err, w) \<Rightarrow> (Some err, [], managed, w)
             | (None, w) \<Rightarrow>
                 (case bybit_write_batches wire batch operation (drop batch topics)
                         (managed\<lparr>yms_lastCommandAt := bw_now wire w\<rparr>, w) of
                    (err, commands, managed, w) \<Rightarrow> (err, command # commands, managed, w)))"
  by pat_completeness auto
termination
  by (relation "measure (\<lambda>(wire, batch, operation, topics, s). length topics)") auto

declare bybit_write_batches.simps [simp del]

definition bybit_batchSize :: "bybit_managedStream \<Rightarrow> nat" where
  "bybit_batchSize managed = (if \<not> yms_private managed \<and> yms_category managed = CategoryLinear then 1000 else 10)"

definition bybit_writeTopics ::
  "'w bybit_wire \<Rightarrow> string \<Rightarrow> string list \<Rightarrow> bybit_managedStream \<times> 'w \<Rightarrow>
   go_error option \<times> bybit_streamOperation list \<times> bybit_managedStream \<times> 'w" where
  "bybit_writeTopics wire operation topics s = bybit_write_batches wire (bybit_batchSize (fst s)) operation topics s"

definition bybit_resubscribe ::
  "'w bybit_wire \<Rightarrow> bybit_managedStream \<times> 'w \<Rightarrow>
   go_error option \<times> bybit_streamOperation list \<times> bybit_managedStream \<times> 'w" where
  "bybit_resubscribe wire s = bybit_writeTopics wire ''subscribe'' (bybit_snapshotTopics (fst s)) s"

definition bybit_change ::
  "'w bybit_wire \<Rightarrow> string \<Rightarrow> string list \<Rightarrow> bybit_managedStream \<times> 'w \<Rightarrow>
   go_error option \<times> bybit_streamOperation list \<times> bybit_managedStream \<times> 'w" where
  "bybit_change wire operation topics s =
     (case s of (managed, w) \<Rightarrow>
        let selected = filter (\<lambda>topic. (operation = ''subscribe'' \<and> topic \<notin> yms_topics managed) \<or>
              (operation = ''unsubscribe'' \<and> topic \<in> yms_topics managed)) topics
        in if operation = ''subscribe'' \<and> 1000 < int (card (yms_topics managed)) + int (length selected)
           then (Some (validationError ''WebSocket topic count cannot exceed %d'' [IntArg 1000]), [], managed, w)
           else if operation = ''subscribe'' \<and>
             21000 < (\<Sum>topic \<in> yms_topics managed. int (length topic)) + int (sum_list (map length selected))
           then (Some (validationError ''public WebSocket topic arguments exceed %d characters'' [IntArg 21000]), [], managed, w)
           else if selected = [] then (None, [], managed, w)
           else case bybit_writeTopics wire operation selected (managed, w) of
                  (Some err, commands, managed, w) \<Rightarrow> (Some err, commands, managed, w)
                | (None, commands, managed, w) \<Rightarrow>
                    (None, commands,
                     managed\<lparr>yms_topics := (if operation = ''subscribe'' then yms_topics managed \<union> set selected
                                            else yms_topics managed - set selected)\<rparr>, w))"

text \<open>\<open>PublicStream.Subscribe\<close> and \<open>Unsubscribe\<close>.\<close>

definition bybit_public_change ::
  "'w bybit_wire \<Rightarrow> string \<Rightarrow> string list \<Rightarrow> bybit_managedStream \<times> 'w \<Rightarrow>
   go_error option \<times> bybit_streamOperation list \<times> bybit_managedStream \<times> 'w" where
  "bybit_public_change wire operation topics s =
     (case validatePublicTopics (yms_category (fst s)) topics of
        Inl err \<Rightarrow> (Some err, [], s)
      | Inr validated \<Rightarrow> bybit_change wire operation validated s)"

abbreviation bybit_Subscribe where "bybit_Subscribe wire \<equiv> bybit_public_change wire ''subscribe''"
abbreviation bybit_Unsubscribe where "bybit_Unsubscribe wire \<equiv> bybit_public_change wire ''unsubscribe''"

section \<open>Validated topics\<close>

lemma validate_topics_Inr:
  "validate_topics topics validated n = Inr (v, n') \<Longrightarrow>
     v = validated @ topics \<and> n' = n + int (sum_list (map length topics)) \<and>
     list_all (\<lambda>t. validatePublicTopic t = None) topics \<and> distinct topics \<and> set topics \<inter> set validated = {}"
proof (induction topics validated n rule: validate_topics.induct)
  case (2 topic rest validated chars)
  then have topic: "validatePublicTopic topic = None" "topic \<notin> set validated"
    and rest: "validate_topics rest (validated @ [topic]) (chars + int (length topic)) = Inr (v, n')"
    by (auto split: option.splits if_splits)
  from 2(1) [OF topic rest] topic show ?case by auto
qed simp

lemma validate_topics_total:
  "list_all (\<lambda>t. validatePublicTopic t = None) topics \<Longrightarrow> distinct topics \<Longrightarrow> set topics \<inter> set validated = {} \<Longrightarrow>
     validate_topics topics validated n = Inr (validated @ topics, n + int (sum_list (map length topics)))"
  by (induction topics validated n rule: validate_topics.induct) auto

lemma validatePublicTopics_Inr:
  "validatePublicTopics category topics = Inr v \<longleftrightarrow>
     (category = CategorySpot \<or> category = CategoryLinear) \<and> v = topics \<and> topics \<noteq> [] \<and> length topics \<le> 1000 \<and>
     list_all (\<lambda>t. validatePublicTopic t = None) topics \<and> distinct topics \<and> sum_list (map length topics) \<le> 21000"
  (is "?lhs \<longleftrightarrow> ?rhs")
proof
  assume ?lhs
  then obtain n where "validate_topics topics [] 0 = Inr (v, n)" "n \<le> 21000" "validateCategory category = None" "topics \<noteq> []"
    "length topics \<le> 1000"
    by (auto simp: validatePublicTopics_def split: option.splits if_splits sum.splits)
  with validate_topics_Inr [OF this(1)] show ?rhs by simp
next
  assume rhs: ?rhs
  then have "validate_topics topics [] 0 = Inr (topics, int (sum_list (map length topics)))"
    using validate_topics_total [of topics "[]" 0] by simp
  moreover have "int (sum_list (map length topics)) \<le> 21000" using rhs by simp
  moreover have cat: "validateCategory category = None" using rhs by simp
  ultimately show ?lhs using rhs unfolding validatePublicTopics_def cat by simp
qed

text \<open>The ticker topic of a symbol is always in order.\<close>

lemma visible_no_control: "list_all visible_char s \<Longrightarrow> \<not> contains_control s"
  by (induction s) (auto simp: visible_char_def)

lemma streamSymbolPattern_visible: "streamSymbolPattern s \<Longrightarrow> s \<noteq> [] \<and> list_all visible_char s \<and> CHR ''.'' \<notin> set s"
  by (auto simp: streamSymbolPattern_def visible_char_def list_all_iff)

lemma ticker_topic_valid: "streamSymbolPattern s \<Longrightarrow> validatePublicTopic (''tickers.'' @ s) = None"
proof -
  assume s: "streamSymbolPattern s"
  note v = streamSymbolPattern_visible [OF s]
  have "list_all visible_char (''tickers.'' @ s)" using v by (simp add: visible_char_def)
  note c = visible_no_control [OF this]
  have "TrimSpace (''tickers.'' @ s) = ''tickers.'' @ s"
    using v by (intro TrimSpace_visible) (auto simp: visible_char_def list_all_iff)
  moreover have "split_on CHR ''.'' (''tickers.'' @ s) = [''tickers'', s]"
    using v by (simp add: split_on_no_sep)
  ultimately show ?thesis using s c by (simp add: validatePublicTopic_def)
qed

section \<open>The commands of an operation\<close>

lemma bybit_write_batches_spec:
  assumes "bybit_write_batches wire batch operation topics (m, w) = (err, commands, m', w')" "0 < batch"
  shows "m' = m\<lparr>yms_lastCommandAt := yms_lastCommandAt m', yms_nextID := yms_nextID m'\<rparr> \<and>
     list_all (\<lambda>c. yop_Operation c = operation \<and> yop_Arguments c \<noteq> [] \<and> length (yop_Arguments c) \<le> batch) commands \<and>
     prefix (concat (map yop_Arguments commands)) topics \<and>
     (err = None \<longrightarrow> concat (map yop_Arguments commands) = topics) \<and>
     map yop_RequestID commands = map (\<lambda>i. nat_str (unat (yms_nextID m + 1 + of_nat i))) [0..<length commands]"
  using assms(1)
proof (induction topics arbitrary: m w err commands m' w' rule: length_induct)
  case (1 topics)
  note run = 1(2)
  show ?case
  proof (cases "topics = []")
    case True
    with run show ?thesis by (auto simp: bybit_write_batches.simps)
  next
    case False
    then have go: "(topics = [] \<or> batch = 0) = False" using assms(2) by simp
    note unfold = bybit_write_batches.simps [of wire batch operation topics m w] go
    obtain waitErr w1 where wait: "bybit_waitCommandSlot wire m w = (waitErr, w1)" by (cases "bybit_waitCommandSlot wire m w")
    let ?id = "yms_nextID m + 1"
    let ?c = "\<lparr>yop_RequestID = nat_str (unat ?id), yop_Operation = operation, yop_Arguments = take batch topics\<rparr>"
    obtain writeErr w2 where wr: "bw_write wire ?c w1 = (writeErr, w2)" by (cases "bw_write wire ?c w1")
    let ?m = "m\<lparr>yms_nextID := ?id, yms_lastCommandAt := bw_now wire w2\<rparr>"
    obtain err2 cs m2 w3 where rest: "bybit_write_batches wire batch operation (drop batch topics) (?m, w2) = (err2, cs, m2, w3)"
      by (cases "bybit_write_batches wire batch operation (drop batch topics) (?m, w2)")
    consider "err \<noteq> None" "commands = []" "m' = m \<or> m' = m\<lparr>yms_nextID := ?id\<rparr>"
      | (written) "err = err2" "commands = ?c # cs" "m' = m2"
      using run wait wr rest by (cases waitErr; cases writeErr) (auto simp: unfold Let_def)
    then show ?thesis
    proof cases
      case written
      have "length (drop batch topics) < length topics" using False assms(2) by simp
      from 1(1) [rule_format, OF this rest]
      have IH: "m2 = ?m\<lparr>yms_lastCommandAt := yms_lastCommandAt m2, yms_nextID := yms_nextID m2\<rparr>"
        "list_all (\<lambda>c. yop_Operation c = operation \<and> yop_Arguments c \<noteq> [] \<and> length (yop_Arguments c) \<le> batch) cs"
        "prefix (concat (map yop_Arguments cs)) (drop batch topics)"
        "err2 = None \<longrightarrow> concat (map yop_Arguments cs) = drop batch topics"
        "map yop_RequestID cs = map (\<lambda>i. nat_str (unat (?id + 1 + of_nat i))) [0..<length cs]" by auto
      have "prefix (take batch topics @ concat (map yop_Arguments cs)) (take batch topics @ drop batch topics)"
        using IH(3) by (simp only: same_prefix_prefix)
      moreover have "map yop_RequestID (?c # cs) = map (\<lambda>i. nat_str (unat (yms_nextID m + 1 + of_nat i))) [0..<length (?c # cs)]"
        using IH(5) by (simp add: upt_conv_Cons map_Suc_upt [symmetric] o_def algebra_simps del: upt_Suc)
      moreover have "take batch topics \<noteq> []" using False assms(2) by simp
      ultimately show ?thesis using IH(1,2,4) by (simp add: written)
    qed auto
  qed
qed

text \<open>What an exchange makes of the commands it gets on one connection.\<close>

fun bybit_replay :: "string set \<Rightarrow> bybit_streamOperation list \<Rightarrow> string set" where
  "bybit_replay S [] = S"
| "bybit_replay S (c # cs) = bybit_replay
     (if yop_Operation c = ''subscribe'' then S \<union> set (yop_Arguments c)
      else if yop_Operation c = ''unsubscribe'' then S - set (yop_Arguments c) else S) cs"

abbreviation bybit_args :: "bybit_streamOperation list \<Rightarrow> string list" where
  "bybit_args commands \<equiv> concat (map yop_Arguments commands)"

lemma bybit_replay_subscribe:
  "list_all (\<lambda>c. yop_Operation c = ''subscribe'') cs \<Longrightarrow> bybit_replay S cs = S \<union> set (bybit_args cs)"
  by (induction cs arbitrary: S) auto

lemma bybit_replay_unsubscribe:
  "list_all (\<lambda>c. yop_Operation c = ''unsubscribe'') cs \<Longrightarrow> bybit_replay S cs = S - set (bybit_args cs)"
  by (induction cs arbitrary: S) auto

lemma bybit_batchSize_pos [simp]: "0 < bybit_batchSize m"
  by (simp add: bybit_batchSize_def)

lemma bybit_writeTopics_spec:
  assumes "bybit_writeTopics wire operation topics (m, w) = (err, commands, m', w')"
  shows "yms_topics m' = yms_topics m \<and> yms_category m' = yms_category m \<and> yms_private m' = yms_private m \<and>
     list_all (\<lambda>c. yop_Operation c = operation \<and> yop_Arguments c \<noteq> [] \<and> length (yop_Arguments c) \<le> bybit_batchSize m) commands \<and>
     prefix (bybit_args commands) topics \<and> (err = None \<longrightarrow> bybit_args commands = topics) \<and>
     map yop_RequestID commands = map (\<lambda>i. nat_str (unat (yms_nextID m + 1 + of_nat i))) [0..<length commands]"
proof -
  from bybit_write_batches_spec [OF assms [unfolded bybit_writeTopics_def fst_conv] bybit_batchSize_pos]
  have m': "m' = m\<lparr>yms_lastCommandAt := yms_lastCommandAt m', yms_nextID := yms_nextID m'\<rparr>" by simp
  have "yms_topics m' = yms_topics m" "yms_category m' = yms_category m" "yms_private m' = yms_private m"
    by (subst m', simp)+
  with bybit_write_batches_spec [OF assms [unfolded bybit_writeTopics_def fst_conv] bybit_batchSize_pos]
  show ?thesis by simp
qed

text \<open>The topics a public stream may hold.\<close>

definition bybit_topics_ok :: "string set \<Rightarrow> bool" where
  "bybit_topics_ok T \<longleftrightarrow> finite T \<and> (\<forall>t \<in> T. validatePublicTopic t = None) \<and> card T \<le> 1000 \<and>
     (\<Sum>t \<in> T. length t) \<le> 21000"

lemma bybit_topics_ok_set:
  "validatePublicTopics category topics = Inr v \<Longrightarrow> bybit_topics_ok (set v)"
  by (auto simp: validatePublicTopics_Inr bybit_topics_ok_def list_all_iff distinct_card sum_list_distinct_conv_sum_set)

lemma bybit_topics_ok_subset: "bybit_topics_ok T \<Longrightarrow> S \<subseteq> T \<Longrightarrow> bybit_topics_ok S"
  by (auto simp: bybit_topics_ok_def intro: finite_subset card_mono [THEN le_trans] sum_mono2 [THEN le_trans])

definition bybit_selected :: "string \<Rightarrow> string list \<Rightarrow> bybit_managedStream \<Rightarrow> string list" where
  "bybit_selected operation topics m = filter (\<lambda>topic. (operation = ''subscribe'' \<and> topic \<notin> yms_topics m) \<or>
     (operation = ''unsubscribe'' \<and> topic \<in> yms_topics m)) topics"

text \<open>A change either does nothing, or writes commands for the topics it selects and, when all of them
  were written, records it.\<close>

lemma bybit_change_cases:
  assumes "bybit_change wire operation topics (m, w) = (err, commands, m', w')"
  shows "(m' = m \<and> w' = w \<and> commands = [] \<and> (err = None \<longrightarrow> bybit_selected operation topics m = [])) \<or>
     (\<exists>m1. bybit_writeTopics wire operation (bybit_selected operation topics m) (m, w) = (err, commands, m1, w') \<and>
        (operation = ''subscribe'' \<longrightarrow> card (yms_topics m) + length (bybit_selected operation topics m) \<le> 1000 \<and>
           (\<Sum>t \<in> yms_topics m. length t) + sum_list (map length (bybit_selected operation topics m)) \<le> 21000) \<and>
        m' = (if err = None then m1\<lparr>yms_topics := if operation = ''subscribe''
            then yms_topics m1 \<union> set (bybit_selected operation topics m)
            else yms_topics m1 - set (bybit_selected operation topics m)\<rparr> else m1))"
proof -
  have ints: "(\<Sum>t \<in> T. int (length t)) = int (\<Sum>t \<in> T. length t)" for T :: "string set" by simp
  show ?thesis using assms unfolding bybit_change_def bybit_selected_def [symmetric] ints
    by (auto simp: Let_def not_less simp del: of_nat_sum split: if_splits prod.splits option.splits)
qed

lemma bybit_public_change_spec:
  assumes step: "bybit_public_change wire operation topics (m, w) = (err, commands, m', w')"
    and operation: "operation = ''subscribe'' \<or> operation = ''unsubscribe''"
    and ok: "bybit_topics_ok (yms_topics m)"
  shows "bybit_topics_ok (yms_topics m') \<and> yms_category m' = yms_category m \<and>
     (err = None \<or> commands = [] \<longrightarrow> bybit_replay (yms_topics m) commands = yms_topics m')"
proof (cases "validatePublicTopics (yms_category m) topics")
  case (Inl e)
  with step ok show ?thesis by (auto simp: bybit_public_change_def)
next
  case (Inr v)
  let ?sel = "bybit_selected operation v m"
  have v: "bybit_topics_ok (set v)" "distinct ?sel" "\<forall>t \<in> set ?sel. validatePublicTopic t = None"
    using bybit_topics_ok_set [OF Inr] Inr by (auto simp: bybit_selected_def validatePublicTopics_Inr list_all_iff)
  from Inr step have "bybit_change wire operation v (m, w) = (err, commands, m', w')"
    by (simp add: bybit_public_change_def)
  from bybit_change_cases [OF this] show ?thesis
  proof (elim disjE exE conjE)
    assume "m' = m" "commands = []"
    with ok show ?thesis by simp
  next
    fix m1
    assume w: "bybit_writeTopics wire operation ?sel (m, w) = (err, commands, m1, w')"
      and limits: "operation = ''subscribe'' \<longrightarrow> card (yms_topics m) + length ?sel \<le> 1000 \<and>
           (\<Sum>t \<in> yms_topics m. length t) + sum_list (map length ?sel) \<le> 21000"
      and m': "m' = (if err = None then m1\<lparr>yms_topics := if operation = ''subscribe''
            then yms_topics m1 \<union> set ?sel else yms_topics m1 - set ?sel\<rparr> else m1)"
    note spec = bybit_writeTopics_spec [OF w]
    have "bybit_topics_ok (yms_topics m \<union> set ?sel)" if "operation = ''subscribe''"
    proof -
      have "yms_topics m \<inter> set ?sel = {}" using that by (auto simp: bybit_selected_def)
      then show ?thesis using ok v limits that
        by (auto simp: bybit_topics_ok_def card_Un_disjoint sum.union_disjoint distinct_card sum_list_distinct_conv_sum_set)
    qed
    then have good: "bybit_topics_ok (yms_topics m')"
      using spec ok operation by (auto simp: m' intro: bybit_topics_ok_subset)
    have "bybit_replay (yms_topics m) commands = yms_topics m'" if "err = None"
      using operation
    proof
      assume op: "operation = ''subscribe''"
      then have "list_all (\<lambda>c. yop_Operation c = ''subscribe'') commands" using spec by (auto simp: list_all_iff)
      from bybit_replay_subscribe [OF this] show ?thesis using that op spec by (simp add: m')
    next
      assume op: "operation = ''unsubscribe''"
      then have "list_all (\<lambda>c. yop_Operation c = ''unsubscribe'') commands" using spec by (auto simp: list_all_iff)
      from bybit_replay_unsubscribe [OF this] show ?thesis using that op spec by (simp add: m')
    qed
    moreover have "yms_topics m' = yms_topics m" if "err \<noteq> None" using that spec by (cases err) (simp_all add: m')
    ultimately have "bybit_replay (yms_topics m) commands = yms_topics m'" if "err = None \<or> commands = []"
      using that by (cases "err = None") auto
    moreover have "yms_category m' = yms_category m" using spec by (simp add: m')
    ultimately show ?thesis using good by blast
  qed
qed

section \<open>A public stream over its life\<close>

text \<open>
  The stream, what the current connection was told (\<open>None\<close> while there is none), and whether every
  command since it was made that changed anything succeeded. A connection that could not be subscribed
  is closed by the session.
\<close>

record 'w bybit_life =
  bf_managed :: bybit_managedStream
  bf_world :: 'w
  bf_server :: "string set option"
  bf_clean :: bool

datatype bybit_life_event = Connects | Disconnects | Subscribes "string list" | Unsubscribes "string list"

definition bybit_commanded ::
  "'w bybit_life \<Rightarrow> go_error option \<times> bybit_streamOperation list \<times> bybit_managedStream \<times> 'w \<Rightarrow> 'w bybit_life" where
  "bybit_commanded s = (\<lambda>(err, commands, managed, w).
     s\<lparr>bf_managed := managed, bf_world := w,
       bf_server := map_option (\<lambda>S. bybit_replay S commands) (bf_server s),
       bf_clean := (bf_clean s \<and> (err = None \<or> commands = []))\<rparr>)"

fun bybit_live :: "'w bybit_wire \<Rightarrow> bybit_life_event \<Rightarrow> 'w bybit_life \<Rightarrow> 'w bybit_life" where
  "bybit_live wire Connects s =
     (case bybit_resubscribe wire (bf_managed s, bf_world s) of
        (err, commands, managed, w) \<Rightarrow>
          s\<lparr>bf_managed := managed, bf_world := w,
            bf_server := (if err = None then Some (bybit_replay {} commands) else None), bf_clean := True\<rparr>)"
| "bybit_live wire Disconnects s = s\<lparr>bf_server := None\<rparr>"
| "bybit_live wire (Subscribes topics) s = bybit_commanded s (bybit_Subscribe wire topics (bf_managed s, bf_world s))"
| "bybit_live wire (Unsubscribes topics) s = bybit_commanded s (bybit_Unsubscribe wire topics (bf_managed s, bf_world s))"

definition bybit_created :: "Category \<Rightarrow> string list \<Rightarrow> int \<Rightarrow> 'w \<Rightarrow> 'w bybit_life" where
  "bybit_created category topics interval w =
     \<lparr>bf_managed = bybit_newManagedStream category topics False interval, bf_world = w, bf_server = None, bf_clean = True\<rparr>"

definition bybit_in_step :: "'w bybit_life \<Rightarrow> bool" where
  "bybit_in_step s \<longleftrightarrow> bybit_topics_ok (yms_topics (bf_managed s)) \<and>
     (bf_clean s \<longrightarrow> bf_server s = None \<or> bf_server s = Some (yms_topics (bf_managed s)))"

lemma bybit_resubscribe_spec:
  assumes "bybit_resubscribe wire (m, w) = (err, commands, m', w')" "finite (yms_topics m)"
  shows "yms_topics m' = yms_topics m \<and> yms_category m' = yms_category m \<and> (err = None \<longrightarrow> bybit_replay {} commands = yms_topics m)"
proof -
  note spec = bybit_writeTopics_spec [OF assms(1) [unfolded bybit_resubscribe_def fst_conv]]
  then have "list_all (\<lambda>c. yop_Operation c = ''subscribe'') commands" by (auto simp: list_all_iff)
  note replay = bybit_replay_subscribe [OF this, of "{}"]
  have "set (bybit_args commands) = yms_topics m" if "err = None"
  proof -
    from that spec have "bybit_args commands = bybit_snapshotTopics m" by blast
    with assms(2) show ?thesis by (simp only: bybit_snapshotTopics_def set_sorted_list_of_set)
  qed
  then have "err = None \<longrightarrow> bybit_replay {} commands = yms_topics m" using replay by blast
  with spec show ?thesis by blast
qed

lemma bybit_commanded_in_step:
  assumes "bybit_in_step s" "operation = ''subscribe'' \<or> operation = ''unsubscribe''"
  shows "bybit_in_step (bybit_commanded s (bybit_public_change wire operation topics (bf_managed s, bf_world s)))"
proof -
  obtain err commands m w where r: "bybit_public_change wire operation topics (bf_managed s, bf_world s) = (err, commands, m, w)"
    by (cases "bybit_public_change wire operation topics (bf_managed s, bf_world s)")
  from bybit_public_change_spec [OF r assms(2)] assms(1) show ?thesis
    by (auto simp: bybit_in_step_def bybit_commanded_def r)
qed

lemma bybit_live_in_step: "bybit_in_step s \<Longrightarrow> bybit_in_step (bybit_live wire e s)"
proof (induction wire e s rule: bybit_live.induct)
  case (1 wire s)
  obtain err commands m w where r: "bybit_resubscribe wire (bf_managed s, bf_world s) = (err, commands, m, w)"
    by (cases "bybit_resubscribe wire (bf_managed s, bf_world s)")
  with bybit_resubscribe_spec [OF r] 1 show ?case by (auto simp: bybit_in_step_def bybit_topics_ok_def)
qed (auto simp: bybit_in_step_def [of "s\<lparr>bf_server := None\<rparr>" for s] bybit_in_step_def [THEN iffD1] bybit_commanded_in_step)

lemma bybit_lives_in_step: "bybit_in_step s \<Longrightarrow> bybit_in_step (fold (bybit_live wire) es s)"
  by (induction es arbitrary: s) (simp_all add: bybit_live_in_step)

text \<open>C22. Through any sequence of connects, disconnects, subscriptions and unsubscriptions, whatever the clock and
  the connection do, a public stream made from validated topics holds only valid topics, at most 1000
  of them and at most 21000 characters, and as long as no command failed on the way after the
  connection was made, the connection was told exactly the topics the stream holds.\<close>

theorem bybit_stream_in_step:
  assumes "validatePublicTopics category topics = Inr v"
  shows "\<exists>s. s = fold (bybit_live wire) es (bybit_created category v interval w) \<and>
     finite (yms_topics (bf_managed s)) \<and>
     yms_topics (bf_managed s) \<subseteq> {t. validatePublicTopic t = None} \<and>
     card (yms_topics (bf_managed s)) \<le> 1000 \<and> (\<Sum>t \<in> yms_topics (bf_managed s). length t) \<le> 21000 \<and>
     (bf_clean s \<longrightarrow> bf_server s \<noteq> None \<longrightarrow> bf_server s = Some (yms_topics (bf_managed s)))"
proof -
  have "bybit_in_step (bybit_created category v interval w)"
    using bybit_topics_ok_set [OF assms] by (simp add: bybit_in_step_def bybit_created_def bybit_newManagedStream_def)
  then have inv: "bybit_in_step (fold (bybit_live wire) es (bybit_created category v interval w))"
    by (rule bybit_lives_in_step)
  define s where "s = fold (bybit_live wire) es (bybit_created category v interval w)"
  have "bybit_in_step s" unfolding s_def by (rule inv)
  then have "finite (yms_topics (bf_managed s)) \<and> yms_topics (bf_managed s) \<subseteq> {t. validatePublicTopic t = None} \<and>
     card (yms_topics (bf_managed s)) \<le> 1000 \<and> (\<Sum>t \<in> yms_topics (bf_managed s). length t) \<le> 21000 \<and>
     (bf_clean s \<longrightarrow> bf_server s \<noteq> None \<longrightarrow> bf_server s = Some (yms_topics (bf_managed s)))"
    unfolding bybit_in_step_def bybit_topics_ok_def by auto
  with s_def show ?thesis by blast
qed

definition bybit_demo_wire :: "nat bybit_wire" where
  "bybit_demo_wire = \<lparr>bw_now = (\<lambda>w. 0), bw_timer = (\<lambda>d w. if w = 0 then (None, 1) else (Some (Sentinel ContextCanceled), w)),
     bw_write = (\<lambda>c w. (None, w))\<rparr>"

theorem bybit_stream_in_step_witness:
  "\<exists>s. s = fold (bybit_live bybit_demo_wire) [Connects, Subscribes [''tickers.ETH'']] (bybit_created ''spot'' [''tickers.BTC''] 0 0) \<and>
     card (yms_topics (bf_managed s)) \<le> 1000"
proof -
  have "validatePublicTopics ''spot'' [''tickers.BTC''] = Inr [''tickers.BTC'']"
    using ticker_topic_valid [of "''BTC''"] by (simp add: validatePublicTopics_Inr streamSymbolPattern_def)
  from bybit_stream_in_step [OF this, of bybit_demo_wire "[Connects, Subscribes [''tickers.ETH'']]" 0 0] show ?thesis by metis
qed

text \<open>A new connection is told every topic the stream holds: the commands are numbered subscriptions of
  at most ten topics (a thousand on the linear stream), in sorted order, and when nothing fails
  together they are exactly the topics, each once.\<close>

theorem bybit_resubscribe_batches:
  assumes "bybit_resubscribe wire (m, w) = (err, commands, m', w')" "finite (yms_topics m)"
  shows "list_all (\<lambda>c. yop_Operation c = ''subscribe'' \<and> yop_Arguments c \<noteq> [] \<and>
       length (yop_Arguments c) \<le> (if yms_category m = CategoryLinear \<and> \<not> yms_private m then 1000 else 10)) commands \<and>
     map yop_RequestID commands = map (\<lambda>i. nat_str (unat (yms_nextID m + 1 + of_nat i))) [0..<length commands] \<and>
     distinct (concat (map yop_Arguments commands)) \<and> sorted (concat (map yop_Arguments commands)) \<and>
     set (concat (map yop_Arguments commands)) \<subseteq> yms_topics m \<and>
     (err = None \<longrightarrow> set (concat (map yop_Arguments commands)) = yms_topics m) \<and> yms_topics m' = yms_topics m"
proof -
  note spec = bybit_writeTopics_spec [OF assms(1) [unfolded bybit_resubscribe_def fst_conv]]
  have all: "set (bybit_snapshotTopics m) = yms_topics m" "distinct (bybit_snapshotTopics m)" "sorted (bybit_snapshotTopics m)"
    using assms(2) by (simp_all add: bybit_snapshotTopics_def)
  obtain tail where "bybit_snapshotTopics m = bybit_args commands @ tail" using spec by (auto simp: prefix_def)
  with all have "distinct (bybit_args commands)" "sorted (bybit_args commands)" "set (bybit_args commands) \<subseteq> yms_topics m"
    by (auto simp: sorted_append)
  moreover have "err = None \<longrightarrow> set (bybit_args commands) = yms_topics m" using spec all(1) by simp
  moreover have "bybit_batchSize m = (if yms_category m = CategoryLinear \<and> \<not> yms_private m then 1000 else 10)"
    by (simp add: bybit_batchSize_def)
  ultimately show ?thesis using spec by (simp only: simp_thms)
qed

theorem bybit_resubscribe_batches_witness:
  "\<exists>err commands m' w'. bybit_resubscribe bybit_demo_wire
       (bybit_newManagedStream ''spot'' [''tickers.BTC'', ''tickers.ETH''] False 0, 0) = (err, commands, m', w') \<and>
     distinct (concat (map yop_Arguments commands))"
proof -
  obtain err commands m' w' where r: "bybit_resubscribe bybit_demo_wire
       (bybit_newManagedStream ''spot'' [''tickers.BTC'', ''tickers.ETH''] False 0, 0) = (err, commands, m', w')"
    by (cases "bybit_resubscribe bybit_demo_wire (bybit_newManagedStream ''spot'' [''tickers.BTC'', ''tickers.ETH''] False 0, 0)")
  from bybit_resubscribe_batches [OF r] show ?thesis using r by (auto simp: bybit_newManagedStream_def)
qed

text \<open>C23. A subscription that fails after some of its commands were written leaves the connection told topics
  that the stream does not hold, and unsubscribing such a topic afterwards reports success without
  telling the connection anything.\<close>

theorem bybit_failed_subscription_sticks:
  assumes "bybit_Subscribe wire topics (m, w) = (Some err, commands, m', w')" "t \<in> set (concat (map yop_Arguments commands))"
  shows "t \<notin> yms_topics m' \<and> t \<in> bybit_replay S commands \<and>
     bybit_Unsubscribe wire [t] (m', w'') = (None, [], m', w'')"
proof -
  from assms obtain v where v: "validatePublicTopics (yms_category m) topics = Inr v"
    and change: "bybit_change wire ''subscribe'' v (m, w) = (Some err, commands, m', w')"
    by (auto simp: bybit_public_change_def split: sum.splits)
  from bybit_change_cases [OF change] assms(2) obtain m1
    where "bybit_writeTopics wire ''subscribe'' (bybit_selected ''subscribe'' v m) (m, w) = (Some err, commands, m1, w')" "m' = m1"
    by auto
  note spec = bybit_writeTopics_spec [OF this(1)]
  with \<open>m' = m1\<close> have m': "yms_topics m' = yms_topics m" "yms_category m' = yms_category m" by simp_all
  have "set (bybit_args commands) \<subseteq> set (bybit_selected ''subscribe'' v m)" using spec set_mono_prefix by blast
  with assms(2) have t: "t \<in> set v" "t \<notin> yms_topics m" by (auto simp: bybit_selected_def)
  have "length t \<le> sum_list (map length v)" using member_le_sum_list [of "length t" "map length v"] t(1) by simp
  with v t(1) have "validatePublicTopics (yms_category m') [t] = Inr [t]"
    by (auto simp: validatePublicTopics_Inr m' list_all_iff)
  moreover have "bybit_change wire ''unsubscribe'' [t] (m', w'') = (None, [], m', w'')"
    using t(2) by (simp add: bybit_change_def m')
  moreover have "list_all (\<lambda>c. yop_Operation c = ''subscribe'') commands" using spec by (auto simp: list_all_iff)
  ultimately show ?thesis using t(2) m' assms(2) bybit_replay_subscribe [of commands S] by (auto simp: bybit_public_change_def)
qed

definition bybit_demo_topics :: "string list" where
  "bybit_demo_topics = map (\<lambda>c. ''tickers.'' @ [c]) ''ABCDEFGHIJK''"

lemma bybit_demo_topics_valid: "validatePublicTopics ''spot'' bybit_demo_topics = Inr bybit_demo_topics"
  using ticker_topic_valid [of "[c]" for c]
  by (auto simp: validatePublicTopics_Inr bybit_demo_topics_def list_all_iff streamSymbolPattern_def)

lemma bybit_demo_change:
  "case bybit_change bybit_demo_wire ''subscribe'' bybit_demo_topics (bybit_newManagedStream ''spot'' [''tickers.Z''] False 1, 0) of
     (err, commands, m, w) \<Rightarrow> err = Some (Sentinel ContextCanceled) \<and> ''tickers.A'' \<in> set (concat (map yop_Arguments commands))"
  by code_simp

lemma bybit_demo_subscription:
  "case bybit_Subscribe bybit_demo_wire bybit_demo_topics (bybit_newManagedStream ''spot'' [''tickers.Z''] False 1, 0) of
     (err, commands, m, w) \<Rightarrow> err = Some (Sentinel ContextCanceled) \<and> ''tickers.A'' \<in> set (concat (map yop_Arguments commands))"
  using bybit_demo_change by (simp add: bybit_public_change_def bybit_newManagedStream_def bybit_demo_topics_valid)

theorem bybit_failed_subscription_sticks_witness:
  "\<exists>m commands. ''tickers.A'' \<in> bybit_replay {''tickers.Z''} commands \<and>
     bybit_Unsubscribe bybit_demo_wire [''tickers.A''] (m, 0) = (None, [], m, 0)"
proof -
  obtain err commands m w where r: "bybit_Subscribe bybit_demo_wire bybit_demo_topics
      (bybit_newManagedStream ''spot'' [''tickers.Z''] False 1, 0) = (err, commands, m, w)"
    by (cases "bybit_Subscribe bybit_demo_wire bybit_demo_topics (bybit_newManagedStream ''spot'' [''tickers.Z''] False 1, 0)")
  with bybit_demo_subscription have "err = Some (Sentinel ContextCanceled)" "''tickers.A'' \<in> set (concat (map yop_Arguments commands))"
    by simp_all
  from bybit_failed_subscription_sticks [OF r [unfolded this(1)] this(2), of "{''tickers.Z''}" 0] show ?thesis by blast
qed

end
