(* ===== verification/Bybit_Book.thy ===== *)
theory Bybit_Book
  imports Sequenced_Book Bybit_Stream
begin

text \<open>
  The Bybit V5 local order book (\<open>exchange/bybit/local_order_book.go\<close>): snapshots and deltas on one
  stream, numbered by update IDs. The levels are those of \<open>Depth_Levels\<close> (the code of the two
  adapters is the same up to names); after every event each side is pruned to the subscribed depth.

  The decoder of the JSON payload is a parameter. The processor is a record, a message is answered by
  a value of \<open>processed\<close>.
\<close>

section \<open>Data\<close>

record bybit_OrderBookConfig =
  yc_Category :: Category
  yc_Symbol :: string
  yc_Depth :: int
  yc_ViewDepth :: int
  yc_EgressRouteID :: EgressRouteID

record bybit_View =
  yv_Category :: Category
  yv_Symbol :: string
  yv_Depth :: int
  yv_Generation :: "64 word"
  yv_SynchronizationID :: "64 word"
  yv_GapCount :: "64 word"
  yv_UpdateID :: int
  yv_Sequence :: int
  yv_Timestamp :: int
  yv_MatchingTime :: int
  yv_Bids :: "(string \<times> string) list"
  yv_Asks :: "(string \<times> string) list"

record bybit_OrderBook =
  yb_category :: Category
  yb_symbol :: string
  yb_depth :: int
  yb_viewDepth :: int
  yb_routeID :: EgressRouteID
  yb_topic :: string

record bybit_StreamOrderBook =
  yo_Symbol :: string
  yo_Bids :: "string list list"
  yo_Asks :: "string list list"
  yo_UpdateID :: int
  yo_Sequence :: int
  yo_MatchingTime :: int

record bybit_StreamMessage =
  ym_Topic :: string
  ym_Type :: string
  ym_Timestamp :: int
  ym_CreationTime :: int
  ym_Operation :: string
  ym_RequestID :: string
  ym_ConnectionID :: string
  ym_Success :: "bool option"
  ym_ReturnMessage :: string
  ym_Data :: string
  ym_Pong :: bool

record bybit_State =
  ys_bids :: depth_side
  ys_asks :: depth_side
  ys_updateID :: int
  ys_sequence :: int
  ys_timestamp :: int
  ys_matchingTime :: int

record bybit_Processor =
  yp_generation :: "64 word"
  yp_synchronizationID :: "64 word"
  yp_gapCount :: "64 word"
  yp_state :: "bybit_State option"

section \<open>Operations\<close>

definition bybit_NewLocalOrderBook :: "bybit_OrderBookConfig \<Rightarrow> bybit_OrderBook result" where
  "bybit_NewLocalOrderBook config =
     (case validateCategory (yc_Category config) of
        Some err \<Rightarrow> Inl err
      | None \<Rightarrow>
          let symbol = TrimSpace (yc_Symbol config)
          in case OrderBookStreamTopic (yc_Category config) symbol (yc_Depth config) of
               Inl err \<Rightarrow> Inl err
             | Inr topic \<Rightarrow>
                 let route = TrimSpace (yc_EgressRouteID config)
                 in if route = [] then Inl (Sentinel ErrMissingEgressRoute)
                    else
                      let viewDepth = (if yc_ViewDepth config = 0
                            then (if yc_Depth config < 20 then yc_Depth config else 20) else yc_ViewDepth config)
                      in if viewDepth < 1 \<or> yc_Depth config < viewDepth
                         then Inl (validationError ''local order book view depth must not exceed subscribed depth'' [])
                         else Inr \<lparr>yb_category = yc_Category config, yb_symbol = symbol, yb_depth = yc_Depth config,
                                   yb_viewDepth = viewDepth, yb_routeID = route, yb_topic = topic\<rparr>)"

definition bybit_validateEvent :: "bybit_OrderBook \<Rightarrow> string \<Rightarrow> bybit_StreamOrderBook \<Rightarrow> go_error option" where
  "bybit_validateEvent book messageType event =
     (if messageType \<noteq> ''snapshot'' \<and> messageType \<noteq> ''delta''
      then Some (validationError ''local order book message type is invalid'' [])
      else if yo_Symbol event \<noteq> yb_symbol book \<or> yo_UpdateID event \<le> 0 \<or> yo_Sequence event \<le> 0
      then Some (validationError ''local order book event identity or sequence is invalid'' [])
      else if messageType = ''delta'' \<and> yb_depth book = 1
      then Some (validationError ''level 1 order book must contain snapshots only'' [])
      else if messageType = ''snapshot'' \<and>
              (yb_depth book < int (length (yo_Bids event)) \<or> yb_depth book < int (length (yo_Asks event)))
      then Some (validationError ''local order book snapshot exceeds subscribed depth'' [])
      else checkDepthFields (yo_Bids event @ yo_Asks event))"

definition bybit_apply :: "int \<Rightarrow> bybit_StreamOrderBook \<Rightarrow> int \<Rightarrow> depth_side \<times> depth_side \<Rightarrow> bybit_State result" where
  "bybit_apply timestamp event depth sides =
     (case applyLocalLevels (fst sides) (yo_Bids event) of
        Inl err \<Rightarrow> Inl err
      | Inr bids \<Rightarrow>
          (case applyLocalLevels (snd sides) (yo_Asks event) of
             Inl err \<Rightarrow> Inl err
           | Inr asks \<Rightarrow>
               Inr \<lparr>ys_bids = pruneLevels bids depth True, ys_asks = pruneLevels asks depth False,
                    ys_updateID = yo_UpdateID event, ys_sequence = yo_Sequence event, ys_timestamp = timestamp,
                    ys_matchingTime = yo_MatchingTime event\<rparr>))"

definition bybit_newState :: "int \<Rightarrow> bybit_StreamOrderBook \<Rightarrow> int \<Rightarrow> bybit_State result" where
  "bybit_newState timestamp event depth = bybit_apply timestamp event depth ([], [])"

definition bybit_view :: "bybit_OrderBook \<Rightarrow> bybit_Processor \<Rightarrow> bybit_State \<Rightarrow> bybit_View" where
  "bybit_view book p state =
     \<lparr>yv_Category = yb_category book, yv_Symbol = yb_symbol book, yv_Depth = yb_depth book,
      yv_Generation = yp_generation p, yv_SynchronizationID = yp_synchronizationID p, yv_GapCount = yp_gapCount p,
      yv_UpdateID = ys_updateID state, yv_Sequence = ys_sequence state, yv_Timestamp = ys_timestamp state,
      yv_MatchingTime = ys_matchingTime state,
      yv_Bids = sortedLocalLevels (ys_bids state) (yb_viewDepth book) True,
      yv_Asks = sortedLocalLevels (ys_asks state) (yb_viewDepth book) False\<rparr>"

definition bybit_sequenceGap :: "bybit_Processor \<Rightarrow> bybit_Processor \<times> bybit_View processed" where
  "bybit_sequenceGap p = (p\<lparr>yp_gapCount := yp_gapCount p + 1, yp_state := None\<rparr>, Reconnecting)"

definition bybit_delta ::
  "bybit_OrderBook \<Rightarrow> int \<Rightarrow> bybit_StreamOrderBook \<Rightarrow> bybit_Processor \<Rightarrow> bybit_Processor \<times> bybit_View processed" where
  "bybit_delta book timestamp event p =
     (case yp_state p of
        None \<Rightarrow> bybit_sequenceGap p
      | Some state \<Rightarrow>
          if yo_UpdateID event = 1 then bybit_sequenceGap p
          else if yo_UpdateID event = ys_updateID state then (p, Quiet)
          else if ys_updateID state = 2 ^ 63 - 1 \<or> yo_UpdateID event \<noteq> ys_updateID state + 1 \<or>
                  yo_Sequence event \<le> ys_sequence state
          then bybit_sequenceGap p
          else case bybit_apply timestamp event (yb_depth book) (ys_bids state, ys_asks state) of
                 Inl err \<Rightarrow> (p, Failed err)
               | Inr state' \<Rightarrow> let p' = p\<lparr>yp_state := Some state'\<rparr> in (p', Shown (bybit_view book p' state')))"

definition bybit_process ::
  "bybit_OrderBook \<Rightarrow> bybit_Processor \<Rightarrow> 64 word \<Rightarrow> string \<Rightarrow> int \<Rightarrow> bybit_StreamOrderBook \<Rightarrow>
   bybit_Processor \<times> bybit_View processed" where
  "bybit_process book p generation messageType timestamp event =
     (if generation = 0 then (p, Failed (validationError ''local order book WebSocket generation is zero'' []))
      else if generation < yp_generation p then (p, Quiet)
      else
        let p = (if yp_generation p = 0 \<or> yp_generation p < generation
                 then p\<lparr>yp_generation := generation, yp_state := None\<rparr> else p)
        in case bybit_validateEvent book messageType event of
             Some err \<Rightarrow> (p, Failed err)
           | None \<Rightarrow>
               if messageType = ''snapshot'' then
                 (case bybit_newState timestamp event (yb_depth book) of
                    Inl err \<Rightarrow> (p, Failed err)
                  | Inr state \<Rightarrow>
                      let p' = p\<lparr>yp_state := Some state, yp_synchronizationID := yp_synchronizationID p + 1\<rparr>
                      in (p', Shown (bybit_view book p' state)))
               else if messageType = ''delta'' then bybit_delta book timestamp event p
               else (p, Failed (validationError ''local order book message type is invalid'' [])))"

definition bybit_DecodeData ::
  "(string \<Rightarrow> bybit_StreamOrderBook result) \<Rightarrow> bybit_StreamMessage \<Rightarrow> bybit_StreamOrderBook result" where
  "bybit_DecodeData Unmarshal message =
     (if ym_Pong message \<or> ym_Data message = [] then Inl (errorText ''Bybit stream message does not contain topic data'')
      else case Unmarshal (ym_Data message) of
             Inl err \<Rightarrow> Inl (Errorf ''decode Bybit stream data: %w'' [] [err])
           | Inr event \<Rightarrow> Inr event)"

text \<open>The message handler of \<open>Run\<close>; the generation is what the stream reports at the time.\<close>

definition bybit_on_message ::
  "(string \<Rightarrow> bybit_StreamOrderBook result) \<Rightarrow> bybit_OrderBook \<Rightarrow> bybit_Processor \<Rightarrow> 64 word \<times> bybit_StreamMessage \<Rightarrow>
   bybit_Processor \<times> bybit_View processed" where
  "bybit_on_message Unmarshal book p = (\<lambda>(generation, message).
     if ym_Operation message \<noteq> [] then
       (if ym_Success message = Some False
        then (p, Failed (Errorf ''Bybit order book subscription failed: %s'' [StrArg (ym_ReturnMessage message)] []))
        else (p, Quiet))
     else if ym_Pong message \<or> ym_Topic message \<noteq> yb_topic book then (p, Quiet)
     else case bybit_DecodeData Unmarshal message of
            Inl err \<Rightarrow> (p, Failed err)
          | Inr event \<Rightarrow> bybit_process book p generation (ym_Type message) (ym_Timestamp message) event)"

definition bybit_init :: bybit_Processor where
  "bybit_init = \<lparr>yp_generation = 0, yp_synchronizationID = 0, yp_gapCount = 0, yp_state = None\<rparr>"

section \<open>A processed stream is a chain of updates\<close>

definition bybit_good :: "bybit_State \<Rightarrow> bool" where
  "bybit_good st \<longleftrightarrow> side_ok (ys_bids st) \<and> side_ok (ys_asks st) \<and> 0 < ys_updateID st"

definition bybit_position :: "bybit_State \<Rightarrow> int \<times> int" where
  "bybit_position st = (ys_updateID st, ys_sequence st)"

definition bybit_sides :: "bybit_State \<Rightarrow> abs_book" where
  "bybit_sides st = (abs_of (ys_bids st), abs_of (ys_asks st))"

definition bybit_follows :: "int \<times> int \<Rightarrow> int \<times> bybit_StreamOrderBook \<Rightarrow> bool" where
  "bybit_follows = (\<lambda>(updateID, seq) (_, ev). yo_UpdateID ev = updateID + 1 \<and> seq < yo_Sequence ev)"

definition bybit_final :: "int \<times> bybit_StreamOrderBook \<Rightarrow> int \<times> int" where
  "bybit_final = (\<lambda>(_, ev). (yo_UpdateID ev, yo_Sequence ev))"

definition bybit_effect :: "bybit_OrderBook \<Rightarrow> int \<times> bybit_StreamOrderBook \<Rightarrow> abs_book \<Rightarrow> abs_book" where
  "bybit_effect book = (\<lambda>(_, ev) b. case abs_levels (yo_Bids ev) (yo_Asks ev) b of (bids, asks) \<Rightarrow>
     (abs_best (nat (yb_depth book)) True bids, abs_best (nat (yb_depth book)) False asks))"

definition bybit_accept :: "bybit_OrderBook \<Rightarrow> bybit_State \<Rightarrow> int \<times> bybit_StreamOrderBook \<Rightarrow> bybit_State option" where
  "bybit_accept book st = (\<lambda>(timestamp, ev).
     if ys_updateID st = 2 ^ 63 - 1 \<or> yo_UpdateID ev \<noteq> ys_updateID st + 1 \<or> yo_Sequence ev \<le> ys_sequence st then None
     else case bybit_apply timestamp ev (yb_depth book) (ys_bids st, ys_asks st) of Inl _ \<Rightarrow> None | Inr st' \<Rightarrow> Some st')"

text \<open>What the decoder finds in a message; the empty event stands for a payload it refuses.\<close>

definition bybit_event ::
  "(string \<Rightarrow> bybit_StreamOrderBook result) \<Rightarrow> 64 word \<times> bybit_StreamMessage \<Rightarrow> int \<times> bybit_StreamOrderBook" where
  "bybit_event Unmarshal m = (ym_Timestamp (snd m),
     case Unmarshal (ym_Data (snd m)) of
       Inr ev \<Rightarrow> ev
     | Inl _ \<Rightarrow> \<lparr>yo_Symbol = [], yo_Bids = [], yo_Asks = [], yo_UpdateID = 0, yo_Sequence = 0, yo_MatchingTime = 0\<rparr>)"

lemma bybit_apply_Inr:
  assumes ok: "side_ok (fst m)" "side_ok (snd m)" and run: "bybit_apply t ev (yb_depth book) m = Inr st"
  shows "side_ok (ys_bids st) \<and> side_ok (ys_asks st) \<and> bybit_position st = bybit_final (t, ev) \<and>
     bybit_sides st = bybit_effect book (t, ev) (abs_of (fst m), abs_of (snd m))"
proof -
  from run obtain bids asks where parts:
    "applyLocalLevels (fst m) (yo_Bids ev) = Inr bids" "applyLocalLevels (snd m) (yo_Asks ev) = Inr asks"
    and st: "ys_bids st = pruneLevels bids (yb_depth book) True" "ys_asks st = pruneLevels asks (yb_depth book) False"
      "ys_updateID st = yo_UpdateID ev" "ys_sequence st = yo_Sequence ev"
    by (auto simp: bybit_apply_def split: sum.splits)
  note refined = applyLocalLevels_refines [OF ok(1) parts(1)] applyLocalLevels_refines [OF ok(2) parts(2)]
  then show ?thesis
    by (simp add: st bybit_position_def bybit_final_def bybit_sides_def bybit_effect_def abs_levels_def
        pruneLevels_spec abs_best_pruneLevels)
qed

lemma bybit_apply_total:
  assumes "list_all fields_ok (yo_Bids ev @ yo_Asks ev)"
  shows "\<exists>st. bybit_apply t ev depth m = Inr st"
proof -
  obtain bids asks where "applyLocalLevels (fst m) (yo_Bids ev) = Inr bids" "applyLocalLevels (snd m) (yo_Asks ev) = Inr asks"
    using assms applyLocalLevels_total by (metis list_all_append)
  then show ?thesis by (simp add: bybit_apply_def)
qed

lemma bybit_validateEvent_ok:
  "bybit_validateEvent book t ev = None \<Longrightarrow>
     0 < yo_UpdateID ev \<and> list_all fields_ok (yo_Bids ev @ yo_Asks ev) \<and> (t = ''snapshot'' \<or> t = ''delta'')"
  by (auto simp: bybit_validateEvent_def checkDepthFields_None split: if_splits)

interpretation bybit: sequenced_book bybit_good bybit_position bybit_sides bybit_follows bybit_final "bybit_effect book"
  "bybit_accept book" for book
proof unfold_locales
  fix st e st'
  assume good: "bybit_good st" and "bybit_accept book st e = Some st'"
  then obtain t ev where e: "e = (t, ev)" "yo_UpdateID ev = ys_updateID st + 1" "ys_sequence st < yo_Sequence ev"
    and run: "bybit_apply t ev (yb_depth book) (ys_bids st, ys_asks st) = Inr st'"
    by (cases e) (auto simp: bybit_accept_def split: if_splits sum.splits)
  have applied: "side_ok (ys_bids st') \<and> side_ok (ys_asks st') \<and> bybit_position st' = bybit_final e \<and>
     bybit_sides st' = bybit_effect book e (bybit_sides st)"
    using bybit_apply_Inr [OF _ _ run] good by (simp add: bybit_good_def bybit_sides_def e)
  then have "ys_updateID st' = yo_UpdateID ev" by (simp add: bybit_position_def bybit_final_def e)
  then show "bybit_good st'" using applied good e by (simp add: bybit_good_def)
  show "bybit_follows (bybit_position st) e" "bybit_position st' = bybit_final e"
    "bybit_sides st' = bybit_effect book e (bybit_sides st)"
    using applied e by (simp_all add: bybit_follows_def bybit_position_def)
qed

text \<open>What one event does to the book: it leaves it alone, replaces it, or extends the chain.\<close>

lemma bybit_delta_live:
  assumes "bybit_delta book t ev p = (p', out)" "yp_state p' = Some st'"
  shows "yp_generation p' = yp_generation p \<and> (yp_state p = Some st' \<or>
     (\<exists>st. yp_state p = Some st \<and> bybit_accept book st (t, ev) = Some st'))"
proof (cases "yp_state p")
  case None
  then show ?thesis using assms by (auto simp: bybit_delta_def bybit_sequenceGap_def)
next
  case (Some st)
  let ?gap = "ys_updateID st = 2 ^ 63 - 1 \<or> yo_UpdateID ev \<noteq> ys_updateID st + 1 \<or> yo_Sequence ev \<le> ys_sequence st"
  show ?thesis
  proof (cases "yo_UpdateID ev = 1 \<or> yo_UpdateID ev = ys_updateID st \<or> ?gap")
    case True
    then have "p' = p \<or> yp_state p' = None"
      using assms(1) unfolding bybit_delta_def Some option.case bybit_sequenceGap_def
      by (elim disjE) (auto split: if_splits)
    with assms(2) show ?thesis by auto
  next
    case False
    then have "?gap = False" "yo_UpdateID ev \<noteq> 1" "yo_UpdateID ev \<noteq> ys_updateID st" by blast+
    with assms Some show ?thesis unfolding bybit_delta_def bybit_accept_def
      by (auto simp: Let_def split: sum.splits)
  qed
qed

lemma bybit_newState_good:
  assumes "bybit_newState t ev (yb_depth book) = Inr st" "0 < yo_UpdateID ev"
  shows "bybit_good st \<and> bybit_position st = bybit_final (t, ev) \<and> bybit_sides st = bybit_effect book (t, ev) abs_empty"
  using bybit_apply_Inr [of "([], [])" t ev book st] assms
  by (simp add: bybit_newState_def bybit_good_def abs_empty_def) (simp add: bybit_position_def bybit_final_def)

lemma bybit_process_live:
  assumes "bybit_process book p g messageType t ev = (p', out)" "yp_state p' = Some st'"
  shows "yp_state p = Some st' \<and> yp_generation p' = yp_generation p \<or>
     messageType = ''snapshot'' \<and> g = yp_generation p' \<and> bybit_good st' \<and> bybit_position st' = bybit_final (t, ev) \<and>
       bybit_sides st' = bybit_effect book (t, ev) abs_empty \<or>
     (\<exists>st. yp_state p = Some st \<and> yp_generation p' = yp_generation p \<and> g = yp_generation p \<and>
        messageType \<noteq> ''snapshot'' \<and> bybit_accept book st (t, ev) = Some st')"
proof -
  let ?q = "if yp_generation p = 0 \<or> yp_generation p < g then p\<lparr>yp_generation := g, yp_state := None\<rparr> else p"
  consider (old) "p' = p" | (error) "p' = ?q"
    | (snapshot) st where "bybit_validateEvent book messageType ev = None" "messageType = ''snapshot''"
        "bybit_newState t ev (yb_depth book) = Inr st" "\<not> g < yp_generation p" "g \<noteq> 0"
        "p' = ?q\<lparr>yp_state := Some st, yp_synchronizationID := yp_synchronizationID p + 1\<rparr>"
    | (delta) "messageType \<noteq> ''snapshot''" "bybit_delta book t ev ?q = (p', out)" "\<not> g < yp_generation p"
    using assms(1) by (fastforce simp: bybit_process_def Let_def split: if_splits option.splits sum.splits)
  then show ?thesis
  proof cases
    case snapshot
    then have "yp_generation p' = g" by auto
    with snapshot assms(2) bybit_newState_good [OF snapshot(3)] bybit_validateEvent_ok [OF snapshot(1)]
    show ?thesis by simp
  next
    case delta
    from bybit_delta_live [OF delta(2) assms(2)] delta(1,3) show ?thesis by (auto split: if_splits)
  qed (use assms(2) in \<open>auto split: if_splits\<close>)
qed

lemma bybit_process_shown:
  "bybit_process book p g messageType t ev = (p', Shown v) \<Longrightarrow> \<exists>st. yp_state p' = Some st \<and> v = bybit_view book p' st"
  by (auto simp: bybit_process_def bybit_delta_def bybit_sequenceGap_def Let_def split: if_splits option.splits sum.splits)

lemma bybit_on_message_cases:
  assumes "bybit_on_message Unmarshal book p m = (p', out)"
  shows "p' = p \<and> shown_views out = [] \<or>
     bybit_process book p (fst m) (ym_Type (snd m)) (fst (bybit_event Unmarshal m)) (snd (bybit_event Unmarshal m)) = (p', out)"
  using assms
  by (auto simp: bybit_on_message_def bybit_DecodeData_def bybit_event_def split: prod.splits if_splits sum.splits)

interpretation bybit_stream: snapshot_stream bybit_good bybit_position bybit_sides bybit_follows bybit_final
  "bybit_effect book" "bybit_accept book" yp_generation yp_state "bybit_on_message Unmarshal book" fst
  "bybit_event Unmarshal" "\<lambda>m. ym_Type (snd m) = ''snapshot''" bybit_final "bybit_view book" for book Unmarshal
proof unfold_locales
  fix p m p' out st'
  assume step: "bybit_on_message Unmarshal book p m = (p', out)" "yp_state p' = Some st'"
  show "yp_state p = Some st' \<and> yp_generation p' = yp_generation p \<or>
      ym_Type (snd m) = ''snapshot'' \<and> fst m = yp_generation p' \<and> bybit_good st' \<and>
      bybit_position st' = bybit_final (bybit_event Unmarshal m) \<and>
      bybit_sides st' = bybit_effect book (bybit_event Unmarshal m) abs_empty \<or>
      (\<exists>st. yp_state p = Some st \<and> yp_generation p' = yp_generation p \<and> fst m = yp_generation p \<and>
        \<not> ym_Type (snd m) = ''snapshot'' \<and> bybit_accept book st (bybit_event Unmarshal m) = Some st')"
    using bybit_on_message_cases [OF step(1)] bybit_process_live [OF _ step(2)] step(2) by fastforce
next
  fix p m p' v
  assume "bybit_on_message Unmarshal book p m = (p', Shown v)"
  from bybit_on_message_cases [OF this] bybit_process_shown
  show "\<exists>st. yp_state p' = Some st \<and> v = bybit_view book p' st" by auto
qed

section \<open>Properties\<close>

text \<open>C6. Every view the Bybit book shows is a snapshot of the connection it names, brought up to date by
  an unbroken chain: each further event raises the update ID by exactly one and the sequence number
  by at least one, all came after the snapshot on the same connection, and the shown sides are the
  best levels of what the chain makes of the snapshot, cut to the subscribed depth after each event.\<close>

theorem bybit_views_gapless:
  assumes "v \<in> set (snd (stream_run (bybit_on_message Unmarshal book) bybit_init ms))"
  shows "\<exists>before m after evs. ms = before @ m # after \<and> ym_Type (snd m) = ''snapshot'' \<and> fst m = yv_Generation v \<and>
     subseq evs (map (bybit_event Unmarshal)
       (filter (\<lambda>x. fst x = yv_Generation v \<and> ym_Type (snd x) \<noteq> ''snapshot'') after)) \<and>
     chained (\<lambda>(updateID, seq) (_, ev). yo_UpdateID ev = updateID + 1 \<and> seq < yo_Sequence ev) bybit_final
       (bybit_final (bybit_event Unmarshal m)) evs \<and>
     (yv_UpdateID v, yv_Sequence v) = end_of bybit_final (bybit_final (bybit_event Unmarshal m)) evs \<and>
     view_of (fst (fold (bybit_effect book) evs (bybit_effect book (bybit_event Unmarshal m) abs_empty)))
       (yb_viewDepth book) True (yv_Bids v) \<and>
     view_of (snd (fold (bybit_effect book) evs (bybit_effect book (bybit_event Unmarshal m) abs_empty)))
       (yb_viewDepth book) False (yv_Asks v)"
proof -
  have "yp_state bybit_init = None" by (simp add: bybit_init_def)
  from bybit_stream.run_streamed [OF this, of Unmarshal book ms] assms
  obtain p st where v: "v = bybit_view book p st" and st: "bybit_stream.streamed book Unmarshal ms (yp_generation p) st"
    by blast
  have shown: "yv_Generation v = yp_generation p" "(yv_UpdateID v, yv_Sequence v) = bybit_position st"
    "yv_Bids v = sortedLocalLevels (ys_bids st) (yb_viewDepth book) True"
    "yv_Asks v = sortedLocalLevels (ys_asks st) (yb_viewDepth book) False"
    by (simp_all add: v bybit_view_def bybit_position_def)
  have "view_of (fst (bybit_sides st)) (yb_viewDepth book) True (yv_Bids v)"
    "view_of (snd (bybit_sides st)) (yb_viewDepth book) False (yv_Asks v)"
    using bybit_stream.streamed_good [OF st]
    by (simp_all add: shown bybit_good_def bybit_sides_def sortedLocalLevels_view)
  moreover from st obtain before m after evs where "ms = before @ m # after" "ym_Type (snd m) = ''snapshot''"
    "fst m = yp_generation p"
    "subseq evs (map (bybit_event Unmarshal)
       (filter (\<lambda>x. fst x = yp_generation p \<and> ym_Type (snd x) \<noteq> ''snapshot'') after))"
    "chained bybit_follows bybit_final (bybit_final (bybit_event Unmarshal m)) evs"
    "bybit_position st = end_of bybit_final (bybit_final (bybit_event Unmarshal m)) evs"
    "bybit_sides st = fold (bybit_effect book) evs (bybit_effect book (bybit_event Unmarshal m) abs_empty)"
    unfolding bybit_stream.streamed_def bybit.tracks_def by blast
  ultimately show ?thesis
    unfolding shown(1,2) bybit_follows_def [symmetric]
    by (intro exI conjI) (assumption | simp only:)+
qed

definition bybit_demo_book :: bybit_OrderBook where
  "bybit_demo_book = \<lparr>yb_category = ''spot'', yb_symbol = ''B'', yb_depth = 50, yb_viewDepth = 1, yb_routeID = ''r'',
     yb_topic = ''orderbook.50.B''\<rparr>"

definition bybit_demo_unmarshal :: "string \<Rightarrow> bybit_StreamOrderBook result" where
  "bybit_demo_unmarshal s =
     (if s = ''s'' then Inr \<lparr>yo_Symbol = ''B'', yo_Bids = [[''1'', ''5'']], yo_Asks = [[''3'', ''4'']], yo_UpdateID = 7,
        yo_Sequence = 20, yo_MatchingTime = 0\<rparr>
      else if s = ''d'' then Inr \<lparr>yo_Symbol = ''B'', yo_Bids = [[''1'', ''0'']], yo_Asks = [[''2'', ''1'']], yo_UpdateID = 8,
        yo_Sequence = 25, yo_MatchingTime = 0\<rparr>
      else Inl (errorText ''invalid''))"

definition bybit_demo_message :: "string \<Rightarrow> string \<Rightarrow> 64 word \<times> bybit_StreamMessage" where
  "bybit_demo_message kind payload = (1, \<lparr>ym_Topic = ''orderbook.50.B'', ym_Type = kind, ym_Timestamp = 0, ym_CreationTime = 0,
     ym_Operation = [], ym_RequestID = [], ym_ConnectionID = [], ym_Success = None, ym_ReturnMessage = [],
     ym_Data = payload, ym_Pong = False\<rparr>)"

definition bybit_demo :: "(64 word \<times> bybit_StreamMessage) list" where
  "bybit_demo = [bybit_demo_message ''snapshot'' ''s'', bybit_demo_message ''delta'' ''d'']"

definition bybit_demo_view :: bybit_View where
  "bybit_demo_view = \<lparr>yv_Category = ''spot'', yv_Symbol = ''B'', yv_Depth = 50, yv_Generation = 1, yv_SynchronizationID = 1,
     yv_GapCount = 0, yv_UpdateID = 8, yv_Sequence = 25, yv_Timestamp = 0, yv_MatchingTime = 0, yv_Bids = [],
     yv_Asks = [(''2'', ''1'')]\<rparr>"

lemma bybit_demo_shown:
  "list_ex (\<lambda>v. v = bybit_demo_view)
     (snd (stream_run (bybit_on_message bybit_demo_unmarshal bybit_demo_book) bybit_init bybit_demo))"
  by code_simp

theorem bybit_views_gapless_witness:
  "\<exists>before m after evs. bybit_demo = before @ m # after \<and> ym_Type (snd m) = ''snapshot'' \<and> fst m = 1 \<and>
     chained (\<lambda>(updateID, seq) (_, ev). yo_UpdateID ev = updateID + 1 \<and> seq < yo_Sequence ev) bybit_final
       (bybit_final (bybit_event bybit_demo_unmarshal m)) evs \<and>
     (8, 25) = end_of bybit_final (bybit_final (bybit_event bybit_demo_unmarshal m)) evs"
proof -
  have "bybit_demo_view \<in> set (snd (stream_run (bybit_on_message bybit_demo_unmarshal bybit_demo_book) bybit_init bybit_demo))"
    using bybit_demo_shown unfolding list_ex_iff by blast
  from bybit_views_gapless [OF this]
  have "\<exists>before m after evs. bybit_demo = before @ m # after \<and> ym_Type (snd m) = ''snapshot'' \<and>
     fst m = yv_Generation bybit_demo_view \<and>
     chained (\<lambda>(updateID, seq) (_, ev). yo_UpdateID ev = updateID + 1 \<and> seq < yo_Sequence ev) bybit_final
       (bybit_final (bybit_event bybit_demo_unmarshal m)) evs \<and>
     (yv_UpdateID bybit_demo_view, yv_Sequence bybit_demo_view) =
       end_of bybit_final (bybit_final (bybit_event bybit_demo_unmarshal m)) evs" by blast
  then show ?thesis unfolding bybit_demo_view_def bybit_View.select_convs .
qed

text \<open>What a gap leaves behind.\<close>

definition bybit_gap :: "bybit_Processor \<Rightarrow> bybit_Processor \<times> bybit_View processed \<Rightarrow> bool" where
  "bybit_gap p res \<longleftrightarrow> snd res = Reconnecting \<and> yp_state (fst res) = None \<and> yp_gapCount (fst res) = yp_gapCount p + 1"

definition bybit_shows :: "bybit_StreamOrderBook \<Rightarrow> bybit_Processor \<times> bybit_View processed \<Rightarrow> bool" where
  "bybit_shows ev res \<longleftrightarrow> (\<exists>v st. snd res = Shown v \<and> yp_state (fst res) = Some st \<and> ys_updateID st = yo_UpdateID ev \<and>
     yv_UpdateID v = yo_UpdateID ev \<and> yv_Sequence v = yo_Sequence ev)"

lemma bybit_apply_shows:
  assumes "bybit_apply t ev depth m = Inr st" "yp_state p' = Some st"
  shows "bybit_shows ev (p', Shown (bybit_view book p' st))"
  using assms by (auto simp: bybit_shows_def bybit_view_def bybit_apply_def split: sum.splits)

lemma bybit_delta_gap:
  assumes "yp_state p = None \<or> yo_UpdateID ev = 1 \<or>
     (\<exists>st. yp_state p = Some st \<and> yo_UpdateID ev \<noteq> ys_updateID st \<and>
        (ys_updateID st = 2 ^ 63 - 1 \<or> yo_UpdateID ev \<noteq> ys_updateID st + 1 \<or> yo_Sequence ev \<le> ys_sequence st))"
  shows "bybit_delta book t ev p = bybit_sequenceGap p"
  unfolding bybit_delta_def using assms by (elim disjE exE conjE) (simp_all split: option.splits)

lemma bybit_sequenceGap_gap: "bybit_gap p (bybit_sequenceGap p)"
  by (simp add: bybit_gap_def bybit_sequenceGap_def)

lemma bybit_delta_generation: "yp_generation (fst (bybit_delta book t ev p)) = yp_generation p"
  unfolding bybit_delta_def bybit_sequenceGap_def Let_def by (simp split: option.split sum.split)

lemma bybit_delta_shows:
  assumes "yp_state p = Some st" "yo_UpdateID ev \<noteq> 1" "list_all fields_ok (yo_Bids ev @ yo_Asks ev)"
    and "yo_UpdateID ev = ys_updateID st + 1" "ys_updateID st \<noteq> 2 ^ 63 - 1" "ys_sequence st < yo_Sequence ev"
  shows "bybit_shows ev (bybit_delta book t ev p)"
proof -
  obtain st' where st': "bybit_apply t ev (yb_depth book) (ys_bids st, ys_asks st) = Inr st'"
    using bybit_apply_total [OF assms(3)] by blast
  have "yo_UpdateID ev \<noteq> ys_updateID st" "\<not> yo_Sequence ev \<le> ys_sequence st" using assms(4,6) by simp_all
  with assms st' have "bybit_delta book t ev p =
      (p\<lparr>yp_state := Some st'\<rparr>, Shown (bybit_view book (p\<lparr>yp_state := Some st'\<rparr>) st'))"
    unfolding bybit_delta_def by (simp add: Let_def)
  with bybit_apply_shows [OF st'] show ?thesis by simp
qed

text \<open>A valid event on the current connection or a newer one never ends the Bybit book. A snapshot is shown. A delta
  is shown when it continues a book of the same connection by exactly one update ID with a larger
  sequence number; one that repeats the last update ID changes nothing; every other delta discards the
  book, counts a gap, and asks for a new connection. The last update ID of the type is never followed.\<close>

theorem bybit_process_outcome:
  assumes valid: "bybit_validateEvent book kind ev = None" and g: "g \<noteq> 0" "yp_generation p \<le> g"
  shows "yp_generation (fst (bybit_process book p g kind t ev)) = g \<and>
     (if kind = ''snapshot''
      then bybit_shows ev (bybit_process book p g kind t ev) \<and>
        yp_synchronizationID (fst (bybit_process book p g kind t ev)) = yp_synchronizationID p + 1
      else case (if g = yp_generation p then yp_state p else None) of
             None \<Rightarrow> bybit_gap p (bybit_process book p g kind t ev)
           | Some st \<Rightarrow>
               if yo_UpdateID ev \<noteq> 1 \<and> yo_UpdateID ev = ys_updateID st
               then bybit_process book p g kind t ev = (p, Quiet)
               else if yo_UpdateID ev \<noteq> 1 \<and> yo_UpdateID ev = ys_updateID st + 1 \<and> ys_updateID st \<noteq> 2 ^ 63 - 1 \<and>
                 ys_sequence st < yo_Sequence ev
               then bybit_shows ev (bybit_process book p g kind t ev)
               else bybit_gap p (bybit_process book p g kind t ev))"
proof -
  let ?q = "if yp_generation p = 0 \<or> yp_generation p < g then p\<lparr>yp_generation := g, yp_state := None\<rparr> else p"
  have q: "yp_generation ?q = g" "yp_gapCount ?q = yp_gapCount p" "yp_synchronizationID ?q = yp_synchronizationID p"
    "yp_state ?q = (if g = yp_generation p then yp_state p else None)" "g = yp_generation p \<Longrightarrow> ?q = p"
    using g by auto
  note valid' = bybit_validateEvent_ok [OF valid]
  show ?thesis
  proof (cases "kind = ''snapshot''")
    case True
    obtain st where st: "bybit_newState t ev (yb_depth book) = Inr st"
      using bybit_apply_total [of ev t "yb_depth book" "([], [])"] valid' unfolding bybit_newState_def by blast
    let ?p' = "?q\<lparr>yp_state := Some st, yp_synchronizationID := yp_synchronizationID p + 1\<rparr>"
    have "bybit_process book p g kind t ev = (?p', Shown (bybit_view book ?p' st))"
      unfolding bybit_process_def Let_def using g valid True st q(3) by (simp add: not_less)
    moreover have "bybit_shows ev (?p', Shown (bybit_view book ?p' st))"
      using bybit_apply_shows st by (simp add: bybit_newState_def)
    ultimately show ?thesis using True q(1) by simp
  next
    case False
    have run: "bybit_process book p g kind t ev = bybit_delta book t ev ?q"
      unfolding bybit_process_def Let_def using g valid False valid' not_le [of "yp_generation p" g] by auto
    have gen: "yp_generation (fst (bybit_delta book t ev ?q)) = g"
      using bybit_delta_generation q(1) by metis
    have gap: "bybit_gap p (bybit_delta book t ev ?q)" if "bybit_delta book t ev ?q = bybit_sequenceGap ?q"
      using bybit_sequenceGap_gap [of ?q] q(2) that by (simp add: bybit_gap_def)
    show ?thesis
    proof (cases "yp_state ?q")
      case None
      then have "bybit_gap p (bybit_delta book t ev ?q)" by (intro gap bybit_delta_gap) simp
      then show ?thesis unfolding run q(4) [symmetric] None using gen False by simp
    next
      case (Some st)
      then have same: "?q = p" using q(4,5) by (auto split: if_splits)
      have quiet: "bybit_delta book t ev p = (p, Quiet)" if "yo_UpdateID ev \<noteq> 1" "yo_UpdateID ev = ys_updateID st"
        using that Some unfolding same bybit_delta_def by simp
      show ?thesis unfolding run q(4) [symmetric] Some using gen False quiet bybit_delta_shows [OF Some] valid' gap
          bybit_delta_gap [of ?q ev book t] Some by (auto simp: same simp del: One_nat_def)
    qed
  qed
qed


theorem bybit_process_outcome_witness:
  "bybit_gap bybit_init (bybit_process bybit_demo_book bybit_init 1 ''delta'' 0
     (case bybit_demo_unmarshal ''d'' of Inr ev \<Rightarrow> ev))"
proof -
  have "bybit_validateEvent bybit_demo_book ''delta'' (case bybit_demo_unmarshal ''d'' of Inr ev \<Rightarrow> ev) = None"
    by code_simp
  from bybit_process_outcome [OF this, of 1 bybit_init 0] show ?thesis by (simp add: bybit_init_def)
qed

end
