(* ===== verification/Kraken_Book.thy ===== *)
theory Kraken_Book
  imports Sequenced_Book Bybit_Stream "HOL-Library.Word"
begin

unbundle bit_operations_syntax

text \<open>
  The Kraken Spot local order book (\<open>exchange/kraken/local_order_book.go\<close>): snapshots and updates on one
  stream that carry no sequence number but a CRC-32 of the ten best levels of both sides. A book is shown only
  while its own checksum is the one the exchange sent.

  CRC-32 is that of \<open>hash/crc32\<close> with the IEEE polynomial, one bit at a time. \<open>time.Parse\<close> and the JSON
  decoder are parameters. A message holds several events; the caller's handler takes every view. An event whose
  levels fail half way would leave a half updated map behind; \<open>validateEvent\<close> parses all levels first, so that
  this does not happen (\<open>kraken_applyLevels_total\<close>).
\<close>

section \<open>Subscriptions\<close>

record SpotPublicSubscription =
  ks_Channel :: string
  ks_Symbols :: "string list"
  ks_Depth :: int
  ks_Interval :: int
  ks_EventTrigger :: string
  ks_Snapshot :: "bool option"

definition validateSpotStreamSymbol :: "string \<Rightarrow> go_error option" where
  "validateSpotStreamSymbol symbol =
     (if length symbol < 3 \<or> 32 < length symbol \<or> TrimSpace symbol \<noteq> symbol \<or> contains_control symbol \<or> CHR ''/'' \<notin> set symbol
      then Some (validationError ''Spot WebSocket symbol has an invalid format'' [])
      else if list_all (\<lambda>c. 65 \<le> (of_char c :: nat) \<and> (of_char c :: nat) \<le> 90 \<or> 48 \<le> (of_char c :: nat) \<and> (of_char c :: nat) \<le> 57 \<or>
                c = CHR ''/'' \<or> c = CHR ''.'' \<or> c = CHR ''-'' \<or> c = CHR ''_'') symbol
      then None
      else Some (validationError ''Spot WebSocket symbol has an invalid format'' []))"

text \<open>The loop over the sorted symbols; \<open>previous\<close> is the symbol before.\<close>

fun check_spot_symbols :: "string option \<Rightarrow> string list \<Rightarrow> go_error option" where
  "check_spot_symbols previous [] = None"
| "check_spot_symbols previous (symbol # rest) =
     (case validateSpotStreamSymbol symbol of
        Some err \<Rightarrow> Some err
      | None \<Rightarrow>
          if previous = Some symbol then Some (validationError ''duplicate Spot WebSocket symbol %q'' [StrArg symbol])
          else check_spot_symbols (Some symbol) rest)"

definition validSpotOHLCInterval :: "int \<Rightarrow> bool" where
  "validSpotOHLCInterval interval \<longleftrightarrow> interval \<in> {1, 5, 15, 30, 60, 240, 1440, 10080, 21600}"

definition validateSpotPublicSubscription :: "SpotPublicSubscription \<Rightarrow> SpotPublicSubscription result" where
  "validateSpotPublicSubscription subscription =
     (let channel = ks_Channel subscription;
          known = (if channel \<in> set [''ticker'', ''book'', ''trade'', ''ohlc''] then
              (if ks_Symbols subscription = [] \<or> 100 < length (ks_Symbols subscription)
               then Some (validationError ''Spot WebSocket symbol count must be between 1 and %d'' [IntArg 100]) else None)
            else if channel = ''instrument'' then
              (if ks_Symbols subscription \<noteq> [] then Some (validationError ''instrument channel does not accept symbols'' []) else None)
            else Some (validationError ''unsupported Spot public WebSocket channel %q'' [StrArg channel]));
          symbols = sort (ks_Symbols subscription)
      in case known of
           Some err \<Rightarrow> Inl err
         | None \<Rightarrow>
             (case check_spot_symbols None symbols of
                Some err \<Rightarrow> Inl err
              | None \<Rightarrow>
                  if channel = ''book'' \<and> ks_Depth subscription \<notin> {0, 10, 25, 100, 500, 1000}
                  then Inl (validationError ''unsupported Spot book depth %d'' [IntArg (ks_Depth subscription)])
                  else if channel \<noteq> ''book'' \<and> ks_Depth subscription \<noteq> 0
                  then Inl (validationError ''depth is available only for Spot book channel'' [])
                  else if channel = ''ohlc'' \<and> \<not> validSpotOHLCInterval (ks_Interval subscription)
                  then Inl (validationError ''unsupported Spot OHLC interval %d'' [IntArg (ks_Interval subscription)])
                  else if channel \<noteq> ''ohlc'' \<and> ks_Interval subscription \<noteq> 0
                  then Inl (validationError ''interval is available only for Spot OHLC channel'' [])
                  else if channel = ''ticker'' \<and> ks_EventTrigger subscription \<noteq> [] \<and> ks_EventTrigger subscription \<noteq> ''trades'' \<and>
                    ks_EventTrigger subscription \<noteq> ''bbo''
                  then Inl (validationError ''unsupported Spot ticker event trigger %q'' [StrArg (ks_EventTrigger subscription)])
                  else if channel \<noteq> ''ticker'' \<and> ks_EventTrigger subscription \<noteq> []
                  then Inl (validationError ''event trigger is available only for Spot ticker channel'' [])
                  else Inr (subscription\<lparr>ks_Symbols := symbols\<rparr>)))"

definition effectiveSpotBookDepth :: "int \<Rightarrow> int" where
  "effectiveSpotBookDepth depth = (if depth = 0 then 10 else depth)"

definition kraken_hasBookSubscription :: "SpotPublicSubscription list \<Rightarrow> string \<Rightarrow> int \<Rightarrow> bool" where
  "kraken_hasBookSubscription subscriptions symbol depth \<longleftrightarrow>
     list_ex (\<lambda>s. ks_Channel s = ''book'' \<and> effectiveSpotBookDepth (ks_Depth s) = depth \<and> ks_Snapshot s \<noteq> Some False \<and>
       symbol \<in> set (ks_Symbols s)) subscriptions"

section \<open>Data\<close>

record kraken_OrderBookConfig =
  kc_Symbol :: string
  kc_Depth :: int
  kc_ViewDepth :: int
  kc_EgressRouteID :: EgressRouteID

record kraken_View =
  kv_Symbol :: string
  kv_Depth :: int
  kv_ViewDepth :: int
  kv_Generation :: "64 word"
  kv_SynchronizationID :: "64 word"
  kv_GapCount :: "64 word"
  kv_Checksum :: "32 word"
  kv_Timestamp :: string
  kv_Bids :: "(string \<times> string) list"
  kv_Asks :: "(string \<times> string) list"

record kraken_OrderBook =
  kb_symbol :: string
  kb_depth :: int
  kb_viewDepth :: int
  kb_routeID :: EgressRouteID

text \<open>A level is its price and its quantity.\<close>

record SpotStreamBook =
  ko_Symbol :: string
  ko_Bids :: "(string \<times> string) list"
  ko_Asks :: "(string \<times> string) list"
  ko_Checksum :: "32 word"
  ko_Timestamp :: string

record SpotStreamMessage =
  km_Channel :: string
  km_Type :: string
  km_Data :: string

record kraken_State =
  kt_bids :: depth_side
  kt_asks :: depth_side
  kt_checksum :: "32 word"
  kt_timestamp :: string

record kraken_Processor =
  kp_generation :: "64 word"
  kp_synchronizationID :: "64 word"
  kp_gapCount :: "64 word"
  kp_state :: "kraken_State option"

section \<open>Checksums\<close>

definition crc_bit :: "32 word \<Rightarrow> 32 word" where
  "crc_bit c = (if bit c 0 then drop_bit 1 c XOR 0xEDB88320 else drop_bit 1 c)"

definition crc_byte :: "32 word \<Rightarrow> char \<Rightarrow> 32 word" where
  "crc_byte c b = (crc_bit ^^ 8) (c XOR of_nat (of_char b))"

definition crc32_ChecksumIEEE :: "string \<Rightarrow> 32 word" where
  "crc32_ChecksumIEEE s = NOT (foldl crc_byte (NOT 0) s)"

definition spotChecksumDecimal :: "string \<Rightarrow> string" where
  "spotChecksumDecimal s = dropWhile (\<lambda>c. c = CHR ''0'') (filter (\<lambda>c. c \<noteq> CHR ''.'') s)"

definition checksumLevels :: "depth_side \<Rightarrow> bool \<Rightarrow> string" where
  "checksumLevels values descending =
     concat (map (\<lambda>l. spotChecksumDecimal (ll_priceText l) @ spotChecksumDecimal (ll_quantityText l))
       (take 10 (orderedLevels values descending)))"

definition spotLocalOrderBookChecksum :: "depth_side \<Rightarrow> depth_side \<Rightarrow> 32 word" where
  "spotLocalOrderBookChecksum asks bids = crc32_ChecksumIEEE (checksumLevels asks False @ checksumLevels bids True)"

section \<open>Levels\<close>

definition decimalIsZero :: "string \<Rightarrow> bool" where
  "decimalIsZero s \<longleftrightarrow> Trim s ''0.'' = []"

definition kraken_parseLevel :: "string \<times> string \<Rightarrow> (string \<times> localDepthLevel) result" where
  "kraken_parseLevel = (\<lambda>(priceText, quantityText).
     if \<not> positiveDecimalPattern priceText \<or> decimalIsZero priceText \<or> \<not> positiveDecimalPattern quantityText
     then Inl (validationError ''Spot local order book level is invalid'' [])
     else case Rat_SetString priceText of
            None \<Rightarrow> Inl (validationError ''Spot local order book price is invalid'' [])
          | Some price \<Rightarrow>
              if price \<le> 0 then Inl (validationError ''Spot local order book price is invalid'' [])
              else Inr (Rat_RatString price, \<lparr>ll_priceText = priceText, ll_quantityText = quantityText, ll_price = price\<rparr>))"

definition kraken_applyLevel :: "depth_side \<Rightarrow> string \<times> string \<Rightarrow> depth_side result" where
  "kraken_applyLevel levels val =
     (case kraken_parseLevel val of
        Inl err \<Rightarrow> Inl err
      | Inr (key, level) \<Rightarrow>
          if decimalIsZero (ll_quantityText level) then Inr (AList.delete key levels)
          else Inr (AList.update key level levels))"

fun kraken_applyLevels :: "depth_side \<Rightarrow> (string \<times> string) list \<Rightarrow> depth_side result" where
  "kraken_applyLevels levels [] = Inr levels"
| "kraken_applyLevels levels (l # rest) =
     (case kraken_applyLevel levels l of
        Inl err \<Rightarrow> Inl err
      | Inr levels' \<Rightarrow> kraken_applyLevels levels' rest)"

fun kraken_checkLevels :: "(string \<times> string) list \<Rightarrow> go_error option" where
  "kraken_checkLevels [] = None"
| "kraken_checkLevels (l # rest) = (case kraken_parseLevel l of Inl err \<Rightarrow> Some err | Inr _ \<Rightarrow> kraken_checkLevels rest)"

definition kraken_prune :: "depth_side \<Rightarrow> int \<Rightarrow> bool \<Rightarrow> depth_side" where
  "kraken_prune values depth descending =
     fold (\<lambda>l m. AList.delete (Rat_RatString (ll_price l)) m) (drop (nat depth) (orderedLevels values descending)) values"

definition kraken_sortedLevels :: "depth_side \<Rightarrow> int \<Rightarrow> bool \<Rightarrow> (string \<times> string) list" where
  "kraken_sortedLevels values depth descending =
     map (\<lambda>l. (ll_priceText l, ll_quantityText l)) (take (nat depth) (orderedLevels values descending))"

section \<open>Operations\<close>

definition NewSpotLocalOrderBook :: "kraken_OrderBookConfig \<Rightarrow> kraken_OrderBook result" where
  "NewSpotLocalOrderBook config =
     (case validateSpotPublicSubscription \<lparr>ks_Channel = ''book'', ks_Symbols = [kc_Symbol config], ks_Depth = kc_Depth config,
             ks_Interval = 0, ks_EventTrigger = [], ks_Snapshot = None\<rparr> of
        Inl err \<Rightarrow> Inl err
      | Inr subscription \<Rightarrow>
          let depth = effectiveSpotBookDepth (ks_Depth subscription);
              route = TrimSpace (kc_EgressRouteID config)
          in if route = [] then Inl (Sentinel ErrMissingEgressRoute)
             else
               let viewDepth = (if kc_ViewDepth config = 0 then (if depth < 20 then depth else 20) else kc_ViewDepth config)
               in if viewDepth < 1 \<or> depth < viewDepth
                  then Inl (validationError ''Spot local order book view depth must not exceed subscribed depth'' [])
                  else Inr \<lparr>kb_symbol = ks_Symbols subscription ! 0, kb_depth = depth, kb_viewDepth = viewDepth, kb_routeID = route\<rparr>)"

definition kraken_validateEvent ::
  "(string \<Rightarrow> bool) \<Rightarrow> kraken_OrderBook \<Rightarrow> string \<Rightarrow> SpotStreamBook \<Rightarrow> go_error option" where
  "kraken_validateEvent isTime book messageType event =
     (if messageType \<noteq> ''snapshot'' \<and> messageType \<noteq> ''update''
      then Some (validationError ''Spot local order book message type is invalid'' [])
      else if ko_Symbol event \<noteq> kb_symbol book then Some (validationError ''Spot local order book symbol is invalid'' [])
      else if messageType = ''snapshot'' \<and>
              (kb_depth book < int (length (ko_Bids event)) \<or> kb_depth book < int (length (ko_Asks event)))
      then Some (validationError ''Spot local order book snapshot exceeds subscribed depth'' [])
      else if \<not> isTime (ko_Timestamp event) then Some (validationError ''Spot local order book timestamp is invalid'' [])
      else kraken_checkLevels (ko_Bids event @ ko_Asks event))"

definition kraken_apply :: "SpotStreamBook \<Rightarrow> int \<Rightarrow> depth_side \<times> depth_side \<Rightarrow> kraken_State result" where
  "kraken_apply event depth = (\<lambda>(bids, asks).
     case kraken_applyLevels bids (ko_Bids event) of
       Inl err \<Rightarrow> Inl err
     | Inr bids \<Rightarrow>
         (case kraken_applyLevels asks (ko_Asks event) of
            Inl err \<Rightarrow> Inl err
          | Inr asks \<Rightarrow>
              let bids = kraken_prune bids depth True; asks = kraken_prune asks depth False
              in Inr \<lparr>kt_bids = bids, kt_asks = asks, kt_checksum = spotLocalOrderBookChecksum asks bids,
                      kt_timestamp = ko_Timestamp event\<rparr>))"

definition kraken_view :: "kraken_OrderBook \<Rightarrow> kraken_Processor \<Rightarrow> kraken_State \<Rightarrow> kraken_View" where
  "kraken_view book p state =
     \<lparr>kv_Symbol = kb_symbol book, kv_Depth = kb_depth book, kv_ViewDepth = kb_viewDepth book,
      kv_Generation = kp_generation p, kv_SynchronizationID = kp_synchronizationID p, kv_GapCount = kp_gapCount p,
      kv_Checksum = kt_checksum state, kv_Timestamp = kt_timestamp state,
      kv_Bids = kraken_sortedLevels (kt_bids state) (kb_viewDepth book) True,
      kv_Asks = kraken_sortedLevels (kt_asks state) (kb_viewDepth book) False\<rparr>"

definition kraken_checksumGap :: "kraken_Processor \<Rightarrow> kraken_Processor \<times> kraken_View processed" where
  "kraken_checksumGap p = (p\<lparr>kp_gapCount := kp_gapCount p + 1, kp_state := None\<rparr>, Reconnecting)"

definition kraken_process ::
  "(string \<Rightarrow> bool) \<Rightarrow> kraken_OrderBook \<Rightarrow> kraken_Processor \<Rightarrow> 64 word \<Rightarrow> string \<Rightarrow> SpotStreamBook \<Rightarrow>
   kraken_Processor \<times> kraken_View processed" where
  "kraken_process isTime book p generation messageType event =
     (if generation = 0 then (p, Failed (validationError ''Spot local order book WebSocket generation is zero'' []))
      else if generation < kp_generation p then (p, Quiet)
      else
        let p = (if kp_generation p = 0 \<or> kp_generation p < generation
                 then p\<lparr>kp_generation := generation, kp_state := None\<rparr> else p)
        in case kraken_validateEvent isTime book messageType event of
             Some err \<Rightarrow> (p, Failed err)
           | None \<Rightarrow>
               if messageType = ''snapshot'' then
                 (case kraken_apply event (kb_depth book) ([], []) of
                    Inl err \<Rightarrow> (p, Failed err)
                  | Inr state \<Rightarrow>
                      if kt_checksum state \<noteq> ko_Checksum event then kraken_checksumGap p
                      else let p' = p\<lparr>kp_state := Some state, kp_synchronizationID := kp_synchronizationID p + 1\<rparr>
                           in (p', Shown (kraken_view book p' state)))
               else if messageType = ''update'' then
                 (case kp_state p of
                    None \<Rightarrow> kraken_checksumGap p
                  | Some state \<Rightarrow>
                      (case kraken_apply event (kb_depth book) (kt_bids state, kt_asks state) of
                         Inl err \<Rightarrow> (p, Failed err)
                       | Inr state' \<Rightarrow>
                           if kt_checksum state' \<noteq> ko_Checksum event then kraken_checksumGap p
                           else let p' = p\<lparr>kp_state := Some state'\<rparr> in (p', Shown (kraken_view book p' state'))))
               else (p, Failed (validationError ''Spot local order book message type is invalid'' [])))"

text \<open>One round of the loop over the events of a message; events of other symbols are skipped. The loop ends at the
  first error or reconnection (\<open>run_events\<close>).\<close>

definition kraken_event ::
  "(string \<Rightarrow> bool) \<Rightarrow> kraken_OrderBook \<Rightarrow> kraken_Processor \<Rightarrow> 64 word \<times> string \<times> SpotStreamBook \<Rightarrow>
   kraken_Processor \<times> kraken_View processed" where
  "kraken_event isTime book p = (\<lambda>(generation, messageType, event).
     if ko_Symbol event \<noteq> kb_symbol book then (p, Quiet)
     else kraken_process isTime book p generation messageType event)"

definition kraken_DecodeData ::
  "(string \<Rightarrow> SpotStreamBook list result) \<Rightarrow> SpotStreamMessage \<Rightarrow> SpotStreamBook list result" where
  "kraken_DecodeData Unmarshal message =
     (if km_Data message = [] then Inl (errorText ''Kraken Spot stream message does not contain channel data'')
      else case Unmarshal (km_Data message) of
             Inl err \<Rightarrow> Inl (Errorf ''decode Kraken Spot stream data: %w'' [] [err])
           | Inr events \<Rightarrow> Inr events)"

text \<open>The message handler of \<open>Run\<close>: the views it shows, and how it ends.\<close>

definition kraken_on_message ::
  "(string \<Rightarrow> SpotStreamBook list result) \<Rightarrow> (string \<Rightarrow> bool) \<Rightarrow> kraken_OrderBook \<Rightarrow> kraken_Processor \<Rightarrow>
   64 word \<times> SpotStreamMessage \<Rightarrow> kraken_Processor \<times> kraken_View list \<times> kraken_View processed" where
  "kraken_on_message Unmarshal isTime book p = (\<lambda>(generation, message).
     if km_Channel message \<noteq> ''book'' then (p, [], Quiet)
     else case kraken_DecodeData Unmarshal message of
            Inl err \<Rightarrow> (p, [], Failed err)
          | Inr [] \<Rightarrow> (p, [], Failed (validationError ''Spot local order book message data is empty'' []))
          | Inr events \<Rightarrow>
              run_events (kraken_event isTime book) p (map (\<lambda>e. (generation, km_Type message, e)) events))"

definition kraken_init :: kraken_Processor where
  "kraken_init = \<lparr>kp_generation = 0, kp_synchronizationID = 0, kp_gapCount = 0, kp_state = None\<rparr>"

section \<open>The checksum notices a changed character\<close>

lemma crc_bit_inj: "crc_bit c = crc_bit d \<Longrightarrow> c = d"
proof -
  assume eq: "crc_bit c = crc_bit d"
  have top: "bit (crc_bit c) 31 \<longleftrightarrow> bit c 0" for c
    by (auto simp: crc_bit_def bit_xor_iff bit_drop_bit_eq bit_simps dest: bit_imp_le_length)
  then have low: "bit c 0 \<longleftrightarrow> bit d 0" using eq by metis
  then have "drop_bit 1 c = drop_bit 1 d"
    using eq by (auto simp: crc_bit_def split: if_splits) (metis (no_types, lifting) bit.xor_left_self xor.commute)
  then have high: "bit c (Suc n) \<longleftrightarrow> bit d (Suc n)" for n by (metis bit_drop_bit_eq comp_apply plus_1_eq_Suc)
  show "c = d"
  proof (rule bit_eqI)
    fix n show "bit c n \<longleftrightarrow> bit d n" using low high by (cases n) auto
  qed
qed

lemma crc_bits_inj: "(crc_bit ^^ n) c = (crc_bit ^^ n) d \<Longrightarrow> c = d"
  by (induction n arbitrary: c d) (auto dest: crc_bit_inj)

lemma crc_foldl_inj: "foldl crc_byte c s = foldl crc_byte d s \<Longrightarrow> c = d"
proof (induction s arbitrary: c d)
  case (Cons a s)
  then have "crc_byte c a = crc_byte d a" by auto
  then have "c XOR of_nat (of_char a) = d XOR of_nat (of_char a)" unfolding crc_byte_def by (rule crc_bits_inj)
  then have "(c XOR of_nat (of_char a)) XOR of_nat (of_char a) = (d XOR of_nat (of_char a)) XOR of_nat (of_char a)" by simp
  then show ?case by (simp add: xor.assoc)
qed simp

lemma char_word_inj: "(of_nat (of_char a) :: 32 word) = of_nat (of_char b) \<Longrightarrow> (of_char a :: nat) = of_char b"
proof -
  assume "(of_nat (of_char a) :: 32 word) = of_nat (of_char b)"
  then have "unat (of_nat (of_char a) :: 32 word) = unat (of_nat (of_char b) :: 32 word)" by simp
  moreover have "unat (of_nat (of_char c) :: 32 word) = of_char c" for c
  proof -
    have "of_char c < (4294967296 :: nat)" by (rule less_trans [OF nat_of_char_less_256]) simp
    then show ?thesis by (simp add: unat_of_nat)
  qed
  ultimately show "(of_char a :: nat) = of_char b" by simp
qed

text \<open>One different character in a payload gives a different checksum.\<close>

lemma crc32_char:
  assumes "a \<noteq> b"
  shows "crc32_ChecksumIEEE (s @ a # t) \<noteq> crc32_ChecksumIEEE (s @ b # t)"
proof
  let ?c = "foldl crc_byte (NOT 0) s"
  assume "crc32_ChecksumIEEE (s @ a # t) = crc32_ChecksumIEEE (s @ b # t)"
  then have "foldl crc_byte (crc_byte ?c a) t = foldl crc_byte (crc_byte ?c b) t"
    by (simp add: crc32_ChecksumIEEE_def)
  then have "crc_byte ?c a = crc_byte ?c b" by (rule crc_foldl_inj)
  then have "?c XOR of_nat (of_char a) = ?c XOR of_nat (of_char b)" unfolding crc_byte_def by (rule crc_bits_inj)
  then have "?c XOR (?c XOR of_nat (of_char a)) = ?c XOR (?c XOR of_nat (of_char b))" by simp
  then have "(of_nat (of_char a) :: 32 word) = of_nat (of_char b)" by (simp add: xor.assoc [symmetric])
  then have "(of_char a :: nat) = of_char b"
    by (rule char_word_inj)
  with assms show False by simp
qed

section \<open>Levels are those of the other books\<close>

abbreviation kraken_fields :: "string \<times> string \<Rightarrow> string list" where
  "kraken_fields l \<equiv> [fst l, snd l]"

lemma kraken_parseLevel_eq:
  "kraken_parseLevel l =
     (if fields_ok (kraken_fields l)
      then Inr (Rat_RatString (decimal_value (fst l)),
             \<lparr>ll_priceText = fst l, ll_quantityText = snd l, ll_price = decimal_value (fst l)\<rparr>)
      else Inl (validationError ''Spot local order book level is invalid'' []))"
  using Trim_zero_pos [of "fst l"]
  by (auto simp: kraken_parseLevel_def fields_ok_def Rat_SetString_def decimalIsZero_def split: prod.split)

lemma kraken_applyLevel_Inr: "kraken_applyLevel m l = Inr m' \<Longrightarrow> applyLocalLevel m (kraken_fields l) = Inr m'"
  by (auto simp: kraken_applyLevel_def kraken_parseLevel_eq applyLocalLevel_def parseDepthFields_eq decimalIsZero_def
      split: if_splits)

lemma kraken_applyLevels_Inr: "kraken_applyLevels m ls = Inr m' \<Longrightarrow> applyLocalLevels m (map kraken_fields ls) = Inr m'"
proof (induction m ls rule: kraken_applyLevels.induct)
  case (2 m l ls)
  then obtain m1 where "kraken_applyLevel m l = Inr m1" "kraken_applyLevels m1 ls = Inr m'" by (auto split: sum.splits)
  with 2(1) show ?case by (simp add: kraken_applyLevel_Inr)
qed simp

lemma kraken_checkLevels_None: "kraken_checkLevels ls = None \<longleftrightarrow> list_all (\<lambda>l. fields_ok (kraken_fields l)) ls"
  by (induction ls) (auto simp: kraken_parseLevel_eq)

lemma kraken_applyLevels_total: "list_all (\<lambda>l. fields_ok (kraken_fields l)) ls \<Longrightarrow> \<exists>m'. kraken_applyLevels m ls = Inr m'"
  by (induction ls arbitrary: m) (simp_all add: kraken_applyLevel_def kraken_parseLevel_eq)

lemma kraken_prune_eq: "side_ok m \<Longrightarrow> kraken_prune m depth d = pruneLevels m depth d"
  by (simp add: kraken_prune_def pruneLevels_keys)

lemma kraken_sortedLevels_eq: "kraken_sortedLevels = sortedLocalLevels"
  by (simp add: fun_eq_iff kraken_sortedLevels_def sortedLocalLevels_def)

section \<open>A processed stream is a chain of verified events\<close>

definition kraken_good :: "kraken_State \<Rightarrow> bool" where
  "kraken_good st \<longleftrightarrow> side_ok (kt_bids st) \<and> side_ok (kt_asks st) \<and>
     kt_checksum st = spotLocalOrderBookChecksum (kt_asks st) (kt_bids st)"

definition kraken_sides :: "kraken_State \<Rightarrow> abs_book" where
  "kraken_sides st = (abs_of (kt_bids st), abs_of (kt_asks st))"

definition kraken_effect :: "kraken_OrderBook \<Rightarrow> SpotStreamBook \<Rightarrow> abs_book \<Rightarrow> abs_book" where
  "kraken_effect book ev b =
     (case abs_levels (map kraken_fields (ko_Bids ev)) (map kraken_fields (ko_Asks ev)) b of (bids, asks) \<Rightarrow>
        (abs_best (nat (kb_depth book)) True bids, abs_best (nat (kb_depth book)) False asks))"

definition kraken_accept :: "kraken_OrderBook \<Rightarrow> kraken_State \<Rightarrow> SpotStreamBook \<Rightarrow> kraken_State option" where
  "kraken_accept book st ev =
     (case kraken_apply ev (kb_depth book) (kt_bids st, kt_asks st) of
        Inl _ \<Rightarrow> None
      | Inr st' \<Rightarrow> if kt_checksum st' = ko_Checksum ev then Some st' else None)"

lemma kraken_apply_Inr:
  assumes "side_ok (fst m)" "side_ok (snd m)" "kraken_apply ev (kb_depth book) m = Inr st"
  shows "kraken_good st \<and> kraken_sides st = kraken_effect book ev (abs_of (fst m), abs_of (snd m))"
proof -
  from assms(3) obtain bids asks where parts:
    "kraken_applyLevels (fst m) (ko_Bids ev) = Inr bids" "kraken_applyLevels (snd m) (ko_Asks ev) = Inr asks"
    and st: "kt_bids st = kraken_prune bids (kb_depth book) True" "kt_asks st = kraken_prune asks (kb_depth book) False"
      "kt_checksum st = spotLocalOrderBookChecksum (kt_asks st) (kt_bids st)"
    by (auto simp: kraken_apply_def Let_def split: prod.splits sum.splits)
  note refined = applyLocalLevels_refines [OF assms(1) kraken_applyLevels_Inr [OF parts(1)]]
    applyLocalLevels_refines [OF assms(2) kraken_applyLevels_Inr [OF parts(2)]]
  then show ?thesis
    by (simp add: kraken_good_def st kraken_sides_def kraken_effect_def abs_levels_def kraken_prune_eq pruneLevels_spec abs_best_pruneLevels)
qed

interpretation kraken: sequenced_book kraken_good kt_checksum kraken_sides "\<lambda>_ _. True" ko_Checksum "kraken_effect book"
  "kraken_accept book" for book
proof unfold_locales
  fix st ev st'
  assume "kraken_good st" and acc: "kraken_accept book st ev = Some st'"
  then have good: "side_ok (kt_bids st)" "side_ok (kt_asks st)" by (simp_all add: kraken_good_def)
  from acc have run: "kraken_apply ev (kb_depth book) (kt_bids st, kt_asks st) = Inr st'" and sum: "kt_checksum st' = ko_Checksum ev"
    by (auto simp: kraken_accept_def split: sum.splits if_splits)
  from kraken_apply_Inr [OF _ _ run] good
  show "kraken_good st'" "kraken_sides st' = kraken_effect book ev (kraken_sides st)" by (simp_all add: kraken_sides_def)
  show "kt_checksum st' = ko_Checksum ev" by (rule sum)
qed simp

text \<open>One event of a message, with the generation and the type of the message.\<close>

definition kraken_step ::
  "(string \<Rightarrow> bool) \<Rightarrow> kraken_OrderBook \<Rightarrow> kraken_Processor \<Rightarrow> 64 word \<times> string \<times> SpotStreamBook \<Rightarrow>
   kraken_Processor \<times> kraken_View processed" where
  "kraken_step isTime book p = (\<lambda>(g, t, ev). kraken_process isTime book p g t ev)"

lemma kraken_step_simp: "kraken_step isTime book p (g, t, ev) = kraken_process isTime book p g t ev"
  by (simp add: kraken_step_def)

lemma kraken_process_live:
  assumes "\<And>st. kp_state p = Some st \<Longrightarrow> kraken_good st" "kraken_process isTime book p g t ev = (p', out)" "kp_state p' = Some st'"
  shows "kp_state p = Some st' \<and> kp_generation p' = kp_generation p \<or>
     t = ''snapshot'' \<and> g = kp_generation p' \<and> kraken_good st' \<and> kt_checksum st' = ko_Checksum ev \<and>
       kraken_sides st' = kraken_effect book ev abs_empty \<or>
     (\<exists>st. kp_state p = Some st \<and> kp_generation p' = kp_generation p \<and> g = kp_generation p \<and> t \<noteq> ''snapshot'' \<and>
        kraken_accept book st ev = Some st')"
proof -
  let ?q = "if kp_generation p = 0 \<or> kp_generation p < g then p\<lparr>kp_generation := g, kp_state := None\<rparr> else p"
  consider (kept) "p' = p \<or> p' = ?q"
    | (snapshot) "t = ''snapshot''" "kraken_apply ev (kb_depth book) ([], []) = Inr st'" "kt_checksum st' = ko_Checksum ev"
        "\<not> g < kp_generation p" "kp_generation p' = kp_generation ?q"
    | (update) st where "t \<noteq> ''snapshot''" "kp_state ?q = Some st" "kraken_accept book st ev = Some st'"
        "\<not> g < kp_generation p" "kp_generation p' = kp_generation ?q"
    using assms(2,3) unfolding kraken_process_def Let_def kraken_checksumGap_def kraken_accept_def
    by (fastforce split: if_split_asm option.split_asm sum.split_asm)
  then show ?thesis
  proof cases
    case kept
    with assms(3) show ?thesis by (auto split: if_splits)
  next
    case snapshot
    from kraken_apply_Inr [OF _ _ snapshot(2)] have "kraken_good st' \<and> kraken_sides st' = kraken_effect book ev abs_empty"
      by (simp add: abs_empty_def)
    moreover have "g = kp_generation p'" using snapshot(4,5) by (auto split: if_splits)
    ultimately show ?thesis using snapshot(1,3) by simp
  next
    case update
    then show ?thesis by (auto split: if_splits)
  qed
qed

interpretation kraken_stream: snapshot_stream kraken_good kt_checksum kraken_sides "\<lambda>_ _. True" ko_Checksum
  "kraken_effect book" "kraken_accept book" kp_generation kp_state "kraken_step isTime book" fst
  "\<lambda>m. snd (snd m)" "\<lambda>m. fst (snd m) = ''snapshot''" ko_Checksum "kraken_view book" for book isTime
proof unfold_locales
  fix p m p' out st'
  assume "\<And>st. kp_state p = Some st \<Longrightarrow> kraken_good st"
    and step: "kraken_step isTime book p m = (p', out)" "kp_state p' = Some st'"
  from kraken_process_live [OF this(1) step(1) [unfolded kraken_step_def case_prod_beta] step(2)]
  show "kp_state p = Some st' \<and> kp_generation p' = kp_generation p \<or>
      fst (snd m) = ''snapshot'' \<and> fst m = kp_generation p' \<and> kraken_good st' \<and> kt_checksum st' = ko_Checksum (snd (snd m)) \<and>
      kraken_sides st' = kraken_effect book (snd (snd m)) abs_empty \<or>
      (\<exists>st. kp_state p = Some st \<and> kp_generation p' = kp_generation p \<and> fst m = kp_generation p \<and>
        \<not> fst (snd m) = ''snapshot'' \<and> kraken_accept book st (snd (snd m)) = Some st')" by blast
next
  fix p m p' v
  assume "kraken_step isTime book p m = (p', Shown v)"
  then show "\<exists>st. kp_state p' = Some st \<and> v = kraken_view book p' st"
    unfolding kraken_step_def case_prod_beta kraken_process_def Let_def kraken_checksumGap_def
    by (auto split: if_split_asm option.split_asm sum.split_asm)
qed

lemma kraken_streamed_view:
  assumes "stream_run (kraken_step isTime book) kraken_init ts = (p, vs)" "v \<in> set vs"
  shows "\<exists>q st before m after evs. v = kraken_view book q st \<and> kraken_good st \<and>
     ts = before @ m # after \<and> fst (snd m) = ''snapshot'' \<and> fst m = kp_generation q \<and>
     subseq evs (map (\<lambda>m. snd (snd m)) (filter (\<lambda>x. fst x = kp_generation q \<and> fst (snd x) \<noteq> ''snapshot'') after)) \<and>
     kt_checksum st = end_of ko_Checksum (ko_Checksum (snd (snd m))) evs \<and>
     kraken_sides st = fold (kraken_effect book) evs (kraken_effect book (snd (snd m)) abs_empty)"
proof -
  have "kp_state kraken_init = None" by (simp add: kraken_init_def)
  from conjunct2 [OF kraken_stream.run_streamed [OF this, of isTime book ts]] assms
  obtain q st where v: "v = kraken_view book q st" and st: "kraken_stream.streamed book ts (kp_generation q) st"
    unfolding assms(1) snd_conv by blast
  have "kraken_good st" using kraken_stream.streamed_good [OF st] .
  moreover from st obtain before m after evs where "ts = before @ m # after" "fst (snd m) = ''snapshot''" "fst m = kp_generation q"
    "subseq evs (map (\<lambda>m. snd (snd m)) (filter (\<lambda>x. fst x = kp_generation q \<and> fst (snd x) \<noteq> ''snapshot'') after))"
    "kt_checksum st = end_of ko_Checksum (ko_Checksum (snd (snd m))) evs"
    "kraken_sides st = fold (kraken_effect book) evs (kraken_effect book (snd (snd m)) abs_empty)"
    unfolding kraken_stream.streamed_def kraken.tracks_def by (elim exE conjE) assumption+
  ultimately show ?thesis using v by (intro exI conjI)
qed

section \<open>Messages\<close>

text \<open>The events of the book's symbol in the book messages, in order.\<close>

definition kraken_expand ::
  "(string \<Rightarrow> SpotStreamBook list result) \<Rightarrow> kraken_OrderBook \<Rightarrow> 64 word \<times> SpotStreamMessage \<Rightarrow>
   (64 word \<times> string \<times> SpotStreamBook) list" where
  "kraken_expand Unmarshal book = (\<lambda>(g, m).
     if km_Channel m \<noteq> ''book'' then []
     else case Unmarshal (km_Data m) of
            Inl err \<Rightarrow> []
          | Inr evs \<Rightarrow> map (\<lambda>e. (g, km_Type m, e)) (filter (\<lambda>e. ko_Symbol e = kb_symbol book) evs))"

abbreviation kraken_flat where
  "kraken_flat Unmarshal book ms \<equiv> concat (map (kraken_expand Unmarshal book) ms)"

abbreviation kraken_run where
  "kraken_run Unmarshal isTime book \<equiv> batch_run (kraken_on_message Unmarshal isTime book)"

lemma kraken_event_filter:
  "run_events (kraken_event isTime book) p (map (\<lambda>e. (g, t, e)) evs) =
     run_events (kraken_step isTime book) p (map (\<lambda>e. (g, t, e)) (filter (\<lambda>e. ko_Symbol e = kb_symbol book) evs))"
proof -
  have "run_events (kraken_event isTime book) p ts =
      run_events (kraken_step isTime book) p (filter (\<lambda>x. ko_Symbol (snd (snd x)) = kb_symbol book) ts)" for ts
    by (rule run_events_filter) (simp add: kraken_event_def kraken_step_def split: prod.split)
  then show ?thesis by (simp add: filter_map o_def)
qed

lemma kraken_on_message_stream:
  assumes "kraken_on_message Unmarshal isTime book p m = (p', vs, out)"
  shows "\<exists>ts. subseq ts (kraken_expand Unmarshal book m) \<and> stream_run (kraken_step isTime book) p ts = (p', vs)"
proof -
  obtain g msg where m: "m = (g, msg)" by (cases m)
  show ?thesis
  proof (cases "\<exists>evs. km_Channel msg = ''book'' \<and> Unmarshal (km_Data msg) = Inr evs \<and>
      run_events (kraken_event isTime book) p (map (\<lambda>e. (g, km_Type msg, e)) evs) = (p', vs, out)")
    case True
    then obtain evs where evs: "km_Channel msg = ''book''" "Unmarshal (km_Data msg) = Inr evs"
      "run_events (kraken_event isTime book) p (map (\<lambda>e. (g, km_Type msg, e)) evs) = (p', vs, out)" by blast
    from run_events_stream [OF evs(3) [unfolded kraken_event_filter]] evs(1,2) show ?thesis by (simp add: kraken_expand_def m)
  next
    case False
    with assms have "p' = p \<and> vs = []"
      by (auto simp: m kraken_on_message_def kraken_DecodeData_def split: if_splits sum.splits list.splits)
    then show ?thesis by (intro exI [of _ "[]"]) simp
  qed
qed

lemma kraken_run_flat:
  "kraken_run Unmarshal isTime book p ms = (p', vs) \<Longrightarrow>
     \<exists>ts. subseq ts (kraken_flat Unmarshal book ms) \<and> stream_run (kraken_step isTime book) p ts = (p', vs)"
  by (rule batch_run_stream [where handle = "kraken_on_message Unmarshal isTime book"]) (rule kraken_on_message_stream)

section \<open>Properties\<close>

text \<open>The payload of a checksum: levels without dots and leading zeros.\<close>

definition checksum_text :: "(string \<times> string) list \<Rightarrow> string" where
  "checksum_text ls = concat (map (\<lambda>(price, quantity). spotChecksumDecimal price @ spotChecksumDecimal quantity) ls)"

lemma checksumLevels_text: "checksumLevels m d = checksum_text (sortedLocalLevels m 10 d)"
  by (simp add: checksumLevels_def checksum_text_def sortedLocalLevels_def o_def)

text \<open>C7. Every view the Kraken book shows is verified: it is cut from the book that a snapshot and later updates of
  the same connection make, each pruned to the subscribed depth, and the CRC-32 of the ten best levels of
  both sides of that book is the checksum the exchange sent with the last of these events.\<close>

theorem kraken_views_verified:
  assumes "v \<in> set (snd (kraken_run Unmarshal isTime book kraken_init ms))"
  shows "\<exists>m us bids asks. subseq (m # us) (kraken_flat Unmarshal book ms) \<and>
     fst (snd m) = ''snapshot'' \<and> fst m = kv_Generation v \<and> list_all (\<lambda>u. fst u = kv_Generation v \<and> fst (snd u) \<noteq> ''snapshot'') us \<and>
     (bids, asks) = fold (kraken_effect book) (map (\<lambda>u. snd (snd u)) us) (kraken_effect book (snd (snd m)) abs_empty) \<and>
     view_of bids (kb_viewDepth book) True (kv_Bids v) \<and> view_of asks (kb_viewDepth book) False (kv_Asks v) \<and>
     kv_Checksum v = ko_Checksum (snd (snd (last (m # us)))) \<and>
     (\<exists>best_bids best_asks. view_of bids 10 True best_bids \<and> view_of asks 10 False best_asks \<and>
        kv_Checksum v = crc32_ChecksumIEEE (checksum_text best_asks @ checksum_text best_bids))"
proof -
  obtain p vs where run: "kraken_run Unmarshal isTime book kraken_init ms = (p, vs)" by fastforce
  from kraken_run_flat [OF run] obtain ts where ts: "subseq ts (kraken_flat Unmarshal book ms)"
    "stream_run (kraken_step isTime book) kraken_init ts = (p, vs)" by blast
  have "v \<in> set vs" using assms run by simp
  from kraken_streamed_view [OF ts(2) this] obtain q st before m after evs where v: "v = kraken_view book q st" and good: "kraken_good st"
    and parts: "ts = before @ m # after" "fst (snd m) = ''snapshot''" "fst m = kp_generation q"
    "subseq evs (map (\<lambda>m. snd (snd m)) (filter (\<lambda>x. fst x = kp_generation q \<and> fst (snd x) \<noteq> ''snapshot'') after))"
    "kt_checksum st = end_of ko_Checksum (ko_Checksum (snd (snd m))) evs"
    "kraken_sides st = fold (kraken_effect book) evs (kraken_effect book (snd (snd m)) abs_empty)"
    by (elim exE conjE) (rule that)
  from subseq_of_map [OF parts(4)] obtain us where us: "evs = map (\<lambda>m. snd (snd m)) us"
    "subseq us (filter (\<lambda>x. fst x = kp_generation q \<and> fst (snd x) \<noteq> ''snapshot'') after)" by blast
  have members: "list_all (\<lambda>u. fst u = kp_generation q \<and> fst (snd u) \<noteq> ''snapshot'') us"
    unfolding list_all_iff
  proof
    fix u assume "u \<in> set us"
    then obtain w where "w \<in> set (filter (\<lambda>x. fst x = kp_generation q \<and> fst (snd x) \<noteq> ''snapshot'') after)" "u = w"
      by (rule list_emb_set [OF us(2)])
    then show "fst u = kp_generation q \<and> fst (snd u) \<noteq> ''snapshot''" by simp
  qed
  have "subseq us after" using us(2) subseq_filter_left subseq_order.order_trans by blast
  then have "subseq (m # us) ts" unfolding parts(1) by (simp add: list_emb_append2)
  then have chain: "subseq (m # us) (kraken_flat Unmarshal book ms)" using ts(1) by (rule subseq_order.order_trans)
  have last: "kt_checksum st = ko_Checksum (snd (snd (last (m # us))))"
    using parts(5) us(1) by (simp add: end_of_def last_map)
  have sides: "side_ok (kt_bids st)" "side_ok (kt_asks st)" using good by (simp_all add: kraken_good_def)
  have checksum: "kt_checksum st =
      crc32_ChecksumIEEE (checksum_text (sortedLocalLevels (kt_asks st) 10 False) @ checksum_text (sortedLocalLevels (kt_bids st) 10 True))"
    using good by (simp add: kraken_good_def spotLocalOrderBookChecksum_def checksumLevels_text)
  have shown: "kv_Generation v = kp_generation q" "kv_Checksum v = kt_checksum st"
    "kv_Bids v = sortedLocalLevels (kt_bids st) (kb_viewDepth book) True"
    "kv_Asks v = sortedLocalLevels (kt_asks st) (kb_viewDepth book) False"
    by (simp_all add: v kraken_view_def kraken_sortedLevels_eq)
  let ?bids = "abs_of (kt_bids st)" and ?asks = "abs_of (kt_asks st)"
  have content: "(?bids, ?asks) = fold (kraken_effect book) (map (\<lambda>u. snd (snd u)) us) (kraken_effect book (snd (snd m)) abs_empty)"
    using parts(6) us(1) by (simp add: kraken_sides_def)
  have best: "\<exists>best_bids best_asks. view_of ?bids 10 True best_bids \<and> view_of ?asks 10 False best_asks \<and>
      kt_checksum st = crc32_ChecksumIEEE (checksum_text best_asks @ checksum_text best_bids)"
    using sides checksum sortedLocalLevels_view by blast
  have cut: "view_of ?bids (kb_viewDepth book) True (sortedLocalLevels (kt_bids st) (kb_viewDepth book) True)"
    "view_of ?asks (kb_viewDepth book) False (sortedLocalLevels (kt_asks st) (kb_viewDepth book) False)"
    using sides by (simp_all add: sortedLocalLevels_view)
  show ?thesis unfolding shown
    by (rule exI [of _ m], rule exI [of _ us], rule exI [of _ ?bids], rule exI [of _ ?asks])
       (intro conjI chain parts(2,3) members content cut last best)
qed

text \<open>C8. A book that is wrong in a single character is noticed: if after an update the text of the ten best levels
  differs from the text behind the exchange's checksum in exactly one character, nothing is shown, the book is
  dropped, the gap is counted and a new connection is asked for.\<close>

theorem kraken_mismatch_detected:
  assumes "kp_state p = Some st" "kp_generation p \<noteq> 0" "kraken_validateEvent isTime book ''update'' ev = None"
    "kraken_apply ev (kb_depth book) (kt_bids st, kt_asks st) = Inr st'"
    "checksumLevels (kt_asks st') False @ checksumLevels (kt_bids st') True = s @ a # t"
    "ko_Checksum ev = crc32_ChecksumIEEE (s @ b # t)" "a \<noteq> b"
  shows "kraken_process isTime book p (kp_generation p) ''update'' ev =
    (p\<lparr>kp_gapCount := kp_gapCount p + 1, kp_state := None\<rparr>, Reconnecting)"
proof -
  have "kt_checksum st' = spotLocalOrderBookChecksum (kt_asks st') (kt_bids st')"
    using assms(4) by (auto simp: kraken_apply_def Let_def split: sum.splits)
  then have "kt_checksum st' \<noteq> ko_Checksum ev"
    using crc32_char [OF assms(7), of s t] assms(5,6) by (simp add: spotLocalOrderBookChecksum_def)
  with assms(1-4) show ?thesis by (simp add: kraken_process_def kraken_checksumGap_def Let_def)
qed

definition kraken_demo_book :: kraken_OrderBook where
  "kraken_demo_book = \<lparr>kb_symbol = ''B/U'', kb_depth = 10, kb_viewDepth = 1, kb_routeID = ''r''\<rparr>"

definition kraken_demo_event :: "(string \<times> string) list \<Rightarrow> string \<Rightarrow> SpotStreamBook" where
  "kraken_demo_event bids payload = \<lparr>ko_Symbol = ''B/U'', ko_Bids = bids, ko_Asks = [(''3'', ''4'')],
     ko_Checksum = crc32_ChecksumIEEE payload, ko_Timestamp = []\<rparr>"

definition kraken_demo_side :: "string \<Rightarrow> string \<Rightarrow> rat \<Rightarrow> depth_side" where
  "kraken_demo_side price quantity r = [(Rat_RatString r, \<lparr>ll_priceText = price, ll_quantityText = quantity, ll_price = r\<rparr>)]"

lemma crc32_empty: "crc32_ChecksumIEEE [] = 0"
  by (simp add: crc32_ChecksumIEEE_def)

lemma crc32_a: "crc32_ChecksumIEEE ''a'' = 0xE8B7BE43"
  by code_simp

lemma kraken_demo_levels:
  "kraken_applyLevels [] [(''1'', ''5'')] = Inr (kraken_demo_side ''1'' ''5'' 1)"
  "kraken_applyLevels [] [(''3'', ''4'')] = Inr (kraken_demo_side ''3'' ''4'' 3)"
  "kraken_applyLevels (kraken_demo_side ''1'' ''5'' 1) [] = Inr (kraken_demo_side ''1'' ''5'' 1)"
  "kraken_applyLevels (kraken_demo_side ''3'' ''4'' 3) [(''3'', ''4'')] = Inr (kraken_demo_side ''3'' ''4'' 3)"
  by code_simp+

lemma kraken_demo_pruned:
  "kraken_prune (kraken_demo_side ''1'' ''5'' 1) 10 True = kraken_demo_side ''1'' ''5'' 1"
  "kraken_prune (kraken_demo_side ''3'' ''4'' 3) 10 False = kraken_demo_side ''3'' ''4'' 3"
  by code_simp+

lemma kraken_demo_payload:
  "checksumLevels (kraken_demo_side ''3'' ''4'' 3) False = ''34''" "checksumLevels (kraken_demo_side ''1'' ''5'' 1) True = ''15''"
  by code_simp+

lemma kraken_demo_checked:
  "kraken_checkLevels [(''1'', ''5''), (''3'', ''4'')] = None" "kraken_checkLevels [(''3'', ''4'')] = None"
  by code_simp+

definition kraken_demo_state :: kraken_State where
  "kraken_demo_state = \<lparr>kt_bids = kraken_demo_side ''1'' ''5'' 1, kt_asks = kraken_demo_side ''3'' ''4'' 3,
     kt_checksum = crc32_ChecksumIEEE ''3415'', kt_timestamp = []\<rparr>"

lemma kraken_demo_apply:
  "kraken_apply (kraken_demo_event [(''1'', ''5'')] s) 10 ([], []) = Inr kraken_demo_state"
  "kraken_apply (kraken_demo_event [] s) 10 (kt_bids kraken_demo_state, kt_asks kraken_demo_state) = Inr kraken_demo_state"
  by (simp_all add: kraken_apply_def kraken_demo_event_def kraken_demo_levels kraken_demo_pruned Let_def
      spotLocalOrderBookChecksum_def kraken_demo_payload kraken_demo_state_def del: kraken_applyLevels.simps)

lemma kraken_demo_valid:
  "kraken_validateEvent (\<lambda>s. True) kraken_demo_book ''snapshot'' (kraken_demo_event [(''1'', ''5'')] s) = None"
  "kraken_validateEvent (\<lambda>s. True) kraken_demo_book ''update'' (kraken_demo_event [] s) = None"
  by (simp_all add: kraken_validateEvent_def kraken_demo_event_def kraken_demo_book_def kraken_demo_checked del: kraken_checkLevels.simps)

definition kraken_demo_run :: "kraken_Processor \<times> kraken_View list" where
  "kraken_demo_run = kraken_run (\<lambda>s. Inr [kraken_demo_event [(''1'', ''5'')] ''3415'']) (\<lambda>s. True) kraken_demo_book kraken_init
     [(1, \<lparr>km_Channel = ''book'', km_Type = ''snapshot'', km_Data = ''d''\<rparr>)]"

lemma kraken_demo_parts:
  "ko_Symbol (kraken_demo_event ls s) = kb_symbol kraken_demo_book" "kb_depth kraken_demo_book = 10"
  "ko_Checksum (kraken_demo_event ls s) = crc32_ChecksumIEEE s" "kt_checksum kraken_demo_state = crc32_ChecksumIEEE ''3415''"
  by (simp_all add: kraken_demo_event_def kraken_demo_book_def kraken_demo_state_def)

lemma kraken_demo_shown: "\<exists>v. snd kraken_demo_run = [v] \<and> kv_Generation v = 1"
  by (simp add: kraken_demo_run_def kraken_on_message_def kraken_DecodeData_def kraken_event_def kraken_process_def kraken_init_def Let_def
      kraken_demo_valid kraken_demo_apply kraken_demo_parts kraken_view_def)

theorem kraken_views_verified_witness:
  "\<exists>v. snd kraken_demo_run = [v] \<and> kv_Generation v = 1 \<and>
     (\<exists>bids asks best_bids best_asks. view_of bids 1 True (kv_Bids v) \<and> view_of bids 10 True best_bids \<and> view_of asks 10 False best_asks \<and>
        kv_Checksum v = crc32_ChecksumIEEE (checksum_text best_asks @ checksum_text best_bids))"
proof -
  from kraken_demo_shown obtain v where v: "snd kraken_demo_run = [v]" "kv_Generation v = 1" by (elim exE conjE) (rule that)
  then have "v \<in> set (snd kraken_demo_run)" by simp
  from kraken_views_verified [OF this [unfolded kraken_demo_run_def]] obtain bids asks best_bids best_asks where
    "view_of bids (kb_viewDepth kraken_demo_book) True (kv_Bids v)" "view_of bids 10 True best_bids" "view_of asks 10 False best_asks"
    "kv_Checksum v = crc32_ChecksumIEEE (checksum_text best_asks @ checksum_text best_bids)"
    by (elim exE conjE) (rule that)
  with v show ?thesis by (intro exI [of _ v]) (auto simp: kraken_demo_book_def)
qed

definition kraken_demo_processor :: kraken_Processor where
  "kraken_demo_processor = \<lparr>kp_generation = 1, kp_synchronizationID = 1, kp_gapCount = 0, kp_state = Some kraken_demo_state\<rparr>"

theorem kraken_mismatch_detected_witness:
  "snd (kraken_process (\<lambda>s. True) kraken_demo_book kraken_demo_processor 1 ''update'' (kraken_demo_event [] ''3425'')) = Reconnecting"
proof -
  have payload: "checksumLevels (kt_asks kraken_demo_state) False @ checksumLevels (kt_bids kraken_demo_state) True = ''34'' @ CHR ''1'' # ''5''"
    by (simp add: kraken_demo_state_def kraken_demo_payload)
  have sent: "ko_Checksum (kraken_demo_event [] ''3425'') = crc32_ChecksumIEEE (''34'' @ CHR ''2'' # ''5'')"
    by (simp add: kraken_demo_parts)
  have state: "kp_state kraken_demo_processor = Some kraken_demo_state" "kp_generation kraken_demo_processor = 1"
    by (simp_all add: kraken_demo_processor_def)
  have apply': "kraken_apply (kraken_demo_event [] ''3425'') (kb_depth kraken_demo_book)
      (kt_bids kraken_demo_state, kt_asks kraken_demo_state) = Inr kraken_demo_state"
    by (simp add: kraken_demo_parts kraken_demo_apply)
  have "kp_generation kraken_demo_processor \<noteq> 0" "CHR ''1'' \<noteq> CHR ''2''" by (simp_all add: state)
  from kraken_mismatch_detected [OF state(1) this(1) kraken_demo_valid(2) apply' payload sent this(2)]
  show ?thesis by (simp add: state)
qed

end
