(* ===== verification/Kraken_Futures_Book.thy ===== *)
theory Kraken_Futures_Book
  imports Kraken_Book
begin

text \<open>
  The Kraken Futures local order book (\<open>exchange/kraken/futures/local_order_book.go\<close>): a snapshot feed and a
  feed of updates that change one level each, both numbered by one 64-bit sequence. Snapshots must not hold
  empty levels. The JSON decoder is a parameter.
\<close>

section \<open>Subscriptions\<close>

record kf_PublicStreamSubscription =
  kfs_Feed :: string
  kfs_ProductIDs :: "string list"

definition validateStreamProduct :: "string \<Rightarrow> go_error option" where
  "validateStreamProduct product =
     (if length product < 3 \<or> 64 < length product \<or> TrimSpace product \<noteq> product \<or> contains_control product
      then Some (validationError ''Futures WebSocket product has an invalid format'' [])
      else if list_all (\<lambda>c. 65 \<le> (of_char c :: nat) \<and> (of_char c :: nat) \<le> 90 \<or> 48 \<le> (of_char c :: nat) \<and> (of_char c :: nat) \<le> 57 \<or>
                c = CHR ''_'' \<or> c = CHR '':'' \<or> c = CHR ''-'' \<or> c = CHR ''.'') product
      then None
      else Some (validationError ''Futures WebSocket product has an invalid format'' []))"

text \<open>The loop over the sorted products; \<open>previous\<close> is the product before.\<close>

fun check_stream_products :: "string option \<Rightarrow> string list \<Rightarrow> go_error option" where
  "check_stream_products previous [] = None"
| "check_stream_products previous (product # rest) =
     (case validateStreamProduct product of
        Some err \<Rightarrow> Some err
      | None \<Rightarrow>
          if previous = Some product then Some (validationError ''duplicate Futures WebSocket product %q'' [StrArg product])
          else check_stream_products (Some product) rest)"

definition validateStreamProducts :: "string list \<Rightarrow> string list result" where
  "validateStreamProducts products =
     (let validated = sort products
      in case check_stream_products None validated of Some err \<Rightarrow> Inl err | None \<Rightarrow> Inr validated)"

definition validatePublicStreamSubscription :: "kf_PublicStreamSubscription \<Rightarrow> kf_PublicStreamSubscription result" where
  "validatePublicStreamSubscription subscription =
     (let feed = kfs_Feed subscription;
          known = (if feed \<in> set [''ticker'', ''ticker_lite'', ''trade'', ''book''] then
              (if kfs_ProductIDs subscription = [] \<or> 100 < length (kfs_ProductIDs subscription)
               then Some (validationError ''Futures WebSocket product count must be between 1 and %d'' [IntArg 100]) else None)
            else if feed = ''heartbeat'' then
              (if kfs_ProductIDs subscription \<noteq> []
               then Some (validationError ''Futures heartbeat feed does not accept products'' []) else None)
            else Some (validationError ''unsupported Futures public WebSocket feed %q'' [StrArg feed]))
      in case known of
           Some err \<Rightarrow> Inl err
         | None \<Rightarrow>
             (case validateStreamProducts (kfs_ProductIDs subscription) of
                Inl err \<Rightarrow> Inl err
              | Inr products \<Rightarrow> Inr (subscription\<lparr>kfs_ProductIDs := products\<rparr>)))"

definition kf_hasBookSubscription :: "kf_PublicStreamSubscription list \<Rightarrow> string \<Rightarrow> bool" where
  "kf_hasBookSubscription subscriptions productID \<longleftrightarrow>
     list_ex (\<lambda>s. kfs_Feed s = ''book'' \<and> productID \<in> set (kfs_ProductIDs s)) subscriptions"

section \<open>Data\<close>

record kf_OrderBookConfig =
  kfc_ProductID :: string
  kfc_ViewDepth :: int
  kfc_EgressRouteID :: EgressRouteID

record kf_View =
  kfv_ProductID :: string
  kfv_ViewDepth :: int
  kfv_Generation :: "64 word"
  kfv_SynchronizationID :: "64 word"
  kfv_GapCount :: "64 word"
  kfv_Sequence :: "64 word"
  kfv_Timestamp :: int
  kfv_Bids :: "(string \<times> string) list"
  kfv_Asks :: "(string \<times> string) list"

record kf_OrderBook =
  kfb_productID :: string
  kfb_viewDepth :: int
  kfb_routeID :: EgressRouteID

text \<open>A level is its price and its quantity.\<close>

record kf_Snapshot =
  kfx_Feed :: string
  kfx_ProductID :: string
  kfx_Sequence :: "64 word"
  kfx_Timestamp :: int
  kfx_TickSize :: string
  kfx_Bids :: "(string \<times> string) list"
  kfx_Asks :: "(string \<times> string) list"

record kf_Update =
  kfu_Feed :: string
  kfu_ProductID :: string
  kfu_Sequence :: "64 word"
  kfu_Timestamp :: int
  kfu_Side :: string
  kfu_Price :: string
  kfu_Quantity :: string

record kf_StreamMessage =
  kfm_Event :: string
  kfm_Feed :: string
  kfm_Message :: string
  kfm_ProductID :: string
  kfm_ProductIDs :: "string list"
  kfm_Account :: string
  kfm_Raw :: string

record kf_State =
  kft_bids :: depth_side
  kft_asks :: depth_side
  kft_sequence :: "64 word"
  kft_timestamp :: int

record kf_Processor =
  kfp_generation :: "64 word"
  kfp_synchronizationID :: "64 word"
  kfp_gapCount :: "64 word"
  kfp_state :: "kf_State option"

section \<open>Levels\<close>

definition kf_decimalIsZero :: "string \<Rightarrow> bool" where
  "kf_decimalIsZero s \<longleftrightarrow> Trim s ''0.'' = []"

definition kf_parseLevel :: "string \<times> string \<Rightarrow> bool \<Rightarrow> (string \<times> localDepthLevel) result" where
  "kf_parseLevel = (\<lambda>(priceText, quantityText) allowZero.
     if \<not> positiveDecimalPattern priceText \<or> kf_decimalIsZero priceText \<or> \<not> positiveDecimalPattern quantityText \<or>
        \<not> allowZero \<and> kf_decimalIsZero quantityText
     then Inl (validationError ''Futures local order book level is invalid'' [])
     else case Rat_SetString priceText of
            None \<Rightarrow> Inl (validationError ''Futures local order book price is invalid'' [])
          | Some price \<Rightarrow>
              if price \<le> 0 then Inl (validationError ''Futures local order book price is invalid'' [])
              else Inr (Rat_RatString price, \<lparr>ll_priceText = priceText, ll_quantityText = quantityText, ll_price = price\<rparr>))"

definition kf_applyLevel :: "depth_side \<Rightarrow> string \<times> string \<Rightarrow> bool \<Rightarrow> depth_side result" where
  "kf_applyLevel levels val allowZero =
     (case kf_parseLevel val allowZero of
        Inl err \<Rightarrow> Inl err
      | Inr (key, level) \<Rightarrow>
          if kf_decimalIsZero (ll_quantityText level) then Inr (AList.delete key levels)
          else Inr (AList.update key level levels))"

fun kf_applyLevels :: "depth_side \<Rightarrow> (string \<times> string) list \<Rightarrow> depth_side result" where
  "kf_applyLevels levels [] = Inr levels"
| "kf_applyLevels levels (l # rest) =
     (case kf_applyLevel levels l False of
        Inl err \<Rightarrow> Inl err
      | Inr levels' \<Rightarrow> kf_applyLevels levels' rest)"

fun kf_checkLevels :: "(string \<times> string) list \<Rightarrow> go_error option" where
  "kf_checkLevels [] = None"
| "kf_checkLevels (l # rest) = (case kf_parseLevel l False of Inl err \<Rightarrow> Some err | Inr _ \<Rightarrow> kf_checkLevels rest)"

definition kf_sortedLevels :: "depth_side \<Rightarrow> int \<Rightarrow> bool \<Rightarrow> (string \<times> string) list" where
  "kf_sortedLevels values depth descending =
     map (\<lambda>l. (ll_priceText l, ll_quantityText l)) (take (nat depth) (orderedLevels values descending))"

section \<open>Operations\<close>

definition kf_NewLocalOrderBook :: "kf_OrderBookConfig \<Rightarrow> kf_OrderBook result" where
  "kf_NewLocalOrderBook config =
     (case validatePublicStreamSubscription \<lparr>kfs_Feed = ''book'', kfs_ProductIDs = [kfc_ProductID config]\<rparr> of
        Inl err \<Rightarrow> Inl err
      | Inr subscription \<Rightarrow>
          let route = TrimSpace (kfc_EgressRouteID config)
          in if route = [] then Inl (Sentinel ErrMissingEgressRoute)
             else
               let viewDepth = (if kfc_ViewDepth config = 0 then 20 else kfc_ViewDepth config)
               in if viewDepth < 1 then Inl (validationError ''Futures local order book view depth must be positive'' [])
                  else Inr \<lparr>kfb_productID = kfs_ProductIDs subscription ! 0, kfb_viewDepth = viewDepth, kfb_routeID = route\<rparr>)"

definition kf_validateSnapshot :: "kf_OrderBook \<Rightarrow> kf_Snapshot \<Rightarrow> go_error option" where
  "kf_validateSnapshot book event =
     (if kfx_Feed event \<noteq> ''book_snapshot'' \<or> kfx_ProductID event \<noteq> kfb_productID book \<or> kfx_Sequence event = 0 \<or>
         kfx_Timestamp event \<le> 0
      then Some (validationError ''Futures local order book snapshot identity or sequence is invalid'' [])
      else kf_checkLevels (kfx_Bids event @ kfx_Asks event))"

definition kf_validateUpdate :: "kf_OrderBook \<Rightarrow> kf_Update \<Rightarrow> go_error option" where
  "kf_validateUpdate book event =
     (if kfu_Feed event \<noteq> ''book'' \<or> kfu_ProductID event \<noteq> kfb_productID book \<or> kfu_Sequence event = 0 \<or>
         kfu_Timestamp event \<le> 0 \<or> kfu_Side event \<noteq> ''buy'' \<and> kfu_Side event \<noteq> ''sell''
      then Some (validationError ''Futures local order book update identity or sequence is invalid'' [])
      else case kf_parseLevel (kfu_Price event, kfu_Quantity event) True of Inl err \<Rightarrow> Some err | Inr _ \<Rightarrow> None)"

definition kf_view :: "kf_OrderBook \<Rightarrow> kf_Processor \<Rightarrow> kf_State \<Rightarrow> kf_View" where
  "kf_view book p state =
     \<lparr>kfv_ProductID = kfb_productID book, kfv_ViewDepth = kfb_viewDepth book, kfv_Generation = kfp_generation p,
      kfv_SynchronizationID = kfp_synchronizationID p, kfv_GapCount = kfp_gapCount p, kfv_Sequence = kft_sequence state,
      kfv_Timestamp = kft_timestamp state,
      kfv_Bids = kf_sortedLevels (kft_bids state) (kfb_viewDepth book) True,
      kfv_Asks = kf_sortedLevels (kft_asks state) (kfb_viewDepth book) False\<rparr>"

definition kf_sequenceGap :: "kf_Processor \<Rightarrow> kf_Processor \<times> kf_View processed" where
  "kf_sequenceGap p = (p\<lparr>kfp_gapCount := kfp_gapCount p + 1, kfp_state := None\<rparr>, Reconnecting)"

text \<open>The answer is whether the event is stale, or an error.\<close>

definition kf_prepareGeneration :: "64 word \<Rightarrow> kf_Processor \<Rightarrow> kf_Processor \<times> bool result" where
  "kf_prepareGeneration generation p =
     (if generation = 0 then (p, Inl (validationError ''Futures local order book WebSocket generation is zero'' []))
      else if generation < kfp_generation p then (p, Inr True)
      else if kfp_generation p = 0 \<or> kfp_generation p < generation
      then (p\<lparr>kfp_generation := generation, kfp_state := None\<rparr>, Inr False)
      else (p, Inr False))"

definition kf_newState :: "kf_Snapshot \<Rightarrow> kf_State result" where
  "kf_newState event =
     (case kf_applyLevels [] (kfx_Bids event) of
        Inl err \<Rightarrow> Inl err
      | Inr bids \<Rightarrow>
          (case kf_applyLevels [] (kfx_Asks event) of
             Inl err \<Rightarrow> Inl err
           | Inr asks \<Rightarrow> Inr \<lparr>kft_bids = bids, kft_asks = asks, kft_sequence = kfx_Sequence event,
                             kft_timestamp = kfx_Timestamp event\<rparr>))"

definition kf_processSnapshot :: "kf_OrderBook \<Rightarrow> kf_Processor \<Rightarrow> 64 word \<Rightarrow> kf_Snapshot \<Rightarrow> kf_Processor \<times> kf_View processed" where
  "kf_processSnapshot book p generation event =
     (case kf_prepareGeneration generation p of
        (p, Inl err) \<Rightarrow> (p, Failed err)
      | (p, Inr True) \<Rightarrow> (p, Quiet)
      | (p, Inr False) \<Rightarrow>
          (case kf_validateSnapshot book event of
             Some err \<Rightarrow> (p, Failed err)
           | None \<Rightarrow>
               (case kf_newState event of
                  Inl err \<Rightarrow> (p, Failed err)
                | Inr state \<Rightarrow>
                    let p' = p\<lparr>kfp_state := Some state, kfp_synchronizationID := kfp_synchronizationID p + 1\<rparr>
                    in (p', Shown (kf_view book p' state)))))"

text \<open>An update of the live book: the level of one side, then the sequence and the time.\<close>

definition kf_apply :: "kf_Update \<Rightarrow> kf_State \<Rightarrow> kf_State result" where
  "kf_apply event state =
     (let levels = (if kfu_Side event = ''buy'' then kft_bids state else kft_asks state)
      in case kf_applyLevel levels (kfu_Price event, kfu_Quantity event) True of
           Inl err \<Rightarrow> Inl err
         | Inr levels \<Rightarrow>
             let state = (if kfu_Side event = ''buy'' then state\<lparr>kft_bids := levels\<rparr> else state\<lparr>kft_asks := levels\<rparr>)
             in Inr (state\<lparr>kft_sequence := kfu_Sequence event, kft_timestamp := kfu_Timestamp event\<rparr>))"

text \<open>A valid update of the current connection.\<close>

definition kf_continue :: "kf_OrderBook \<Rightarrow> kf_Update \<Rightarrow> kf_Processor \<Rightarrow> kf_Processor \<times> kf_View processed" where
  "kf_continue book event p =
     (case kfp_state p of
        None \<Rightarrow> kf_sequenceGap p
      | Some state \<Rightarrow>
          if kfu_Sequence event \<le> kft_sequence state then (p, Quiet)
          else if kft_sequence state = - 1 \<or> kfu_Sequence event \<noteq> kft_sequence state + 1 then kf_sequenceGap p
          else case kf_apply event state of
                 Inl err \<Rightarrow> (p, Failed err)
               | Inr state' \<Rightarrow> let p' = p\<lparr>kfp_state := Some state'\<rparr> in (p', Shown (kf_view book p' state')))"

definition kf_processUpdate :: "kf_OrderBook \<Rightarrow> kf_Processor \<Rightarrow> 64 word \<Rightarrow> kf_Update \<Rightarrow> kf_Processor \<times> kf_View processed" where
  "kf_processUpdate book p generation event =
     (case kf_prepareGeneration generation p of
        (p, Inl err) \<Rightarrow> (p, Failed err)
      | (p, Inr True) \<Rightarrow> (p, Quiet)
      | (p, Inr False) \<Rightarrow>
          (case kf_validateUpdate book event of
             Some err \<Rightarrow> (p, Failed err)
           | None \<Rightarrow> kf_continue book event p))"

definition kf_Decode :: "(string \<Rightarrow> 'a result) \<Rightarrow> kf_StreamMessage \<Rightarrow> 'a result" where
  "kf_Decode Unmarshal message =
     (if kfm_Raw message = [] then Inl (errorText ''Kraken Futures stream message is empty'')
      else case Unmarshal (kfm_Raw message) of
             Inl err \<Rightarrow> Inl (Errorf ''decode Kraken Futures stream data: %w'' [] [err])
           | Inr event \<Rightarrow> Inr event)"

text \<open>The message handler of \<open>Run\<close>; the generation is what the stream reports at the time.\<close>

definition kf_on_message ::
  "(string \<Rightarrow> kf_Snapshot result) \<Rightarrow> (string \<Rightarrow> kf_Update result) \<Rightarrow> kf_OrderBook \<Rightarrow> kf_Processor \<Rightarrow>
   64 word \<times> kf_StreamMessage \<Rightarrow> kf_Processor \<times> kf_View processed" where
  "kf_on_message UnmarshalSnapshot UnmarshalUpdate book p = (\<lambda>(generation, message).
     if kfm_Event message \<noteq> [] then (p, Quiet)
     else if kfm_Feed message = ''book_snapshot'' then
       (if kfm_ProductID message \<noteq> kfb_productID book then (p, Quiet)
        else case kf_Decode UnmarshalSnapshot message of
               Inl err \<Rightarrow> (p, Failed err)
             | Inr event \<Rightarrow> kf_processSnapshot book p generation event)
     else if kfm_Feed message = ''book'' then
       (if kfm_ProductID message \<noteq> kfb_productID book then (p, Quiet)
        else case kf_Decode UnmarshalUpdate message of
               Inl err \<Rightarrow> (p, Failed err)
             | Inr event \<Rightarrow> kf_processUpdate book p generation event)
     else (p, Quiet))"

definition kf_init :: kf_Processor where
  "kf_init = \<lparr>kfp_generation = 0, kfp_synchronizationID = 0, kfp_gapCount = 0, kfp_state = None\<rparr>"

section \<open>A processed stream is a chain of updates\<close>

datatype kf_event = KfSnapshot kf_Snapshot | KfUpdate kf_Update

fun kf_final :: "kf_event \<Rightarrow> 64 word" where
  "kf_final (KfSnapshot s) = kfx_Sequence s"
| "kf_final (KfUpdate u) = kfu_Sequence u"

definition kf_follows :: "64 word \<Rightarrow> kf_event \<Rightarrow> bool" where
  "kf_follows k ev \<longleftrightarrow> unat (kf_final ev) = unat k + 1"

fun kf_effect :: "kf_event \<Rightarrow> abs_book \<Rightarrow> abs_book" where
  "kf_effect (KfSnapshot s) b = abs_levels (map kraken_fields (kfx_Bids s)) (map kraken_fields (kfx_Asks s)) b"
| "kf_effect (KfUpdate u) b =
     (if kfu_Side u = ''buy'' then abs_levels [[kfu_Price u, kfu_Quantity u]] [] b
      else abs_levels [] [[kfu_Price u, kfu_Quantity u]] b)"

fun kf_accept :: "kf_State \<Rightarrow> kf_event \<Rightarrow> kf_State option" where
  "kf_accept st (KfSnapshot s) = None"
| "kf_accept st (KfUpdate u) =
     (if kft_sequence st = - 1 \<or> kfu_Sequence u \<noteq> kft_sequence st + 1 then None
      else case kf_apply u st of Inl _ \<Rightarrow> None | Inr st' \<Rightarrow> Some st')"

definition kf_good :: "kf_State \<Rightarrow> bool" where
  "kf_good st \<longleftrightarrow> side_ok (kft_bids st) \<and> side_ok (kft_asks st)"

definition kf_sides :: "kf_State \<Rightarrow> abs_book" where
  "kf_sides st = (abs_of (kft_bids st), abs_of (kft_asks st))"

text \<open>What the decoders find in a message; the empty event stands for a payload they refuse.\<close>

definition kf_event_of ::
  "(string \<Rightarrow> kf_Snapshot result) \<Rightarrow> (string \<Rightarrow> kf_Update result) \<Rightarrow> 64 word \<times> kf_StreamMessage \<Rightarrow> kf_event" where
  "kf_event_of UnmarshalSnapshot UnmarshalUpdate m =
     (if kfm_Feed (snd m) = ''book_snapshot''
      then KfSnapshot (case UnmarshalSnapshot (kfm_Raw (snd m)) of
         Inr s \<Rightarrow> s
       | Inl _ \<Rightarrow> \<lparr>kfx_Feed = [], kfx_ProductID = [], kfx_Sequence = 0, kfx_Timestamp = 0, kfx_TickSize = [], kfx_Bids = [], kfx_Asks = []\<rparr>)
      else KfUpdate (case UnmarshalUpdate (kfm_Raw (snd m)) of
         Inr u \<Rightarrow> u
       | Inl _ \<Rightarrow> \<lparr>kfu_Feed = [], kfu_ProductID = [], kfu_Sequence = 0, kfu_Timestamp = 0, kfu_Side = [], kfu_Price = [], kfu_Quantity = []\<rparr>))"

abbreviation kf_snap :: "64 word \<times> kf_StreamMessage \<Rightarrow> bool" where
  "kf_snap m \<equiv> kfm_Feed (snd m) = ''book_snapshot''"

lemma kf_parseLevel_eq:
  "kf_parseLevel l allowZero =
     (if fields_ok (kraken_fields l) \<and> (allowZero \<or> \<not> kf_decimalIsZero (snd l))
      then Inr (Rat_RatString (decimal_value (fst l)),
             \<lparr>ll_priceText = fst l, ll_quantityText = snd l, ll_price = decimal_value (fst l)\<rparr>)
      else Inl (validationError ''Futures local order book level is invalid'' []))"
  using Trim_zero_pos [of "fst l"]
  by (auto simp: kf_parseLevel_def fields_ok_def Rat_SetString_def kf_decimalIsZero_def split: prod.split)

lemma kf_applyLevel_Inr: "kf_applyLevel m l z = Inr m' \<Longrightarrow> applyLocalLevel m (kraken_fields l) = Inr m'"
  by (auto simp: kf_applyLevel_def kf_parseLevel_eq applyLocalLevel_def parseDepthFields_eq kf_decimalIsZero_def
      split: if_splits)

lemma kf_applyLevels_Inr: "kf_applyLevels m ls = Inr m' \<Longrightarrow> applyLocalLevels m (map kraken_fields ls) = Inr m'"
proof (induction m ls rule: kf_applyLevels.induct)
  case (2 m l ls)
  then obtain m1 where "kf_applyLevel m l False = Inr m1" "kf_applyLevels m1 ls = Inr m'" by (auto split: sum.splits)
  with 2(1) show ?case by (simp add: kf_applyLevel_Inr)
qed simp

lemma kf_applyLevels_total: "kf_checkLevels ls = None \<Longrightarrow> \<exists>m'. kf_applyLevels m ls = Inr m'"
  by (induction ls arbitrary: m) (simp_all add: kf_applyLevel_def split: sum.splits prod.splits if_splits)

lemma kf_sortedLevels_eq: "kf_sortedLevels = sortedLocalLevels"
  by (simp add: fun_eq_iff kf_sortedLevels_def sortedLocalLevels_def)

lemma kf_newState_good:
  assumes "kf_newState s = Inr st"
  shows "kf_good st \<and> kft_sequence st = kfx_Sequence s \<and> kf_sides st = kf_effect (KfSnapshot s) abs_empty"
proof -
  from assms obtain bids asks where parts: "kf_applyLevels [] (kfx_Bids s) = Inr bids" "kf_applyLevels [] (kfx_Asks s) = Inr asks"
    and st: "kft_bids st = bids" "kft_asks st = asks" "kft_sequence st = kfx_Sequence s"
    by (auto simp: kf_newState_def split: sum.splits)
  from applyLocalLevels_refines [OF side_ok_Nil kf_applyLevels_Inr [OF parts(1)]]
    applyLocalLevels_refines [OF side_ok_Nil kf_applyLevels_Inr [OF parts(2)]] show ?thesis
    by (simp add: kf_good_def st kf_sides_def abs_levels_def abs_empty_def)
qed

lemma kf_apply_good:
  assumes "kf_good st" "kf_apply u st = Inr st'"
  shows "kf_good st' \<and> kft_sequence st' = kfu_Sequence u \<and> kf_sides st' = kf_effect (KfUpdate u) (kf_sides st)"
proof (cases "kfu_Side u = ''buy''")
  case True
  with assms(2) obtain bids where b: "kf_applyLevel (kft_bids st) (kfu_Price u, kfu_Quantity u) True = Inr bids"
    and st': "kft_bids st' = bids" "kft_asks st' = kft_asks st" "kft_sequence st' = kfu_Sequence u"
    by (auto simp: kf_apply_def Let_def split: sum.splits)
  from applyLocalLevel_refines [OF _ kf_applyLevel_Inr [OF b]] assms(1) True show ?thesis
    by (simp add: kf_good_def st' kf_sides_def abs_levels_def)
next
  case False
  with assms(2) obtain asks where a: "kf_applyLevel (kft_asks st) (kfu_Price u, kfu_Quantity u) True = Inr asks"
    and st': "kft_asks st' = asks" "kft_bids st' = kft_bids st" "kft_sequence st' = kfu_Sequence u"
    by (auto simp: kf_apply_def Let_def split: sum.splits)
  from applyLocalLevel_refines [OF _ kf_applyLevel_Inr [OF a]] assms(1) False show ?thesis
    by (simp add: kf_good_def st' kf_sides_def abs_levels_def)
qed

lemma word_succ_unat: "k \<noteq> - 1 \<Longrightarrow> unat (k + 1) = unat k + 1" for k :: "64 word"
  by (metis Suc_eq_plus1 add.commute add_eq_0_iff unatSuc)

interpretation kraken_futures: sequenced_book kf_good kft_sequence kf_sides kf_follows kf_final kf_effect kf_accept
proof unfold_locales
  fix st ev st'
  assume good: "kf_good st" and "kf_accept st ev = Some st'"
  then obtain u where ev: "ev = KfUpdate u" "kft_sequence st \<noteq> - 1" "kfu_Sequence u = kft_sequence st + 1" and run: "kf_apply u st = Inr st'"
    by (cases ev) (auto split: if_splits sum.splits)
  from kf_apply_good [OF good run]
  show "kf_good st'" "kft_sequence st' = kf_final ev" "kf_sides st' = kf_effect ev (kf_sides st)" by (simp_all add: ev(1))
  show "kf_follows (kft_sequence st) ev" using word_succ_unat [OF ev(2)] by (simp add: kf_follows_def ev)
qed

text \<open>A generation that is entered drops the book of the connection before.\<close>

lemma kf_prepareGeneration_live:
  assumes "kf_prepareGeneration g p = (q, out)" "kfp_state q = Some st"
  shows "kfp_state p = Some st \<and> kfp_generation q = kfp_generation p \<and> (out = Inr False \<longrightarrow> g = kfp_generation p)"
  using assms by (auto simp: kf_prepareGeneration_def split: if_splits)

lemma kf_prepareGeneration_current: "kf_prepareGeneration g p = (q, Inr False) \<Longrightarrow> kfp_generation q = g"
  by (auto simp: kf_prepareGeneration_def split: if_splits)

lemma kf_processSnapshot_live:
  assumes "kf_processSnapshot book p g s = (p', out)" "kfp_state p' = Some st'"
  shows "kfp_state p = Some st' \<and> kfp_generation p' = kfp_generation p \<or>
     g = kfp_generation p' \<and> kf_good st' \<and> kft_sequence st' = kfx_Sequence s \<and> kf_sides st' = kf_effect (KfSnapshot s) abs_empty"
proof -
  obtain q r where prep: "kf_prepareGeneration g p = (q, r)" by fastforce
  consider (kept) "p' = q" | (new) st where "r = Inr False" "kf_newState s = Inr st" "p' = q\<lparr>kfp_state := Some st, kfp_synchronizationID := kfp_synchronizationID q + 1\<rparr>"
    using assms(1) by (auto simp: kf_processSnapshot_def prep Let_def split: sum.splits bool.splits option.splits)
  then show ?thesis
  proof cases
    case kept
    with kf_prepareGeneration_live [OF prep] assms(2) show ?thesis by simp
  next
    case new
    with kf_prepareGeneration_current prep have "kfp_generation p' = g" by simp
    with new kf_newState_good [OF new(2)] assms(2) show ?thesis by simp
  qed
qed

lemma kf_continue_live:
  assumes "kf_continue book u p = (p', out)" "kfp_state p' = Some st'"
  shows "kfp_generation p' = kfp_generation p \<and>
     (kfp_state p = Some st' \<or> (\<exists>st. kfp_state p = Some st \<and> kf_accept st (KfUpdate u) = Some st'))"
proof (cases "kfp_state p")
  case None
  with assms show ?thesis by (auto simp: kf_continue_def kf_sequenceGap_def)
next
  case (Some st)
  show ?thesis
  proof (cases "kfu_Sequence u \<le> kft_sequence st \<or> kft_sequence st = - 1 \<or> kfu_Sequence u \<noteq> kft_sequence st + 1")
    case True
    then have "p' = p \<or> kfp_state p' = None"
      using assms(1) unfolding kf_continue_def Some option.case kf_sequenceGap_def by (auto split: if_splits)
    with assms(2) show ?thesis by auto
  next
    case False
    with assms Some show ?thesis by (auto simp: kf_continue_def Let_def split: sum.splits)
  qed
qed

lemma kf_processUpdate_live:
  assumes "kf_processUpdate book p g u = (p', out)" "kfp_state p' = Some st'"
  shows "kfp_state p = Some st' \<and> kfp_generation p' = kfp_generation p \<or>
     (\<exists>st. kfp_state p = Some st \<and> kfp_generation p' = kfp_generation p \<and> g = kfp_generation p \<and>
        kf_accept st (KfUpdate u) = Some st')"
proof -
  obtain q r where prep: "kf_prepareGeneration g p = (q, r)" by fastforce
  consider (kept) "p' = q" | (current) "r = Inr False" "kf_continue book u q = (p', out)"
    using assms(1) by (auto simp: kf_processUpdate_def prep split: sum.splits bool.splits option.splits)
  then show ?thesis
  proof cases
    case kept
    with kf_prepareGeneration_live [OF prep] assms(2) show ?thesis by simp
  next
    case current
    from kf_continue_live [OF current(2) assms(2)] obtain st where "kfp_state q = Some st" "kfp_generation p' = kfp_generation q"
      "st = st' \<or> kf_accept st (KfUpdate u) = Some st'" by blast
    with kf_prepareGeneration_live [OF prep this(1)] current(1) show ?thesis by auto
  qed
qed

lemma kf_processSnapshot_shown:
  assumes "kf_processSnapshot book p g s = (p', Shown v)"
  shows "\<exists>st. kfp_state p' = Some st \<and> v = kf_view book p' st"
proof -
  obtain q r where prep: "kf_prepareGeneration g p = (q, r)" by fastforce
  with assms show ?thesis
    by (auto simp: kf_processSnapshot_def Let_def split: sum.splits bool.splits option.splits)
qed

lemma kf_processUpdate_shown:
  assumes "kf_processUpdate book p g u = (p', Shown v)"
  shows "\<exists>st. kfp_state p' = Some st \<and> v = kf_view book p' st"
proof -
  obtain q r where prep: "kf_prepareGeneration g p = (q, r)" by fastforce
  with assms show ?thesis
    by (auto simp: kf_processUpdate_def kf_continue_def kf_sequenceGap_def Let_def
        split: sum.splits bool.splits option.splits if_split_asm)
qed

lemma kf_on_message_cases:
  assumes "kf_on_message US UU book p m = (p', out)"
  shows "p' = p \<and> shown_views out = [] \<or>
     kf_snap m \<and> (\<exists>s. kf_event_of US UU m = KfSnapshot s \<and> kf_processSnapshot book p (fst m) s = (p', out)) \<or>
     \<not> kf_snap m \<and> (\<exists>u. kf_event_of US UU m = KfUpdate u \<and> kf_processUpdate book p (fst m) u = (p', out))"
  using assms unfolding kf_on_message_def kf_Decode_def kf_event_of_def
  by (auto split: prod.splits if_split_asm sum.splits)

interpretation kf_stream: snapshot_stream kf_good kft_sequence kf_sides kf_follows kf_final kf_effect kf_accept
  kfp_generation kfp_state "kf_on_message US UU book" fst "kf_event_of US UU" kf_snap kf_final "kf_view book" for book US UU
proof unfold_locales
  fix p m p' out st'
  assume step: "kf_on_message US UU book p m = (p', out)" "kfp_state p' = Some st'"
  from kf_on_message_cases [OF step(1)]
  show "kfp_state p = Some st' \<and> kfp_generation p' = kfp_generation p \<or>
      kf_snap m \<and> fst m = kfp_generation p' \<and> kf_good st' \<and> kft_sequence st' = kf_final (kf_event_of US UU m) \<and>
      kf_sides st' = kf_effect (kf_event_of US UU m) abs_empty \<or>
      (\<exists>st. kfp_state p = Some st \<and> kfp_generation p' = kfp_generation p \<and> fst m = kfp_generation p \<and> \<not> kf_snap m \<and>
        kf_accept st (kf_event_of US UU m) = Some st')"
  proof (elim disjE exE conjE)
    fix s assume s: "kf_snap m" "kf_event_of US UU m = KfSnapshot s" "kf_processSnapshot book p (fst m) s = (p', out)"
    from kf_processSnapshot_live [OF s(3) step(2)] s(1,2) show ?thesis by (elim disjE) simp_all
  next
    fix u assume u: "\<not> kf_snap m" "kf_event_of US UU m = KfUpdate u" "kf_processUpdate book p (fst m) u = (p', out)"
    from kf_processUpdate_live [OF u(3) step(2)] u(1,2) show ?thesis by metis
  qed (use step(2) in simp)
next
  fix p m p' v
  assume "kf_on_message US UU book p m = (p', Shown v)"
  from kf_on_message_cases [OF this]
  show "\<exists>st. kfp_state p' = Some st \<and> v = kf_view book p' st"
    by (elim disjE exE conjE) (simp_all add: kf_processSnapshot_shown kf_processUpdate_shown)
qed

section \<open>Properties\<close>

text \<open>C10. Every view the Kraken Futures book shows is a snapshot of its own connection and an unbroken chain of later
  updates of that connection: each raises the 64-bit sequence by exactly one, never past its end, and the shown
  sides are the best levels of what the single-level changes make of the snapshot.\<close>

theorem kf_views_gapless:
  assumes "v \<in> set (snd (stream_run (kf_on_message US UU book) kf_init ms))"
  shows "\<exists>before m after evs. ms = before @ m # after \<and> kf_snap m \<and> fst m = kfv_Generation v \<and>
     subseq evs (map (kf_event_of US UU) (filter (\<lambda>x. fst x = kfv_Generation v \<and> \<not> kf_snap x) after)) \<and>
     chained (\<lambda>k ev. unat (kf_final ev) = unat k + 1) kf_final (kf_final (kf_event_of US UU m)) evs \<and>
     kfv_Sequence v = end_of kf_final (kf_final (kf_event_of US UU m)) evs \<and>
     view_of (fst (fold kf_effect evs (kf_effect (kf_event_of US UU m) abs_empty))) (kfb_viewDepth book) True (kfv_Bids v) \<and>
     view_of (snd (fold kf_effect evs (kf_effect (kf_event_of US UU m) abs_empty))) (kfb_viewDepth book) False (kfv_Asks v)"
proof -
  have "kfp_state kf_init = None" by (simp add: kf_init_def)
  from conjunct2 [OF kf_stream.run_streamed [OF this, of US UU book ms]] assms
  obtain p st where v: "v = kf_view book p st" and st: "kf_stream.streamed US UU ms (kfp_generation p) st" by blast
  have shown: "kfv_Generation v = kfp_generation p" "kfv_Sequence v = kft_sequence st"
    "kfv_Bids v = sortedLocalLevels (kft_bids st) (kfb_viewDepth book) True"
    "kfv_Asks v = sortedLocalLevels (kft_asks st) (kfb_viewDepth book) False"
    by (simp_all add: v kf_view_def kf_sortedLevels_eq)
  have "view_of (fst (kf_sides st)) (kfb_viewDepth book) True (kfv_Bids v)"
    "view_of (snd (kf_sides st)) (kfb_viewDepth book) False (kfv_Asks v)"
    using kf_stream.streamed_good [OF st] by (simp_all add: shown kf_good_def kf_sides_def sortedLocalLevels_view)
  moreover from st obtain before m after evs where "ms = before @ m # after" "kf_snap m" "fst m = kfp_generation p"
    "subseq evs (map (kf_event_of US UU) (filter (\<lambda>x. fst x = kfp_generation p \<and> \<not> kf_snap x) after))"
    "chained kf_follows kf_final (kf_final (kf_event_of US UU m)) evs"
    "kft_sequence st = end_of kf_final (kf_final (kf_event_of US UU m)) evs"
    "kf_sides st = fold kf_effect evs (kf_effect (kf_event_of US UU m) abs_empty)"
    unfolding kf_stream.streamed_def kraken_futures.tracks_def by (elim exE conjE) assumption+
  ultimately show ?thesis unfolding shown(1,2) kf_follows_def [symmetric, abs_def]
    by (intro exI conjI) (assumption | simp only:)+
qed

definition kf_demo_book :: kf_OrderBook where
  "kf_demo_book = \<lparr>kfb_productID = ''P'', kfb_viewDepth = 1, kfb_routeID = ''r''\<rparr>"

definition kf_demo_message :: "string \<Rightarrow> 64 word \<times> kf_StreamMessage" where
  "kf_demo_message feed = (1, \<lparr>kfm_Event = [], kfm_Feed = feed, kfm_Message = [], kfm_ProductID = ''P'', kfm_ProductIDs = [],
     kfm_Account = [], kfm_Raw = feed\<rparr>)"

definition kf_demo_snapshot :: "string \<Rightarrow> kf_Snapshot result" where
  "kf_demo_snapshot s = Inr \<lparr>kfx_Feed = ''book_snapshot'', kfx_ProductID = ''P'', kfx_Sequence = 7, kfx_Timestamp = 1,
     kfx_TickSize = [], kfx_Bids = [(''1'', ''5'')], kfx_Asks = [(''3'', ''4'')]\<rparr>"

definition kf_demo_update :: "string \<Rightarrow> kf_Update result" where
  "kf_demo_update s = Inr \<lparr>kfu_Feed = ''book'', kfu_ProductID = ''P'', kfu_Sequence = 8, kfu_Timestamp = 2, kfu_Side = ''sell'',
     kfu_Price = ''2'', kfu_Quantity = ''1''\<rparr>"

definition kf_demo :: "(64 word \<times> kf_StreamMessage) list" where
  "kf_demo = [kf_demo_message ''book_snapshot'', kf_demo_message ''book'']"

definition kf_demo_view :: kf_View where
  "kf_demo_view = \<lparr>kfv_ProductID = ''P'', kfv_ViewDepth = 1, kfv_Generation = 1, kfv_SynchronizationID = 1, kfv_GapCount = 0,
     kfv_Sequence = 8, kfv_Timestamp = 2, kfv_Bids = [(''1'', ''5'')], kfv_Asks = [(''2'', ''1'')]\<rparr>"

lemma kf_demo_shown:
  "list_ex (\<lambda>v. v = kf_demo_view) (snd (stream_run (kf_on_message kf_demo_snapshot kf_demo_update kf_demo_book) kf_init kf_demo))"
  by code_simp

theorem kf_views_gapless_witness:
  "\<exists>before m after evs. kf_demo = before @ m # after \<and> kf_snap m \<and> fst m = 1 \<and>
     8 = end_of kf_final (kf_final (kf_event_of kf_demo_snapshot kf_demo_update m)) evs"
proof -
  have "kf_demo_view \<in> set (snd (stream_run (kf_on_message kf_demo_snapshot kf_demo_update kf_demo_book) kf_init kf_demo))"
    using kf_demo_shown unfolding list_ex_iff by blast
  from kf_views_gapless [OF this]
  have "\<exists>before m after evs. kf_demo = before @ m # after \<and> kf_snap m \<and> fst m = kfv_Generation kf_demo_view \<and>
     kfv_Sequence kf_demo_view = end_of kf_final (kf_final (kf_event_of kf_demo_snapshot kf_demo_update m)) evs"
    by (elim exE conjE) (intro exI conjI)
  then show ?thesis unfolding kf_demo_view_def kf_View.select_convs .
qed

end
