(* ===== verification/Coinbase_Book.thy ===== *)
theory Coinbase_Book
  imports Sequenced_Book Bybit_Requests
begin

text \<open>
  The Coinbase Advanced Trade local order book (\<open>exchange/coinbase/local_order_book.go\<close>). A message carries one
  sequence number and several events; snapshots and updates may be mixed, all events of the product are applied
  in order, and one view is shown for the whole message. The sequence number lives in the processor and not in
  the book.

  \<open>time.Parse\<close> and the JSON decoder are parameters.
\<close>

section \<open>Subscriptions\<close>

record coinbase_StreamSubscription =
  cbs_Channel :: string
  cbs_ProductIDs :: "string list"

text \<open>The pattern \<open>^[0-9A-Za-z._-]+$\<close>.\<close>

definition coinbase_pathSegmentPattern :: "string \<Rightarrow> bool" where
  "coinbase_pathSegmentPattern s \<longleftrightarrow> s \<noteq> [] \<and>
     list_all (\<lambda>c. 48 \<le> (of_char c :: nat) \<and> (of_char c :: nat) \<le> 57 \<or> 65 \<le> (of_char c :: nat) \<and> (of_char c :: nat) \<le> 90 \<or>
       97 \<le> (of_char c :: nat) \<and> (of_char c :: nat) \<le> 122 \<or> c = CHR ''.'' \<or> c = CHR ''_'' \<or> c = CHR ''-'') s"

fun check_product_ids :: "string list \<Rightarrow> string list \<Rightarrow> go_error option" where
  "check_product_ids seen [] = None"
| "check_product_ids seen (productID # rest) =
     (if \<not> coinbase_pathSegmentPattern productID \<or> TrimSpace productID \<noteq> productID
      then Some (validationError ''invalid WebSocket product ID %q'' [StrArg productID])
      else if productID \<in> set seen then Some (validationError ''duplicate WebSocket product ID %q'' [StrArg productID])
      else check_product_ids (productID # seen) rest)"

definition validateStreamProductIDs :: "string list \<Rightarrow> bool \<Rightarrow> string list result" where
  "validateStreamProductIDs productIDs allowEmpty =
     (if productIDs = [] then
        (if allowEmpty then Inr [] else Inl (validationError ''at least one WebSocket product ID is required'' []))
      else if 100 < length productIDs then Inl (validationError ''WebSocket product count cannot exceed %d'' [IntArg 100])
      else case check_product_ids [] productIDs of
             Some err \<Rightarrow> Inl err
           | None \<Rightarrow> Inr (sort productIDs))"

definition validatePublicSubscription :: "coinbase_StreamSubscription \<Rightarrow> coinbase_StreamSubscription result" where
  "validatePublicSubscription subscription =
     (let channel = cbs_Channel subscription
      in if channel = ''heartbeats'' then
           (if cbs_ProductIDs subscription \<noteq> [] then Inl (validationError ''heartbeat subscription cannot contain products'' [])
            else Inr \<lparr>cbs_Channel = ''heartbeats'', cbs_ProductIDs = []\<rparr>)
         else if channel \<in> set [''candles'', ''market_trades'', ''status'', ''ticker'', ''ticker_batch'', ''level2''] then
           (if cbs_ProductIDs subscription = []
            then Inl (validationError ''WebSocket channel %q requires at least one product'' [StrArg channel])
            else case validateStreamProductIDs (cbs_ProductIDs subscription) False of
                   Inl err \<Rightarrow> Inl err
                 | Inr products \<Rightarrow> Inr \<lparr>cbs_Channel = channel, cbs_ProductIDs = products\<rparr>)
         else Inl (validationError ''unsupported public WebSocket channel %q'' [StrArg channel]))"

text \<open>The subscriptions of a stream are a map from channels.\<close>

definition coinbase_hasSubscription :: "(string \<Rightarrow> coinbase_StreamSubscription option) \<Rightarrow> string \<Rightarrow> string \<Rightarrow> bool" where
  "coinbase_hasSubscription subscriptions channel productID \<longleftrightarrow>
     (case subscriptions channel of None \<Rightarrow> False | Some subscription \<Rightarrow> productID \<in> set (cbs_ProductIDs subscription))"

section \<open>Data\<close>

record coinbase_OrderBookConfig =
  cbc_ProductID :: string
  cbc_ViewDepth :: int
  cbc_EgressRouteID :: EgressRouteID

record coinbase_View =
  cbv_ProductID :: string
  cbv_ViewDepth :: int
  cbv_Generation :: "64 word"
  cbv_SynchronizationID :: "64 word"
  cbv_GapCount :: "64 word"
  cbv_SequenceNumber :: int
  cbv_Timestamp :: string
  cbv_EventTime :: string
  cbv_Bids :: "(string \<times> string) list"
  cbv_Asks :: "(string \<times> string) list"

record coinbase_OrderBook =
  cbb_productID :: string
  cbb_viewDepth :: int
  cbb_routeID :: EgressRouteID

record StreamLevel2Update =
  cbu_Side :: string
  cbu_EventTime :: string
  cbu_PriceLevel :: string
  cbu_NewQuantity :: string

record StreamLevel2Event =
  cbe_Type :: string
  cbe_ProductID :: string
  cbe_Updates :: "StreamLevel2Update list"

record coinbase_StreamMessage =
  cbm_Type :: string
  cbm_Channel :: string
  cbm_ClientID :: string
  cbm_Timestamp :: string
  cbm_SequenceNumber :: int
  cbm_Message :: string
  cbm_Events :: string

record coinbase_State =
  cbt_bids :: depth_side
  cbt_asks :: depth_side
  cbt_timestamp :: string
  cbt_eventTime :: string

record coinbase_Processor =
  cbp_generation :: "64 word"
  cbp_synchronizationID :: "64 word"
  cbp_gapCount :: "64 word"
  cbp_sequenceNumber :: int
  cbp_sequenceSet :: bool
  cbp_state :: "coinbase_State option"

section \<open>Operations\<close>

definition coinbase_NewLocalOrderBook :: "coinbase_OrderBookConfig \<Rightarrow> coinbase_OrderBook result" where
  "coinbase_NewLocalOrderBook config =
     (case validatePublicSubscription \<lparr>cbs_Channel = ''level2'', cbs_ProductIDs = [cbc_ProductID config]\<rparr> of
        Inl err \<Rightarrow> Inl err
      | Inr subscription \<Rightarrow>
          let route = TrimSpace (cbc_EgressRouteID config)
          in if route = [] then Inl (Sentinel ErrMissingEgressRoute)
             else
               let viewDepth = (if cbc_ViewDepth config = 0 then 20 else cbc_ViewDepth config)
               in if viewDepth < 1 then Inl (validationError ''local order book view depth must be positive'' [])
                  else Inr \<lparr>cbb_productID = cbs_ProductIDs subscription ! 0, cbb_viewDepth = viewDepth, cbb_routeID = route\<rparr>)"

text \<open>The key, the level and the side of an update.\<close>

definition coinbase_parseUpdate ::
  "(string \<Rightarrow> bool) \<Rightarrow> StreamLevel2Update \<Rightarrow> (string \<times> localDepthLevel \<times> string) result" where
  "coinbase_parseUpdate isTime update =
     (if cbu_Side update \<noteq> ''bid'' \<and> cbu_Side update \<noteq> ''offer''
      then Inl (validationError ''local order book side is invalid'' [])
      else if \<not> positiveDecimalPattern (cbu_PriceLevel update) \<or> Trim (cbu_PriceLevel update) ''0.'' = [] \<or>
              \<not> positiveDecimalPattern (cbu_NewQuantity update)
      then Inl (validationError ''local order book level is invalid'' [])
      else if \<not> isTime (cbu_EventTime update) then Inl (validationError ''local order book event time is invalid'' [])
      else case Rat_SetString (cbu_PriceLevel update) of
             None \<Rightarrow> Inl (validationError ''local order book price is invalid'' [])
           | Some price \<Rightarrow>
               if price \<le> 0 then Inl (validationError ''local order book price is invalid'' [])
               else Inr (Rat_RatString price,
                      \<lparr>ll_priceText = cbu_PriceLevel update, ll_quantityText = cbu_NewQuantity update, ll_price = price\<rparr>,
                      cbu_Side update))"

fun coinbase_checkUpdates :: "(string \<Rightarrow> bool) \<Rightarrow> StreamLevel2Update list \<Rightarrow> go_error option" where
  "coinbase_checkUpdates isTime [] = None"
| "coinbase_checkUpdates isTime (u # rest) =
     (case coinbase_parseUpdate isTime u of Inl err \<Rightarrow> Some err | Inr _ \<Rightarrow> coinbase_checkUpdates isTime rest)"

definition coinbase_validateEvent ::
  "(string \<Rightarrow> bool) \<Rightarrow> coinbase_OrderBook \<Rightarrow> StreamLevel2Event \<Rightarrow> go_error option" where
  "coinbase_validateEvent isTime book event =
     (if cbe_ProductID event \<noteq> cbb_productID book \<or> cbe_Type event \<noteq> ''snapshot'' \<and> cbe_Type event \<noteq> ''update''
      then Some (validationError ''local order book event identity or type is invalid'' [])
      else coinbase_checkUpdates isTime (cbe_Updates event))"

text \<open>One round of the loop of \<open>apply\<close>: the target map of the update is changed.\<close>

definition coinbase_applyUpdate ::
  "(string \<Rightarrow> bool) \<Rightarrow> StreamLevel2Update \<Rightarrow> coinbase_State \<Rightarrow> coinbase_State result" where
  "coinbase_applyUpdate isTime update state =
     (case coinbase_parseUpdate isTime update of
        Inl err \<Rightarrow> Inl err
      | Inr (key, level, side) \<Rightarrow>
          let change = (\<lambda>levels. if Trim (ll_quantityText level) ''0.'' = [] then AList.delete key levels
                else AList.update key level levels)
          in if side = ''bid'' then Inr (state\<lparr>cbt_bids := change (cbt_bids state)\<rparr>)
             else Inr (state\<lparr>cbt_asks := change (cbt_asks state)\<rparr>))"

text \<open>The loop; \<open>latest\<close> is the event time of the last update.\<close>

fun coinbase_applyUpdates ::
  "(string \<Rightarrow> bool) \<Rightarrow> string \<Rightarrow> StreamLevel2Update list \<Rightarrow> coinbase_State \<Rightarrow> (coinbase_State \<times> string) result" where
  "coinbase_applyUpdates isTime latest [] state = Inr (state, latest)"
| "coinbase_applyUpdates isTime latest (u # rest) state =
     (case coinbase_applyUpdate isTime u state of
        Inl err \<Rightarrow> Inl err
      | Inr state \<Rightarrow> coinbase_applyUpdates isTime (cbu_EventTime u) rest state)"

definition coinbase_apply ::
  "(string \<Rightarrow> bool) \<Rightarrow> string \<Rightarrow> StreamLevel2Update list \<Rightarrow> coinbase_State \<Rightarrow> coinbase_State result" where
  "coinbase_apply isTime timestamp updates state =
     (case coinbase_applyUpdates isTime (cbt_eventTime state) updates state of
        Inl err \<Rightarrow> Inl err
      | Inr (state, latest) \<Rightarrow> Inr (state\<lparr>cbt_timestamp := timestamp, cbt_eventTime := latest\<rparr>))"

definition coinbase_emptyState :: coinbase_State where
  "coinbase_emptyState = \<lparr>cbt_bids = [], cbt_asks = [], cbt_timestamp = [], cbt_eventTime = []\<rparr>"

definition coinbase_view :: "coinbase_OrderBook \<Rightarrow> coinbase_Processor \<Rightarrow> coinbase_State \<Rightarrow> coinbase_View" where
  "coinbase_view book p state =
     \<lparr>cbv_ProductID = cbb_productID book, cbv_ViewDepth = cbb_viewDepth book, cbv_Generation = cbp_generation p,
      cbv_SynchronizationID = cbp_synchronizationID p, cbv_GapCount = cbp_gapCount p,
      cbv_SequenceNumber = cbp_sequenceNumber p, cbv_Timestamp = cbt_timestamp state, cbv_EventTime = cbt_eventTime state,
      cbv_Bids = sortedLocalLevels (cbt_bids state) (cbb_viewDepth book) True,
      cbv_Asks = sortedLocalLevels (cbt_asks state) (cbb_viewDepth book) False\<rparr>"

definition coinbase_sequenceGap :: "coinbase_Processor \<Rightarrow> coinbase_Processor \<times> coinbase_View processed" where
  "coinbase_sequenceGap p =
     (p\<lparr>cbp_gapCount := cbp_gapCount p + 1, cbp_sequenceSet := False, cbp_state := None\<rparr>, Reconnecting)"

definition coinbase_targetEvents :: "coinbase_OrderBook \<Rightarrow> StreamLevel2Event list \<Rightarrow> StreamLevel2Event list" where
  "coinbase_targetEvents book events = filter (\<lambda>e. cbe_ProductID e = cbb_productID book) events"

text \<open>How the loop over the events of a message ends: with the flag \<open>changed\<close>, at a gap, or with an error.\<close>

datatype coinbase_loop = LoopDone bool | LoopGap | LoopFailed go_error

fun coinbase_events ::
  "(string \<Rightarrow> bool) \<Rightarrow> coinbase_OrderBook \<Rightarrow> string \<Rightarrow> coinbase_Processor \<Rightarrow> bool \<Rightarrow> StreamLevel2Event list \<Rightarrow>
   coinbase_Processor \<times> coinbase_loop" where
  "coinbase_events isTime book timestamp p changed [] = (p, LoopDone changed)"
| "coinbase_events isTime book timestamp p changed (event # rest) =
     (case coinbase_validateEvent isTime book event of
        Some err \<Rightarrow> (p, LoopFailed err)
      | None \<Rightarrow>
          if cbe_Type event = ''snapshot'' then
            (case coinbase_apply isTime timestamp (cbe_Updates event) coinbase_emptyState of
               Inl err \<Rightarrow> (p, LoopFailed err)
             | Inr state \<Rightarrow>
                 coinbase_events isTime book timestamp
                   (p\<lparr>cbp_state := Some state, cbp_synchronizationID := cbp_synchronizationID p + 1\<rparr>) True rest)
          else if cbe_Type event = ''update'' then
            (case cbp_state p of
               None \<Rightarrow> (p, LoopGap)
             | Some state \<Rightarrow>
                 (case coinbase_apply isTime timestamp (cbe_Updates event) state of
                    Inl err \<Rightarrow> (p, LoopFailed err)
                  | Inr state \<Rightarrow> coinbase_events isTime book timestamp (p\<lparr>cbp_state := Some state\<rparr>) True rest))
          else coinbase_events isTime book timestamp p changed rest)"

text \<open>The part of \<open>process\<close> after the sequence check. \<open>changed\<close> implies that there is a book.\<close>

definition coinbase_applyEvents ::
  "(string \<Rightarrow> bool) \<Rightarrow> coinbase_OrderBook \<Rightarrow> int \<Rightarrow> string \<Rightarrow> StreamLevel2Event list \<Rightarrow> coinbase_Processor \<Rightarrow>
   coinbase_Processor \<times> coinbase_View processed" where
  "coinbase_applyEvents isTime book sequenceNumber timestamp events p =
     (if \<not> isTime timestamp then (p, Failed (validationError ''local order book timestamp is invalid'' []))
      else case coinbase_events isTime book timestamp p False events of
             (p, LoopFailed err) \<Rightarrow> (p, Failed err)
           | (p, LoopGap) \<Rightarrow> coinbase_sequenceGap p
           | (p, LoopDone changed) \<Rightarrow>
               let p = p\<lparr>cbp_sequenceNumber := sequenceNumber, cbp_sequenceSet := True\<rparr>
               in if \<not> changed then (p, Quiet)
                  else case cbp_state p of None \<Rightarrow> (p, Quiet) | Some state \<Rightarrow> (p, Shown (coinbase_view book p state)))"

definition coinbase_process ::
  "(string \<Rightarrow> bool) \<Rightarrow> coinbase_OrderBook \<Rightarrow> coinbase_Processor \<Rightarrow> 64 word \<Rightarrow> int \<Rightarrow> string \<Rightarrow> StreamLevel2Event list \<Rightarrow>
   coinbase_Processor \<times> coinbase_View processed" where
  "coinbase_process isTime book p generation sequenceNumber timestamp events =
     (if generation = 0 then (p, Failed (validationError ''local order book WebSocket generation is zero'' []))
      else if generation < cbp_generation p then (p, Quiet)
      else
        let p = (if cbp_generation p = 0 \<or> cbp_generation p < generation
                 then p\<lparr>cbp_generation := generation, cbp_sequenceSet := False, cbp_state := None\<rparr> else p);
            targetEvents = coinbase_targetEvents book events
        in if targetEvents = [] then (p, Quiet)
           else if sequenceNumber < 0 then (p, Failed (validationError ''local order book sequence is invalid'' []))
           else if cbp_sequenceSet p \<and> sequenceNumber \<le> cbp_sequenceNumber p then (p, Quiet)
           else if cbp_sequenceSet p \<and> (cbp_sequenceNumber p = 2 ^ 63 - 1 \<or> sequenceNumber \<noteq> cbp_sequenceNumber p + 1)
           then coinbase_sequenceGap p
           else coinbase_applyEvents isTime book sequenceNumber timestamp targetEvents p)"

definition coinbase_DecodeEvents ::
  "(string \<Rightarrow> StreamLevel2Event list result) \<Rightarrow> coinbase_StreamMessage \<Rightarrow> StreamLevel2Event list result" where
  "coinbase_DecodeEvents Unmarshal message =
     (if cbm_Events message = [] then Inl (errorText ''Coinbase stream message does not contain events'')
      else case Unmarshal (cbm_Events message) of
             Inl err \<Rightarrow> Inl (Errorf ''decode Coinbase stream events: %w'' [] [err])
           | Inr events \<Rightarrow> Inr events)"

text \<open>The message handler of \<open>Run\<close>; the generation is what the stream reports at the time.\<close>

definition coinbase_on_message ::
  "(string \<Rightarrow> StreamLevel2Event list result) \<Rightarrow> (string \<Rightarrow> bool) \<Rightarrow> coinbase_OrderBook \<Rightarrow> coinbase_Processor \<Rightarrow>
   64 word \<times> coinbase_StreamMessage \<Rightarrow> coinbase_Processor \<times> coinbase_View processed" where
  "coinbase_on_message Unmarshal isTime book p = (\<lambda>(generation, message).
     if cbm_Type message = ''error''
     then (p, Failed (Errorf ''Coinbase order book subscription failed: %s'' [StrArg (cbm_Message message)] []))
     else if cbm_Channel message \<noteq> ''l2_data'' then (p, Quiet)
     else case coinbase_DecodeEvents Unmarshal message of
            Inl err \<Rightarrow> (p, Failed err)
          | Inr events \<Rightarrow>
              coinbase_process isTime book p generation (cbm_SequenceNumber message) (cbm_Timestamp message) events)"

definition coinbase_init :: coinbase_Processor where
  "coinbase_init = \<lparr>cbp_generation = 0, cbp_synchronizationID = 0, cbp_gapCount = 0, cbp_sequenceNumber = 0,
     cbp_sequenceSet = False, cbp_state = None\<rparr>"

text \<open>An error of the handler ends \<open>Run\<close>: the flag says that it has ended.\<close>

definition coinbase_step ::
  "(string \<Rightarrow> StreamLevel2Event list result) \<Rightarrow> (string \<Rightarrow> bool) \<Rightarrow> coinbase_OrderBook \<Rightarrow> coinbase_Processor \<times> bool \<Rightarrow>
   64 word \<times> coinbase_StreamMessage \<Rightarrow> (coinbase_Processor \<times> bool) \<times> coinbase_View processed" where
  "coinbase_step Unmarshal isTime book = (\<lambda>(p, ended) m.
     if ended then ((p, True), Quiet)
     else case coinbase_on_message Unmarshal isTime book p m of
            (p', Failed err) \<Rightarrow> ((p', True), Failed err)
          | (p', out) \<Rightarrow> ((p', False), out))"

section \<open>What a message does to the abstract book\<close>

fun coinbase_change :: "StreamLevel2Update \<Rightarrow> abs_book \<Rightarrow> abs_book" where
  "coinbase_change u (bids, asks) =
     (if cbu_Side u = ''bid'' then (abs_apply [cbu_PriceLevel u, cbu_NewQuantity u] bids, asks)
      else (bids, abs_apply [cbu_PriceLevel u, cbu_NewQuantity u] asks))"

definition coinbase_event_effect :: "StreamLevel2Event \<Rightarrow> abs_book \<Rightarrow> abs_book" where
  "coinbase_event_effect e b =
     fold coinbase_change (cbe_Updates e) (if cbe_Type e = ''snapshot'' then abs_empty else b)"

definition coinbase_good :: "coinbase_State \<Rightarrow> bool" where
  "coinbase_good st \<longleftrightarrow> side_ok (cbt_bids st) \<and> side_ok (cbt_asks st)"

definition coinbase_sides :: "coinbase_State \<Rightarrow> abs_book" where
  "coinbase_sides st = (abs_of (cbt_bids st), abs_of (cbt_asks st))"

lemma coinbase_applyUpdate_good:
  assumes "coinbase_good st" "coinbase_applyUpdate isTime u st = Inr st'"
  shows "coinbase_good st' \<and> coinbase_sides st' = coinbase_change u (coinbase_sides st)"
proof -
  let ?f = "[cbu_PriceLevel u, cbu_NewQuantity u]"
  from assms(2) have ok: "fields_ok ?f"
    using Trim_zero_pos [of "cbu_PriceLevel u"]
    by (auto simp: coinbase_applyUpdate_def coinbase_parseUpdate_def fields_ok_def split: if_splits)
  have eq: "applyLocalLevel m ?f = Inr (if Trim (cbu_NewQuantity u) ''0.'' = []
      then AList.delete (Rat_RatString (decimal_value (cbu_PriceLevel u))) m
      else AList.update (Rat_RatString (decimal_value (cbu_PriceLevel u)))
        \<lparr>ll_priceText = cbu_PriceLevel u, ll_quantityText = cbu_NewQuantity u, ll_price = decimal_value (cbu_PriceLevel u)\<rparr> m)" for m
    using ok by (simp add: applyLocalLevel_def parseDepthFields_eq)
  show ?thesis
  proof (cases "cbu_Side u = ''bid''")
    case True
    with assms(2) ok have "applyLocalLevel (cbt_bids st) ?f = Inr (cbt_bids st')" "cbt_asks st' = cbt_asks st"
      by (auto simp: coinbase_applyUpdate_def coinbase_parseUpdate_def eq Rat_SetString_def Let_def fields_ok_def split: if_splits)
    with applyLocalLevel_refines [OF _ this(1)] assms(1) True show ?thesis
      by (simp add: coinbase_good_def coinbase_sides_def)
  next
    case False
    with assms(2) ok have "applyLocalLevel (cbt_asks st) ?f = Inr (cbt_asks st')" "cbt_bids st' = cbt_bids st"
      by (auto simp: coinbase_applyUpdate_def coinbase_parseUpdate_def eq Rat_SetString_def Let_def fields_ok_def split: if_splits)
    with applyLocalLevel_refines [OF _ this(1)] assms(1) False show ?thesis
      by (simp add: coinbase_good_def coinbase_sides_def)
  qed
qed

lemma coinbase_applyUpdates_good:
  "\<lbrakk>coinbase_good st; coinbase_applyUpdates isTime t us st = Inr (st', t')\<rbrakk> \<Longrightarrow>
     coinbase_good st' \<and> coinbase_sides st' = fold coinbase_change us (coinbase_sides st)"
proof (induction isTime t us st rule: coinbase_applyUpdates.induct)
  case (2 isTime t u us st)
  then obtain st1 where "coinbase_applyUpdate isTime u st = Inr st1" "coinbase_applyUpdates isTime (cbu_EventTime u) us st1 = Inr (st', t')"
    by (auto split: sum.splits)
  with 2 coinbase_applyUpdate_good [OF 2(2) this(1)] show ?case by simp
qed simp

lemma coinbase_apply_good:
  assumes "coinbase_good st" "coinbase_apply isTime ts us st = Inr st'"
  shows "coinbase_good st' \<and> coinbase_sides st' = fold coinbase_change us (coinbase_sides st)"
proof -
  from assms(2) obtain st1 t where run: "coinbase_applyUpdates isTime (cbt_eventTime st) us st = Inr (st1, t)"
    and st': "cbt_bids st' = cbt_bids st1" "cbt_asks st' = cbt_asks st1"
    by (auto simp: coinbase_apply_def split: sum.splits)
  from coinbase_applyUpdates_good [OF assms(1) run] show ?thesis by (simp add: coinbase_good_def coinbase_sides_def st')
qed

lemma coinbase_emptyState_good [simp]: "coinbase_good coinbase_emptyState" "coinbase_sides coinbase_emptyState = abs_empty"
  by (simp_all add: coinbase_good_def coinbase_sides_def coinbase_emptyState_def abs_empty_def)

text \<open>Events without a snapshot, applied to a book one after the other.\<close>

fun coinbase_updates :: "(string \<Rightarrow> bool) \<Rightarrow> string \<Rightarrow> StreamLevel2Event list \<Rightarrow> coinbase_State \<Rightarrow> coinbase_State option" where
  "coinbase_updates isTime ts [] st = Some st"
| "coinbase_updates isTime ts (e # es) st =
     (case coinbase_apply isTime ts (cbe_Updates e) st of
        Inl _ \<Rightarrow> None
      | Inr st' \<Rightarrow> coinbase_updates isTime ts es st')"

abbreviation snapshot_in :: "StreamLevel2Event list \<Rightarrow> bool" where
  "snapshot_in \<equiv> list_ex (\<lambda>e. cbe_Type e = ''snapshot'')"

lemma coinbase_updates_good:
  "\<lbrakk>coinbase_good st; coinbase_updates isTime ts es st = Some st'; \<not> snapshot_in es\<rbrakk> \<Longrightarrow>
     coinbase_good st' \<and> coinbase_sides st' = fold coinbase_event_effect es (coinbase_sides st)"
proof (induction isTime ts es st rule: coinbase_updates.induct)
  case (2 isTime ts e es st)
  then obtain st1 where "coinbase_apply isTime ts (cbe_Updates e) st = Inr st1" "coinbase_updates isTime ts es st1 = Some st'"
    by (auto split: sum.splits)
  with 2 coinbase_apply_good [OF 2(2) this(1)] show ?case by (simp add: coinbase_event_effect_def)
qed simp

text \<open>A snapshot forgets what was there before.\<close>

lemma snapshot_forgets: "snapshot_in es \<Longrightarrow> fold coinbase_event_effect es b = fold coinbase_event_effect es b'"
proof (induction es arbitrary: b b')
  case (Cons e es)
  show ?case
  proof (cases "cbe_Type e = ''snapshot''")
    case True
    then show ?thesis by (simp add: coinbase_event_effect_def)
  next
    case False
    with Cons.prems have "snapshot_in es" by simp
    from Cons.IH [OF this] show ?thesis unfolding fold_simps by simp
  qed
qed simp

text \<open>The loop over the events of a message: with a snapshot among them the book depends on the message only.\<close>

lemma coinbase_events_done:
  "coinbase_events isTime book ts p c es = (p', LoopDone c') \<Longrightarrow>
   (\<And>st. cbp_state p = Some st \<Longrightarrow> coinbase_good st) \<Longrightarrow> cbp_state p' = Some st' \<Longrightarrow>
     cbp_generation p' = cbp_generation p \<and> coinbase_good st' \<and>
     (if snapshot_in es then (\<forall>b. coinbase_sides st' = fold coinbase_event_effect es b)
      else \<exists>st. cbp_state p = Some st \<and> coinbase_updates isTime ts es st = Some st')"
proof (induction isTime book ts p c es rule: coinbase_events.induct)
  case (1 isTime book ts p c)
  then show ?case by simp
next
  case (2 isTime book ts p c e es)
  from 2(4) have valid: "coinbase_validateEvent isTime book e = None" by (auto split: option.splits)
  show ?case
  proof (cases "cbe_Type e = ''snapshot''")
    case True
    with 2(4) valid obtain st1 where st1: "coinbase_apply isTime ts (cbe_Updates e) coinbase_emptyState = Inr st1"
      and rest: "coinbase_events isTime book ts
        (p\<lparr>cbp_state := Some st1, cbp_synchronizationID := cbp_synchronizationID p + 1\<rparr>) True es = (p', LoopDone c')"
      by (auto split: sum.splits)
    from coinbase_apply_good [OF _ st1] have good1: "coinbase_good st1" "coinbase_sides st1 = coinbase_event_effect e b" for b
      by (simp_all add: coinbase_event_effect_def True)
    from 2(1) [OF valid True st1 rest _ 2(6)] good1(1)
    have IH: "cbp_generation p' = cbp_generation p" "coinbase_good st'"
      "if snapshot_in es then \<forall>b. coinbase_sides st' = fold coinbase_event_effect es b
       else coinbase_updates isTime ts es st1 = Some st'" by (auto split: if_splits)
    have "coinbase_sides st' = fold coinbase_event_effect es (coinbase_sides st1)"
    proof (cases "snapshot_in es")
      case True
      from IH(3) [unfolded if_P [OF True]] show ?thesis by (rule spec)
    next
      case False
      from coinbase_updates_good [OF good1(1) IH(3) [unfolded if_not_P [OF False]] False] show ?thesis by simp
    qed
    then have "coinbase_sides st' = fold coinbase_event_effect (e # es) b" for b
      by (simp only: fold_simps good1(2) [of b])
    with IH(1,2) True show ?thesis by simp
  next
    case False
    with valid have type: "cbe_Type e = ''update''" by (auto simp: coinbase_validateEvent_def split: if_splits)
    with 2(4) valid False obtain st st1 where st: "cbp_state p = Some st" and st1: "coinbase_apply isTime ts (cbe_Updates e) st = Inr st1"
      and rest: "coinbase_events isTime book ts (p\<lparr>cbp_state := Some st1\<rparr>) True es = (p', LoopDone c')"
      by (auto split: sum.splits option.splits)
    from coinbase_apply_good [OF 2(5) [OF st] st1] have good1: "coinbase_good st1" by simp
    from 2(2) [OF valid False type st st1 rest _ 2(6)] good1
    have IH: "cbp_generation p' = cbp_generation p" "coinbase_good st'"
      "if snapshot_in es then \<forall>b. coinbase_sides st' = fold coinbase_event_effect es b
       else coinbase_updates isTime ts es st1 = Some st'" by (auto split: if_splits)
    with st st1 False show ?thesis by simp
  qed
qed

section \<open>A processed stream is a chain of messages\<close>

type_synonym coinbase_batch = "int \<times> string \<times> StreamLevel2Event list"

definition coinbase_final :: "coinbase_batch \<Rightarrow> int option" where
  "coinbase_final ev = Some (fst ev)"

definition coinbase_follows :: "int option \<Rightarrow> coinbase_batch \<Rightarrow> bool" where
  "coinbase_follows k ev \<longleftrightarrow> (case k of None \<Rightarrow> True | Some n \<Rightarrow> fst ev = n + 1)"

definition coinbase_effect :: "coinbase_batch \<Rightarrow> abs_book \<Rightarrow> abs_book" where
  "coinbase_effect ev b = fold coinbase_event_effect (snd (snd ev)) b"

definition coinbase_accept ::
  "(string \<Rightarrow> bool) \<Rightarrow> int option \<times> coinbase_State \<Rightarrow> coinbase_batch \<Rightarrow> (int option \<times> coinbase_State) option" where
  "coinbase_accept isTime = (\<lambda>(k, st) (n, ts, es).
     if coinbase_follows k (n, ts, es) \<and> \<not> snapshot_in es
     then map_option (Pair (Some n)) (coinbase_updates isTime ts es st) else None)"

interpretation coinbase: sequenced_book "\<lambda>st. coinbase_good (snd st)" fst "\<lambda>st. coinbase_sides (snd st)" coinbase_follows coinbase_final
  coinbase_effect "coinbase_accept isTime" for isTime
proof unfold_locales
  fix st ev st'
  assume good: "coinbase_good (snd st)" and acc: "coinbase_accept isTime st ev = Some st'"
  then obtain st1 where step: "coinbase_follows (fst st) ev" "\<not> snapshot_in (snd (snd ev))"
    "coinbase_updates isTime (fst (snd ev)) (snd (snd ev)) (snd st) = Some st1" "st' = (Some (fst ev), st1)"
    by (auto simp: coinbase_accept_def split: prod.splits if_splits)
  from coinbase_updates_good [OF good step(3,2)] step(1,4)
  show "coinbase_good (snd st')" "coinbase_follows (fst st) ev" "fst st' = coinbase_final ev"
    "coinbase_sides (snd st') = coinbase_effect ev (coinbase_sides (snd st))"
    by (simp_all add: coinbase_final_def coinbase_effect_def)
qed

text \<open>What the decoder finds for the product in a message.\<close>

definition coinbase_batch_of ::
  "(string \<Rightarrow> StreamLevel2Event list result) \<Rightarrow> coinbase_OrderBook \<Rightarrow> 64 word \<times> coinbase_StreamMessage \<Rightarrow> coinbase_batch" where
  "coinbase_batch_of Unmarshal book m = (cbm_SequenceNumber (snd m), cbm_Timestamp (snd m),
     coinbase_targetEvents book (case Unmarshal (cbm_Events (snd m)) of Inr es \<Rightarrow> es | Inl _ \<Rightarrow> []))"

abbreviation coinbase_snap where
  "coinbase_snap Unmarshal book m \<equiv> snapshot_in (snd (snd (coinbase_batch_of Unmarshal book m)))"

definition coinbase_live :: "coinbase_Processor \<times> bool \<Rightarrow> (int option \<times> coinbase_State) option" where
  "coinbase_live = (\<lambda>(p, ended).
     if ended then None
     else map_option (Pair (if cbp_sequenceSet p then Some (cbp_sequenceNumber p) else None)) (cbp_state p))"

lemma coinbase_applyEvents_live:
  assumes good: "\<And>st. cbp_state p = Some st \<Longrightarrow> coinbase_good st"
    and run: "coinbase_applyEvents isTime book n ts es p = (p', out)" "\<nexists>err. out = Failed err" "cbp_state p' = Some st'"
  shows "cbp_generation p' = cbp_generation p \<and> cbp_sequenceSet p' \<and> cbp_sequenceNumber p' = n \<and> coinbase_good st' \<and>
     (if snapshot_in es then coinbase_sides st' = fold coinbase_event_effect es abs_empty
      else \<exists>st. cbp_state p = Some st \<and> coinbase_updates isTime ts es st = Some st')"
proof -
  obtain q l where loop: "coinbase_events isTime book ts p False es = (q, l)" by fastforce
  with run(1,2) have "isTime ts" "l \<noteq> LoopFailed err" for err by (auto simp: coinbase_applyEvents_def split: if_splits)
  with run loop obtain c where c: "l = LoopDone c" and q: "cbp_state q = Some st'" "cbp_generation p' = cbp_generation q"
      "cbp_sequenceSet p'" "cbp_sequenceNumber p' = n"
    by (cases l) (auto simp: coinbase_applyEvents_def coinbase_sequenceGap_def Let_def split: if_splits option.splits)
  from coinbase_events_done [OF loop [unfolded c] good q(1)] q show ?thesis by (auto split: if_splits)
qed

lemma coinbase_process_live:
  assumes good: "\<forall>st. cbp_state p = Some st \<longrightarrow> coinbase_good st"
    and run: "coinbase_process isTime book p g n ts es = (p', out)" "\<nexists>err. out = Failed err" "cbp_state p' = Some st'"
  defines "evs \<equiv> coinbase_targetEvents book es"
  shows "p' = p \<or> cbp_generation p' = g \<and> cbp_sequenceSet p' \<and> cbp_sequenceNumber p' = n \<and> coinbase_good st' \<and>
     (if snapshot_in evs then coinbase_sides st' = fold coinbase_event_effect evs abs_empty
      else \<exists>st. cbp_state p = Some st \<and> cbp_generation p = g \<and> (cbp_sequenceSet p \<longrightarrow> n = cbp_sequenceNumber p + 1) \<and>
        coinbase_updates isTime ts evs st = Some st')"
proof -
  let ?q = "if cbp_generation p = 0 \<or> cbp_generation p < g
    then p\<lparr>cbp_generation := g, cbp_sequenceSet := False, cbp_state := None\<rparr> else p"
  have kept: "?q = p" if "cbp_state ?q \<noteq> None" using that by (simp split: if_splits)
  consider (kept) "p' = p" | (entered) "p' = ?q" | (gap) "cbp_state p' = None"
    | (events) "\<not> g < cbp_generation p" "\<not> (cbp_sequenceSet ?q \<and> n \<noteq> cbp_sequenceNumber ?q + 1)"
        "coinbase_applyEvents isTime book n ts evs ?q = (p', out)"
    using run(1) unfolding coinbase_process_def Let_def evs_def coinbase_sequenceGap_def
    by (auto split: if_split_asm)
  then show ?thesis
  proof cases
    case entered
    with kept run(3) show ?thesis by simp
  next
    case events
    have gen: "cbp_generation ?q = g" using events(1) by auto
    have "coinbase_good st" if "cbp_state ?q = Some st" for st using that good by (simp split: if_splits)
    from coinbase_applyEvents_live [OF this events(3) run(2,3)] gen
    have parts: "cbp_generation p' = g" "cbp_sequenceSet p'" "cbp_sequenceNumber p' = n" "coinbase_good st'"
      "if snapshot_in evs then coinbase_sides st' = fold coinbase_event_effect evs abs_empty
       else \<exists>st. cbp_state ?q = Some st \<and> coinbase_updates isTime ts evs st = Some st'" by simp_all
    show ?thesis
    proof (cases "snapshot_in evs")
      case False
      with parts(5) obtain st where st: "cbp_state ?q = Some st" "coinbase_updates isTime ts evs st = Some st'" by auto
      with kept have "?q = p" by simp
      with st False parts gen events(2) show ?thesis by simp
    qed (use parts in simp)
  qed (use run(3) in simp_all)
qed

lemma coinbase_process_shown:
  assumes "coinbase_process isTime book p g n ts es = (p', Shown v)"
  shows "\<exists>st. cbp_state p' = Some st \<and> cbp_sequenceSet p' \<and> v = coinbase_view book p' st"
proof -
  have shown: "\<exists>st. cbp_state p' = Some st \<and> cbp_sequenceSet p' \<and> v = coinbase_view book p' st"
    if "coinbase_applyEvents isTime book n ts es' q = (p', Shown v)" for es' q
    using that by (auto simp: coinbase_applyEvents_def coinbase_sequenceGap_def Let_def
        split: if_split_asm prod.splits coinbase_loop.splits option.splits)
  then show ?thesis using assms unfolding coinbase_process_def Let_def coinbase_sequenceGap_def
    by (simp split: if_split_asm)
qed

lemma coinbase_step_cases:
  assumes "coinbase_step Unmarshal isTime book (p, ended) m = ((p', ended'), out)" "coinbase_live (p', ended') = Some st'"
  shows "\<not> ended \<and> \<not> ended' \<and> (\<nexists>err. out = Failed err) \<and> (p' = p \<and> shown_views out = [] \<or>
     (let b = coinbase_batch_of Unmarshal book m in
        \<exists>es. snd (snd b) = coinbase_targetEvents book es \<and>
          coinbase_process isTime book p (fst m) (fst b) (fst (snd b)) es = (p', out)))"
proof -
  from assms(2) have alive: "\<not> ended'" by (auto simp: coinbase_live_def split: if_splits)
  with assms(1) have run: "\<not> ended" "coinbase_on_message Unmarshal isTime book p m = (p', out)" "\<nexists>err. out = Failed err"
    by (auto simp: coinbase_step_def split: if_splits prod.splits processed.splits)
  with alive show ?thesis
    by (auto simp: coinbase_on_message_def coinbase_DecodeEvents_def coinbase_batch_of_def
        split: prod.splits if_split_asm sum.splits)
qed

interpretation coinbase_stream: snapshot_stream "\<lambda>st. coinbase_good (snd st)" fst "\<lambda>st. coinbase_sides (snd st)" coinbase_follows
  coinbase_final coinbase_effect "coinbase_accept isTime" "\<lambda>p. cbp_generation (fst p)" coinbase_live
  "coinbase_step Unmarshal isTime book" fst "coinbase_batch_of Unmarshal book" "coinbase_snap Unmarshal book" coinbase_final
  "\<lambda>p st. (coinbase_view book (fst p) (snd st))\<lparr>cbv_SequenceNumber := the (fst st)\<rparr>" for isTime Unmarshal book
proof unfold_locales
  fix ps m ps' out st'
  assume good: "\<And>st. coinbase_live ps = Some st \<Longrightarrow> coinbase_good (snd st)"
    and step: "coinbase_step Unmarshal isTime book ps m = (ps', out)" "coinbase_live ps' = Some st'"
  obtain p ended p' ended' where ps: "ps = (p, ended)" "ps' = (p', ended')" by fastforce
  note cases = coinbase_step_cases [OF step [unfolded ps]]
  then have alive: "\<not> ended" "\<not> ended'" "\<nexists>err. out = Failed err" by simp_all
  let ?b = "coinbase_batch_of Unmarshal book m"
  from step(2) alive obtain st1 where st1: "cbp_state p' = Some st1"
    and st': "st' = (if cbp_sequenceSet p' then Some (cbp_sequenceNumber p') else None, st1)"
    by (auto simp: coinbase_live_def ps)
  have good': "\<forall>st. cbp_state p = Some st \<longrightarrow> coinbase_good st"
    using good alive(1) by (auto simp: coinbase_live_def ps)
  from cases consider (kept) "p' = p"
    | (processed) es where "snd (snd ?b) = coinbase_targetEvents book es"
        "coinbase_process isTime book p (fst m) (fst ?b) (fst (snd ?b)) es = (p', out)"
    by (auto simp: Let_def)
  then show "coinbase_live ps = Some st' \<and> cbp_generation (fst ps') = cbp_generation (fst ps) \<or>
      coinbase_snap Unmarshal book m \<and> fst m = cbp_generation (fst ps') \<and> coinbase_good (snd st') \<and> fst st' = coinbase_final ?b \<and>
      coinbase_sides (snd st') = coinbase_effect ?b abs_empty \<or>
      (\<exists>st. coinbase_live ps = Some st \<and> cbp_generation (fst ps') = cbp_generation (fst ps) \<and> fst m = cbp_generation (fst ps) \<and>
        \<not> coinbase_snap Unmarshal book m \<and> coinbase_accept isTime st ?b = Some st')"
  proof cases
    case kept
    with step(2) alive show ?thesis by (simp add: ps coinbase_live_def)
  next
    case processed
    from coinbase_process_live [OF good' processed(2) alive(3) st1, folded processed(1)]
    show ?thesis
    proof (elim disjE conjE)
      assume "p' = p"
      with step(2) alive show ?thesis by (simp add: ps coinbase_live_def)
    next
      assume new: "cbp_generation p' = fst m" "cbp_sequenceSet p'" "cbp_sequenceNumber p' = fst ?b" "coinbase_good st1"
        "if coinbase_snap Unmarshal book m then coinbase_sides st1 = fold coinbase_event_effect (snd (snd ?b)) abs_empty
         else \<exists>st. cbp_state p = Some st \<and> cbp_generation p = fst m \<and> (cbp_sequenceSet p \<longrightarrow> fst ?b = cbp_sequenceNumber p + 1) \<and>
           coinbase_updates isTime (fst (snd ?b)) (snd (snd ?b)) st = Some st1"
      show ?thesis
      proof (cases "coinbase_snap Unmarshal book m")
        case True
        with new show ?thesis by (simp add: ps st' coinbase_final_def coinbase_effect_def)
      next
        case False
        with new(5) obtain st where st: "cbp_state p = Some st" "cbp_generation p = fst m"
          "cbp_sequenceSet p \<longrightarrow> fst ?b = cbp_sequenceNumber p + 1"
          "coinbase_updates isTime (fst (snd ?b)) (snd (snd ?b)) st = Some st1" by auto
        let ?st = "(if cbp_sequenceSet p then Some (cbp_sequenceNumber p) else None, st)"
        have "coinbase_accept isTime ?st ?b = Some st'"
          using st False new(2,3) by (auto simp: coinbase_accept_def coinbase_follows_def st' split: prod.splits)
        moreover have "coinbase_live ps = Some ?st" using st(1) alive(1) by (simp add: ps coinbase_live_def)
        ultimately show ?thesis using False st(2) new(1) by (simp add: ps)
      qed
    qed
  qed
next
  fix ps m ps' v
  assume step: "coinbase_step Unmarshal isTime book ps m = (ps', Shown v)"
  obtain p ended p' ended' where ps: "ps = (p, ended)" "ps' = (p', ended')" by fastforce
  from step have "\<not> ended" "\<not> ended'" "coinbase_on_message Unmarshal isTime book p m = (p', Shown v)"
    by (auto simp: ps coinbase_step_def split: if_splits prod.splits processed.splits)
  moreover from this(3) have "\<exists>st. cbp_state p' = Some st \<and> cbp_sequenceSet p' \<and> v = coinbase_view book p' st"
    by (auto simp: coinbase_on_message_def split: prod.splits if_split_asm sum.splits dest!: coinbase_process_shown)
  ultimately show "\<exists>st. coinbase_live ps' = Some st \<and>
      v = (coinbase_view book (fst ps') (snd st))\<lparr>cbv_SequenceNumber := the (fst st)\<rparr>"
    by (auto simp: ps coinbase_live_def coinbase_view_def)
qed

section \<open>Properties\<close>

lemma coinbase_chained: "chained coinbase_follows coinbase_final (Some k) evs = chained (\<lambda>k ev. fst ev = k + 1) fst k evs"
  by (induction evs arbitrary: k) (simp_all add: coinbase_follows_def coinbase_final_def)

lemma coinbase_end_of: "end_of coinbase_final (Some k) evs = Some (end_of fst k evs)"
  by (simp add: end_of_def coinbase_final_def)

text \<open>C11. Every view the Coinbase book shows comes from a message with a snapshot on its own connection and an unbroken
  chain of later messages of that connection: each has the next sequence number, the events of a message are all
  applied, a snapshot among them discards what was there before, and the shown sides are the best levels of the
  outcome.\<close>

theorem coinbase_views_gapless:
  assumes "v \<in> set (snd (stream_run (coinbase_step Unmarshal isTime book) (coinbase_init, False) ms))"
  shows "\<exists>before m after evs. ms = before @ m # after \<and> coinbase_snap Unmarshal book m \<and> fst m = cbv_Generation v \<and>
     subseq evs (map (coinbase_batch_of Unmarshal book)
       (filter (\<lambda>x. fst x = cbv_Generation v \<and> \<not> coinbase_snap Unmarshal book x) after)) \<and>
     chained (\<lambda>k ev. fst ev = k + 1) fst (cbm_SequenceNumber (snd m)) evs \<and>
     cbv_SequenceNumber v = end_of fst (cbm_SequenceNumber (snd m)) evs \<and>
     view_of (fst (fold coinbase_effect evs (coinbase_effect (coinbase_batch_of Unmarshal book m) abs_empty)))
       (cbb_viewDepth book) True (cbv_Bids v) \<and>
     view_of (snd (fold coinbase_effect evs (coinbase_effect (coinbase_batch_of Unmarshal book m) abs_empty)))
       (cbb_viewDepth book) False (cbv_Asks v)"
proof -
  have "coinbase_live (coinbase_init, False) = None" by (simp add: coinbase_init_def coinbase_live_def)
  from bspec [OF conjunct2 [OF coinbase_stream.run_streamed [OF this, of Unmarshal isTime book ms]] assms]
  obtain p :: "coinbase_Processor \<times> bool" and st where v: "v = (coinbase_view book (fst p) (snd st))\<lparr>cbv_SequenceNumber := the (fst st)\<rparr>"
    and st: "coinbase_stream.streamed Unmarshal book ms (cbp_generation (fst p)) st"
    by (elim exE conjE) (rule that, assumption+)
  have shown: "cbv_Generation v = cbp_generation (fst p)" "cbv_SequenceNumber v = the (fst st)"
    "cbv_Bids v = sortedLocalLevels (cbt_bids (snd st)) (cbb_viewDepth book) True"
    "cbv_Asks v = sortedLocalLevels (cbt_asks (snd st)) (cbb_viewDepth book) False"
    by (simp_all add: v coinbase_view_def)
  have sides: "view_of (fst (coinbase_sides (snd st))) (cbb_viewDepth book) True (cbv_Bids v)"
    "view_of (snd (coinbase_sides (snd st))) (cbb_viewDepth book) False (cbv_Asks v)"
    using coinbase_stream.streamed_good [OF st] by (simp_all add: shown coinbase_good_def coinbase_sides_def sortedLocalLevels_view)
  from st obtain before m after evs where parts: "ms = before @ m # after" "coinbase_snap Unmarshal book m"
    "fst m = cbp_generation (fst p)"
    "subseq evs (map (coinbase_batch_of Unmarshal book)
       (filter (\<lambda>x. fst x = cbp_generation (fst p) \<and> \<not> coinbase_snap Unmarshal book x) after))"
    "chained coinbase_follows coinbase_final (coinbase_final (coinbase_batch_of Unmarshal book m)) evs"
    "fst st = end_of coinbase_final (coinbase_final (coinbase_batch_of Unmarshal book m)) evs"
    "coinbase_sides (snd st) = fold coinbase_effect evs (coinbase_effect (coinbase_batch_of Unmarshal book m) abs_empty)"
    unfolding coinbase_stream.streamed_def coinbase.tracks_def by (elim exE conjE) (rule that)
  have start: "coinbase_final (coinbase_batch_of Unmarshal book m) = Some (cbm_SequenceNumber (snd m))"
    by (simp add: coinbase_final_def coinbase_batch_of_def)
  have "the (fst st) = end_of fst (cbm_SequenceNumber (snd m)) evs" using parts(6) by (simp add: start coinbase_end_of)
  with parts sides show ?thesis unfolding shown(1,2) start coinbase_chained
    by (intro exI [of _ before] exI [of _ m] exI [of _ after] exI [of _ evs]) simp
qed

definition coinbase_demo_book :: coinbase_OrderBook where
  "coinbase_demo_book = \<lparr>cbb_productID = ''P'', cbb_viewDepth = 1, cbb_routeID = ''r''\<rparr>"

definition coinbase_demo_event :: "string \<Rightarrow> string \<Rightarrow> string \<Rightarrow> string \<Rightarrow> StreamLevel2Event" where
  "coinbase_demo_event kind side price quantity = \<lparr>cbe_Type = kind, cbe_ProductID = ''P'',
     cbe_Updates = [\<lparr>cbu_Side = side, cbu_EventTime = [], cbu_PriceLevel = price, cbu_NewQuantity = quantity\<rparr>]\<rparr>"

definition coinbase_demo_unmarshal :: "string \<Rightarrow> StreamLevel2Event list result" where
  "coinbase_demo_unmarshal s =
     (if s = ''s'' then Inr [coinbase_demo_event ''snapshot'' ''bid'' ''1'' ''5'', coinbase_demo_event ''update'' ''offer'' ''3'' ''4'']
      else Inr [coinbase_demo_event ''update'' ''offer'' ''2'' ''1''])"

definition coinbase_demo_message :: "int \<Rightarrow> string \<Rightarrow> 64 word \<times> coinbase_StreamMessage" where
  "coinbase_demo_message n payload = (1, \<lparr>cbm_Type = [], cbm_Channel = ''l2_data'', cbm_ClientID = [], cbm_Timestamp = [],
     cbm_SequenceNumber = n, cbm_Message = [], cbm_Events = payload\<rparr>)"

definition coinbase_demo :: "(64 word \<times> coinbase_StreamMessage) list" where
  "coinbase_demo = [coinbase_demo_message 0 ''s'', coinbase_demo_message 1 ''u'']"

definition coinbase_demo_view :: coinbase_View where
  "coinbase_demo_view = \<lparr>cbv_ProductID = ''P'', cbv_ViewDepth = 1, cbv_Generation = 1, cbv_SynchronizationID = 1, cbv_GapCount = 0,
     cbv_SequenceNumber = 1, cbv_Timestamp = [], cbv_EventTime = [], cbv_Bids = [(''1'', ''5'')], cbv_Asks = [(''2'', ''1'')]\<rparr>"

lemma coinbase_demo_shown:
  "list_ex (\<lambda>v. v = coinbase_demo_view)
     (snd (stream_run (coinbase_step coinbase_demo_unmarshal (\<lambda>s. True) coinbase_demo_book) (coinbase_init, False) coinbase_demo))"
  by code_simp

theorem coinbase_views_gapless_witness:
  "\<exists>before m after evs. coinbase_demo = before @ m # after \<and> coinbase_snap coinbase_demo_unmarshal coinbase_demo_book m \<and> fst m = 1 \<and>
     1 = end_of fst (cbm_SequenceNumber (snd m)) (evs :: coinbase_batch list)"
proof -
  have "coinbase_demo_view \<in> set (snd (stream_run (coinbase_step coinbase_demo_unmarshal (\<lambda>s. True) coinbase_demo_book)
      (coinbase_init, False) coinbase_demo))"
    using coinbase_demo_shown unfolding list_ex_iff by blast
  from coinbase_views_gapless [OF this]
  have "\<exists>before m after evs. coinbase_demo = before @ m # after \<and> coinbase_snap coinbase_demo_unmarshal coinbase_demo_book m \<and>
     fst m = cbv_Generation coinbase_demo_view \<and>
     cbv_SequenceNumber coinbase_demo_view = end_of fst (cbm_SequenceNumber (snd m)) (evs :: coinbase_batch list)"
    by (elim exE conjE) (intro exI conjI)
  then show ?thesis unfolding coinbase_demo_view_def coinbase_View.select_convs .
qed

text \<open>A message that does not have the next sequence number is not applied, even when it carries a snapshot: a smaller
  number is ignored, a larger one drops the book and asks for a new connection.\<close>

theorem coinbase_snapshot_needs_order:
  assumes "cbp_sequenceSet p" "cbp_generation p \<noteq> 0" "0 \<le> n" "n \<noteq> cbp_sequenceNumber p + 1" "coinbase_targetEvents book es \<noteq> []"
  shows "coinbase_process isTime book p (cbp_generation p) n ts es =
     (if n \<le> cbp_sequenceNumber p then (p, Quiet)
      else (p\<lparr>cbp_gapCount := cbp_gapCount p + 1, cbp_sequenceSet := False, cbp_state := None\<rparr>, Reconnecting))"
  using assms by (simp add: coinbase_process_def coinbase_sequenceGap_def Let_def)

theorem coinbase_snapshot_needs_order_witness:
  "coinbase_process (\<lambda>s. True) coinbase_demo_book
     \<lparr>cbp_generation = 1, cbp_synchronizationID = 1, cbp_gapCount = 0, cbp_sequenceNumber = 5, cbp_sequenceSet = True, cbp_state = None\<rparr>
     1 3 [] [coinbase_demo_event ''snapshot'' ''bid'' ''1'' ''5''] =
   (\<lparr>cbp_generation = 1, cbp_synchronizationID = 1, cbp_gapCount = 0, cbp_sequenceNumber = 5, cbp_sequenceSet = True, cbp_state = None\<rparr>,
    Quiet)"
  using coinbase_snapshot_needs_order
    [of "\<lparr>cbp_generation = 1, cbp_synchronizationID = 1, cbp_gapCount = 0, cbp_sequenceNumber = 5, cbp_sequenceSet = True, cbp_state = None\<rparr>"
      3 coinbase_demo_book "[coinbase_demo_event ''snapshot'' ''bid'' ''1'' ''5'']" "\<lambda>s. True" "[]"]
  by (simp add: coinbase_targetEvents_def coinbase_demo_event_def coinbase_demo_book_def)

end
