(* ===== verification/Okx_Book.thy ===== *)
theory Okx_Book
  imports Sequenced_Book Bybit_Stream Okx_Native
begin

text \<open>
  The OKX V5 local order book (\<open>exchange/okx/local_order_book.go\<close>). The channel \<open>books\<close> sends a snapshot and
  updates linked by the sequence number before; \<open>books5\<close> and \<open>bbo-tbt\<close> send complete books. Levels carry two
  further texts, so the sides are maps to a record of their own that is refined to the common one by forgetting
  these texts.

  The JSON codec is a parameter: \<open>Marshal\<close> renders the subscribe operation whose size is limited, \<open>Unmarshal\<close>
  decodes the events of a message.
\<close>

section \<open>Subscriptions\<close>

type_synonym StreamEndpoint = string

record okx_StreamArgument =
  oxa_Channel :: string
  oxa_InstrumentType :: string
  oxa_InstrumentFamily :: string
  oxa_InstrumentID :: string

definition validateArgumentText :: "okx_StreamArgument \<Rightarrow> go_error option" where
  "validateArgumentText argument =
     (if list_ex (\<lambda>v. TrimSpace v \<noteq> v \<or> contains_control v)
           [oxa_Channel argument, oxa_InstrumentType argument, oxa_InstrumentFamily argument, oxa_InstrumentID argument]
      then Some (validationError ''WebSocket channel contains invalid whitespace'' [])
      else if oxa_Channel argument = [] then Some (validationError ''WebSocket channel is required'' [])
      else None)"

definition validateOperationSize ::
  "(okx_StreamArgument list \<Rightarrow> string result) \<Rightarrow> okx_StreamArgument list \<Rightarrow> go_error option" where
  "validateOperationSize Marshal arguments =
     (case Marshal arguments of
        Inl err \<Rightarrow> Some (Errorf ''encode OKX stream arguments: %w'' [] [err])
      | Inr payload \<Rightarrow>
          if 65536 < length payload then Some (validationError ''WebSocket operation exceeds %d bytes'' [IntArg 65536]) else None)"

definition okx_streamArgumentKey :: "okx_StreamArgument \<Rightarrow> string" where
  "okx_streamArgumentKey argument =
     oxa_Channel argument @ [CHR 0x00] @ oxa_InstrumentType argument @ [CHR 0x00] @ oxa_InstrumentFamily argument @ [CHR 0x00] @
     oxa_InstrumentID argument"

definition validCandleChannel :: "string \<Rightarrow> bool" where
  "validCandleChannel channel \<longleftrightarrow> take 6 channel = ''candle'' \<and> okx_CandleInterval_valid (drop 6 channel)"

text \<open>The loop over the arguments; \<open>seen\<close> are the keys before.\<close>

fun check_okx_arguments ::
  "(okx_StreamArgument list \<Rightarrow> string result) \<Rightarrow> StreamEndpoint \<Rightarrow> string list \<Rightarrow> okx_StreamArgument list \<Rightarrow> go_error option" where
  "check_okx_arguments Marshal endpoint seen [] = None"
| "check_okx_arguments Marshal endpoint seen (argument # rest) =
     (case validateArgumentText argument of
        Some err \<Rightarrow> Some err
      | None \<Rightarrow>
          (case validateOperationSize Marshal [argument] of
             Some err \<Rightarrow> Some err
           | None \<Rightarrow>
               if oxa_InstrumentType argument \<noteq> [] \<or> oxa_InstrumentFamily argument \<noteq> [] \<or> oxa_InstrumentID argument = []
               then Some (validationError ''public WebSocket channel requires only instId filter'' [])
               else if endpoint = ''public'' \<and>
                 oxa_Channel argument \<notin> set [''tickers'', ''trades'', ''books'', ''books5'', ''bbo-tbt'']
               then Some (validationError ''unsupported public WebSocket channel %q'' [StrArg (oxa_Channel argument)])
               else if endpoint \<noteq> ''public'' \<and> \<not> validCandleChannel (oxa_Channel argument)
               then Some (validationError ''unsupported business WebSocket channel %q'' [StrArg (oxa_Channel argument)])
               else if okx_streamArgumentKey argument \<in> set seen then Some (validationError ''duplicate public WebSocket channel'' [])
               else check_okx_arguments Marshal endpoint (okx_streamArgumentKey argument # seen) rest))"

definition okx_validatePublicStreamArguments ::
  "(okx_StreamArgument list \<Rightarrow> string result) \<Rightarrow> StreamEndpoint \<Rightarrow> okx_StreamArgument list \<Rightarrow> okx_StreamArgument list result" where
  "okx_validatePublicStreamArguments Marshal endpoint arguments =
     (if endpoint \<noteq> ''public'' \<and> endpoint \<noteq> ''business''
      then Inl (validationError ''stream endpoint must be public or business'' [])
      else if arguments = [] then Inl (validationError ''at least one public WebSocket channel is required'' [])
      else if 1000 < length arguments then Inl (validationError ''WebSocket channel count cannot exceed %d'' [IntArg 1000])
      else case check_okx_arguments Marshal endpoint [] arguments of
             Some err \<Rightarrow> Inl err
           | None \<Rightarrow> Inr arguments)"

definition PublicStreamArgument ::
  "(okx_StreamArgument list \<Rightarrow> string result) \<Rightarrow> string \<Rightarrow> string \<Rightarrow> okx_StreamArgument result" where
  "PublicStreamArgument Marshal channel instrumentID =
     (case okx_validatePublicStreamArguments Marshal ''public''
             [\<lparr>oxa_Channel = channel, oxa_InstrumentType = [], oxa_InstrumentFamily = [], oxa_InstrumentID = instrumentID\<rparr>] of
        Inl err \<Rightarrow> Inl err
      | Inr validated \<Rightarrow> Inr (validated ! 0))"

text \<open>The arguments of a stream are a map from keys.\<close>

definition okx_hasArgument ::
  "StreamEndpoint \<Rightarrow> (string \<Rightarrow> okx_StreamArgument option) \<Rightarrow> okx_StreamArgument \<Rightarrow> bool" where
  "okx_hasArgument endpoint arguments argument \<longleftrightarrow>
     endpoint = ''public'' \<and> arguments (okx_streamArgumentKey argument) \<noteq> None"

section \<open>Data\<close>

record okx_OrderBookConfig =
  oxc_Channel :: string
  oxc_InstrumentID :: string
  oxc_ViewDepth :: int
  oxc_EgressRouteID :: EgressRouteID

record okx_View =
  oxv_Channel :: string
  oxv_InstrumentID :: string
  oxv_Depth :: int
  oxv_Generation :: "64 word"
  oxv_SynchronizationID :: "64 word"
  oxv_GapCount :: "64 word"
  oxv_SequenceID :: int
  oxv_Timestamp :: int
  oxv_Bids :: "okx_BookLevel list"
  oxv_Asks :: "okx_BookLevel list"

record okx_OrderBook =
  oxb_channel :: string
  oxb_instrumentID :: string
  oxb_depth :: int
  oxb_viewDepth :: int
  oxb_routeID :: EgressRouteID
  oxb_argument :: okx_StreamArgument
  oxb_incremental :: bool

record okx_localLevel =
  okl_key :: string
  okl_priceText :: string
  okl_quantityText :: string
  okl_liquidatedOrderCount :: string
  okl_orderCount :: string
  okl_price :: rat

type_synonym okx_side = "(string, okx_localLevel) gomap"

record okx_StreamMessage =
  oxm_RequestID :: string
  oxm_Event :: string
  oxm_Code :: string
  oxm_Message :: string
  oxm_ConnectionID :: string
  oxm_Argument :: okx_StreamArgument
  oxm_Action :: string
  oxm_Data :: string
  oxm_Pong :: bool

record okx_State =
  oxt_bids :: okx_side
  oxt_asks :: okx_side
  oxt_sequenceID :: int
  oxt_timestamp :: int

record okx_Processor =
  oxp_generation :: "64 word"
  oxp_synchronizationID :: "64 word"
  oxp_gapCount :: "64 word"
  oxp_state :: "okx_State option"

section \<open>Levels\<close>

text \<open>\<open>strconv.ParseUint\<close> in base 10 with 64 bits: digits only, and a value that fits.\<close>

definition ParseUint :: "string \<Rightarrow> int option" where
  "ParseUint s = (if s = [] \<or> \<not> list_all digit_char s \<or> 2 ^ 64 \<le> int (dec_value s) then None else Some (int (dec_value s)))"

definition okx_parseLevel :: "okx_BookLevel \<Rightarrow> okx_localLevel result" where
  "okx_parseLevel level =
     (if \<not> positiveDecimalPattern (oxl_Price level) \<or> Trim (oxl_Price level) ''0.'' = [] \<or>
         \<not> positiveDecimalPattern (oxl_Quantity level) \<or> oxl_LiquidatedOrderCount level \<noteq> ''0''
      then Inl (validationError ''local order book level is invalid'' [])
      else if ParseUint (oxl_OrderCount level) = None
      then Inl (validationError ''local order book order count is invalid'' [])
      else case Rat_SetString (oxl_Price level) of
             None \<Rightarrow> Inl (validationError ''local order book price is invalid'' [])
           | Some price \<Rightarrow>
               if price \<le> 0 then Inl (validationError ''local order book price is invalid'' [])
               else Inr \<lparr>okl_key = Rat_RatString price, okl_priceText = oxl_Price level, okl_quantityText = oxl_Quantity level,
                         okl_liquidatedOrderCount = oxl_LiquidatedOrderCount level, okl_orderCount = oxl_OrderCount level,
                         okl_price = price\<rparr>)"

definition okx_applyLevel :: "okx_side \<Rightarrow> okx_BookLevel \<Rightarrow> okx_side result" where
  "okx_applyLevel levels level =
     (case okx_parseLevel level of
        Inl err \<Rightarrow> Inl err
      | Inr parsed \<Rightarrow>
          if Trim (oxl_Quantity level) ''0.'' = [] then Inr (AList.delete (okl_key parsed) levels)
          else Inr (AList.update (okl_key parsed) parsed levels))"

fun okx_applyLevels :: "okx_side \<Rightarrow> okx_BookLevel list \<Rightarrow> okx_side result" where
  "okx_applyLevels levels [] = Inr levels"
| "okx_applyLevels levels (l # rest) =
     (case okx_applyLevel levels l of
        Inl err \<Rightarrow> Inl err
      | Inr levels' \<Rightarrow> okx_applyLevels levels' rest)"

fun okx_checkLevels :: "okx_BookLevel list \<Rightarrow> go_error option" where
  "okx_checkLevels [] = None"
| "okx_checkLevels (l # rest) = (case okx_parseLevel l of Inl err \<Rightarrow> Some err | Inr _ \<Rightarrow> okx_checkLevels rest)"

text \<open>Prices of a side are distinct, so their order is determined.\<close>

definition okx_sortedLevels :: "okx_side \<Rightarrow> int \<Rightarrow> bool \<Rightarrow> okx_localLevel list" where
  "okx_sortedLevels values depth descending =
     take (nat depth) (if descending then rev (sort_key okl_price (map snd values)) else sort_key okl_price (map snd values))"

definition okx_prune :: "okx_side \<Rightarrow> int \<Rightarrow> bool \<Rightarrow> okx_side" where
  "okx_prune values depth descending =
     fold (\<lambda>l m. AList.delete (okl_key l) m)
       (drop (nat depth) (okx_sortedLevels values (int (length values)) descending)) values"

definition okx_viewLevels :: "okx_side \<Rightarrow> int \<Rightarrow> bool \<Rightarrow> okx_BookLevel list" where
  "okx_viewLevels values depth descending =
     map (\<lambda>l. \<lparr>oxl_Price = okl_priceText l, oxl_Quantity = okl_quantityText l,
            oxl_LiquidatedOrderCount = okl_liquidatedOrderCount l, oxl_OrderCount = okl_orderCount l\<rparr>)
       (okx_sortedLevels values depth descending)"

definition okx_timestamp :: "string \<Rightarrow> int result" where
  "okx_timestamp v =
     (case Atoi v of
        None \<Rightarrow> Inl (validationError ''local order book timestamp is invalid'' [])
      | Some timestamp \<Rightarrow>
          if timestamp \<le> 0 then Inl (validationError ''local order book timestamp is invalid'' []) else Inr timestamp)"

section \<open>Operations\<close>

definition okx_NewLocalOrderBook ::
  "(okx_StreamArgument list \<Rightarrow> string result) \<Rightarrow> okx_OrderBookConfig \<Rightarrow> okx_OrderBook result" where
  "okx_NewLocalOrderBook Marshal config =
     (let channel = oxc_Channel config;
          known = (if channel = ''books'' then Some (400, True) else if channel = ''books5'' then Some (5, False)
            else if channel = ''bbo-tbt'' then Some (1, False) else None)
      in case known of
           None \<Rightarrow> Inl (validationError ''local order book channel must be books, books5, or bbo-tbt'' [])
         | Some (depth, incremental) \<Rightarrow>
             (case PublicStreamArgument Marshal channel (oxc_InstrumentID config) of
                Inl err \<Rightarrow> Inl err
              | Inr argument \<Rightarrow>
                  let route = TrimSpace (oxc_EgressRouteID config)
                  in if route = [] then Inl (Sentinel ErrMissingEgressRoute)
                     else
                       let viewDepth = (if oxc_ViewDepth config = 0 then (if depth < 20 then depth else 20) else oxc_ViewDepth config)
                       in if viewDepth < 1 \<or> depth < viewDepth
                          then Inl (validationError ''local order book view depth must not exceed channel depth'' [])
                          else Inr \<lparr>oxb_channel = channel, oxb_instrumentID = oxc_InstrumentID config, oxb_depth = depth,
                                    oxb_viewDepth = viewDepth, oxb_routeID = route, oxb_argument = argument,
                                    oxb_incremental = incremental\<rparr>))"

definition okx_validateEvent :: "okx_OrderBook \<Rightarrow> string \<Rightarrow> okx_Event \<Rightarrow> go_error option" where
  "okx_validateEvent book action event =
     (if oxb_incremental book \<and> action \<noteq> ''snapshot'' \<and> action \<noteq> ''update''
      then Some (validationError ''incremental local order book action is invalid'' [])
      else if oxb_incremental book \<and> action = ''snapshot'' \<and> oxe_PreviousSequenceID event \<noteq> - 1
      then Some (validationError ''local order book snapshot previous sequence is invalid'' [])
      else if \<not> oxb_incremental book \<and> action \<noteq> [] \<and> action \<noteq> ''snapshot''
      then Some (validationError ''snapshot local order book action is invalid'' [])
      else if oxe_SequenceID event < 0 then Some (validationError ''local order book sequence is invalid'' [])
      else if action \<noteq> ''update'' \<and>
              (oxb_depth book < int (length (oxe_Bids event)) \<or> oxb_depth book < int (length (oxe_Asks event)))
      then Some (validationError ''local order book snapshot exceeds channel depth'' [])
      else case okx_timestamp (oxe_Timestamp event) of
             Inl err \<Rightarrow> Some err
           | Inr _ \<Rightarrow> okx_checkLevels (oxe_Bids event @ oxe_Asks event))"

definition okx_apply :: "okx_Event \<Rightarrow> int \<Rightarrow> okx_side \<times> okx_side \<Rightarrow> okx_State result" where
  "okx_apply event depth = (\<lambda>(bids, asks).
     case okx_applyLevels bids (oxe_Bids event) of
       Inl err \<Rightarrow> Inl err
     | Inr bids \<Rightarrow>
         (case okx_applyLevels asks (oxe_Asks event) of
            Inl err \<Rightarrow> Inl err
          | Inr asks \<Rightarrow>
              (case okx_timestamp (oxe_Timestamp event) of
                 Inl err \<Rightarrow> Inl err
               | Inr timestamp \<Rightarrow>
                   Inr \<lparr>oxt_bids = okx_prune bids depth True, oxt_asks = okx_prune asks depth False,
                        oxt_sequenceID = oxe_SequenceID event, oxt_timestamp = timestamp\<rparr>)))"

definition okx_newState :: "okx_Event \<Rightarrow> int \<Rightarrow> okx_State result" where
  "okx_newState event depth = okx_apply event depth ([], [])"

definition okx_view :: "okx_OrderBook \<Rightarrow> okx_Processor \<Rightarrow> okx_State \<Rightarrow> okx_View" where
  "okx_view book p state =
     \<lparr>oxv_Channel = oxb_channel book, oxv_InstrumentID = oxb_instrumentID book, oxv_Depth = oxb_depth book,
      oxv_Generation = oxp_generation p, oxv_SynchronizationID = oxp_synchronizationID p, oxv_GapCount = oxp_gapCount p,
      oxv_SequenceID = oxt_sequenceID state, oxv_Timestamp = oxt_timestamp state,
      oxv_Bids = okx_viewLevels (oxt_bids state) (oxb_viewDepth book) True,
      oxv_Asks = okx_viewLevels (oxt_asks state) (oxb_viewDepth book) False\<rparr>"

definition okx_sequenceGap :: "okx_Processor \<Rightarrow> okx_Processor \<times> okx_View processed" where
  "okx_sequenceGap p = (p\<lparr>oxp_gapCount := oxp_gapCount p + 1, oxp_state := None\<rparr>, Reconnecting)"

definition okx_replace :: "okx_OrderBook \<Rightarrow> okx_Event \<Rightarrow> okx_Processor \<Rightarrow> okx_Processor \<times> okx_View processed" where
  "okx_replace book event p =
     (case okx_newState event (oxb_depth book) of
        Inl err \<Rightarrow> (p, Failed err)
      | Inr state \<Rightarrow>
          let p' = p\<lparr>oxp_state := Some state, oxp_synchronizationID := oxp_synchronizationID p + 1\<rparr>
          in (p', Shown (okx_view book p' state)))"

definition okx_update :: "okx_OrderBook \<Rightarrow> okx_Event \<Rightarrow> okx_Processor \<Rightarrow> okx_Processor \<times> okx_View processed" where
  "okx_update book event p =
     (case oxp_state p of
        None \<Rightarrow> okx_sequenceGap p
      | Some state \<Rightarrow>
          if oxe_PreviousSequenceID event \<noteq> oxt_sequenceID state then okx_sequenceGap p
          else if oxe_SequenceID event = oxe_PreviousSequenceID event then
            (if oxe_Bids event = [] \<and> oxe_Asks event = [] then (p, Quiet) else okx_sequenceGap p)
          else case okx_apply event (oxb_depth book) (oxt_bids state, oxt_asks state) of
                 Inl err \<Rightarrow> (p, Failed err)
               | Inr state' \<Rightarrow> let p' = p\<lparr>oxp_state := Some state'\<rparr> in (p', Shown (okx_view book p' state')))"

definition okx_process ::
  "okx_OrderBook \<Rightarrow> okx_Processor \<Rightarrow> 64 word \<times> string \<times> okx_Event \<Rightarrow> okx_Processor \<times> okx_View processed" where
  "okx_process book p = (\<lambda>(generation, action, event).
     if generation = 0 then (p, Failed (validationError ''local order book WebSocket generation is zero'' []))
     else if generation < oxp_generation p then (p, Quiet)
     else
       let p = (if oxp_generation p = 0 \<or> oxp_generation p < generation
                then p\<lparr>oxp_generation := generation, oxp_state := None\<rparr> else p)
       in case okx_validateEvent book action event of
            Some err \<Rightarrow> (p, Failed err)
          | None \<Rightarrow>
              if \<not> oxb_incremental book then okx_replace book event p
              else if action = ''snapshot'' then okx_replace book event p
              else okx_update book event p)"

definition okx_DecodeData :: "(string \<Rightarrow> okx_Event list result) \<Rightarrow> okx_StreamMessage \<Rightarrow> okx_Event list result" where
  "okx_DecodeData Unmarshal message =
     (if oxm_Pong message \<or> oxm_Data message = [] then Inl (errorText ''OKX stream message does not contain channel data'')
      else case Unmarshal (oxm_Data message) of
             Inl err \<Rightarrow> Inl (Errorf ''decode OKX stream data: %w'' [] [err])
           | Inr events \<Rightarrow> Inr events)"

text \<open>The message handler of \<open>Run\<close>: the views it shows, and how it ends. A notice that the service upgrades
  asks for a new connection.\<close>

definition okx_on_message ::
  "(string \<Rightarrow> okx_Event list result) \<Rightarrow> okx_OrderBook \<Rightarrow> okx_Processor \<Rightarrow> 64 word \<times> okx_StreamMessage \<Rightarrow>
   okx_Processor \<times> okx_View list \<times> okx_View processed" where
  "okx_on_message Unmarshal book p = (\<lambda>(generation, message).
     if oxm_Event message \<noteq> [] then
       (if oxm_Event message = ''error''
        then (p, [], Failed (Errorf ''OKX order book subscription failed with code %s: %s''
               [StrArg (oxm_Code message), StrArg (oxm_Message message)] []))
        else if oxm_Event message = ''notice'' \<and> oxm_Code message = ''64008'' then (p, [], Reconnecting)
        else (p, [], Quiet))
     else if oxm_Pong message \<or> okx_streamArgumentKey (oxm_Argument message) \<noteq> okx_streamArgumentKey (oxb_argument book)
     then (p, [], Quiet)
     else case okx_DecodeData Unmarshal message of
            Inl err \<Rightarrow> (p, [], Failed err)
          | Inr [] \<Rightarrow> (p, [], Failed (validationError ''local order book message data is empty'' []))
          | Inr events \<Rightarrow> run_events (okx_process book) p (map (\<lambda>e. (generation, oxm_Action message, e)) events))"

definition okx_init :: okx_Processor where
  "okx_init = \<lparr>oxp_generation = 0, oxp_synchronizationID = 0, oxp_gapCount = 0, oxp_state = None\<rparr>"

section \<open>Forgetting the further texts\<close>

definition okx_forget :: "okx_localLevel \<Rightarrow> localDepthLevel" where
  "okx_forget l = \<lparr>ll_priceText = okl_priceText l, ll_quantityText = okl_quantityText l, ll_price = okl_price l\<rparr>"

definition okx_common :: "okx_side \<Rightarrow> depth_side" where
  "okx_common m = map (\<lambda>(k, l). (k, okx_forget l)) m"

definition okx_keys :: "okx_side \<Rightarrow> bool" where
  "okx_keys m \<longleftrightarrow> list_all (\<lambda>(k, l). okl_key l = Rat_RatString (okl_price l)) m"

definition okx_side_ok :: "okx_side \<Rightarrow> bool" where
  "okx_side_ok m \<longleftrightarrow> side_ok (okx_common m) \<and> okx_keys m"

abbreviation okx_fields :: "okx_BookLevel \<Rightarrow> string list" where
  "okx_fields l \<equiv> [oxl_Price l, oxl_Quantity l]"

lemma okx_common_update: "okx_common (AList.update k l m) = AList.update k (okx_forget l) (okx_common m)"
  by (induction m) (auto simp: okx_common_def)

lemma okx_common_delete: "okx_common (AList.delete k m) = AList.delete k (okx_common m)"
  by (induction m) (auto simp: okx_common_def)

lemma okx_keys_update: "okx_keys m \<Longrightarrow> okl_key l = Rat_RatString (okl_price l) \<Longrightarrow> okx_keys (AList.update k l m)"
  by (induction m) (auto simp: okx_keys_def)

lemma okx_keys_delete: "okx_keys m \<Longrightarrow> okx_keys (AList.delete k m)"
  by (auto simp: okx_keys_def list_all_iff AList.delete_eq)

lemma map_insort_key: "map f (insort_key (g \<circ> f) x xs) = insort_key g (f x) (map f xs)"
  by (induction xs) auto

lemma map_sort_key: "map f (sort_key (g \<circ> f) xs) = sort_key g (map f xs)"
proof (induction xs)
  case (Cons x xs)
  then show ?case using map_insort_key [of f g x "sort_key (g \<circ> f) xs"] by (simp add: o_def)
qed simp

lemma okx_sortedLevels_common: "map okx_forget (okx_sortedLevels m n d) = take (nat n) (orderedLevels (okx_common m) d)"
proof -
  have price: "okl_price = ll_price \<circ> okx_forget" by (simp add: fun_eq_iff okx_forget_def)
  have "sort_key ll_price (map snd (okx_common m)) = map okx_forget (sort_key okl_price (map snd m))"
    unfolding price map_sort_key by (simp add: okx_common_def case_prod_beta o_def)
  then show ?thesis by (simp add: okx_sortedLevels_def orderedLevels_def take_map rev_map)
qed

lemma okx_viewLevels_common:
  "map (\<lambda>l. (oxl_Price l, oxl_Quantity l)) (okx_viewLevels m n d) = sortedLocalLevels (okx_common m) n d"
proof -
  have "map (\<lambda>l. (oxl_Price l, oxl_Quantity l)) (okx_viewLevels m n d) =
      map (\<lambda>l. (ll_priceText l, ll_quantityText l)) (map okx_forget (okx_sortedLevels m n d))"
    by (simp add: okx_viewLevels_def okx_forget_def)
  then show ?thesis by (simp add: okx_sortedLevels_common sortedLocalLevels_def)
qed

lemma okx_sortedLevels_keys:
  assumes "okx_keys m" "l \<in> set (okx_sortedLevels m n d)"
  shows "okl_key l = Rat_RatString (okl_price l)"
proof -
  have "l \<in> snd ` set m" using assms(2) by (auto simp: okx_sortedLevels_def dest!: in_set_takeD split: if_splits)
  with assms(1) show ?thesis by (auto simp: okx_keys_def list_all_iff)
qed

lemma okx_fold_delete:
  "okx_common (fold (\<lambda>l m. AList.delete (h l) m) ls m) = fold (\<lambda>l m. AList.delete (h l) m) ls (okx_common m)"
  "okx_keys m \<Longrightarrow> okx_keys (fold (\<lambda>l m. AList.delete (h l) m) ls m)"
  by (induction ls arbitrary: m) (simp_all add: okx_common_delete okx_keys_delete)

lemma okx_prune_common:
  assumes ok: "okx_side_ok m"
  shows "okx_side_ok (okx_prune m n d) \<and> okx_common (okx_prune m n d) = pruneLevels (okx_common m) n d"
proof -
  from ok have keys: "okx_keys m" and side: "side_ok (okx_common m)" by (simp_all add: okx_side_ok_def)
  let ?ls = "drop (nat n) (okx_sortedLevels m (int (length m)) d)"
  have all: "map okx_forget (okx_sortedLevels m (int (length m)) d) = orderedLevels (okx_common m) d"
    by (simp add: okx_sortedLevels_common orderedLevels_def okx_common_def)
  have "okx_common (okx_prune m n d) = fold (\<lambda>l m. AList.delete (okl_key l) m) ?ls (okx_common m)"
    by (simp add: okx_prune_def okx_fold_delete)
  also have "\<dots> = fold (\<lambda>l m. AList.delete (Rat_RatString (ll_price (okx_forget l))) m) ?ls (okx_common m)"
    by (rule fold_cong) (auto dest!: in_set_dropD okx_sortedLevels_keys [OF keys] simp: okx_forget_def)
  also have "\<dots> = fold (\<lambda>l m. AList.delete (Rat_RatString (ll_price l)) m) (map okx_forget ?ls) (okx_common m)"
    by (simp add: fold_map o_def)
  finally have common: "okx_common (okx_prune m n d) = pruneLevels (okx_common m) n d"
    by (simp add: pruneLevels_keys [OF side] drop_map [symmetric] all)
  moreover have "okx_keys (okx_prune m n d)" using keys by (simp add: okx_prune_def okx_fold_delete)
  ultimately show ?thesis using pruneLevels_spec [OF side] by (simp add: okx_side_ok_def)
qed

lemma okx_parseLevel_Inr:
  assumes "okx_parseLevel l = Inr r"
  shows "fields_ok (okx_fields l) \<and> okl_key r = Rat_RatString (okl_price r) \<and>
     okx_forget r = \<lparr>ll_priceText = oxl_Price l, ll_quantityText = oxl_Quantity l, ll_price = decimal_value (oxl_Price l)\<rparr> \<and>
     okl_price r = decimal_value (oxl_Price l)"
  using assms Trim_zero_pos [of "oxl_Price l"]
  by (auto simp: okx_parseLevel_def fields_ok_def Rat_SetString_def okx_forget_def split: if_splits)

lemma okx_applyLevel_refines:
  assumes "okx_side_ok m" "okx_applyLevel m l = Inr m'"
  shows "okx_side_ok m' \<and> applyLocalLevel (okx_common m) (okx_fields l) = Inr (okx_common m')"
proof -
  from assms(2) obtain r where r: "okx_parseLevel l = Inr r"
    and m': "m' = (if Trim (oxl_Quantity l) ''0.'' = [] then AList.delete (okl_key r) m else AList.update (okl_key r) r m)"
    by (cases "okx_parseLevel l") (auto simp: okx_applyLevel_def split: if_splits)
  note spec = okx_parseLevel_Inr [OF r]
  then have "applyLocalLevel (okx_common m) (okx_fields l) = Inr (okx_common m')"
    by (simp add: applyLocalLevel_def parseDepthFields_eq m' okx_common_delete okx_common_update)
  moreover from applyLocalLevel_refines [OF _ this] assms(1) have "side_ok (okx_common m')" by (simp add: okx_side_ok_def)
  moreover have "okx_keys m'" using assms(1) spec by (simp add: okx_side_ok_def m' okx_keys_delete okx_keys_update)
  ultimately show ?thesis by (simp add: okx_side_ok_def)
qed

lemma okx_applyLevels_refines:
  "\<lbrakk>okx_side_ok m; okx_applyLevels m ls = Inr m'\<rbrakk> \<Longrightarrow>
     okx_side_ok m' \<and> abs_of (okx_common m') = fold abs_apply (map okx_fields ls) (abs_of (okx_common m))"
proof (induction m ls rule: okx_applyLevels.induct)
  case (2 m l ls)
  then obtain m1 where m1: "okx_applyLevel m l = Inr m1" "okx_applyLevels m1 ls = Inr m'" by (auto split: sum.splits)
  note step = okx_applyLevel_refines [OF 2(2) m1(1)]
  with applyLocalLevel_refines [OF _ conjunct2 [OF step]] 2(2)
  have "abs_of (okx_common m1) = abs_apply (okx_fields l) (abs_of (okx_common m))" by (simp add: okx_side_ok_def)
  with 2(1) [OF m1(1)] m1(2) step show ?case by simp
qed simp

section \<open>A processed stream is a chain of updates\<close>

definition okx_good :: "okx_State \<Rightarrow> bool" where
  "okx_good st \<longleftrightarrow> okx_side_ok (oxt_bids st) \<and> okx_side_ok (oxt_asks st)"

definition okx_sides :: "okx_State \<Rightarrow> abs_book" where
  "okx_sides st = (abs_of (okx_common (oxt_bids st)), abs_of (okx_common (oxt_asks st)))"

definition okx_effect :: "okx_OrderBook \<Rightarrow> okx_Event \<Rightarrow> abs_book \<Rightarrow> abs_book" where
  "okx_effect book ev b =
     (case abs_levels (map okx_fields (oxe_Bids ev)) (map okx_fields (oxe_Asks ev)) b of (bids, asks) \<Rightarrow>
        (abs_best (nat (oxb_depth book)) True bids, abs_best (nat (oxb_depth book)) False asks))"

definition okx_follows :: "int \<Rightarrow> okx_Event \<Rightarrow> bool" where
  "okx_follows k ev \<longleftrightarrow> oxe_PreviousSequenceID ev = k \<and> oxe_SequenceID ev \<noteq> k"

definition okx_accept :: "okx_OrderBook \<Rightarrow> okx_State \<Rightarrow> okx_Event \<Rightarrow> okx_State option" where
  "okx_accept book st ev =
     (if okx_follows (oxt_sequenceID st) ev
      then case okx_apply ev (oxb_depth book) (oxt_bids st, oxt_asks st) of Inl _ \<Rightarrow> None | Inr st' \<Rightarrow> Some st'
      else None)"

lemma okx_apply_Inr:
  assumes ok: "okx_side_ok (fst m)" "okx_side_ok (snd m)" and run: "okx_apply ev (oxb_depth book) m = Inr st"
  shows "okx_good st \<and> oxt_sequenceID st = oxe_SequenceID ev \<and>
     okx_sides st = okx_effect book ev (abs_of (okx_common (fst m)), abs_of (okx_common (snd m)))"
proof -
  from run obtain bids asks where parts:
    "okx_applyLevels (fst m) (oxe_Bids ev) = Inr bids" "okx_applyLevels (snd m) (oxe_Asks ev) = Inr asks"
    and st: "oxt_bids st = okx_prune bids (oxb_depth book) True" "oxt_asks st = okx_prune asks (oxb_depth book) False"
      "oxt_sequenceID st = oxe_SequenceID ev"
    by (auto simp: okx_apply_def split: prod.splits sum.splits)
  note refined = okx_applyLevels_refines [OF ok(1) parts(1)] okx_applyLevels_refines [OF ok(2) parts(2)]
  then have sides: "side_ok (okx_common bids)" "side_ok (okx_common asks)" by (simp_all add: okx_side_ok_def)
  from refined show ?thesis
    by (simp add: okx_good_def okx_sides_def okx_effect_def abs_levels_def st okx_prune_common
        abs_best_pruneLevels [OF sides(1)] abs_best_pruneLevels [OF sides(2)])
qed

lemma okx_empty_ok [simp]: "okx_side_ok []" "okx_common [] = []"
  by (simp_all add: okx_side_ok_def okx_common_def okx_keys_def)

interpretation okx: sequenced_book okx_good oxt_sequenceID okx_sides okx_follows oxe_SequenceID "okx_effect book" "okx_accept book" for book
proof unfold_locales
  fix st ev st'
  assume good: "okx_good st" and "okx_accept book st ev = Some st'"
  then have follows: "okx_follows (oxt_sequenceID st) ev"
    and run: "okx_apply ev (oxb_depth book) (oxt_bids st, oxt_asks st) = Inr st'"
    by (auto simp: okx_accept_def split: if_splits sum.splits)
  from okx_apply_Inr [OF _ _ run] good
  show "okx_good st'" "oxt_sequenceID st' = oxe_SequenceID ev" "okx_sides st' = okx_effect book ev (okx_sides st)"
    by (simp_all add: okx_good_def okx_sides_def)
  show "okx_follows (oxt_sequenceID st) ev" by (rule follows)
qed

abbreviation okx_snap :: "okx_OrderBook \<Rightarrow> 64 word \<times> string \<times> okx_Event \<Rightarrow> bool" where
  "okx_snap book m \<equiv> \<not> oxb_incremental book \<or> fst (snd m) = ''snapshot''"

lemma okx_replace_live:
  assumes "okx_replace book ev p = (p', out)" "oxp_state p' = Some st'"
  shows "p' = p \<or> oxp_generation p' = oxp_generation p \<and> okx_good st' \<and> oxt_sequenceID st' = oxe_SequenceID ev \<and>
     okx_sides st' = okx_effect book ev abs_empty"
proof (cases "okx_newState ev (oxb_depth book)")
  case (Inr st)
  with assms have "st' = st" "oxp_generation p' = oxp_generation p" by (auto simp: okx_replace_def Let_def)
  with okx_apply_Inr [OF _ _ Inr [unfolded okx_newState_def]] show ?thesis by (simp add: abs_empty_def)
qed (use assms in \<open>simp add: okx_replace_def\<close>)

lemma okx_update_live:
  assumes "okx_update book ev p = (p', out)" "oxp_state p' = Some st'"
  shows "p' = p \<or> oxp_generation p' = oxp_generation p \<and> (\<exists>st. oxp_state p = Some st \<and> okx_accept book st ev = Some st')"
proof (cases "oxp_state p")
  case None
  with assms show ?thesis by (auto simp: okx_update_def okx_sequenceGap_def)
next
  case (Some st)
  show ?thesis
  proof (cases "okx_follows (oxt_sequenceID st) ev")
    case True
    then have "oxe_PreviousSequenceID ev = oxt_sequenceID st" "oxe_SequenceID ev \<noteq> oxe_PreviousSequenceID ev"
      by (simp_all add: okx_follows_def)
    with assms Some True show ?thesis by (auto simp: okx_update_def okx_accept_def Let_def split: sum.splits)
  next
    case False
    then have "oxe_PreviousSequenceID ev \<noteq> oxt_sequenceID st \<or> oxe_SequenceID ev = oxe_PreviousSequenceID ev"
      by (auto simp: okx_follows_def)
    with assms Some have "p' = p \<or> oxp_state p' = None"
      unfolding okx_update_def Some option.case okx_sequenceGap_def by (auto split: if_splits)
    with assms(2) show ?thesis by auto
  qed
qed

lemma okx_process_live:
  assumes "okx_process book p (g, action, ev) = (p', out)" "oxp_state p' = Some st'"
  shows "p' = p \<or>
     okx_snap book (g, action, ev) \<and> g = oxp_generation p' \<and> okx_good st' \<and> oxt_sequenceID st' = oxe_SequenceID ev \<and>
       okx_sides st' = okx_effect book ev abs_empty \<or>
     (\<exists>st. oxp_state p = Some st \<and> oxp_generation p' = oxp_generation p \<and> g = oxp_generation p \<and>
        \<not> okx_snap book (g, action, ev) \<and> okx_accept book st ev = Some st')"
proof -
  let ?q = "if oxp_generation p = 0 \<or> oxp_generation p < g then p\<lparr>oxp_generation := g, oxp_state := None\<rparr> else p"
  have kept: "?q = p" if "oxp_state ?q \<noteq> None" using that by (simp split: if_splits)
  have gen: "oxp_generation ?q = g" if "\<not> g < oxp_generation p" using that by auto
  consider (kept) "p' = p \<or> p' = ?q"
    | (replaced) "\<not> g < oxp_generation p" "okx_snap book (g, action, ev)" "okx_replace book ev ?q = (p', out)"
    | (updated) "\<not> g < oxp_generation p" "\<not> okx_snap book (g, action, ev)" "okx_update book ev ?q = (p', out)"
    using assms(1) unfolding okx_process_def Let_def by (auto split: if_split_asm option.split_asm)
  then show ?thesis
  proof cases
    case kept
    with \<open>oxp_state ?q \<noteq> None \<Longrightarrow> ?q = p\<close> assms(2) show ?thesis by auto
  next
    case replaced
    from okx_replace_live [OF replaced(3) assms(2)] show ?thesis
    proof
      assume "p' = ?q"
      with \<open>oxp_state ?q \<noteq> None \<Longrightarrow> ?q = p\<close> assms(2) show ?thesis by auto
    qed (use gen [OF replaced(1)] replaced(2) in simp)
  next
    case updated
    from okx_update_live [OF updated(3) assms(2)] show ?thesis
    proof
      assume "p' = ?q"
      with \<open>oxp_state ?q \<noteq> None \<Longrightarrow> ?q = p\<close> assms(2) show ?thesis by auto
    next
      assume "oxp_generation p' = oxp_generation ?q \<and> (\<exists>st. oxp_state ?q = Some st \<and> okx_accept book st ev = Some st')"
      then obtain st where st: "oxp_generation p' = oxp_generation ?q" "oxp_state ?q = Some st" "okx_accept book st ev = Some st'"
        by blast
      then have "?q = p" using \<open>oxp_state ?q \<noteq> None \<Longrightarrow> ?q = p\<close> by blast
      with st gen [OF updated(1)] updated(2) show ?thesis by simp
    qed
  qed
qed

interpretation okx_stream: snapshot_stream okx_good oxt_sequenceID okx_sides okx_follows oxe_SequenceID "okx_effect book"
  "okx_accept book" oxp_generation oxp_state "okx_process book" fst "\<lambda>m. snd (snd m)" "okx_snap book" oxe_SequenceID "okx_view book"
  for book
proof unfold_locales
  fix p m p' out st'
  assume step: "okx_process book p m = (p', out)" "oxp_state p' = Some st'"
  obtain g action ev where m: "m = (g, action, ev)" by (cases m)
  from okx_process_live [OF step(1) [unfolded m] step(2)] step(2)
  show "oxp_state p = Some st' \<and> oxp_generation p' = oxp_generation p \<or>
      okx_snap book m \<and> fst m = oxp_generation p' \<and> okx_good st' \<and> oxt_sequenceID st' = oxe_SequenceID (snd (snd m)) \<and>
      okx_sides st' = okx_effect book (snd (snd m)) abs_empty \<or>
      (\<exists>st. oxp_state p = Some st \<and> oxp_generation p' = oxp_generation p \<and> fst m = oxp_generation p \<and>
        \<not> okx_snap book m \<and> okx_accept book st (snd (snd m)) = Some st')"
    unfolding m fst_conv snd_conv by metis
next
  fix p m p' v
  assume shown: "okx_process book p m = (p', Shown v)"
  obtain g action ev where m: "m = (g, action, ev)" by (cases m)
  from shown show "\<exists>st. oxp_state p' = Some st \<and> v = okx_view book p' st"
    by (auto simp: m okx_process_def okx_replace_def okx_update_def okx_sequenceGap_def Let_def
        split: if_split_asm option.split_asm sum.split_asm)
qed

section \<open>Messages\<close>

text \<open>The events of the messages of the book's channel, in order.\<close>

definition okx_expand ::
  "(string \<Rightarrow> okx_Event list result) \<Rightarrow> okx_OrderBook \<Rightarrow> 64 word \<times> okx_StreamMessage \<Rightarrow> (64 word \<times> string \<times> okx_Event) list" where
  "okx_expand Unmarshal book = (\<lambda>(g, m).
     if oxm_Event m \<noteq> [] \<or> okx_streamArgumentKey (oxm_Argument m) \<noteq> okx_streamArgumentKey (oxb_argument book) then []
     else case Unmarshal (oxm_Data m) of
            Inl err \<Rightarrow> []
          | Inr evs \<Rightarrow> map (\<lambda>e. (g, oxm_Action m, e)) evs)"

abbreviation okx_flat where
  "okx_flat Unmarshal book ms \<equiv> concat (map (okx_expand Unmarshal book) ms)"

lemma okx_on_message_cases:
  assumes "okx_on_message Unmarshal book p (g, msg) = (p', vs, out)"
  shows "p' = p \<and> vs = [] \<or> (\<exists>evs. okx_expand Unmarshal book (g, msg) = map (\<lambda>e. (g, oxm_Action msg, e)) evs \<and>
     run_events (okx_process book) p (map (\<lambda>e. (g, oxm_Action msg, e)) evs) = (p', vs, out))"
proof (cases "oxm_Event msg \<noteq> [] \<or> oxm_Pong msg \<or>
    okx_streamArgumentKey (oxm_Argument msg) \<noteq> okx_streamArgumentKey (oxb_argument book) \<or> oxm_Data msg = []")
  case True
  with assms show ?thesis by (auto simp: okx_on_message_def okx_DecodeData_def split: if_splits)
next
  case False
  show ?thesis
  proof (cases "Unmarshal (oxm_Data msg)")
    case (Inl err)
    with False assms show ?thesis by (simp add: okx_on_message_def okx_DecodeData_def)
  next
    case (Inr evs)
    show ?thesis
    proof (cases evs)
      case Nil
      with False assms Inr show ?thesis by (simp add: okx_on_message_def okx_DecodeData_def)
    next
      case (Cons e es)
      have "okx_expand Unmarshal book (g, msg) = map (\<lambda>e. (g, oxm_Action msg, e)) evs"
        using False Inr by (simp add: okx_expand_def)
      moreover have "run_events (okx_process book) p (map (\<lambda>e. (g, oxm_Action msg, e)) evs) = (p', vs, out)"
        using assms False Inr Cons by (simp add: okx_on_message_def okx_DecodeData_def del: run_events.simps)
      ultimately show ?thesis by blast
    qed
  qed
qed

lemma okx_on_message_stream:
  assumes "okx_on_message Unmarshal book p m = (p', vs, out)"
  shows "\<exists>ts. subseq ts (okx_expand Unmarshal book m) \<and> stream_run (okx_process book) p ts = (p', vs)"
proof -
  obtain g msg where m: "m = (g, msg)" by (cases m)
  from okx_on_message_cases [OF assms [unfolded m]] show ?thesis
  proof (elim disjE exE conjE)
    fix evs
    assume "okx_expand Unmarshal book (g, msg) = map (\<lambda>e. (g, oxm_Action msg, e)) evs"
      "run_events (okx_process book) p (map (\<lambda>e. (g, oxm_Action msg, e)) evs) = (p', vs, out)"
    with run_events_stream show ?thesis unfolding m by metis
  qed (use list_emb_Nil in \<open>intro exI [of _ "[]"], simp\<close>)
qed

lemma okx_run_flat:
  "batch_run (okx_on_message Unmarshal book) p ms = (p', vs) \<Longrightarrow>
     \<exists>ts. subseq ts (okx_flat Unmarshal book ms) \<and> stream_run (okx_process book) p ts = (p', vs)"
  by (rule batch_run_stream [where handle = "okx_on_message Unmarshal book"]) (rule okx_on_message_stream)

section \<open>Properties\<close>

abbreviation okx_texts :: "okx_BookLevel list \<Rightarrow> (string \<times> string) list" where
  "okx_texts \<equiv> map (\<lambda>l. (oxl_Price l, oxl_Quantity l))"

text \<open>C9. Every view the OKX book shows starts from a complete book that came on the connection it names; on the
  incremental channel it is followed by an unbroken chain of later events of that connection, each naming the
  sequence number before it. Prices and quantities shown are the best levels of the outcome, cut to the depth of
  the channel after each event.\<close>

theorem okx_views_gapless:
  assumes "v \<in> set (snd (batch_run (okx_on_message Unmarshal book) okx_init ms))"
  shows "\<exists>ts before m after evs. subseq ts (okx_flat Unmarshal book ms) \<and> ts = before @ m # after \<and>
     okx_snap book m \<and> fst m = oxv_Generation v \<and>
     subseq evs (map (\<lambda>x. snd (snd x)) (filter (\<lambda>x. fst x = oxv_Generation v \<and> \<not> okx_snap book x) after)) \<and>
     chained (\<lambda>k ev. oxe_PreviousSequenceID ev = k \<and> oxe_SequenceID ev \<noteq> k) oxe_SequenceID (oxe_SequenceID (snd (snd m))) evs \<and>
     oxv_SequenceID v = end_of oxe_SequenceID (oxe_SequenceID (snd (snd m))) evs \<and>
     view_of (fst (fold (okx_effect book) evs (okx_effect book (snd (snd m)) abs_empty)))
       (oxb_viewDepth book) True (okx_texts (oxv_Bids v)) \<and>
     view_of (snd (fold (okx_effect book) evs (okx_effect book (snd (snd m)) abs_empty)))
       (oxb_viewDepth book) False (okx_texts (oxv_Asks v))"
proof -
  obtain p' vs where run: "batch_run (okx_on_message Unmarshal book) okx_init ms = (p', vs)" by fastforce
  from okx_run_flat [OF run] obtain ts where ts: "subseq ts (okx_flat Unmarshal book ms)"
    "stream_run (okx_process book) okx_init ts = (p', vs)" by blast
  have "oxp_state okx_init = None" by (simp add: okx_init_def)
  from conjunct2 [OF okx_stream.run_streamed [OF this, of book ts]] assms
  obtain p st where v: "v = okx_view book p st" and st: "okx_stream.streamed book ts (oxp_generation p) st"
    unfolding ts(2) run snd_conv by blast
  have shown: "oxv_Generation v = oxp_generation p" "oxv_SequenceID v = oxt_sequenceID st"
    "okx_texts (oxv_Bids v) = sortedLocalLevels (okx_common (oxt_bids st)) (oxb_viewDepth book) True"
    "okx_texts (oxv_Asks v) = sortedLocalLevels (okx_common (oxt_asks st)) (oxb_viewDepth book) False"
    by (simp_all add: v okx_view_def okx_viewLevels_common)
  have sides: "view_of (fst (okx_sides st)) (oxb_viewDepth book) True (okx_texts (oxv_Bids v))"
    "view_of (snd (okx_sides st)) (oxb_viewDepth book) False (okx_texts (oxv_Asks v))"
    using okx_stream.streamed_good [OF st] unfolding shown
    by (simp_all add: okx_good_def okx_side_ok_def okx_sides_def sortedLocalLevels_view)
  from st obtain before m after evs where parts: "ts = before @ m # after" "okx_snap book m" "fst m = oxp_generation p"
    "subseq evs (map (\<lambda>x. snd (snd x)) (filter (\<lambda>x. fst x = oxp_generation p \<and> \<not> okx_snap book x) after))"
    "chained okx_follows oxe_SequenceID (oxe_SequenceID (snd (snd m))) evs"
    "oxt_sequenceID st = end_of oxe_SequenceID (oxe_SequenceID (snd (snd m))) evs"
    "okx_sides st = fold (okx_effect book) evs (okx_effect book (snd (snd m)) abs_empty)"
    unfolding okx_stream.streamed_def okx.tracks_def by (elim exE conjE) (rule that)
  have "view_of (fst (fold (okx_effect book) evs (okx_effect book (snd (snd m)) abs_empty))) (oxb_viewDepth book) True (okx_texts (oxv_Bids v))"
    "view_of (snd (fold (okx_effect book) evs (okx_effect book (snd (snd m)) abs_empty))) (oxb_viewDepth book) False (okx_texts (oxv_Asks v))"
    using sides by (simp_all only: parts(7))
  with ts(1) parts(1-6) show ?thesis unfolding shown(1,2) okx_follows_def [symmetric, abs_def]
    by (intro exI conjI) assumption+
qed

definition okx_demo_book :: okx_OrderBook where
  "okx_demo_book = \<lparr>oxb_channel = ''books'', oxb_instrumentID = ''B'', oxb_depth = 5, oxb_viewDepth = 1, oxb_routeID = ''r'',
     oxb_argument = \<lparr>oxa_Channel = ''books'', oxa_InstrumentType = [], oxa_InstrumentFamily = [], oxa_InstrumentID = ''B''\<rparr>,
     oxb_incremental = True\<rparr>"

definition okx_demo_level :: "string \<Rightarrow> string \<Rightarrow> okx_BookLevel" where
  "okx_demo_level price quantity =
     \<lparr>oxl_Price = price, oxl_Quantity = quantity, oxl_LiquidatedOrderCount = ''0'', oxl_OrderCount = ''2''\<rparr>"

definition okx_demo_unmarshal :: "string \<Rightarrow> okx_Event list result" where
  "okx_demo_unmarshal s =
     (if s = ''s'' then Inr [\<lparr>oxe_Asks = [okx_demo_level ''3'' ''4''], oxe_Bids = [okx_demo_level ''1'' ''5''], oxe_Timestamp = ''9'',
        oxe_Checksum = 0, oxe_PreviousSequenceID = - 1, oxe_SequenceID = 7\<rparr>]
      else Inr [\<lparr>oxe_Asks = [okx_demo_level ''2'' ''1''], oxe_Bids = [okx_demo_level ''1'' ''0''], oxe_Timestamp = ''9'',
        oxe_Checksum = 0, oxe_PreviousSequenceID = 7, oxe_SequenceID = 3\<rparr>])"

definition okx_demo_message :: "string \<Rightarrow> string \<Rightarrow> 64 word \<times> okx_StreamMessage" where
  "okx_demo_message action payload = (1, \<lparr>oxm_RequestID = [], oxm_Event = [], oxm_Code = [], oxm_Message = [], oxm_ConnectionID = [],
     oxm_Argument = oxb_argument okx_demo_book, oxm_Action = action, oxm_Data = payload, oxm_Pong = False\<rparr>)"

definition okx_demo :: "(64 word \<times> okx_StreamMessage) list" where
  "okx_demo = [okx_demo_message ''snapshot'' ''s'', okx_demo_message ''update'' ''u'']"

definition okx_demo_view :: okx_View where
  "okx_demo_view = \<lparr>oxv_Channel = ''books'', oxv_InstrumentID = ''B'', oxv_Depth = 5, oxv_Generation = 1, oxv_SynchronizationID = 1,
     oxv_GapCount = 0, oxv_SequenceID = 3, oxv_Timestamp = 9, oxv_Bids = [], oxv_Asks = [okx_demo_level ''2'' ''1'']\<rparr>"

lemma okx_demo_shown:
  "list_ex (\<lambda>v. v = okx_demo_view) (snd (batch_run (okx_on_message okx_demo_unmarshal okx_demo_book) okx_init okx_demo))"
  by code_simp

theorem okx_views_gapless_witness:
  "\<exists>ts before m after evs. subseq ts (okx_flat okx_demo_unmarshal okx_demo_book okx_demo) \<and> ts = before @ m # after \<and>
     okx_snap okx_demo_book m \<and> fst m = 1 \<and> 3 = end_of oxe_SequenceID (oxe_SequenceID (snd (snd m))) (evs :: okx_Event list)"
proof -
  have "okx_demo_view \<in> set (snd (batch_run (okx_on_message okx_demo_unmarshal okx_demo_book) okx_init okx_demo))"
    using okx_demo_shown unfolding list_ex_iff by blast
  from okx_views_gapless [OF this]
  have "\<exists>ts before m after evs. subseq ts (okx_flat okx_demo_unmarshal okx_demo_book okx_demo) \<and> ts = before @ m # after \<and>
     okx_snap okx_demo_book m \<and> fst m = oxv_Generation okx_demo_view \<and>
     oxv_SequenceID okx_demo_view = end_of oxe_SequenceID (oxe_SequenceID (snd (snd m))) (evs :: okx_Event list)"
    by (elim exE conjE) (intro exI conjI)
  then show ?thesis unfolding okx_demo_view_def okx_View.select_convs .
qed

end
