(* ===== verification/Book_Runs.thy ===== *)
theory Book_Runs
  imports Binance_Book Bitget_Book Bybit_Book Kraken_Futures_Book Coinbase_Book Okx_Book Bybit_Client
begin

text \<open>
  How the local order books take over a stream: \<open>Run\<close> of each adapter. A stream is its egress route and its
  subscriptions; the context and the caller's handler are present or nil. A run that is not refused hands the
  messages the stream delivers to the message handler of the book; the value is what the caller's handler gets.
  The Binance book decodes the messages of its stream into the input channel of the select loop.
\<close>

section \<open>Books that are fed by one stream\<close>

text \<open>A stream that is in use: its route and what it is subscribed to.\<close>

type_synonym 's route_stream = "EgressRouteID \<times> 's"

definition bybit_book_Run ::
  "(string \<Rightarrow> bybit_StreamOrderBook result) \<Rightarrow> bybit_OrderBook \<Rightarrow> 'c option \<Rightarrow> bybit_managedStream route_stream option \<Rightarrow>
   'h option \<Rightarrow> (64 word \<times> bybit_StreamMessage) list \<Rightarrow> bybit_View list result" where
  "bybit_book_Run Unmarshal book ctx public handler ms =
     (if ctx = None then Inl (errorText ''Bybit local order book context is nil'')
      else case public of
             None \<Rightarrow> Inl (errorText ''Bybit local order book public stream is required'')
           | Some (route, managed) \<Rightarrow>
               if handler = None then Inl (errorText ''Bybit local order book handler is required'')
               else if route \<noteq> yb_routeID book
               then Inl (validationError ''local order book and public WebSocket routes must match'' [])
               else if \<not> bybit_hasTopic managed (yb_category book) (yb_topic book)
               then Inl (validationError ''public stream does not contain the required order book topic'' [])
               else Inr (snd (stream_run (bybit_on_message Unmarshal book) bybit_init ms)))"

definition bitget_book_Run ::
  "(string \<Rightarrow> bitget_StreamOrderBook list result) \<Rightarrow> bitget_OrderBook \<Rightarrow> 'c option \<Rightarrow>
   bitget_StreamArgument list route_stream option \<Rightarrow> 'h option \<Rightarrow> (64 word \<times> bitget_StreamMessage) list \<Rightarrow>
   bitget_View list result" where
  "bitget_book_Run Unmarshal book ctx public handler ms =
     (if ctx = None then Inl (errorText ''Bitget local order book context is nil'')
      else case public of
             None \<Rightarrow> Inl (errorText ''Bitget local order book public stream is required'')
           | Some (route, arguments) \<Rightarrow>
               if handler = None then Inl (errorText ''Bitget local order book handler is required'')
               else if route \<noteq> gb_routeID book then Inl (validationError ''local order book and WebSocket routes must match'' [])
               else if \<not> bitget_hasSpotBooksArgument arguments (gb_symbol book)
               then Inl (validationError ''public stream does not contain the required Spot books subscription'' [])
               else Inr (snd (stream_run (bitget_on_message Unmarshal book) bitget_init ms)))"

definition kraken_book_Run ::
  "(string \<Rightarrow> SpotStreamBook list result) \<Rightarrow> (string \<Rightarrow> bool) \<Rightarrow> kraken_OrderBook \<Rightarrow> 'c option \<Rightarrow>
   SpotPublicSubscription list route_stream option \<Rightarrow> 'h option \<Rightarrow> (64 word \<times> SpotStreamMessage) list \<Rightarrow> kraken_View list result" where
  "kraken_book_Run Unmarshal isTime book ctx public handler ms =
     (if ctx = None then Inl (errorText ''Kraken Spot local order book context is nil'')
      else case public of
             None \<Rightarrow> Inl (errorText ''Kraken Spot local order book public stream is required'')
           | Some (route, subscriptions) \<Rightarrow>
               if handler = None then Inl (errorText ''Kraken Spot local order book handler is required'')
               else if route \<noteq> kb_routeID book
               then Inl (validationError ''Spot local order book and public WebSocket routes must match'' [])
               else if \<not> kraken_hasBookSubscription subscriptions (kb_symbol book) (kb_depth book)
               then Inl (validationError ''public stream does not contain the required Spot book subscription'' [])
               else Inr (snd (kraken_run Unmarshal isTime book kraken_init ms)))"

definition kf_book_Run ::
  "(string \<Rightarrow> kf_Snapshot result) \<Rightarrow> (string \<Rightarrow> kf_Update result) \<Rightarrow> kf_OrderBook \<Rightarrow> 'c option \<Rightarrow>
   kf_PublicStreamSubscription list route_stream option \<Rightarrow> 'h option \<Rightarrow> (64 word \<times> kf_StreamMessage) list \<Rightarrow> kf_View list result" where
  "kf_book_Run US UU book ctx public handler ms =
     (if ctx = None then Inl (errorText ''Kraken Futures local order book context is nil'')
      else case public of
             None \<Rightarrow> Inl (errorText ''Kraken Futures local order book public stream is required'')
           | Some (route, subscriptions) \<Rightarrow>
               if handler = None then Inl (errorText ''Kraken Futures local order book handler is required'')
               else if route \<noteq> kfb_routeID book
               then Inl (validationError ''Futures local order book and public WebSocket routes must match'' [])
               else if \<not> kf_hasBookSubscription subscriptions (kfb_productID book)
               then Inl (validationError ''public stream does not contain the required Futures book product'' [])
               else Inr (snd (stream_run (kf_on_message US UU book) kf_init ms)))"

definition coinbase_book_Run ::
  "(string \<Rightarrow> StreamLevel2Event list result) \<Rightarrow> (string \<Rightarrow> bool) \<Rightarrow> coinbase_OrderBook \<Rightarrow> 'c option \<Rightarrow>
   (string \<Rightarrow> coinbase_StreamSubscription option) route_stream option \<Rightarrow> 'h option \<Rightarrow>
   (64 word \<times> coinbase_StreamMessage) list \<Rightarrow> coinbase_View list result" where
  "coinbase_book_Run Unmarshal isTime book ctx public handler ms =
     (if ctx = None then Inl (errorText ''Coinbase local order book context is nil'')
      else case public of
             None \<Rightarrow> Inl (errorText ''Coinbase local order book public stream is required'')
           | Some (route, subscriptions) \<Rightarrow>
               if handler = None then Inl (errorText ''Coinbase local order book handler is required'')
               else if route \<noteq> cbb_routeID book
               then Inl (validationError ''local order book and public WebSocket routes must match'' [])
               else if \<not> coinbase_hasSubscription subscriptions ''level2'' (cbb_productID book)
               then Inl (validationError ''public stream does not contain the required level2 product'' [])
               else Inr (snd (stream_run (coinbase_step Unmarshal isTime book) (coinbase_init, False) ms)))"

text \<open>An OKX stream is subscribed on one endpoint.\<close>

definition okx_book_Run ::
  "(string \<Rightarrow> okx_Event list result) \<Rightarrow> okx_OrderBook \<Rightarrow> 'c option \<Rightarrow>
   (StreamEndpoint \<times> (string \<Rightarrow> okx_StreamArgument option)) route_stream option \<Rightarrow> 'h option \<Rightarrow>
   (64 word \<times> okx_StreamMessage) list \<Rightarrow> okx_View list result" where
  "okx_book_Run Unmarshal book ctx public handler ms =
     (if ctx = None then Inl (errorText ''OKX local order book context is nil'')
      else case public of
             None \<Rightarrow> Inl (errorText ''OKX local order book public stream is required'')
           | Some (route, endpoint, arguments) \<Rightarrow>
               if handler = None then Inl (errorText ''OKX local order book handler is required'')
               else if route \<noteq> oxb_routeID book
               then Inl (validationError ''local order book and public WebSocket routes must match'' [])
               else if \<not> okx_hasArgument endpoint arguments (oxb_argument book)
               then Inl (validationError ''public stream does not contain the required order book channel'' [])
               else Inr (snd (batch_run (okx_on_message Unmarshal book) okx_init ms)))"

section \<open>The Binance book\<close>

text \<open>A control response carries the code and the message of its error, if it has one.\<close>

record MarketStreamMessage =
  bm_Stream :: string
  bm_EventType :: string
  bm_EventTime :: int
  bm_Payload :: string
  bm_Response :: "(int \<times> string) option option"

definition MarketStreamMessage_Decode :: "(string \<Rightarrow> DepthEvent result) \<Rightarrow> MarketStreamMessage \<Rightarrow> DepthEvent result" where
  "MarketStreamMessage_Decode Unmarshal message =
     (if bm_Response message \<noteq> None \<or> bm_Payload message = []
      then Inl (errorText ''Binance market stream message does not contain an event'')
      else case Unmarshal (bm_Payload message) of
             Inl err \<Rightarrow> Inl (Errorf ''decode Binance market stream event: %w'' [] [err])
           | Inr event \<Rightarrow> Inr event)"

text \<open>The handler of the market stream: nothing, an input for the loop, or an error. The channel holds as many
  inputs as the buffer of the loop; \<open>waiting\<close> is how many are in it.\<close>

definition depth_feed ::
  "(string \<Rightarrow> DepthEvent result) \<Rightarrow> LocalOrderBook \<Rightarrow> int \<Rightarrow> 64 word \<Rightarrow> MarketStreamMessage \<Rightarrow> depthInput option result" where
  "depth_feed Unmarshal book waiting generation message =
     (case bm_Response message of
        Some (Some (code, errorMessage)) \<Rightarrow>
          Inl (Errorf ''Binance depth subscription failed with code %d: %s'' [IntArg code, StrArg errorMessage] [])
      | Some None \<Rightarrow> Inr None
      | None \<Rightarrow>
          if bm_EventType message \<noteq> ''depthUpdate'' then Inr None
          else case MarketStreamMessage_Decode Unmarshal message of
                 Inl err \<Rightarrow> Inl err
               | Inr event \<Rightarrow>
                   if waiting < lb_maxBufferedEvents book then Inr (Some \<lparr>di_generation = generation, di_event = event\<rparr>)
                   else Inl (Sentinel ErrDepthBufferOverflow))"

definition hasDiffDepthStream :: "string list \<Rightarrow> string \<Rightarrow> bool" where
  "hasDiffDepthStream streams symbol \<longleftrightarrow>
     (let prefix = ToLower_ascii symbol @ ''@depth'' in list_ex (\<lambda>s. s = prefix \<or> s = prefix @ ''@100ms'') streams)"

text \<open>What \<open>Run\<close> checks before it starts the stream and the loop.\<close>

definition binance_book_Run_check ::
  "LocalOrderBook \<Rightarrow> 'c option \<Rightarrow> string list route_stream option \<Rightarrow> 'h option \<Rightarrow> go_error option" where
  "binance_book_Run_check book ctx market handler =
     (if ctx = None then Some (errorText ''Binance local order book context is nil'')
      else case market of
             None \<Rightarrow> Some (errorText ''Binance local order book market stream is required'')
           | Some (route, streams) \<Rightarrow>
               if handler = None then Some (errorText ''Binance local order book handler is required'')
               else if route \<noteq> lb_routeID book
               then Some (validationError ''local order book REST and WebSocket routes must match'' [])
               else if \<not> hasDiffDepthStream streams (lb_symbol book)
               then Some (validationError ''market stream does not contain the required diff depth subscription'' [])
               else None)"

section \<open>Properties\<close>

text \<open>A run that is not refused: its stream is on the route of the book and holds its subscription.\<close>

definition runs_on :: "EgressRouteID \<Rightarrow> ('s \<Rightarrow> bool) \<Rightarrow> 'c option \<Rightarrow> 's route_stream option \<Rightarrow> 'h option \<Rightarrow> bool" where
  "runs_on route subscribed ctx public handler \<longleftrightarrow>
     ctx \<noteq> None \<and> handler \<noteq> None \<and> (case public of None \<Rightarrow> False | Some (r, s) \<Rightarrow> r = route \<and> subscribed s)"

text \<open>A local order book shows something only while it owns a stream on its own egress route that holds the
  subscription it needs, with a context and a handler; then it shows what its message handler makes of the
  messages of that stream. In every other case \<open>Run\<close> is refused before anything is sent.\<close>

theorem book_runs_on_own_route:
  "(bybit_book_Run Ub bybit ctx s1 h ms1 = Inr vs1 \<longleftrightarrow>
      runs_on (yb_routeID bybit) (\<lambda>m. bybit_hasTopic m (yb_category bybit) (yb_topic bybit)) ctx s1 h \<and>
      vs1 = snd (stream_run (bybit_on_message Ub bybit) bybit_init ms1)) \<and>
   (bitget_book_Run Ug bitget ctx s2 h ms2 = Inr vs2 \<longleftrightarrow>
      runs_on (gb_routeID bitget) (\<lambda>a. bitget_hasSpotBooksArgument a (gb_symbol bitget)) ctx s2 h \<and>
      vs2 = snd (stream_run (bitget_on_message Ug bitget) bitget_init ms2)) \<and>
   (kraken_book_Run Uk isTime kraken ctx s3 h ms3 = Inr vs3 \<longleftrightarrow>
      runs_on (kb_routeID kraken) (\<lambda>ss. kraken_hasBookSubscription ss (kb_symbol kraken) (kb_depth kraken)) ctx s3 h \<and>
      vs3 = snd (kraken_run Uk isTime kraken kraken_init ms3)) \<and>
   (kf_book_Run US UU futures ctx s4 h ms4 = Inr vs4 \<longleftrightarrow>
      runs_on (kfb_routeID futures) (\<lambda>ss. kf_hasBookSubscription ss (kfb_productID futures)) ctx s4 h \<and>
      vs4 = snd (stream_run (kf_on_message US UU futures) kf_init ms4)) \<and>
   (coinbase_book_Run Uc isTime coinbase ctx s5 h ms5 = Inr vs5 \<longleftrightarrow>
      runs_on (cbb_routeID coinbase) (\<lambda>ss. coinbase_hasSubscription ss ''level2'' (cbb_productID coinbase)) ctx s5 h \<and>
      vs5 = snd (stream_run (coinbase_step Uc isTime coinbase) (coinbase_init, False) ms5)) \<and>
   (okx_book_Run Uo okx ctx s6 h ms6 = Inr vs6 \<longleftrightarrow>
      runs_on (oxb_routeID okx) (\<lambda>s. okx_hasArgument (fst s) (snd s) (oxb_argument okx)) ctx s6 h \<and>
      vs6 = snd (batch_run (okx_on_message Uo okx) okx_init ms6)) \<and>
   (binance_book_Run_check binance ctx s7 h = None \<longleftrightarrow>
      runs_on (lb_routeID binance) (\<lambda>streams. hasDiffDepthStream streams (lb_symbol binance)) ctx s7 h)"
proof (intro conjI)
  show "bybit_book_Run Ub bybit ctx s1 h ms1 = Inr vs1 \<longleftrightarrow>
      runs_on (yb_routeID bybit) (\<lambda>m. bybit_hasTopic m (yb_category bybit) (yb_topic bybit)) ctx s1 h \<and>
      vs1 = snd (stream_run (bybit_on_message Ub bybit) bybit_init ms1)"
    by (auto simp: bybit_book_Run_def runs_on_def split: option.splits)
  show "bitget_book_Run Ug bitget ctx s2 h ms2 = Inr vs2 \<longleftrightarrow>
      runs_on (gb_routeID bitget) (\<lambda>a. bitget_hasSpotBooksArgument a (gb_symbol bitget)) ctx s2 h \<and>
      vs2 = snd (stream_run (bitget_on_message Ug bitget) bitget_init ms2)"
    by (auto simp: bitget_book_Run_def runs_on_def split: option.splits)
  show "kraken_book_Run Uk isTime kraken ctx s3 h ms3 = Inr vs3 \<longleftrightarrow>
      runs_on (kb_routeID kraken) (\<lambda>ss. kraken_hasBookSubscription ss (kb_symbol kraken) (kb_depth kraken)) ctx s3 h \<and>
      vs3 = snd (kraken_run Uk isTime kraken kraken_init ms3)"
    by (auto simp: kraken_book_Run_def runs_on_def split: option.splits)
  show "kf_book_Run US UU futures ctx s4 h ms4 = Inr vs4 \<longleftrightarrow>
      runs_on (kfb_routeID futures) (\<lambda>ss. kf_hasBookSubscription ss (kfb_productID futures)) ctx s4 h \<and>
      vs4 = snd (stream_run (kf_on_message US UU futures) kf_init ms4)"
    by (auto simp: kf_book_Run_def runs_on_def split: option.splits)
  show "coinbase_book_Run Uc isTime coinbase ctx s5 h ms5 = Inr vs5 \<longleftrightarrow>
      runs_on (cbb_routeID coinbase) (\<lambda>ss. coinbase_hasSubscription ss ''level2'' (cbb_productID coinbase)) ctx s5 h \<and>
      vs5 = snd (stream_run (coinbase_step Uc isTime coinbase) (coinbase_init, False) ms5)"
    by (auto simp: coinbase_book_Run_def runs_on_def split: option.splits)
  show "okx_book_Run Uo okx ctx s6 h ms6 = Inr vs6 \<longleftrightarrow>
      runs_on (oxb_routeID okx) (\<lambda>s. okx_hasArgument (fst s) (snd s) (oxb_argument okx)) ctx s6 h \<and>
      vs6 = snd (batch_run (okx_on_message Uo okx) okx_init ms6)"
    by (auto simp: okx_book_Run_def runs_on_def split: option.splits)
  show "binance_book_Run_check binance ctx s7 h = None \<longleftrightarrow>
      runs_on (lb_routeID binance) (\<lambda>streams. hasDiffDepthStream streams (lb_symbol binance)) ctx s7 h"
    by (auto simp: binance_book_Run_check_def runs_on_def split: option.splits)
qed

text \<open>What reaches the loop of the Binance book is the event of a depth message, with the generation of the stream;
  it is dropped with an error rather than lost when the channel is full.\<close>

lemma depth_feed_input:
  "depth_feed Unmarshal book waiting g m = Inr (Some i) \<longleftrightarrow>
     bm_Response m = None \<and> bm_EventType m = ''depthUpdate'' \<and> bm_Payload m \<noteq> [] \<and> waiting < lb_maxBufferedEvents book \<and>
     Unmarshal (bm_Payload m) = Inr (di_event i) \<and> di_generation i = g"
  by (cases i) (auto simp: depth_feed_def MarketStreamMessage_Decode_def split: option.splits sum.splits)

end
