(* ===== verification/Bybit_Stream_Client.thy ===== *)
theory Bybit_Stream_Client
  imports Stream_Session Bybit_Client Bybit_Book
begin

text \<open>
  The stream client of the Bybit adapter (\<open>exchange/bybit/websocket.go\<close>): its construction, public and
  private streams, the authentication of a private connection, the decoding of frames, the reconnect
  policy, and the connection wrapper that turns the pong frames of the exchange into answers to pings.

  \<open>url.Parse\<close>, the JSON codec, HMAC and the connection are parameters. Key material and the
  authentication frame live in the byte store of \<open>Credential_Policy\<close>; every operation that writes
  returns what the connection took.
\<close>

section \<open>Data\<close>

record bybit_Envelope =
  yev_Topic :: string
  yev_Type :: string
  yev_Timestamp :: int
  yev_CreationTime :: int
  yev_Operation :: string
  yev_RequestID :: string
  yev_ConnectionID :: string
  yev_Success :: "bool option"
  yev_ReturnMessage :: string
  yev_Data :: string

text \<open>\<open>ysl_URLString\<close> is the \<open>String\<close> method of a parsed URL; \<open>ysl_Auth\<close> encodes the arguments of the
  authentication operation into a slice of memory, \<open>ysl_Response\<close> decodes just operation and message.\<close>

record bybit_stream_lib =
  ysl_ParseURL :: "string \<Rightarrow> parsed_URL result"
  ysl_URLString :: "parsed_URL \<Rightarrow> string"
  ysl_HMAC :: "string \<Rightarrow> string \<Rightarrow> string"
  ysl_Envelope :: "string \<Rightarrow> bybit_Envelope result"
  ysl_Response :: "string \<Rightarrow> (string \<times> string) result"
  ysl_Operation :: "bybit_streamOperation \<Rightarrow> string result"
  ysl_Auth :: "string \<times> int \<times> string \<Rightarrow> byte_heap \<Rightarrow> byte_slice result \<times> byte_heap"


record 'w bybit_StreamClient =
  ysc_credentials :: "Descriptor option"
  ysc_credentialProvider :: "'w key_Provider option"
  ysc_defaultRouteID :: EgressRouteID
  ysc_spotPublicURL :: string
  ysc_linearPublicURL :: string
  ysc_privateURL :: string
  ysc_now :: "'w \<Rightarrow> int"
  ysc_observer :: bool
  ysc_reconnectPolicy :: "ReconnectPolicy option"
  ysc_backoff :: "Backoff option"
  ysc_maxReconnectAttempts :: int
  ysc_pingInterval :: int
  ysc_pingTimeout :: int
  ysc_authTimeout :: int
  ysc_authWindow :: int
  ysc_subscriptionInterval :: int

section \<open>Construction\<close>








section \<open>Streams\<close>

definition bybit_resolveRoute :: "'w bybit_StreamClient \<Rightarrow> RequestOption option list \<Rightarrow> EgressRouteID result" where
  "bybit_resolveRoute client options =
     (case ResolveRequestOptions (ysc_defaultRouteID client) options of
        Inl err \<Rightarrow> Inl err
      | Inr resolved \<Rightarrow>
          if ro_Timeout resolved \<noteq> 0 then Inl (errorText ''Bybit stream timeout must be controlled by Run context'')
          else Inr (ro_EgressRouteID resolved))"





text \<open>\<open>stream.NewSession\<close> parses with the same \<open>url.Parse\<close>.\<close>

definition bybit_ws_url :: "bybit_stream_lib \<Rightarrow> string \<Rightarrow> ws_url option" where
  "bybit_ws_url lib s =
     (case ysl_ParseURL lib s of
        Inl err \<Rightarrow> None
      | Inr u \<Rightarrow> Some \<lparr>wu_Host = ul_Host u, wu_Scheme = ul_Scheme u, wu_User = ul_User u, wu_Fragment = ul_Fragment u\<rparr>)"

definition bybit_sessionConfig ::
  "'w bybit_StreamClient \<Rightarrow> EgressRouteID \<Rightarrow> string \<Rightarrow> ReconnectPolicy option \<Rightarrow> SessionConfig" where
  "bybit_sessionConfig client routeID endpoint policy =
     \<lparr>sc_Connector = True, sc_EgressRouteID = routeID, sc_Request = \<lparr>dr_Endpoint = endpoint, dr_Header = []\<rparr>,
      sc_RequestSource = False, sc_OnConnect = True, sc_Observer = ysc_observer client, sc_ReconnectPolicy = policy,
      sc_Backoff = ysc_backoff client, sc_MaxReconnectAttempts = ysc_maxReconnectAttempts client, sc_MaxReconnectDelay = 0,
      sc_PingInterval = ysc_pingInterval client, sc_PingTimeout = ysc_pingTimeout client\<rparr>"

definition bybit_PublicStream ::
  "bybit_stream_lib \<Rightarrow> 'w bybit_StreamClient \<Rightarrow> Category \<Rightarrow> string list \<Rightarrow> RequestOption option list \<Rightarrow>
   (bybit_managedStream \<times> SessionConfig) result" where
  "bybit_PublicStream lib client category topics options =
     (case validatePublicTopics category topics of
        Inl err \<Rightarrow> Inl err
      | Inr topics \<Rightarrow>
          (case bybit_resolveRoute client options of
             Inl err \<Rightarrow> Inl err
           | Inr routeID \<Rightarrow>
               let endpoint = (if category = CategoryLinear then ysc_linearPublicURL client else ysc_spotPublicURL client);
                   managed = bybit_newManagedStream category topics False (ysc_subscriptionInterval client)
               in case NewSession (bybit_ws_url lib) (bybit_sessionConfig client routeID endpoint (ysc_reconnectPolicy client)) of
                    Inl err \<Rightarrow> Inl err
                  | Inr session \<Rightarrow> Inr (managed, session)))"


section \<open>Frames\<close>

text \<open>\<open>strings.EqualFold\<close> against a word in which no letter has a non-ASCII fold.\<close>

definition EqualFold_ascii :: "string \<Rightarrow> string \<Rightarrow> bool" where
  "EqualFold_ascii s t \<longleftrightarrow> ToLower_ascii s = ToLower_ascii t"

definition bybit_is_pong :: "string \<Rightarrow> string \<Rightarrow> bool" where
  "bybit_is_pong operation returnMessage \<longleftrightarrow> operation = ''pong'' \<or> EqualFold_ascii returnMessage ''pong''"

definition bybit_DecodeStreamMessage :: "bybit_stream_lib \<Rightarrow> Message \<Rightarrow> bybit_StreamMessage result" where
  "bybit_DecodeStreamMessage lib message =
     (case ysl_Envelope lib (ms_Data message) of
        Inl err \<Rightarrow> Inl (Errorf ''decode Bybit stream message: %w'' [] [err])
      | Inr e \<Rightarrow>
          Inr \<lparr>ym_Topic = yev_Topic e, ym_Type = yev_Type e, ym_Timestamp = yev_Timestamp e, ym_CreationTime = yev_CreationTime e,
               ym_Operation = yev_Operation e, ym_RequestID = yev_RequestID e, ym_ConnectionID = yev_ConnectionID e,
               ym_Success = yev_Success e, ym_ReturnMessage = yev_ReturnMessage e, ym_Data = yev_Data e,
               ym_Pong = bybit_is_pong (yev_Operation e) (yev_ReturnMessage e)\<rparr>)"

text \<open>The message handler that \<open>managedStream.run\<close> gives to the session.\<close>

definition bybit_run_handler ::
  "bybit_stream_lib \<Rightarrow> (go_context \<Rightarrow> bybit_StreamMessage \<Rightarrow> 'w \<Rightarrow> go_error option \<times> 'w) \<Rightarrow>
   go_context \<Rightarrow> Message \<Rightarrow> 'w \<Rightarrow> go_error option \<times> 'w" where
  "bybit_run_handler lib handler ctx message w =
     (case bybit_DecodeStreamMessage lib message of
        Inl err \<Rightarrow> (ReconnectOnMessageError (Some err), w)
      | Inr decoded \<Rightarrow> handler ctx decoded w)"

section \<open>Authentication\<close>







section \<open>Pings\<close>

text \<open>\<open>bybitConnection\<close>: the pong channel holds at most one token. \<open>Ping\<close> empties it, writes, and waits for a
  token or the context; \<open>Read\<close> adds a token for a pong frame. The two run concurrently, so a connection goes
  through a sequence of these steps.\<close>

datatype bybit_ping_step =
    PingRead "Message result"
  | PingDrain
  | PingWritten "go_error option"
  | PingAnswered
  | PingExpired go_error

definition bybit_pong_frame :: "bybit_stream_lib \<Rightarrow> Message \<Rightarrow> bool" where
  "bybit_pong_frame lib message \<longleftrightarrow>
     (case ysl_Response lib (ms_Data message) of Inl err \<Rightarrow> False
      | Inr (operation, returnMessage) \<Rightarrow> bybit_is_pong operation returnMessage)"

text \<open>The goroutine of the ping is idle, has emptied the channel, or waits.\<close>

datatype bybit_ping_at = PingIdle | PingDrained | PingWaiting

inductive bybit_ping :: "bybit_stream_lib \<Rightarrow> bybit_ping_at \<times> bool \<Rightarrow> bybit_ping_step \<Rightarrow> bybit_ping_at \<times> bool \<Rightarrow> bool"
  for lib where
  read: "bybit_ping lib (pc, pong) (PingRead (Inr message)) (pc, pong \<or> bybit_pong_frame lib message)"
| read_error: "bybit_ping lib (pc, pong) (PingRead (Inl err)) (pc, pong)"
| drain: "bybit_ping lib (PingIdle, pong) PingDrain (PingDrained, False)"
| written: "bybit_ping lib (PingDrained, pong) (PingWritten None) (PingWaiting, pong)"
| write_error: "bybit_ping lib (PingDrained, pong) (PingWritten (Some err)) (PingIdle, pong)"
| answered: "bybit_ping lib (PingWaiting, True) PingAnswered (PingIdle, False)"
| expired: "bybit_ping lib (PingWaiting, pong) (PingExpired err) (PingIdle, pong)"

inductive_cases bybit_pingE: "bybit_ping lib s step s'"

fun bybit_ping_run :: "bybit_stream_lib \<Rightarrow> bybit_ping_at \<times> bool \<Rightarrow> bybit_ping_step list \<Rightarrow> bybit_ping_at \<times> bool \<Rightarrow> bool" where
  "bybit_ping_run lib s [] s' = (s = s')"
| "bybit_ping_run lib s (step # steps) s' = (\<exists>s1. bybit_ping lib s step s1 \<and> bybit_ping_run lib s1 steps s')"

section \<open>Properties of streams\<close>








section \<open>Properties of the authentication\<close>







section \<open>Properties of pings\<close>

lemma bybit_ping_run_snoc:
  "bybit_ping_run lib s (steps @ [step]) s' \<longleftrightarrow> (\<exists>s1. bybit_ping_run lib s steps s1 \<and> bybit_ping lib s1 step s')"
proof (induction steps arbitrary: s)
  case Nil
  show ?case by (simp del: split_paired_Ex)
next
  case (Cons a steps)
  then show ?case by (simp del: split_paired_Ex) blast
qed

text \<open>While a ping is under way, everything since it emptied the channel.\<close>

definition ping_since :: "bybit_stream_lib \<Rightarrow> bybit_ping_step list \<Rightarrow> bybit_ping_at \<times> bool \<Rightarrow> bool" where
  "ping_since lib steps s \<longleftrightarrow> (case s of (pc, pong) \<Rightarrow> pc = PingIdle \<or>
     (\<exists>before after. steps = before @ PingDrain # after \<and> PingDrain \<notin> set after \<and> PingAnswered \<notin> set after \<and>
        (pc = PingWaiting \<longrightarrow> PingWritten None \<in> set after) \<and>
        (pong \<longrightarrow> (\<exists>m. PingRead (Inr m) \<in> set after \<and> bybit_pong_frame lib m))))"

lemma ping_since_snoc:
  assumes "ping_since lib steps s" "bybit_ping lib s step s'"
  shows "ping_since lib (steps @ [step]) s'"
  using assms(2)
proof (cases rule: bybit_ping.cases)
  case (drain pong)
  have "steps @ [step] = steps @ PingDrain # [] \<and> PingDrain \<notin> set [] \<and> PingAnswered \<notin> set []" using drain by simp
  with drain show ?thesis unfolding ping_since_def by fastforce
next
  case (read pc pong m)
  with assms(1) show ?thesis by (fastforce simp: ping_since_def)
next
  case (read_error pc pong e)
  with assms(1) show ?thesis by (fastforce simp: ping_since_def)
next
  case (written pong)
  with assms(1) show ?thesis by (fastforce simp: ping_since_def)
qed (simp_all add: ping_since_def)

lemma ping_run_since: "bybit_ping_run lib (PingIdle, pong) steps s \<Longrightarrow> ping_since lib steps s"
proof (induction steps arbitrary: s rule: rev_induct)
  case Nil
  then show ?case by (auto simp: ping_since_def)
next
  case (snoc step steps)
  then show ?case using ping_since_snoc unfolding bybit_ping_run_snoc by blast
qed

text \<open>A ping of a Bybit connection succeeds only on a fresh answer: whatever pong frames were read before and however
  reading and pinging interleave, between the moment the ping emptied the channel and its success it
  wrote its frame and a pong frame was read, and no other ping used that answer.\<close>

theorem bybit_ping_answer_fresh:
  assumes "bybit_ping_run lib (PingIdle, pong) (steps @ [PingAnswered]) s"
  shows "\<exists>before after m. steps = before @ PingDrain # after \<and> PingDrain \<notin> set after \<and> PingAnswered \<notin> set after \<and>
     PingWritten None \<in> set after \<and> PingRead (Inr m) \<in> set after \<and> bybit_pong_frame lib m"
proof -
  from assms obtain s1 where run: "bybit_ping_run lib (PingIdle, pong) steps s1" and last: "bybit_ping lib s1 PingAnswered s"
    unfolding bybit_ping_run_snoc by blast
  from last have "s1 = (PingWaiting, True)" by (auto elim: bybit_pingE)
  with ping_run_since [OF run] show ?thesis by (auto simp: ping_since_def)
qed

section \<open>A small instance\<close>

text \<open>The codec is a table: one frame accepts the authentication, one is a pong.\<close>

definition bybit_demo_stream_lib :: bybit_stream_lib where
  "bybit_demo_stream_lib =
     \<lparr>ysl_ParseURL = (\<lambda>s. Inr \<lparr>ul_Scheme = ''wss'', ul_Host = ''h'', ul_Path = ''/p'', ul_User = False, ul_RawQuery = [], ul_Fragment = []\<rparr>),
      ysl_URLString = (\<lambda>u. ul_Scheme u @ ''://'' @ ul_Host u @ ul_Path u), ysl_HMAC = (\<lambda>secret payload. secret),
      ysl_Envelope = (\<lambda>s. Inr \<lparr>yev_Topic = [], yev_Type = [], yev_Timestamp = 0, yev_CreationTime = 0, yev_Operation = ''auth'',
        yev_RequestID = [], yev_ConnectionID = [], yev_Success = Some True, yev_ReturnMessage = [], yev_Data = []\<rparr>),
      ysl_Response = (\<lambda>s. Inr (s, [])), ysl_Operation = (\<lambda>command. Inr []),
      ysl_Auth = (\<lambda>request h. (Inr \<lparr>sl_array = 1, sl_offset = 0, sl_len = 2\<rparr>, h(1 := [5, 5])))\<rparr>"












theorem bybit_ping_answer_fresh_witness:
  "\<exists>m. PingRead (Inr m) \<in> set [PingWritten None, PingRead (Inr \<lparr>ms_Type = MessageText, ms_Data = ''pong''\<rparr>)] \<and>
     bybit_pong_frame bybit_demo_stream_lib m"
proof -
  define steps where "steps = [PingDrain, PingWritten None, PingRead (Inr \<lparr>ms_Type = MessageText, ms_Data = ''pong''\<rparr>)]"
  have pong: "bybit_pong_frame bybit_demo_stream_lib \<lparr>ms_Type = MessageText, ms_Data = ''pong''\<rparr>"
    by (simp add: bybit_pong_frame_def bybit_demo_stream_lib_def bybit_is_pong_def)
  have step: "bybit_ping bybit_demo_stream_lib (PingWaiting, False) (PingRead (Inr \<lparr>ms_Type = MessageText, ms_Data = ''pong''\<rparr>)) (PingWaiting, True)"
    using bybit_ping.read [of bybit_demo_stream_lib PingWaiting False "\<lparr>ms_Type = MessageText, ms_Data = ''pong''\<rparr>"] pong by simp
  have "bybit_ping_run bybit_demo_stream_lib (PingIdle, True) (steps @ [PingAnswered]) (PingIdle, False)"
    unfolding steps_def bybit_ping_run.simps append.simps
    by (rule exI, rule conjI, rule bybit_ping.drain, rule exI, rule conjI, rule bybit_ping.written, rule exI, rule conjI,
        rule step, rule exI, rule conjI, rule bybit_ping.answered, simp)
  from bybit_ping_answer_fresh [OF this] obtain before after m where split: "steps = before @ PingDrain # after" "PingDrain \<notin> set after"
    "PingRead (Inr m) \<in> set after" "bybit_pong_frame bybit_demo_stream_lib m" by blast
  then have "PingRead (Inr m) \<in> set steps" "PingRead (Inr m) \<noteq> PingDrain" by auto
  with split(4) show ?thesis by (auto simp: steps_def)
qed

end
