(* ===== verification/Bybit_Unified.thy ===== *)
theory Bybit_Unified
  imports Bybit_Client Unified_Candles Page_Loops
begin

text \<open>
  The Bybit adapter of the unified Spot API (\<open>exchange/bybit/unified.go\<close>): conversion of requests, orders,
  balances and market data, and the loops that collect pages. The native client is a record of its
  operations; \<open>Bybit_Client\<close> models what they do.
\<close>

section \<open>The native client\<close>

text \<open>What the adapter calls of the native client, with the request options applied.\<close>

record 'w bybit_native =
  nt_Instruments :: "bybit_InstrumentsRequest \<Rightarrow> 'w \<Rightarrow> bybit_Instrument bybit_page result \<times> 'w"
  nt_Tickers :: "bybit_TickersRequest \<Rightarrow> 'w \<Rightarrow> bybit_Ticker list result \<times> 'w"
  nt_OrderBook :: "bybit_OrderBookRequest \<Rightarrow> 'w \<Rightarrow> bybit_OrderBookSnapshot result \<times> 'w"
  nt_RecentTrades :: "bybit_RecentTradesRequest \<Rightarrow> 'w \<Rightarrow> bybit_PublicTrade list result \<times> 'w"
  nt_Candles :: "bybit_CandlesRequest \<Rightarrow> 'w \<Rightarrow> bybit_Candle list result \<times> 'w"
  nt_WalletBalance :: "bybit_WalletBalanceRequest \<Rightarrow> 'w \<Rightarrow> bybit_WalletAccount list result \<times> 'w"
  nt_PlaceOrder :: "bybit_PlaceOrderRequest \<Rightarrow> 'w \<Rightarrow> bybit_OrderReference result \<times> 'w"
  nt_CancelOrder :: "bybit_CancelOrderRequest \<Rightarrow> 'w \<Rightarrow> bybit_OrderReference result \<times> 'w"
  nt_OrderInfo :: "bybit_OrderInfoRequest \<Rightarrow> 'w \<Rightarrow> bybit_Order result \<times> 'w"
  nt_OpenOrders :: "bybit_OpenOrdersRequest \<Rightarrow> 'w \<Rightarrow> bybit_Order bybit_page result \<times> 'w"

section \<open>Conversions\<close>

definition bybitSpotSymbol :: "Market \<Rightarrow> string" where
  "bybitSpotSymbol market = mk_Base market @ mk_Quote market"

definition toBybitCandleInterval :: "CandleInterval \<Rightarrow> string" where
  "toBybitCandleInterval v =
     (if v = ''1m'' then ''1'' else if v = ''3m'' then ''3'' else if v = ''5m'' then ''5'' else if v = ''15m'' then ''15''
      else if v = ''30m'' then ''30'' else if v = ''1h'' then ''60'' else if v = ''4h'' then ''240'' else [])"

definition toBybitSide :: "Side \<Rightarrow> string" where
  "toBybitSide side = (if side = SideBuy then bybit_SideBuy else bybit_SideSell)"

definition toBybitOrderType :: "OrderType \<Rightarrow> string" where
  "toBybitOrderType orderType = (if orderType = OrderTypeMarket then bybit_OrderTypeMarket else bybit_OrderTypeLimit)"

definition toBybitTimeInForce :: "TimeInForce \<Rightarrow> string" where
  "toBybitTimeInForce v =
     (if v = TimeInForceGTC then bybit_GTC else if v = TimeInForceIOC then bybit_IOC
      else if v = TimeInForceFOK then bybit_FOK else if v = TimeInForcePostOnly then bybit_PostOnly else [])"

definition toUnifiedBybitSide :: "string \<Rightarrow> Side" where
  "toUnifiedBybitSide side = (if side = bybit_SideBuy then SideBuy else SideSell)"

definition toUnifiedBybitOrderType :: "string \<Rightarrow> OrderType" where
  "toUnifiedBybitOrderType orderType = (if orderType = bybit_OrderTypeMarket then OrderTypeMarket else OrderTypeLimit)"

definition toUnifiedBybitStatus :: "string \<Rightarrow> OrderStatus" where
  "toUnifiedBybitStatus status =
     (if status \<in> set [''New'', ''Untriggered'', ''Triggered'', ''Created''] then OrderStatusNew
      else if status = ''PartiallyFilled'' then OrderStatusPartiallyFilled
      else if status = ''Filled'' then OrderStatusFilled
      else if status \<in> set [''Cancelled'', ''PartiallyFilledCanceled'', ''Deactivated''] then OrderStatusCanceled
      else if status = ''Rejected'' then OrderStatusRejected
      else OrderStatusUnknown)"

definition fromBybitOrder :: "bybit_Order \<Rightarrow> Market \<Rightarrow> Order" where
  "fromBybitOrder native market =
     (let (quantity, quoteAmount) =
            (if yod_OrderType native = bybit_OrderTypeMarket \<and> yod_Side native = bybit_SideBuy
             then ([], yod_Quantity native) else (yod_Quantity native, []))
      in \<lparr>od_Exchange = ExchangeBybit, od_ID = yod_OrderID native, od_ClientOrderID = yod_OrderLinkID native,
          od_Market = market, od_NativeMarket = yod_Symbol native, od_Side = toUnifiedBybitSide (yod_Side native),
          od_Type = toUnifiedBybitOrderType (yod_OrderType native), od_Status = toUnifiedBybitStatus (yod_OrderStatus native),
          od_Price = yod_Price native, od_Quantity = quantity, od_QuoteAmount = quoteAmount,
          od_ExecutedQuantity = yod_CumulativeExecutedQuantity native\<rparr>)"

fun fromBybitBookLevels :: "string list list \<Rightarrow> BookLevel list result" where
  "fromBybitBookLevels [] = Inr []"
| "fromBybitBookLevels (level # rest) =
     (if length level < 2
      then Inl (Errorf ''Bybit order book level has %d fields, want at least 2'' [IntArg (int (length level))] [])
      else case fromBybitBookLevels rest of
             Inl err \<Rightarrow> Inl err
           | Inr levels \<Rightarrow> Inr (\<lparr>bl_Price = level ! 0, bl_Quantity = level ! 1\<rparr> # levels))"

text \<open>The first loop of \<open>subtractBybitDecimals\<close>: the integers and scales of the values.\<close>

fun bybit_parse_decimals :: "string list \<Rightarrow> (nat \<times> nat) list result" where
  "bybit_parse_decimals [] = Inr []"
| "bybit_parse_decimals (val # rest) =
     (let val = (if val = [] then ''0'' else val)
      in if \<not> positiveDecimalPattern val then Inl (Errorf ''invalid decimal %q'' [StrArg val] [])
         else case Cut val CHR ''.'' of
           (whole, fraction) \<Rightarrow>
             (case bybit_parse_decimals rest of
                Inl err \<Rightarrow> Inl err
              | Inr parsed \<Rightarrow> Inr ((dec_value (whole @ fraction), length fraction) # parsed)))"

text \<open>Its last part: the digits of the difference with the point put in.\<close>

definition bybit_render :: "nat \<Rightarrow> nat \<Rightarrow> string" where
  "bybit_render res maximumScale =
     (let digits = nat_str res
      in if maximumScale = 0 then digits
         else
           let digits = (if length digits \<le> maximumScale
                         then replicate (maximumScale - length digits + 1) CHR ''0'' @ digits else digits);
               position = length digits - maximumScale
           in take position digits @ CHR ''.'' # drop position digits)"

definition subtractBybitDecimals :: "string \<Rightarrow> string list \<Rightarrow> string result" where
  "subtractBybitDecimals minuend subtrahends =
     (case bybit_parse_decimals (minuend # subtrahends) of
        Inl err \<Rightarrow> Inl err
      | Inr parsed \<Rightarrow>
          let maximumScale = Max (insert 0 (snd ` set parsed));
              integers = map (\<lambda>(n, k). int n * 10 ^ (maximumScale - k)) parsed;
              res = hd integers - sum_list (tl integers)
          in if res < 0 then Inl (errorText ''available balance is negative'')
             else Inr (bybit_render (nat res) maximumScale))"

definition bybitSpotAvailable :: "bybit_WalletCoin \<Rightarrow> string result" where
  "bybitSpotAvailable coin =
     (case subtractBybitDecimals (ywc_WalletBalance coin) [ywc_SpotBorrow coin, ywc_Locked coin] of
        Inl err \<Rightarrow> Inl (Errorf ''calculate Bybit available balance for %s: %w'' [StrArg (ywc_Coin coin)] [err])
      | Inr available \<Rightarrow> Inr available)"

section \<open>Operations\<close>

text \<open>\<open>strconv.ParseInt\<close> in base 10 with 64 bits is \<open>Atoi\<close>; its error is a foreign one.\<close>

definition bybit_ParseInt :: "string \<Rightarrow> int result" where
  "bybit_ParseInt s = (case Atoi s of Some n \<Rightarrow> Inr n | None \<Rightarrow> Inl (ForeignError ''strconv.ParseInt''))"

definition bybit_market_info :: "bybit_Instrument \<Rightarrow> MarketInfo" where
  "bybit_market_info instrument =
     \<lparr>mi_Exchange = ExchangeBybit, mi_Market = \<lparr>mk_Base = yit_BaseCoin instrument, mk_Quote = yit_QuoteCoin instrument\<rparr>,
      mi_NativeMarket = yit_Symbol instrument, mi_Status = yit_Status instrument,
      mi_PriceIncrement = ypf_TickSize (yit_PriceFilter instrument),
      mi_QuantityIncrement = ylf_QuantityStep (yit_LotSizeFilter instrument), mi_QuoteAmountIncrement = [],
      mi_MinimumBaseQuantity = ylf_MinimumOrderQuantity (yit_LotSizeFilter instrument),
      mi_MinimumQuoteAmount = ylf_MinimumNotionalValue (yit_LotSizeFilter instrument)\<rparr>"

text \<open>The loop that \<open>Markets\<close> and \<open>OpenOrders\<close> share: a page names the cursor of the next one, and the last page has
  an empty one.\<close>

definition bybit_follow :: "'a bybit_page \<Rightarrow> string option result" where
  "bybit_follow page = Inr (if ypg_NextPageCursor page = [] then None else Some (ypg_NextPageCursor page))"

definition bybit_page_loop ::
  "(string \<Rightarrow> 'w \<Rightarrow> 'a bybit_page result \<times> 'w) \<Rightarrow> ('a \<Rightarrow> 'b) \<Rightarrow> string \<Rightarrow> string \<Rightarrow> string set \<Rightarrow> 'b list \<Rightarrow> 'w \<Rightarrow>
   ('b list result \<times> 'w) option" where
  "bybit_page_loop fetch convert repeated =
     page_loop fetch (\<lambda>page. Inr (map convert (ypg_Items page))) bybit_follow repeated"

definition bybit_Markets :: "'w bybit_native \<Rightarrow> 'w \<Rightarrow> (MarketInfo list result \<times> 'w) option" where
  "bybit_Markets client w =
     bybit_page_loop
       (\<lambda>cursor. nt_Instruments client \<lparr>yin_Category = CategorySpot, yin_Symbol = [], yin_BaseCoin = [], yin_Status = [],
          yin_Limit = 1000, yin_Cursor = cursor\<rparr>)
       bybit_market_info ''Bybit instruments returned a repeated cursor'' [] {} [] w"

definition bybit_unified_Ticker :: "'w bybit_native \<Rightarrow> TickerRequest \<Rightarrow> 'w \<Rightarrow> Ticker result \<times> 'w" where
  "bybit_unified_Ticker client request w =
     (case TickerRequest_Validate request of
        Some err \<Rightarrow> (Inl err, w)
      | None \<Rightarrow>
          (case nt_Tickers client \<lparr>yti_Category = CategorySpot, yti_Symbol = bybitSpotSymbol (tr_Market request)\<rparr> w of
             (Inl err, w) \<Rightarrow> (Inl err, w)
           | (Inr native, w) \<Rightarrow>
               if length native \<noteq> 1
               then (Inl (Errorf ''Bybit ticker response has %d items, want 1'' [IntArg (int (length native))] []), w)
               else (Inr \<lparr>tk_Exchange = ExchangeBybit, tk_Market = tr_Market request,
                          tk_NativeMarket = ytk_Symbol (hd native), tk_Price = ytk_LastPrice (hd native)\<rparr>, w)))"

definition bybit_unified_OrderBook :: "'w bybit_native \<Rightarrow> OrderBookRequest \<Rightarrow> 'w \<Rightarrow> OrderBook result \<times> 'w" where
  "bybit_unified_OrderBook client request w =
     (case OrderBookRequest_Validate request of
        Some err \<Rightarrow> (Inl err, w)
      | None \<Rightarrow>
          (case nt_OrderBook client \<lparr>yor_Category = CategorySpot, yor_Symbol = bybitSpotSymbol (obr_Market request),
                  yor_Limit = obr_Limit request\<rparr> w of
             (Inl err, w) \<Rightarrow> (Inl err, w)
           | (Inr native, w) \<Rightarrow>
               (case fromBybitBookLevels (ybs_Bids native) of
                  Inl err \<Rightarrow> (Inl err, w)
                | Inr bids \<Rightarrow>
                    (case fromBybitBookLevels (ybs_Asks native) of
                       Inl err \<Rightarrow> (Inl err, w)
                     | Inr asks \<Rightarrow>
                         (Inr \<lparr>bo_Exchange = ExchangeBybit, bo_Market = obr_Market request, bo_NativeMarket = ybs_Symbol native,
                               bo_Bids = bids, bo_Asks = asks, bo_Timestamp = ybs_Timestamp native\<rparr>, w)))))"

fun bybit_public_trades :: "bybit_PublicTrade list \<Rightarrow> PublicTrade list result" where
  "bybit_public_trades [] = Inr []"
| "bybit_public_trades (item # rest) =
     (case bybit_ParseInt (ypt_Timestamp item) of
        Inl err \<Rightarrow> Inl (Errorf ''decode Bybit trade timestamp: %w'' [] [err])
      | Inr timestamp \<Rightarrow>
          (case bybit_public_trades rest of
             Inl err \<Rightarrow> Inl err
           | Inr trades \<Rightarrow>
               Inr (\<lparr>pt_ID = ypt_ExecutionID item, pt_Price = ypt_Price item, pt_Quantity = ypt_Quantity item,
                     pt_Side = toUnifiedBybitSide (ypt_Side item), pt_Timestamp = timestamp\<rparr> # trades)))"

definition bybit_unified_RecentTrades ::
  "'w bybit_native \<Rightarrow> RecentTradesRequest \<Rightarrow> 'w \<Rightarrow> PublicTrade list result \<times> 'w" where
  "bybit_unified_RecentTrades client request w =
     (case RecentTradesRequest_Validate request of
        Some err \<Rightarrow> (Inl err, w)
      | None \<Rightarrow>
          (case nt_RecentTrades client \<lparr>yrt_Category = CategorySpot, yrt_Symbol = bybitSpotSymbol (rtr_Market request),
                  yrt_Limit = rtr_Limit request\<rparr> w of
             (Inl err, w) \<Rightarrow> (Inl err, w)
           | (Inr native, w) \<Rightarrow> (bybit_public_trades native, w)))"

fun bybit_unified_candles :: "bybit_Candle list \<Rightarrow> Candle list result" where
  "bybit_unified_candles [] = Inr []"
| "bybit_unified_candles (item # rest) =
     (case bybit_ParseInt (ycd_StartTime item) of
        Inl err \<Rightarrow> Inl (Errorf ''decode Bybit candle timestamp: %w'' [] [err])
      | Inr startTime \<Rightarrow>
          (case bybit_unified_candles rest of
             Inl err \<Rightarrow> Inl err
           | Inr candles \<Rightarrow>
               Inr (\<lparr>cd_StartTime = startTime, cd_Open = ycd_Open item, cd_High = ycd_High item, cd_Low = ycd_Low item,
                     cd_Close = ycd_Close item, cd_Volume = ycd_Volume item\<rparr> # candles)))"

definition bybit_unified_Candles :: "'w bybit_native \<Rightarrow> CandlesRequest \<Rightarrow> 'w \<Rightarrow> Candle list result \<times> 'w" where
  "bybit_unified_Candles client request w =
     (case CandlesRequest_Validate request of
        Some err \<Rightarrow> (Inl err, w)
      | None \<Rightarrow>
          (case nt_Candles client \<lparr>ycr_Category = CategorySpot, ycr_Symbol = bybitSpotSymbol (cr_Market request),
                  ycr_Interval = toBybitCandleInterval (cr_Interval request), ycr_StartTime = None, ycr_EndTime = None,
                  ycr_Limit = cr_Limit request\<rparr> w of
             (Inl err, w) \<Rightarrow> (Inl err, w)
           | (Inr native, w) \<Rightarrow> (bybit_unified_candles native, w)))"

fun bybit_balances :: "bybit_WalletCoin list \<Rightarrow> Balance list result" where
  "bybit_balances [] = Inr []"
| "bybit_balances (coin # rest) =
     (case bybitSpotAvailable coin of
        Inl err \<Rightarrow> Inl err
      | Inr available \<Rightarrow>
          (case bybit_balances rest of
             Inl err \<Rightarrow> Inl err
           | Inr balances \<Rightarrow>
               Inr (\<lparr>ba_Asset = ywc_Coin coin, ba_Available = available, ba_Locked = ywc_Locked coin\<rparr> # balances)))"

definition bybit_unified_Balances :: "'w bybit_native \<Rightarrow> 'w \<Rightarrow> Balance list result \<times> 'w" where
  "bybit_unified_Balances client w =
     (case nt_WalletBalance client \<lparr>ywb_AccountType = AccountTypeUnified, ywb_Coins = []\<rparr> w of
        (Inl err, w) \<Rightarrow> (Inl err, w)
      | (Inr accounts, w) \<Rightarrow> (bybit_balances (concat (map ywa_Coins accounts)), w))"

text \<open>The native request of a unified order.\<close>

definition bybit_nativeRequest :: "PlaceOrderRequest \<Rightarrow> bybit_PlaceOrderRequest" where
  "bybit_nativeRequest request =
     (let native = \<lparr>ypo_Category = CategorySpot, ypo_Symbol = bybitSpotSymbol (po_Market request),
            ypo_Side = toBybitSide (po_Side request), ypo_OrderType = toBybitOrderType (po_Type request),
            ypo_Quantity = [], ypo_Price = [], ypo_TimeInForce = [], ypo_PositionIndex = 0,
            ypo_OrderLinkID = po_ClientOrderID request, ypo_ReduceOnly = False, ypo_CloseOnTrigger = False,
            ypo_MarketUnit = []\<rparr>
      in if po_Type request = OrderTypeLimit then
           let timeInForce = toBybitTimeInForce (po_TimeInForce request)
           in native\<lparr>ypo_Quantity := po_Quantity request, ypo_Price := po_Price request,
                     ypo_TimeInForce := (if timeInForce = [] then bybit_GTC else timeInForce)\<rparr>
         else if po_Side request = SideBuy then
           native\<lparr>ypo_Quantity := po_QuoteAmount request, ypo_MarketUnit := MarketUnitQuoteCoin\<rparr>
         else native\<lparr>ypo_Quantity := po_Quantity request, ypo_MarketUnit := MarketUnitBaseCoin\<rparr>)"

definition bybit_unified_PlaceOrder :: "'w bybit_native \<Rightarrow> PlaceOrderRequest \<Rightarrow> 'w \<Rightarrow> Order result \<times> 'w" where
  "bybit_unified_PlaceOrder client request w =
     (case PlaceOrderRequest_Validate request of
        Some err \<Rightarrow> (Inl err, w)
      | None \<Rightarrow>
          (case nt_PlaceOrder client (bybit_nativeRequest request) w of
             (Inl err, w) \<Rightarrow> (Inl err, w)
           | (Inr reference, w) \<Rightarrow>
               (Inr \<lparr>od_Exchange = ExchangeBybit, od_ID = yrf_OrderID reference, od_ClientOrderID = yrf_OrderLinkID reference,
                     od_Market = po_Market request, od_NativeMarket = ypo_Symbol (bybit_nativeRequest request),
                     od_Side = po_Side request, od_Type = po_Type request, od_Status = OrderStatusAcknowledged,
                     od_Price = po_Price request, od_Quantity = po_Quantity request,
                     od_QuoteAmount = po_QuoteAmount request, od_ExecutedQuantity = []\<rparr>, w)))"

definition bybit_unified_Order :: "'w bybit_native \<Rightarrow> OrderRequest \<Rightarrow> 'w \<Rightarrow> Order result \<times> 'w" where
  "bybit_unified_Order client request w =
     (case OrderRequest_Validate request of
        Some err \<Rightarrow> (Inl err, w)
      | None \<Rightarrow>
          (case nt_OrderInfo client \<lparr>yoi_Category = CategorySpot, yoi_Symbol = bybitSpotSymbol (or_Market request),
                  yoi_OrderID = or_OrderID request, yoi_OrderLinkID = or_ClientOrderID request\<rparr> w of
             (Inl err, w) \<Rightarrow> (Inl err, w)
           | (Inr native, w) \<Rightarrow> (Inr (fromBybitOrder native (or_Market request)), w)))"

definition bybit_unified_CancelOrder :: "'w bybit_native \<Rightarrow> OrderRequest \<Rightarrow> 'w \<Rightarrow> Order result \<times> 'w" where
  "bybit_unified_CancelOrder client request w =
     (case OrderRequest_Validate request of
        Some err \<Rightarrow> (Inl err, w)
      | None \<Rightarrow>
          (case nt_CancelOrder client \<lparr>yco_Category = CategorySpot, yco_Symbol = bybitSpotSymbol (or_Market request),
                  yco_OrderID = or_OrderID request, yco_OrderLinkID = or_ClientOrderID request\<rparr> w of
             (Inl err, w) \<Rightarrow> (Inl err, w)
           | (Inr reference, w) \<Rightarrow>
               (Inr \<lparr>od_Exchange = ExchangeBybit, od_ID = yrf_OrderID reference, od_ClientOrderID = yrf_OrderLinkID reference,
                     od_Market = or_Market request, od_NativeMarket = bybitSpotSymbol (or_Market request),
                     od_Side = [], od_Type = [], od_Status = OrderStatusCancelPending, od_Price = [], od_Quantity = [],
                     od_QuoteAmount = [], od_ExecutedQuantity = []\<rparr>, w)))"


section \<open>Orders\<close>



lemma toBybitTimeInForce_Nil [simp]: "toBybitTimeInForce [] = []"
  by (simp add: toBybitTimeInForce_def)



definition bybit_demo_order :: PlaceOrderRequest where
  "bybit_demo_order = \<lparr>po_Market = \<lparr>mk_Base = ''BTC'', mk_Quote = ''USDT''\<rparr>, po_Side = SideBuy, po_Type = OrderTypeMarket,
     po_TimeInForce = [], po_Quantity = [], po_QuoteAmount = ''25'', po_Price = [], po_ClientOrderID = ''id-1''\<rparr>"

lemma bybit_demo_order_valid: "PlaceOrderRequest_Validate bybit_demo_order = None"
  using TrimSpace_visible [of "''id-1''"]
  by (simp add: bybit_demo_order_def PlaceOrderRequest_Validate_None Market_Validate_None assetPattern_def upper_char_def
      validate_market_None visible_char_def positiveDecimalPattern_def digit_char_def decimal_value_int dec_value_Cons digit_val_def)


text \<open>What the exchange reports of an order that was placed.\<close>

definition bybit_echoes :: "bybit_PlaceOrderRequest \<Rightarrow> bybit_Order \<Rightarrow> bool" where
  "bybit_echoes native reported \<longleftrightarrow> yod_OrderLinkID reported = ypo_OrderLinkID native \<and> yod_Symbol reported = ypo_Symbol native \<and>
     yod_Side reported = ypo_Side native \<and> yod_OrderType reported = ypo_OrderType native \<and>
     yod_Price reported = ypo_Price native \<and> yod_Quantity reported = ypo_Quantity native"

text \<open>Reading a placed order back gives the order that was placed: if the exchange reports the fields of the
  native order, the unified order has the client order ID, side, type, price, quantity and quote amount
  of the unified request.\<close>

theorem bybit_order_roundtrip:
  assumes "PlaceOrderRequest_Validate r = None" "bybit_echoes (bybit_nativeRequest r) reported"
  shows "let o1 = fromBybitOrder reported (po_Market r) in
     od_ClientOrderID o1 = po_ClientOrderID r \<and> od_Side o1 = po_Side r \<and> od_Type o1 = po_Type r \<and> od_Price o1 = po_Price r \<and>
     od_Quantity o1 = po_Quantity r \<and> od_QuoteAmount o1 = po_QuoteAmount r \<and> od_Market o1 = po_Market r \<and>
     od_NativeMarket o1 = mk_Base (po_Market r) @ mk_Quote (po_Market r)"
proof -
  have side: "po_Side r = SideBuy \<or> po_Side r = SideSell"
    using assms(1) by (simp add: PlaceOrderRequest_Validate_None)
  consider (limit) "po_Type r = OrderTypeLimit" "validate_limit r = None"
    | (market) "po_Type r = OrderTypeMarket" "validate_market r = None"
    using assms(1) by (auto simp: PlaceOrderRequest_Validate_None)
  then show ?thesis using side assms(2)
    by cases (auto simp: bybit_echoes_def fromBybitOrder_def bybit_nativeRequest_def toBybitSide_def toBybitOrderType_def Let_def
        toUnifiedBybitSide_def toUnifiedBybitOrderType_def bybitSpotSymbol_def validate_limit_None validate_market_None)
qed

definition bybit_demo_report :: bybit_Order where
  "bybit_demo_report = \<lparr>yod_OrderID = ''7'', yod_OrderLinkID = ''id-1'', yod_Symbol = ''BTCUSDT'', yod_Side = ''Buy'',
     yod_OrderType = ''Market'', yod_Price = [], yod_Quantity = ''25'', yod_TimeInForce = ''IOC'', yod_OrderStatus = ''Filled'',
     yod_AveragePrice = ''25'', yod_CumulativeExecutedQuantity = ''1'', yod_CumulativeExecutedValue = ''25'',
     yod_CumulativeExecutionFee = ''0'', yod_LeavesQuantity = ''0'', yod_LeavesValue = ''0'', yod_ReduceOnly = False,
     yod_CloseOnTrigger = False, yod_PositionIndex = 0, yod_CreatedTime = ''1'', yod_UpdatedTime = ''2''\<rparr>"

theorem bybit_order_roundtrip_witness:
  "od_QuoteAmount (fromBybitOrder bybit_demo_report (po_Market bybit_demo_order)) = ''25''"
proof -
  have "bybit_echoes (bybit_nativeRequest bybit_demo_order) bybit_demo_report"
    by (simp add: bybit_echoes_def bybit_demo_report_def bybit_demo_order_def bybit_nativeRequest_def toBybitSide_def
        toBybitOrderType_def bybitSpotSymbol_def)
  from bybit_order_roundtrip [OF bybit_demo_order_valid this] show ?thesis
    by (simp add: Let_def bybit_demo_order_def)
qed

section \<open>Balances\<close>

definition bybit_amount :: "string \<Rightarrow> rat" where
  "bybit_amount s = (if s = [] then 0 else decimal_value s)"

definition bybit_amount_ok :: "string \<Rightarrow> bool" where
  "bybit_amount_ok s \<longleftrightarrow> s = [] \<or> positiveDecimalPattern s"

lemma bybit_parse_decimals_Inr:
  "bybit_parse_decimals vs = Inr parsed \<Longrightarrow> list_all bybit_amount_ok vs \<and> length parsed = length vs \<and>
     map (\<lambda>(n, k). of_nat n / 10 ^ k) parsed = map bybit_amount vs"
proof (induction vs arbitrary: parsed)
  case (Cons v vs)
  let ?v = "if v = [] then ''0'' else v"
  from Cons.prems obtain rest where ok: "positiveDecimalPattern ?v" "bybit_parse_decimals vs = Inr rest"
    "parsed = (dec_value (fst (Cut ?v CHR ''.'') @ snd (Cut ?v CHR ''.'')), length (snd (Cut ?v CHR ''.''))) # rest"
    by (auto simp: Let_def split: if_splits prod.splits sum.splits)
  then have "parseScaledDecimal ?v = Inr \<lparr>sd_integer = fst (hd parsed), sd_scale = snd (hd parsed)\<rparr>"
    unfolding parseScaledDecimal_value by simp
  from parseScaledDecimal_sd_value [OF this] have "of_nat (fst (hd parsed)) / 10 ^ snd (hd parsed) = decimal_value ?v"
    by (simp add: sd_value_def)
  moreover have "decimal_value ''0'' = 0" by (simp add: decimal_value_int digit_char_def dec_value_Cons digit_val_def)
  ultimately show ?case using Cons.IH [OF ok(2)] ok(1,3) by (auto simp: bybit_amount_def bybit_amount_ok_def)
qed simp

lemma bybit_parse_decimals_total: "list_all bybit_amount_ok vs \<Longrightarrow> \<exists>parsed. bybit_parse_decimals vs = Inr parsed"
  by (induction vs) (auto simp: bybit_amount_ok_def Let_def split: prod.splits)

lemma bybit_scaled: "k \<le> m \<Longrightarrow> (of_int (int n * 10 ^ (m - k)) :: rat) = of_nat n / 10 ^ k * 10 ^ m"
  by (simp add: field_simps flip: power_add)

lemma bybit_render_eq: "bybit_render n k = scaledDecimal_String \<lparr>sd_integer = n, sd_scale = k\<rparr>"
  by (simp only: bybit_render_def scaledDecimal_String_def scaledDecimal.select_convs)

lemma of_int_sum_scaled:
  fixes c :: rat
  assumes "\<And>x. x \<in> set xs \<Longrightarrow> of_int (f x) = g x * c"
  shows "of_int (sum_list (map f xs)) = sum_list (map g xs) * c"
  using assms by (induction xs) (simp_all add: distrib_right)

lemma subtractBybitDecimals_scaled:
  assumes "bybit_parse_decimals (minuend # subtrahends) = Inr parsed"
  defines "m \<equiv> Max (insert 0 (snd ` set parsed))"
  defines "res \<equiv> hd (map (\<lambda>(n, k). int n * 10 ^ (m - k)) parsed) - sum_list (tl (map (\<lambda>(n, k). int n * 10 ^ (m - k)) parsed))"
  shows "of_int res = (bybit_amount minuend - sum_list (map bybit_amount subtrahends)) * 10 ^ m"
    "subtractBybitDecimals minuend subtrahends =
      (if res < 0 then Inl (errorText ''available balance is negative'')
       else Inr (scaledDecimal_String \<lparr>sd_integer = nat res, sd_scale = m\<rparr>))"
proof -
  obtain p ps where parsed: "parsed = p # ps" using bybit_parse_decimals_Inr [OF assms(1)] by (cases parsed) auto
  let ?int = "\<lambda>(n, k). int n * 10 ^ (m - k)"
  have le: "snd x \<le> m" if "x \<in> set parsed" for x unfolding m_def using that by (intro Max_ge) auto
  have scaled: "of_int (?int x) = (case x of (n, k) \<Rightarrow> of_nat n / 10 ^ k) * (10 ^ m :: rat)" if "x \<in> set parsed" for x
    using le [OF that] bybit_scaled by (cases x) simp
  have amounts: "map (\<lambda>(n, k). of_nat n / 10 ^ k :: rat) parsed = bybit_amount minuend # map bybit_amount subtrahends"
    using bybit_parse_decimals_Inr [OF assms(1)] by simp
  have "of_int (sum_list (map ?int ps)) = sum_list (map (\<lambda>(n, k). of_nat n / 10 ^ k) ps) * (10 ^ m :: rat)"
    by (rule of_int_sum_scaled) (use scaled parsed in auto)
  also have "\<dots> = sum_list (map bybit_amount subtrahends) * 10 ^ m"
    using amounts parsed by simp
  finally show "of_int res = (bybit_amount minuend - sum_list (map bybit_amount subtrahends)) * 10 ^ m"
    using scaled [of p] amounts parsed by (simp add: res_def left_diff_distrib)
  show "subtractBybitDecimals minuend subtrahends =
      (if res < 0 then Inl (errorText ''available balance is negative'')
       else Inr (scaledDecimal_String \<lparr>sd_integer = nat res, sd_scale = m\<rparr>))"
    unfolding subtractBybitDecimals_def assms(1) sum.case Let_def m_def [symmetric] res_def [symmetric] bybit_render_eq ..
qed

text \<open>The available balance of a coin is exact: it is computed precisely when the wallet balance, the borrowed
  and the locked amount are decimals (an absent one counts as zero) and the first covers the other two,
  and then it is a well-formed decimal equal to wallet balance minus borrowed minus locked.\<close>

theorem bybitSpotAvailable_exact:
  "((\<exists>s. bybitSpotAvailable coin = Inr s) \<longleftrightarrow>
      bybit_amount_ok (ywc_WalletBalance coin) \<and> bybit_amount_ok (ywc_SpotBorrow coin) \<and> bybit_amount_ok (ywc_Locked coin) \<and>
      bybit_amount (ywc_SpotBorrow coin) + bybit_amount (ywc_Locked coin) \<le> bybit_amount (ywc_WalletBalance coin)) \<and>
   (case bybitSpotAvailable coin of
      Inr s \<Rightarrow> positiveDecimalPattern s \<and>
        decimal_value s = bybit_amount (ywc_WalletBalance coin) - bybit_amount (ywc_SpotBorrow coin) - bybit_amount (ywc_Locked coin)
    | Inl err \<Rightarrow> True)"
proof (cases "bybit_parse_decimals [ywc_WalletBalance coin, ywc_SpotBorrow coin, ywc_Locked coin]")
  case (Inl err)
  then have "\<not> list_all bybit_amount_ok [ywc_WalletBalance coin, ywc_SpotBorrow coin, ywc_Locked coin]"
    using bybit_parse_decimals_total by fastforce
  moreover have "bybitSpotAvailable coin = Inl (Errorf ''calculate Bybit available balance for %s: %w'' [StrArg (ywc_Coin coin)] [err])"
    using Inl by (simp add: bybitSpotAvailable_def subtractBybitDecimals_def)
  ultimately show ?thesis by auto
next
  case (Inr parsed)
  have ok: "bybit_amount_ok (ywc_WalletBalance coin)" "bybit_amount_ok (ywc_SpotBorrow coin)" "bybit_amount_ok (ywc_Locked coin)"
    using bybit_parse_decimals_Inr [OF Inr] by simp_all
  obtain res m where eq: "of_int res = (bybit_amount (ywc_WalletBalance coin) -
        sum_list (map bybit_amount [ywc_SpotBorrow coin, ywc_Locked coin])) * 10 ^ m"
    and run: "subtractBybitDecimals (ywc_WalletBalance coin) [ywc_SpotBorrow coin, ywc_Locked coin] =
      (if res < 0 then Inl (errorText ''available balance is negative'')
       else Inr (scaledDecimal_String \<lparr>sd_integer = nat res, sd_scale = m\<rparr>))"
    using subtractBybitDecimals_scaled [OF Inr] by blast
  let ?d = "bybit_amount (ywc_WalletBalance coin) - bybit_amount (ywc_SpotBorrow coin) - bybit_amount (ywc_Locked coin)"
  have scaled: "of_int res = ?d * (10 ^ m :: rat)" using eq by (simp add: algebra_simps)
  have "res < 0 \<longleftrightarrow> (of_int res :: rat) < 0" by simp
  also have "\<dots> \<longleftrightarrow> ?d < 0" unfolding scaled by (simp add: mult_less_0_iff)
  finally have sign: "res < 0 \<longleftrightarrow> ?d < 0" .
  show ?thesis
  proof (cases "res < 0")
    case True
    then show ?thesis using sign run by (auto simp: bybitSpotAvailable_def)
  next
    case False
    have "sd_value \<lparr>sd_integer = nat res, sd_scale = m\<rparr> = ?d"
      using False scaled by (simp add: sd_value_def)
    with scaledDecimal_String_value [of "\<lparr>sd_integer = nat res, sd_scale = m\<rparr>"] False sign run ok show ?thesis
      by (auto simp: bybitSpotAvailable_def)
  qed
qed

section \<open>Pages\<close>







end
