(* ===== verification/Bybit_Endpoints.thy ===== *)
theory Bybit_Endpoints
  imports Bybit_Client Bybit_Unified
begin

text \<open>
  The operations of the Bybit client (\<open>exchange/bybit/market.go\<close>, \<open>account.go\<close>, \<open>orders.go\<close>): each validates
  its request, runs a public or signed call and decodes the result. \<open>bybit_native_client\<close> is the client as
  the unified adapter uses it. The JSON codec is the record \<open>bybit_json\<close>; a list of raw items is decoded
  item by item as in the code. The time of a response is in nanoseconds.
\<close>

section \<open>Codec\<close>

record bybit_json =
  yj_PlaceOrder :: "bybit_PlaceOrderRequest \<Rightarrow> string result"
  yj_CancelOrder :: "bybit_CancelOrderRequest \<Rightarrow> string result"
  yj_Page :: "string \<Rightarrow> (Category \<times> string list \<times> string) result"
  yj_PositionPage :: "string \<Rightarrow> (string list \<times> string) result"
  yj_List :: "string \<Rightarrow> string list result"
  yj_Instrument :: "string \<Rightarrow> bybit_Instrument result"
  yj_Ticker :: "string \<Rightarrow> bybit_Ticker result"
  yj_OrderBook :: "string \<Rightarrow> bybit_OrderBookSnapshot result"
  yj_PublicTrade :: "string \<Rightarrow> bybit_PublicTrade result"
  yj_Candles :: "string \<Rightarrow> bybit_Candle list result"
  yj_WalletAccount :: "string \<Rightarrow> bybit_WalletAccount result"
  yj_Position :: "string \<Rightarrow> bybit_Position result"
  yj_Order :: "string \<Rightarrow> bybit_Order result"
  yj_OrderReference :: "string \<Rightarrow> bybit_OrderReference result"

text \<open>\<open>encodeBody\<close>, and the loop that decodes raw items.\<close>

definition bybit_encodeBody :: "string result \<Rightarrow> string result" where
  "bybit_encodeBody marshalled =
     (case marshalled of
        Inl err \<Rightarrow> Inl (Errorf ''encode Bybit JSON request: %w'' [] [err])
      | Inr body \<Rightarrow> Inr body)"

fun bybit_decodeItems :: "(string \<Rightarrow> 'a result) \<Rightarrow> string list \<Rightarrow> 'a list result" where
  "bybit_decodeItems Unmarshal [] = Inr []"
| "bybit_decodeItems Unmarshal (item # rest) =
     (case bybit_decodeResult Unmarshal item of
        Inl err \<Rightarrow> Inl err
      | Inr val \<Rightarrow>
          (case bybit_decodeItems Unmarshal rest of
             Inl err \<Rightarrow> Inl err
           | Inr vals \<Rightarrow> Inr (val # vals)))"

text \<open>The part of a call after its decoding failed.\<close>

definition bybit_decoded ::
  "'w bybit_Client \<Rightarrow> Response \<Rightarrow> OperationKind \<Rightarrow> 'a result \<Rightarrow> 'a result" where
  "bybit_decoded client response operation res =
     (case res of
        Inl err \<Rightarrow> Inl (bybit_decodeBodyError client response operation err)
      | Inr val \<Rightarrow> Inr val)"

definition bybit_decodePage ::
  "bybit_json \<Rightarrow> (string \<Rightarrow> 'a result) \<Rightarrow> string \<Rightarrow> 'a bybit_page result" where
  "bybit_decodePage json Unmarshal raw =
     (case bybit_decodeResult (yj_Page json) raw of
        Inl err \<Rightarrow> Inl err
      | Inr (category, items, cursor) \<Rightarrow>
          (case bybit_decodeItems Unmarshal items of
             Inl err \<Rightarrow> Inl err
           | Inr vals \<Rightarrow> Inr \<lparr>ypg_Category = category, ypg_Items = vals, ypg_NextPageCursor = cursor\<rparr>))"

definition bybit_decodeList :: "bybit_json \<Rightarrow> (string \<Rightarrow> 'a result) \<Rightarrow> string \<Rightarrow> 'a list result" where
  "bybit_decodeList json Unmarshal raw =
     (case bybit_decodeResult (yj_List json) raw of
        Inl err \<Rightarrow> Inl err
      | Inr items \<Rightarrow> bybit_decodeItems Unmarshal items)"

section \<open>Calls\<close>

type_synonym 'w call_state = "'w \<times> call_memory"

text \<open>A public or signed call followed by \<open>responseResult\<close>: the response and the raw result.\<close>

definition bybit_get_public ::
  "bybit_lib \<Rightarrow> 'w bybit_Client \<Rightarrow> go_context option \<Rightarrow> string \<Rightarrow> url_Values \<Rightarrow> RequestOption option list \<Rightarrow> 'w call_state \<Rightarrow>
   (Response \<times> string) result \<times> 'w call_state" where
  "bybit_get_public lib client ctx path query options s =
     (case bybit_executePublic lib client ctx ''GET'' path query (publicLimit 20) None options s of
        (Inl err, s) \<Rightarrow> (Inl err, s)
      | (Inr response, s) \<Rightarrow>
          (case bybit_responseResult lib client response OperationRead of
             Inl err \<Rightarrow> (Inl err, s)
           | Inr (res, time) \<Rightarrow> (Inr (response, res), s)))"

definition bybit_get_signed ::
  "bybit_lib \<Rightarrow> 'w bybit_Client \<Rightarrow> go_context option \<Rightarrow> string \<Rightarrow> url_Values \<Rightarrow> RequestOption option list \<Rightarrow> 'w call_state \<Rightarrow>
   (Response \<times> string) result \<times> 'w call_state" where
  "bybit_get_signed lib client ctx path query options s =
     (case bybit_executeSigned lib client ctx ''GET'' path query [] (accountLimit 20) PermissionRead OperationRead options s of
        (Inl err, s) \<Rightarrow> (Inl err, s)
      | (Inr response, s) \<Rightarrow>
          (case bybit_responseResult lib client response OperationRead of
             Inl err \<Rightarrow> (Inl err, s)
           | Inr (res, time) \<Rightarrow> (Inr (response, res), s)))"

definition bybit_post_signed ::
  "bybit_lib \<Rightarrow> 'w bybit_Client \<Rightarrow> go_context option \<Rightarrow> string \<Rightarrow> string \<Rightarrow> RequestOption option list \<Rightarrow> 'w call_state \<Rightarrow>
   (Response \<times> string) result \<times> 'w call_state" where
  "bybit_post_signed lib client ctx path body options s =
     (case bybit_executeSigned lib client ctx ''POST'' path [] body (accountLimit 10) PermissionTrade OperationMutation options s of
        (Inl err, s) \<Rightarrow> (Inl err, s)
      | (Inr response, s) \<Rightarrow>
          (case bybit_responseResult lib client response OperationMutation of
             Inl err \<Rightarrow> (Inl err, s)
           | Inr (res, time) \<Rightarrow> (Inr (response, res), s)))"

section \<open>Market data\<close>

text \<open>Division of Go's integers, which truncates towards zero.\<close>

definition go_div :: "int \<Rightarrow> int \<Rightarrow> int" where
  "go_div a b = (if a < 0 then - (- a div b) else a div b)"

definition bybit_ServerTime ::
  "bybit_lib \<Rightarrow> 'w bybit_Client \<Rightarrow> go_context option \<Rightarrow> RequestOption option list \<Rightarrow> 'w call_state \<Rightarrow> int result \<times> 'w call_state" where
  "bybit_ServerTime lib client ctx options s =
     (case bybit_executePublic lib client ctx ''GET'' ''/v5/market/time'' [] (publicLimit 50)
             (Some (\<lambda>(w, m). (w, m\<lparr>bm_startedAt := ycl_now client w\<rparr>))) options s of
        (Inl err, s) \<Rightarrow> (Inl err, s)
      | (Inr response, s) \<Rightarrow>
          (case bybit_responseResult lib client response OperationRead of
             Inl err \<Rightarrow> (Inl err, s)
           | Inr (res, serverMillis) \<Rightarrow>
               if serverMillis \<le> 0
               then (Inl (bybit_decodeBodyError client response OperationRead (errorText ''invalid Bybit server time'')), s)
               else
                 let (w, m) = s; finishedAt = ycl_now client w;
                     midpointMillis = wrap64 (UnixMilli (bm_startedAt m) +
                       go_div (go_div (saturate64 (finishedAt - bm_startedAt m)) millisecond) 2)
                 in (Inr (serverMillis * millisecond), w, m\<lparr>bm_offset := wrap64 (serverMillis - midpointMillis)\<rparr>)))"

definition bybit_Instruments ::
  "bybit_lib \<Rightarrow> bybit_json \<Rightarrow> 'w bybit_Client \<Rightarrow> go_context option \<Rightarrow> RequestOption option list \<Rightarrow> bybit_InstrumentsRequest \<Rightarrow>
   'w call_state \<Rightarrow> bybit_Instrument bybit_page result \<times> 'w call_state" where
  "bybit_Instruments lib json client ctx options request s =
     (case bybit_Instruments_validate request of
        Some err \<Rightarrow> (Inl err, s)
      | None \<Rightarrow>
          (case bybit_get_public lib client ctx ''/v5/market/instruments-info'' (bybit_Instruments_values request) options s of
             (Inl err, s) \<Rightarrow> (Inl err, s)
           | (Inr (response, res), s) \<Rightarrow>
               (bybit_decoded client response OperationRead (bybit_decodePage json (yj_Instrument json) res), s)))"

definition bybit_Tickers ::
  "bybit_lib \<Rightarrow> bybit_json \<Rightarrow> 'w bybit_Client \<Rightarrow> go_context option \<Rightarrow> RequestOption option list \<Rightarrow> bybit_TickersRequest \<Rightarrow>
   'w call_state \<Rightarrow> bybit_Ticker list result \<times> 'w call_state" where
  "bybit_Tickers lib json client ctx options request s =
     (case bybit_Tickers_validate request of
        Some err \<Rightarrow> (Inl err, s)
      | None \<Rightarrow>
          (case bybit_get_public lib client ctx ''/v5/market/tickers'' (bybit_Tickers_values request) options s of
             (Inl err, s) \<Rightarrow> (Inl err, s)
           | (Inr (response, res), s) \<Rightarrow>
               (bybit_decoded client response OperationRead (bybit_decodeList json (yj_Ticker json) res), s)))"

definition bybit_OrderBook_snapshot ::
  "bybit_lib \<Rightarrow> bybit_json \<Rightarrow> 'w bybit_Client \<Rightarrow> go_context option \<Rightarrow> RequestOption option list \<Rightarrow> bybit_OrderBookRequest \<Rightarrow>
   'w call_state \<Rightarrow> bybit_OrderBookSnapshot result \<times> 'w call_state" where
  "bybit_OrderBook_snapshot lib json client ctx options request s =
     (case bybit_OrderBook_validate request of
        Some err \<Rightarrow> (Inl err, s)
      | None \<Rightarrow>
          (case bybit_get_public lib client ctx ''/v5/market/orderbook'' (bybit_OrderBook_values request) options s of
             (Inl err, s) \<Rightarrow> (Inl err, s)
           | (Inr (response, res), s) \<Rightarrow>
               (bybit_decoded client response OperationRead (bybit_decodeResult (yj_OrderBook json) res), s)))"

definition bybit_RecentTrades ::
  "bybit_lib \<Rightarrow> bybit_json \<Rightarrow> 'w bybit_Client \<Rightarrow> go_context option \<Rightarrow> RequestOption option list \<Rightarrow> bybit_RecentTradesRequest \<Rightarrow>
   'w call_state \<Rightarrow> bybit_PublicTrade list result \<times> 'w call_state" where
  "bybit_RecentTrades lib json client ctx options request s =
     (case bybit_RecentTrades_validate request of
        Some err \<Rightarrow> (Inl err, s)
      | None \<Rightarrow>
          (case bybit_get_public lib client ctx ''/v5/market/recent-trade'' (bybit_RecentTrades_values request) options s of
             (Inl err, s) \<Rightarrow> (Inl err, s)
           | (Inr (response, res), s) \<Rightarrow>
               (bybit_decoded client response OperationRead (bybit_decodeList json (yj_PublicTrade json) res), s)))"

definition bybit_Candles ::
  "bybit_lib \<Rightarrow> bybit_json \<Rightarrow> 'w bybit_Client \<Rightarrow> go_context option \<Rightarrow> RequestOption option list \<Rightarrow> bybit_CandlesRequest \<Rightarrow>
   'w call_state \<Rightarrow> bybit_Candle list result \<times> 'w call_state" where
  "bybit_Candles lib json client ctx options request s =
     (case bybit_Candles_validate request of
        Some err \<Rightarrow> (Inl err, s)
      | None \<Rightarrow>
          (case bybit_get_public lib client ctx ''/v5/market/kline'' (bybit_Candles_values request) options s of
             (Inl err, s) \<Rightarrow> (Inl err, s)
           | (Inr (response, res), s) \<Rightarrow>
               (bybit_decoded client response OperationRead (bybit_decodeResult (yj_Candles json) res), s)))"

section \<open>Account\<close>

definition bybit_WalletBalance ::
  "bybit_lib \<Rightarrow> bybit_json \<Rightarrow> 'w bybit_Client \<Rightarrow> go_context option \<Rightarrow> RequestOption option list \<Rightarrow> bybit_WalletBalanceRequest \<Rightarrow>
   'w call_state \<Rightarrow> bybit_WalletAccount list result \<times> 'w call_state" where
  "bybit_WalletBalance lib json client ctx options request s =
     (case bybit_WalletBalance_validate request of
        Some err \<Rightarrow> (Inl err, s)
      | None \<Rightarrow>
          (case bybit_get_signed lib client ctx ''/v5/account/wallet-balance'' (bybit_WalletBalance_values request) options s of
             (Inl err, s) \<Rightarrow> (Inl err, s)
           | (Inr (response, res), s) \<Rightarrow>
               (bybit_decoded client response OperationRead (bybit_decodeList json (yj_WalletAccount json) res), s)))"

text \<open>A page of positions takes its category from the request.\<close>

definition bybit_Positions ::
  "bybit_lib \<Rightarrow> bybit_json \<Rightarrow> 'w bybit_Client \<Rightarrow> go_context option \<Rightarrow> RequestOption option list \<Rightarrow> bybit_PositionsRequest \<Rightarrow>
   'w call_state \<Rightarrow> bybit_Position bybit_page result \<times> 'w call_state" where
  "bybit_Positions lib json client ctx options request s =
     (case bybit_Positions_validate request of
        Some err \<Rightarrow> (Inl err, s)
      | None \<Rightarrow>
          (case bybit_get_signed lib client ctx ''/v5/position/list'' (bybit_Positions_values request) options s of
             (Inl err, s) \<Rightarrow> (Inl err, s)
           | (Inr (response, res), s) \<Rightarrow>
               (bybit_decoded client response OperationRead
                  (case bybit_decodeResult (yj_PositionPage json) res of
                     Inl err \<Rightarrow> Inl err
                   | Inr (items, cursor) \<Rightarrow>
                       (case bybit_decodeItems (yj_Position json) items of
                          Inl err \<Rightarrow> Inl err
                        | Inr vals \<Rightarrow>
                            Inr \<lparr>ypg_Category = yps_Category request, ypg_Items = vals, ypg_NextPageCursor = cursor\<rparr>)), s)))"

section \<open>Orders\<close>

definition bybit_PlaceOrder ::
  "bybit_lib \<Rightarrow> bybit_json \<Rightarrow> 'w bybit_Client \<Rightarrow> go_context option \<Rightarrow> RequestOption option list \<Rightarrow> bybit_PlaceOrderRequest \<Rightarrow>
   'w call_state \<Rightarrow> bybit_OrderReference result \<times> 'w call_state" where
  "bybit_PlaceOrder lib json client ctx options request s =
     (case bybit_PlaceOrder_validate request of
        Some err \<Rightarrow> (Inl err, s)
      | None \<Rightarrow>
          (case bybit_encodeBody (yj_PlaceOrder json request) of
             Inl err \<Rightarrow> (Inl err, s)
           | Inr body \<Rightarrow>
               (case bybit_post_signed lib client ctx ''/v5/order/create'' body options s of
                  (Inl err, s) \<Rightarrow> (Inl err, s)
                | (Inr (response, res), s) \<Rightarrow>
                    (bybit_decoded client response OperationMutation (bybit_decodeResult (yj_OrderReference json) res), s))))"

definition bybit_CancelOrder ::
  "bybit_lib \<Rightarrow> bybit_json \<Rightarrow> 'w bybit_Client \<Rightarrow> go_context option \<Rightarrow> RequestOption option list \<Rightarrow> bybit_CancelOrderRequest \<Rightarrow>
   'w call_state \<Rightarrow> bybit_OrderReference result \<times> 'w call_state" where
  "bybit_CancelOrder lib json client ctx options request s =
     (case bybit_CancelOrder_validate request of
        Some err \<Rightarrow> (Inl err, s)
      | None \<Rightarrow>
          (case bybit_encodeBody (yj_CancelOrder json request) of
             Inl err \<Rightarrow> (Inl err, s)
           | Inr body \<Rightarrow>
               (case bybit_post_signed lib client ctx ''/v5/order/cancel'' body options s of
                  (Inl err, s) \<Rightarrow> (Inl err, s)
                | (Inr (response, res), s) \<Rightarrow>
                    (bybit_decoded client response OperationMutation (bybit_decodeResult (yj_OrderReference json) res), s))))"

definition bybit_OrderInfo ::
  "bybit_lib \<Rightarrow> bybit_json \<Rightarrow> 'w bybit_Client \<Rightarrow> go_context option \<Rightarrow> RequestOption option list \<Rightarrow> bybit_OrderInfoRequest \<Rightarrow>
   'w call_state \<Rightarrow> bybit_Order result \<times> 'w call_state" where
  "bybit_OrderInfo lib json client ctx options request s =
     (case bybit_OrderInfo_validate request of
        Some err \<Rightarrow> (Inl err, s)
      | None \<Rightarrow>
          (case bybit_get_signed lib client ctx ''/v5/order/realtime'' (bybit_OrderInfo_values request) options s of
             (Inl err, s) \<Rightarrow> (Inl err, s)
           | (Inr (response, res), s) \<Rightarrow>
               (case bybit_decoded client response OperationRead (bybit_decodePage json (yj_Order json) res) of
                  Inl err \<Rightarrow> (Inl err, s)
                | Inr page \<Rightarrow>
                    (case ypg_Items page of
                       [] \<Rightarrow> (Inl (bybit_decodeError client response ''110001'' ''order not found'' OperationRead None), s)
                     | order # _ \<Rightarrow> (Inr order, s)))))"

definition bybit_OpenOrders ::
  "bybit_lib \<Rightarrow> bybit_json \<Rightarrow> 'w bybit_Client \<Rightarrow> go_context option \<Rightarrow> RequestOption option list \<Rightarrow> bybit_OpenOrdersRequest \<Rightarrow>
   'w call_state \<Rightarrow> bybit_Order bybit_page result \<times> 'w call_state" where
  "bybit_OpenOrders lib json client ctx options request s =
     (case bybit_OpenOrders_validate request of
        Some err \<Rightarrow> (Inl err, s)
      | None \<Rightarrow>
          (case bybit_get_signed lib client ctx ''/v5/order/realtime'' (bybit_OpenOrders_values request) options s of
             (Inl err, s) \<Rightarrow> (Inl err, s)
           | (Inr (response, res), s) \<Rightarrow>
               (bybit_decoded client response OperationRead (bybit_decodePage json (yj_Order json) res), s)))"

definition bybit_OrderHistory ::
  "bybit_lib \<Rightarrow> bybit_json \<Rightarrow> 'w bybit_Client \<Rightarrow> go_context option \<Rightarrow> RequestOption option list \<Rightarrow> bybit_OrderHistoryRequest \<Rightarrow>
   'w call_state \<Rightarrow> bybit_Order bybit_page result \<times> 'w call_state" where
  "bybit_OrderHistory lib json client ctx options request s =
     (case bybit_OrderHistory_validate request of
        Some err \<Rightarrow> (Inl err, s)
      | None \<Rightarrow>
          (case bybit_get_signed lib client ctx ''/v5/order/history'' (bybit_OrderHistory_values request) options s of
             (Inl err, s) \<Rightarrow> (Inl err, s)
           | (Inr (response, res), s) \<Rightarrow>
               (bybit_decoded client response OperationRead (bybit_decodePage json (yj_Order json) res), s)))"

text \<open>The client behind the unified adapter.\<close>

definition bybit_native_client ::
  "bybit_lib \<Rightarrow> bybit_json \<Rightarrow> 'w bybit_Client \<Rightarrow> go_context option \<Rightarrow> RequestOption option list \<Rightarrow> 'w call_state bybit_native" where
  "bybit_native_client lib json client ctx options =
     \<lparr>nt_Instruments = bybit_Instruments lib json client ctx options, nt_Tickers = bybit_Tickers lib json client ctx options,
      nt_OrderBook = bybit_OrderBook_snapshot lib json client ctx options,
      nt_RecentTrades = bybit_RecentTrades lib json client ctx options, nt_Candles = bybit_Candles lib json client ctx options,
      nt_WalletBalance = bybit_WalletBalance lib json client ctx options, nt_PlaceOrder = bybit_PlaceOrder lib json client ctx options,
      nt_CancelOrder = bybit_CancelOrder lib json client ctx options, nt_OrderInfo = bybit_OrderInfo lib json client ctx options,
      nt_OpenOrders = bybit_OpenOrders lib json client ctx options\<rparr>"

section \<open>What the answer to a mutation means\<close>

text \<open>The reply of the exchange refuses the request: a 4xx status, or an envelope that carries an error code
  (other than the two for which the exchange does not know itself) or an informational or redirect status.\<close>

definition bybit_refusal :: "bybit_lib \<Rightarrow> Response \<Rightarrow> bool" where
  "bybit_refusal lib response \<longleftrightarrow>
     (400 \<le> re_StatusCode response \<and> re_StatusCode response < 500) \<or>
     (\<exists>code msg raw t. bl_Envelope lib (re_Body response) = Inr (code, msg, raw, t) \<and>
        (code \<notin> {0, 10000, 10016} \<or> code = 0 \<and> (re_StatusCode response < 200 \<or>
           300 \<le> re_StatusCode response \<and> re_StatusCode response < 400)))"

definition bybit_accepted :: "bybit_lib \<Rightarrow> Response \<Rightarrow> string \<Rightarrow> bool" where
  "bybit_accepted lib response raw \<longleftrightarrow> 200 \<le> re_StatusCode response \<and> re_StatusCode response < 300 \<and>
     (\<exists>msg t. bl_Envelope lib (re_Body response) = Inr (0, msg, raw, t))"

text \<open>An error that was made of a reply: only a rate-limited mutation may be retried, and unless its outcome is
  unknown the reply refused it.\<close>

definition bybit_answered_error :: "bybit_lib \<Rightarrow> Response \<Rightarrow> go_error \<Rightarrow> bool" where
  "bybit_answered_error lib response err \<longleftrightarrow>
     (\<exists>a. err = ErrAPI a \<and> ae_HTTPStatus a = re_StatusCode response \<and>
        (ae_Retryable a \<longrightarrow> ae_Category a = ErrorRateLimited) \<and>
        (ae_Category a = ErrorUnknownExecutionState \<or> bybit_refusal lib response))"

lemma bybit_answeredI:
  "(retryable \<Longrightarrow> category = ErrorRateLimited) \<Longrightarrow> category = ErrorUnknownExecutionState \<or> bybit_refusal lib response \<Longrightarrow>
     bybit_answered_error lib response
       (ErrAPI (APIError category ex account rid retryable (re_StatusCode response) code msg cause))"
  by (simp add: bybit_answered_error_def)

lemma bybit_classify_retry:
  assumes "bybit_classifyError st code msg OperationMutation = (category, True)"
  shows "category = ErrorRateLimited"
proof (cases "st = 429 \<or> code = ''10006'' \<or> (st = 403 \<and> str_contains ''too frequent'' (ToLower_ascii msg))")
  case True
  then have "bybit_classifyError st code msg OperationMutation = (ErrorRateLimited, True)"
    unfolding bybit_classifyError_def by (rule if_P)
  with assms show ?thesis by simp
next
  case False
  have "\<not> snd (bybit_classifyError st code msg OperationMutation)"
    unfolding bybit_classifyError_def if_not_P [OF False]
    by (simp only: if_distrib [where f = snd] snd_conv if_cancel refl if_True not_False_eq_True)
  with assms show ?thesis by simp
qed

lemma bybit_classify_no_code:
  "bybit_classifyError st [] msg OperationMutation = (category, retryable) \<Longrightarrow>
     category = ErrorUnknownExecutionState \<or> 400 \<le> st \<and> st < 500 \<or> st < 400 \<and> category = ErrorInternal"
  by (simp add: bybit_classifyError_def split: if_split_asm; elim disjE; simp)

lemma bybit_classify_unsure:
  "bybit_classifyError st ''10000'' msg OperationMutation = (category, retryable) \<Longrightarrow>
     category = ErrorUnknownExecutionState \<or> 400 \<le> st \<and> st < 500"
  "bybit_classifyError st ''10016'' msg OperationMutation = (category, retryable) \<Longrightarrow>
     category = ErrorUnknownExecutionState \<or> 400 \<le> st \<and> st < 500"
  by (simp add: bybit_classifyError_def split: if_split_asm; elim disjE; simp)+

lemma bybit_int_codes: "int_str 0 = ''0''" "int_str 10000 = ''10000''" "int_str 10016 = ''10016''"
proof -
  have digits: "char_of (48 :: nat) = CHR ''0''" "char_of (49 :: nat) = CHR ''1''" "char_of (54 :: nat) = CHR ''6''" by code_simp+
  show "int_str 0 = ''0''" "int_str 10000 = ''10000''" "int_str 10016 = ''10016''"
    by (simp_all add: int_str_def nat_str.simps digits)
qed

lemma bybit_body_error:
  "bybit_answered_error lib response (bybit_decodeBodyError client response OperationMutation cause)"
proof -
  obtain category retryable where cls:
    "bybit_classifyError (re_StatusCode response) [] (re_Body response) OperationMutation = (category, retryable)" by fastforce
  show ?thesis
  proof (cases "category = ErrorInternal")
    case True
    then show ?thesis unfolding bybit_decodeBodyError_def cls Let_def by (simp add: bybit_answeredI)
  next
    case False
    with bybit_classify_no_code [OF cls] have "category = ErrorUnknownExecutionState \<or> bybit_refusal lib response"
      unfolding bybit_refusal_def by metis
    with False show ?thesis
      unfolding bybit_decodeBodyError_def cls Let_def prod.case if_not_P [OF False]
      using cls by (intro bybit_answeredI) (simp_all add: bybit_classify_retry)
  qed
qed

lemma bybit_code_error:
  assumes "bl_Envelope lib (re_Body response) = Inr (code, msg, raw, t)"
    "re_StatusCode response < 200 \<or> 300 \<le> re_StatusCode response \<or> code \<noteq> 0"
  shows "bybit_answered_error lib response (bybit_decodeError client response (int_str code) msg OperationMutation cause)"
proof -
  define shown where "shown = (if int_str code = ''0'' then [] else int_str code)"
  obtain category retryable where cls:
    "bybit_classifyError (re_StatusCode response) shown msg OperationMutation = (category, retryable)" by fastforce
  have "category = ErrorUnknownExecutionState \<or> bybit_refusal lib response"
  proof (cases "code \<in> {0, 10000, 10016}")
    case True
    then consider "code = 0" | "code = 10000" | "code = 10016" by blast
    then have "category = ErrorUnknownExecutionState \<or> 400 \<le> re_StatusCode response \<and> re_StatusCode response < 500 \<or>
        code = 0 \<and> re_StatusCode response < 400"
      using cls bybit_classify_no_code bybit_classify_unsure
      by cases (simp_all add: shown_def bybit_int_codes, blast+)
    with assms show ?thesis unfolding bybit_refusal_def by fastforce
  next
    case False
    with assms(1) show ?thesis unfolding bybit_refusal_def by blast
  qed
  then show ?thesis
    unfolding bybit_decodeError_def shown_def [symmetric] Let_def cls prod.case
    using cls by (intro bybit_answeredI) (simp_all add: bybit_classify_retry)
qed

lemma bybit_response_mutation:
  "bybit_responseResult lib client response OperationMutation = Inl err \<Longrightarrow> bybit_answered_error lib response err"
  "bybit_responseResult lib client response OperationMutation = Inr (raw, t) \<Longrightarrow> bybit_accepted lib response raw"
  by (auto simp: bybit_responseResult_def bybit_accepted_def intro: bybit_body_error bybit_code_error
      split: sum.splits prod.splits if_splits)

text \<open>The record of a call holds one request, signed over its body, on a route and with a permission the credentials have.\<close>

definition bybit_sent_once ::
  "bybit_lib \<Rightarrow> 'w bybit_Client \<Rightarrow> RequestOption option list \<Rightarrow> string \<Rightarrow> string \<Rightarrow> exec_event list \<Rightarrow> bool" where
  "bybit_sent_once lib client options path body evs \<longleftrightarrow>
     (\<exists>d p resolved rq. ycl_credentials client = Some d \<and> ycl_credentialProvider client = Some p \<and>
        bybit_resolveOptions client options = Inr resolved \<and>
        AllowsEgressRoute d (ro_EgressRouteID resolved) \<and> AllowsPermission d PermissionTrade \<and>
        sent evs = [(ro_EgressRouteID resolved, rq)] \<and>
        bybit_signed_request lib client d p ''POST'' path [] body rq)"

text \<open>The outcome of a mutation whose result \<open>raw\<close> is decoded by \<open>Unmarshal\<close>.\<close>

definition bybit_mutation_outcome ::
  "bybit_lib \<Rightarrow> 'w bybit_Client \<Rightarrow> RequestOption option list \<Rightarrow> string \<Rightarrow> string \<Rightarrow> exec_event list \<Rightarrow>
   (string \<Rightarrow> 'a result) \<Rightarrow> 'a result \<Rightarrow> bool" where
  "bybit_mutation_outcome lib client options path body evs Unmarshal res \<longleftrightarrow>
     (case res of
        Inr val \<Rightarrow> bybit_sent_once lib client options path body evs \<and>
          (\<exists>response raw. bybit_accepted lib response raw \<and> Unmarshal raw = Inr val)
      | Inl err \<Rightarrow> sent evs = [] \<or> bybit_sent_once lib client options path body evs \<and>
          (unknown_outcome err \<or> (\<exists>response. bybit_answered_error lib response err)))"

lemma bybit_post_outcome:
  assumes "bybit_post_signed lib (traced_client client) ctx path body options ((w, []), m) = (res, ((w', evs), m'))"
  shows "bybit_mutation_outcome lib client options path body evs Unmarshal
    (case res of Inl err \<Rightarrow> Inl err
     | Inr (response, raw) \<Rightarrow> bybit_decoded (traced_client client) response OperationMutation (bybit_decodeResult Unmarshal raw))"
proof -
  obtain res1 s1 where run: "bybit_executeSigned lib (traced_client client) ctx ''POST'' path [] body (accountLimit 10)
      PermissionTrade OperationMutation options ((w, []), m) = (res1, s1)" by (rule prod.exhaust)
  with assms have s1: "s1 = ((w', evs), m')" by (auto simp: bybit_post_signed_def split: sum.splits prod.splits)
  show ?thesis
  proof (cases "sent evs = []")
    case True
    obtain err where "res1 = Inl err"
      by (rule bybit_mutation_run [OF run [unfolded s1]]) (use True in auto)
    with assms run s1 True show ?thesis by (auto simp: bybit_post_signed_def bybit_mutation_outcome_def)
  next
    case False
    obtain d p resolved rq where once: "ycl_credentials client = Some d" "ycl_credentialProvider client = Some p"
      "bybit_resolveOptions client options = Inr resolved" "sent evs = [(ro_EgressRouteID resolved, rq)]"
      "bybit_signed_request lib client d p ''POST'' path [] body rq"
      "case res1 of Inl err \<Rightarrow> unknown_outcome err | Inr response \<Rightarrow> True"
      by (rule bybit_mutation_run [OF run [unfolded s1]]) (use False in auto)
    with bybit_executeSigned_sends [OF run [unfolded s1]] have one: "bybit_sent_once lib client options path body evs"
      by (auto simp: bybit_sent_once_def)
    show ?thesis
    proof (cases res1)
      case (Inl err)
      with assms run s1 one once(6) show ?thesis by (auto simp: bybit_post_signed_def bybit_mutation_outcome_def)
    next
      case (Inr response)
      with assms run s1 have res: "res = (case bybit_responseResult lib (traced_client client) response OperationMutation of
          Inl err \<Rightarrow> Inl err | Inr (raw, t) \<Rightarrow> Inr (response, raw))"
        by (auto simp: bybit_post_signed_def split: sum.splits)
      show ?thesis unfolding res bybit_mutation_outcome_def
        using one bybit_response_mutation [of lib "traced_client client" response]
          bybit_body_error [of lib response "traced_client client"]
        by (simp add: bybit_decoded_def bybit_decodeResult_def split: sum.split prod.split) blast
    qed
  qed
qed


lemma bybit_CancelOrder_result:
  assumes "bybit_CancelOrder lib json (traced_client client) ctx options request ((w, []), m) = (res, ((w', evs), m'))"
  shows "(bybit_CancelOrder_validate request = None \<and> (\<exists>body. yj_CancelOrder json request = Inr body \<and>
      bybit_mutation_outcome lib client options ''/v5/order/cancel'' body evs (yj_OrderReference json) res)) \<or>
    (\<exists>err. res = Inl err \<and> evs = [])"
proof (cases "bybit_CancelOrder_validate request = None \<and> (\<exists>body. yj_CancelOrder json request = Inr body)")
  case True
  then obtain body where body: "bybit_CancelOrder_validate request = None" "yj_CancelOrder json request = Inr body" by blast
  obtain res1 s1 where post: "bybit_post_signed lib (traced_client client) ctx ''/v5/order/cancel'' body options ((w, []), m) = (res1, s1)"
    by (rule prod.exhaust)
  with assms body have "s1 = ((w', evs), m')" "res = (case res1 of Inl err \<Rightarrow> Inl err
     | Inr (response, raw) \<Rightarrow>
         bybit_decoded (traced_client client) response OperationMutation (bybit_decodeResult (yj_OrderReference json) raw))"
    by (auto simp: bybit_CancelOrder_def bybit_encodeBody_def split: sum.splits)
  with bybit_post_outcome [of lib client ctx "''/v5/order/cancel''" body options w m res1 w' evs m' "yj_OrderReference json"] post body
  show ?thesis by auto
qed (use assms in \<open>auto simp: bybit_CancelOrder_def bybit_encodeBody_def split: option.splits sum.splits\<close>)

section \<open>Properties\<close>


text \<open>Cancelling through the unified API, down to the wire: the same discipline as for placing an order, with the
  cancel path.\<close>

theorem bybit_unified_CancelOrder_wire:
  "case bybit_unified_CancelOrder (bybit_native_client lib json (traced_client client) ctx options) request ((w, []), m) of
     (res, ((w', evs), m')) \<Rightarrow>
       (\<exists>err. res = Inl err \<and> evs = []) \<or>
       (OrderRequest_Validate request = None \<and>
        (\<exists>body. yj_CancelOrder json \<lparr>yco_Category = CategorySpot, yco_Symbol = bybitSpotSymbol (or_Market request),
              yco_OrderID = or_OrderID request, yco_OrderLinkID = or_ClientOrderID request\<rparr> = Inr body \<and>
          (case res of
             Inr order \<Rightarrow> bybit_sent_once lib client options ''/v5/order/cancel'' body evs \<and>
               od_Status order = OrderStatusCancelPending
           | Inl err \<Rightarrow> sent evs = [] \<or> bybit_sent_once lib client options ''/v5/order/cancel'' body evs \<and>
               (unknown_outcome err \<or> (\<exists>response. bybit_answered_error lib response err)))))"
proof -
  obtain res w' evs m' where native: "bybit_CancelOrder lib json (traced_client client) ctx options
      \<lparr>yco_Category = CategorySpot, yco_Symbol = bybitSpotSymbol (or_Market request),
       yco_OrderID = or_OrderID request, yco_OrderLinkID = or_ClientOrderID request\<rparr>
      ((w, []), m) = (res, ((w', evs), m'))" by (metis prod.exhaust)
  show ?thesis
  proof (cases "OrderRequest_Validate request")
    case None
    with bybit_CancelOrder_result [OF native] native show ?thesis
      by (cases res) (auto simp: bybit_unified_CancelOrder_def bybit_native_client_def bybit_mutation_outcome_def)
  qed (simp add: bybit_unified_CancelOrder_def)
qed

end
