(* ===== verification/Smoke_Checks.thy ===== *)
theory Smoke_Checks
  imports Egress_Transport Unified_Orders Unified_Candles
begin

text \<open>
  Package \<open>smoke\<close>, the read checks and what they share with the trade checks
  (\<open>smoke/read.go\<close>): a runner verifies the egress route, reads every public endpoint once and
  keeps evidence without raw errors or data.

  The client and the verifier are interfaces: records of functions on a world \<open>'w\<close> that stands for
  everything outside. A check is a function of its context and the world; the third component of its
  result carries the variables a closure of the code assigns.
\<close>

section \<open>Data\<close>

text \<open>\<open>unified.SpotClient\<close>; values that the code reads next to an error are returned with it.\<close>

record 'w SpotClient =
  sc_Exchange :: ExchangeID
  sc_Markets :: "go_context \<Rightarrow> RequestOption option list \<Rightarrow> 'w \<Rightarrow> (MarketInfo list \<times> go_error option) \<times> 'w"
  sc_Ticker :: "go_context \<Rightarrow> TickerRequest \<Rightarrow> RequestOption option list \<Rightarrow> 'w \<Rightarrow> (Ticker \<times> go_error option) \<times> 'w"
  sc_OrderBook :: "go_context \<Rightarrow> OrderBookRequest \<Rightarrow> RequestOption option list \<Rightarrow> 'w \<Rightarrow> (OrderBook \<times> go_error option) \<times> 'w"
  sc_RecentTrades :: "go_context \<Rightarrow> RecentTradesRequest \<Rightarrow> RequestOption option list \<Rightarrow> 'w \<Rightarrow> (PublicTrade list \<times> go_error option) \<times> 'w"
  sc_Candles :: "go_context \<Rightarrow> CandlesRequest \<Rightarrow> RequestOption option list \<Rightarrow> 'w \<Rightarrow> (Candle list \<times> go_error option) \<times> 'w"
  sc_Balances :: "go_context \<Rightarrow> RequestOption option list \<Rightarrow> 'w \<Rightarrow> (Balance list \<times> go_error option) \<times> 'w"
  sc_PlaceOrder :: "go_context \<Rightarrow> PlaceOrderRequest \<Rightarrow> RequestOption option list \<Rightarrow> 'w \<Rightarrow> Order result \<times> 'w"
  sc_Order :: "go_context \<Rightarrow> OrderRequest \<Rightarrow> RequestOption option list \<Rightarrow> 'w \<Rightarrow> Order result \<times> 'w"
  sc_CancelOrder :: "go_context \<Rightarrow> OrderRequest \<Rightarrow> RequestOption option list \<Rightarrow> 'w \<Rightarrow> Order result \<times> 'w"
  sc_OpenOrders :: "go_context \<Rightarrow> OpenOrdersRequest \<Rightarrow> RequestOption option list \<Rightarrow> 'w \<Rightarrow> Order list result \<times> 'w"

type_synonym 'w EgressVerifier =
  "go_context \<Rightarrow> EgressRouteID \<Rightarrow> string \<Rightarrow> 'w \<Rightarrow> (PublicIPCheck \<times> go_error option) \<times> 'w"

type_synonym CheckStatus = string
abbreviation CheckPassed :: CheckStatus where "CheckPassed \<equiv> ''passed''"
abbreviation CheckFailed :: CheckStatus where "CheckFailed \<equiv> ''failed''"
abbreviation CheckSkipped :: CheckStatus where "CheckSkipped \<equiv> ''skipped''"

record CheckFailure =
  cf_Kind :: string
  cf_Reason :: string
  cf_Category :: ErrorCategory
  cf_ExchangeCode :: string
  cf_HTTPStatus :: int
  cf_Retryable :: bool

record CheckEvidence =
  ev_Count :: int
  ev_NativeMarket :: string
  ev_OrderStatus :: string
  ev_LocalSourceIP :: string
  ev_ExpectedPublicIP :: string
  ev_ObservedPublicIP :: string

record CheckResult =
  ck_Name :: string
  ck_Status :: CheckStatus
  ck_StartedAt :: int
  ck_CompletedAt :: int
  ck_DurationMillis :: int
  ck_Evidence :: CheckEvidence
  ck_Failure :: "CheckFailure option"

definition zeroFailure :: CheckFailure where
  "zeroFailure = \<lparr>cf_Kind = [], cf_Reason = [], cf_Category = [], cf_ExchangeCode = [], cf_HTTPStatus = 0,
     cf_Retryable = False\<rparr>"

definition zeroEvidence :: CheckEvidence where
  "zeroEvidence = \<lparr>ev_Count = 0, ev_NativeMarket = [], ev_OrderStatus = [], ev_LocalSourceIP = [],
     ev_ExpectedPublicIP = [], ev_ObservedPublicIP = []\<rparr>"

abbreviation DefaultPublicIPEndpoint :: string where "DefaultPublicIPEndpoint \<equiv> ''https://api.ipify.org''"
abbreviation defaultCheckTimeout :: int where "defaultCheckTimeout \<equiv> 10000000000"
abbreviation ReadReportVersion :: int where "ReadReportVersion \<equiv> 2"

section \<open>Decimals and evidence errors\<close>

definition decimal :: "string \<Rightarrow> bool \<Rightarrow> rat result" where
  "decimal val allowZero =
     (if \<not> positiveDecimalPattern val then Inl (errorText ''invalid decimal'')
      else case Rat_SetString val of
             None \<Rightarrow> Inl (errorText ''invalid decimal'')
           | Some parsed \<Rightarrow>
               if parsed < 0 \<or> (\<not> allowZero \<and> parsed = 0) then Inl (errorText ''invalid decimal'')
               else Inr parsed)"

definition validateDecimal :: "string \<Rightarrow> bool \<Rightarrow> go_error option" where
  "validateDecimal val allowZero = (case decimal val allowZero of Inl err \<Rightarrow> Some err | Inr _ \<Rightarrow> None)"

definition invalidEvidence :: "string \<Rightarrow> go_error" where
  "invalidEvidence reason = EvidenceError reason"

text \<open>\<open>errors.As\<close> for the evidence error: the first node of that type.\<close>

fun first_evidence :: "go_error list \<Rightarrow> string option" where
  "first_evidence [] = None"
| "first_evidence (EvidenceError reason # es) = Some reason"
| "first_evidence (_ # es) = first_evidence es"

definition error_categories :: "(sentinel \<times> ErrorCategory) list" where
  "error_categories =
     [(ErrAuthentication, ErrorAuthentication), (ErrAuthorization, ErrorAuthorization),
      (ErrValidation, ErrorValidation), (ErrInsufficientBalance, ErrorInsufficientBalance),
      (ErrOrderNotFound, ErrorOrderNotFound), (ErrRateLimited, ErrorRateLimited),
      (ErrNetwork, ErrorNetwork), (ErrTimeout, ErrorTimeout),
      (ErrUnknownExecutionState, ErrorUnknownExecutionState),
      (ErrExchangeUnavailable, ErrorExchangeUnavailable),
      (ErrUnsupportedCapability, ErrorUnsupportedCapability), (ErrInternal, ErrorInternal)]"

definition categoryForError :: "go_error \<Rightarrow> ErrorCategory" where
  "categoryForError err =
     (case find (\<lambda>(target, category). errors_Is target err) error_categories of
        Some (target, category) \<Rightarrow> category
      | None \<Rightarrow> ErrorInternal)"

definition classifyFailure :: "go_error \<Rightarrow> CheckFailure" where
  "classifyFailure err =
     (case first_evidence (error_nodes err) of
        Some reason \<Rightarrow> zeroFailure\<lparr>cf_Kind := ''evidence'', cf_Reason := reason\<rparr>
      | None \<Rightarrow>
          (case errors_As_API err of
             Some a \<Rightarrow> zeroFailure\<lparr>cf_Kind := ''api'', cf_Category := ae_Category a, cf_ExchangeCode := ae_ExchangeCode a,
                                   cf_HTTPStatus := ae_HTTPStatus a, cf_Retryable := ae_Retryable a\<rparr>
           | None \<Rightarrow>
               if errors_Is ErrPublicIPMismatch err
               then zeroFailure\<lparr>cf_Kind := ''egress'', cf_Reason := ''public_ip_mismatch''\<rparr>
               else if errors_Is ContextDeadlineExceeded err
               then zeroFailure\<lparr>cf_Kind := ''timeout'', cf_Category := ErrorTimeout\<rparr>
               else if errors_Is ContextCanceled err then zeroFailure\<lparr>cf_Kind := ''canceled''\<rparr>
               else zeroFailure\<lparr>cf_Kind := ''error'', cf_Category := categoryForError err\<rparr>))"

section \<open>Running a check\<close>

type_synonym ('x, 'w) checkFunc = "go_context \<Rightarrow> 'w \<Rightarrow> (CheckEvidence \<times> go_error option \<times> 'x) \<times> 'w"

text \<open>\<open>Duration.Milliseconds\<close> truncates towards zero.\<close>

definition milliseconds :: "int \<Rightarrow> int" where
  "milliseconds d = sgn d * (\<bar>d\<bar> div 1000000)"

definition executeCheck ::
  "('w \<Rightarrow> int) \<Rightarrow> go_context \<Rightarrow> int \<Rightarrow> string \<Rightarrow> ('x, 'w) checkFunc \<Rightarrow> 'w \<Rightarrow> CheckResult \<times> 'x \<times> 'w" where
  "executeCheck now ctx timeout name check w =
     (let startedAt = now w
      in case check (WithTimeoutCtx ctx timeout) w of
           ((evidence, err, x), w') \<Rightarrow>
             let completedAt = now w';
                 result = \<lparr>ck_Name = name, ck_Status = CheckPassed, ck_StartedAt = startedAt, ck_CompletedAt = completedAt,
                           ck_DurationMillis = milliseconds (saturate64 (completedAt - startedAt)),
                           ck_Evidence = evidence, ck_Failure = None\<rparr>;
                 result = (case err of
                             None \<Rightarrow> result
                           | Some e \<Rightarrow> result\<lparr>ck_Status := CheckFailed, ck_Failure := Some (classifyFailure e)\<rparr>)
             in (result, x, w'))"

definition skippedCheck :: "int \<Rightarrow> string \<Rightarrow> string \<Rightarrow> CheckResult" where
  "skippedCheck now name reason =
     \<lparr>ck_Name = name, ck_Status = CheckSkipped, ck_StartedAt = now, ck_CompletedAt = now, ck_DurationMillis = 0,
      ck_Evidence = zeroEvidence,
      ck_Failure = Some (zeroFailure\<lparr>cf_Kind := ''prerequisite'', cf_Reason := reason\<rparr>)\<rparr>"

section \<open>The egress check\<close>

text \<open>\<open>net.IP.String\<close>: dotted decimal, or the 16-bit groups in hexadecimal with the first longest
  run of at least two zero groups left out.\<close>

definition hex_digit :: "nat \<Rightarrow> char" where
  "hex_digit n = (if n < 10 then char_of (48 + n) else char_of (87 + n))"

fun hex_str :: "nat \<Rightarrow> string" where
  "hex_str n = (if n < 16 then [hex_digit n] else hex_str (n div 16) @ [hex_digit (n mod 16)])"

declare hex_str.simps [simp del]

fun ip_groups :: "8 word list \<Rightarrow> nat list" where
  "ip_groups (a # b # rest) = (unat a * 256 + unat b) # ip_groups rest"
| "ip_groups rest = []"

definition zero_run :: "nat list \<Rightarrow> nat \<Rightarrow> nat" where
  "zero_run groups i = length (takeWhile (\<lambda>g. g = 0) (drop i groups))"

definition longest_zero_run :: "nat list \<Rightarrow> nat \<times> nat" where
  "longest_zero_run groups =
     fold (\<lambda>i best. let l = zero_run groups i in if 2 \<le> l \<and> snd best < l then (i, l) else best) [0..<8] (0, 0)"

fun join_colon :: "string list \<Rightarrow> string" where
  "join_colon [] = []"
| "join_colon [x] = x"
| "join_colon (x # y # rest) = x @ CHR '':'' # join_colon (y # rest)"

definition IPv6_String :: "8 word list \<Rightarrow> string" where
  "IPv6_String b =
     (let groups = ip_groups b; (start, len) = longest_zero_run groups; shown = map hex_str groups
      in if len = 0 then join_colon shown
         else join_colon (take start shown) @ ''::'' @ join_colon (drop (start + len) shown))"

definition IP_String :: "8 word list \<Rightarrow> string" where
  "IP_String b =
     (if b = [] then ''<nil>''
      else if length b \<noteq> 4 \<and> length b \<noteq> 16
      then CHR ''?'' # concat (map (\<lambda>x. [hex_digit (unat x div 16), hex_digit (unat x mod 16)]) b)
      else case IP_To4 (Some b) of Some p4 \<Rightarrow> IPv4_String p4 | None \<Rightarrow> IPv6_String b)"

definition ipString :: "net_IP \<Rightarrow> string" where
  "ipString val = (case val of None \<Rightarrow> [] | Some b \<Rightarrow> IP_String b)"

definition verifyEgress ::
  "'w EgressVerifier \<Rightarrow> EgressRouteID \<Rightarrow> string \<Rightarrow> go_context \<Rightarrow> 'w \<Rightarrow> (CheckEvidence \<times> go_error option \<times> unit) \<times> 'w" where
  "verifyEgress verifier routeID endpoint ctx w =
     (case verifier ctx routeID endpoint w of
        ((check, err), w') \<Rightarrow>
          let localSourceIP = (if pc_LocalSourceIP check = None then pc_LocalPrivateIP check else pc_LocalSourceIP check);
              evidence = zeroEvidence\<lparr>ev_LocalSourceIP := ipString localSourceIP,
                ev_ExpectedPublicIP := ipString (pc_ExpectedPublicIP check),
                ev_ObservedPublicIP := ipString (pc_ObservedPublicIP check)\<rparr>
          in if err \<noteq> None then ((evidence, err, ()), w')
             else if pc_RouteID check \<noteq> routeID then ((evidence, Some (invalidEvidence ''unexpected_route''), ()), w')
             else if pc_ExpectedPublicIP check = None
             then ((evidence, Some (invalidEvidence ''expected_public_ip_missing''), ()), w')
             else if pc_ObservedPublicIP check = None \<or> \<not> pc_MatchesExpected check \<or>
                     \<not> IP_Equal (pc_ObservedPublicIP check) (pc_ExpectedPublicIP check)
             then ((evidence, Some (invalidEvidence ''public_ip_mismatch''), ()), w')
             else ((evidence, None, ()), w'))"

section \<open>The read runner\<close>

record 'w SpotReadConfig =
  rcfg_Client :: "'w SpotClient option"
  rcfg_EgressVerifier :: "'w EgressVerifier option"
  rcfg_Market :: Market
  rcfg_EgressRouteID :: EgressRouteID
  rcfg_PublicIPEndpoint :: string
  rcfg_CheckTimeout :: int
  rcfg_IncludeBalances :: bool

record 'w SpotReadRunner =
  rr_client :: "'w SpotClient"
  rr_egressVerifier :: "'w EgressVerifier"
  rr_market :: Market
  rr_routeID :: EgressRouteID
  rr_publicIPEndpoint :: string
  rr_checkTimeout :: int
  rr_includeBalances :: bool

record MarketEvidence =
  me_Base :: string
  me_Quote :: string

record ReadReport =
  rp_Version :: int
  rp_Kind :: string
  rp_Exchange :: ExchangeID
  rp_Product :: string
  rp_Market :: MarketEvidence
  rp_EgressRouteID :: EgressRouteID
  rp_PrivateRead :: bool
  rp_StartedAt :: int
  rp_CompletedAt :: int
  rp_Passed :: bool
  rp_Checks :: "CheckResult list"

definition NewSpotReadRunner :: "'w SpotReadConfig \<Rightarrow> 'w SpotReadRunner result" where
  "NewSpotReadRunner config =
     (case rcfg_Client config of
        None \<Rightarrow> Inl (errorText ''smoke Spot client is required'')
      | Some client \<Rightarrow>
          if \<not> ExchangeID_Valid (sc_Exchange client) then Inl (errorText ''smoke Spot client exchange is required'')
          else case rcfg_EgressVerifier config of
            None \<Rightarrow> Inl (errorText ''smoke egress verifier is required'')
          | Some verifier \<Rightarrow>
              (case Market_Validate (rcfg_Market config) of
                 Some err \<Rightarrow> Inl err
               | None \<Rightarrow>
                   let routeID = TrimSpace (rcfg_EgressRouteID config)
                   in if routeID = [] then Inl (Sentinel ErrMissingEgressRoute)
                      else
                        let endpoint = (if rcfg_PublicIPEndpoint config = [] then DefaultPublicIPEndpoint
                                        else rcfg_PublicIPEndpoint config);
                            timeout = (if rcfg_CheckTimeout config = 0 then defaultCheckTimeout
                                       else rcfg_CheckTimeout config)
                        in if timeout < 0 then Inl (errorText ''smoke check timeout must be positive'')
                           else Inr \<lparr>rr_client = client, rr_egressVerifier = verifier, rr_market = rcfg_Market config,
                                     rr_routeID = routeID, rr_publicIPEndpoint = endpoint, rr_checkTimeout = timeout,
                                     rr_includeBalances = rcfg_IncludeBalances config\<rparr>))"

definition read_requestOptions :: "'w SpotReadRunner \<Rightarrow> RequestOption option list" where
  "read_requestOptions runner = [Some (WithEgressRoute (rr_routeID runner)), Some (WithTimeout (rr_checkTimeout runner))]"

abbreviation evidence_error :: "CheckEvidence \<Rightarrow> string \<Rightarrow> CheckEvidence \<times> go_error option \<times> unit" where
  "evidence_error evidence reason \<equiv> (evidence, Some (invalidEvidence reason), ())"

definition checkMarkets :: "'w SpotReadRunner \<Rightarrow> (unit, 'w) checkFunc" where
  "checkMarkets runner ctx w =
     (case sc_Markets (rr_client runner) ctx (read_requestOptions runner) w of
        ((markets, err), w') \<Rightarrow>
          let evidence = zeroEvidence\<lparr>ev_Count := int (length markets)\<rparr>
          in (if err \<noteq> None then (evidence, err, ())
              else case find (\<lambda>m. mi_Market m = rr_market runner) markets of
                     None \<Rightarrow> evidence_error evidence ''market_not_found''
                   | Some market \<Rightarrow>
                       let evidence = evidence\<lparr>ev_NativeMarket := mi_NativeMarket market\<rparr>
                       in if mi_Exchange market \<noteq> sc_Exchange (rr_client runner)
                          then evidence_error evidence ''unexpected_exchange''
                          else if TrimSpace (mi_NativeMarket market) = []
                          then evidence_error evidence ''native_market_missing''
                          else (evidence, None, ()), w'))"

definition checkTicker :: "'w SpotReadRunner \<Rightarrow> (unit, 'w) checkFunc" where
  "checkTicker runner ctx w =
     (case sc_Ticker (rr_client runner) ctx \<lparr>tr_Market = rr_market runner\<rparr> (read_requestOptions runner) w of
        ((ticker, err), w') \<Rightarrow>
          let evidence = zeroEvidence\<lparr>ev_NativeMarket := tk_NativeMarket ticker\<rparr>
          in (if err \<noteq> None then (evidence, err, ())
              else if tk_Exchange ticker \<noteq> sc_Exchange (rr_client runner) \<or> tk_Market ticker \<noteq> rr_market runner
              then evidence_error evidence ''unexpected_ticker_identity''
              else if TrimSpace (tk_NativeMarket ticker) = [] then evidence_error evidence ''native_market_missing''
              else if validateDecimal (tk_Price ticker) False \<noteq> None then evidence_error evidence ''invalid_ticker_price''
              else (evidence, None, ()), w'))"

definition level_valid :: "BookLevel \<Rightarrow> bool" where
  "level_valid level \<longleftrightarrow> validateDecimal (bl_Price level) False = None \<and> validateDecimal (bl_Quantity level) False = None"

definition checkOrderBook :: "'w SpotReadRunner \<Rightarrow> (unit, 'w) checkFunc" where
  "checkOrderBook runner ctx w =
     (case sc_OrderBook (rr_client runner) ctx \<lparr>obr_Market = rr_market runner, obr_Limit = 5\<rparr> (read_requestOptions runner) w of
        ((book, err), w') \<Rightarrow>
          let evidence = zeroEvidence\<lparr>ev_Count := int (length (bo_Bids book)) + int (length (bo_Asks book)),
                ev_NativeMarket := bo_NativeMarket book\<rparr>
          in (if err \<noteq> None then (evidence, err, ())
              else if bo_Exchange book \<noteq> sc_Exchange (rr_client runner) \<or> bo_Market book \<noteq> rr_market runner
              then evidence_error evidence ''unexpected_order_book_identity''
              else if TrimSpace (bo_NativeMarket book) = [] then evidence_error evidence ''native_market_missing''
              else if bo_Bids book = [] \<or> bo_Asks book = [] then evidence_error evidence ''empty_order_book_side''
              else if \<not> list_all level_valid (bo_Bids book @ bo_Asks book)
              then evidence_error evidence ''invalid_order_book_level''
              else (evidence, None, ()), w'))"

definition checkRecentTrades :: "'w SpotReadRunner \<Rightarrow> (unit, 'w) checkFunc" where
  "checkRecentTrades runner ctx w =
     (case sc_RecentTrades (rr_client runner) ctx \<lparr>rtr_Market = rr_market runner, rtr_Limit = 5\<rparr> (read_requestOptions runner) w of
        ((trades, err), w') \<Rightarrow>
          let evidence = zeroEvidence\<lparr>ev_Count := int (length trades)\<rparr>
          in (if err \<noteq> None then (evidence, err, ())
              else if trades = [] then evidence_error evidence ''recent_trades_empty''
              else if list_ex (\<lambda>item. validateDecimal (pt_Price item) False \<noteq> None \<or>
                     validateDecimal (pt_Quantity item) False \<noteq> None \<or> (pt_Side item \<noteq> SideBuy \<and> pt_Side item \<noteq> SideSell)) trades
              then evidence_error evidence ''invalid_recent_trade''
              else (evidence, None, ()), w'))"

definition validateCandle :: "Candle \<Rightarrow> go_error option" where
  "validateCandle candle =
     (if cd_StartTime candle \<le> 0 then Some (invalidEvidence ''invalid_candle_time'')
      else case (decimal (cd_Open candle) False, decimal (cd_High candle) False, decimal (cd_Low candle) False,
                 decimal (cd_Close candle) False) of
             (Inr openValue, Inr high, Inr low, Inr closeValue) \<Rightarrow>
               if validateDecimal (cd_Volume candle) True \<noteq> None then Some (invalidEvidence ''invalid_candle_volume'')
               else if high < low \<or> high < openValue \<or> high < closeValue \<or> openValue < low \<or> closeValue < low
               then Some (invalidEvidence ''invalid_candle_range'')
               else None
           | _ \<Rightarrow> Some (invalidEvidence ''invalid_candle_price''))"

abbreviation Candle1Minute :: CandleInterval where "Candle1Minute \<equiv> ''1m''"

definition checkCandles :: "'w SpotReadRunner \<Rightarrow> (unit, 'w) checkFunc" where
  "checkCandles runner ctx w =
     (case sc_Candles (rr_client runner) ctx \<lparr>cr_Market = rr_market runner, cr_Interval = Candle1Minute, cr_Limit = 5\<rparr>
             (read_requestOptions runner) w of
        ((candles, err), w') \<Rightarrow>
          let evidence = zeroEvidence\<lparr>ev_Count := int (length candles)\<rparr>
          in (if err \<noteq> None then (evidence, err, ())
              else if candles = [] then evidence_error evidence ''candles_empty''
              else case find (\<lambda>c. validateCandle c \<noteq> None) candles of
                     Some bad \<Rightarrow> (evidence, validateCandle bad, ())
                   | None \<Rightarrow> (evidence, None, ()), w'))"

definition checkBalances :: "'w SpotReadRunner \<Rightarrow> (unit, 'w) checkFunc" where
  "checkBalances runner ctx w =
     (case sc_Balances (rr_client runner) ctx (read_requestOptions runner) w of
        ((balances, err), w') \<Rightarrow>
          let evidence = zeroEvidence\<lparr>ev_Count := int (length balances)\<rparr>
          in (if err \<noteq> None then (evidence, err, ())
              else if list_ex (\<lambda>b. TrimSpace (ba_Asset b) = [] \<or> validateDecimal (ba_Available b) True \<noteq> None \<or>
                     validateDecimal (ba_Locked b) True \<noteq> None) balances
              then evidence_error evidence ''invalid_balance''
              else (evidence, None, ()), w'))"

definition read_checks :: "'w SpotReadRunner \<Rightarrow> (string \<times> (unit, 'w) checkFunc) list" where
  "read_checks runner =
     [(''markets'', checkMarkets runner), (''ticker'', checkTicker runner), (''order_book'', checkOrderBook runner),
      (''recent_trades'', checkRecentTrades runner), (''candles'', checkCandles runner)] @
     (if rr_includeBalances runner then [(''balances'', checkBalances runner)] else [])"

text \<open>The two loops over the named checks.\<close>

fun append_checks ::
  "('w \<Rightarrow> int) \<Rightarrow> go_context \<Rightarrow> int \<Rightarrow> (string \<times> (unit, 'w) checkFunc) list \<Rightarrow> CheckResult list \<Rightarrow> 'w \<Rightarrow>
   CheckResult list \<times> 'w" where
  "append_checks now ctx timeout [] results w = (results, w)"
| "append_checks now ctx timeout ((name, check) # rest) results w =
     (case executeCheck now ctx timeout name check w of
        (result, _, w') \<Rightarrow> append_checks now ctx timeout rest (results @ [result]) w')"

definition SpotReadRunner_Run ::
  "('w \<Rightarrow> int) \<Rightarrow> 'w SpotReadRunner \<Rightarrow> go_context option \<Rightarrow> 'w \<Rightarrow> (ReadReport option \<times> go_error option) \<times> 'w" where
  "SpotReadRunner_Run now runner context w =
     (case context of
        None \<Rightarrow> ((None, Some (errorText ''smoke context cannot be nil'')), w)
      | Some ctx \<Rightarrow>
          (case executeCheck now ctx (rr_checkTimeout runner) ''egress_ip''
                  (verifyEgress (rr_egressVerifier runner) (rr_routeID runner) (rr_publicIPEndpoint runner)) w of
             (egress, _, w1) \<Rightarrow>
               (case (if ck_Status egress \<noteq> CheckPassed
                      then (egress # map (\<lambda>(name, check). skippedCheck (now w1) name ''egress_verification_failed'')
                              (read_checks runner), w1)
                      else append_checks now ctx (rr_checkTimeout runner) (read_checks runner) [egress] w1) of
                  (results, w2) \<Rightarrow>
                    let failed = length (filter (\<lambda>check. ck_Status check \<noteq> CheckPassed) results);
                        report = \<lparr>rp_Version = ReadReportVersion, rp_Kind = ''spot_read'',
                          rp_Exchange = sc_Exchange (rr_client runner), rp_Product = ''spot'', rp_Market = \<lparr>me_Base = mk_Base (rr_market runner), me_Quote = mk_Quote (rr_market runner)\<rparr>,
                          rp_EgressRouteID = rr_routeID runner, rp_PrivateRead = rr_includeBalances runner,
                          rp_StartedAt = now w, rp_CompletedAt = now w2, rp_Passed = (failed = 0), rp_Checks = results\<rparr>
                    in ((Some report,
                         if 0 < failed
                         then Some (Errorf ''%w: %d checks did not pass'' [IntArg (int failed)] [Sentinel ErrReadSmokeFailed])
                         else None), w2))))"

section \<open>Properties of the read check\<close>

lemma executeCheck_name: "executeCheck now ctx timeout name check w = (res, x, w') \<Longrightarrow> ck_Name res = name"
  by (auto simp: executeCheck_def Let_def split: prod.splits option.splits)

lemma append_checks_names:
  "append_checks now ctx timeout checks results w = (results', w') \<Longrightarrow>
     \<exists>more_results. results' = results @ more_results \<and> map ck_Name more_results = map fst checks"
proof (induction checks arbitrary: results w)
  case (Cons c checks)
  obtain name check where c: "c = (name, check)" by (cases c)
  obtain res x w1 where res: "executeCheck now ctx timeout name check w = (res, x, w1)" by (metis prod.collapse)
  with Cons.prems c have "append_checks now ctx timeout checks (results @ [res]) w1 = (results', w')" by simp
  from Cons.IH [OF this] executeCheck_name [OF res] c show ?case by auto
qed simp

text \<open>The read check reports what happened: its report has exactly the checks of the runner in their order,
  it passes and returns no error exactly when every one of them passed, and when the egress route was
  not verified no call is made after the verification (the world is the one the verifier left) and
  every other check is marked as skipped.\<close>

theorem read_smoke_report:
  assumes "SpotReadRunner_Run now r (Some ctx) w = ((Some report, err), w')"
  shows "map ck_Name (rp_Checks report) = ''egress_ip'' # map fst (read_checks r) \<and>
    (rp_Passed report \<longleftrightarrow> list_all (\<lambda>c. ck_Status c = CheckPassed) (rp_Checks report)) \<and>
    (err = None \<longleftrightarrow> rp_Passed report) \<and>
    (ck_Status (hd (rp_Checks report)) \<noteq> CheckPassed \<longrightarrow>
       w' = snd (rr_egressVerifier r (WithTimeoutCtx ctx (rr_checkTimeout r)) (rr_routeID r) (rr_publicIPEndpoint r) w) \<and>
       list_all (\<lambda>c. ck_Status c = CheckSkipped) (tl (rp_Checks report)))"
proof -
  let ?t = "rr_checkTimeout r"
  let ?verify = "verifyEgress (rr_egressVerifier r) (rr_routeID r) (rr_publicIPEndpoint r)"
  obtain egress x w1 where egress: "executeCheck now ctx ?t ''egress_ip'' ?verify w = (egress, x, w1)" by (metis prod.collapse)
  define out where "out = (if ck_Status egress \<noteq> CheckPassed
      then (egress # map (\<lambda>(name, check). skippedCheck (now w1) name ''egress_verification_failed'') (read_checks r), w1)
      else append_checks now ctx ?t (read_checks r) [egress] w1)"
  have report: "rp_Checks report = fst out" "w' = snd out"
    "rp_Passed report \<longleftrightarrow> filter (\<lambda>c. ck_Status c \<noteq> CheckPassed) (fst out) = []" "err = None \<longleftrightarrow> rp_Passed report"
    using assms egress by (auto simp: SpotReadRunner_Run_def out_def [symmetric] Let_def split: prod.splits if_splits)
  have w1: "w1 = snd (rr_egressVerifier r (WithTimeoutCtx ctx ?t) (rr_routeID r) (rr_publicIPEndpoint r) w)"
    using egress by (auto simp: executeCheck_def verifyEgress_def Let_def split: prod.splits option.splits if_splits)
  have "\<exists>rest. fst out = egress # rest \<and> map ck_Name rest = map fst (read_checks r) \<and>
      (ck_Status egress \<noteq> CheckPassed \<longrightarrow> snd out = w1 \<and> list_all (\<lambda>c. ck_Status c = CheckSkipped) rest)"
  proof (cases "ck_Status egress = CheckPassed")
    case True
    then have "append_checks now ctx ?t (read_checks r) [egress] w1 = (fst out, snd out)" by (simp add: out_def)
    from append_checks_names [OF this] True show ?thesis by auto
  next
    case False
    then show ?thesis by (auto simp: out_def skippedCheck_def list_all_iff)
  qed
  then obtain rest where "fst out = egress # rest" "map ck_Name rest = map fst (read_checks r)"
    "ck_Status egress \<noteq> CheckPassed \<longrightarrow> snd out = w1 \<and> list_all (\<lambda>c. ck_Status c = CheckSkipped) rest" by auto
  with report w1 executeCheck_name [OF egress] show ?thesis
    by (auto simp: filter_empty_conv list_all_iff)
qed

definition read_demo_client :: "unit SpotClient" where
  "read_demo_client =
     \<lparr>sc_Exchange = ''binance'', sc_Markets = (\<lambda>c opts w. (([], None), w)),
      sc_Ticker = (\<lambda>c rq opts w. ((\<lparr>tk_Exchange = [], tk_Market = tr_Market rq, tk_NativeMarket = [], tk_Price = []\<rparr>, None), w)),
      sc_OrderBook = (\<lambda>c rq opts w. ((\<lparr>bo_Exchange = [], bo_Market = obr_Market rq, bo_NativeMarket = [], bo_Bids = [],
        bo_Asks = [], bo_Timestamp = 0\<rparr>, None), w)),
      sc_RecentTrades = (\<lambda>c rq opts w. (([], None), w)), sc_Candles = (\<lambda>c rq opts w. (([], None), w)),
      sc_Balances = (\<lambda>c opts w. (([], None), w)), sc_PlaceOrder = (\<lambda>c rq opts w. (Inl (errorText ''no''), w)),
      sc_Order = (\<lambda>c rq opts w. (Inl (errorText ''no''), w)), sc_CancelOrder = (\<lambda>c rq opts w. (Inl (errorText ''no''), w)),
      sc_OpenOrders = (\<lambda>c rq opts w. (Inr [], w))\<rparr>"

definition read_demo_runner :: "unit SpotReadRunner" where
  "read_demo_runner =
     \<lparr>rr_client = read_demo_client, rr_egressVerifier = (\<lambda>c route endpoint w. ((zeroPublicIPCheck, None), w)),
      rr_market = \<lparr>mk_Base = ''BTC'', mk_Quote = ''USDT''\<rparr>, rr_routeID = ''r1'', rr_publicIPEndpoint = DefaultPublicIPEndpoint,
      rr_checkTimeout = 10000000000, rr_includeBalances = True\<rparr>"

theorem read_smoke_report_witness:
  "\<exists>report err. SpotReadRunner_Run (\<lambda>_. 0) read_demo_runner (Some Background) () = ((Some report, err), ()) \<and>
     map ck_Name (rp_Checks report) =
       [''egress_ip'', ''markets'', ''ticker'', ''order_book'', ''recent_trades'', ''candles'', ''balances''] \<and>
     (err = None \<longleftrightarrow> rp_Passed report)"
proof -
  obtain rep err u where out: "SpotReadRunner_Run (\<lambda>_. 0) read_demo_runner (Some Background) () = ((rep, err), u)"
    by (cases "SpotReadRunner_Run (\<lambda>_. 0) read_demo_runner (Some Background) ()") auto
  have "fst (fst (SpotReadRunner_Run (\<lambda>_. 0) read_demo_runner (Some Background) ())) \<noteq> None" by code_simp
  then obtain report where run: "SpotReadRunner_Run (\<lambda>_. 0) read_demo_runner (Some Background) () = ((Some report, err), ())"
    using out by auto
  from read_smoke_report [OF run] run show ?thesis by (auto simp: read_checks_def read_demo_runner_def)
qed

end
