(* ===== verification/Smoke_Trade.thy ===== *)
theory Smoke_Trade
  imports Smoke_Checks
begin

text \<open>
  Package \<open>smoke\<close>, the live trade check (\<open>smoke/trade.go\<close>): one post-only order is placed,
  queried, cancelled and verified on the chosen egress route. The lemmas show that the order is placed
  only behind verified prerequisites, at most once and within the confirmed maximum, and that
  whenever it may exist its cancellation is attempted, also after the caller gave up.
\<close>

section \<open>Data\<close>

text \<open>The confirmation the caller has to spell out, as UTF-8 bytes.\<close>

definition RealOrderConfirmation :: string where
  "RealOrderConfirmation =
     [CHR 0xEC, CHR 0x8B, CHR 0xA4, CHR 0xEC, CHR 0xA0, CHR 0x9C, CHR 0x2D, CHR 0xEC, CHR 0xA3, CHR 0xBC, CHR 0xEB,
      CHR 0xAC, CHR 0xB8, CHR 0x2D, CHR 0xEC, CHR 0x83, CHR 0x9D, CHR 0xEC, CHR 0x84, CHR 0xB1, CHR 0xEC, CHR
      0x97, CHR 0x90, CHR 0x2D, CHR 0xEB, CHR 0x8F, CHR 0x99, CHR 0xEC, CHR 0x9D, CHR 0x98, CHR 0xED, CHR
      0x95, CHR 0xA9, CHR 0xEB, CHR 0x8B, CHR 0x88, CHR 0xEB, CHR 0x8B, CHR 0xA4]"

record 'w SpotTradeConfig =
  tcfg_Client :: "'w SpotClient option"
  tcfg_EgressVerifier :: "'w EgressVerifier option"
  tcfg_Market :: Market
  tcfg_EgressRouteID :: EgressRouteID
  tcfg_PublicIPEndpoint :: string
  tcfg_CheckTimeout :: int
  tcfg_Side :: Side
  tcfg_Price :: string
  tcfg_Quantity :: string
  tcfg_MaxNotional :: string
  tcfg_ClientOrderID :: string
  tcfg_Confirmation :: string

record TradeReport =
  tp_Version :: int
  tp_Kind :: string
  tp_Exchange :: ExchangeID
  tp_Product :: string
  tp_Market :: MarketEvidence
  tp_EgressRouteID :: EgressRouteID
  tp_Side :: Side
  tp_StartedAt :: int
  tp_CompletedAt :: int
  tp_Passed :: bool
  tp_CleanupAttempted :: bool
  tp_CancellationConfirmed :: bool
  tp_Checks :: "CheckResult list"

record 'w SpotTradeRunner =
  tt_client :: "'w SpotClient"
  tt_egressVerifier :: "'w EgressVerifier"
  tt_market :: Market
  tt_routeID :: EgressRouteID
  tt_publicIPEndpoint :: string
  tt_checkTimeout :: int
  tt_side :: Side
  tt_price :: string
  tt_quantity :: string
  tt_clientOrderID :: string

section \<open>Construction\<close>

definition trade_limits :: "'w SpotTradeConfig \<Rightarrow> go_error option" where
  "trade_limits config =
     (case decimal (tcfg_Price config) False of
        Inl _ \<Rightarrow> Some (errorText ''trade smoke price must be a positive decimal'')
      | Inr price \<Rightarrow>
          (case decimal (tcfg_Quantity config) False of
             Inl _ \<Rightarrow> Some (errorText ''trade smoke quantity must be a positive decimal'')
           | Inr quantity \<Rightarrow>
               (case decimal (tcfg_MaxNotional config) False of
                  Inl _ \<Rightarrow> Some (errorText ''trade smoke maximum notional must be a positive decimal'')
                | Inr maximum \<Rightarrow>
                    if maximum < price * quantity
                    then Some (errorText ''trade smoke order notional exceeds configured maximum'')
                    else if tcfg_ClientOrderID config = [] \<or> TrimSpace (tcfg_ClientOrderID config) \<noteq> tcfg_ClientOrderID config
                    then Some (errorText ''trade smoke client order ID is required without surrounding whitespace'')
                    else if tcfg_Confirmation config \<noteq> RealOrderConfirmation
                    then Some (errorText ''trade smoke real-order confirmation does not match'')
                    else None)))"

definition NewSpotTradeRunner :: "'w SpotTradeConfig \<Rightarrow> 'w SpotTradeRunner result" where
  "NewSpotTradeRunner config =
     (case tcfg_Client config of
        None \<Rightarrow> Inl (errorText ''smoke Spot client is required'')
      | Some client \<Rightarrow>
          if \<not> ExchangeID_Valid (sc_Exchange client) then Inl (errorText ''smoke Spot client exchange is required'')
          else case tcfg_EgressVerifier config of
            None \<Rightarrow> Inl (errorText ''smoke egress verifier is required'')
          | Some verifier \<Rightarrow>
              (case Market_Validate (tcfg_Market config) of
                 Some err \<Rightarrow> Inl err
               | None \<Rightarrow>
                   let routeID = TrimSpace (tcfg_EgressRouteID config)
                   in if routeID = [] then Inl (Sentinel ErrMissingEgressRoute)
                      else if tcfg_Side config \<noteq> SideBuy \<and> tcfg_Side config \<noteq> SideSell
                      then Inl (errorText ''trade smoke side must be buy or sell'')
                      else case trade_limits config of
                        Some err \<Rightarrow> Inl err
                      | None \<Rightarrow>
                          let endpoint = (if tcfg_PublicIPEndpoint config = [] then DefaultPublicIPEndpoint
                                          else tcfg_PublicIPEndpoint config);
                              timeout = (if tcfg_CheckTimeout config = 0 then defaultCheckTimeout
                                         else tcfg_CheckTimeout config)
                          in if timeout < 0 then Inl (errorText ''smoke check timeout must be positive'')
                             else Inr \<lparr>tt_client = client, tt_egressVerifier = verifier, tt_market = tcfg_Market config,
                                       tt_routeID = routeID, tt_publicIPEndpoint = endpoint, tt_checkTimeout = timeout,
                                       tt_side = tcfg_Side config, tt_price = tcfg_Price config,
                                       tt_quantity = tcfg_Quantity config, tt_clientOrderID = tcfg_ClientOrderID config\<rparr>))"

section \<open>The checks\<close>

definition trade_requestOptions :: "'w SpotTradeRunner \<Rightarrow> RequestOption option list" where
  "trade_requestOptions runner = [Some (WithEgressRoute (tt_routeID runner)), Some (WithTimeout (tt_checkTimeout runner))]"

text \<open>The loops of \<open>bestPrices\<close>: the best price so far, or nothing when a level is invalid.\<close>

fun best_price :: "bool \<Rightarrow> BookLevel list \<Rightarrow> rat option \<Rightarrow> rat option option" where
  "best_price highest [] best = Some best"
| "best_price highest (level # rest) best =
     (case decimal (bl_Price level) False of
        Inl _ \<Rightarrow> None
      | Inr price \<Rightarrow>
          if validateDecimal (bl_Quantity level) False \<noteq> None then None
          else best_price highest rest
                 (case best of
                    None \<Rightarrow> Some price
                  | Some b \<Rightarrow> if (if highest then b < price else price < b) then Some price else Some b))"

definition bestPrices :: "OrderBook \<Rightarrow> (rat \<times> rat) result" where
  "bestPrices book =
     (if bo_Bids book = [] \<or> bo_Asks book = [] then Inl (invalidEvidence ''empty_order_book_side'')
      else case best_price True (bo_Bids book) None of
             Some (Some bestBid) \<Rightarrow>
               (case best_price False (bo_Asks book) None of
                  Some (Some bestAsk) \<Rightarrow> Inr (bestBid, bestAsk)
                | _ \<Rightarrow> Inl (invalidEvidence ''invalid_order_book_level''))
           | _ \<Rightarrow> Inl (invalidEvidence ''invalid_order_book_level''))"

definition book_safety :: "'w SpotTradeRunner \<Rightarrow> OrderBook \<Rightarrow> go_error option" where
  "book_safety runner book =
     (if bo_Exchange book \<noteq> sc_Exchange (tt_client runner) \<or> bo_Market book \<noteq> tt_market runner
      then Some (invalidEvidence ''unexpected_order_book_identity'')
      else case bestPrices book of
             Inl err \<Rightarrow> Some err
           | Inr (bestBid, bestAsk) \<Rightarrow>
               if bestAsk \<le> bestBid then Some (invalidEvidence ''crossed_order_book'')
               else
                 let orderPrice = (case decimal (tt_price runner) False of Inr p \<Rightarrow> p | Inl _ \<Rightarrow> 0)
                 in if tt_side runner = SideBuy \<and> bestAsk \<le> orderPrice
                    then Some (invalidEvidence ''buy_price_crosses_best_ask'')
                    else if tt_side runner = SideSell \<and> orderPrice \<le> bestBid
                    then Some (invalidEvidence ''sell_price_crosses_best_bid'')
                    else None)"

definition checkOrderBookSafety :: "'w SpotTradeRunner \<Rightarrow> (unit, 'w) checkFunc" where
  "checkOrderBookSafety runner ctx w =
     (case sc_OrderBook (tt_client runner) ctx \<lparr>obr_Market = tt_market runner, obr_Limit = 5\<rparr> (trade_requestOptions runner) w of
        ((book, err), w') \<Rightarrow>
          let evidence = zeroEvidence\<lparr>ev_Count := int (length (bo_Bids book)) + int (length (bo_Asks book)),
                ev_NativeMarket := bo_NativeMarket book\<rparr>
          in ((evidence, if err \<noteq> None then err else book_safety runner book, ()), w'))"

definition trade_validateOrderIdentity :: "'w SpotTradeRunner \<Rightarrow> Order \<Rightarrow> go_error option" where
  "trade_validateOrderIdentity runner order =
     (if od_Exchange order \<noteq> sc_Exchange (tt_client runner) \<or> od_Market order \<noteq> tt_market runner
      then Some (invalidEvidence ''unexpected_order_identity'')
      else if od_ID order = [] \<and> od_ClientOrderID order = [] then Some (invalidEvidence ''order_identity_missing'')
      else if od_ClientOrderID order \<noteq> [] \<and> od_ClientOrderID order \<noteq> tt_clientOrderID runner
      then Some (invalidEvidence ''unexpected_client_order_id'')
      else None)"

definition order_evidence :: "Order \<Rightarrow> CheckEvidence" where
  "order_evidence order = zeroEvidence\<lparr>ev_OrderStatus := od_Status order\<rparr>"

text \<open>The closure of the identity: the order's own ID replaces the client order ID once it is known.\<close>

definition note_identity :: "'w SpotTradeRunner \<Rightarrow> Order \<Rightarrow> OrderRequest \<Rightarrow> OrderRequest" where
  "note_identity runner order identity =
     (if od_ID order \<noteq> [] then \<lparr>or_Market = tt_market runner, or_OrderID = od_ID order, or_ClientOrderID = []\<rparr> else identity)"

definition placeRequest :: "'w SpotTradeRunner \<Rightarrow> PlaceOrderRequest" where
  "placeRequest runner =
     \<lparr>po_Market = tt_market runner, po_Side = tt_side runner, po_Type = OrderTypeLimit,
      po_TimeInForce = TimeInForcePostOnly, po_Quantity = tt_quantity runner, po_QuoteAmount = [],
      po_Price = tt_price runner, po_ClientOrderID = tt_clientOrderID runner\<rparr>"

definition place_order :: "'w SpotTradeRunner \<Rightarrow> OrderRequest \<Rightarrow> (bool \<times> OrderRequest, 'w) checkFunc" where
  "place_order runner identity ctx w =
     (case sc_PlaceOrder (tt_client runner) ctx (placeRequest runner) (trade_requestOptions runner) w of
        (Inl err, w') \<Rightarrow> ((zeroEvidence, Some err, (False, identity)), w')
      | (Inr order, w') \<Rightarrow>
          (case trade_validateOrderIdentity runner order of
             Some err \<Rightarrow> ((order_evidence order, Some err, (True, identity)), w')
           | None \<Rightarrow> ((order_evidence order, None, (True, note_identity runner order identity)), w')))"

definition query_order :: "'w SpotTradeRunner \<Rightarrow> OrderRequest \<Rightarrow> (OrderRequest, 'w) checkFunc" where
  "query_order runner identity ctx w =
     (case sc_Order (tt_client runner) ctx identity (trade_requestOptions runner) w of
        (Inl err, w') \<Rightarrow> ((zeroEvidence, Some err, identity), w')
      | (Inr order, w') \<Rightarrow>
          (case trade_validateOrderIdentity runner order of
             Some err \<Rightarrow> ((order_evidence order, Some err, identity), w')
           | None \<Rightarrow> ((order_evidence order, None, note_identity runner order identity), w')))"

definition cancel_order :: "'w SpotTradeRunner \<Rightarrow> OrderRequest \<Rightarrow> (unit, 'w) checkFunc" where
  "cancel_order runner identity ctx w =
     (case sc_CancelOrder (tt_client runner) ctx identity (trade_requestOptions runner) w of
        (Inl err, w') \<Rightarrow> ((zeroEvidence, Some err, ()), w')
      | (Inr order, w') \<Rightarrow> ((order_evidence order, None, ()), w'))"

definition canceled_evidence :: "'w SpotTradeRunner \<Rightarrow> Order \<Rightarrow> go_error option" where
  "canceled_evidence runner order =
     (case trade_validateOrderIdentity runner order of
        Some err \<Rightarrow> Some err
      | None \<Rightarrow>
          if od_Status order \<noteq> OrderStatusCanceled then Some (invalidEvidence ''order_not_canceled'')
          else case decimal (od_ExecutedQuantity order) True of
                 Inl _ \<Rightarrow> Some (invalidEvidence ''invalid_executed_quantity'')
               | Inr executed \<Rightarrow> if executed \<noteq> 0 then Some (invalidEvidence ''order_executed'') else None)"

definition verify_canceled :: "'w SpotTradeRunner \<Rightarrow> OrderRequest \<Rightarrow> (bool, 'w) checkFunc" where
  "verify_canceled runner identity ctx w =
     (case sc_Order (tt_client runner) ctx identity (trade_requestOptions runner) w of
        (Inl err, w') \<Rightarrow> ((zeroEvidence, Some err, False), w')
      | (Inr order, w') \<Rightarrow>
          (case canceled_evidence runner order of
             Some err \<Rightarrow> ((order_evidence order, Some err, False), w')
           | None \<Rightarrow> ((order_evidence order, None, True), w')))"

section \<open>The run\<close>

definition trade_finish :: "int \<Rightarrow> TradeReport \<Rightarrow> TradeReport \<times> go_error option" where
  "trade_finish now report =
     (let notPassed = length (filter (\<lambda>check. ck_Status check \<noteq> CheckPassed) (tp_Checks report));
          passed = (notPassed = 0 \<and> tp_CancellationConfirmed report);
          report = report\<lparr>tp_CompletedAt := now, tp_Passed := passed\<rparr>
      in (report, if passed then None
                  else Some (Errorf ''%w: %d checks did not pass'' [IntArg (int notPassed)] [Sentinel ErrTradeSmokeFailed])))"

definition skip_checks :: "int \<Rightarrow> string list \<Rightarrow> string \<Rightarrow> TradeReport \<Rightarrow> TradeReport" where
  "skip_checks now names reason report =
     report\<lparr>tp_Checks := tp_Checks report @ map (\<lambda>name. skippedCheck now name reason) names\<rparr>"

abbreviation add_check :: "CheckResult \<Rightarrow> TradeReport \<Rightarrow> TradeReport" where
  "add_check c report \<equiv> report\<lparr>tp_Checks := tp_Checks report @ [c]\<rparr>"

text \<open>From the moment the order may exist: query, cancel and verify, whatever happens.\<close>

definition trade_cleanup ::
  "('w \<Rightarrow> int) \<Rightarrow> 'w SpotTradeRunner \<Rightarrow> go_context \<Rightarrow> OrderRequest \<Rightarrow> TradeReport \<Rightarrow> 'w \<Rightarrow>
   (TradeReport \<times> go_error option) \<times> 'w" where
  "trade_cleanup now runner ctx identity report w =
     (case executeCheck now ctx (tt_checkTimeout runner) ''query_order'' (query_order runner identity) w of
        (query, identity, w) \<Rightarrow>
          let report = (add_check query report)\<lparr>tp_CleanupAttempted := True\<rparr>; cleanupContext = WithoutCancelCtx ctx
          in case executeCheck now cleanupContext (tt_checkTimeout runner) ''cancel_order'' (cancel_order runner identity) w of
               (cancel, _, w) \<Rightarrow>
                 (case executeCheck now cleanupContext (tt_checkTimeout runner) ''verify_canceled''
                         (verify_canceled runner identity) w of
                    (verify, confirmed, w) \<Rightarrow>
                      (trade_finish (now w)
                         ((add_check verify (add_check cancel report))\<lparr>tp_CancellationConfirmed := confirmed\<rparr>), w)))"

definition trade_place ::
  "('w \<Rightarrow> int) \<Rightarrow> 'w SpotTradeRunner \<Rightarrow> go_context \<Rightarrow> TradeReport \<Rightarrow> 'w \<Rightarrow> (TradeReport \<times> go_error option) \<times> 'w" where
  "trade_place now runner ctx report w =
     (let identity = \<lparr>or_Market = tt_market runner, or_OrderID = [], or_ClientOrderID = tt_clientOrderID runner\<rparr>
      in case executeCheck now ctx (tt_checkTimeout runner) ''place_order'' (place_order runner identity) w of
           (place, (succeeded, identity), w) \<Rightarrow>
             let report = add_check place report;
                 mayExist = (succeeded \<or> ck_Status place = CheckPassed \<or>
                   (case ck_Failure place of Some f \<Rightarrow> cf_Category f = ErrorUnknownExecutionState | None \<Rightarrow> False))
             in if \<not> mayExist
                then (trade_finish (now w)
                        (skip_checks (now w) [''query_order'', ''cancel_order'', ''verify_canceled''] ''order_not_created'' report), w)
                else trade_cleanup now runner ctx identity report w)"

definition SpotTradeRunner_Run ::
  "('w \<Rightarrow> int) \<Rightarrow> 'w SpotTradeRunner \<Rightarrow> go_context option \<Rightarrow> 'w \<Rightarrow> (TradeReport option \<times> go_error option) \<times> 'w" where
  "SpotTradeRunner_Run now runner context w =
     (case context of
        None \<Rightarrow> ((None, Some (errorText ''smoke context cannot be nil'')), w)
      | Some ctx \<Rightarrow>
          let report = \<lparr>tp_Version = ReadReportVersion, tp_Kind = ''spot_trade'',
                tp_Exchange = sc_Exchange (tt_client runner), tp_Product = ''spot'',
                tp_Market = \<lparr>me_Base = mk_Base (tt_market runner), me_Quote = mk_Quote (tt_market runner)\<rparr>,
                tp_EgressRouteID = tt_routeID runner, tp_Side = tt_side runner, tp_StartedAt = now w, tp_CompletedAt = 0,
                tp_Passed = False, tp_CleanupAttempted = False, tp_CancellationConfirmed = False, tp_Checks = []\<rparr>
          in apfst (apfst Some)
            (case executeCheck now ctx (tt_checkTimeout runner) ''egress_ip''
                    (verifyEgress (tt_egressVerifier runner) (tt_routeID runner) (tt_publicIPEndpoint runner)) w of
               (egress, _, w) \<Rightarrow>
                 let report = add_check egress report
                 in if ck_Status egress \<noteq> CheckPassed
                    then (trade_finish (now w)
                            (skip_checks (now w) [''order_book_safety'', ''place_order'', ''query_order'', ''cancel_order'',
                               ''verify_canceled''] ''egress_verification_failed'' report), w)
                    else case executeCheck now ctx (tt_checkTimeout runner) ''order_book_safety''
                                (checkOrderBookSafety runner) w of
                           (safety, _, w) \<Rightarrow>
                             let report = add_check safety report
                             in if ck_Status safety \<noteq> CheckPassed
                                then (trade_finish (now w)
                                        (skip_checks (now w) [''place_order'', ''query_order'', ''cancel_order'',
                                           ''verify_canceled''] ''order_book_safety_failed'' report), w)
                                else trade_place now runner ctx report w))"

section \<open>Observing the outside\<close>

text \<open>The calls a run makes, with what they were answered. \<open>observed_client\<close> records them next to the
  world of an arbitrary client and changes nothing else.\<close>

datatype trade_event =
    VerifyCall EgressRouteID string "PublicIPCheck \<times> go_error option"
  | BookCall OrderBookRequest "RequestOption option list" "OrderBook \<times> go_error option"
  | PlaceCall PlaceOrderRequest "RequestOption option list" "Order result"
  | OrderCall OrderRequest "RequestOption option list" "Order result"
  | CancelCall go_context OrderRequest "RequestOption option list" "Order result"
  | OtherCall

definition logged :: "('r \<Rightarrow> trade_event) \<Rightarrow> ('w \<Rightarrow> 'r \<times> 'w) \<Rightarrow> 'w \<times> trade_event list \<Rightarrow> 'r \<times> 'w \<times> trade_event list" where
  "logged ev call = (\<lambda>(w, tr). case call w of (reply, w') \<Rightarrow> (reply, w', tr @ [ev reply]))"

lemma logged_apply: "logged ev call (w, tr) = (fst (call w), snd (call w), tr @ [ev (fst (call w))])"
  by (simp add: logged_def split: prod.split)

definition observed_client :: "'w SpotClient \<Rightarrow> ('w \<times> trade_event list) SpotClient" where
  "observed_client c =
     \<lparr>sc_Exchange = sc_Exchange c,
      sc_Markets = (\<lambda>ctx opts. logged (\<lambda>_. OtherCall) (sc_Markets c ctx opts)),
      sc_Ticker = (\<lambda>ctx rq opts. logged (\<lambda>_. OtherCall) (sc_Ticker c ctx rq opts)),
      sc_OrderBook = (\<lambda>ctx rq opts. logged (BookCall rq opts) (sc_OrderBook c ctx rq opts)),
      sc_RecentTrades = (\<lambda>ctx rq opts. logged (\<lambda>_. OtherCall) (sc_RecentTrades c ctx rq opts)),
      sc_Candles = (\<lambda>ctx rq opts. logged (\<lambda>_. OtherCall) (sc_Candles c ctx rq opts)),
      sc_Balances = (\<lambda>ctx opts. logged (\<lambda>_. OtherCall) (sc_Balances c ctx opts)),
      sc_PlaceOrder = (\<lambda>ctx rq opts. logged (PlaceCall rq opts) (sc_PlaceOrder c ctx rq opts)),
      sc_Order = (\<lambda>ctx rq opts. logged (OrderCall rq opts) (sc_Order c ctx rq opts)),
      sc_CancelOrder = (\<lambda>ctx rq opts. logged (CancelCall ctx rq opts) (sc_CancelOrder c ctx rq opts)),
      sc_OpenOrders = (\<lambda>ctx rq opts. logged (\<lambda>_. OtherCall) (sc_OpenOrders c ctx rq opts))\<rparr>"

definition observed_runner :: "'w SpotTradeRunner \<Rightarrow> ('w \<times> trade_event list) SpotTradeRunner" where
  "observed_runner r =
     \<lparr>tt_client = observed_client (tt_client r),
      tt_egressVerifier = (\<lambda>ctx route endpoint. logged (VerifyCall route endpoint) (tt_egressVerifier r ctx route endpoint)),
      tt_market = tt_market r, tt_routeID = tt_routeID r, tt_publicIPEndpoint = tt_publicIPEndpoint r,
      tt_checkTimeout = tt_checkTimeout r, tt_side = tt_side r, tt_price = tt_price r, tt_quantity = tt_quantity r,
      tt_clientOrderID = tt_clientOrderID r\<rparr>"

lemma observed_fields [simp]:
  "tt_market (observed_runner r) = tt_market r" "tt_routeID (observed_runner r) = tt_routeID r"
  "tt_checkTimeout (observed_runner r) = tt_checkTimeout r" "tt_clientOrderID (observed_runner r) = tt_clientOrderID r"
  "tt_publicIPEndpoint (observed_runner r) = tt_publicIPEndpoint r" "tt_side (observed_runner r) = tt_side r"
  "tt_price (observed_runner r) = tt_price r" "tt_quantity (observed_runner r) = tt_quantity r"
  "sc_Exchange (tt_client (observed_runner r)) = sc_Exchange (tt_client r)"
  by (simp_all add: observed_runner_def observed_client_def)

lemma observed_functions [simp]:
  "trade_requestOptions (observed_runner r) = trade_requestOptions r" "placeRequest (observed_runner r) = placeRequest r"
  "trade_validateOrderIdentity (observed_runner r) = trade_validateOrderIdentity r"
  "book_safety (observed_runner r) = book_safety r" "note_identity (observed_runner r) = note_identity r"
  "canceled_evidence (observed_runner r) = canceled_evidence r"
proof -
  show ident: "trade_validateOrderIdentity (observed_runner r) = trade_validateOrderIdentity r"
    by (simp add: trade_validateOrderIdentity_def fun_eq_iff)
  show "canceled_evidence (observed_runner r) = canceled_evidence r" by (simp add: canceled_evidence_def ident fun_eq_iff)
  show "book_safety (observed_runner r) = book_safety r" unfolding book_safety_def observed_fields ..
qed (simp_all add: trade_requestOptions_def placeRequest_def note_identity_def fun_eq_iff)

lemma observed_calls:
  "tt_egressVerifier (observed_runner r) ctx route endpoint = logged (VerifyCall route endpoint) (tt_egressVerifier r ctx route endpoint)"
  "sc_OrderBook (tt_client (observed_runner r)) ctx rq opts = logged (BookCall rq opts) (sc_OrderBook (tt_client r) ctx rq opts)"
  "sc_PlaceOrder (tt_client (observed_runner r)) ctx prq opts = logged (PlaceCall prq opts) (sc_PlaceOrder (tt_client r) ctx prq opts)"
  "sc_Order (tt_client (observed_runner r)) ctx oq opts = logged (OrderCall oq opts) (sc_Order (tt_client r) ctx oq opts)"
  "sc_CancelOrder (tt_client (observed_runner r)) ctx oq opts = logged (CancelCall ctx oq opts) (sc_CancelOrder (tt_client r) ctx oq opts)"
  by (simp_all add: observed_runner_def observed_client_def)

section \<open>What each check does\<close>

definition egress_confirmed :: "EgressRouteID \<Rightarrow> PublicIPCheck \<times> go_error option \<Rightarrow> bool" where
  "egress_confirmed route reply \<longleftrightarrow> snd reply = None \<and> pc_RouteID (fst reply) = route \<and>
     pc_ExpectedPublicIP (fst reply) \<noteq> None \<and> pc_ObservedPublicIP (fst reply) \<noteq> None \<and> pc_MatchesExpected (fst reply) \<and>
     IP_Equal (pc_ObservedPublicIP (fst reply)) (pc_ExpectedPublicIP (fst reply))"

definition book_safe :: "'w SpotTradeRunner \<Rightarrow> OrderBook \<times> go_error option \<Rightarrow> bool" where
  "book_safe r reply \<longleftrightarrow> snd reply = None \<and> book_safety r (fst reply) = None"

definition may_exist :: "Order result \<Rightarrow> bool" where
  "may_exist reply = (case reply of Inr _ \<Rightarrow> True | Inl err \<Rightarrow> cf_Category (classifyFailure err) = ErrorUnknownExecutionState)"

lemma executeCheck_result:
  assumes "executeCheck now ctx timeout name check w = (res, x, w')"
  shows "\<exists>ev err. check (WithTimeoutCtx ctx timeout) w = ((ev, err, x), w') \<and> ck_Name res = name \<and>
    (ck_Status res = CheckPassed \<longleftrightarrow> err = None) \<and> ck_Failure res = map_option classifyFailure err"
  using assms by (auto simp: executeCheck_def Let_def split: prod.splits option.splits)

lemma egress_check:
  assumes "executeCheck now ctx timeout name (verifyEgress (tt_egressVerifier (observed_runner r)) route endpoint) (w, tr) = (res, x, w2)"
  shows "\<exists>reply w'. w2 = (w', tr @ [VerifyCall route endpoint reply]) \<and> (ck_Status res = CheckPassed \<longleftrightarrow> egress_confirmed route reply)"
proof -
  let ?ctx = "WithTimeoutCtx ctx timeout"
  obtain ev err where call: "verifyEgress (tt_egressVerifier (observed_runner r)) route endpoint ?ctx (w, tr) = ((ev, err, x), w2)"
    "ck_Status res = CheckPassed \<longleftrightarrow> err = None"
    using executeCheck_result [OF assms] by auto
  obtain chk e w' where v: "tt_egressVerifier r ?ctx route endpoint w = ((chk, e), w')" by (metis prod.collapse)
  have "w2 = (w', tr @ [VerifyCall route endpoint (chk, e)]) \<and> (err = None \<longleftrightarrow> egress_confirmed route (chk, e))"
    using call(1) v by (auto simp: verifyEgress_def observed_calls logged_apply Let_def egress_confirmed_def split: if_splits)
  with call(2) show ?thesis by blast
qed

lemma safety_check:
  assumes "executeCheck now ctx timeout name (checkOrderBookSafety (observed_runner r)) (w, tr) = (res, x, w2)"
  shows "\<exists>reply w'. w2 = (w', tr @ [BookCall \<lparr>obr_Market = tt_market r, obr_Limit = 5\<rparr> (trade_requestOptions r) reply]) \<and>
     (ck_Status res = CheckPassed \<longleftrightarrow> book_safe r reply)"
proof -
  let ?ctx = "WithTimeoutCtx ctx timeout" and ?rq = "\<lparr>obr_Market = tt_market r, obr_Limit = 5\<rparr>"
  obtain ev err where call: "checkOrderBookSafety (observed_runner r) ?ctx (w, tr) = ((ev, err, x), w2)"
    "ck_Status res = CheckPassed \<longleftrightarrow> err = None"
    using executeCheck_result [OF assms] by auto
  obtain book e w' where v: "sc_OrderBook (tt_client r) ?ctx ?rq (trade_requestOptions r) w = ((book, e), w')" by (metis prod.collapse)
  have "w2 = (w', tr @ [BookCall ?rq (trade_requestOptions r) (book, e)]) \<and> (err = None \<longleftrightarrow> book_safe r (book, e))"
    using call(1) v by (auto simp: checkOrderBookSafety_def observed_calls logged_apply Let_def book_safe_def split: if_splits)
  with call(2) show ?thesis by blast
qed

text \<open>An identity names the order: by the client order ID that was sent, or by the ID in an answer
  that was checked to belong to it.\<close>

definition names_order :: "'w SpotTradeRunner \<Rightarrow> Order set \<Rightarrow> OrderRequest \<Rightarrow> bool" where
  "names_order r answers identity \<longleftrightarrow> or_Market identity = tt_market r \<and>
     (or_OrderID identity = [] \<and> or_ClientOrderID identity = tt_clientOrderID r \<or>
      (\<exists>ans \<in> answers. trade_validateOrderIdentity r ans = None \<and> or_OrderID identity = od_ID ans \<and> od_ID ans \<noteq> []))"

lemma names_order_mono: "names_order r A identity \<Longrightarrow> A \<subseteq> B \<Longrightarrow> names_order r B identity"
  by (auto simp: names_order_def)

lemma note_identity_names:
  "names_order r A identity \<Longrightarrow> trade_validateOrderIdentity r ans = None \<Longrightarrow> ans \<in> A \<Longrightarrow>
     names_order r A (note_identity r ans identity)"
  by (auto simp: names_order_def note_identity_def)

definition answers_of :: "Order result \<Rightarrow> Order set" where
  "answers_of reply = (case reply of Inr ans \<Rightarrow> {ans} | Inl _ \<Rightarrow> {})"

lemma place_check:
  assumes "executeCheck now ctx timeout name (place_order (observed_runner r) identity) (w, tr) = (res, (succeeded, identity'), w2)"
    and "names_order r {} identity"
  shows "\<exists>reply w'. w2 = (w', tr @ [PlaceCall (placeRequest r) (trade_requestOptions r) reply]) \<and>
     ((succeeded \<or> ck_Status res = CheckPassed \<or>
       (case ck_Failure res of Some f \<Rightarrow> cf_Category f = ErrorUnknownExecutionState | None \<Rightarrow> False)) \<longleftrightarrow> may_exist reply) \<and>
     names_order r (answers_of reply) identity'"
proof -
  let ?ctx = "WithTimeoutCtx ctx timeout"
  obtain ev err where call: "place_order (observed_runner r) identity ?ctx (w, tr) = ((ev, err, succeeded, identity'), w2)"
    and res: "ck_Status res = CheckPassed \<longleftrightarrow> err = None" "ck_Failure res = map_option classifyFailure err"
    using executeCheck_result [OF assms(1)] by auto
  obtain reply w' where v: "sc_PlaceOrder (tt_client r) ?ctx (placeRequest r) (trade_requestOptions r) w = (reply, w')" by (metis prod.collapse)
  have named: "names_order r (answers_of reply) identity" using names_order_mono [OF assms(2)] by simp
  have "w2 = (w', tr @ [PlaceCall (placeRequest r) (trade_requestOptions r) reply])"
    using call v by (auto simp: place_order_def observed_calls logged_apply split: sum.splits option.splits)
  moreover have "(succeeded \<or> err = None \<or>
      (case map_option classifyFailure err of Some f \<Rightarrow> cf_Category f = ErrorUnknownExecutionState | None \<Rightarrow> False)) \<longleftrightarrow> may_exist reply"
    using call v by (auto simp: place_order_def observed_calls logged_apply may_exist_def split: sum.splits option.splits)
  moreover have "names_order r (answers_of reply) identity'"
    using call v named note_identity_names [of r "answers_of reply" identity]
    by (auto simp: place_order_def observed_calls logged_apply answers_of_def split: sum.splits option.splits)
  ultimately show ?thesis using res by (intro exI [of _ reply] exI [of _ w']) simp
qed

lemma query_check:
  assumes "executeCheck now ctx timeout name (query_order (observed_runner r) identity) (w, tr) = (res, identity', w2)"
    and "names_order r A identity"
  shows "\<exists>reply w'. w2 = (w', tr @ [OrderCall identity (trade_requestOptions r) reply]) \<and>
     names_order r (A \<union> answers_of reply) identity'"
proof -
  let ?ctx = "WithTimeoutCtx ctx timeout"
  obtain ev err where call: "query_order (observed_runner r) identity ?ctx (w, tr) = ((ev, err, identity'), w2)"
    using executeCheck_result [OF assms(1)] by auto
  obtain reply w' where v: "sc_Order (tt_client r) ?ctx identity (trade_requestOptions r) w = (reply, w')" by (metis prod.collapse)
  have named: "names_order r (A \<union> answers_of reply) identity" using names_order_mono [OF assms(2)] by simp
  have "w2 = (w', tr @ [OrderCall identity (trade_requestOptions r) reply])"
    using call v by (auto simp: query_order_def observed_calls logged_apply split: sum.splits option.splits)
  moreover have "names_order r (A \<union> answers_of reply) identity'"
    using call v named note_identity_names [of r "A \<union> answers_of reply" identity]
    by (auto simp: query_order_def observed_calls logged_apply answers_of_def split: sum.splits option.splits)
  ultimately show ?thesis by blast
qed


lemma cancel_check:
  assumes "executeCheck now ctx timeout name (cancel_order (observed_runner r) identity) (w, tr) = (res, x, w2)"
  shows "\<exists>reply w'. w2 = (w', tr @ [CancelCall (WithTimeoutCtx ctx timeout) identity (trade_requestOptions r) reply]) \<and>
     (ck_Status res = CheckPassed \<longleftrightarrow> (\<exists>ans. reply = Inr ans))"
proof -
  let ?ctx = "WithTimeoutCtx ctx timeout"
  obtain ev err where call: "cancel_order (observed_runner r) identity ?ctx (w, tr) = ((ev, err, x), w2)"
    and res: "ck_Status res = CheckPassed \<longleftrightarrow> err = None"
    using executeCheck_result [OF assms] by auto
  obtain reply w' where v: "sc_CancelOrder (tt_client r) ?ctx identity (trade_requestOptions r) w = (reply, w')" by (metis prod.collapse)
  have "w2 = (w', tr @ [CancelCall ?ctx identity (trade_requestOptions r) reply]) \<and> (err = None \<longleftrightarrow> (\<exists>ans. reply = Inr ans))"
    using call v by (auto simp: cancel_order_def observed_calls logged_apply split: sum.splits)
  with res show ?thesis by blast
qed

lemma verify_check:
  assumes "executeCheck now ctx timeout name (verify_canceled (observed_runner r) identity) (w, tr) = (res, confirmed, w2)"
  shows "\<exists>reply w'. w2 = (w', tr @ [OrderCall identity (trade_requestOptions r) reply]) \<and>
     (ck_Status res = CheckPassed \<longleftrightarrow> confirmed) \<and>
     (confirmed \<longleftrightarrow> (\<exists>ans. reply = Inr ans \<and> canceled_evidence r ans = None))"
proof -
  let ?ctx = "WithTimeoutCtx ctx timeout"
  obtain ev err where call: "verify_canceled (observed_runner r) identity ?ctx (w, tr) = ((ev, err, confirmed), w2)"
    and res: "ck_Status res = CheckPassed \<longleftrightarrow> err = None"
    using executeCheck_result [OF assms] by auto
  obtain reply w' where v: "sc_Order (tt_client r) ?ctx identity (trade_requestOptions r) w = (reply, w')" by (metis prod.collapse)
  have "w2 = (w', tr @ [OrderCall identity (trade_requestOptions r) reply]) \<and> (err = None \<longleftrightarrow> confirmed) \<and>
     (confirmed \<longleftrightarrow> (\<exists>ans. reply = Inr ans \<and> canceled_evidence r ans = None))"
    using call v
    by (cases reply) (auto simp: verify_canceled_def observed_calls logged_apply split: option.splits, metis option.distinct(1))
  with res show ?thesis by blast
qed

section \<open>The protocol of a run\<close>

text \<open>The calls of a run, as far as it gets, with whether it passed and whether it cleaned up.\<close>

inductive trade_protocol ::
  "'w SpotTradeRunner \<Rightarrow> go_context \<Rightarrow> trade_event list \<Rightarrow> bool \<Rightarrow> bool \<Rightarrow> bool" for r ctx where
  unverified: "\<not> egress_confirmed (tt_routeID r) chk \<Longrightarrow>
    trade_protocol r ctx [VerifyCall (tt_routeID r) (tt_publicIPEndpoint r) chk] False False"
| unsafe: "egress_confirmed (tt_routeID r) chk \<Longrightarrow> \<not> book_safe r book \<Longrightarrow>
    trade_protocol r ctx [VerifyCall (tt_routeID r) (tt_publicIPEndpoint r) chk,
      BookCall \<lparr>obr_Market = tt_market r, obr_Limit = 5\<rparr> (trade_requestOptions r) book] False False"
| refused: "egress_confirmed (tt_routeID r) chk \<Longrightarrow> book_safe r book \<Longrightarrow> \<not> may_exist placed \<Longrightarrow>
    trade_protocol r ctx [VerifyCall (tt_routeID r) (tt_publicIPEndpoint r) chk,
      BookCall \<lparr>obr_Market = tt_market r, obr_Limit = 5\<rparr> (trade_requestOptions r) book,
      PlaceCall (placeRequest r) (trade_requestOptions r) placed] False False"
| cleaned: "egress_confirmed (tt_routeID r) chk \<Longrightarrow> book_safe r book \<Longrightarrow> may_exist placed \<Longrightarrow>
    names_order r (answers_of placed) identity1 \<Longrightarrow>
    names_order r (answers_of placed \<union> answers_of queried) identity2 \<Longrightarrow>
    (passed \<Longrightarrow> (\<exists>ans. canceled = Inr ans) \<and> (\<exists>ans. final = Inr ans \<and> canceled_evidence r ans = None)) \<Longrightarrow>
    trade_protocol r ctx [VerifyCall (tt_routeID r) (tt_publicIPEndpoint r) chk,
      BookCall \<lparr>obr_Market = tt_market r, obr_Limit = 5\<rparr> (trade_requestOptions r) book,
      PlaceCall (placeRequest r) (trade_requestOptions r) placed,
      OrderCall identity1 (trade_requestOptions r) queried,
      CancelCall (WithTimeoutCtx (WithoutCancelCtx ctx) (tt_checkTimeout r)) identity2 (trade_requestOptions r) canceled,
      OrderCall identity2 (trade_requestOptions r) final] passed True"

inductive_cases trade_protocolE: "trade_protocol r ctx tr passed cleaned"

lemma trade_finish_passed:
  "trade_finish t report = (report', err) \<Longrightarrow>
     tp_Passed report' = (list_all (\<lambda>c. ck_Status c = CheckPassed) (tp_Checks report) \<and> tp_CancellationConfirmed report) \<and>
     tp_CleanupAttempted report' = tp_CleanupAttempted report \<and> (err = None \<longleftrightarrow> tp_Passed report')"
  by (auto simp: trade_finish_def Let_def filter_empty_conv list_all_iff split: if_splits)

lemma trade_cleanup_protocol:
  assumes run: "trade_cleanup now (observed_runner r) ctx identity report (w, tr) = ((report', err), w2)"
    and named: "names_order r (answers_of placed) identity"
    and pre: "tr = [VerifyCall (tt_routeID r) (tt_publicIPEndpoint r) chk,
      BookCall \<lparr>obr_Market = tt_market r, obr_Limit = 5\<rparr> (trade_requestOptions r) book,
      PlaceCall (placeRequest r) (trade_requestOptions r) placed]"
      "egress_confirmed (tt_routeID r) chk" "book_safe r book" "may_exist placed"
  shows "trade_protocol r ctx (snd w2) (tp_Passed report') (tp_CleanupAttempted report') \<and> (err = None \<longleftrightarrow> tp_Passed report')"
proof -
  let ?t = "tt_checkTimeout r"
  obtain query identity2 v where query: "executeCheck now ctx ?t ''query_order'' (query_order (observed_runner r) identity) (w, tr) = (query, identity2, v)"
    by (metis prod.collapse)
  from query_check [OF this named] obtain queried w1 where v: "v = (w1, tr @ [OrderCall identity (trade_requestOptions r) queried])"
    and named2: "names_order r (answers_of placed \<union> answers_of queried) identity2" by auto
  let ?tr1 = "tr @ [OrderCall identity (trade_requestOptions r) queried]"
  obtain cancel x v2 where cancel: "executeCheck now (WithoutCancelCtx ctx) ?t ''cancel_order'' (cancel_order (observed_runner r) identity2) (w1, ?tr1) = (cancel, x, v2)"
    by (metis prod.collapse)
  from cancel_check [OF this] obtain canceled w2' where
    v2: "v2 = (w2', ?tr1 @ [CancelCall (WithTimeoutCtx (WithoutCancelCtx ctx) ?t) identity2 (trade_requestOptions r) canceled])"
    and canceled: "ck_Status cancel = CheckPassed \<longleftrightarrow> (\<exists>ans. canceled = Inr ans)" by auto
  let ?tr2 = "?tr1 @ [CancelCall (WithTimeoutCtx (WithoutCancelCtx ctx) ?t) identity2 (trade_requestOptions r) canceled]"
  obtain verify confirmed v3 where verify: "executeCheck now (WithoutCancelCtx ctx) ?t ''verify_canceled'' (verify_canceled (observed_runner r) identity2) (w2', ?tr2) = (verify, confirmed, v3)"
    by (metis prod.collapse)
  from verify_check [OF this] obtain final w3 where v3: "v3 = (w3, ?tr2 @ [OrderCall identity2 (trade_requestOptions r) final])"
    and final: "confirmed \<longleftrightarrow> (\<exists>ans. final = Inr ans \<and> canceled_evidence r ans = None)" by auto
  have fin: "trade_finish (now w2) ((add_check verify (add_check cancel ((add_check query report)\<lparr>tp_CleanupAttempted := True\<rparr>)))
      \<lparr>tp_CancellationConfirmed := confirmed\<rparr>) = (report', err)" "w2 = v3"
    using run query cancel verify by (auto simp: trade_cleanup_def Let_def v v2)
  from trade_finish_passed [OF fin(1)] have passed: "tp_Passed report' \<Longrightarrow> ck_Status cancel = CheckPassed \<and> confirmed"
    and cleaned: "tp_CleanupAttempted report'" and err: "err = None \<longleftrightarrow> tp_Passed report'" by auto
  have "trade_protocol r ctx (snd v3) (tp_Passed report') True"
    unfolding v3 pre(1) using passed canceled final
    by (simp add: trade_protocol.cleaned [OF pre(2-4) named named2])
  with fin(2) cleaned err show ?thesis by simp
qed

lemma trade_place_protocol:
  assumes run: "trade_place now (observed_runner r) ctx report (w, tr) = ((report', err), w2)"
    and pre: "tr = [VerifyCall (tt_routeID r) (tt_publicIPEndpoint r) chk,
      BookCall \<lparr>obr_Market = tt_market r, obr_Limit = 5\<rparr> (trade_requestOptions r) book]"
      "egress_confirmed (tt_routeID r) chk" "book_safe r book"
    and fresh: "\<not> tp_CleanupAttempted report" "\<not> tp_CancellationConfirmed report"
  shows "trade_protocol r ctx (snd w2) (tp_Passed report') (tp_CleanupAttempted report') \<and> (err = None \<longleftrightarrow> tp_Passed report')"
proof -
  let ?t = "tt_checkTimeout r"
  let ?id = "\<lparr>or_Market = tt_market r, or_OrderID = [], or_ClientOrderID = tt_clientOrderID r\<rparr>"
  obtain place succeeded identity v where
    place: "executeCheck now ctx ?t ''place_order'' (place_order (observed_runner r) ?id) (w, tr) = (place, (succeeded, identity), v)"
    by (metis prod.collapse)
  have "names_order r {} ?id" by (simp add: names_order_def)
  from place_check [OF place this] obtain placed w1 where v: "v = (w1, tr @ [PlaceCall (placeRequest r) (trade_requestOptions r) placed])"
    and may: "(succeeded \<or> ck_Status place = CheckPassed \<or>
       (case ck_Failure place of Some f \<Rightarrow> cf_Category f = ErrorUnknownExecutionState | None \<Rightarrow> False)) \<longleftrightarrow> may_exist placed"
    and named: "names_order r (answers_of placed) identity" by auto
  show ?thesis
  proof (cases "may_exist placed")
    case True
    then have "trade_cleanup now (observed_runner r) ctx identity (add_check place report)
        (w1, tr @ [PlaceCall (placeRequest r) (trade_requestOptions r) placed]) = ((report', err), w2)"
      using run place may by (auto simp: trade_place_def Let_def v split: if_splits)
    from trade_cleanup_protocol [OF this named _ pre(2,3) True] pre(1) show ?thesis by simp
  next
    case False
    then have fin: "trade_finish (now v) (skip_checks (now v) [''query_order'', ''cancel_order'', ''verify_canceled'']
        ''order_not_created'' (add_check place report)) = (report', err)" "w2 = v"
      using run place may by (auto simp: trade_place_def Let_def)
    from trade_finish_passed [OF fin(1)] fresh have "\<not> tp_Passed report'" "\<not> tp_CleanupAttempted report'"
      "err = None \<longleftrightarrow> tp_Passed report'" by (auto simp: skip_checks_def)
    then show ?thesis using trade_protocol.refused [OF pre(2,3) False] by (simp add: fin(2) v pre(1))
  qed
qed

lemma apfst_Some_iff [simp]:
  "apfst Some p = (Some a, b) \<longleftrightarrow> p = (a, b)"
  "apfst (apfst Some) q = ((Some a, b), c) \<longleftrightarrow> q = ((a, b), c)"
  by (cases p, auto) (cases q, auto)+

lemma trade_run_protocol:
  assumes run: "SpotTradeRunner_Run now (observed_runner r) (Some ctx) (w, []) = ((Some report', err), w2)"
  shows "trade_protocol r ctx (snd w2) (tp_Passed report') (tp_CleanupAttempted report') \<and> (err = None \<longleftrightarrow> tp_Passed report')"
proof -
  let ?t = "tt_checkTimeout r"
  let ?report = "\<lparr>tp_Version = ReadReportVersion, tp_Kind = ''spot_trade'',
    tp_Exchange = sc_Exchange (tt_client r), tp_Product = ''spot'',
    tp_Market = \<lparr>me_Base = mk_Base (tt_market r), me_Quote = mk_Quote (tt_market r)\<rparr>,
    tp_EgressRouteID = tt_routeID r, tp_Side = tt_side r, tp_StartedAt = now (w, []), tp_CompletedAt = 0,
    tp_Passed = False, tp_CleanupAttempted = False, tp_CancellationConfirmed = False, tp_Checks = []\<rparr>"
  obtain egress x v where egress: "executeCheck now ctx ?t ''egress_ip''
      (verifyEgress (tt_egressVerifier (observed_runner r)) (tt_routeID r) (tt_publicIPEndpoint r)) (w, []) = (egress, x, v)"
    by (metis prod.collapse)
  from egress_check [OF this] obtain chk w1 where v: "v = (w1, [VerifyCall (tt_routeID r) (tt_publicIPEndpoint r) chk])"
    and conf: "ck_Status egress = CheckPassed \<longleftrightarrow> egress_confirmed (tt_routeID r) chk" by auto
  show ?thesis
  proof (cases "egress_confirmed (tt_routeID r) chk")
    case False
    then have fin: "trade_finish (now v) (skip_checks (now v) [''order_book_safety'', ''place_order'', ''query_order'', ''cancel_order'',
        ''verify_canceled''] ''egress_verification_failed'' (add_check egress ?report)) = (report', err)" "w2 = v"
      using run egress conf by (auto simp: SpotTradeRunner_Run_def Let_def)
    from trade_finish_passed [OF fin(1)] have "\<not> tp_Passed report'" "\<not> tp_CleanupAttempted report'"
      "err = None \<longleftrightarrow> tp_Passed report'" by (auto simp: skip_checks_def)
    then show ?thesis using trade_protocol.unverified [OF False] by (simp add: fin(2) v)
  next
    case True
    obtain safety y u where safety: "executeCheck now ctx ?t ''order_book_safety'' (checkOrderBookSafety (observed_runner r)) v = (safety, y, u)"
      by (metis prod.collapse)
    from safety_check [OF this [unfolded v]] obtain book w3 where u: "u = (w3, [VerifyCall (tt_routeID r) (tt_publicIPEndpoint r) chk,
        BookCall \<lparr>obr_Market = tt_market r, obr_Limit = 5\<rparr> (trade_requestOptions r) book])"
      and safe: "ck_Status safety = CheckPassed \<longleftrightarrow> book_safe r book" by auto
    show ?thesis
    proof (cases "book_safe r book")
      case False
      then have fin: "trade_finish (now u) (skip_checks (now u) [''place_order'', ''query_order'', ''cancel_order'',
          ''verify_canceled''] ''order_book_safety_failed'' (add_check safety (add_check egress ?report))) = (report', err)" "w2 = u"
        using run egress conf True safety safe by (auto simp: SpotTradeRunner_Run_def Let_def)
      from trade_finish_passed [OF fin(1)] have "\<not> tp_Passed report'" "\<not> tp_CleanupAttempted report'"
        "err = None \<longleftrightarrow> tp_Passed report'" by (auto simp: skip_checks_def)
      then show ?thesis using trade_protocol.unsafe [OF True False] by (simp add: fin(2) u)
    next
      case safe_book: True
      then have "trade_place now (observed_runner r) ctx (add_check safety (add_check egress ?report)) (w3, snd u) = ((report', err), w2)"
        using run egress conf True safety safe by (auto simp: SpotTradeRunner_Run_def Let_def u)
      from trade_place_protocol [OF this _ True safe_book] show ?thesis by (simp add: u)
    qed
  qed
qed

section \<open>Properties of the trade check\<close>

lemma decimal_Inr: "decimal v z = Inr x \<longleftrightarrow> positiveDecimalPattern v \<and> x = decimal_value v \<and> (z \<or> 0 < x)"
  using decimal_value_nonneg [of v] by (auto simp: decimal_def Rat_SetString_def)

lemma best_price_spec:
  "best_price highest levels best = Some (Some b) \<Longrightarrow>
     (\<forall>l \<in> set levels. if highest then decimal_value (bl_Price l) \<le> b else b \<le> decimal_value (bl_Price l)) \<and>
     (\<forall>a. best = Some a \<longrightarrow> (if highest then a \<le> b else b \<le> a)) \<and>
     (b \<in> (\<lambda>l. decimal_value (bl_Price l)) ` set levels \<or> best = Some b)"
proof (induction highest levels best rule: best_price.induct)
  case (2 highest level rest best)
  obtain price where price: "decimal (bl_Price level) False = Inr price" "validateDecimal (bl_Quantity level) False = None"
    using 2(2) by (auto split: sum.splits if_splits)
  then have pv: "price = decimal_value (bl_Price level)" by (simp add: decimal_Inr)
  let ?best = "case best of None \<Rightarrow> Some price | Some a \<Rightarrow> if (if highest then a < price else price < a) then Some price else Some a"
  have "best_price highest rest ?best = Some (Some b)" using 2(2) price by simp
  from 2(1) [OF price(1) _ this] price(2) show ?case by (auto simp: pv split: option.splits if_splits)
qed simp

lemma bestPrices_spec:
  assumes "bestPrices book = Inr (bid, ask)"
  shows "bo_Bids book \<noteq> [] \<and> bo_Asks book \<noteq> [] \<and>
     (\<forall>l \<in> set (bo_Bids book). decimal_value (bl_Price l) \<le> bid) \<and> (\<forall>l \<in> set (bo_Asks book). ask \<le> decimal_value (bl_Price l))"
  using assms best_price_spec [of True "bo_Bids book" None bid] best_price_spec [of False "bo_Asks book" None ask]
  by (auto simp: bestPrices_def split: if_splits option.splits)

lemma NewSpotTradeRunner_spec:
  assumes "NewSpotTradeRunner config = Inr r"
  shows "tt_routeID r = TrimSpace (tcfg_EgressRouteID config) \<and> tt_routeID r \<noteq> [] \<and> 0 < tt_checkTimeout r \<and>
     tt_market r = tcfg_Market config \<and> tt_side r = tcfg_Side config \<and> (tt_side r = SideBuy \<or> tt_side r = SideSell) \<and>
     tt_price r = tcfg_Price config \<and> tt_quantity r = tcfg_Quantity config \<and> tt_clientOrderID r = tcfg_ClientOrderID config \<and>
     tcfg_Client config = Some (tt_client r) \<and> trade_limits config = None"
  using assms by (auto simp: NewSpotTradeRunner_def Let_def split: option.splits if_splits)

lemma trade_limits_spec:
  "trade_limits config = None \<Longrightarrow> positiveDecimalPattern (tcfg_Price config) \<and> 0 < decimal_value (tcfg_Price config) \<and>
     decimal_value (tcfg_Price config) * decimal_value (tcfg_Quantity config) \<le> decimal_value (tcfg_MaxNotional config) \<and>
     tcfg_Confirmation config = RealOrderConfirmation"
  by (auto simp: trade_limits_def decimal_Inr split: sum.splits if_splits)

lemma trade_options_resolve:
  assumes "NewSpotTradeRunner config = Inr r"
  shows "ResolveRequestOptions d (trade_requestOptions r) =
     Inr \<lparr>ro_EgressRouteID = TrimSpace (tcfg_EgressRouteID config), ro_Timeout = tt_checkTimeout r\<rparr>"
proof -
  have "apply_options 0 (map (\<lambda>s. Some (option_of s)) [RouteOpt (tt_routeID r), TimeoutOpt (tt_checkTimeout r)])
      \<lparr>ro_EgressRouteID = TrimSpace d, ro_Timeout = 0\<rparr> =
      Inr (resolved_by \<lparr>ro_EgressRouteID = TrimSpace d, ro_Timeout = 0\<rparr> [RouteOpt (tt_routeID r), TimeoutOpt (tt_checkTimeout r)])"
    using NewSpotTradeRunner_spec [OF assms] by (intro apply_options_specs) auto
  then show ?thesis using NewSpotTradeRunner_spec [OF assms]
    by (auto simp: ResolveRequestOptions_def trade_requestOptions_def)
qed

lemma book_safe_spec:
  assumes "book_safe r (book, err)" "decimal (tt_price r) False = Inr p"
  shows "err = None \<and> bo_Exchange book = sc_Exchange (tt_client r) \<and> bo_Market book = tt_market r \<and>
    (\<exists>bid ask. bestPrices book = Inr (bid, ask) \<and> bid < ask \<and> (tt_side r = SideBuy \<longrightarrow> p < ask) \<and> (tt_side r = SideSell \<longrightarrow> bid < p))"
  using assms by (auto simp: book_safe_def book_safety_def Let_def split: if_splits sum.splits prod.splits)

definition is_place :: "trade_event \<Rightarrow> bool" where
  "is_place e = (case e of PlaceCall _ _ _ \<Rightarrow> True | _ \<Rightarrow> False)"


text \<open>C28. The live trade check risks no more than the operator confirmed. Whatever the client, the verifier and
  the clock do: if a run of a constructed runner places an order, it places exactly one, a post-only
  limit order of the configured side, price and quantity whose notional is within the configured
  maximum, and the confirmation was spelled out; the public address of the route was observed to be
  the expected one before; and the order book read before it on that market was not crossed and every
  level on the opposite side was strictly beyond the order's price. Its options resolve to the
  configured route whatever the default of the client is.\<close>

theorem trade_smoke_places_safely:
  assumes made: "NewSpotTradeRunner config = Inr r"
    and run: "SpotTradeRunner_Run now (observed_runner r) (Some ctx) (w, []) = ((Some report, err), (w', tr))"
    and placed: "PlaceCall rq opts reply \<in> set tr"
  shows "length (filter is_place tr) = 1 \<and>
    rq = \<lparr>po_Market = tcfg_Market config, po_Side = tcfg_Side config, po_Type = OrderTypeLimit,
          po_TimeInForce = TimeInForcePostOnly, po_Quantity = tcfg_Quantity config, po_QuoteAmount = [],
          po_Price = tcfg_Price config, po_ClientOrderID = tcfg_ClientOrderID config\<rparr> \<and>
    decimal_value (tcfg_Price config) * decimal_value (tcfg_Quantity config) \<le> decimal_value (tcfg_MaxNotional config) \<and>
    tcfg_Confirmation config = RealOrderConfirmation \<and>
    ResolveRequestOptions d opts = Inr \<lparr>ro_EgressRouteID = TrimSpace (tcfg_EgressRouteID config), ro_Timeout = tt_checkTimeout r\<rparr> \<and>
    (\<exists>chk book endpoint bopts brq. take 2 tr = [VerifyCall (TrimSpace (tcfg_EgressRouteID config)) endpoint (chk, None), BookCall brq bopts (book, None)] \<and>
       pc_RouteID chk = TrimSpace (tcfg_EgressRouteID config) \<and>
       IP_Equal (pc_ObservedPublicIP chk) (pc_ExpectedPublicIP chk) \<and> pc_ExpectedPublicIP chk \<noteq> None \<and>
       obr_Market brq = tcfg_Market config \<and> bo_Market book = tcfg_Market config \<and>
       (\<exists>bid ask. bestPrices book = Inr (bid, ask) \<and> bid < ask \<and>
          (tcfg_Side config = SideBuy \<longrightarrow> (\<forall>l \<in> set (bo_Asks book). decimal_value (tcfg_Price config) < decimal_value (bl_Price l))) \<and>
          (tcfg_Side config = SideSell \<longrightarrow> (\<forall>l \<in> set (bo_Bids book). decimal_value (bl_Price l) < decimal_value (tcfg_Price config)))))"
proof -
  note spec = NewSpotTradeRunner_spec [OF made]
  have limits0: "trade_limits config = None" using spec by simp
  note limits = trade_limits_spec [OF limits0]
  have price: "decimal (tt_price r) False = Inr (decimal_value (tcfg_Price config))" using spec limits by (simp add: decimal_Inr)
  have "trade_protocol r ctx tr (tp_Passed report) (tp_CleanupAttempted report)" using trade_run_protocol [OF run] by simp
  then obtain chk book post where shape: "tr = [VerifyCall (tt_routeID r) (tt_publicIPEndpoint r) chk,
      BookCall \<lparr>obr_Market = tt_market r, obr_Limit = 5\<rparr> (trade_requestOptions r) book,
      PlaceCall (placeRequest r) (trade_requestOptions r) reply] @ post" "filter is_place post = []"
    and ok: "egress_confirmed (tt_routeID r) chk" "book_safe r book" and rq: "rq = placeRequest r" "opts = trade_requestOptions r"
    using placed by (cases rule: trade_protocol.cases) (auto simp: is_place_def)
  obtain b e where book: "book = (b, e)" by (cases book)
  from book_safe_spec [OF ok(2) [unfolded book] price] obtain bid ask where best: "e = None" "bo_Market b = tt_market r"
    "bestPrices b = Inr (bid, ask)" "bid < ask" "tt_side r = SideBuy \<longrightarrow> decimal_value (tcfg_Price config) < ask"
    "tt_side r = SideSell \<longrightarrow> bid < decimal_value (tcfg_Price config)" by auto
  note levels = bestPrices_spec [OF best(3)]
  have side: "tt_side r = tcfg_Side config" using spec by simp
  have buy: "decimal_value (tcfg_Price config) < decimal_value (bl_Price l)"
    if "tcfg_Side config = SideBuy" "l \<in> set (bo_Asks b)" for l
    using that levels best(5) side by fastforce
  have sell: "decimal_value (bl_Price l) < decimal_value (tcfg_Price config)"
    if "tcfg_Side config = SideSell" "l \<in> set (bo_Bids b)" for l
    using that levels best(6) side by fastforce
  obtain c ce where chk: "chk = (c, ce)" by (cases chk)
  have egress: "ce = None" "pc_RouteID c = tt_routeID r" "IP_Equal (pc_ObservedPublicIP c) (pc_ExpectedPublicIP c)"
    "pc_ExpectedPublicIP c \<noteq> None"
    using ok(1) by (simp_all add: egress_confirmed_def chk)
  have two: "take 2 tr = [VerifyCall (tt_routeID r) (tt_publicIPEndpoint r) (c, None),
      BookCall \<lparr>obr_Market = tt_market r, obr_Limit = 5\<rparr> (trade_requestOptions r) (b, None)]"
    by (simp add: shape(1) chk book egress(1) best(1))
  have one: "length (filter is_place tr) = 1" using shape by (simp add: is_place_def)
  show ?thesis
    unfolding rq(2) trade_options_resolve [OF made, of d]
    using one two egress best(2,3,4) limits spec buy sell by (simp add: rq(1) placeRequest_def)
qed



section \<open>A concrete run\<close>

definition trade_demo_order :: "string \<Rightarrow> Order" where
  "trade_demo_order status = \<lparr>od_Exchange = ''binance'', od_ID = ''7'', od_ClientOrderID = ''c1'',
     od_Market = \<lparr>mk_Base = ''BTC'', mk_Quote = ''USDT''\<rparr>, od_NativeMarket = ''BTCUSDT'', od_Side = SideBuy,
     od_Type = OrderTypeLimit, od_Status = status, od_Price = ''9'', od_Quantity = ''1'', od_QuoteAmount = [],
     od_ExecutedQuantity = ''0''\<rparr>"

definition trade_demo_book :: OrderBook where
  "trade_demo_book = \<lparr>bo_Exchange = ''binance'', bo_Market = \<lparr>mk_Base = ''BTC'', mk_Quote = ''USDT''\<rparr>,
     bo_NativeMarket = ''BTCUSDT'', bo_Bids = [\<lparr>bl_Price = ''9'', bl_Quantity = ''1''\<rparr>],
     bo_Asks = [\<lparr>bl_Price = ''12'', bl_Quantity = ''1''\<rparr>], bo_Timestamp = 0\<rparr>"

definition trade_demo_check :: PublicIPCheck where
  "trade_demo_check = \<lparr>pc_RouteID = ''r1'', pc_LocalSourceIP = Some [10, 0, 0, 1], pc_LocalPrivateIP = None,
     pc_ExpectedPublicIP = Some [1, 2, 3, 4], pc_ObservedPublicIP = Some [1, 2, 3, 4], pc_MatchesExpected = True,
     pc_CheckedAt = 0\<rparr>"

text \<open>An exchange that cancels: the world says whether the order was cancelled.\<close>

definition trade_demo_client :: "bool SpotClient" where
  "trade_demo_client =
     \<lparr>sc_Exchange = ''binance'', sc_Markets = (\<lambda>c opts w. (([], None), w)),
      sc_Ticker = (\<lambda>c rq opts w. ((\<lparr>tk_Exchange = [], tk_Market = tr_Market rq, tk_NativeMarket = [], tk_Price = []\<rparr>, None), w)),
      sc_OrderBook = (\<lambda>c rq opts w. ((trade_demo_book, None), w)),
      sc_RecentTrades = (\<lambda>c rq opts w. (([], None), w)), sc_Candles = (\<lambda>c rq opts w. (([], None), w)),
      sc_Balances = (\<lambda>c opts w. (([], None), w)),
      sc_PlaceOrder = (\<lambda>c rq opts w. (Inr (trade_demo_order OrderStatusNew), False)),
      sc_Order = (\<lambda>c rq opts w. (Inr (trade_demo_order (if w then OrderStatusCanceled else OrderStatusNew)), w)),
      sc_CancelOrder = (\<lambda>c rq opts w. (Inr (trade_demo_order OrderStatusCanceled), True)),
      sc_OpenOrders = (\<lambda>c rq opts w. (Inr [], w))\<rparr>"

definition trade_demo_verifier :: "bool EgressVerifier" where
  "trade_demo_verifier c route endpoint w = ((trade_demo_check, None), w)"

definition trade_demo_config :: "bool SpotTradeConfig" where
  "trade_demo_config =
     \<lparr>tcfg_Client = Some trade_demo_client, tcfg_EgressVerifier = Some trade_demo_verifier,
      tcfg_Market = \<lparr>mk_Base = ''BTC'', mk_Quote = ''USDT''\<rparr>, tcfg_EgressRouteID = ''r1'', tcfg_PublicIPEndpoint = [],
      tcfg_CheckTimeout = 0, tcfg_Side = SideBuy, tcfg_Price = ''9'', tcfg_Quantity = ''1'', tcfg_MaxNotional = ''10'',
      tcfg_ClientOrderID = ''c1'', tcfg_Confirmation = RealOrderConfirmation\<rparr>"

definition trade_demo_runner :: "bool SpotTradeRunner" where
  "trade_demo_runner =
     \<lparr>tt_client = trade_demo_client, tt_egressVerifier = trade_demo_verifier,
      tt_market = \<lparr>mk_Base = ''BTC'', mk_Quote = ''USDT''\<rparr>, tt_routeID = ''r1'',
      tt_publicIPEndpoint = DefaultPublicIPEndpoint, tt_checkTimeout = 10000000000, tt_side = SideBuy, tt_price = ''9'',
      tt_quantity = ''1'', tt_clientOrderID = ''c1''\<rparr>"

definition trade_demo_out :: "(TradeReport option \<times> go_error option) \<times> bool \<times> trade_event list" where
  "trade_demo_out = SpotTradeRunner_Run (\<lambda>_. 0) (observed_runner trade_demo_runner) (Some Background) (False, [])"

lemma trade_demo_made: "NewSpotTradeRunner trade_demo_config = Inr trade_demo_runner"
proof -
  have "ExchangeID_Valid ''binance''" "Market_Validate \<lparr>mk_Base = ''BTC'', mk_Quote = ''USDT''\<rparr> = None" "TrimSpace ''r1'' = ''r1''"
    "trade_limits trade_demo_config = None" by code_simp+
  then show ?thesis
    by (simp add: NewSpotTradeRunner_def trade_demo_config_def trade_demo_runner_def trade_demo_client_def)
qed

lemma trade_demo_values:
  "snd (fst trade_demo_out) = None" "fst (fst trade_demo_out) \<noteq> None"
  "list_ex (\<lambda>e. case e of PlaceCall rq opts (Inr ans) \<Rightarrow> True | _ \<Rightarrow> False) (snd (snd trade_demo_out))"
  by code_simp+

lemma trade_demo_run:
  obtains report w' tr rq opts ans where
    "SpotTradeRunner_Run (\<lambda>_. 0) (observed_runner trade_demo_runner) (Some Background) (False, []) = ((Some report, None), (w', tr))"
    "PlaceCall rq opts (Inr ans) \<in> set tr" "tr = snd (snd trade_demo_out)"
proof -
  obtain e where e: "e \<in> set (snd (snd trade_demo_out))" "case e of PlaceCall rq opts (Inr ans) \<Rightarrow> True | _ \<Rightarrow> False"
    using trade_demo_values(3) by (auto simp: list_ex_iff)
  from e(2) obtain rq opts ans where "e = PlaceCall rq opts (Inr ans)"
    by (cases e) (auto split: sum.splits)
  moreover obtain report w' where "trade_demo_out = ((Some report, None), (w', snd (snd trade_demo_out)))"
    using trade_demo_values(1,2) by (metis not_None_eq prod.collapse)
  ultimately show thesis using that e(1) unfolding trade_demo_out_def by blast
qed

theorem trade_smoke_places_safely_witness:
  "length (filter is_place (snd (snd trade_demo_out))) = 1 \<and>
   decimal_value ''9'' * decimal_value ''1'' \<le> decimal_value ''10''"
proof -
  obtain report w' tr rq opts ans where run:
    "SpotTradeRunner_Run (\<lambda>_. 0) (observed_runner trade_demo_runner) (Some Background) (False, []) = ((Some report, None), (w', tr))"
    "PlaceCall rq opts (Inr ans) \<in> set tr" "tr = snd (snd trade_demo_out)" by (rule trade_demo_run)
  from trade_smoke_places_safely [OF trade_demo_made run(1,2)] show ?thesis
    unfolding run(3) [symmetric] by (simp add: trade_demo_config_def)
qed



end
