(* ===== verification/Spec2Isabelle.thy ===== *)
theory Spec2Isabelle
  imports
    Sdk_Prelude
    Go_Decimal
    Trade_Core
    Rate_Limiter
    Credential_Policy
    Egress_Transport
    Exchange_Executor
    Stream_Session
    Unified_Orders
    Unified_Candles
    Depth_Levels
    Sequenced_Book
    Binance_Book
    Bitget_Book
    Go_Url
    Executor_Rules
    Request_Values
    Signed_Calls
    Bybit_Requests
    Okx_Requests
    Go_Encoding
    Page_Loops
    Okx_Native
    Okx_Client
    Okx_Unified
    Okx_Endpoints
    Bybit_Native
    Bybit_Client
    Bybit_Stream
    Bybit_Book
    Kraken_Book
    Kraken_Futures_Book
    Coinbase_Book
    Okx_Book
    Book_Runs
    Bybit_Stream_Client
    Bybit_Unified
    Bybit_Endpoints
    Smoke_Checks
    Smoke_Trade
begin

text \<open>
  \<^bold>\<open>Verification of a multi-exchange trading SDK.\<close>

  The SDK is a Go library that places orders and follows markets on centralised exchanges. A caller
  registers egress routes (local source addresses), credentials that are allowed on some of them, and
  rate-limit rules; every REST request goes through an executor that charges the limiter, builds the
  request and hands it to the HTTP client bound to the route; every stream is a session that
  reconnects on its route; on top of them each exchange adapter offers a unified API and local
  order books that are synchronised from snapshots and updates.

  \<^bold>\<open>Theories and sources\<close> (paths under \<open>src/\<close>).

  \<^item> \<open>Sdk_Prelude\<close>: 64-bit arithmetic with wrap-around, package \<open>strings\<close>, Go maps as
    association lists behind the locale \<open>go_map\<close>, generic list lemmas.
  \<^item> \<open>Go_Decimal\<close>: decimal texts and \<open>math/big.Rat\<close> as far as the SDK uses them.
  \<^item> \<open>Trade_Core\<close>: \<open>errors.go\<close>, \<open>options.go\<close>, \<open>model/exchange.go\<close>. Error values are
    trees, \<open>errors.Is\<close> and \<open>errors.As\<close> the searches of the standard library.
  \<^item> \<open>Rate_Limiter\<close>: \<open>ratelimit/limiter.go\<close>. The backend is the record \<open>memoryBackend\<close> (rules and
    buckets); \<open>tryAcquire\<close>, \<open>Wait\<close>, \<open>ObserveUsed\<close>, \<open>BlockFor\<close>, \<open>Snapshot\<close> and \<open>SetRule\<close> are state
    passing functions. The lemmas show the rolling-window limit in every interleaving, atomicity of
    multi-rule charges, and that the announced waiting time suffices.
  \<^item> \<open>Credential_Policy\<close>: \<open>credential/credential.go\<close>, with secrets as slices of an explicit byte
    store, so that destruction covers aliasing.
  \<^item> \<open>Egress_Transport\<close>: \<open>transport/route.go\<close>, \<open>localaddr.go\<close>, \<open>registry.go\<close>,
    \<open>diagnostic.go\<close>. The HTTP client is a parameter; the lemmas show which client a request
    reaches and that routes never share a source address.
  \<^item> \<open>Exchange_Executor\<close>: \<open>exchange/executor.go\<close>. The world is a type parameter that the limiter,
    the builder, the sender, the observer and the clock transform; traces of calls are obtained by
    instrumenting that world, so the safety theorem speaks about the unchanged code.
  \<^item> \<open>Stream_Session\<close>: \<open>stream/session.go\<close>, \<open>types.go\<close>, \<open>connector.go\<close>. The goroutine of
    \<open>Run\<close> and the concurrent \<open>Close\<close>, \<open>Reconnect\<close> and context cancellation are one step relation;
    invariants are proved by rule induction over all interleavings.
  \<^item> \<open>Unified_Orders\<close>, \<open>Unified_Candles\<close>: \<open>unified/types.go\<close>, \<open>constraints.go\<close>,
    \<open>candles.go\<close>. Validation is characterised by exact rational arithmetic; candle aggregation
    by what every aggregated candle is.
  \<^item> \<open>Depth_Levels\<close>: the levels of one side of a local order book, refined to a map from rational
    prices. \<open>Sequenced_Book\<close>: the contract of every local order book as the locale
    \<open>sequenced_book\<close>, the abstract pruning to the best levels, and \<open>run_events\<close> and \<open>batch_run\<close> for streams
    whose messages carry several events.
  \<^item> \<open>Binance_Book\<close>: \<open>exchange/binance/local_order_book.go\<close>. The local variables of the select
    loop are the record \<open>depth_run\<close>, a step handles one selected case, \<open>book_run\<close> is any sequence
    of enabled cases. It interprets \<open>sequenced_book\<close>.
  \<^item> \<open>Bitget_Book\<close>, \<open>Bybit_Book\<close>: \<open>exchange/bitget/local_order_book.go\<close>,
    \<open>exchange/bybit/local_order_book.go\<close>. The message handler of \<open>Run\<close> is a function on the record of the
    variables it closes over; a run is the fold \<open>stream_run\<close> over any list of messages with the
    generation the stream reports. Both interpret \<open>sequenced_book\<close> (a book that follows numbered
    updates) and \<open>snapshot_stream\<close> (a handler that replaces it at snapshots), whose lemma says that
    every shown view is a snapshot with an unbroken chain of updates behind it.
  \<^item> \<open>Kraken_Book\<close>: \<open>exchange/kraken/local_order_book.go\<close> with the subscription checks of
    \<open>websocket.go\<close>. Events carry no sequence number but a CRC-32, which is defined bit by bit; the theory
    interprets the same two locales with the checksum in the place of the sequence number, and shows that
    no view is shown without a matching checksum and that one wrong character is always noticed.
  \<^item> \<open>Kraken_Futures_Book\<close>, \<open>Coinbase_Book\<close>, \<open>Okx_Book\<close>: \<open>local_order_book.go\<close> of
    \<open>exchange/kraken/futures\<close>, \<open>exchange/coinbase\<close> and \<open>exchange/okx\<close>, with the parts of \<open>websocket.go\<close> and
    \<open>websocket_types.go\<close> they use. Kraken Futures moves one level per update; a Coinbase message mixes snapshots
    and updates and its handler ends at the first error; an OKX message carries a list of events, and its
    book channels differ in depth and in whether updates exist. All three interpret \<open>sequenced_book\<close> and
    \<open>snapshot_stream\<close>. \<open>Book_Runs\<close>: what \<open>Run\<close> of each modelled book checks before it takes over a stream.
  \<^item> \<open>Executor_Rules\<close>: the locale \<open>attempt_protocol\<close> for clients of the executor. What every attempt
    keeps of the world, whether it succeeds or fails, is kept by a whole execution with its retries.
  \<^item> Shared by the REST adapters. \<open>Go_Url\<close>: \<open>net/url\<close> values, escaping and query strings, with the
    decoder of the other side; \<open>Go_Encoding\<close>: hexadecimal, base64 and the RFC 3339 time stamps.
    \<open>Request_Values\<close>: the checks of a request argument and the setters of a query. \<open>Signed_Calls\<close>: a
    provider of key material in the byte store of \<open>Credential_Policy\<close>, the executor of
    \<open>Exchange_Executor\<close> as a client calls it, and two locales: \<open>signed_builder\<close> (a builder that erases the
    keys it resolved and produces requests of one form) and \<open>signed_call\<close> (the same builder behind the
    executor), whose lemmas say what every sent request carries and which bytes are erased.
    \<open>Page_Loops\<close>: the loop that collects pages as a partial function, so a run that never ends is \<open>None\<close>;
    it is shown to end when the page cursors are finitely many.
  \<^item> The Bybit adapter (\<open>exchange/bybit\<close>). \<open>Bybit_Requests\<close>: \<open>requests.go\<close>, one record, validator and
    query per request. \<open>Bybit_Native\<close>, \<open>Bybit_Client\<close>: \<open>types.go\<close>, \<open>client.go\<close> and \<open>endpoints.go\<close>, with
    JSON bodies as rendered texts; \<open>Bybit_Client\<close> interprets \<open>signed_builder\<close> and \<open>signed_call\<close>, and shows
    how replies are classified. HMAC-SHA256 and the JSON decoder are parameters.
    \<open>Bybit_Stream\<close>: topics and the managed stream of \<open>websocket.go\<close>; a life of a stream
    is a list of connects, disconnects, subscriptions and unsubscriptions. \<open>Bybit_Stream_Client\<close>: the
    stream client, the authentication of private connections, heartbeats and the reconnection policy.
    \<open>Bybit_Unified\<close>, \<open>Bybit_Endpoints\<close>: \<open>unified.go\<close>, first over a record of the native operations and then
    over the modelled client down to the HTTP sender.
  \<^item> The OKX adapter (\<open>exchange/okx\<close>). \<open>Okx_Requests\<close>: \<open>requests.go\<close>. \<open>Okx_Native\<close>, \<open>Okx_Client\<close>:
    \<open>types.go\<close>, \<open>client.go\<close> and \<open>endpoints.go\<close>, signing over the time stamp, the verb, the path with its
    query and the body, with both levels of result codes. \<open>Okx_Unified\<close>, \<open>Okx_Endpoints\<close>: \<open>unified.go\<close>, with the
    translation of instrument names in both directions, and its composition down to the HTTP sender.
  \<^item> \<open>Smoke_Checks\<close>, \<open>Smoke_Trade\<close>: \<open>smoke/read.go\<close>, \<open>smoke/trade.go\<close>. A client is a record of
    functions on an arbitrary world; \<open>observed_runner\<close> records its calls next to that world, and
    \<open>trade_protocol\<close> is the set of call sequences a run can make. The properties say when an
    order is placed, that one that may exist is cancelled, and what success means.

  \<^bold>\<open>Bounds and fuel.\<close> No definition runs out of fuel silently: the retry loop of the executor
  counts down the attempts the policy allows, the backoff loops count the doublings the loop
  counter allows, and the limiter's wait loop takes the number of rounds as an argument together with
  a theorem that a lone caller is granted within two of them. Integers of the code are
  \<open>int\<close> values with \<open>wrap64\<close> at every operation that can overflow; generations and
  counters of order books are 64-bit words.

  \<^bold>\<open>Not modelled.\<close> WebSocket framing, TLS and the JSON decoder (standard library and third-party
  code that the model takes as parameters), the REST endpoints and unified mappings of the adapters other than
  Bybit and OKX, the WebSocket client of OKX beside what its order book needs, the local order books of the exchanges not named above, the generated support catalogue, the
  commands, the conformance test helper. Contexts, timers and HTTP clients appear as parameters or as the
  events they cause.
\<close>

end
